(* ===== verification/Acs_Prelude.thy ===== *)
theory Acs_Prelude
  imports Main "HOL-Library.AList" "HOL-Library.List_Lexorder" "HOL-Library.Char_ord"
    "HOL-Library.Multiset" "HOL-Library.Sublist"
begin

section \<open>Shared vocabulary: Go strings, numbers, maps and sorting\<close>

text \<open>
  What the components share. A Go string is a byte sequence, modelled by \<^typ>\<open>string\<close>
  (a list of 8-bit characters); case mapping and white space are the ASCII part of the
  Go library functions, which is what TR-069 parameter names and values use. A Go map is an
  association list with distinct keys: the order of the list is the order in which a
  \<^verbatim>\<open>range\<close> loop would visit the map, which Go leaves unspecified, so a statement that
  holds for every list holds for every iteration order. \<^verbatim>\<open>strconv\<close> functions return the
  value and the error, as in Go, because the code often ignores the error and keeps the value.
\<close>

named_theorems go_string \<open>facts on the string library of the model\<close>
named_theorems go_map \<open>facts on Go maps as association lists\<close>

subsection \<open>Package strings\<close>

definition has_prefix :: "string \<Rightarrow> string \<Rightarrow> bool" where
  "has_prefix s p \<longleftrightarrow> take (length p) s = p"

definition has_suffix :: "string \<Rightarrow> string \<Rightarrow> bool" where
  "has_suffix s p \<longleftrightarrow> length p \<le> length s \<and> drop (length s - length p) s = p"

fun contains :: "string \<Rightarrow> string \<Rightarrow> bool" where
  "contains [] sub \<longleftrightarrow> sub = []"
| "contains (c # cs) sub \<longleftrightarrow> has_prefix (c # cs) sub \<or> contains cs sub"

text \<open>\<^verbatim>\<open>strings.Index\<close> with -1 as \<^term>\<open>None\<close>.\<close>

fun index_of :: "string \<Rightarrow> string \<Rightarrow> nat option" where
  "index_of [] sub = (if sub = [] then Some 0 else None)"
| "index_of (c # cs) sub =
     (if has_prefix (c # cs) sub then Some 0 else map_option Suc (index_of cs sub))"

text \<open>\<^verbatim>\<open>strings.LastIndex\<close> for a one-byte separator.\<close>

fun last_index :: "string \<Rightarrow> char \<Rightarrow> nat option" where
  "last_index [] d = None"
| "last_index (c # cs) d =
     (case last_index cs d of
        Some i \<Rightarrow> Some (Suc i)
      | None \<Rightarrow> if c = d then Some 0 else None)"

text \<open>\<^verbatim>\<open>strings.Cut\<close> for a one-byte separator: \<^term>\<open>None\<close> when it does not occur.\<close>

fun cut_at :: "string \<Rightarrow> char \<Rightarrow> (string \<times> string) option" where
  "cut_at [] d = None"
| "cut_at (c # cs) d =
     (if c = d then Some ([], cs)
      else case cut_at cs d of
        None \<Rightarrow> None
      | Some (a, b) \<Rightarrow> Some (c # a, b))"

text \<open>\<^verbatim>\<open>strings.Split\<close> for a one-byte separator; the empty string splits into one empty part.\<close>

fun split_on :: "char \<Rightarrow> string \<Rightarrow> string list" where
  "split_on d [] = [[]]"
| "split_on d (c # cs) =
     (if c = d then [] # split_on d cs
      else case split_on d cs of
        [] \<Rightarrow> [[c]]
      | p # ps \<Rightarrow> (c # p) # ps)"

text \<open>\<^verbatim>\<open>strings.SplitN(s, sep, n)\<close> for positive \<^term>\<open>n\<close>: at most \<^term>\<open>n\<close> parts, the last one unsplit.\<close>

fun split_n :: "char \<Rightarrow> nat \<Rightarrow> string \<Rightarrow> string list" where
  "split_n d 0 s = []"
| "split_n d (Suc 0) s = [s]"
| "split_n d (Suc (Suc n)) s =
     (case cut_at s d of
        None \<Rightarrow> [s]
      | Some (a, b) \<Rightarrow> a # split_n d (Suc n) b)"

fun join_with :: "string \<Rightarrow> string list \<Rightarrow> string" where
  "join_with sep [] = []"
| "join_with sep [x] = x"
| "join_with sep (x # y # xs) = x @ sep @ join_with sep (y # xs)"

definition is_space :: "char \<Rightarrow> bool" where
  "is_space c \<longleftrightarrow> c \<in> {CHR 0x09, CHR 0x0A, CHR 0x0B, CHR 0x0C, CHR 0x0D, CHR '' ''}"

definition trim_space :: "string \<Rightarrow> string" where
  "trim_space s = rev (dropWhile is_space (rev (dropWhile is_space s)))"

definition trim_prefix :: "string \<Rightarrow> string \<Rightarrow> string" where
  "trim_prefix s p = (if has_prefix s p then drop (length p) s else s)"

definition trim_suffix :: "string \<Rightarrow> string \<Rightarrow> string" where
  "trim_suffix s p = (if has_suffix s p then take (length s - length p) s else s)"

definition lower_char :: "char \<Rightarrow> char" where
  "lower_char c =
     (let n = (of_char c :: nat) in if 65 \<le> n \<and> n \<le> 90 then char_of (n + 32) else c)"

definition to_lower :: "string \<Rightarrow> string" where
  "to_lower = map lower_char"

definition equal_fold :: "string \<Rightarrow> string \<Rightarrow> bool" where
  "equal_fold a b \<longleftrightarrow> to_lower a = to_lower b"

text \<open>
  \<^verbatim>\<open>strings.ReplaceAll(s, old, new)\<close> for a non-empty \<^term>\<open>old\<close>: leftmost
  non-overlapping occurrences. For the empty \<^term>\<open>old\<close>, which no caller passes, the
  text is left alone.
\<close>

function replace_all :: "string \<Rightarrow> string \<Rightarrow> string \<Rightarrow> string" where
  "replace_all s old new =
     (if old = [] then s
      else case s of
        [] \<Rightarrow> []
      | c # cs \<Rightarrow>
          if has_prefix s old then new @ replace_all (drop (length old) s) old new
          else c # replace_all cs old new)"
  by pat_completeness auto
termination
  by (relation "measure (\<lambda>(s, old, new). length s)") auto

declare replace_all.simps [simp del]

subsection \<open>Package strconv\<close>

datatype num_error = ErrSyntax | ErrRange

definition digit_char :: "nat \<Rightarrow> char" where
  "digit_char d = char_of (48 + d)"

definition is_digit :: "char \<Rightarrow> bool" where
  "is_digit c \<longleftrightarrow> 48 \<le> (of_char c :: nat) \<and> (of_char c :: nat) \<le> 57"

definition digit_val :: "char \<Rightarrow> nat" where
  "digit_val c = of_char c - 48"

fun show_nat :: "nat \<Rightarrow> string" where
  "show_nat n =
     (if n < 10 then [digit_char n] else show_nat (n div 10) @ [digit_char (n mod 10)])"

declare show_nat.simps [simp del]

definition itoa :: "int \<Rightarrow> string" where
  "itoa i = (if i < 0 then CHR ''-'' # show_nat (nat (- i)) else show_nat (nat i))"

definition max_uint64 :: int where "max_uint64 = 18446744073709551615"
definition max_int64 :: int where "max_int64 = 9223372036854775807"
definition min_int64 :: int where "min_int64 = -9223372036854775808"

text \<open>The value an \<^verbatim>\<open>int\<close> (64 bits) holds after an operation whose exact result is given.\<close>

definition wrap64 :: "int \<Rightarrow> int" where
  "wrap64 i = (i + 9223372036854775808) mod 18446744073709551616 - 9223372036854775808"

lemma wrap64_id: "min_int64 \<le> i \<Longrightarrow> i \<le> max_int64 \<Longrightarrow> wrap64 i = i"
  by (simp add: wrap64_def min_int64_def max_int64_def)

text \<open>
  \<^verbatim>\<open>strconv.ParseUint(s, 10, 64)\<close>: the digits are read from the left, and an overflow
  is reported before a later bad character is seen.
\<close>

fun parse_digits :: "int \<Rightarrow> string \<Rightarrow> int \<times> num_error option" where
  "parse_digits n [] = (n, None)"
| "parse_digits n (c # cs) =
     (if \<not> is_digit c then (0, Some ErrSyntax)
      else let n' = 10 * n + int (digit_val c) in
        if n' > max_uint64 then (max_uint64, Some ErrRange) else parse_digits n' cs)"

definition parse_uint64 :: "string \<Rightarrow> int \<times> num_error option" where
  "parse_uint64 s = (if s = [] then (0, Some ErrSyntax) else parse_digits 0 s)"

definition parse_int64 :: "string \<Rightarrow> int \<times> num_error option" where
  "parse_int64 s =
     (let (neg, ds) =
        (case s of
           [] \<Rightarrow> (False, [])
         | c # cs \<Rightarrow> if c = CHR ''-'' then (True, cs)
                      else if c = CHR ''+'' then (False, cs) else (False, s));
          (un, err) = parse_uint64 ds
      in if err = Some ErrSyntax then (0, Some ErrSyntax)
         else if \<not> neg \<and> un > max_int64 then (max_int64, Some ErrRange)
         else if neg \<and> - un < min_int64 then (min_int64, Some ErrRange)
         else (if neg then - un else un, None))"

text \<open>\<^verbatim>\<open>strconv.Atoi\<close> is \<^verbatim>\<open>ParseInt\<close> at the width of \<^verbatim>\<open>int\<close>, 64 bits.\<close>

definition atoi :: "string \<Rightarrow> int \<times> num_error option" where
  "atoi = parse_int64"

text \<open>The value kept by \<^verbatim>\<open>v, _ := strconv.Atoi(s)\<close>, and the value of a checked call.\<close>

definition atoi_val :: "string \<Rightarrow> int" where
  "atoi_val s = fst (atoi s)"

definition atoi_opt :: "string \<Rightarrow> int option" where
  "atoi_opt s = (case atoi s of (v, None) \<Rightarrow> Some v | _ \<Rightarrow> None)"

definition format_bool :: "bool \<Rightarrow> string" where
  "format_bool b = (if b then ''true'' else ''false'')"

subsection \<open>Go maps\<close>

type_synonym ('k, 'v) gomap = "('k \<times> 'v) list"
type_synonym params = "(string, string) gomap"

definition wf_map :: "('k, 'v) gomap \<Rightarrow> bool" where
  "wf_map m \<longleftrightarrow> distinct (map fst m)"

text \<open>\<^verbatim>\<open>m[k]\<close> of a string map yields the empty string for a missing key.\<close>

definition mget :: "('k, string) gomap \<Rightarrow> 'k \<Rightarrow> string" where
  "mget m k = (case map_of m k of None \<Rightarrow> [] | Some v \<Rightarrow> v)"

definition mhas :: "('k, 'v) gomap \<Rightarrow> 'k \<Rightarrow> bool" where
  "mhas m k \<longleftrightarrow> map_of m k \<noteq> None"

abbreviation mput :: "'k \<Rightarrow> 'v \<Rightarrow> ('k, 'v) gomap \<Rightarrow> ('k, 'v) gomap" where
  "mput \<equiv> AList.update"

abbreviation mdel :: "'k \<Rightarrow> ('k, 'v) gomap \<Rightarrow> ('k, 'v) gomap" where
  "mdel \<equiv> AList.delete"

text \<open>\<^verbatim>\<open>for k, v := range src { dst[k] = v }\<close>\<close>

definition mput_all :: "('k, 'v) gomap \<Rightarrow> ('k, 'v) gomap \<Rightarrow> ('k, 'v) gomap" where
  "mput_all src dst = fold (\<lambda>(k, v). mput k v) src dst"

text \<open>A map literal: its keys are distinct unless two key expressions evaluate alike.\<close>

definition mlit :: "('k \<times> 'v) list \<Rightarrow> ('k, 'v) gomap" where
  "mlit kvs = mput_all kvs []"

text \<open>Conditional writes \<^verbatim>\<open>if c { m[k] = v }\<close>.\<close>

definition mput_if :: "bool \<Rightarrow> 'k \<Rightarrow> 'v \<Rightarrow> ('k, 'v) gomap \<Rightarrow> ('k, 'v) gomap" where
  "mput_if c k v m = (if c then mput k v m else m)"

subsection \<open>Package sort\<close>

text \<open>
  \<^verbatim>\<open>sort.SliceStable\<close> with a comparison function is stable insertion; \<^verbatim>\<open>sort.Slice\<close>
  agrees with it whenever the comparison is a strict total order on the elements, which
  the locale below turns into a statement.
\<close>

fun insert_by :: "('a \<Rightarrow> 'a \<Rightarrow> bool) \<Rightarrow> 'a \<Rightarrow> 'a list \<Rightarrow> 'a list" where
  "insert_by lt x [] = [x]"
| "insert_by lt x (y # ys) = (if lt y x then y # insert_by lt x ys else x # y # ys)"

definition sort_by :: "('a \<Rightarrow> 'a \<Rightarrow> bool) \<Rightarrow> 'a list \<Rightarrow> 'a list" where
  "sort_by lt xs = foldr (insert_by lt) xs []"

subsection \<open>Facts: strings\<close>

lemma has_prefix_iff [go_string]: "has_prefix s p \<longleftrightarrow> prefix p s"
  by (metis append_eq_conv_conj has_prefix_def prefix_def take_is_prefix)

lemma has_suffix_iff [go_string]: "has_suffix s p \<longleftrightarrow> suffix p s"
proof
  assume "has_suffix s p"
  then have "s = take (length s - length p) s @ p"
    by (metis append_take_drop_id has_suffix_def)
  then show "suffix p s" unfolding suffix_def by blast
next
  assume "suffix p s"
  then show "has_suffix s p" by (auto simp: suffix_def has_suffix_def)
qed

lemma has_prefix_append [simp]: "has_prefix (p @ s) p"
  by (simp add: has_prefix_def)

lemma has_prefix_self [simp]: "has_prefix p p"
  by (simp add: has_prefix_def)

lemma has_prefix_Nil [simp]: "has_prefix s []"
  by (simp add: has_prefix_def)

lemma has_prefix_trans: "has_prefix s p \<Longrightarrow> has_prefix p q \<Longrightarrow> has_prefix s q"
  by (auto simp: has_prefix_iff)

lemma has_prefix_app_mono: "has_prefix p q \<Longrightarrow> has_prefix (p @ s) q"
  by (simp add: has_prefix_iff)

lemma has_suffix_append [simp]: "has_suffix (s @ p) p"
  by (simp add: has_suffix_def)

lemma contains_iff [go_string]: "contains s sub \<longleftrightarrow> sublist sub s"
proof (induction s sub rule: contains.induct)
  case (1 sub)
  then show ?case by simp
next
  case (2 c cs sub)
  then show ?case by (simp add: has_prefix_iff sublist_Cons_right)
qed

lemma contains_append [simp]: "contains (a @ sub @ b) sub"
  by (simp add: contains_iff)

lemma cut_at_None_iff [simp]: "cut_at s d = None \<longleftrightarrow> d \<notin> set s"
  by (induction s d rule: cut_at.induct) (auto split: option.splits)

lemma cut_at_Some_iff: "cut_at s d = Some (a, b) \<longleftrightarrow> s = a @ d # b \<and> d \<notin> set a"
proof (induction s d arbitrary: a rule: cut_at.induct)
  case (1 d)
  then show ?case by simp
next
  case (2 c cs d)
  show ?case
  proof (cases "c = d")
    case True
    then show ?thesis by (cases a) auto
  next
    case False
    show ?thesis
    proof (cases a)
      case Nil
      with False show ?thesis by (auto split: option.splits)
    next
      case (Cons x xs)
      with False 2 [OF False, of xs] show ?thesis
        by (auto simp del: cut_at_None_iff split: option.splits)
    qed
  qed
qed

lemma cut_at_append [simp]: "d \<notin> set a \<Longrightarrow> cut_at (a @ d # b) d = Some (a, b)"
  by (simp add: cut_at_Some_iff)

lemma split_on_not_Nil [simp]: "split_on d s \<noteq> []"
  by (cases s) (auto split: list.splits)

lemma join_split_on [simp]: "join_with [d] (split_on d s) = s"
proof (induction s)
  case Nil
  then show ?case by simp
next
  case (Cons c cs)
  obtain p ps where ps: "split_on d cs = p # ps"
    by (cases "split_on d cs") auto
  with Cons show ?case by (cases ps) auto
qed

lemma split_on_no_sep: "p \<in> set (split_on d s) \<Longrightarrow> d \<notin> set p"
proof (induction s arbitrary: p)
  case Nil
  then show ?case by simp
next
  case (Cons c cs)
  obtain q qs where qs: "split_on d cs = q # qs"
    by (cases "split_on d cs") auto
  with Cons show ?case by (auto split: if_splits)
qed

lemma split_on_no_occ: "d \<notin> set s \<Longrightarrow> split_on d s = [s]"
  by (induction s) auto

lemma split_on_append: "d \<notin> set a \<Longrightarrow> split_on d (a @ d # b) = a # split_on d b"
  by (induction a) auto

lemma last_split_on_append: "d \<notin> set b \<Longrightarrow> last (split_on d (a @ d # b)) = b"
proof (induction a)
  case Nil
  then show ?case by (simp add: split_on_no_occ)
next
  case (Cons c cs)
  obtain q qs where qs: "split_on d (cs @ d # b) = q # qs"
    by (cases "split_on d (cs @ d # b)") auto
  moreover have "qs \<noteq> []"
  proof
    assume "qs = []"
    with qs have "cs @ d # b = q" using join_split_on [of d "cs @ d # b"] by simp
    moreover have "d \<notin> set q" using split_on_no_sep [of q d "cs @ d # b"] qs by simp
    ultimately show False by auto
  qed
  ultimately show ?case using Cons by auto
qed

lemma replace_all_Nil [simp]: "replace_all [] old new = []"
  by (simp add: replace_all.simps)

lemma replace_all_absent: "\<not> contains s old \<Longrightarrow> replace_all s old new = s"
  by (induction s old new rule: replace_all.induct)
    (subst replace_all.simps, auto split: list.splits)

lemma lower_char_idem [simp]: "lower_char (lower_char c) = lower_char c"
  by (simp add: lower_char_def Let_def)

lemma to_lower_idem [simp]: "to_lower (to_lower s) = to_lower s"
  by (simp add: to_lower_def)

lemma to_lower_append [simp]: "to_lower (a @ b) = to_lower a @ to_lower b"
  by (simp add: to_lower_def)

lemma equal_fold_refl [simp]: "equal_fold s s"
  by (simp add: equal_fold_def)

lemma trim_space_Nil [simp]: "trim_space [] = []"
  by (simp add: trim_space_def)

lemma dropWhile_hd_id: "(xs \<noteq> [] \<Longrightarrow> \<not> P (hd xs)) \<Longrightarrow> dropWhile P xs = xs"
  by (cases xs) auto

lemma trim_space_idem [simp]: "trim_space (trim_space s) = trim_space s"
proof -
  let ?D = "dropWhile is_space"
  let ?r = "?D (rev (?D s))"
  have hd_r: "?r \<noteq> [] \<Longrightarrow> \<not> is_space (hd ?r)" by (rule hd_dropWhile)
  have "rev ?r \<noteq> [] \<Longrightarrow> \<not> is_space (hd (rev ?r))"
  proof -
    assume ne: "rev ?r \<noteq> []"
    then have ne': "?D s \<noteq> []" by (metis dropWhile.simps(1) rev.simps(1))
    have "suffix ?r (rev (?D s))" by (rule suffix_dropWhile)
    then obtain zs where "rev (?D s) = zs @ ?r" by (auto simp: suffix_def)
    then have "?D s = rev ?r @ rev zs" by (metis rev_append rev_rev_ident)
    with ne have "hd (?D s) = hd (rev ?r)" by (metis hd_append2)
    with hd_dropWhile [OF ne'] show ?thesis by simp
  qed
  then have "?D (rev ?r) = rev ?r" by (rule dropWhile_hd_id)
  moreover have "?D ?r = ?r" using hd_r by (rule dropWhile_hd_id)
  ultimately show ?thesis by (simp add: trim_space_def)
qed

subsection \<open>Facts: numbers\<close>

lemma of_char_digit_char [simp]: "d < 10 \<Longrightarrow> (of_char (digit_char d) :: nat) = 48 + d"
  by (simp add: digit_char_def)

lemma is_digit_digit_char [simp]: "d < 10 \<Longrightarrow> is_digit (digit_char d)"
  by (simp add: is_digit_def)

lemma digit_val_digit_char [simp]: "d < 10 \<Longrightarrow> digit_val (digit_char d) = d"
  by (simp add: digit_val_def)

lemma show_nat_not_Nil [simp]: "show_nat n \<noteq> []"
  by (subst show_nat.simps) simp

lemma show_nat_digits: "list_all is_digit (show_nat n)"
proof (induction n rule: show_nat.induct)
  case (1 n)
  then show ?case by (subst show_nat.simps) simp
qed

lemma parse_digits_append:
  "parse_digits m xs = (k, None) \<Longrightarrow> parse_digits m (xs @ ys) = parse_digits k ys"
  by (induction m xs rule: parse_digits.induct) (auto simp: Let_def split: if_splits)

lemma parse_digits_show_nat:
  "int n \<le> max_uint64 \<Longrightarrow> parse_digits 0 (show_nat n) = (int n, None)"
proof (induction n rule: show_nat.induct)
  case (1 n)
  show ?case
  proof (cases "n < 10")
    case True
    with "1.prems" show ?thesis by (subst show_nat.simps) (simp add: Let_def)
  next
    case False
    have "int (n div 10) \<le> max_uint64" using "1.prems" by (simp add: max_uint64_def)
    with False "1.IH" have "parse_digits 0 (show_nat (n div 10)) = (int (n div 10), None)" by simp
    moreover have "show_nat n = show_nat (n div 10) @ [digit_char (n mod 10)]"
      using False by (subst show_nat.simps) simp
    moreover have "10 * int (n div 10) + int (n mod 10) = int n"
      by (metis div_mult_mod_eq mult.commute of_nat_add of_nat_mult of_nat_numeral)
    ultimately show ?thesis using "1.prems"
      by (simp add: parse_digits_append Let_def not_less)
  qed
qed

lemma parse_uint64_show_nat [simp]:
  "int n \<le> max_uint64 \<Longrightarrow> parse_uint64 (show_nat n) = (int n, None)"
  by (simp add: parse_uint64_def parse_digits_show_nat)

lemma show_nat_hd_digit: "is_digit (hd (show_nat n))"
  using show_nat_digits [of n] by (cases "show_nat n") auto

lemma atoi_itoa:
  assumes "min_int64 \<le> i" and "i \<le> max_int64"
  shows "atoi (itoa i) = (i, None)"
proof (cases "i < 0")
  case True
  with assms have "int (nat (- i)) \<le> max_uint64"
    by (simp add: min_int64_def max_uint64_def)
  with True assms show ?thesis
    by (simp add: atoi_def itoa_def parse_int64_def min_int64_def)
next
  case False
  with assms have le: "int (nat i) \<le> max_uint64"
    by (simp add: max_int64_def max_uint64_def)
  obtain c cs where c: "show_nat (nat i) = c # cs" by (cases "show_nat (nat i)") auto
  have "is_digit c" using show_nat_hd_digit [of "nat i"] c by simp
  then have "c \<noteq> CHR ''-''" "c \<noteq> CHR ''+''" by (auto simp: is_digit_def)
  with False assms le c [symmetric] show ?thesis
    by (auto simp: atoi_def itoa_def parse_int64_def c split: list.splits) (simp_all add: c [symmetric])
qed

lemma atoi_val_itoa [simp]: "min_int64 \<le> i \<Longrightarrow> i \<le> max_int64 \<Longrightarrow> atoi_val (itoa i) = i"
  by (simp add: atoi_val_def atoi_itoa)

lemma atoi_opt_itoa [simp]: "min_int64 \<le> i \<Longrightarrow> i \<le> max_int64 \<Longrightarrow> atoi_opt (itoa i) = Some i"
  by (simp add: atoi_opt_def atoi_itoa)

lemma parse_digits_nonneg: "0 \<le> n \<Longrightarrow> 0 \<le> fst (parse_digits n s)"
  by (induction n s rule: parse_digits.induct) (auto simp: Let_def max_uint64_def)

lemma parse_uint64_nonneg: "0 \<le> fst (parse_uint64 s)"
  by (simp add: parse_uint64_def parse_digits_nonneg)

lemma atoi_range: "min_int64 \<le> atoi_val s \<and> atoi_val s \<le> max_int64"
  using parse_uint64_nonneg [of s] parse_uint64_nonneg [of "tl s"]
  by (auto simp: atoi_val_def atoi_def parse_int64_def min_int64_def max_int64_def Let_def
      split: prod.splits list.splits)

text \<open>Evaluation: decimal printing on binary integers.\<close>

function show_digits :: "int \<Rightarrow> string" where
  "show_digits i =
     (if i < 10 then [digit_char (nat i)] else show_digits (i div 10) @ [digit_char (nat (i mod 10))])"
  by pat_completeness auto
termination by (relation "measure nat") auto

declare show_digits.simps [simp del]

lemma show_digits_nat: "0 \<le> i \<Longrightarrow> show_digits i = show_nat (nat i)"
proof (induction i rule: show_digits.induct)
  case (1 i)
  show ?case
  proof (cases "i < 10")
    case True
    with "1.prems" show ?thesis by (subst show_digits.simps, subst show_nat.simps) simp
  next
    case False
    with 1 have "show_digits (i div 10) = show_nat (nat (i div 10))" by simp
    with False "1.prems" show ?thesis
      by (subst show_digits.simps, subst show_nat.simps) (simp add: nat_div_distrib nat_mod_distrib)
  qed
qed

lemma itoa_code [code]: "itoa i = (if i < 0 then CHR ''-'' # show_digits (- i) else show_digits i)"
  by (simp add: itoa_def show_digits_nat)

lemma itoa_inject:
  assumes "min_int64 \<le> i" "i \<le> max_int64" "min_int64 \<le> j" "j \<le> max_int64"
  shows "itoa i = itoa j \<longleftrightarrow> i = j"
  by (metis assms atoi_val_itoa)

subsection \<open>Facts: maps\<close>

lemma map_of_mput [simp, go_map]: "map_of (mput k v m) = (map_of m)(k \<mapsto> v)"
  by (rule update_conv')

lemma map_of_mput_if [simp, go_map]:
  "map_of (mput_if b k v ps) = (if b then (map_of ps)(k \<mapsto> v) else map_of ps)"
  by (auto simp: mput_if_def)

lemma map_of_mdel [simp, go_map]: "map_of (mdel k m) = (map_of m)(k := None)"
  by (rule delete_conv')

lemma wf_map_Nil [simp, intro]: "wf_map []"
  by (simp add: wf_map_def)

lemma wf_map_mput [simp, intro]: "wf_map m \<Longrightarrow> wf_map (mput k v m)"
  by (simp add: wf_map_def distinct_update)

lemma wf_map_mdel [simp, intro]: "wf_map m \<Longrightarrow> wf_map (mdel k m)"
  by (simp add: wf_map_def distinct_delete)

lemma wf_map_mput_if [simp, intro]: "wf_map m \<Longrightarrow> wf_map (mput_if c k v m)"
  by (simp add: mput_if_def)

lemma wf_map_filter [simp, intro]: "wf_map m \<Longrightarrow> wf_map (filter P m)"
  by (auto simp: wf_map_def distinct_map_filter)

lemma wf_map_fold_mput: "wf_map m \<Longrightarrow> wf_map (fold (\<lambda>(k, v). mput k v) src m)"
  by (induction src arbitrary: m) auto

lemma wf_map_mput_all [simp, intro]: "wf_map m \<Longrightarrow> wf_map (mput_all src m)"
  by (simp add: mput_all_def wf_map_fold_mput)

lemma wf_map_mlit [simp, intro]: "wf_map (mlit kvs)"
  by (simp add: mlit_def)

lemma mput_all_Nil [simp]: "mput_all [] m = m"
  by (simp add: mput_all_def)

lemma mput_all_Cons [simp]: "mput_all ((k, v) # src) m = mput_all src (mput k v m)"
  by (simp add: mput_all_def)

lemma mput_all_append [simp]: "mput_all (a @ b) m = mput_all b (mput_all a m)"
  by (simp add: mput_all_def)

lemma wf_map_permI: "mset xs = mset ys \<Longrightarrow> wf_map xs \<Longrightarrow> wf_map ys"
  unfolding wf_map_def by (metis mset_eq_imp_distinct_iff mset_map)

lemma map_of_perm:
  assumes "mset xs = mset ys" and "wf_map xs"
  shows "map_of xs = map_of ys"
proof -
  have "wf_map ys" using assms by (rule wf_map_permI)
  with assms show ?thesis
    unfolding wf_map_def by (metis map_of_inject_set mset_eq_setD)
qed

lemma map_of_mput_all_rev: "map_of (mput_all src m) = map_of m ++ map_of (rev src)"
  by (induction src arbitrary: m) (auto simp: map_add_def split: option.splits)

lemma map_of_mput_all [simp, go_map]:
  assumes "wf_map src"
  shows "map_of (mput_all src m) = map_of m ++ map_of src"
proof -
  have "wf_map (rev src)" using assms by (simp add: wf_map_def rev_map [symmetric])
  then have "map_of (rev src) = map_of src" by (intro map_of_perm) simp_all
  then show ?thesis by (simp add: map_of_mput_all_rev)
qed

lemma map_of_mlit [go_map]: "map_of (mlit kvs) = map_of (rev kvs)"
  by (simp add: mlit_def map_of_mput_all_rev)

lemma mget_mput [simp, go_map]: "mget (mput k v m) j = (if j = k then v else mget m j)"
  by (simp add: mget_def)

lemma mhas_mput [simp, go_map]: "mhas (mput k v m) j \<longleftrightarrow> j = k \<or> mhas m j"
  by (auto simp: mhas_def)

lemma mhas_Nil [simp]: "\<not> mhas [] k"
  by (simp add: mhas_def)

lemma mget_Nil [simp]: "mget [] k = []"
  by (simp add: mget_def)

lemma mhas_iff_fst: "mhas m k \<longleftrightarrow> k \<in> fst ` set m"
  by (simp add: mhas_def map_of_eq_None_iff)

lemma map_of_SomeI: "wf_map m \<Longrightarrow> (k, v) \<in> set m \<Longrightarrow> map_of m k = Some v"
  by (simp add: wf_map_def)

lemma in_set_mput_wf: "wf_map m \<Longrightarrow> (j, w) \<in> set (mput k v m) \<longleftrightarrow> (if j = k then w = v else (j, w) \<in> set m)"
  by (metis map_of_SomeD map_of_SomeI map_of_mput fun_upd_apply option.inject wf_map_mput)

subsection \<open>Facts: sorting\<close>

text \<open>
  The contract of a comparison function handed to \<^verbatim>\<open>sort.Slice\<close>: a strict total order
  on the set of elements sorted. Under it the result is the one sorted arrangement, so it does
  not depend on the order in which the elements came (a map's iteration order).
\<close>

locale sort_order =
  fixes lt :: "'a \<Rightarrow> 'a \<Rightarrow> bool" and elem :: "'a \<Rightarrow> bool"
  assumes asym: "\<lbrakk>elem x; elem y; lt x y\<rbrakk> \<Longrightarrow> \<not> lt y x"
    and trans: "\<lbrakk>elem x; elem y; elem z; lt x y; lt y z\<rbrakk> \<Longrightarrow> lt x z"
    and total: "\<lbrakk>elem x; elem y; x \<noteq> y\<rbrakk> \<Longrightarrow> lt x y \<or> lt y x"
begin

lemma irrefl: "elem x \<Longrightarrow> \<not> lt x x"
  using asym by blast

lemma insert_sorted:
  assumes "sorted_wrt (\<lambda>a b. \<not> lt b a) ys" and "\<forall>y \<in> set ys. elem y" and "elem x"
  shows "sorted_wrt (\<lambda>a b. \<not> lt b a) (insert_by lt x ys)"
  using assms
proof (induction ys)
  case Nil
  then show ?case by simp
next
  case (Cons y ys)
  have set_ins: "set (insert_by lt x ys) = insert x (set ys)"
    by (induction ys) auto
  show ?case
  proof (cases "lt y x")
    case True
    with Cons set_ins asym show ?thesis by auto
  next
    case False
    have "\<not> lt z x" if "z \<in> set ys" for z
      using that Cons.prems False trans asym total irrefl
      by (metis list.set_intros(1) list.set_intros(2) sorted_wrt.simps(2))
    with False Cons.prems show ?thesis by auto
  qed
qed

lemma sort_sorted:
  "\<forall>y \<in> set ys. elem y \<Longrightarrow> sorted_wrt (\<lambda>a b. \<not> lt b a) (sort_by lt ys)"
proof (induction ys)
  case Nil
  then show ?case by (simp add: sort_by_def)
next
  case (Cons y ys)
  have "set (foldr (insert_by lt) ys []) = set ys"
  proof -
    have "set (insert_by lt x zs) = insert x (set zs)" for x zs
      by (induction zs) auto
    then show ?thesis by (induction ys) auto
  qed
  with Cons show ?case by (simp add: sort_by_def insert_sorted)
qed

lemma sorted_unique:
  assumes "mset xs = mset ys" and "\<forall>y \<in> set ys. elem y"
    and "sorted_wrt (\<lambda>a b. \<not> lt b a) xs" and "sorted_wrt (\<lambda>a b. \<not> lt b a) ys"
  shows "xs = ys"
  using assms
proof (induction xs arbitrary: ys)
  case Nil
  then show ?case by simp
next
  case (Cons x xs)
  then obtain y ys' where ys: "ys = y # ys'" by (cases ys) auto
  have x_in: "x \<in> set ys" and y_in: "y \<in> set (x # xs)"
    using Cons.prems(1) ys by (metis list.set_intros(1) mset_eq_setD)+
  have "x = y"
  proof (rule ccontr)
    assume ne: "x \<noteq> y"
    with x_in ys Cons.prems(4) have "\<not> lt x y" by auto
    moreover from ne y_in Cons.prems(3) have "\<not> lt y x" by auto
    ultimately show False using total [of x y] ne x_in ys Cons.prems(2) by auto
  qed
  with Cons ys show ?case by auto
qed

end

lemma mset_insert_by [simp]: "mset (insert_by lt x ys) = add_mset x (mset ys)"
  by (induction ys) auto

lemma mset_sort_by [simp]: "mset (sort_by lt ys) = mset ys"
  by (induction ys) (simp_all add: sort_by_def)

lemma set_sort_by [simp]: "set (sort_by lt ys) = set ys"
  by (metis mset_eq_setD mset_sort_by)

lemma length_sort_by [simp]: "length (sort_by lt ys) = length ys"
  by (metis mset_sort_by size_mset)


context sort_order
begin

text \<open>The result of the sort does not depend on the order of its input.\<close>

lemma sort_order_independent:
  assumes "mset xs = mset ys" and "\<forall>y \<in> set ys. elem y"
  shows "sort_by lt xs = sort_by lt ys"
proof (rule sorted_unique)
  show "mset (sort_by lt xs) = mset (sort_by lt ys)" using assms by simp
  show "\<forall>y \<in> set (sort_by lt ys). elem y" using assms by simp
  have "set xs = set ys" using assms(1) by (rule mset_eq_setD)
  with assms(2) show "sorted_wrt (\<lambda>a b. \<not> lt b a) (sort_by lt xs)" by (simp add: sort_sorted)
  show "sorted_wrt (\<lambda>a b. \<not> lt b a) (sort_by lt ys)" using assms(2) by (rule sort_sorted)
qed

lemma sort_id: "\<lbrakk>\<forall>y \<in> set ys. elem y; sorted_wrt (\<lambda>a b. \<not> lt b a) ys\<rbrakk> \<Longrightarrow> sort_by lt ys = ys"
  by (rule sorted_unique) (simp_all add: sort_sorted)

end

end
