(* ===== verification/Json.thy ===== *)
theory Json
  imports Acs_Prelude
begin

section \<open>Package encoding/json: values, and decoding into structs\<close>

text \<open>
  The text of a JSON value is kept as its tree; a text that does not parse is handled where it
  enters the program (\<^term>\<open>None\<close> for the payload of a task). An instant is written and
  read back by the time package as a text of its own, the leaf \<^verbatim>\<open>JTime\<close>. Decoding
  into a struct visits the members of the object in order, matches a key with a field
  regardless of case, leaves the field alone on \<^verbatim>\<open>null\<close>, keeps the last of several
  occurrences and ignores unknown keys; a value of the wrong type makes the whole call an error.
\<close>

datatype json =
    JNull
  | JBool bool
  | JInt int
  | JFloat int int
  | JStr string
  | JTime int
  | JArr "json list"
  | JObj "(string \<times> json) list"

subsection \<open>Decoding one value\<close>

text \<open>Each decoder gets the setter of the field and the struct so far.\<close>

definition dec_str :: "json \<Rightarrow> (string \<Rightarrow> 'a \<Rightarrow> 'a) \<Rightarrow> 'a \<Rightarrow> 'a option" where
  "dec_str v set_field x = (case v of JNull \<Rightarrow> Some x | JStr s \<Rightarrow> Some (set_field s x) | _ \<Rightarrow> None)"

definition dec_int :: "json \<Rightarrow> (int \<Rightarrow> 'a \<Rightarrow> 'a) \<Rightarrow> 'a \<Rightarrow> 'a option" where
  "dec_int v set_field x =
     (case v of
        JNull \<Rightarrow> Some x
      | JInt i \<Rightarrow> if min_int64 \<le> i \<and> i \<le> max_int64 then Some (set_field i x) else None
      | _ \<Rightarrow> None)"

definition dec_bool :: "json \<Rightarrow> (bool \<Rightarrow> 'a \<Rightarrow> 'a) \<Rightarrow> 'a \<Rightarrow> 'a option" where
  "dec_bool v set_field x = (case v of JNull \<Rightarrow> Some x | JBool b \<Rightarrow> Some (set_field b x) | _ \<Rightarrow> None)"

text \<open>A pointer field becomes nil on \<^verbatim>\<open>null\<close>.\<close>

definition dec_bool_ptr :: "json \<Rightarrow> (bool option \<Rightarrow> 'a \<Rightarrow> 'a) \<Rightarrow> 'a \<Rightarrow> 'a option" where
  "dec_bool_ptr v set_field x =
     (case v of JNull \<Rightarrow> Some (set_field None x) | JBool b \<Rightarrow> Some (set_field (Some b) x) | _ \<Rightarrow> None)"

definition dec_time :: "json \<Rightarrow> (int \<Rightarrow> 'a \<Rightarrow> 'a) \<Rightarrow> 'a \<Rightarrow> 'a option" where
  "dec_time v set_field x = (case v of JNull \<Rightarrow> Some x | JTime t \<Rightarrow> Some (set_field t x) | _ \<Rightarrow> None)"

definition dec_time_ptr :: "json \<Rightarrow> (int option \<Rightarrow> 'a \<Rightarrow> 'a) \<Rightarrow> 'a \<Rightarrow> 'a option" where
  "dec_time_ptr v set_field x =
     (case v of JNull \<Rightarrow> Some (set_field None x) | JTime t \<Rightarrow> Some (set_field (Some t) x) | _ \<Rightarrow> None)"

text \<open>The elements of a string slice: \<^verbatim>\<open>null\<close> elements are empty strings.\<close>

fun dec_str_list :: "json list \<Rightarrow> string list option" where
  "dec_str_list [] = Some []"
| "dec_str_list (v # vs) =
     (case (case v of JNull \<Rightarrow> Some [] | JStr s \<Rightarrow> Some s | _ \<Rightarrow> None) of
        None \<Rightarrow> None
      | Some s \<Rightarrow> (case dec_str_list vs of None \<Rightarrow> None | Some ss \<Rightarrow> Some (s # ss)))"

definition dec_strs :: "json \<Rightarrow> (string list \<Rightarrow> 'a \<Rightarrow> 'a) \<Rightarrow> 'a \<Rightarrow> 'a option" where
  "dec_strs v set_field x =
     (case v of
        JNull \<Rightarrow> Some (set_field [] x)
      | JArr vs \<Rightarrow> map_option (\<lambda>ss. set_field ss x) (dec_str_list vs)
      | _ \<Rightarrow> None)"

fun dec_str_members :: "(string \<times> json) list \<Rightarrow> params \<Rightarrow> params option" where
  "dec_str_members [] m = Some m"
| "dec_str_members ((k, v) # kvs) m =
     (case v of
        JNull \<Rightarrow> dec_str_members kvs (mput k [] m)
      | JStr s \<Rightarrow> dec_str_members kvs (mput k s m)
      | _ \<Rightarrow> None)"

definition dec_str_map :: "json \<Rightarrow> (params \<Rightarrow> 'a \<Rightarrow> 'a) \<Rightarrow> params \<Rightarrow> 'a \<Rightarrow> 'a option" where
  "dec_str_map v set_field old x =
     (case v of
        JNull \<Rightarrow> Some (set_field [] x)
      | JObj kvs \<Rightarrow> map_option (\<lambda>m. set_field m x) (dec_str_members kvs old)
      | _ \<Rightarrow> None)"

subsection \<open>Decoding a struct\<close>

text \<open>
  \<^verbatim>\<open>field\<close> decodes one member by its lower-case key; an unknown key returns the struct unchanged.
\<close>

fun dec_members :: "(string \<Rightarrow> json \<Rightarrow> 'a \<Rightarrow> 'a option) \<Rightarrow> (string \<times> json) list \<Rightarrow> 'a \<Rightarrow> 'a option" where
  "dec_members field [] x = Some x"
| "dec_members field ((k, v) # kvs) x =
     (case field (to_lower k) v x of None \<Rightarrow> None | Some y \<Rightarrow> dec_members field kvs y)"

definition dec_struct :: "(string \<Rightarrow> json \<Rightarrow> 'a \<Rightarrow> 'a option) \<Rightarrow> 'a \<Rightarrow> json \<Rightarrow> 'a option" where
  "dec_struct field zero v =
     (case v of JNull \<Rightarrow> Some zero | JObj kvs \<Rightarrow> dec_members field kvs zero | _ \<Rightarrow> None)"

text \<open>
  \<^verbatim>\<open>json.Unmarshal(raw, &p)\<close> on a raw message: a nil message is an error.
\<close>

definition unmarshal :: "(string \<Rightarrow> json \<Rightarrow> 'a \<Rightarrow> 'a option) \<Rightarrow> 'a \<Rightarrow> json option \<Rightarrow> 'a option" where
  "unmarshal field zero raw = (case raw of None \<Rightarrow> None | Some v \<Rightarrow> dec_struct field zero v)"

subsection \<open>Encoding\<close>

definition enc_opt :: "string \<Rightarrow> bool \<Rightarrow> json \<Rightarrow> (string \<times> json) list" where
  "enc_opt k present v = (if present then [(k, v)] else [])"

definition enc_params :: "params \<Rightarrow> json" where
  "enc_params m = JObj (map (\<lambda>(k, v). (k, JStr v)) m)"

subsection \<open>Facts\<close>

named_theorems json_dec \<open>decoders of single values\<close>

lemmas json_dec_defs [json_dec] =
  dec_str_def dec_int_def dec_bool_def dec_bool_ptr_def dec_time_def dec_time_ptr_def dec_strs_def

lemma dec_str_list_map [simp]: "dec_str_list (map JStr ss) = Some ss"
  by (induction ss) simp_all

lemma dec_members_append [simp]:
  "dec_members field (a @ b) x =
     (case dec_members field a x of None \<Rightarrow> None | Some y \<Rightarrow> dec_members field b y)"
  by (induction a arbitrary: x) (auto split: option.splits)

lemma dec_members_enc_opt [simp]:
  "dec_members field (enc_opt k c v) x = (if c then field (to_lower k) v x else Some x)"
  by (simp add: enc_opt_def split: option.splits)

lemma dec_str_members_strings:
  "dec_str_members (map (\<lambda>(k, v). (k, JStr v)) kvs) m = Some (mput_all kvs m)"
  by (induction kvs arbitrary: m) auto

lemma unmarshal_Some [simp]: "unmarshal field zero (Some v) = dec_struct field zero v"
  by (simp add: unmarshal_def)

lemma unmarshal_None [simp]: "unmarshal field zero None = None"
  by (simp add: unmarshal_def)

end
