(* ===== verification/Task_Model.thy ===== *)
theory Task_Model
  imports Json
begin

section \<open>internal/task/model.go: tasks, payloads and results\<close>

text \<open>
  The task record kept in Redis and handed to a CWMP session, its type and status, the payload
  structs with their JSON decoders, and the result structs. \<^verbatim>\<open>Type\<close> and
  \<^verbatim>\<open>Status\<close> are strings in Go: the named constants are constructors here and every
  other text is kept by a last constructor. A result is only ever marshalled, so the field
  \<^verbatim>\<open>Result\<close> holds the marshalled value.
\<close>

subsection \<open>Status and type\<close>

datatype status =
    StatusPending
  | StatusExecuting
  | StatusDone
  | StatusFailed
  | StatusCancelled
  | StatusOther string

definition status_str :: "status \<Rightarrow> string" where
  "status_str s =
     (case s of
        StatusPending \<Rightarrow> ''pending''
      | StatusExecuting \<Rightarrow> ''executing''
      | StatusDone \<Rightarrow> ''done''
      | StatusFailed \<Rightarrow> ''failed''
      | StatusCancelled \<Rightarrow> ''cancelled''
      | StatusOther t \<Rightarrow> t)"

definition status_of :: "string \<Rightarrow> status" where
  "status_of t =
     (if t = ''pending'' then StatusPending
      else if t = ''executing'' then StatusExecuting
      else if t = ''done'' then StatusDone
      else if t = ''failed'' then StatusFailed
      else if t = ''cancelled'' then StatusCancelled
      else StatusOther t)"

definition terminal :: "status \<Rightarrow> bool" where
  "terminal s \<longleftrightarrow> s = StatusDone \<or> s = StatusFailed \<or> s = StatusCancelled"

datatype task_type =
    TypeWifi
  | TypeWAN
  | TypeLAN
  | TypeReboot
  | TypeFactoryReset
  | TypeSetParams
  | TypeGetParams
  | TypeFirmware
  | TypeDiagnostic
  | TypePingTest
  | TypeTraceroute
  | TypeSpeedTest
  | TypeConnectedDevices
  | TypeCPEStats
  | TypePortForwarding
  | TypeWebAdmin
  | TypeGetDiagResult
  | TypeOther string

definition type_table :: "(string \<times> task_type) list" where
  "type_table =
     [(''wifi'', TypeWifi), (''wan'', TypeWAN), (''lan'', TypeLAN), (''reboot'', TypeReboot),
      (''factory_reset'', TypeFactoryReset), (''set_parameters'', TypeSetParams),
      (''get_parameters'', TypeGetParams), (''firmware'', TypeFirmware),
      (''diagnostic'', TypeDiagnostic), (''ping_test'', TypePingTest),
      (''traceroute'', TypeTraceroute), (''speed_test'', TypeSpeedTest),
      (''connected_devices'', TypeConnectedDevices), (''cpe_stats'', TypeCPEStats),
      (''port_forwarding'', TypePortForwarding), (''web_admin'', TypeWebAdmin),
      (''_get_diag_result'', TypeGetDiagResult)]"

definition type_str :: "task_type \<Rightarrow> string" where
  "type_str t =
     (case t of
        TypeOther s \<Rightarrow> s
      | _ \<Rightarrow> (case map_of (map (\<lambda>(a, b). (b, a)) type_table) t of Some s \<Rightarrow> s | None \<Rightarrow> []))"

definition type_of :: "string \<Rightarrow> task_type" where
  "type_of s = (case map_of type_table s of Some t \<Rightarrow> t | None \<Rightarrow> TypeOther s)"

definition IsDiagnosticAsync :: "task_type \<Rightarrow> bool" where
  "IsDiagnosticAsync t \<longleftrightarrow>
     t = TypePingTest \<or> t = TypeTraceroute \<or> t = TypeSpeedTest \<or> t = TypeDiagnostic"

subsection \<open>The task record\<close>

text \<open>Instants are nanoseconds since the epoch.\<close>

record task =
  t_ID :: string
  t_Serial :: string
  t_Type :: task_type
  t_Payload :: "json option"
  t_Status :: status
  t_CreatedAt :: int
  t_ExecutedAt :: "int option"
  t_CompletedAt :: "int option"
  t_Result :: "json option"
  t_Error :: string
  t_Attempts :: int
  t_MaxAttempts :: int

text \<open>The zero time of Go, 1 January of the year 1, in nanoseconds before the epoch.\<close>

definition zero_time :: int where "zero_time = -62135596800000000000"

definition zero_task :: task where
  "zero_task = \<lparr> t_ID = [], t_Serial = [], t_Type = TypeOther [], t_Payload = None,
     t_Status = StatusOther [], t_CreatedAt = zero_time, t_ExecutedAt = None,
     t_CompletedAt = None, t_Result = None, t_Error = [], t_Attempts = 0, t_MaxAttempts = 0 \<rparr>"

text \<open>A nil raw message is written as \<^verbatim>\<open>null\<close>.\<close>

definition encode_task :: "task \<Rightarrow> json" where
  "encode_task t = JObj
     ([(''id'', JStr (t_ID t)), (''serial'', JStr (t_Serial t)),
       (''type'', JStr (type_str (t_Type t))),
       (''payload'', (case t_Payload t of None \<Rightarrow> JNull | Some v \<Rightarrow> v)),
       (''status'', JStr (status_str (t_Status t))),
       (''created_at'', JTime (t_CreatedAt t))] @
      enc_opt ''executed_at'' (t_ExecutedAt t \<noteq> None)
        (case t_ExecutedAt t of None \<Rightarrow> JNull | Some x \<Rightarrow> JTime x) @
      enc_opt ''completed_at'' (t_CompletedAt t \<noteq> None)
        (case t_CompletedAt t of None \<Rightarrow> JNull | Some x \<Rightarrow> JTime x) @
      enc_opt ''result'' (t_Result t \<noteq> None)
        (case t_Result t of None \<Rightarrow> JNull | Some v \<Rightarrow> v) @
      enc_opt ''error'' (t_Error t \<noteq> []) (JStr (t_Error t)) @
      [(''attempts'', JInt (t_Attempts t)), (''max_attempts'', JInt (t_MaxAttempts t))])"

text \<open>
  The raw message field takes any value, \<^verbatim>\<open>null\<close> included; the interface field
  \<^verbatim>\<open>Result\<close> becomes nil on \<^verbatim>\<open>null\<close>.
\<close>

definition task_field :: "string \<Rightarrow> json \<Rightarrow> task \<Rightarrow> task option" where
  "task_field k v t =
     (if k = ''id'' then dec_str v (\<lambda>s t. t\<lparr>t_ID := s\<rparr>) t
      else if k = ''serial'' then dec_str v (\<lambda>s t. t\<lparr>t_Serial := s\<rparr>) t
      else if k = ''type'' then dec_str v (\<lambda>s t. t\<lparr>t_Type := type_of s\<rparr>) t
      else if k = ''payload'' then Some (t\<lparr>t_Payload := Some v\<rparr>)
      else if k = ''status'' then dec_str v (\<lambda>s t. t\<lparr>t_Status := status_of s\<rparr>) t
      else if k = ''created_at'' then dec_time v (\<lambda>x t. t\<lparr>t_CreatedAt := x\<rparr>) t
      else if k = ''executed_at'' then dec_time_ptr v (\<lambda>x t. t\<lparr>t_ExecutedAt := x\<rparr>) t
      else if k = ''completed_at'' then dec_time_ptr v (\<lambda>x t. t\<lparr>t_CompletedAt := x\<rparr>) t
      else if k = ''result'' then Some (t\<lparr>t_Result := (if v = JNull then None else Some v)\<rparr>)
      else if k = ''error'' then dec_str v (\<lambda>s t. t\<lparr>t_Error := s\<rparr>) t
      else if k = ''attempts'' then dec_int v (\<lambda>i t. t\<lparr>t_Attempts := i\<rparr>) t
      else if k = ''max_attempts'' then dec_int v (\<lambda>i t. t\<lparr>t_MaxAttempts := i\<rparr>) t
      else Some t)"

definition decode_task :: "json \<Rightarrow> task option" where
  "decode_task = dec_struct task_field zero_task"

subsection \<open>Payloads\<close>

record wifi_payload =
  wf_Band :: string
  wf_SSID :: string
  wf_Password :: string
  wf_Security :: string
  wf_Channel :: int
  wf_Enabled :: "bool option"
  wf_BandSteeringEnabled :: "bool option"

definition zero_wifi_payload :: wifi_payload where
  "zero_wifi_payload = \<lparr> wf_Band = [], wf_SSID = [], wf_Password = [], wf_Security = [], wf_Channel = 0,
     wf_Enabled = None, wf_BandSteeringEnabled = None \<rparr>"

definition wifi_payload_field :: "string \<Rightarrow> json \<Rightarrow> wifi_payload \<Rightarrow> wifi_payload option" where
  "wifi_payload_field k v p =
     (if k = ''band'' then dec_str v (\<lambda>s p. p\<lparr>wf_Band := s\<rparr>) p
      else if k = ''ssid'' then dec_str v (\<lambda>s p. p\<lparr>wf_SSID := s\<rparr>) p
      else if k = ''password'' then dec_str v (\<lambda>s p. p\<lparr>wf_Password := s\<rparr>) p
      else if k = ''security'' then dec_str v (\<lambda>s p. p\<lparr>wf_Security := s\<rparr>) p
      else if k = ''channel'' then dec_int v (\<lambda>i p. p\<lparr>wf_Channel := i\<rparr>) p
      else if k = ''enabled'' then dec_bool_ptr v (\<lambda>b p. p\<lparr>wf_Enabled := b\<rparr>) p
      else if k = ''band_steering_enabled'' then dec_bool_ptr v (\<lambda>b p. p\<lparr>wf_BandSteeringEnabled := b\<rparr>) p
      else Some p)"

definition decode_wifi_payload :: "json option \<Rightarrow> wifi_payload option" where
  "decode_wifi_payload = unmarshal wifi_payload_field zero_wifi_payload"

record wan_payload =
  wn_ConnectionType :: string
  wn_Username :: string
  wn_Password :: string
  wn_IPAddress :: string
  wn_SubnetMask :: string
  wn_Gateway :: string
  wn_DNS1 :: string
  wn_DNS2 :: string
  wn_VLAN :: int
  wn_MTU :: int
  wn_IPv6Enabled :: "bool option"

definition zero_wan_payload :: wan_payload where
  "zero_wan_payload = \<lparr> wn_ConnectionType = [], wn_Username = [], wn_Password = [], wn_IPAddress = [],
     wn_SubnetMask = [], wn_Gateway = [], wn_DNS1 = [], wn_DNS2 = [], wn_VLAN = 0, wn_MTU =
     0, wn_IPv6Enabled = None \<rparr>"

definition wan_payload_field :: "string \<Rightarrow> json \<Rightarrow> wan_payload \<Rightarrow> wan_payload option" where
  "wan_payload_field k v p =
     (if k = ''connection_type'' then dec_str v (\<lambda>s p. p\<lparr>wn_ConnectionType := s\<rparr>) p
      else if k = ''username'' then dec_str v (\<lambda>s p. p\<lparr>wn_Username := s\<rparr>) p
      else if k = ''password'' then dec_str v (\<lambda>s p. p\<lparr>wn_Password := s\<rparr>) p
      else if k = ''ip_address'' then dec_str v (\<lambda>s p. p\<lparr>wn_IPAddress := s\<rparr>) p
      else if k = ''subnet_mask'' then dec_str v (\<lambda>s p. p\<lparr>wn_SubnetMask := s\<rparr>) p
      else if k = ''gateway'' then dec_str v (\<lambda>s p. p\<lparr>wn_Gateway := s\<rparr>) p
      else if k = ''dns1'' then dec_str v (\<lambda>s p. p\<lparr>wn_DNS1 := s\<rparr>) p
      else if k = ''dns2'' then dec_str v (\<lambda>s p. p\<lparr>wn_DNS2 := s\<rparr>) p
      else if k = ''vlan'' then dec_int v (\<lambda>i p. p\<lparr>wn_VLAN := i\<rparr>) p
      else if k = ''mtu'' then dec_int v (\<lambda>i p. p\<lparr>wn_MTU := i\<rparr>) p
      else if k = ''ipv6_enabled'' then dec_bool_ptr v (\<lambda>b p. p\<lparr>wn_IPv6Enabled := b\<rparr>) p
      else Some p)"

definition decode_wan_payload :: "json option \<Rightarrow> wan_payload option" where
  "decode_wan_payload = unmarshal wan_payload_field zero_wan_payload"

record lan_payload =
  ln_DHCPEnabled :: bool
  ln_IPAddress :: string
  ln_SubnetMask :: string
  ln_DHCPStart :: string
  ln_DHCPEnd :: string
  ln_DNSServer :: string
  ln_LeaseTime :: int

definition zero_lan_payload :: lan_payload where
  "zero_lan_payload = \<lparr> ln_DHCPEnabled = False, ln_IPAddress = [], ln_SubnetMask = [], ln_DHCPStart = [],
     ln_DHCPEnd = [], ln_DNSServer = [], ln_LeaseTime = 0 \<rparr>"

definition lan_payload_field :: "string \<Rightarrow> json \<Rightarrow> lan_payload \<Rightarrow> lan_payload option" where
  "lan_payload_field k v p =
     (if k = ''dhcp_enabled'' then dec_bool v (\<lambda>b p. p\<lparr>ln_DHCPEnabled := b\<rparr>) p
      else if k = ''ip_address'' then dec_str v (\<lambda>s p. p\<lparr>ln_IPAddress := s\<rparr>) p
      else if k = ''subnet_mask'' then dec_str v (\<lambda>s p. p\<lparr>ln_SubnetMask := s\<rparr>) p
      else if k = ''dhcp_start'' then dec_str v (\<lambda>s p. p\<lparr>ln_DHCPStart := s\<rparr>) p
      else if k = ''dhcp_end'' then dec_str v (\<lambda>s p. p\<lparr>ln_DHCPEnd := s\<rparr>) p
      else if k = ''dns_server'' then dec_str v (\<lambda>s p. p\<lparr>ln_DNSServer := s\<rparr>) p
      else if k = ''lease_time'' then dec_int v (\<lambda>i p. p\<lparr>ln_LeaseTime := i\<rparr>) p
      else Some p)"

definition decode_lan_payload :: "json option \<Rightarrow> lan_payload option" where
  "decode_lan_payload = unmarshal lan_payload_field zero_lan_payload"

record set_params_payload =
  sp_Parameters :: params

definition zero_set_params_payload :: set_params_payload where
  "zero_set_params_payload = \<lparr> sp_Parameters = [] \<rparr>"

definition set_params_payload_field :: "string \<Rightarrow> json \<Rightarrow> set_params_payload \<Rightarrow> set_params_payload option" where
  "set_params_payload_field k v p =
     (if k = ''parameters'' then dec_str_map v (\<lambda>m p. p\<lparr>sp_Parameters := m\<rparr>) (sp_Parameters p) p
      else Some p)"

definition decode_set_params_payload :: "json option \<Rightarrow> set_params_payload option" where
  "decode_set_params_payload = unmarshal set_params_payload_field zero_set_params_payload"

record get_params_payload =
  gp_Names :: "string list"

definition zero_get_params_payload :: get_params_payload where
  "zero_get_params_payload = \<lparr> gp_Names = [] \<rparr>"

definition get_params_payload_field :: "string \<Rightarrow> json \<Rightarrow> get_params_payload \<Rightarrow> get_params_payload option" where
  "get_params_payload_field k v p =
     (if k = ''parameters'' then dec_strs v (\<lambda>l p. p\<lparr>gp_Names := l\<rparr>) p
      else Some p)"

definition decode_get_params_payload :: "json option \<Rightarrow> get_params_payload option" where
  "decode_get_params_payload = unmarshal get_params_payload_field zero_get_params_payload"

record firmware_payload =
  fw_URL :: string
  fw_Version :: string
  fw_FileType :: string
  fw_Username :: string
  fw_Password :: string

definition zero_firmware_payload :: firmware_payload where
  "zero_firmware_payload = \<lparr> fw_URL = [], fw_Version = [], fw_FileType = [], fw_Username = [], fw_Password = [] \<rparr>"

definition firmware_payload_field :: "string \<Rightarrow> json \<Rightarrow> firmware_payload \<Rightarrow> firmware_payload option" where
  "firmware_payload_field k v p =
     (if k = ''url'' then dec_str v (\<lambda>s p. p\<lparr>fw_URL := s\<rparr>) p
      else if k = ''version'' then dec_str v (\<lambda>s p. p\<lparr>fw_Version := s\<rparr>) p
      else if k = ''file_type'' then dec_str v (\<lambda>s p. p\<lparr>fw_FileType := s\<rparr>) p
      else if k = ''username'' then dec_str v (\<lambda>s p. p\<lparr>fw_Username := s\<rparr>) p
      else if k = ''password'' then dec_str v (\<lambda>s p. p\<lparr>fw_Password := s\<rparr>) p
      else Some p)"

definition decode_firmware_payload :: "json option \<Rightarrow> firmware_payload option" where
  "decode_firmware_payload = unmarshal firmware_payload_field zero_firmware_payload"

record diagnostic_payload =
  dg_DiagType :: string
  dg_Target :: string
  dg_Count :: int

definition zero_diagnostic_payload :: diagnostic_payload where
  "zero_diagnostic_payload = \<lparr> dg_DiagType = [], dg_Target = [], dg_Count = 0 \<rparr>"

definition diagnostic_payload_field :: "string \<Rightarrow> json \<Rightarrow> diagnostic_payload \<Rightarrow> diagnostic_payload option" where
  "diagnostic_payload_field k v p =
     (if k = ''diag_type'' then dec_str v (\<lambda>s p. p\<lparr>dg_DiagType := s\<rparr>) p
      else if k = ''target'' then dec_str v (\<lambda>s p. p\<lparr>dg_Target := s\<rparr>) p
      else if k = ''count'' then dec_int v (\<lambda>i p. p\<lparr>dg_Count := i\<rparr>) p
      else Some p)"

definition decode_diagnostic_payload :: "json option \<Rightarrow> diagnostic_payload option" where
  "decode_diagnostic_payload = unmarshal diagnostic_payload_field zero_diagnostic_payload"

record ping_payload =
  pg_Host :: string
  pg_Count :: int
  pg_PacketSize :: int
  pg_Timeout :: int
  pg_DSCP :: int

definition zero_ping_payload :: ping_payload where
  "zero_ping_payload = \<lparr> pg_Host = [], pg_Count = 0, pg_PacketSize = 0, pg_Timeout = 0, pg_DSCP = 0 \<rparr>"

definition ping_payload_field :: "string \<Rightarrow> json \<Rightarrow> ping_payload \<Rightarrow> ping_payload option" where
  "ping_payload_field k v p =
     (if k = ''host'' then dec_str v (\<lambda>s p. p\<lparr>pg_Host := s\<rparr>) p
      else if k = ''count'' then dec_int v (\<lambda>i p. p\<lparr>pg_Count := i\<rparr>) p
      else if k = ''packet_size'' then dec_int v (\<lambda>i p. p\<lparr>pg_PacketSize := i\<rparr>) p
      else if k = ''timeout'' then dec_int v (\<lambda>i p. p\<lparr>pg_Timeout := i\<rparr>) p
      else if k = ''dscp'' then dec_int v (\<lambda>i p. p\<lparr>pg_DSCP := i\<rparr>) p
      else Some p)"

definition decode_ping_payload :: "json option \<Rightarrow> ping_payload option" where
  "decode_ping_payload = unmarshal ping_payload_field zero_ping_payload"

record traceroute_payload =
  tr_Host :: string
  tr_MaxHops :: int
  tr_Timeout :: int
  tr_PacketSize :: int
  tr_DSCP :: int

definition zero_traceroute_payload :: traceroute_payload where
  "zero_traceroute_payload = \<lparr> tr_Host = [], tr_MaxHops = 0, tr_Timeout = 0, tr_PacketSize = 0, tr_DSCP = 0 \<rparr>"

definition traceroute_payload_field :: "string \<Rightarrow> json \<Rightarrow> traceroute_payload \<Rightarrow> traceroute_payload option" where
  "traceroute_payload_field k v p =
     (if k = ''host'' then dec_str v (\<lambda>s p. p\<lparr>tr_Host := s\<rparr>) p
      else if k = ''max_hops'' then dec_int v (\<lambda>i p. p\<lparr>tr_MaxHops := i\<rparr>) p
      else if k = ''timeout'' then dec_int v (\<lambda>i p. p\<lparr>tr_Timeout := i\<rparr>) p
      else if k = ''packet_size'' then dec_int v (\<lambda>i p. p\<lparr>tr_PacketSize := i\<rparr>) p
      else if k = ''dscp'' then dec_int v (\<lambda>i p. p\<lparr>tr_DSCP := i\<rparr>) p
      else Some p)"

definition decode_traceroute_payload :: "json option \<Rightarrow> traceroute_payload option" where
  "decode_traceroute_payload = unmarshal traceroute_payload_field zero_traceroute_payload"

record speed_payload =
  sd_DownloadURL :: string
  sd_UploadURL :: string
  sd_FileSize :: int
  sd_DSCP :: int

definition zero_speed_payload :: speed_payload where
  "zero_speed_payload = \<lparr> sd_DownloadURL = [], sd_UploadURL = [], sd_FileSize = 0, sd_DSCP = 0 \<rparr>"

definition speed_payload_field :: "string \<Rightarrow> json \<Rightarrow> speed_payload \<Rightarrow> speed_payload option" where
  "speed_payload_field k v p =
     (if k = ''download_url'' then dec_str v (\<lambda>s p. p\<lparr>sd_DownloadURL := s\<rparr>) p
      else if k = ''upload_url'' then dec_str v (\<lambda>s p. p\<lparr>sd_UploadURL := s\<rparr>) p
      else if k = ''file_size'' then dec_int v (\<lambda>i p. p\<lparr>sd_FileSize := i\<rparr>) p
      else if k = ''dscp'' then dec_int v (\<lambda>i p. p\<lparr>sd_DSCP := i\<rparr>) p
      else Some p)"

definition decode_speed_payload :: "json option \<Rightarrow> speed_payload option" where
  "decode_speed_payload = unmarshal speed_payload_field zero_speed_payload"

datatype portfwd_action = PFAdd | PFRemove | PFList | PFOther string

definition action_of :: "string \<Rightarrow> portfwd_action" where
  "action_of s =
     (if s = ''add'' then PFAdd else if s = ''remove'' then PFRemove
      else if s = ''list'' then PFList else PFOther s)"

record portfwd_payload =
  pf_Action :: portfwd_action
  pf_Protocol :: string
  pf_ExternalPort :: int
  pf_InternalIP :: string
  pf_InternalPort :: int
  pf_Description :: string
  pf_Enabled :: "bool option"
  pf_InstanceNumber :: int

definition zero_portfwd_payload :: portfwd_payload where
  "zero_portfwd_payload = \<lparr> pf_Action = PFOther [], pf_Protocol = [], pf_ExternalPort = 0, pf_InternalIP = [],
     pf_InternalPort = 0, pf_Description = [], pf_Enabled = None, pf_InstanceNumber = 0 \<rparr>"

definition portfwd_payload_field :: "string \<Rightarrow> json \<Rightarrow> portfwd_payload \<Rightarrow> portfwd_payload option" where
  "portfwd_payload_field k v p =
     (if k = ''action'' then dec_str v (\<lambda>s p. p\<lparr>pf_Action := action_of s\<rparr>) p
      else if k = ''protocol'' then dec_str v (\<lambda>s p. p\<lparr>pf_Protocol := s\<rparr>) p
      else if k = ''external_port'' then dec_int v (\<lambda>i p. p\<lparr>pf_ExternalPort := i\<rparr>) p
      else if k = ''internal_ip'' then dec_str v (\<lambda>s p. p\<lparr>pf_InternalIP := s\<rparr>) p
      else if k = ''internal_port'' then dec_int v (\<lambda>i p. p\<lparr>pf_InternalPort := i\<rparr>) p
      else if k = ''description'' then dec_str v (\<lambda>s p. p\<lparr>pf_Description := s\<rparr>) p
      else if k = ''enabled'' then dec_bool_ptr v (\<lambda>b p. p\<lparr>pf_Enabled := b\<rparr>) p
      else if k = ''instance_number'' then dec_int v (\<lambda>i p. p\<lparr>pf_InstanceNumber := i\<rparr>) p
      else Some p)"

definition decode_portfwd_payload :: "json option \<Rightarrow> portfwd_payload option" where
  "decode_portfwd_payload = unmarshal portfwd_payload_field zero_portfwd_payload"

record diag_result_payload =
  dr_OriginalTaskID :: string
  dr_OriginalTaskType :: task_type
  dr_Paths :: "string list"

definition zero_diag_result_payload :: diag_result_payload where
  "zero_diag_result_payload = \<lparr> dr_OriginalTaskID = [], dr_OriginalTaskType = TypeOther [], dr_Paths = [] \<rparr>"

definition diag_result_payload_field :: "string \<Rightarrow> json \<Rightarrow> diag_result_payload \<Rightarrow> diag_result_payload option" where
  "diag_result_payload_field k v p =
     (if k = ''original_task_id'' then dec_str v (\<lambda>s p. p\<lparr>dr_OriginalTaskID := s\<rparr>) p
      else if k = ''original_task_type'' then dec_str v (\<lambda>s p. p\<lparr>dr_OriginalTaskType := type_of s\<rparr>) p
      else if k = ''paths'' then dec_strs v (\<lambda>l p. p\<lparr>dr_Paths := l\<rparr>) p
      else Some p)"

definition decode_diag_result_payload :: "json option \<Rightarrow> diag_result_payload option" where
  "decode_diag_result_payload = unmarshal diag_result_payload_field zero_diag_result_payload"

record webadmin_payload =
  wa_Password :: string

definition zero_webadmin_payload :: webadmin_payload where
  "zero_webadmin_payload = \<lparr> wa_Password = [] \<rparr>"

definition webadmin_payload_field :: "string \<Rightarrow> json \<Rightarrow> webadmin_payload \<Rightarrow> webadmin_payload option" where
  "webadmin_payload_field k v p =
     (if k = ''password'' then dec_str v (\<lambda>s p. p\<lparr>wa_Password := s\<rparr>) p
      else Some p)"

definition decode_webadmin_payload :: "json option \<Rightarrow> webadmin_payload option" where
  "decode_webadmin_payload = unmarshal webadmin_payload_field zero_webadmin_payload"

text \<open>\<^verbatim>\<open>json.Marshal(task.GetDiagResultPayload{...})\<close>.\<close>

definition encode_diag_result_payload :: "diag_result_payload \<Rightarrow> json" where
  "encode_diag_result_payload p = JObj
     [(''original_task_id'', JStr (dr_OriginalTaskID p)),
      (''original_task_type'', JStr (type_str (dr_OriginalTaskType p))),
      (''paths'', JArr (map JStr (dr_Paths p)))]"

subsection \<open>Results\<close>

text \<open>A \<^verbatim>\<open>float64\<close> computed as a quotient is kept as numerator and denominator.\<close>

type_synonym quotient64 = "int \<times> int"

record ping_result =
  pr_Host :: string
  pr_PacketsSent :: int
  pr_PacketsReceived :: int
  pr_PacketLossPct :: quotient64
  pr_MinRTTMs :: int
  pr_AvgRTTMs :: int
  pr_MaxRTTMs :: int

record traceroute_hop =
  th_HopNumber :: int
  th_Host :: string
  th_RTTMs :: int

record traceroute_result =
  tt_Host :: string
  tt_MaxHops :: int
  tt_HopCount :: int
  tt_Hops :: "traceroute_hop list"

record speed_result =
  sr_DownloadURL :: string
  sr_DownloadSpeedMbps :: quotient64
  sr_DownloadDurationMs :: int
  sr_DownloadBytesTotal :: int

record cpe_stats_result =
  cs_UptimeSeconds :: int
  cs_RAMTotalKB :: int
  cs_RAMFreeKB :: int
  cs_WANBytesSent :: int
  cs_WANBytesRecv :: int
  cs_WANPktsSent :: int
  cs_WANPktsRecv :: int
  cs_WANErrsSent :: int
  cs_WANErrsRecv :: int

record portfwd_rule =
  pm_InstanceNumber :: int
  pm_Enabled :: bool
  pm_Protocol :: string
  pm_ExternalPort :: int
  pm_InternalIP :: string
  pm_InternalPort :: int
  pm_Description :: string

definition encode_ping_result :: "ping_result \<Rightarrow> json" where
  "encode_ping_result r = JObj
     [(''host'', JStr (pr_Host r)), (''packets_sent'', JInt (pr_PacketsSent r)),
      (''packets_received'', JInt (pr_PacketsReceived r)),
      (''packet_loss_pct'', JFloat (fst (pr_PacketLossPct r)) (snd (pr_PacketLossPct r))),
      (''min_rtt_ms'', JInt (pr_MinRTTMs r)), (''avg_rtt_ms'', JInt (pr_AvgRTTMs r)),
      (''max_rtt_ms'', JInt (pr_MaxRTTMs r))]"

definition encode_traceroute_hop :: "traceroute_hop \<Rightarrow> json" where
  "encode_traceroute_hop h = JObj
     [(''hop'', JInt (th_HopNumber h)), (''host'', JStr (th_Host h)), (''rtt_ms'', JInt (th_RTTMs h))]"

text \<open>A nil slice of hops is written as \<^verbatim>\<open>null\<close>.\<close>

definition encode_traceroute_result :: "traceroute_result \<Rightarrow> json" where
  "encode_traceroute_result r = JObj
     [(''host'', JStr (tt_Host r)), (''max_hops'', JInt (tt_MaxHops r)),
      (''hop_count'', JInt (tt_HopCount r)),
      (''hops'', (if tt_Hops r = [] then JNull else JArr (map encode_traceroute_hop (tt_Hops r))))]"

text \<open>The upload fields are never set by the code and are omitted when empty.\<close>

definition encode_speed_result :: "speed_result \<Rightarrow> json" where
  "encode_speed_result r = JObj
     [(''download_url'', JStr (sr_DownloadURL r)),
      (''download_speed_mbps'', JFloat (fst (sr_DownloadSpeedMbps r)) (snd (sr_DownloadSpeedMbps r))),
      (''download_duration_ms'', JInt (sr_DownloadDurationMs r)),
      (''download_bytes_total'', JInt (sr_DownloadBytesTotal r))]"

definition encode_cpe_stats_result :: "cpe_stats_result \<Rightarrow> json" where
  "encode_cpe_stats_result r = JObj
     [(''uptime_seconds'', JInt (cs_UptimeSeconds r)), (''ram_total_kb'', JInt (cs_RAMTotalKB r)),
      (''ram_free_kb'', JInt (cs_RAMFreeKB r)), (''wan_bytes_sent'', JInt (cs_WANBytesSent r)),
      (''wan_bytes_recv'', JInt (cs_WANBytesRecv r)), (''wan_pkts_sent'', JInt (cs_WANPktsSent r)),
      (''wan_pkts_recv'', JInt (cs_WANPktsRecv r)), (''wan_errs_sent'', JInt (cs_WANErrsSent r)),
      (''wan_errs_recv'', JInt (cs_WANErrsRecv r))]"

definition encode_portfwd_rule :: "portfwd_rule \<Rightarrow> json" where
  "encode_portfwd_rule r = JObj
     [(''instance'', JInt (pm_InstanceNumber r)), (''enabled'', JBool (pm_Enabled r)),
      (''protocol'', JStr (pm_Protocol r)), (''external_port'', JInt (pm_ExternalPort r)),
      (''internal_ip'', JStr (pm_InternalIP r)), (''internal_port'', JInt (pm_InternalPort r)),
      (''description'', JStr (pm_Description r))]"

subsection \<open>Facts\<close>

text \<open>A status or type that a text decodes to: the last constructor never holds a named constant.\<close>

definition wf_status :: "status \<Rightarrow> bool" where
  "wf_status s \<longleftrightarrow> status_of (status_str s) = s"

definition wf_type :: "task_type \<Rightarrow> bool" where
  "wf_type t \<longleftrightarrow> type_of (type_str t) = t"

lemma status_str_status_of [simp]: "status_str (status_of s) = s"
  by (simp add: status_str_def status_of_def)

lemma wf_status_status_of [simp]: "wf_status (status_of s)"
  by (simp add: wf_status_def)

lemma wf_status_simps [simp]:
  "wf_status StatusPending" "wf_status StatusExecuting" "wf_status StatusDone"
  "wf_status StatusFailed" "wf_status StatusCancelled" "wf_status (StatusOther [])"
  by (simp_all add: wf_status_def status_of_def status_str_def)

lemma type_str_table: "(s, t) \<in> set type_table \<Longrightarrow> type_str t = s"
  by (auto simp: type_table_def type_str_def)

lemma type_str_type_of [simp]: "type_str (type_of s) = s"
proof (cases "map_of type_table s")
  case None
  then show ?thesis by (simp add: type_of_def type_str_def)
next
  case (Some t)
  then show ?thesis by (simp add: type_of_def type_str_table map_of_SomeD)
qed

lemma wf_type_type_of [simp]: "wf_type (type_of s)"
  by (simp add: wf_type_def)

lemma distinct_type_table: "distinct (map fst type_table)"
  by code_simp

lemma type_of_table: "(s, t) \<in> set type_table \<Longrightarrow> type_of s = t"
  by (simp add: type_of_def distinct_type_table)

lemma wf_type_named: "(s, t) \<in> set type_table \<Longrightarrow> wf_type t"
  by (simp add: wf_type_def type_str_table type_of_table)

lemma wf_type_simps [simp]:
  "wf_type TypeWifi" "wf_type TypeWAN" "wf_type TypeLAN" "wf_type TypeReboot"
  "wf_type TypeFactoryReset" "wf_type TypeSetParams" "wf_type TypeGetParams" "wf_type TypeFirmware"
  "wf_type TypeDiagnostic" "wf_type TypePingTest" "wf_type TypeTraceroute" "wf_type TypeSpeedTest"
  "wf_type TypeConnectedDevices" "wf_type TypeCPEStats" "wf_type TypePortForwarding"
  "wf_type TypeWebAdmin" "wf_type TypeGetDiagResult"
  by (simp_all add: wf_type_def type_str_def type_table_def type_of_def)

lemma terminal_simps [simp]:
  "terminal StatusDone" "terminal StatusFailed" "terminal StatusCancelled"
  "\<not> terminal StatusPending" "\<not> terminal StatusExecuting"
  by (simp_all add: terminal_def)

text \<open>
  What survives a trip through the store: the payload of a task created without one comes back
  as \<^verbatim>\<open>null\<close>, a \<^verbatim>\<open>null\<close> result comes back as none.
\<close>

definition stored_task :: "task \<Rightarrow> task" where
  "stored_task t = t\<lparr>t_Payload := Some (case t_Payload t of None \<Rightarrow> JNull | Some v \<Rightarrow> v),
     t_Result := (if t_Result t = Some JNull then None else t_Result t)\<rparr>"

definition int64 :: "int \<Rightarrow> bool" where
  "int64 i \<longleftrightarrow> min_int64 \<le> i \<and> i \<le> max_int64"

definition wf_task :: "task \<Rightarrow> bool" where
  "wf_task t \<longleftrightarrow> wf_status (t_Status t) \<and> wf_type (t_Type t) \<and> int64 (t_Attempts t) \<and> int64 (t_MaxAttempts t)"

lemma to_lower_keys [simp]:
  "to_lower ''id'' = ''id''" "to_lower ''serial'' = ''serial''" "to_lower ''type'' = ''type''"
  "to_lower ''payload'' = ''payload''" "to_lower ''status'' = ''status''"
  "to_lower ''created_at'' = ''created_at''" "to_lower ''executed_at'' = ''executed_at''"
  "to_lower ''completed_at'' = ''completed_at''" "to_lower ''result'' = ''result''"
  "to_lower ''error'' = ''error''" "to_lower ''attempts'' = ''attempts''"
  "to_lower ''max_attempts'' = ''max_attempts''"
  by (simp_all add: to_lower_def lower_char_def)

lemma task_field_simps [simp]:
  "task_field ''id'' v t = dec_str v (\<lambda>s t. t\<lparr>t_ID := s\<rparr>) t"
  "task_field ''serial'' v t = dec_str v (\<lambda>s t. t\<lparr>t_Serial := s\<rparr>) t"
  "task_field ''type'' v t = dec_str v (\<lambda>s t. t\<lparr>t_Type := type_of s\<rparr>) t"
  "task_field ''payload'' v t = Some (t\<lparr>t_Payload := Some v\<rparr>)"
  "task_field ''status'' v t = dec_str v (\<lambda>s t. t\<lparr>t_Status := status_of s\<rparr>) t"
  "task_field ''created_at'' v t = dec_time v (\<lambda>x t. t\<lparr>t_CreatedAt := x\<rparr>) t"
  "task_field ''executed_at'' v t = dec_time_ptr v (\<lambda>x t. t\<lparr>t_ExecutedAt := x\<rparr>) t"
  "task_field ''completed_at'' v t = dec_time_ptr v (\<lambda>x t. t\<lparr>t_CompletedAt := x\<rparr>) t"
  "task_field ''result'' v t = Some (t\<lparr>t_Result := (if v = JNull then None else Some v)\<rparr>)"
  "task_field ''error'' v t = dec_str v (\<lambda>s t. t\<lparr>t_Error := s\<rparr>) t"
  "task_field ''attempts'' v t = dec_int v (\<lambda>i t. t\<lparr>t_Attempts := i\<rparr>) t"
  "task_field ''max_attempts'' v t = dec_int v (\<lambda>i t. t\<lparr>t_MaxAttempts := i\<rparr>) t"
  by (simp_all add: task_field_def)

lemma decode_encode_task [simp]:
  assumes "wf_task t"
  shows "decode_task (encode_task t) = Some (stored_task t)"
  using assms
  by (cases t) (auto simp: decode_task_def encode_task_def dec_struct_def json_dec wf_task_def
      wf_status_def wf_type_def int64_def zero_task_def stored_task_def split: option.splits)

lemma wf_task_stored [simp]: "wf_task t \<Longrightarrow> wf_task (stored_task t)"
  by (simp add: wf_task_def stored_task_def)

lemma stored_task_idem [simp]: "stored_task (stored_task t) = stored_task t"
  by (cases t) (simp add: stored_task_def)

lemma stored_task_sel [simp]:
  "t_ID (stored_task t) = t_ID t" "t_Serial (stored_task t) = t_Serial t"
  "t_Type (stored_task t) = t_Type t" "t_Status (stored_task t) = t_Status t"
  "t_CreatedAt (stored_task t) = t_CreatedAt t" "t_CompletedAt (stored_task t) = t_CompletedAt t"
  by (simp_all add: stored_task_def)

lemma task_field_typed:
  assumes "task_field k v t = Some u" and "wf_task t"
  shows "wf_task u"
  using assms
  by (auto simp: task_field_def json_dec wf_task_def int64_def split: if_splits json.splits)

lemma dec_members_typed:
  assumes "dec_members task_field kvs t = Some u" and "wf_task t"
  shows "wf_task u"
  using assms
proof (induction kvs arbitrary: t)
  case (Cons kv kvs)
  obtain k v where kv: "kv = (k, v)" by (cases kv)
  with Cons.prems obtain y where "task_field (to_lower k) v t = Some y" "dec_members task_field kvs y = Some u"
    by (auto split: option.splits)
  with Cons.IH Cons.prems(2) show ?case by (blast dest: task_field_typed)
qed simp

lemma wf_task_zero: "wf_task zero_task"
  by (simp add: wf_task_def zero_task_def wf_type_def type_str_def type_table_def type_of_def int64_def
      min_int64_def max_int64_def)



end
