(* ===== verification/Redis.thy ===== *)
theory Redis
  imports Json
begin

section \<open>The Redis commands the program uses\<close>

text \<open>
  A Redis server as the client library shows it: string, list and sorted-set keys, a mark on
  keys that carry a time to live, and a schedule of connection failures that the calls consume
  (\<^term>\<open>True\<close> makes the call fail with no effect; past the end every call succeeds). The
  commands follow their documented behaviour. Strings hold JSON texts or plain texts, both as
  JSON trees.
\<close>

record redis =
  rd_str :: "string \<Rightarrow> json option"
  rd_list :: "string \<Rightarrow> string list"
  rd_zset :: "string \<Rightarrow> (string \<times> int) list"
  rd_ttl :: "string \<Rightarrow> int option"
  rd_faults :: "bool list"

definition empty_redis :: redis where
  "empty_redis = \<lparr> rd_str = (\<lambda>_. None), rd_list = (\<lambda>_. []), rd_zset = (\<lambda>_. []),
     rd_ttl = (\<lambda>_. None), rd_faults = [] \<rparr>"

text \<open>Whether the next call fails, and the state after the attempt.\<close>

definition next_fault :: "redis \<Rightarrow> bool \<times> redis" where
  "next_fault r =
     (case rd_faults r of [] \<Rightarrow> (False, r) | f # fs \<Rightarrow> (f, r\<lparr>rd_faults := fs\<rparr>))"

text \<open>Commands: the effect alone. \<^verbatim>\<open>SET k v EX ttl\<close> clears an old TTL when it has none.\<close>

definition redis_set :: "string \<Rightarrow> json \<Rightarrow> int option \<Rightarrow> redis \<Rightarrow> redis" where
  "redis_set k v ttl r =
     r\<lparr>rd_str := (rd_str r)(k \<mapsto> v), rd_ttl := (rd_ttl r)(k := ttl)\<rparr>"

definition redis_del :: "string \<Rightarrow> redis \<Rightarrow> redis" where
  "redis_del k r = r\<lparr>rd_str := (rd_str r)(k := None), rd_ttl := (rd_ttl r)(k := None)\<rparr>"

definition redis_rpush :: "string \<Rightarrow> string \<Rightarrow> redis \<Rightarrow> redis" where
  "redis_rpush k x r = r\<lparr>rd_list := (rd_list r)(k := rd_list r k @ [x])\<rparr>"

text \<open>\<^verbatim>\<open>LREM k 0 x\<close> removes every occurrence.\<close>

definition redis_lrem :: "string \<Rightarrow> string \<Rightarrow> redis \<Rightarrow> redis" where
  "redis_lrem k x r = r\<lparr>rd_list := (rd_list r)(k := removeAll x (rd_list r k))\<rparr>"

definition redis_zadd :: "string \<Rightarrow> int \<Rightarrow> string \<Rightarrow> redis \<Rightarrow> redis" where
  "redis_zadd k score m r = r\<lparr>rd_zset := (rd_zset r)(k := mput m score (rd_zset r k))\<rparr>"

definition redis_expire :: "string \<Rightarrow> int \<Rightarrow> redis \<Rightarrow> redis" where
  "redis_expire k ttl r = r\<lparr>rd_ttl := (rd_ttl r)(k \<mapsto> ttl)\<rparr>"

text \<open>Members from the highest score to the lowest, equal scores by member, descending.\<close>

definition zset_before :: "string \<times> int \<Rightarrow> string \<times> int \<Rightarrow> bool" where
  "zset_before a b \<longleftrightarrow> snd b < snd a \<or> (snd a = snd b \<and> fst b < fst a)"

text \<open>Index ranges are inclusive and count from the end when negative.\<close>

definition redis_range :: "int \<Rightarrow> int \<Rightarrow> 'a list \<Rightarrow> 'a list" where
  "redis_range start stop xs =
     (let n = int (length xs);
          a = (if start < 0 then max 0 (start + n) else start);
          b = (if stop < 0 then stop + n else min stop (n - 1))
      in if a > b \<or> a \<ge> n then [] else take (nat (b - a + 1)) (drop (nat a) xs))"

definition redis_zrevrange :: "string \<Rightarrow> int \<Rightarrow> int \<Rightarrow> redis \<Rightarrow> string list" where
  "redis_zrevrange k start stop r =
     redis_range start stop (map fst (sort_by zset_before (rd_zset r k)))"

text \<open>A key with a TTL may disappear between two calls.\<close>

definition redis_expired :: "string \<Rightarrow> redis \<Rightarrow> redis" where
  "redis_expired k r =
     (if rd_ttl r k = None then r
      else r\<lparr>rd_str := (rd_str r)(k := None), rd_zset := (rd_zset r)(k := []),
             rd_ttl := (rd_ttl r)(k := None)\<rparr>)"

subsection \<open>Facts\<close>

lemma next_fault_none [simp]: "rd_faults r = [] \<Longrightarrow> next_fault r = (False, r)"
  by (simp add: next_fault_def)

lemma next_fault_keeps:
  assumes "next_fault r = (f, r')"
  shows "rd_str r' = rd_str r" "rd_list r' = rd_list r" "rd_zset r' = rd_zset r" "rd_ttl r' = rd_ttl r"
  using assms by (auto simp: next_fault_def split: list.splits)

named_theorems redis_simps \<open>selectors after each command\<close>

lemma redis_set_sel [redis_simps]:
  "rd_str (redis_set k v ttl r) = (rd_str r)(k \<mapsto> v)"
  "rd_list (redis_set k v ttl r) = rd_list r"
  "rd_zset (redis_set k v ttl r) = rd_zset r"
  "rd_faults (redis_set k v ttl r) = rd_faults r"
  by (simp_all add: redis_set_def)

lemma redis_rpush_sel [redis_simps]:
  "rd_str (redis_rpush k x r) = rd_str r"
  "rd_list (redis_rpush k x r) = (rd_list r)(k := rd_list r k @ [x])"
  "rd_zset (redis_rpush k x r) = rd_zset r"
  "rd_faults (redis_rpush k x r) = rd_faults r"
  by (simp_all add: redis_rpush_def)

lemma redis_lrem_sel [redis_simps]:
  "rd_str (redis_lrem k x r) = rd_str r"
  "rd_list (redis_lrem k x r) = (rd_list r)(k := removeAll x (rd_list r k))"
  "rd_zset (redis_lrem k x r) = rd_zset r"
  "rd_faults (redis_lrem k x r) = rd_faults r"
  by (simp_all add: redis_lrem_def)

lemma redis_zadd_sel [redis_simps]:
  "rd_str (redis_zadd k s m r) = rd_str r"
  "rd_list (redis_zadd k s m r) = rd_list r"
  "rd_zset (redis_zadd k s m r) = (rd_zset r)(k := mput m s (rd_zset r k))"
  "rd_faults (redis_zadd k s m r) = rd_faults r"
  by (simp_all add: redis_zadd_def)

lemma redis_expire_sel [redis_simps]:
  "rd_str (redis_expire k t r) = rd_str r"
  "rd_list (redis_expire k t r) = rd_list r"
  "rd_zset (redis_expire k t r) = rd_zset r"
  "rd_faults (redis_expire k t r) = rd_faults r"
  by (simp_all add: redis_expire_def)

text \<open>The order of a sorted set is a strict total order on its entries.\<close>

interpretation zset: sort_order zset_before "\<lambda>_. True"
proof unfold_locales
  fix x y z :: "string \<times> int"
  show "zset_before x y \<Longrightarrow> \<not> zset_before y x" by (auto simp: zset_before_def)
  show "zset_before x y \<Longrightarrow> zset_before y z \<Longrightarrow> zset_before x z"
    by (auto simp: zset_before_def)
  show "x \<noteq> y \<Longrightarrow> zset_before x y \<or> zset_before y x"
    by (auto simp: zset_before_def prod_eq_iff)
qed

end
