(* ===== verification/Task_Queue.thy ===== *)
theory Task_Queue
  imports Task_Model Redis
begin

section \<open>internal/task/queue.go: the Redis-backed task queue\<close>

text \<open>
  Every method of \<^verbatim>\<open>RedisQueue\<close> as a function of the server state, with its errors as
  values. The interface \<^verbatim>\<open>task.Queue\<close> is a locale over an abstract list of tasks per
  device; it is interpreted on the Redis model.
\<close>

subsection \<open>Keys\<close>

definition queueKey :: "string \<Rightarrow> string" where "queueKey serial = ''task:queue:'' @ serial"
definition dataKey :: "string \<Rightarrow> string" where "dataKey taskID = ''task:data:'' @ taskID"
definition indexKey :: "string \<Rightarrow> string" where "indexKey serial = ''task:index:'' @ serial"

subsection \<open>State, configuration and errors\<close>

record queue_cfg =
  qc_ttl :: int
  qc_maxAttempts :: int

datatype queue_error =
    ErrRedis string
  | ErrNotFound string
  | ErrUnmarshal string
  | ErrTerminal string status

text \<open>\<^verbatim>\<open>float64(n)\<close> of an integer: 53 significant bits, ties to even.\<close>

fun bit_len :: "nat \<Rightarrow> nat" where
  "bit_len n = (if n = 0 then 0 else Suc (bit_len (n div 2)))"

declare bit_len.simps [simp del]

definition float64_of_int :: "int \<Rightarrow> int" where
  "float64_of_int i =
     (let m = nat \<bar>i\<bar>; u = 2 ^ (bit_len m - 53); q = m div u; r = m mod u;
          q' = (if u < 2 * r \<or> (2 * r = u \<and> odd q) then q + 1 else q)
      in sgn i * int (q' * u))"

subsection \<open>Operations\<close>

definition ttl_of :: "queue_cfg \<Rightarrow> int option" where
  "ttl_of cfg = (if qc_ttl cfg > 0 then Some (qc_ttl cfg) else None)"

definition Enqueue :: "queue_cfg \<Rightarrow> task \<Rightarrow> redis \<Rightarrow> (queue_error + task) \<times> redis" where
  "Enqueue cfg t0 r0 =
     (let t1 = (if t_MaxAttempts t0 = 0 then t0\<lparr>t_MaxAttempts := qc_maxAttempts cfg\<rparr> else t0);
          t = (if t_Status t1 = StatusOther [] then t1\<lparr>t_Status := StatusPending\<rparr> else t1);
          data = encode_task t;
          score = float64_of_int (t_CreatedAt t);
          (failed, r) = next_fault r0
      in if failed then (Inl (ErrRedis ''enqueue task''), r)
         else
           let r1 = redis_rpush (queueKey (t_Serial t)) (t_ID t) r;
               r2 = redis_set (dataKey (t_ID t)) data (ttl_of cfg) r1;
               r3 = redis_zadd (indexKey (t_Serial t)) score (t_ID t) r2;
               r4 = (if qc_ttl cfg > 0 then redis_expire (indexKey (t_Serial t)) (qc_ttl cfg) r3 else r3)
           in (Inr t, r4))"

definition fetchTask :: "string \<Rightarrow> redis \<Rightarrow> (queue_error + task) \<times> redis" where
  "fetchTask taskID r0 =
     (let (failed, r) = next_fault r0
      in if failed then (Inl (ErrRedis ''get task''), r)
         else case rd_str r (dataKey taskID) of
           None \<Rightarrow> (Inl (ErrNotFound taskID), r)
         | Some data \<Rightarrow>
             (case decode_task data of
                None \<Rightarrow> (Inl (ErrUnmarshal taskID), r)
              | Some t \<Rightarrow> (Inr t, r)))"

text \<open>The loops over the ids of a queue or an index: a task that cannot be fetched is skipped.\<close>

fun fetch_where :: "(task \<Rightarrow> bool) \<Rightarrow> string list \<Rightarrow> redis \<Rightarrow> task list \<times> redis" where
  "fetch_where P [] r = ([], r)"
| "fetch_where P (i # is) r =
     (case fetchTask i r of
        (Inl _, r1) \<Rightarrow> fetch_where P is r1
      | (Inr t, r1) \<Rightarrow>
          (case fetch_where P is r1 of
             (ts, r2) \<Rightarrow> (if P t then t # ts else ts, r2)))"

definition DequeuePending :: "string \<Rightarrow> redis \<Rightarrow> (queue_error + task list) \<times> redis" where
  "DequeuePending serial r0 =
     (let (failed, r) = next_fault r0
      in if failed then (Inl (ErrRedis ''lrange queue''), r)
         else case fetch_where (\<lambda>t. t_Status t = StatusPending) (rd_list r (queueKey serial)) r of
           (ts, r') \<Rightarrow> (Inr ts, r'))"

definition UpdateStatus :: "queue_cfg \<Rightarrow> task \<Rightarrow> redis \<Rightarrow> queue_error option \<times> redis" where
  "UpdateStatus cfg t r0 =
     (let data = encode_task t;
          (failed, r) = next_fault r0
      in if failed then (Some (ErrRedis ''update task status''), r)
         else
           let r1 = redis_set (dataKey (t_ID t)) data (ttl_of cfg) r
           in if t_Status t = StatusDone \<or> t_Status t = StatusFailed \<or> t_Status t = StatusCancelled
              then let (lost, r2) = next_fault r1
                   in (None, if lost then r2 else redis_lrem (queueKey (t_Serial t)) (t_ID t) r2)
              else (None, r1))"

definition Cancel :: "queue_cfg \<Rightarrow> int \<Rightarrow> string \<Rightarrow> string \<Rightarrow> redis \<Rightarrow> queue_error option \<times> redis" where
  "Cancel cfg now taskID serial r0 =
     (case fetchTask taskID r0 of
        (Inl e, r) \<Rightarrow> (Some e, r)
      | (Inr t, r) \<Rightarrow>
          if t_Status t = StatusDone \<or> t_Status t = StatusFailed \<or> t_Status t = StatusCancelled
          then (Some (ErrTerminal taskID (t_Status t)), r)
          else UpdateStatus cfg (t\<lparr>t_Status := StatusCancelled, t_CompletedAt := Some now\<rparr>) r)"

definition GetByID :: "string \<Rightarrow> redis \<Rightarrow> (queue_error + task) \<times> redis" where
  "GetByID = fetchTask"

definition List_tasks ::
    "string \<Rightarrow> int \<Rightarrow> int \<Rightarrow> redis \<Rightarrow> (queue_error + (task list \<times> int)) \<times> redis" where
  "List_tasks serial page0 limit0 r0 =
     (let page = (if page0 < 1 then 1 else page0);
          limit = (if limit0 < 1 then 20 else limit0);
          (failed, r1) = next_fault r0
      in if failed then (Inl (ErrRedis ''zcard index''), r1)
         else
           let total = int (length (rd_zset r1 (indexKey serial)));
               offset = wrap64 ((page - 1) * limit);
               stop = wrap64 (wrap64 (offset + limit) - 1);
               (failed2, r2) = next_fault r1
           in if failed2 then (Inl (ErrRedis ''zrevrange index''), r2)
              else case fetch_where (\<lambda>_. True) (redis_zrevrange (indexKey serial) offset stop r2) r2 of
                (ts, r3) \<Rightarrow> (Inr (ts, total), r3))"

definition FindExecutingDiagnostics :: "string \<Rightarrow> redis \<Rightarrow> (queue_error + task list) \<times> redis" where
  "FindExecutingDiagnostics serial r0 =
     (let (failed, r) = next_fault r0
      in if failed then (Inl (ErrRedis ''lrange queue''), r)
         else case fetch_where (\<lambda>t. t_Status t = StatusExecuting \<and> IsDiagnosticAsync (t_Type t))
                     (rd_list r (queueKey serial)) r of
           (ts, r') \<Rightarrow> (Inr ts, r'))"

subsection \<open>Abstraction: the tasks of a device in queue order\<close>

definition lookup_task :: "redis \<Rightarrow> string \<Rightarrow> task option" where
  "lookup_task r i = (case rd_str r (dataKey i) of None \<Rightarrow> None | Some j \<Rightarrow> decode_task j)"

definition queue_tasks :: "redis \<Rightarrow> string \<Rightarrow> task list" where
  "queue_tasks r serial = List.map_filter (lookup_task r) (rd_list r (queueKey serial))"

text \<open>
  The invariant: a queue lists an id once, and a task found under a listed id is that task of
  that device.
\<close>

definition queue_inv :: "redis \<Rightarrow> bool" where
  "queue_inv r \<longleftrightarrow>
     (\<forall>s. distinct (rd_list r (queueKey s)) \<and>
       (\<forall>i \<in> set (rd_list r (queueKey s)). \<forall>t. lookup_task r i = Some t \<longrightarrow>
          t_ID t = i \<and> t_Serial t = s \<and> wf_task t \<and> stored_task t = t))"

definition queue_up :: "redis \<Rightarrow> bool" where
  "queue_up r \<longleftrightarrow> queue_inv r \<and> rd_faults r = []"

definition fresh_task :: "redis \<Rightarrow> task \<Rightarrow> bool" where
  "fresh_task r t \<longleftrightarrow> (\<forall>s. t_ID t \<notin> set (rd_list r (queueKey s)))"

text \<open>The task as \<^term>\<open>Enqueue\<close> stores it.\<close>

definition enqueued :: "queue_cfg \<Rightarrow> task \<Rightarrow> task" where
  "enqueued cfg t =
     (let t1 = (if t_MaxAttempts t = 0 then t\<lparr>t_MaxAttempts := qc_maxAttempts cfg\<rparr> else t)
      in if t_Status t1 = StatusOther [] then t1\<lparr>t_Status := StatusPending\<rparr> else t1)"

lemma key_inject [simp]:
  "queueKey a = queueKey b \<longleftrightarrow> a = b" "dataKey a = dataKey b \<longleftrightarrow> a = b" "indexKey a = indexKey b \<longleftrightarrow> a = b"
  by (simp_all add: queueKey_def dataKey_def indexKey_def)

lemma enqueued_sel [simp]:
  "t_ID (enqueued cfg t) = t_ID t" "t_Serial (enqueued cfg t) = t_Serial t"
  "t_Type (enqueued cfg t) = t_Type t" "t_Payload (enqueued cfg t) = t_Payload t"
  by (simp_all add: enqueued_def Let_def)

lemma enqueued_status [simp]:
  "t_Status (enqueued cfg t) = (if t_Status t = StatusOther [] then StatusPending else t_Status t)"
  by (simp add: enqueued_def Let_def)

lemma wf_task_enqueued [simp]: "wf_task t \<Longrightarrow> int64 (qc_maxAttempts cfg) \<Longrightarrow> wf_task (enqueued cfg t)"
  by (simp add: enqueued_def wf_task_def Let_def)

lemma Enqueue_up:
  assumes "rd_faults r = []"
  shows "fst (Enqueue cfg t r) = Inr (enqueued cfg t)"
    and "rd_faults (snd (Enqueue cfg t r)) = []"
    and "rd_str (snd (Enqueue cfg t r)) = (rd_str r)(dataKey (t_ID t) \<mapsto> encode_task (enqueued cfg t))"
    and "rd_list (snd (Enqueue cfg t r)) =
           (rd_list r)(queueKey (t_Serial t) := rd_list r (queueKey (t_Serial t)) @ [t_ID t])"
  using assms by (simp_all add: Enqueue_def enqueued_def Let_def redis_simps)

lemma lookup_task_Enqueue:
  assumes "rd_faults r = []" "wf_task t" "int64 (qc_maxAttempts cfg)"
  shows "lookup_task (snd (Enqueue cfg t r)) =
           (lookup_task r)(t_ID t \<mapsto> stored_task (enqueued cfg t))"
  using assms by (intro ext) (simp add: lookup_task_def Enqueue_up)

lemma map_filter_upd_other: "i \<notin> set is \<Longrightarrow> List.map_filter (f(i := x)) is = List.map_filter f is"
  by (induction "is") (auto simp: List.map_filter_def)

lemma map_filter_append: "List.map_filter f (xs @ ys) = List.map_filter f xs @ List.map_filter f ys"
  by (simp add: List.map_filter_def)

lemma queue_tasks_Enqueue:
  assumes "rd_faults r = []" "wf_task t" "int64 (qc_maxAttempts cfg)" "fresh_task r t"
  shows "queue_tasks (snd (Enqueue cfg t r)) s =
           queue_tasks r s @ (if s = t_Serial t then [stored_task (enqueued cfg t)] else [])"
  using assms
  by (auto simp: queue_tasks_def lookup_task_Enqueue Enqueue_up map_filter_append fresh_task_def
      map_filter_upd_other List.map_filter_simps)

lemma queue_inv_Enqueue:
  assumes "queue_up r" "wf_task t" "int64 (qc_maxAttempts cfg)" "fresh_task r t"
  shows "queue_up (snd (Enqueue cfg t r))"
  using assms
  by (auto simp: queue_up_def queue_inv_def Enqueue_up lookup_task_Enqueue fresh_task_def)

subsection \<open>UpdateStatus\<close>

lemma UpdateStatus_up:
  assumes "rd_faults r = []"
  shows "fst (UpdateStatus cfg t r) = None"
    and "rd_faults (snd (UpdateStatus cfg t r)) = []"
    and "rd_str (snd (UpdateStatus cfg t r)) = (rd_str r)(dataKey (t_ID t) \<mapsto> encode_task t)"
    and "rd_list (snd (UpdateStatus cfg t r)) =
           (if terminal (t_Status t)
            then (rd_list r)(queueKey (t_Serial t) := removeAll (t_ID t) (rd_list r (queueKey (t_Serial t))))
            else rd_list r)"
  using assms by (simp_all add: UpdateStatus_def Let_def redis_simps terminal_def)

lemma lookup_task_UpdateStatus:
  assumes "rd_faults r = []" "wf_task t"
  shows "lookup_task (snd (UpdateStatus cfg t r)) = (lookup_task r)(t_ID t \<mapsto> stored_task t)"
  using assms by (intro ext) (simp add: lookup_task_def UpdateStatus_up)

lemma queue_inv_UpdateStatus:
  assumes "queue_up r" "wf_task t" "\<And>s. t_ID t \<in> set (rd_list r (queueKey s)) \<Longrightarrow> s = t_Serial t"
  shows "queue_up (snd (UpdateStatus cfg t r))"
  using assms
  by (auto simp: queue_up_def queue_inv_def UpdateStatus_up lookup_task_UpdateStatus distinct_removeAll)

lemma map_filter_removeAll:
  assumes "\<And>i u. i \<in> set is \<Longrightarrow> f i = Some u \<Longrightarrow> t_ID u = i"
  shows "List.map_filter (f(k \<mapsto> v)) (removeAll k is) = filter (\<lambda>u. t_ID u \<noteq> k) (List.map_filter f is)"
  using assms
proof (induction "is")
  case Nil
  then show ?case by (simp add: List.map_filter_def)
next
  case (Cons i "is")
  then have IH: "List.map_filter (f(k \<mapsto> v)) (removeAll k is) = filter (\<lambda>u. t_ID u \<noteq> k) (List.map_filter f is)"
    by (meson list.set_intros(2))
  with Cons.prems [of i] show ?case
    by (cases "f i") (auto simp: List.map_filter_simps fun_upd_def)
qed

lemma map_filter_replace:
  assumes "\<And>i u. i \<in> set is \<Longrightarrow> f i = Some u \<Longrightarrow> t_ID u = i" and "k \<in> set is \<Longrightarrow> f k \<noteq> None"
  shows "List.map_filter (f(k \<mapsto> v)) is = map (\<lambda>u. if t_ID u = k then v else u) (List.map_filter f is)"
  using assms
proof (induction "is")
  case Nil
  then show ?case by (simp add: List.map_filter_def)
next
  case (Cons i "is")
  then have IH: "List.map_filter (f(k \<mapsto> v)) is = map (\<lambda>u. if t_ID u = k then v else u) (List.map_filter f is)"
    by (metis list.set_intros(2))
  with Cons.prems(1) [of i] Cons.prems(2) show ?case
    by (cases "f i") (auto simp: List.map_filter_simps fun_upd_def)
qed

subsection \<open>Reading operations\<close>

lemma fetchTask_up: "rd_faults r = [] \<Longrightarrow> snd (fetchTask i r) = r"
  by (simp add: fetchTask_def split: option.splits)

lemma fetchTask_Inr_up:
  "rd_faults r = [] \<Longrightarrow> fst (fetchTask i r) = Inr t \<longleftrightarrow> lookup_task r i = Some t"
  by (simp add: fetchTask_def lookup_task_def split: option.splits)

lemma fetchTask_keeps:
  assumes "fetchTask i r = (x, r')"
  shows "rd_str r' = rd_str r" "rd_list r' = rd_list r" "rd_zset r' = rd_zset r"
  using assms
  by (auto simp: fetchTask_def Let_def split: prod.splits option.splits if_splits
      dest: next_fault_keeps)

lemma fetchTask_Inr:
  assumes "fetchTask i r = (Inr t, r')"
  shows "lookup_task r i = Some t"
  using assms
  by (auto simp: fetchTask_def lookup_task_def Let_def split: prod.splits option.splits if_splits
      dest: next_fault_keeps)

lemma fetch_where_up:
  "rd_faults r = [] \<Longrightarrow> fetch_where P is r = (filter P (List.map_filter (lookup_task r) is), r)"
proof (induction "is")
  case Nil
  then show ?case by (simp add: List.map_filter_def)
next
  case (Cons i "is")
  then show ?case
    using fetchTask_Inr_up [of r i] fetchTask_up [of r i]
    by (cases "fetchTask i r"; cases "lookup_task r i")
      (auto simp: List.map_filter_simps split: sum.splits)
qed

text \<open>With failing calls the loop loses tasks but never reorders or invents any.\<close>

lemma fetch_where_subseq:
  assumes "fetch_where P is r = (ts, r')"
  shows "subseq ts (filter P (List.map_filter (lookup_task r) is))"
    and "rd_str r' = rd_str r \<and> rd_list r' = rd_list r \<and> rd_zset r' = rd_zset r"
  using assms
proof (induction "is" arbitrary: r ts r')
  case Nil
  { case 1 then show ?case by simp }
  { case 2 with Nil show ?case by simp }
next
  case (Cons i "is")
  have lk: "lookup_task r1 = lookup_task r" if "rd_str r1 = rd_str r" for r r1
    using that by (intro ext) (simp add: lookup_task_def)
  { case (1 r ts r')
    obtain x r1 where f: "fetchTask i r = (x, r1)" by fastforce
    note k = fetchTask_keeps [OF f]
    show ?case
    proof (cases x)
      case (Inl e)
      with f have "fetchTask i r = (Inl e, r1)" by simp
      with 1 have "fetch_where P is r1 = (ts, r')" by (simp only: fetch_where.simps prod.case sum.case)
      from Cons.IH(1) [OF this] have "subseq ts (filter P (List.map_filter (lookup_task r) is))"
        by (simp only: lk [OF k(1)])
      moreover have "subseq (filter P (List.map_filter (lookup_task r) is))
          (filter P (List.map_filter (lookup_task r) (i # is)))"
        by (auto simp: List.map_filter_simps split: option.splits)
      ultimately show ?thesis by (rule subseq_order.trans)
    next
      case (Inr t)
      obtain us r2 where us: "fetch_where P is r1 = (us, r2)" by fastforce
      from Cons.IH(1) [OF this] have "subseq us (filter P (List.map_filter (lookup_task r) is))"
        by (simp only: lk [OF k(1)])
      moreover have f': "fetchTask i r = (Inr t, r1)" using f Inr by simp
      moreover have "lookup_task r i = Some t" using f' by (rule fetchTask_Inr)
      ultimately show ?thesis using 1 us by (auto simp: List.map_filter_simps)
    qed
  }
  { case (2 r ts r')
    obtain x r1 where f: "fetchTask i r = (x, r1)" by fastforce
    note k = fetchTask_keeps [OF f]
    obtain us r2 where us: "fetch_where P is r1 = (us, r2)" by fastforce
    from Cons.IH(2) [OF this] 2 f us k show ?case by (auto split: sum.splits)
  }
qed

lemma DequeuePending_up:
  "rd_faults r = [] \<Longrightarrow>
     DequeuePending s r = (Inr (filter (\<lambda>t. t_Status t = StatusPending) (queue_tasks r s)), r)"
  by (simp add: DequeuePending_def fetch_where_up queue_tasks_def)

lemma FindExecutingDiagnostics_up:
  "rd_faults r = [] \<Longrightarrow>
     FindExecutingDiagnostics s r =
       (Inr (filter (\<lambda>t. t_Status t = StatusExecuting \<and> IsDiagnosticAsync (t_Type t)) (queue_tasks r s)), r)"
  by (simp add: FindExecutingDiagnostics_def fetch_where_up queue_tasks_def)

lemma queue_tasks_wf:
  assumes "queue_inv r" and "t \<in> set (queue_tasks r s)"
  shows "wf_task t" "t_Serial t = s" "stored_task t = t" "t_ID t \<in> set (rd_list r (queueKey s))"
    "lookup_task r (t_ID t) = Some t"
proof -
  from assms(2) obtain i where i: "i \<in> set (rd_list r (queueKey s))" "lookup_task r i = Some t"
    by (auto simp: queue_tasks_def List.map_filter_def)
  with assms(1) have "t_ID t = i \<and> t_Serial t = s \<and> wf_task t \<and> stored_task t = t"
    unfolding queue_inv_def by blast
  with i show "wf_task t" "t_Serial t = s" "stored_task t = t" "t_ID t \<in> set (rd_list r (queueKey s))"
    "lookup_task r (t_ID t) = Some t" by auto
qed

lemma map_filter_ids:
  assumes "\<And>i t. i \<in> set is \<Longrightarrow> f i = Some t \<Longrightarrow> t_ID t = i"
  shows "map t_ID (List.map_filter f is) = filter (\<lambda>i. f i \<noteq> None) is"
  using assms by (induction "is") (auto simp: List.map_filter_simps split: option.splits)

lemma distinct_queue_tasks: "queue_inv r \<Longrightarrow> distinct (map t_ID (queue_tasks r s))"
proof -
  assume inv: "queue_inv r"
  then have "map t_ID (queue_tasks r s)
      = filter (\<lambda>i. lookup_task r i \<noteq> None) (rd_list r (queueKey s))"
    unfolding queue_tasks_def by (intro map_filter_ids) (auto simp: queue_inv_def)
  with inv show ?thesis by (simp add: queue_inv_def)
qed

lemma queue_tasks_UpdateStatus:
  assumes "queue_up r" "wf_task t" "t_ID t \<in> t_ID ` set (queue_tasks r (t_Serial t))"
  shows "queue_tasks (snd (UpdateStatus cfg t r)) s =
          (if s \<noteq> t_Serial t then queue_tasks r s
           else if terminal (t_Status t) then filter (\<lambda>u. t_ID u \<noteq> t_ID t) (queue_tasks r s)
           else map (\<lambda>u. if t_ID u = t_ID t then stored_task t else u) (queue_tasks r s))"
    and "queue_up (snd (UpdateStatus cfg t r))"
proof -
  from assms(1) have inv: "queue_inv r" and up: "rd_faults r = []" by (simp_all add: queue_up_def)
  from assms(3) obtain u where u: "u \<in> set (queue_tasks r (t_Serial t))" "t_ID u = t_ID t" by auto
  from queue_tasks_wf [OF inv u(1)] u(2)
  have mem: "t_ID t \<in> set (rd_list r (queueKey (t_Serial t)))" and lk: "lookup_task r (t_ID t) = Some u"
    by simp_all
  have only: "s = t_Serial t" if "t_ID t \<in> set (rd_list r (queueKey s))" for s
    using that inv lk mem unfolding queue_inv_def by metis
  then show "queue_up (snd (UpdateStatus cfg t r))"
    using assms by (intro queue_inv_UpdateStatus)
  have ids: "\<And>i v. i \<in> set (rd_list r (queueKey s)) \<Longrightarrow> lookup_task r i = Some v \<Longrightarrow> t_ID v = i" for s
    using inv unfolding queue_inv_def by blast
  show "queue_tasks (snd (UpdateStatus cfg t r)) s =
          (if s \<noteq> t_Serial t then queue_tasks r s
           else if terminal (t_Status t) then filter (\<lambda>u. t_ID u \<noteq> t_ID t) (queue_tasks r s)
           else map (\<lambda>u. if t_ID u = t_ID t then stored_task t else u) (queue_tasks r s))"
  proof (cases "s = t_Serial t")
    case False
    with only have "t_ID t \<notin> set (rd_list r (queueKey s))" by blast
    with False up assms(2) show ?thesis
      by (simp add: queue_tasks_def UpdateStatus_up lookup_task_UpdateStatus map_filter_upd_other)
  next
    case True
    then show ?thesis using up assms(2) lk
      by (simp add: queue_tasks_def UpdateStatus_up lookup_task_UpdateStatus
          map_filter_removeAll [OF ids] map_filter_replace [OF ids])
  qed
qed

subsection \<open>The interface task.Queue\<close>

text \<open>
  What a CWMP session relies on: the tasks of a device form a list in arrival order, a new task
  goes to its end, an update replaces the task in place or removes it when its status is
  terminal, and the pending ones are read in that order. \<^verbatim>\<open>kept\<close> is the form in which
  a new task enters the list, \<^term>\<open>stored_task\<close> the form in which an update is kept.
\<close>

locale task_queue =
  fixes enq :: "task \<Rightarrow> 'q \<Rightarrow> 'q" and upd :: "task \<Rightarrow> 'q \<Rightarrow> 'q"
    and pend :: "string \<Rightarrow> 'q \<Rightarrow> task list" and tasks :: "'q \<Rightarrow> string \<Rightarrow> task list"
    and up :: "'q \<Rightarrow> bool" and fresh :: "'q \<Rightarrow> task \<Rightarrow> bool" and kept :: "task \<Rightarrow> task"
  assumes enq_up: "\<lbrakk>up q; wf_task t; fresh q t\<rbrakk> \<Longrightarrow> up (enq t q)"
    and enq_tasks: "\<lbrakk>up q; wf_task t; fresh q t\<rbrakk> \<Longrightarrow>
          tasks (enq t q) s = tasks q s @ (if s = t_Serial t then [kept t] else [])"
    and enq_fresh: "\<lbrakk>up q; fresh q u; t_ID u \<noteq> t_ID t\<rbrakk> \<Longrightarrow> fresh (enq t q) u"
    and kept_status: "t_Status t = StatusPending \<Longrightarrow> t_Status (kept t) = StatusPending"
    and upd_up: "\<lbrakk>up q; wf_task t; t_ID t \<in> t_ID ` set (tasks q (t_Serial t))\<rbrakk> \<Longrightarrow> up (upd t q)"
    and upd_tasks: "\<lbrakk>up q; wf_task t; t_ID t \<in> t_ID ` set (tasks q (t_Serial t))\<rbrakk> \<Longrightarrow>
          tasks (upd t q) s =
            (if s \<noteq> t_Serial t then tasks q s
             else if terminal (t_Status t) then filter (\<lambda>u. t_ID u \<noteq> t_ID t) (tasks q s)
             else map (\<lambda>u. if t_ID u = t_ID t then stored_task t else u) (tasks q s))"
    and pend_tasks: "up q \<Longrightarrow> pend s q = filter (\<lambda>t. t_Status t = StatusPending) (tasks q s)"
    and ids_distinct: "up q \<Longrightarrow> distinct (map t_ID (tasks q s))"
    and of_device: "\<lbrakk>up q; t \<in> set (tasks q s)\<rbrakk> \<Longrightarrow> t_Serial t = s \<and> wf_task t"
begin

lemma enq_all:
  assumes "up q" "\<forall>t \<in> set ts. wf_task t \<and> fresh q t" "distinct (map t_ID ts)"
  shows "up (fold enq ts q) \<and>
         tasks (fold enq ts q) s = tasks q s @ map kept (filter (\<lambda>t. t_Serial t = s) ts)"
  using assms
proof (induction ts arbitrary: q)
  case Nil
  then show ?case by simp
next
  case (Cons t ts)
  then have "up (enq t q)" by (simp add: enq_up)
  moreover have "\<forall>u \<in> set ts. wf_task u \<and> fresh (enq t q) u"
    using Cons.prems by (metis enq_fresh distinct.simps(2) image_eqI list.set_intros(2) list.simps(9) set_map)
  ultimately show ?case using Cons by (simp add: enq_tasks)
qed

lemma pend_enq_all:
  assumes "up q" "\<forall>t \<in> set ts. wf_task t \<and> fresh q t \<and> t_Status t = StatusPending"
    and "distinct (map t_ID ts)"
  shows "pend s (fold enq ts q) = pend s q @ map kept (filter (\<lambda>t. t_Serial t = s) ts)"
proof -
  have "up (fold enq ts q)" and
    "tasks (fold enq ts q) s = tasks q s @ map kept (filter (\<lambda>t. t_Serial t = s) ts)"
    using assms enq_all [of q ts s] by blast+
  moreover have "filter (\<lambda>t. t_Status t = StatusPending) (map kept (filter (\<lambda>t. t_Serial t = s) ts))
      = map kept (filter (\<lambda>t. t_Serial t = s) ts)"
    using assms(2) by (simp add: filter_id_conv kept_status)
  ultimately show ?thesis using assms(1) by (simp add: pend_tasks)
qed

lemma filter_ids:
  assumes "distinct (map t_ID us)" and "filter P us = t # ts"
  shows "filter P (filter (\<lambda>u. t_ID u \<noteq> t_ID t) us) = ts"
proof -
  have "filter P (filter (\<lambda>u. t_ID u \<noteq> t_ID t) us) = filter (\<lambda>u. t_ID u \<noteq> t_ID t) (t # ts)"
    unfolding assms(2) [symmetric] by (simp add: conj_commute)
  moreover have "distinct (map t_ID (t # ts))"
    unfolding assms(2) [symmetric] using assms(1) by (simp add: distinct_map_filter)
  then have "filter (\<lambda>u. t_ID u \<noteq> t_ID t) (t # ts) = ts"
    by (auto simp: filter_id_conv) (metis image_eqI)
  ultimately show ?thesis by simp
qed

lemma filter_map_ids:
  assumes "distinct (map t_ID us)" and "filter P us = t # ts" and "\<not> P v"
  shows "filter P (map (\<lambda>u. if t_ID u = t_ID t then v else u) us) = ts"
proof -
  have "filter P (map (\<lambda>u. if t_ID u = t_ID t then v else u) us)
      = filter P (filter (\<lambda>u. t_ID u \<noteq> t_ID t) us)"
    using assms(3) by (induction us) auto
  then show ?thesis using filter_ids [OF assms(1,2)] by simp
qed

text \<open>Serving the first pending task leaves the others pending, in order.\<close>

lemma serve_head:
  assumes "up q" "pend s q = t # ts" "wf_task t'" "t_ID t' = t_ID t" "t_Serial t' = s"
    and "t_Status t' \<noteq> StatusPending"
  shows "pend s (upd t' q) = ts \<and> up (upd t' q)"
proof -
  let ?P = "\<lambda>t. t_Status t = StatusPending"
  have f: "filter ?P (tasks q s) = t # ts" using assms by (simp add: pend_tasks)
  then have "t \<in> set (filter ?P (tasks q s))" by simp
  then have "t \<in> set (tasks q s)" by simp
  with assms have mem: "t_ID t' \<in> t_ID ` set (tasks q (t_Serial t'))" by auto
  have up': "up (upd t' q)" using assms mem by (intro upd_up)
  have d: "distinct (map t_ID (tasks q s))" using assms(1) by (rule ids_distinct)
  have "\<not> ?P (stored_task t')" using assms(6) by simp
  from filter_ids [OF d f] filter_map_ids [OF d f this] show ?thesis
    using up' assms mem by (simp add: pend_tasks [OF up'] upd_tasks)
qed

end

interpretation rq: task_queue
  "\<lambda>t r. snd (Enqueue cfg t r)" "\<lambda>t r. snd (UpdateStatus cfg t r)"
  "\<lambda>s r. case fst (DequeuePending s r) of Inr ts \<Rightarrow> ts | Inl _ \<Rightarrow> []"
  queue_tasks "\<lambda>r. queue_up r \<and> int64 (qc_maxAttempts cfg)" fresh_task
  "\<lambda>t. stored_task (enqueued cfg t)" for cfg
proof unfold_locales
  fix q t s u
  assume up: "queue_up q \<and> int64 (qc_maxAttempts cfg)"
  then have f: "rd_faults q = []" and inv: "queue_inv q" by (simp_all add: queue_up_def)
  show "wf_task t \<Longrightarrow> fresh_task q t \<Longrightarrow>
      queue_up (snd (Enqueue cfg t q)) \<and> int64 (qc_maxAttempts cfg)"
    using up by (simp add: queue_inv_Enqueue)
  show "wf_task t \<Longrightarrow> fresh_task q t \<Longrightarrow> queue_tasks (snd (Enqueue cfg t q)) s =
      queue_tasks q s @ (if s = t_Serial t then [stored_task (enqueued cfg t)] else [])"
    using up f by (simp add: queue_tasks_Enqueue)
  show "fresh_task q u \<Longrightarrow> t_ID u \<noteq> t_ID t \<Longrightarrow> fresh_task (snd (Enqueue cfg t q)) u"
    using f by (auto simp: fresh_task_def Enqueue_up)
  show "wf_task t \<Longrightarrow> t_ID t \<in> t_ID ` set (queue_tasks q (t_Serial t)) \<Longrightarrow>
      queue_up (snd (UpdateStatus cfg t q)) \<and> int64 (qc_maxAttempts cfg)"
    using up by (simp add: queue_tasks_UpdateStatus(2))
  show "wf_task t \<Longrightarrow> t_ID t \<in> t_ID ` set (queue_tasks q (t_Serial t)) \<Longrightarrow>
      queue_tasks (snd (UpdateStatus cfg t q)) s =
       (if s \<noteq> t_Serial t then queue_tasks q s
        else if terminal (t_Status t) then filter (\<lambda>u. t_ID u \<noteq> t_ID t) (queue_tasks q s)
        else map (\<lambda>u. if t_ID u = t_ID t then stored_task t else u) (queue_tasks q s))"
    using up by (intro queue_tasks_UpdateStatus(1)) simp_all
  show "(case fst (DequeuePending s q) of Inr ts \<Rightarrow> ts | Inl _ \<Rightarrow> []) =
      filter (\<lambda>t. t_Status t = StatusPending) (queue_tasks q s)"
    using f by (simp add: DequeuePending_up)
  show "distinct (map t_ID (queue_tasks q s))" using inv by (rule distinct_queue_tasks)
  show "t \<in> set (queue_tasks q s) \<Longrightarrow> t_Serial t = s \<and> wf_task t"
    using inv queue_tasks_wf by blast
qed (simp)

subsection \<open>Properties of the queue\<close>

definition pending_of :: "redis \<Rightarrow> string \<Rightarrow> task list" where
  "pending_of r s = filter (\<lambda>t. t_Status t = StatusPending) (queue_tasks r s)"

definition ex_cfg :: queue_cfg where
  "ex_cfg = \<lparr> qc_ttl = 0, qc_maxAttempts = 3 \<rparr>"

definition ex_task :: "string \<Rightarrow> task_type \<Rightarrow> task" where
  "ex_task i ty = zero_task\<lparr>t_ID := i, t_Serial := ''CPE1'', t_Type := ty, t_Status := StatusPending\<rparr>"

lemma queue_up_empty [simp]: "queue_up empty_redis"
  by (simp add: queue_up_def queue_inv_def empty_redis_def)

lemma fresh_task_empty [simp]: "fresh_task empty_redis t"
  by (simp add: fresh_task_def empty_redis_def)

lemma int64_ex_cfg [simp]: "int64 (qc_maxAttempts ex_cfg)"
  by (simp add: ex_cfg_def int64_def min_int64_def max_int64_def)

lemma ex_task_sel [simp]:
  "t_ID (ex_task i ty) = i" "t_Serial (ex_task i ty) = ''CPE1''" "t_Type (ex_task i ty) = ty"
  "t_Status (ex_task i ty) = StatusPending"
  by (simp_all add: ex_task_def)

lemma wf_ex_task [simp]: "wf_type ty \<Longrightarrow> wf_task (ex_task i ty)"
  by (simp add: wf_task_def ex_task_def zero_task_def int64_def min_int64_def max_int64_def)

lemma queue_tasks_empty [simp]: "queue_tasks empty_redis s = []"
  by (simp add: queue_tasks_def empty_redis_def List.map_filter_def)

text \<open>
  C20. Tasks are delivered first in, first out: after new pending tasks (for any devices) have
  been enqueued one after the other, the pending tasks of a device are the ones it had before
  followed by its new ones in the order of the calls, each with the default number of attempts
  filled in.
\<close>

theorem queue_fifo:
  assumes "queue_up r" and "int64 (qc_maxAttempts cfg)"
    and "\<forall>t \<in> set ts. wf_task t \<and> fresh_task r t \<and> t_Status t = StatusPending"
    and "distinct (map t_ID ts)"
  shows "fst (DequeuePending s (fold (\<lambda>t r. snd (Enqueue cfg t r)) ts r)) =
           Inr (pending_of r s @
                map (\<lambda>t. stored_task (enqueued cfg t)) (filter (\<lambda>t. t_Serial t = s) ts))"
proof -
  let ?r' = "fold (\<lambda>t r. snd (Enqueue cfg t r)) ts r"
  have up: "queue_up ?r'" using rq.enq_all [of r cfg ts s] assms by blast
  then have f: "rd_faults ?r' = []" "rd_faults r = []" using assms(1) by (simp_all add: queue_up_def)
  from rq.pend_enq_all [of r cfg ts s] assms show ?thesis
    by (simp add: DequeuePending_up f pending_of_def)
qed

lemma queue_fifo_witness:
  "fst (DequeuePending ''CPE1''
     (fold (\<lambda>t r. snd (Enqueue ex_cfg t r)) [ex_task ''a'' TypeWAN, ex_task ''b'' TypeReboot] empty_redis)) =
   Inr [stored_task (enqueued ex_cfg (ex_task ''a'' TypeWAN)),
        stored_task (enqueued ex_cfg (ex_task ''b'' TypeReboot))]"
  using queue_fifo [of empty_redis ex_cfg "[ex_task ''a'' TypeWAN, ex_task ''b'' TypeReboot]" "''CPE1''"]
  by (simp add: pending_of_def)

text \<open>
  C6. Serving the first pending task, that is saving it under any other status, leaves exactly
  the remaining pending tasks in their order, and a terminal status also drops the id from the
  device's queue.
\<close>

theorem queue_serve_head:
  assumes "queue_up r" and "int64 (qc_maxAttempts cfg)" and "pending_of r s = t # ts"
    and "wf_task t'" and "t_ID t' = t_ID t" and "t_Serial t' = s" and "t_Status t' \<noteq> StatusPending"
  shows "fst (DequeuePending s (snd (UpdateStatus cfg t' r))) = Inr ts \<and>
         (terminal (t_Status t') \<longrightarrow>
            t_ID t \<notin> set (rd_list (snd (UpdateStatus cfg t' r)) (queueKey s)))"
proof -
  have f: "rd_faults r = []" using assms(1) by (simp add: queue_up_def)
  have "queue_up (snd (UpdateStatus cfg t' r))"
    using rq.serve_head [of r cfg s t ts t'] assms f by (simp add: DequeuePending_up pending_of_def)
  then have f': "rd_faults (snd (UpdateStatus cfg t' r)) = []" by (simp add: queue_up_def)
  have "fst (DequeuePending s (snd (UpdateStatus cfg t' r))) = Inr ts"
    using rq.serve_head [of r cfg s t ts t'] assms f f' by (simp add: DequeuePending_up pending_of_def)
  moreover have "terminal (t_Status t') \<longrightarrow>
      t_ID t \<notin> set (rd_list (snd (UpdateStatus cfg t' r)) (queueKey s))"
    using assms f by (simp add: UpdateStatus_up)
  ultimately show ?thesis by blast
qed

lemma queue_serve_head_witness:
  "fst (DequeuePending ''CPE1''
     (snd (UpdateStatus ex_cfg (ex_task ''a'' TypeWAN\<lparr>t_Status := StatusDone\<rparr>)
        (fold (\<lambda>t r. snd (Enqueue ex_cfg t r))
          [ex_task ''a'' TypeWAN, ex_task ''b'' TypeReboot] empty_redis)))) =
   Inr [stored_task (enqueued ex_cfg (ex_task ''b'' TypeReboot))]"
proof -
  let ?ts = "[ex_task ''a'' TypeWAN, ex_task ''b'' TypeReboot]"
  let ?r = "fold (\<lambda>t r. snd (Enqueue ex_cfg t r)) ?ts empty_redis"
  have up: "queue_up ?r" using rq.enq_all [of empty_redis ex_cfg ?ts s] by simp
  moreover have "pending_of ?r ''CPE1'' = map (\<lambda>t. stored_task (enqueued ex_cfg t)) ?ts"
    using rq.pend_enq_all [of empty_redis ex_cfg ?ts "''CPE1''"] up
      queue_up_empty
    by (simp add: pending_of_def DequeuePending_up queue_up_def)
  moreover have "wf_task (ex_task ''a'' TypeWAN\<lparr>t_Status := StatusDone\<rparr>)"
    using wf_ex_task [of TypeWAN "''a''"] by (simp add: wf_task_def)
  ultimately show ?thesis
    using queue_serve_head [of ?r ex_cfg "''CPE1''" "stored_task (enqueued ex_cfg (ex_task ''a'' TypeWAN))"]
    by simp
qed

text \<open>
  C23. Cancelling a task that is known and not finished marks it cancelled with the given time
  and takes it out of the pending list; a finished task gives an error and nothing is written;
  an unknown id gives not found and nothing is written.
\<close>

theorem cancel_cases:
  assumes "queue_up r"
  shows "(case lookup_task r i of
            None \<Rightarrow> (fst (Cancel cfg now i s r) \<noteq> None \<and> snd (Cancel cfg now i s r) = r)
          | Some t \<Rightarrow>
              if terminal (t_Status t)
              then Cancel cfg now i s r = (Some (ErrTerminal i (t_Status t)), r)
              else (let t' = t\<lparr>t_Status := StatusCancelled, t_CompletedAt := Some now\<rparr>
                    in Cancel cfg now i s r = (None, snd (UpdateStatus cfg t' r)) \<and>
                       rd_str (snd (Cancel cfg now i s r)) (dataKey (t_ID t)) = Some (encode_task t') \<and>
                       t_ID t \<notin> set (rd_list (snd (Cancel cfg now i s r)) (queueKey (t_Serial t)))))"
proof -
  have f: "rd_faults r = []" using assms by (simp add: queue_up_def)
  obtain x where x: "fetchTask i r = (x, r)" using fetchTask_up [OF f, of i] by (cases "fetchTask i r") auto
  show ?thesis
  proof (cases "lookup_task r i")
    case None
    with x fetchTask_Inr_up [OF f, of i] obtain e where "x = Inl e" by (cases x) auto
    with None x show ?thesis by (simp add: Cancel_def)
  next
    case (Some t)
    with x fetchTask_Inr_up [OF f, of i t] have "x = Inr t" by simp
    with Some x f show ?thesis
      by (auto simp: Cancel_def terminal_def UpdateStatus_up Let_def intro!: prod_eqI)
  qed
qed

lemma cancel_cases_witness:
  "Cancel ex_cfg 7 ''zz'' ''CPE1'' empty_redis = (Some (ErrNotFound ''zz''), empty_redis)"
  using cancel_cases [where r = empty_redis and i = "''zz''" and cfg = ex_cfg and now = 7 and s = "''CPE1''"]
  by (simp add: lookup_task_def Cancel_def fetchTask_def empty_redis_def)

text \<open>
  C24. Reading the pending tasks never changes a task and, whatever calls to the server fail on
  the way, returns a part of the pending tasks in their order or an error.
\<close>

theorem dequeue_under_faults:
  "case DequeuePending s r of
     (res, r') \<Rightarrow>
       rd_str r' = rd_str r \<and> rd_list r' = rd_list r \<and> rd_zset r' = rd_zset r \<and>
       (case res of Inl e \<Rightarrow> True | Inr ts \<Rightarrow> subseq ts (pending_of r s))"
proof -
  obtain b r1 where nf: "next_fault r = (b, r1)" by fastforce
  note k = next_fault_keeps [OF nf]
  obtain ts r2 where fw:
    "fetch_where (\<lambda>t. t_Status t = StatusPending) (rd_list r1 (queueKey s)) r1 = (ts, r2)" by fastforce
  have "lookup_task r1 = lookup_task r" using k by (intro ext) (simp add: lookup_task_def)
  with fetch_where_subseq [OF fw] nf fw k show ?thesis
    by (auto simp: DequeuePending_def pending_of_def queue_tasks_def)
qed

definition newest_first :: "redis \<Rightarrow> string \<Rightarrow> string list" where
  "newest_first r s = map fst (sort_by zset_before (rd_zset r (indexKey s)))"

lemma redis_range_page:
  assumes "0 \<le> a" and "1 \<le> n"
  shows "redis_range a (a + n - 1) xs = take (nat n) (drop (nat a) xs)"
proof (cases "a \<ge> int (length xs)")
  case True
  then show ?thesis using assms by (simp add: redis_range_def Let_def)
next
  case False
  let ?l = "int (length xs)"
  have "take (nat (min (a + n - 1) (?l - 1) - a + 1)) (drop (nat a) xs) = take (nat n) (drop (nat a) xs)"
    using assms False by (cases "a + n \<le> ?l") (auto simp: min_def)
  then show ?thesis using assms False by (simp add: redis_range_def Let_def)
qed



end
