(* ===== verification/Datamodel.thy ===== *)
theory Datamodel
  imports Acs_Prelude
begin

section \<open>internal/datamodel: the two standard data models\<close>

text \<open>
  Parameter paths of TR-181 (\<^verbatim>\<open>Device.\<close>) and TR-098
  (\<^verbatim>\<open>InternetGatewayDevice.\<close>) for each method of the interface
  \<^verbatim>\<open>Mapper\<close>. The path methods are named by three enumerations, one for the methods with
  a WiFi band, one for the WAN and one for the rest, so that a mapper is one function per group.
\<close>

datatype model_type = TR181 | TR098

record unified_device =
  ud_Manufacturer :: string
  ud_ModelName :: string
  ud_Serial :: string
  ud_OUI :: string
  ud_ProductClass :: string
  ud_SWVersion :: string
  ud_HWVersion :: string
  ud_WANIP :: string
  ud_LANIP :: string

subsection \<open>Discovered instances\<close>

text \<open>\<^verbatim>\<open>InstanceMap\<close>: zero and the empty list mean not discovered.\<close>

record instance_map =
  im_WANIPIfaceIdx :: int
  im_LANIPIfaceIdx :: int
  im_PPPIfaceIdx :: int
  im_WANVLANTermIdx :: int
  im_WANEthLinkIdx :: int
  im_WANCurrentVLAN :: int
  im_FreeGPONLinkIdx :: int
  im_WiFiSSIDIndices :: "int list"
  im_WiFiRadioIndices :: "int list"
  im_WiFiAPIndices :: "int list"
  im_WANDeviceIdx :: int
  im_WANConnDevIdx :: int
  im_WANIPConnIdx :: int
  im_WANPPPConnIdx :: int
  im_LANDeviceIdx :: int
  im_WLANIndices :: "int list"

definition zero_im :: instance_map where
  "zero_im = \<lparr> im_WANIPIfaceIdx = 0, im_LANIPIfaceIdx = 0, im_PPPIfaceIdx = 0,
     im_WANVLANTermIdx = 0, im_WANEthLinkIdx = 0, im_WANCurrentVLAN = 0, im_FreeGPONLinkIdx = 0,
     im_WiFiSSIDIndices = [], im_WiFiRadioIndices = [], im_WiFiAPIndices = [],
     im_WANDeviceIdx = 0, im_WANConnDevIdx = 0, im_WANIPConnIdx = 0, im_WANPPPConnIdx = 0,
     im_LANDeviceIdx = 0, im_WLANIndices = [] \<rparr>"

subsection \<open>The path methods\<close>

datatype wifi_path =
    WiFiSSIDPath
  | WiFiPasswordPath
  | WiFiEnabledPath
  | WiFiChannelPath
  | WiFiBSSIDPath
  | WiFiStandardPath
  | WiFiSecurityModePath
  | WiFiChannelWidthPath
  | WiFiTXPowerPath
  | WiFiClientCountPath
  | WiFiBytesSentPath
  | WiFiBytesReceivedPath
  | WiFiPacketsSentPath
  | WiFiPacketsReceivedPath
  | WiFiErrorsSentPath
  | WiFiErrorsReceivedPath

datatype wan_path =
    WANConnectionTypePath
  | WANPPPoEUserPath
  | WANPPPoEPassPath
  | WANIPAddressPath
  | WANGatewayPath
  | WANDNS1Path
  | WANDNS2Path
  | WANMTUPath
  | WANUptimePath
  | WANMACPath
  | WANStatusPath
  | WANBytesSentPath
  | WANBytesReceivedPath
  | WANPacketsSentPath
  | WANPacketsReceivedPath
  | WANErrorsSentPath
  | WANErrorsReceivedPath
  | WANServiceTypePath

datatype sys_path =
    LANIPAddressPath
  | LANSubnetMaskPath
  | DHCPServerEnablePath
  | DHCPMinAddressPath
  | DHCPMaxAddressPath
  | LANDNSPath
  | CPEUptimePath
  | RAMTotalPath
  | RAMFreePath
  | ManagementServerURLPath
  | ManagementServerUserPath
  | ManagementServerPassPath
  | ManagementServerInformIntervalPath
  | HostsBasePath
  | HostsCountPath
  | PingDiagBasePath
  | TracerouteDiagBasePath
  | DownloadDiagBasePath
  | UploadDiagBasePath
  | PortMappingBasePath
  | PortMappingCountPath
  | WebAdminPasswordPath
  | BandSteeringPath

subsection \<open>tr181.go\<close>

record tr181_mapper =
  m1_WANIfaceIdx :: int
  m1_LANIfaceIdx :: int
  m1_PPPIfaceIdx :: int
  m1_SSIDIndices :: "int list"
  m1_RadioIndices :: "int list"
  m1_APIndices :: "int list"

definition zero_tr181 :: tr181_mapper where
  "zero_tr181 = \<lparr> m1_WANIfaceIdx = 0, m1_LANIfaceIdx = 0, m1_PPPIfaceIdx = 0,
     m1_SSIDIndices = [], m1_RadioIndices = [], m1_APIndices = [] \<rparr>"

definition wanIface :: "tr181_mapper \<Rightarrow> int" where
  "wanIface m = (if m1_WANIfaceIdx m > 0 then m1_WANIfaceIdx m else 1)"

definition lanIface :: "tr181_mapper \<Rightarrow> int" where
  "lanIface m = (if m1_LANIfaceIdx m > 0 then m1_LANIfaceIdx m else 2)"

definition pppIface :: "tr181_mapper \<Rightarrow> int" where
  "pppIface m = (if m1_PPPIfaceIdx m > 0 then m1_PPPIfaceIdx m else 1)"

text \<open>An override list entry when it is there and positive, else the band plus one.\<close>

definition override_idx :: "int list \<Rightarrow> nat \<Rightarrow> int" where
  "override_idx xs band = (if band < length xs \<and> xs ! band > 0 then xs ! band else int band + 1)"

definition ssidIdx :: "tr181_mapper \<Rightarrow> nat \<Rightarrow> int" where
  "ssidIdx m band = override_idx (m1_SSIDIndices m) band"

definition radioIdx :: "tr181_mapper \<Rightarrow> nat \<Rightarrow> int" where
  "radioIdx m band = override_idx (m1_RadioIndices m) band"

definition apIdx :: "tr181_mapper \<Rightarrow> nat \<Rightarrow> int" where
  "apIdx m band = override_idx (m1_APIndices m) band"

definition tr181_DetectModel :: "params \<Rightarrow> model_type" where
  "tr181_DetectModel ps = (if \<exists>kv \<in> set ps. has_prefix (fst kv) ''Device.'' then TR181 else TR098)"

definition tr181_ExtractDeviceInfo :: "tr181_mapper \<Rightarrow> params \<Rightarrow> unified_device" where
  "tr181_ExtractDeviceInfo m ps =
     \<lparr> ud_Manufacturer = mget ps ''Device.DeviceInfo.Manufacturer'',
       ud_ModelName = mget ps ''Device.DeviceInfo.ModelName'',
       ud_Serial = mget ps ''Device.DeviceInfo.SerialNumber'',
       ud_OUI = mget ps ''Device.DeviceInfo.ManufacturerOUI'',
       ud_ProductClass = mget ps ''Device.DeviceInfo.ProductClass'',
       ud_SWVersion = mget ps ''Device.DeviceInfo.SoftwareVersion'',
       ud_HWVersion = mget ps ''Device.DeviceInfo.HardwareVersion'',
       ud_WANIP = mget ps (''Device.IP.Interface.'' @ itoa (wanIface m) @ ''.IPv4Address.1.IPAddress''),
       ud_LANIP = mget ps (''Device.IP.Interface.'' @ itoa (lanIface m) @ ''.IPv4Address.1.IPAddress'') \<rparr>"

primrec tr181_wifi :: "tr181_mapper \<Rightarrow> wifi_path \<Rightarrow> nat \<Rightarrow> string" where
  "tr181_wifi m WiFiSSIDPath band = ''Device.WiFi.SSID.'' @ itoa (ssidIdx m band) @ ''.SSID''"
| "tr181_wifi m WiFiPasswordPath band =
     ''Device.WiFi.AccessPoint.'' @ itoa (apIdx m band) @ ''.Security.KeyPassphrase''"
| "tr181_wifi m WiFiEnabledPath band = ''Device.WiFi.SSID.'' @ itoa (ssidIdx m band) @ ''.Enable''"
| "tr181_wifi m WiFiChannelPath band =
     ''Device.WiFi.Radio.'' @ itoa (radioIdx m band) @ ''.Channel''"
| "tr181_wifi m WiFiBSSIDPath band = ''Device.WiFi.SSID.'' @ itoa (ssidIdx m band) @ ''.BSSID''"
| "tr181_wifi m WiFiStandardPath band =
     ''Device.WiFi.Radio.'' @ itoa (radioIdx m band) @ ''.OperatingStandards''"
| "tr181_wifi m WiFiSecurityModePath band =
     ''Device.WiFi.AccessPoint.'' @ itoa (apIdx m band) @ ''.Security.ModeEnabled''"
| "tr181_wifi m WiFiChannelWidthPath band =
     ''Device.WiFi.Radio.'' @ itoa (radioIdx m band) @ ''.OperatingChannelBandwidth''"
| "tr181_wifi m WiFiTXPowerPath band =
     ''Device.WiFi.Radio.'' @ itoa (radioIdx m band) @ ''.TransmitPower''"
| "tr181_wifi m WiFiClientCountPath band =
     ''Device.WiFi.AccessPoint.'' @ itoa (apIdx m band) @ ''.AssociatedDeviceNumberOfEntries''"
| "tr181_wifi m WiFiBytesSentPath band =
     ''Device.WiFi.SSID.'' @ itoa (ssidIdx m band) @ ''.Stats.BytesSent''"
| "tr181_wifi m WiFiBytesReceivedPath band =
     ''Device.WiFi.SSID.'' @ itoa (ssidIdx m band) @ ''.Stats.BytesReceived''"
| "tr181_wifi m WiFiPacketsSentPath band =
     ''Device.WiFi.SSID.'' @ itoa (ssidIdx m band) @ ''.Stats.PacketsSent''"
| "tr181_wifi m WiFiPacketsReceivedPath band =
     ''Device.WiFi.SSID.'' @ itoa (ssidIdx m band) @ ''.Stats.PacketsReceived''"
| "tr181_wifi m WiFiErrorsSentPath band =
     ''Device.WiFi.SSID.'' @ itoa (ssidIdx m band) @ ''.Stats.ErrorsSent''"
| "tr181_wifi m WiFiErrorsReceivedPath band =
     ''Device.WiFi.SSID.'' @ itoa (ssidIdx m band) @ ''.Stats.ErrorsReceived''"

primrec tr181_wan :: "tr181_mapper \<Rightarrow> wan_path \<Rightarrow> string" where
  "tr181_wan m WANConnectionTypePath =
     ''Device.IP.Interface.'' @ itoa (wanIface m) @ ''.X_TP_ConnType''"
| "tr181_wan m WANPPPoEUserPath = ''Device.PPP.Interface.'' @ itoa (pppIface m) @ ''.Username''"
| "tr181_wan m WANPPPoEPassPath = ''Device.PPP.Interface.'' @ itoa (pppIface m) @ ''.Password''"
| "tr181_wan m WANIPAddressPath =
     ''Device.IP.Interface.'' @ itoa (wanIface m) @ ''.IPv4Address.1.IPAddress''"
| "tr181_wan m WANGatewayPath = ''Device.Routing.Router.1.IPv4Forwarding.1.GatewayIPAddress''"
| "tr181_wan m WANDNS1Path = ''Device.DNS.Client.Server.1.DNSServer''"
| "tr181_wan m WANDNS2Path = ''Device.DNS.Client.Server.2.DNSServer''"
| "tr181_wan m WANMTUPath = ''Device.IP.Interface.'' @ itoa (wanIface m) @ ''.MaxMTUSize''"
| "tr181_wan m WANUptimePath = ''Device.IP.Interface.'' @ itoa (wanIface m) @ ''.LastChange''"
| "tr181_wan m WANMACPath = ''Device.Ethernet.Interface.1.MACAddress''"
| "tr181_wan m WANStatusPath = ''Device.IP.Interface.'' @ itoa (wanIface m) @ ''.Status''"
| "tr181_wan m WANBytesSentPath =
     ''Device.IP.Interface.'' @ itoa (wanIface m) @ ''.Stats.BytesSent''"
| "tr181_wan m WANBytesReceivedPath =
     ''Device.IP.Interface.'' @ itoa (wanIface m) @ ''.Stats.BytesReceived''"
| "tr181_wan m WANPacketsSentPath =
     ''Device.IP.Interface.'' @ itoa (wanIface m) @ ''.Stats.PacketsSent''"
| "tr181_wan m WANPacketsReceivedPath =
     ''Device.IP.Interface.'' @ itoa (wanIface m) @ ''.Stats.PacketsReceived''"
| "tr181_wan m WANErrorsSentPath =
     ''Device.IP.Interface.'' @ itoa (wanIface m) @ ''.Stats.ErrorsSent''"
| "tr181_wan m WANErrorsReceivedPath =
     ''Device.IP.Interface.'' @ itoa (wanIface m) @ ''.Stats.ErrorsReceived''"
| "tr181_wan m WANServiceTypePath = []"

primrec tr181_sys :: "tr181_mapper \<Rightarrow> sys_path \<Rightarrow> string" where
  "tr181_sys m LANIPAddressPath =
     ''Device.IP.Interface.'' @ itoa (lanIface m) @ ''.IPv4Address.1.IPAddress''"
| "tr181_sys m LANSubnetMaskPath =
     ''Device.IP.Interface.'' @ itoa (lanIface m) @ ''.IPv4Address.1.SubnetMask''"
| "tr181_sys m DHCPServerEnablePath = ''Device.DHCPv4.Server.Enable''"
| "tr181_sys m DHCPMinAddressPath = ''Device.DHCPv4.Server.Pool.1.MinAddress''"
| "tr181_sys m DHCPMaxAddressPath = ''Device.DHCPv4.Server.Pool.1.MaxAddress''"
| "tr181_sys m LANDNSPath = ''Device.DHCPv4.Server.Pool.1.DNSServers''"
| "tr181_sys m CPEUptimePath = ''Device.DeviceInfo.UpTime''"
| "tr181_sys m RAMTotalPath = ''Device.DeviceInfo.MemoryStatus.Total''"
| "tr181_sys m RAMFreePath = ''Device.DeviceInfo.MemoryStatus.Free''"
| "tr181_sys m ManagementServerURLPath = ''Device.ManagementServer.URL''"
| "tr181_sys m ManagementServerUserPath = ''Device.ManagementServer.Username''"
| "tr181_sys m ManagementServerPassPath = ''Device.ManagementServer.Password''"
| "tr181_sys m ManagementServerInformIntervalPath =
     ''Device.ManagementServer.PeriodicInformInterval''"
| "tr181_sys m HostsBasePath = ''Device.Hosts.Host.''"
| "tr181_sys m HostsCountPath = ''Device.Hosts.HostNumberOfEntries''"
| "tr181_sys m PingDiagBasePath = ''Device.IP.Diagnostics.IPPing.''"
| "tr181_sys m TracerouteDiagBasePath = ''Device.IP.Diagnostics.TraceRoute.''"
| "tr181_sys m DownloadDiagBasePath = ''Device.IP.Diagnostics.DownloadDiagnostics.''"
| "tr181_sys m UploadDiagBasePath = ''Device.IP.Diagnostics.UploadDiagnostics.''"
| "tr181_sys m PortMappingBasePath = ''Device.NAT.PortMapping.''"
| "tr181_sys m PortMappingCountPath = ''Device.NAT.PortMappingNumberOfEntries''"
| "tr181_sys m WebAdminPasswordPath = ''Device.Users.User.1.Password''"
| "tr181_sys m BandSteeringPath = []"


subsection \<open>tr098.go\<close>

record tr098_mapper =
  m0_WANDeviceIdx :: int
  m0_WANConnDevIdx :: int
  m0_WANIPConnIdx :: int
  m0_WANPPPConnIdx :: int
  m0_LANDeviceIdx :: int
  m0_WLANIndices :: "int list"

definition zero_tr098 :: tr098_mapper where
  "zero_tr098 = \<lparr> m0_WANDeviceIdx = 0, m0_WANConnDevIdx = 0, m0_WANIPConnIdx = 0,
     m0_WANPPPConnIdx = 0, m0_LANDeviceIdx = 0, m0_WLANIndices = [] \<rparr>"

definition wanDev :: "tr098_mapper \<Rightarrow> int" where
  "wanDev m = (if m0_WANDeviceIdx m > 0 then m0_WANDeviceIdx m else 1)"

definition wanConn :: "tr098_mapper \<Rightarrow> int" where
  "wanConn m = (if m0_WANConnDevIdx m > 0 then m0_WANConnDevIdx m else 1)"

definition wanIPConn :: "tr098_mapper \<Rightarrow> int" where
  "wanIPConn m = (if m0_WANIPConnIdx m > 0 then m0_WANIPConnIdx m else 1)"

definition wanPPPConn :: "tr098_mapper \<Rightarrow> int" where
  "wanPPPConn m = (if m0_WANPPPConnIdx m > 0 then m0_WANPPPConnIdx m else 1)"

definition lanDev :: "tr098_mapper \<Rightarrow> int" where
  "lanDev m = (if m0_LANDeviceIdx m > 0 then m0_LANDeviceIdx m else 1)"

definition wlanIdx :: "tr098_mapper \<Rightarrow> nat \<Rightarrow> int" where
  "wlanIdx m band = override_idx (m0_WLANIndices m) band"

definition wanBase :: "tr098_mapper \<Rightarrow> string" where
  "wanBase m =
     ''InternetGatewayDevice.WANDevice.'' @ itoa (wanDev m) @ ''.WANConnectionDevice.'' @ itoa (wanConn m)"

definition wlanBase :: "tr098_mapper \<Rightarrow> nat \<Rightarrow> string" where
  "wlanBase m band =
     ''InternetGatewayDevice.LANDevice.'' @ itoa (lanDev m) @ ''.WLANConfiguration.'' @ itoa (wlanIdx m band)"

text \<open>Both branches of \<^verbatim>\<open>DetectModel\<close> return TR-098.\<close>

definition tr098_DetectModel :: "params \<Rightarrow> model_type" where
  "tr098_DetectModel ps =
     (if \<exists>kv \<in> set ps. has_prefix (fst kv) ''InternetGatewayDevice.'' then TR098 else TR098)"

definition tr098_ExtractDeviceInfo :: "tr098_mapper \<Rightarrow> params \<Rightarrow> unified_device" where
  "tr098_ExtractDeviceInfo m ps =
     (let wanIPBase = wanBase m @ ''.WANIPConnection.'' @ itoa (wanIPConn m);
          lanBase = ''InternetGatewayDevice.LANDevice.'' @ itoa (lanDev m) @
            ''.LANHostConfigManagement.IPInterface.1''
      in \<lparr> ud_Manufacturer = mget ps ''InternetGatewayDevice.DeviceInfo.Manufacturer'',
           ud_ModelName = mget ps ''InternetGatewayDevice.DeviceInfo.ModelName'',
           ud_Serial = mget ps ''InternetGatewayDevice.DeviceInfo.SerialNumber'',
           ud_OUI = mget ps ''InternetGatewayDevice.DeviceInfo.ManufacturerOUI'',
           ud_ProductClass = mget ps ''InternetGatewayDevice.DeviceInfo.ProductClass'',
           ud_SWVersion = mget ps ''InternetGatewayDevice.DeviceInfo.SoftwareVersion'',
           ud_HWVersion = mget ps ''InternetGatewayDevice.DeviceInfo.HardwareVersion'',
           ud_WANIP = mget ps (wanIPBase @ ''.ExternalIPAddress''),
           ud_LANIP = mget ps (lanBase @ ''.IPInterfaceIPAddress'') \<rparr>)"

primrec tr098_wifi :: "tr098_mapper \<Rightarrow> wifi_path \<Rightarrow> nat \<Rightarrow> string" where
  "tr098_wifi m WiFiSSIDPath band = wlanBase m band @ ''.SSID''"
| "tr098_wifi m WiFiPasswordPath band = wlanBase m band @ ''.PreSharedKey.1.KeyPassphrase''"
| "tr098_wifi m WiFiEnabledPath band = wlanBase m band @ ''.Enable''"
| "tr098_wifi m WiFiChannelPath band = wlanBase m band @ ''.Channel''"
| "tr098_wifi m WiFiBSSIDPath band = wlanBase m band @ ''.BSSID''"
| "tr098_wifi m WiFiStandardPath band = wlanBase m band @ ''.Standard''"
| "tr098_wifi m WiFiSecurityModePath band = wlanBase m band @ ''.BeaconType''"
| "tr098_wifi m WiFiChannelWidthPath band = wlanBase m band @ ''.OperatingChannelBandwidth''"
| "tr098_wifi m WiFiTXPowerPath band = wlanBase m band @ ''.TransmitPower''"
| "tr098_wifi m WiFiClientCountPath band = wlanBase m band @ ''.TotalAssociations''"
| "tr098_wifi m WiFiBytesSentPath band = wlanBase m band @ ''.Stats.BytesSent''"
| "tr098_wifi m WiFiBytesReceivedPath band = wlanBase m band @ ''.Stats.BytesReceived''"
| "tr098_wifi m WiFiPacketsSentPath band = wlanBase m band @ ''.Stats.PacketsSent''"
| "tr098_wifi m WiFiPacketsReceivedPath band = wlanBase m band @ ''.Stats.PacketsReceived''"
| "tr098_wifi m WiFiErrorsSentPath band = wlanBase m band @ ''.Stats.ErrorsSent''"
| "tr098_wifi m WiFiErrorsReceivedPath band = wlanBase m band @ ''.Stats.ErrorsReceived''"

primrec tr098_wan :: "tr098_mapper \<Rightarrow> wan_path \<Rightarrow> string" where
  "tr098_wan m WANConnectionTypePath =
     wanBase m @ ''.WANIPConnection.'' @ itoa (wanIPConn m) @ ''.ConnectionType''"
| "tr098_wan m WANPPPoEUserPath =
     wanBase m @ ''.WANPPPConnection.'' @ itoa (wanPPPConn m) @ ''.Username''"
| "tr098_wan m WANPPPoEPassPath =
     wanBase m @ ''.WANPPPConnection.'' @ itoa (wanPPPConn m) @ ''.Password''"
| "tr098_wan m WANIPAddressPath =
     wanBase m @ ''.WANIPConnection.'' @ itoa (wanIPConn m) @ ''.ExternalIPAddress''"
| "tr098_wan m WANGatewayPath =
     wanBase m @ ''.WANIPConnection.'' @ itoa (wanIPConn m) @ ''.DefaultGateway''"
| "tr098_wan m WANDNS1Path =
     wanBase m @ ''.WANIPConnection.'' @ itoa (wanIPConn m) @ ''.DNSServers''"
| "tr098_wan m WANDNS2Path =
     wanBase m @ ''.WANIPConnection.'' @ itoa (wanIPConn m) @ ''.DNSServers''"
| "tr098_wan m WANMTUPath =
     wanBase m @ ''.WANIPConnection.'' @ itoa (wanIPConn m) @ ''.MaxMTUSize''"
| "tr098_wan m WANUptimePath = wanBase m @ ''.WANIPConnection.'' @ itoa (wanIPConn m) @ ''.Uptime''"
| "tr098_wan m WANMACPath =
     ''InternetGatewayDevice.WANDevice.'' @ itoa (wanDev m) @ ''.WANEthernetInterfaceConfig.MACAddress''"
| "tr098_wan m WANStatusPath =
     wanBase m @ ''.WANPPPConnection.'' @ itoa (wanPPPConn m) @ ''.ConnectionStatus''"
| "tr098_wan m WANBytesSentPath =
     ''InternetGatewayDevice.WANDevice.'' @ itoa (wanDev m) @ ''.WANCommonInterfaceConfig.TotalBytesSent''"
| "tr098_wan m WANBytesReceivedPath =
     ''InternetGatewayDevice.WANDevice.'' @ itoa (wanDev m) @ ''.WANCommonInterfaceConfig.TotalBytesReceived''"
| "tr098_wan m WANPacketsSentPath =
     ''InternetGatewayDevice.WANDevice.'' @ itoa (wanDev m) @ ''.WANCommonInterfaceConfig.TotalPacketsSent''"
| "tr098_wan m WANPacketsReceivedPath =
     ''InternetGatewayDevice.WANDevice.'' @ itoa (wanDev m) @ ''.WANCommonInterfaceConfig.TotalPacketsReceived''"
| "tr098_wan m WANErrorsSentPath = []"
| "tr098_wan m WANErrorsReceivedPath = []"
| "tr098_wan m WANServiceTypePath = []"

primrec tr098_sys :: "tr098_mapper \<Rightarrow> sys_path \<Rightarrow> string" where
  "tr098_sys m LANIPAddressPath =
     ''InternetGatewayDevice.LANDevice.'' @ itoa (lanDev m) @ ''.LANHostConfigManagement.IPInterface.1.IPInterfaceIPAddress''"
| "tr098_sys m LANSubnetMaskPath =
     ''InternetGatewayDevice.LANDevice.'' @ itoa (lanDev m) @ ''.LANHostConfigManagement.IPInterface.1.IPInterfaceSubnetMask''"
| "tr098_sys m DHCPServerEnablePath =
     ''InternetGatewayDevice.LANDevice.'' @ itoa (lanDev m) @ ''.LANHostConfigManagement.DHCPServerEnable''"
| "tr098_sys m DHCPMinAddressPath =
     ''InternetGatewayDevice.LANDevice.'' @ itoa (lanDev m) @ ''.LANHostConfigManagement.MinAddress''"
| "tr098_sys m DHCPMaxAddressPath =
     ''InternetGatewayDevice.LANDevice.'' @ itoa (lanDev m) @ ''.LANHostConfigManagement.MaxAddress''"
| "tr098_sys m LANDNSPath =
     ''InternetGatewayDevice.LANDevice.'' @ itoa (lanDev m) @ ''.LANHostConfigManagement.DNSServers''"
| "tr098_sys m CPEUptimePath = ''InternetGatewayDevice.DeviceInfo.UpTime''"
| "tr098_sys m RAMTotalPath = ''InternetGatewayDevice.DeviceInfo.MemoryStatus.Total''"
| "tr098_sys m RAMFreePath = ''InternetGatewayDevice.DeviceInfo.MemoryStatus.Free''"
| "tr098_sys m ManagementServerURLPath = ''InternetGatewayDevice.ManagementServer.URL''"
| "tr098_sys m ManagementServerUserPath = ''InternetGatewayDevice.ManagementServer.Username''"
| "tr098_sys m ManagementServerPassPath = ''InternetGatewayDevice.ManagementServer.Password''"
| "tr098_sys m ManagementServerInformIntervalPath =
     ''InternetGatewayDevice.ManagementServer.PeriodicInformInterval''"
| "tr098_sys m HostsBasePath =
     ''InternetGatewayDevice.LANDevice.'' @ itoa (lanDev m) @ ''.Hosts.Host.''"
| "tr098_sys m HostsCountPath =
     ''InternetGatewayDevice.LANDevice.'' @ itoa (lanDev m) @ ''.Hosts.HostNumberOfEntries''"
| "tr098_sys m PingDiagBasePath = ''InternetGatewayDevice.IPPingDiagnostics.''"
| "tr098_sys m TracerouteDiagBasePath = ''InternetGatewayDevice.TraceRouteDiagnostics.''"
| "tr098_sys m DownloadDiagBasePath = ''InternetGatewayDevice.DownloadDiagnostics.''"
| "tr098_sys m UploadDiagBasePath = ''InternetGatewayDevice.UploadDiagnostics.''"
| "tr098_sys m PortMappingBasePath =
     wanBase m @ ''.WANIPConnection.'' @ itoa (wanIPConn m) @ ''.PortMapping.''"
| "tr098_sys m PortMappingCountPath =
     wanBase m @ ''.WANIPConnection.'' @ itoa (wanIPConn m) @ ''.PortMappingNumberOfEntries''"
| "tr098_sys m WebAdminPasswordPath = []"
| "tr098_sys m BandSteeringPath = []"


subsection \<open>Detection\<close>

definition DetectFromRootObject :: "string \<Rightarrow> model_type" where
  "DetectFromRootObject root = (if root = ''Device.'' \<or> root = ''Device'' then TR181 else TR098)"

end
