(* ===== verification/Ip_Classify.thy ===== *)
theory Ip_Classify
  imports Acs_Prelude "HOL-Library.Word"
begin

section \<open>internal/datamodel/instances.go: address classification\<close>

text \<open>
  \<^verbatim>\<open>isPrivateIP\<close> and \<^verbatim>\<open>isPublicIP\<close>, on top of \<^verbatim>\<open>net.ParseIP\<close> and
  \<^verbatim>\<open>IP.To4\<close> of the standard library: an address is the list of its 16 bytes, an IPv4
  address being mapped into the last four.
\<close>

subsection \<open>net.ParseIP\<close>

text \<open>One decimal field: no empty field, no leading zero, at most 255.\<close>

fun ip_field :: "nat \<Rightarrow> string \<Rightarrow> nat option" where
  "ip_field acc [] = Some acc"
| "ip_field acc (c # cs) =
     (if \<not> is_digit c then None
      else let v = 10 * acc + digit_val c in if v > 255 then None else ip_field v cs)"

definition ipv4_octet :: "string \<Rightarrow> nat option" where
  "ipv4_octet s =
     (if s = [] then None else if hd s = CHR ''0'' \<and> length s > 1 then None else ip_field 0 s)"

definition parse_ipv4 :: "string \<Rightarrow> nat list option" where
  "parse_ipv4 s =
     (case split_on CHR ''.'' s of
        [a, b, c, d] \<Rightarrow>
          (case (ipv4_octet a, ipv4_octet b, ipv4_octet c, ipv4_octet d) of
             (Some w, Some x, Some y, Some z) \<Rightarrow> Some [w, x, y, z]
           | _ \<Rightarrow> None)
      | _ \<Rightarrow> None)"

definition hex_val :: "char \<Rightarrow> nat option" where
  "hex_val c =
     (let n = (of_char c :: nat) in
      if 48 \<le> n \<and> n \<le> 57 then Some (n - 48)
      else if 97 \<le> n \<and> n \<le> 102 then Some (n - 87)
      else if 65 \<le> n \<and> n \<le> 70 then Some (n - 55)
      else None)"

definition is_hex :: "char \<Rightarrow> bool" where "is_hex c \<longleftrightarrow> hex_val c \<noteq> None"

definition hex_num :: "string \<Rightarrow> nat" where
  "hex_num s = foldl (\<lambda>a c. 16 * a + the (hex_val c)) 0 s"

text \<open>
  The loop over the groups of an IPv6 address: the bytes so far, the position of the ellipsis
  if one was seen, and the rest of the text, which is not empty.
\<close>

function parse_ipv6_groups ::
    "nat list \<Rightarrow> nat option \<Rightarrow> string \<Rightarrow> (nat list \<times> nat option) option" where
  "parse_ipv6_groups bs ell s =
     (if length bs \<ge> 16 then None
      else
        let ds = takeWhile is_hex s; rest = dropWhile is_hex s; v = hex_num ds in
        if ds = [] \<or> length ds > 4 then None
        else if rest \<noteq> [] \<and> hd rest = CHR ''.'' then
          if (ell = None \<and> length bs \<noteq> 12) \<or> length bs + 4 > 16 then None
          else (case parse_ipv4 s of None \<Rightarrow> None | Some q \<Rightarrow> Some (bs @ q, ell))
        else
          let bs' = bs @ [v div 256, v mod 256] in
          (case rest of
             [] \<Rightarrow> Some (bs', ell)
           | c # more \<Rightarrow>
               if c \<noteq> CHR '':'' \<or> more = [] then None
               else if hd more = CHR '':'' then
                 if ell \<noteq> None then None
                 else if tl more = [] then Some (bs', Some (length bs'))
                 else parse_ipv6_groups bs' (Some (length bs')) (tl more)
               else parse_ipv6_groups bs' ell more))"
  by pat_completeness auto
termination
  by (relation "measure (\<lambda>(bs, ell, s). 16 - length bs)") auto

declare parse_ipv6_groups.simps [simp del]

text \<open>The ellipsis stands for at least one group of zeros.\<close>

definition expand_ellipsis :: "nat list \<times> nat option \<Rightarrow> nat list option" where
  "expand_ellipsis r =
     (case r of
        (bs, None) \<Rightarrow> if length bs = 16 then Some bs else None
      | (bs, Some e) \<Rightarrow>
          if length bs < 16 then Some (take e bs @ replicate (16 - length bs) 0 @ drop e bs) else None)"

definition parse_ipv6 :: "string \<Rightarrow> nat list option" where
  "parse_ipv6 s =
     (if has_prefix s ''::'' then
        if length s = 2 then Some (replicate 16 0)
        else (case parse_ipv6_groups [] (Some 0) (drop 2 s) of
                None \<Rightarrow> None | Some r \<Rightarrow> expand_ellipsis r)
      else (case parse_ipv6_groups [] None s of None \<Rightarrow> None | Some r \<Rightarrow> expand_ellipsis r))"

text \<open>The first dot or colon decides the family; a zone, which follows a percent sign, is refused.\<close>

definition ParseIP :: "string \<Rightarrow> nat list option" where
  "ParseIP s =
     (case dropWhile (\<lambda>c. c \<noteq> CHR ''.'' \<and> c \<noteq> CHR '':'' \<and> c \<noteq> CHR ''%'') s of
        [] \<Rightarrow> None
      | c # _ \<Rightarrow>
          if c = CHR ''.'' then
            (case parse_ipv4 s of None \<Rightarrow> None | Some q \<Rightarrow> Some (replicate 10 0 @ [255, 255] @ q))
          else if c = CHR '':'' then (if CHR ''%'' \<in> set s then None else parse_ipv6 s)
          else None)"

definition To4 :: "nat list \<Rightarrow> (nat \<times> nat \<times> nat \<times> nat) option" where
  "To4 ip =
     (if length ip = 16 \<and> take 12 ip = replicate 10 0 @ [255, 255]
      then Some (ip ! 12, ip ! 13, ip ! 14, ip ! 15) else None)"

subsection \<open>Ranges\<close>

definition ip4_word :: "nat \<times> nat \<times> nat \<times> nat \<Rightarrow> 32 word" where
  "ip4_word q = (case q of (a, b, c, d) \<Rightarrow> ((of_nat a * 256 + of_nat b) * 256 + of_nat c) * 256 + of_nat d)"

text \<open>\<^verbatim>\<open>net.IPNet\<close>: a network address and its mask.\<close>

definition parse_cidr :: "nat \<times> nat \<times> nat \<times> nat \<Rightarrow> nat \<Rightarrow> 32 word \<times> 32 word" where
  "parse_cidr q n = (let m = push_bit (32 - n) (- 1) in (and (ip4_word q) m, m))"

definition net_contains :: "32 word \<times> 32 word \<Rightarrow> nat \<times> nat \<times> nat \<times> nat \<Rightarrow> bool" where
  "net_contains r q \<longleftrightarrow> and (ip4_word q) (snd r) = fst r"

definition privateRanges :: "(32 word \<times> 32 word) list" where
  "privateRanges =
     [parse_cidr (10, 0, 0, 0) 8, parse_cidr (172, 16, 0, 0) 12, parse_cidr (192, 168, 0, 0) 16,
      parse_cidr (127, 0, 0, 0) 8, parse_cidr (169, 254, 0, 0) 16, parse_cidr (100, 64, 0, 0) 10]"

definition isPrivateIP :: "string \<Rightarrow> bool" where
  "isPrivateIP s =
     (case ParseIP s of
        None \<Rightarrow> False
      | Some ip \<Rightarrow>
          (case To4 ip of
             None \<Rightarrow> False
           | Some q \<Rightarrow> list_ex (\<lambda>r. net_contains r q) privateRanges))"

definition isPublicIP :: "string \<Rightarrow> bool" where
  "isPublicIP s =
     (case ParseIP s of
        None \<Rightarrow> False
      | Some ip \<Rightarrow>
          (case To4 ip of
             None \<Rightarrow> False
           | Some (a, b, c, d) \<Rightarrow>
               if a = 127 \<or> (a = 169 \<and> b = 254) \<or> (a = 0 \<and> b = 0 \<and> c = 0 \<and> d = 0) then False
               else \<not> isPrivateIP s))"

unbundle bit_operations_syntax

subsection \<open>The ranges in terms of the octets\<close>

definition dotted :: "nat \<Rightarrow> nat \<Rightarrow> nat \<Rightarrow> nat \<Rightarrow> string" where
  "dotted a b c d = show_nat a @ ''.'' @ show_nat b @ ''.'' @ show_nat c @ ''.'' @ show_nat d"

lemma ip_field_append: "ip_field m xs = Some k \<Longrightarrow> ip_field m (xs @ ys) = ip_field k ys"
  by (induction m xs rule: ip_field.induct) (auto simp: Let_def split: if_splits)

lemma ip_field_show: "n \<le> 255 \<Longrightarrow> ip_field 0 (show_nat n) = Some n"
proof (induction n rule: show_nat.induct)
  case (1 n)
  show ?case
  proof (cases "n < 10")
    case True
    then show ?thesis by (subst show_nat.simps) (simp add: Let_def)
  next
    case False
    with 1 have "ip_field 0 (show_nat (n div 10)) = Some (n div 10)" by simp
    moreover have "show_nat n = show_nat (n div 10) @ [digit_char (n mod 10)]"
      using False by (subst show_nat.simps) simp
    ultimately show ?thesis using "1.prems" by (simp add: ip_field_append Let_def)
  qed
qed

lemma digit_char_zero:
  assumes "d < 10"
  shows "digit_char d = CHR ''0'' \<longleftrightarrow> d = 0"
proof
  assume "digit_char d = CHR ''0''"
  then have "(of_char (digit_char d) :: nat) = of_char (CHR ''0'')" by (rule arg_cong)
  with assms show "d = 0" by simp
next
  assume "d = 0"
  moreover have "char_of (of_char (CHR ''0'') :: nat) = CHR ''0''" by (rule char_of_char)
  ultimately show "digit_char d = CHR ''0''" by (simp add: digit_char_def)
qed

lemma hd_show_nat: "0 < n \<Longrightarrow> hd (show_nat n) \<noteq> CHR ''0''"
proof (induction n rule: show_nat.induct)
  case (1 n)
  show ?case
  proof (cases "n < 10")
    case True
    with 1 show ?thesis by (subst show_nat.simps) (simp add: digit_char_zero)
  next
    case False
    with 1 show ?thesis by (subst show_nat.simps) simp
  qed
qed

lemma ipv4_octet_show [simp]: "n < 256 \<Longrightarrow> ipv4_octet (show_nat n) = Some n"
proof (cases "n = 0")
  case True
  then show ?thesis by (simp add: ipv4_octet_def show_nat.simps ip_field_show digit_char_def is_digit_def digit_val_def)
next
  case False
  assume "n < 256"
  with False hd_show_nat [of n] ip_field_show [of n] show ?thesis by (simp add: ipv4_octet_def)
qed

lemma show_nat_no_sep:
  assumes "\<not> is_digit c"
  shows "c \<notin> set (show_nat n)"
  using assms show_nat_digits [of n] by (auto simp: list_all_iff)

lemma parse_ipv4_dotted [simp]:
  "a < 256 \<Longrightarrow> b < 256 \<Longrightarrow> c < 256 \<Longrightarrow> d < 256 \<Longrightarrow> parse_ipv4 (dotted a b c d) = Some [a, b, c, d]"
proof -
  have nd: "CHR ''.'' \<notin> set (show_nat n)" for n by (rule show_nat_no_sep) (simp add: is_digit_def)
  assume "a < 256" "b < 256" "c < 256" "d < 256"
  then show ?thesis
    by (simp add: parse_ipv4_def dotted_def split_on_append nd split_on_no_occ)
qed

lemma ParseIP_dotted [simp]:
  assumes "a < 256" "b < 256" "c < 256" "d < 256"
  shows "ParseIP (dotted a b c d) = Some (replicate 10 0 @ [255, 255] @ [a, b, c, d])"
proof -
  let ?P = "\<lambda>c. c \<noteq> CHR ''.'' \<and> c \<noteq> CHR '':'' \<and> c \<noteq> CHR ''%''"
  have "\<forall>c \<in> set (show_nat a). ?P c"
    using show_nat_digits [of a] by (auto simp: list_all_iff is_digit_def)
  then have "dropWhile ?P (show_nat a @ CHR ''.'' # rest) = CHR ''.'' # rest" for rest
    by (simp add: dropWhile_append3)
  moreover have "parse_ipv4 (show_nat a @ CHR ''.'' # show_nat b @ CHR ''.'' # show_nat c @ CHR ''.'' # show_nat d)
      = Some [a, b, c, d]"
    using parse_ipv4_dotted [OF assms] by (simp add: dotted_def)
  ultimately show ?thesis by (simp add: ParseIP_def dotted_def)
qed

lemma To4_mapped [simp]: "To4 (replicate 10 0 @ [255, 255] @ [a, b, c, d]) = Some (a, b, c, d)"
  by (simp add: To4_def numeral_eq_Suc)

definition ip4_nat :: "nat \<times> nat \<times> nat \<times> nat \<Rightarrow> nat" where
  "ip4_nat q = (case q of (a, b, c, d) \<Rightarrow> ((a * 256 + b) * 256 + c) * 256 + d)"

lemma ip4_word_nat: "ip4_word q = word_of_nat (ip4_nat q)"
  by (simp add: ip4_word_def ip4_nat_def split: prod.splits)

lemma net_contains_cidr:
  "net_contains (parse_cidr p n) q \<longleftrightarrow> drop_bit (32 - n) (ip4_word q) = drop_bit (32 - n) (ip4_word p)"
proof -
  have m: "x AND push_bit k (- 1) = push_bit k (drop_bit k x)" for x :: "32 word" and k
    by (rule bit_eqI) (auto simp: bit_simps)
  have "drop_bit k (push_bit k (drop_bit k z)) = drop_bit k z" for z :: "32 word" and k
    by (rule bit_eqI) (auto simp: bit_simps dest: bit_imp_le_length)
  then have inj: "push_bit k (drop_bit k x) = push_bit k (drop_bit k y) \<longleftrightarrow> drop_bit k x = drop_bit k y"
    for x y :: "32 word" and k by metis
  show ?thesis unfolding net_contains_def parse_cidr_def Let_def fst_conv snd_conv m by (rule inj)
qed

lemma net_contains_nat:
  assumes "ip4_nat p < 2 ^ 32" and "ip4_nat q < 2 ^ 32"
  shows "net_contains (parse_cidr p n) q \<longleftrightarrow> ip4_nat q div 2 ^ (32 - n) = ip4_nat p div 2 ^ (32 - n)"
proof -
  have u: "unat (drop_bit k (ip4_word r)) = ip4_nat r div 2 ^ k" if "ip4_nat r < 2 ^ 32" for r k
    unfolding unat_drop_bit_eq unfolding drop_bit_eq_div
    using that by (simp add: ip4_word_nat unat_of_nat take_bit_eq_mod)
  have "drop_bit k (ip4_word q) = drop_bit k (ip4_word p) \<longleftrightarrow>
      unat (drop_bit k (ip4_word q)) = unat (drop_bit k (ip4_word p))" for k
    by (rule word_unat_eq_iff)
  then show ?thesis using u assms by (simp add: net_contains_cidr)
qed

lemma ip4_nat_bound: "a < 256 \<Longrightarrow> b < 256 \<Longrightarrow> c < 256 \<Longrightarrow> d < 256 \<Longrightarrow> ip4_nat (a, b, c, d) < 2 ^ 32"
  by (simp add: ip4_nat_def)

definition private_octets :: "nat \<Rightarrow> nat \<Rightarrow> bool" where
  "private_octets a b \<longleftrightarrow>
     a = 10 \<or> (a = 172 \<and> 16 \<le> b \<and> b \<le> 31) \<or> (a = 192 \<and> b = 168) \<or> a = 127 \<or>
     (a = 169 \<and> b = 254) \<or> (a = 100 \<and> 64 \<le> b \<and> b \<le> 127)"

lemma div_octets:
  assumes "a < 256" "b < 256" "c < 256" "d < (256::nat)"
  shows "ip4_nat (a, b, c, d) div 16777216 = a"
    and "ip4_nat (a, b, c, d) div 65536 = a * 256 + b"
    and "ip4_nat (a, b, c, d) div 1048576 = a * 16 + b div 16"
    and "ip4_nat (a, b, c, d) div 4194304 = a * 4 + b div 64"
  using assms unfolding ip4_nat_def by simp_all

lemma digits_eq:
  fixes a b x y n :: nat
  assumes "b < n" "y < n"
  shows "a * n + b = x * n + y \<longleftrightarrow> a = x \<and> b = y"
proof
  assume h: "a * n + b = x * n + y"
  have "(a * n + b) div n = a" "(x * n + y) div n = x" "(a * n + b) mod n = b" "(x * n + y) mod n = y"
    using assms by simp_all
  with h show "a = x \<and> b = y" by metis
qed simp

lemma private_ranges_octets:
  assumes "a < 256" "b < 256" "c < 256" "d < (256::nat)"
  shows "list_ex (\<lambda>r. net_contains r (a, b, c, d)) privateRanges \<longleftrightarrow> private_octets a b"
proof -
  note q = ip4_nat_bound [OF assms]
  have e: "net_contains (parse_cidr p n) (a, b, c, d) \<longleftrightarrow>
      ip4_nat (a, b, c, d) div 2 ^ (32 - n) = ip4_nat p div 2 ^ (32 - n)" if "ip4_nat p < 2 ^ 32" for p n
    using that q by (rule net_contains_nat)
  have r0: "net_contains (parse_cidr (10, 0, 0, 0) 8) (a, b, c, d) \<longleftrightarrow> a = 10"
    using e [of "(10, 0, 0, 0)" 8] by (simp add: div_octets [OF assms] ip4_nat_def [of "(10, 0, 0, 0)"])
  have r1: "net_contains (parse_cidr (127, 0, 0, 0) 8) (a, b, c, d) \<longleftrightarrow> a = 127"
    using e [of "(127, 0, 0, 0)" 8] by (simp add: div_octets [OF assms] ip4_nat_def [of "(127, 0, 0, 0)"])
  have r2: "net_contains (parse_cidr (192, 168, 0, 0) 16) (a, b, c, d) \<longleftrightarrow> a * 256 + b = 49320"
    using e [of "(192, 168, 0, 0)" 16] by (simp add: div_octets [OF assms] ip4_nat_def [of "(192, 168, 0, 0)"])
  have r3: "net_contains (parse_cidr (169, 254, 0, 0) 16) (a, b, c, d) \<longleftrightarrow> a * 256 + b = 43518"
    using e [of "(169, 254, 0, 0)" 16] by (simp add: div_octets [OF assms] ip4_nat_def [of "(169, 254, 0, 0)"])
  have r4: "net_contains (parse_cidr (172, 16, 0, 0) 12) (a, b, c, d) \<longleftrightarrow> a * 16 + b div 16 = 2753"
    using e [of "(172, 16, 0, 0)" 12] by (simp add: div_octets [OF assms] ip4_nat_def [of "(172, 16, 0, 0)"])
  have r5: "net_contains (parse_cidr (100, 64, 0, 0) 10) (a, b, c, d) \<longleftrightarrow> a * 4 + b div 64 = 401"
    using e [of "(100, 64, 0, 0)" 10] by (simp add: div_octets [OF assms] ip4_nat_def [of "(100, 64, 0, 0)"])
  note r = r0 r1 r2 r3 r4 r5
  have "a * 256 + b = 49320 \<longleftrightarrow> a = 192 \<and> b = 168" "a * 256 + b = 43518 \<longleftrightarrow> a = 169 \<and> b = 254"
    using digits_eq [of b 256 168 a 192] digits_eq [of b 256 254 a 169] assms by simp_all
  moreover have "a * 16 + b div 16 = 2753 \<longleftrightarrow> a = 172 \<and> 16 \<le> b \<and> b \<le> 31"
  proof -
    have "b div 16 = 1 \<longleftrightarrow> 16 \<le> b \<and> b \<le> 31" by linarith
    then show ?thesis using digits_eq [of "b div 16" 16 1 a 172] assms by simp
  qed
  moreover have "a * 4 + b div 64 = 401 \<longleftrightarrow> a = 100 \<and> 64 \<le> b \<and> b \<le> 127"
  proof -
    have "b div 64 = 1 \<longleftrightarrow> 64 \<le> b \<and> b \<le> 127" by linarith
    then show ?thesis using digits_eq [of "b div 64" 4 1 a 100] assms by simp
  qed
  ultimately show ?thesis by (auto simp: privateRanges_def private_octets_def r)
qed

lemma public_not_private: "isPublicIP s \<Longrightarrow> \<not> isPrivateIP s"
  by (auto simp: isPublicIP_def split: option.splits prod.splits if_splits)



end
