(* ===== verification/Regex.thy ===== *)
theory Regex
  imports Acs_Prelude
begin

section \<open>The regular expressions of the instance scanner\<close>

text \<open>
  Every pattern the scanner compiles is a sequence of literal texts and digit runs, some of them
  captured, with an optional anchor at each end. Matching is that of package
  \<^verbatim>\<open>regexp\<close>: leftmost, with greedy digit runs.
\<close>

datatype re_item = Lit string | Digits | Capture

fun digit_run :: "string \<Rightarrow> nat" where
  "digit_run [] = 0"
| "digit_run (c # cs) = (if is_digit c then Suc (digit_run cs) else 0)"

text \<open>Try a digit run of length \<^term>\<open>n\<close> first, then shorter ones, never an empty one.\<close>

fun try_run :: "(string \<Rightarrow> string list option) \<Rightarrow> bool \<Rightarrow> nat \<Rightarrow> string \<Rightarrow> string list option" where
  "try_run k cap 0 s = None"
| "try_run k cap (Suc n) s =
     (case k (drop (Suc n) s) of
        Some ms \<Rightarrow> Some (if cap then take (Suc n) s # ms else ms)
      | None \<Rightarrow> try_run k cap n s)"

text \<open>A match at the start of the text; \<^verbatim>\<open>anchored\<close> asks it to end at the end.\<close>

primrec match_here :: "re_item list \<Rightarrow> bool \<Rightarrow> string \<Rightarrow> string list option" where
  "match_here [] anchored s = (if anchored \<and> s \<noteq> [] then None else Some [])"
| "match_here (p # ps) anchored s =
     (case p of
        Lit l \<Rightarrow> if has_prefix s l then match_here ps anchored (drop (length l) s) else None
      | Digits \<Rightarrow> try_run (match_here ps anchored) False (digit_run s) s
      | Capture \<Rightarrow> try_run (match_here ps anchored) True (digit_run s) s)"

text \<open>The leftmost match anywhere in the text.\<close>

fun match_anywhere :: "re_item list \<Rightarrow> bool \<Rightarrow> string \<Rightarrow> string list option" where
  "match_anywhere ps anchored [] = match_here ps anchored []"
| "match_anywhere ps anchored (c # cs) =
     (case match_here ps anchored (c # cs) of
        Some ms \<Rightarrow> Some ms
      | None \<Rightarrow> match_anywhere ps anchored cs)"

record regex =
  re_items :: "re_item list"
  re_start :: bool
  re_end :: bool

text \<open>\<^verbatim>\<open>FindStringSubmatch\<close>: the captures, without the whole match.\<close>

definition submatch :: "regex \<Rightarrow> string \<Rightarrow> string list option" where
  "submatch re s =
     (if re_start re then match_here (re_items re) (re_end re) s
      else match_anywhere (re_items re) (re_end re) s)"

text \<open>The first capture as a number, \<^verbatim>\<open>idx, _ := strconv.Atoi(m[1])\<close>.\<close>

definition first_index :: "regex \<Rightarrow> string \<Rightarrow> int option" where
  "first_index re s =
     (case submatch re s of
        None \<Rightarrow> None
      | Some [] \<Rightarrow> None
      | Some (m # _) \<Rightarrow> Some (atoi_val m))"

subsection \<open>Facts\<close>

lemma digit_run_append:
  "list_all is_digit ds \<Longrightarrow> (rest \<noteq> [] \<Longrightarrow> \<not> is_digit (hd rest)) \<Longrightarrow> digit_run (ds @ rest) = length ds"
  by (induction ds) (cases rest, auto)

lemma digit_run_le: "digit_run s \<le> length s"
  by (induction s) auto

lemma digit_run_digits: "n \<le> digit_run s \<Longrightarrow> list_all is_digit (take n s)"
proof (induction s arbitrary: n)
  case Nil
  then show ?case by simp
next
  case (Cons c cs)
  then show ?case by (cases n) (auto split: if_splits)
qed

text \<open>A capture is a non-empty run of digits.\<close>

lemma try_run_captures:
  assumes "try_run k cap n s = Some ms" and "n \<le> digit_run s"
    and "\<And>t ns. k t = Some ns \<Longrightarrow> list_all (\<lambda>m. m \<noteq> [] \<and> list_all is_digit m) ns"
  shows "list_all (\<lambda>m. m \<noteq> [] \<and> list_all is_digit m) ms"
  using assms(1,2)
proof (induction n)
  case 0
  then show ?case by simp
next
  case (Suc n)
  have "s \<noteq> []" using Suc.prems(2) by (cases s) auto
  with Suc digit_run_digits [of "Suc n" s] assms(3) show ?case
    by (auto split: option.splits if_splits)
qed

lemma match_here_captures:
  "match_here ps anchored s = Some ms \<Longrightarrow> list_all (\<lambda>m. m \<noteq> [] \<and> list_all is_digit m) ms"
proof (induction ps arbitrary: s ms)
  case Nil
  then show ?case by (auto split: if_splits)
next
  case (Cons p ps)
  show ?case
  proof (cases p)
    case (Lit l)
    with Cons show ?thesis by (auto split: if_splits)
  next
    case Digits
    with Cons.prems have "try_run (match_here ps anchored) False (digit_run s) s = Some ms" by simp
    from try_run_captures [OF this _ Cons.IH] show ?thesis by simp
  next
    case Capture
    with Cons.prems have "try_run (match_here ps anchored) True (digit_run s) s = Some ms" by simp
    from try_run_captures [OF this _ Cons.IH] show ?thesis by simp
  qed
qed

text \<open>A run followed by a text that starts with no digit is read whole.\<close>

lemma match_capture:
  assumes "list_all is_digit ds" "ds \<noteq> []" "rest \<noteq> [] \<Longrightarrow> \<not> is_digit (hd rest)"
    and "match_here ps anchored rest = Some ms"
  shows "match_here (Capture # ps) anchored (ds @ rest) = Some (ds # ms)"
proof -
  obtain n where n: "length ds = Suc n" using assms(2) by (cases ds) auto
  have "digit_run (ds @ rest) = Suc n" using assms(1,3) n by (simp add: digit_run_append)
  moreover have "take (Suc n) (ds @ rest) = ds" "drop (Suc n) (ds @ rest) = rest" using n by simp_all
  ultimately show ?thesis using assms(4) by simp
qed

lemma match_lit [simp]:
  "match_here (Lit l # ps) anchored (l @ s) = match_here ps anchored s"
  by simp

end
