(* ===== verification/Discovery.thy ===== *)
theory Discovery
  imports Datamodel Ip_Classify Regex
begin

section \<open>internal/datamodel/instances.go: instance discovery\<close>

text \<open>
  From the flat parameter map of an Inform or of a read response the scanner finds which object
  instances carry the WAN, the LAN, PPP, VLAN and WiFi of the device. Each \<^verbatim>\<open>range\<close> loop
  is a fold over the association list, so its order stands for the order Go happens to visit
  the map in; a map the scanner builds itself is visited in the order of its insertions, one of
  the orders Go allows. An index out of range, which is a panic in Go, is \<^term>\<open>None\<close>.
\<close>

subsection \<open>Hints\<close>

record band_hints =
  bh_Strategy :: string
  bh_ExplicitSSIDBand :: "(int \<times> int) list"

record discovery_hints =
  dh_WANTypePath :: string
  dh_WANTypeValuesWAN :: "string list"
  dh_WANTypeValuesLAN :: "string list"
  dh_WANServiceTypePath :: string
  dh_GPONEnablePath :: string
  dh_WANTR098VLANPathSuffix :: string
  dh_WiFiSSIDBand :: "band_hints option"

definition isTR181Params :: "params \<Rightarrow> bool" where
  "isTR181Params ps \<longleftrightarrow> list_ex (\<lambda>kv. has_prefix (fst kv) ''Device.'') ps"

subsection \<open>Patterns\<close>

definition re_full :: "re_item list \<Rightarrow> regex" where
  "re_full is = \<lparr> re_items = is, re_start = True, re_end = True \<rparr>"

definition re_prefix :: "re_item list \<Rightarrow> regex" where
  "re_prefix is = \<lparr> re_items = is, re_start = True, re_end = False \<rparr>"

definition re_inside :: "re_item list \<Rightarrow> regex" where
  "re_inside is = \<lparr> re_items = is, re_start = False, re_end = False \<rparr>"

definition reIPIfaceAddr :: regex where
  "reIPIfaceAddr = re_full [Lit ''Device.IP.Interface.'', Capture, Lit ''.IPv4Address.'', Digits, Lit ''.IPAddress'']"
definition reIPIfaceAddrType :: regex where
  "reIPIfaceAddrType = re_full [Lit ''Device.IP.Interface.'', Capture, Lit ''.IPv4Address.'', Digits, Lit ''.AddressingType'']"
definition reIPIfaceConnType :: regex where
  "reIPIfaceConnType = re_full [Lit ''Device.IP.Interface.'', Capture, Lit ''.X_TP_ConnType'']"
definition reIPIfaceLower :: regex where
  "reIPIfaceLower = re_full [Lit ''Device.IP.Interface.'', Capture, Lit ''.LowerLayers'']"
definition rePPPIface :: regex where
  "rePPPIface = re_prefix [Lit ''Device.PPP.Interface.'', Capture, Lit ''.'']"
definition rePPPIfaceRef :: regex where
  "rePPPIfaceRef = re_inside [Lit ''Device.PPP.Interface.'', Capture, Lit ''.'']"
definition reVLANTermRef :: regex where
  "reVLANTermRef = re_inside [Lit ''Device.Ethernet.VLANTermination.'', Capture, Lit ''.'']"
definition reEthLinkRef :: regex where
  "reEthLinkRef = re_inside [Lit ''Device.Ethernet.Link.'', Capture, Lit ''.'']"
definition reGPONRef :: regex where
  "reGPONRef = re_inside [Lit ''Device.X_TP_GPON.Link.'', Capture, Lit ''.'']"
definition reRadioFreq :: regex where
  "reRadioFreq = re_full [Lit ''Device.WiFi.Radio.'', Capture, Lit ''.OperatingFrequencyBand'']"
definition reRadioStd :: regex where
  "reRadioStd = re_full [Lit ''Device.WiFi.Radio.'', Capture, Lit ''.OperatingStandards'']"
definition reSSIDLower :: regex where
  "reSSIDLower = re_full [Lit ''Device.WiFi.SSID.'', Capture, Lit ''.LowerLayers'']"
definition reAPRef :: regex where
  "reAPRef = re_full [Lit ''Device.WiFi.AccessPoint.'', Capture, Lit ''.SSIDReference'']"
definition reAPAnything :: regex where
  "reAPAnything = re_prefix [Lit ''Device.WiFi.AccessPoint.'', Capture, Lit ''.'']"
definition reSSIDAnything :: regex where
  "reSSIDAnything = re_prefix [Lit ''Device.WiFi.SSID.'', Capture, Lit ''.'']"
definition reGPONLinkEnable :: regex where
  "reGPONLinkEnable = re_full [Lit ''Device.X_TP_GPON.Link.'', Capture, Lit ''.Enable'']"
definition reWANIPConn :: regex where
  "reWANIPConn = re_prefix [Lit ''InternetGatewayDevice.WANDevice.'', Capture, Lit ''.WANConnectionDevice.'', Capture, Lit ''.WANIPConnection.'', Capture, Lit ''.'']"
definition reWANPPPConn :: regex where
  "reWANPPPConn = re_prefix [Lit ''InternetGatewayDevice.WANDevice.'', Capture, Lit ''.WANConnectionDevice.'', Capture, Lit ''.WANPPPConnection.'', Capture, Lit ''.'']"
definition reLANDevice :: regex where
  "reLANDevice = re_prefix [Lit ''InternetGatewayDevice.LANDevice.'', Capture, Lit ''.'']"
definition reWLANCfg :: regex where
  "reWLANCfg = re_prefix [Lit ''InternetGatewayDevice.LANDevice.'', Digits, Lit ''.WLANConfiguration.'', Capture, Lit ''.'']"
definition reWLANChannel :: regex where
  "reWLANChannel = re_full [Lit ''InternetGatewayDevice.LANDevice.'', Digits, Lit ''.WLANConfiguration.'', Capture, Lit ''.Channel'']"
definition reWLANStd :: regex where
  "reWLANStd = re_full [Lit ''InternetGatewayDevice.LANDevice.'', Digits, Lit ''.WLANConfiguration.'', Capture, Lit ''.Standard'']"

text \<open>\<^verbatim>\<open>indexedPath\<close> and \<^verbatim>\<open>regexFromIndexedPath\<close>.\<close>

definition indexedPath :: "string \<Rightarrow> int \<Rightarrow> string" where
  "indexedPath tpl idx =
     (if tpl = [] then []
      else if contains tpl ''{i}'' then replace_all tpl ''{i}'' (itoa idx)
      else tpl)"

function placeholder_items :: "string \<Rightarrow> re_item list" where
  "placeholder_items s =
     (case s of
        [] \<Rightarrow> []
      | c # cs \<Rightarrow>
          if has_prefix s ''{i}'' then Capture # placeholder_items (drop 3 s)
          else Lit [c] # placeholder_items cs)"
  by pat_completeness auto
termination by (relation "measure length") auto

declare placeholder_items.simps [simp del]

text \<open>Without a placeholder every instance number between dots becomes a capture.\<close>

function number_items :: "string \<Rightarrow> re_item list" where
  "number_items s =
     (case s of
        [] \<Rightarrow> []
      | c # cs \<Rightarrow>
          (let n = digit_run cs in
           if c = CHR ''.'' \<and> n > 0 \<and> has_prefix (drop n cs) ''.'' then
             Lit ''.'' # Capture # Lit ''.'' # number_items (drop (Suc n) cs)
           else Lit [c] # number_items cs))"
  by pat_completeness auto
termination by (relation "measure length") auto

declare number_items.simps [simp del]

definition regexFromIndexedPath :: "string \<Rightarrow> regex" where
  "regexFromIndexedPath tpl =
     re_full (if contains tpl ''{i}'' then placeholder_items tpl else number_items tpl)"

text \<open>The number of a driver's pattern: \<^verbatim>\<open>m[1]\<close> of a pattern with no capture panics.\<close>

definition hint_regex :: "string \<Rightarrow> regex \<Rightarrow> regex" where
  "hint_regex tpl dflt = (if tpl \<noteq> [] then regexFromIndexedPath tpl else dflt)"

definition capture_panics :: "regex \<Rightarrow> string \<Rightarrow> bool" where
  "capture_panics re s \<longleftrightarrow> submatch re s = Some []"

subsection \<open>TR-181: WAN and LAN interfaces\<close>

definition hint_or_nil :: "discovery_hints option \<Rightarrow> (discovery_hints \<Rightarrow> string) \<Rightarrow> string" where
  "hint_or_nil hints f = (case hints of None \<Rightarrow> [] | Some h \<Rightarrow> f h)"

definition wan_type_regex :: "discovery_hints option \<Rightarrow> regex" where
  "wan_type_regex hints = hint_regex (hint_or_nil hints dh_WANTypePath) reIPIfaceConnType"

definition wan_type_values :: "discovery_hints option \<Rightarrow> string list" where
  "wan_type_values hints =
     (case hints of
        None \<Rightarrow> [''PPPoE'']
      | Some h \<Rightarrow> if dh_WANTypeValuesWAN h \<noteq> [] then dh_WANTypeValuesWAN h else [''PPPoE''])"

definition lan_type_values :: "discovery_hints option \<Rightarrow> string list" where
  "lan_type_values hints =
     (case hints of
        None \<Rightarrow> [''LAN'']
      | Some h \<Rightarrow> if dh_WANTypeValuesLAN h \<noteq> [] then dh_WANTypeValuesLAN h else [''LAN''])"

definition chooseTR181WANCandidate :: "params \<Rightarrow> int list \<Rightarrow> discovery_hints option \<Rightarrow> int" where
  "chooseTR181WANCandidate ps cands hints =
     (case sort cands of
        [] \<Rightarrow> 0
      | first # rest \<Rightarrow>
          (case hints of
             None \<Rightarrow> first
           | Some h \<Rightarrow>
               if dh_WANServiceTypePath h = [] then first
               else (case find (\<lambda>idx. equal_fold
                              (trim_space (mget ps (indexedPath (dh_WANServiceTypePath h) idx)))
                              ''Internet'') (first # rest) of
                       Some idx \<Rightarrow> idx
                     | None \<Rightarrow> first)))"

definition tr181ConnTypeValue :: "params \<Rightarrow> int \<Rightarrow> discovery_hints option \<Rightarrow> string" where
  "tr181ConnTypeValue ps idx hints =
     (let standard = mget ps (''Device.IP.Interface.'' @ itoa idx @ ''.X_TP_ConnType'') in
      case hints of
        None \<Rightarrow> standard
      | Some h \<Rightarrow>
          if dh_WANTypePath h \<noteq> [] \<and> indexedPath (dh_WANTypePath h) idx \<noteq> []
          then mget ps (indexedPath (dh_WANTypePath h) idx)
          else standard)"

text \<open>Pass 0: the interfaces a connection-type parameter declares, by value.\<close>

definition typed_candidates ::
    "params \<Rightarrow> regex \<Rightarrow> (string \<Rightarrow> bool) \<Rightarrow> int list" where
  "typed_candidates ps re sel =
     remdups (List.map_filter (\<lambda>(name, val). if sel val then first_index re name else None) ps)"

definition wan_pass0 :: "params \<Rightarrow> discovery_hints option \<Rightarrow> instance_map \<Rightarrow> instance_map" where
  "wan_pass0 ps hints im =
     (let re = wan_type_regex hints;
          lan_vals = lan_type_values hints;
          wan_vals = wan_type_values hints;
          lan_cands = typed_candidates ps re (\<lambda>v. v \<in> set lan_vals);
          wan_cands = typed_candidates ps re (\<lambda>v. v \<notin> set lan_vals \<and> v \<in> set wan_vals);
          im1 = (if lan_cands \<noteq> [] \<and> im_LANIPIfaceIdx im = 0
                 then im\<lparr>im_LANIPIfaceIdx := hd (sort lan_cands)\<rparr> else im)
      in if wan_cands \<noteq> [] \<and> im_WANIPIfaceIdx im1 = 0
         then im1\<lparr>im_WANIPIfaceIdx := chooseTR181WANCandidate ps wan_cands hints\<rparr> else im1)"

text \<open>Pass 1: a public address marks the WAN, a private one the LAN unless typed otherwise.\<close>

definition wan_pass1_step ::
    "params \<Rightarrow> discovery_hints option \<Rightarrow> string \<times> string \<Rightarrow> instance_map \<Rightarrow> instance_map" where
  "wan_pass1_step ps hints kv im =
     (case kv of (name, val) \<Rightarrow>
        if val = [] then im
        else case first_index reIPIfaceAddr name of
          None \<Rightarrow> im
        | Some idx \<Rightarrow>
            if isPublicIP val \<and> im_WANIPIfaceIdx im = 0 then im\<lparr>im_WANIPIfaceIdx := idx\<rparr>
            else if isPrivateIP val \<and> im_LANIPIfaceIdx im = 0 then
              (let connType = tr181ConnTypeValue ps idx hints in
               if connType \<noteq> [] \<and> connType \<notin> set (lan_type_values hints) then im
               else im\<lparr>im_LANIPIfaceIdx := idx\<rparr>)
            else im)"

text \<open>Pass 2: without a WAN yet, the lowest interface that gets its address by IPCP.\<close>

definition wan_pass2_step :: "string \<times> string \<Rightarrow> instance_map \<Rightarrow> instance_map" where
  "wan_pass2_step kv im =
     (case kv of (name, val) \<Rightarrow>
        if val \<noteq> ''IPCP'' then im
        else case first_index reIPIfaceAddrType name of
          None \<Rightarrow> im
        | Some idx \<Rightarrow>
            if im_WANIPIfaceIdx im = 0 \<or> idx < im_WANIPIfaceIdx im
            then im\<lparr>im_WANIPIfaceIdx := idx\<rparr> else im)"

definition discoverTR181WAN ::
    "params \<Rightarrow> discovery_hints option \<Rightarrow> instance_map \<Rightarrow> instance_map option" where
  "discoverTR181WAN ps hints im =
     (if list_ex (\<lambda>kv. capture_panics (wan_type_regex hints) (fst kv)) ps then None
      else
        let im1 = fold (wan_pass1_step ps hints) ps (wan_pass0 ps hints im)
        in Some (if im_WANIPIfaceIdx im1 = 0 then fold wan_pass2_step ps im1 else im1))"

subsection \<open>TR-181: PPP, VLAN and GPON\<close>

definition ppp_step :: "string \<times> string \<Rightarrow> instance_map \<Rightarrow> instance_map" where
  "ppp_step kv im =
     (case first_index rePPPIface (fst kv) of
        None \<Rightarrow> im
      | Some idx \<Rightarrow>
          if im_PPPIfaceIdx im = 0 \<or> idx < im_PPPIfaceIdx im
          then im\<lparr>im_PPPIfaceIdx := idx\<rparr> else im)"

text \<open>The PPP interface the lower layers of the WAN interface refer to, if it exists.\<close>

definition ppp_reference :: "params \<Rightarrow> int \<Rightarrow> string \<times> string \<Rightarrow> int option" where
  "ppp_reference ps wan kv =
     (case first_index reIPIfaceLower (fst kv) of
        None \<Rightarrow> None
      | Some ipIdx \<Rightarrow>
          if ipIdx \<noteq> wan then None
          else case first_index rePPPIfaceRef (snd kv) of
            None \<Rightarrow> None
          | Some pppIdx \<Rightarrow>
              if list_ex (\<lambda>p. first_index rePPPIface (fst p) = Some pppIdx) ps then Some pppIdx
              else None)"

definition discoverTR181PPP :: "params \<Rightarrow> instance_map \<Rightarrow> instance_map" where
  "discoverTR181PPP ps im =
     (let im1 = fold ppp_step ps im in
      if im_WANIPIfaceIdx im1 = 0 then im1
      else case List.map_filter (ppp_reference ps (im_WANIPIfaceIdx im1)) ps of
        [] \<Rightarrow> im1
      | pppIdx # _ \<Rightarrow> im1\<lparr>im_PPPIfaceIdx := pppIdx\<rparr>)"

definition lowerLayers :: "params \<Rightarrow> string \<Rightarrow> int \<Rightarrow> string" where
  "lowerLayers ps obj idx = mget ps (obj @ itoa idx @ ''.LowerLayers'')"

text \<open>From the VLAN termination down to the Ethernet link and the GPON link.\<close>

definition trace_links :: "params \<Rightarrow> int \<Rightarrow> instance_map \<Rightarrow> instance_map" where
  "trace_links ps vlanIdx im =
     (case first_index reEthLinkRef (lowerLayers ps ''Device.Ethernet.VLANTermination.'' vlanIdx) of
        None \<Rightarrow> im
      | Some ethIdx \<Rightarrow>
          let im1 = im\<lparr>im_WANEthLinkIdx := ethIdx\<rparr> in
          (case first_index reGPONRef (lowerLayers ps ''Device.Ethernet.Link.'' ethIdx) of
             None \<Rightarrow> im1
           | Some gponIdx \<Rightarrow> if gponIdx > 0 then im1\<lparr>im_FreeGPONLinkIdx := gponIdx\<rparr> else im1))"

definition discoverTR181VLAN :: "params \<Rightarrow> instance_map \<Rightarrow> instance_map" where
  "discoverTR181VLAN ps im =
     (if im_PPPIfaceIdx im = 0 then im
      else case first_index reVLANTermRef (lowerLayers ps ''Device.PPP.Interface.'' (im_PPPIfaceIdx im)) of
        None \<Rightarrow> im
      | Some vlanIdx \<Rightarrow>
          let im1 = im\<lparr>im_WANVLANTermIdx := vlanIdx\<rparr>;
              vlanIDVal = mget ps (''Device.Ethernet.VLANTermination.'' @ itoa vlanIdx @ ''.VLANID'');
              im2 = (case atoi_opt vlanIDVal of
                       None \<Rightarrow> im1
                     | Some vlanID \<Rightarrow> if vlanIDVal \<noteq> [] then im1\<lparr>im_WANCurrentVLAN := vlanID\<rparr> else im1)
          in trace_links ps vlanIdx im2)"

definition gpon_regex :: "discovery_hints option \<Rightarrow> regex" where
  "gpon_regex hints = hint_regex (hint_or_nil hints dh_GPONEnablePath) reGPONLinkEnable"

definition discoverTR181FreeGPON ::
    "params \<Rightarrow> discovery_hints option \<Rightarrow> instance_map \<Rightarrow> instance_map option" where
  "discoverTR181FreeGPON ps hints im =
     (let re = gpon_regex hints;
          is_free = (\<lambda>(name, val). val = ''0'' \<or> val = [])
      in if list_ex (\<lambda>kv. is_free kv \<and> capture_panics re (fst kv)) ps then None
         else
           let cands = List.map_filter (\<lambda>kv. if is_free kv then first_index re (fst kv) else None) ps
           in Some (case sort cands of [] \<Rightarrow> im | c # _ \<Rightarrow> im\<lparr>im_FreeGPONLinkIdx := c\<rparr>))"

subsection \<open>TR-181: WiFi bands of SSID indices\<close>

text \<open>Go's remainder takes the sign of the dividend.\<close>

definition go_mod :: "int \<Rightarrow> int \<Rightarrow> int" where
  "go_mod a b = (if a < 0 then - ((- a) mod \<bar>b\<bar>) else a mod \<bar>b\<bar>)"

definition wifiSSIDPairBlockMod2Band :: "int \<Rightarrow> int" where
  "wifiSSIDPairBlockMod2Band i = (if i < 1 then 0 else ((i - 1) div 2) mod 2)"

definition tplinkLegacyMultiRadioNoLowerLayersBand :: "int \<Rightarrow> int" where
  "tplinkLegacyMultiRadioNoLowerLayersBand i =
     (if i \<in> {1, 2, 5, 6, 9, 11, 13} then 0
      else if i \<in> {3, 4, 7, 8, 10, 12, 14} then 1
      else if go_mod i 2 = 1 then 0 else 1)"

definition wifiSSIDBandWithoutLowerLayersFromHints :: "discovery_hints option \<Rightarrow> band_hints option" where
  "wifiSSIDBandWithoutLowerLayersFromHints hints =
     (case hints of None \<Rightarrow> None | Some h \<Rightarrow> dh_WiFiSSIDBand h)"

definition driverWiFiBandWithoutLowerLayersActive :: "band_hints option \<Rightarrow> bool" where
  "driverWiFiBandWithoutLowerLayersActive cfg =
     (case cfg of
        None \<Rightarrow> False
      | Some c \<Rightarrow>
          (let s = trim_space (bh_Strategy c) in
           if s = ''pair_block_mod2'' \<or> s = ''legacy_tplink_multi'' then True
           else if s = ''explicit'' then bh_ExplicitSSIDBand c \<noteq> []
           else False))"

definition wifiSSIDBandForIndex :: "int \<Rightarrow> band_hints option \<Rightarrow> int" where
  "wifiSSIDBandForIndex i cfg =
     (case cfg of
        None \<Rightarrow> tplinkLegacyMultiRadioNoLowerLayersBand i
      | Some c \<Rightarrow>
          (let s = trim_space (bh_Strategy c) in
           if s = ''pair_block_mod2'' then wifiSSIDPairBlockMod2Band i
           else if s = ''explicit'' then
             (case map_of (bh_ExplicitSSIDBand c) i of
                Some b \<Rightarrow> b
              | None \<Rightarrow> tplinkLegacyMultiRadioNoLowerLayersBand i)
           else tplinkLegacyMultiRadioNoLowerLayersBand i))"

subsection \<open>TR-181: WiFi\<close>

type_synonym band_map = "(int, int) gomap"

definition freq_step :: "string \<times> string \<Rightarrow> band_map \<Rightarrow> band_map" where
  "freq_step kv m =
     (case first_index reRadioFreq (fst kv) of
        None \<Rightarrow> m
      | Some i \<Rightarrow>
          if snd kv = ''2.4GHz'' then mput i 0 m
          else if snd kv = ''5GHz'' then mput i 1 m
          else if snd kv = ''6GHz'' then mput i 2 m
          else m)"

definition standards_band :: "string \<Rightarrow> int option" where
  "standards_band v =
     (let has = contains v in
      if has ''b'' \<or> has ''g'' \<or> (has ''n'' \<and> \<not> has ''a'') then Some 0
      else if has ''a'' \<and> \<not> has ''n'' then Some 1
      else if has ''ac'' \<or> (has ''a'' \<and> has ''n'') then Some 1
      else if has ''ax'' then
        (if has ''2.4'' then Some 0 else if has ''5'' then Some 1 else if has ''6'' then Some 2 else None)
      else None)"

definition std_step :: "string \<times> string \<Rightarrow> band_map \<Rightarrow> band_map" where
  "std_step kv m =
     (case first_index reRadioStd (fst kv) of
        None \<Rightarrow> m
      | Some i \<Rightarrow> (case standards_band (snd kv) of None \<Rightarrow> m | Some b \<Rightarrow> mput i b m))"

definition radio_bands :: "params \<Rightarrow> band_map" where
  "radio_bands ps = (let m = fold freq_step ps [] in if m = [] then fold std_step ps [] else m)"

text \<open>
  An object takes the band of an instance its reference value mentions; the last one visited
  wins. Used for SSIDs over radios and for access points over SSIDs.
\<close>

definition ref_step ::
    "regex \<Rightarrow> string \<Rightarrow> band_map \<Rightarrow> string \<times> string \<Rightarrow> band_map \<Rightarrow> band_map" where
  "ref_step re obj bands kv m =
     (case first_index re (fst kv) of
        None \<Rightarrow> m
      | Some i \<Rightarrow>
          fold (\<lambda>(j, b) m. if contains (snd kv) (obj @ itoa j @ ''.'') then mput i b m else m) bands m)"

definition instance_indices :: "regex \<Rightarrow> params \<Rightarrow> int list" where
  "instance_indices re ps = sort (remdups (List.map_filter (\<lambda>kv. first_index re (fst kv)) ps))"

text \<open>\<^verbatim>\<open>for i, idx := range indices\<close>\<close>

definition enumerate_bands :: "(int \<Rightarrow> int \<Rightarrow> int) \<Rightarrow> int list \<Rightarrow> band_map" where
  "enumerate_bands f idxs =
     fold (\<lambda>(i, idx). mput idx (f (int i) idx)) (List.enumerate 0 idxs) []"

definition ssid_bands :: "params \<Rightarrow> discovery_hints option \<Rightarrow> band_map \<Rightarrow> band_map" where
  "ssid_bands ps hints radios =
     (let idxs = instance_indices reSSIDAnything ps;
          cfg = wifiSSIDBandWithoutLowerLayersFromHints hints;
          m1 = (if radios \<noteq> [] then fold (ref_step reSSIDLower ''Device.WiFi.Radio.'' radios) ps [] else []);
          m2 = (if m1 = [] \<and> radios \<noteq> [] then
                  (if length idxs \<ge> 4 \<and> length radios = 2
                   then enumerate_bands (\<lambda>_ idx. wifiSSIDBandForIndex idx cfg) idxs
                   else enumerate_bands (\<lambda>i _. i mod int (length radios)) idxs)
                else m1)
      in if m2 = [] then
           (if length idxs \<ge> 4 then
              (if driverWiFiBandWithoutLowerLayersActive cfg
               then enumerate_bands (\<lambda>_ idx. wifiSSIDBandForIndex idx cfg) idxs
               else if idxs = [1, 2, 3, 4] then mlit [(1, 0), (2, 0), (3, 1), (4, 1)]
               else enumerate_bands (\<lambda>i _. i) idxs)
            else enumerate_bands (\<lambda>i _. i) idxs)
         else m2)"

definition max_band :: "band_map \<Rightarrow> int \<Rightarrow> int" where
  "max_band m b0 = fold (\<lambda>(_, b) mx. if b > mx then b else mx) m b0"

definition same_index_step :: "band_map \<Rightarrow> string \<times> string \<Rightarrow> band_map \<Rightarrow> band_map" where
  "same_index_step ssids kv m =
     (case first_index reAPAnything (fst kv) of
        None \<Rightarrow> m
      | Some i \<Rightarrow> (case map_of ssids i of None \<Rightarrow> m | Some b \<Rightarrow> mput i b m))"

definition ap_bands :: "params \<Rightarrow> band_map \<Rightarrow> int \<Rightarrow> band_map" where
  "ap_bands ps ssids maxBand =
     (let m1 = fold (ref_step reAPRef ''Device.WiFi.SSID.'' ssids) ps [];
          m2 = (if m1 = [] then fold (same_index_step ssids) ps [] else m1)
      in if m2 = []
         then enumerate_bands (\<lambda>i _. if i < int (length ssids) then i else maxBand)
                (instance_indices reAPAnything ps)
         else m2)"

text \<open>
  The slot of each band: the smallest index (SSIDs and access points) or the last one visited
  (radios). A negative band, which an explicit driver table may hold, is out of range.
\<close>

definition smallest_slot :: "int \<times> int \<Rightarrow> int list \<Rightarrow> int list" where
  "smallest_slot ib slots =
     (case ib of (i, b) \<Rightarrow>
        if b < int (length slots) \<and> (slots ! nat b = 0 \<or> i < slots ! nat b) then slots[nat b := i] else slots)"

definition last_slot :: "int \<times> int \<Rightarrow> int list \<Rightarrow> int list" where
  "last_slot ib slots = (case ib of (i, b) \<Rightarrow> if b < int (length slots) then slots[nat b := i] else slots)"

definition discoverTR181WiFi ::
    "params \<Rightarrow> discovery_hints option \<Rightarrow> instance_map \<Rightarrow> instance_map option" where
  "discoverTR181WiFi ps hints im =
     (let radios = radio_bands ps;
          ssids = ssid_bands ps hints radios
      in if ssids = [] then Some im
         else
           let maxBand = max_band radios (max_band ssids 0);
               aps = ap_bands ps ssids maxBand;
               slots = replicate (nat (maxBand + 1)) 0
           in if list_ex (\<lambda>ib. snd ib < 0) (ssids @ radios @ aps) then None
              else Some (im\<lparr>im_WiFiSSIDIndices := fold smallest_slot ssids slots,
                            im_WiFiRadioIndices := fold last_slot radios slots,
                            im_WiFiAPIndices := fold smallest_slot aps slots\<rparr>))"

definition discoverTR181 ::
    "params \<Rightarrow> discovery_hints option \<Rightarrow> instance_map \<Rightarrow> instance_map option" where
  "discoverTR181 ps hints im =
     (case discoverTR181WAN ps hints im of
        None \<Rightarrow> None
      | Some im1 \<Rightarrow>
          (case discoverTR181WiFi ps hints (discoverTR181VLAN ps (discoverTR181PPP ps im1)) of
             None \<Rightarrow> None
           | Some im2 \<Rightarrow> discoverTR181FreeGPON ps hints im2))"

subsection \<open>TR-098: WAN\<close>

record ppp_candidate =
  pc_wanDev :: int
  pc_wanConn :: int
  pc_wanPPP :: int
  pc_hasIP :: bool
  pc_pubIP :: bool

text \<open>The three instance numbers of a WAN connection path.\<close>

definition three_indices :: "regex \<Rightarrow> string \<Rightarrow> (int \<times> int \<times> int) option" where
  "three_indices re s =
     (case submatch re s of
        Some [a, b, c] \<Rightarrow> Some (atoi_val a, atoi_val b, atoi_val c)
      | _ \<Rightarrow> None)"

definition first_wan_ip :: "params \<Rightarrow> instance_map \<Rightarrow> instance_map" where
  "first_wan_ip ps im =
     (case List.map_filter (\<lambda>kv. three_indices reWANIPConn (fst kv)) ps of
        [] \<Rightarrow> im
      | (dev, conn, ip) # _ \<Rightarrow>
          if im_WANDeviceIdx im = 0
          then im\<lparr>im_WANDeviceIdx := dev, im_WANConnDevIdx := conn, im_WANIPConnIdx := ip\<rparr>
          else im)"

type_synonym candidates = "(int \<times> int, ppp_candidate) gomap"

definition candidate_step :: "string \<times> string \<Rightarrow> candidates \<Rightarrow> candidates" where
  "candidate_step kv cs =
     (case three_indices reWANPPPConn (fst kv) of
        None \<Rightarrow> cs
      | Some (dev, conn, ppp) \<Rightarrow>
          let c0 = (case map_of cs (dev, conn) of
                      Some c \<Rightarrow> c
                    | None \<Rightarrow> \<lparr> pc_wanDev = dev, pc_wanConn = conn, pc_wanPPP = ppp,
                               pc_hasIP = False, pc_pubIP = False \<rparr>);
              c1 = (if has_suffix (fst kv) ''.ExternalIPAddress'' \<and> snd kv \<noteq> []
                    then c0\<lparr>pc_hasIP := True, pc_pubIP := isPublicIP (snd kv)\<rparr> else c0)
          in mput (dev, conn) c1 cs)"

text \<open>Whether the candidate replaces the best so far.\<close>

definition better_candidate :: "ppp_candidate \<Rightarrow> ppp_candidate \<Rightarrow> bool" where
  "better_candidate c best =
     (if pc_pubIP c \<and> \<not> pc_pubIP best then True
      else if \<not> pc_pubIP c \<and> pc_pubIP best then False
      else if pc_hasIP c \<and> \<not> pc_hasIP best then True
      else if \<not> pc_hasIP c \<and> pc_hasIP best then False
      else pc_wanConn c < pc_wanConn best)"

fun pick_best :: "ppp_candidate list \<Rightarrow> ppp_candidate option \<Rightarrow> ppp_candidate option" where
  "pick_best [] best = best"
| "pick_best (c # cs) None = pick_best cs (Some c)"
| "pick_best (c # cs) (Some b) = pick_best cs (Some (if better_candidate c b then c else b))"

definition discoverTR098WAN ::
    "params \<Rightarrow> discovery_hints option \<Rightarrow> instance_map \<Rightarrow> instance_map" where
  "discoverTR098WAN ps hints im0 =
     (let vlanSuffix = hint_or_nil hints dh_WANTR098VLANPathSuffix;
          im = first_wan_ip ps im0;
          cands = fold candidate_step ps []
      in case pick_best (map snd cands) None of
           None \<Rightarrow> im
         | Some best \<Rightarrow>
             let im1 = (if im_WANDeviceIdx im = 0 then im\<lparr>im_WANDeviceIdx := pc_wanDev best\<rparr> else im);
                 im2 = im1\<lparr>im_WANConnDevIdx := pc_wanConn best, im_WANPPPConnIdx := pc_wanPPP best\<rparr>;
                 vlanKey = ''InternetGatewayDevice.WANDevice.'' @ itoa (pc_wanDev best) @
                   ''.WANConnectionDevice.'' @ itoa (pc_wanConn best) @
                   ''.WANPPPConnection.'' @ itoa (pc_wanPPP best) @ vlanSuffix;
                 val = mget ps vlanKey
             in if vlanSuffix \<noteq> [] \<and> val \<noteq> [] \<and> val \<noteq> ''0'' then
                  (case atoi_opt val of None \<Rightarrow> im2 | Some v \<Rightarrow> im2\<lparr>im_WANCurrentVLAN := v\<rparr>)
                else im2)"

subsection \<open>TR-098: LAN and WLAN\<close>

definition lan_step :: "string \<times> string \<Rightarrow> instance_map \<Rightarrow> instance_map" where
  "lan_step kv im =
     (case first_index reLANDevice (fst kv) of
        None \<Rightarrow> im
      | Some idx \<Rightarrow>
          if im_LANDeviceIdx im = 0 \<or> idx < im_LANDeviceIdx im
          then im\<lparr>im_LANDeviceIdx := idx\<rparr> else im)"

definition discoverTR098LAN :: "params \<Rightarrow> instance_map \<Rightarrow> instance_map" where
  "discoverTR098LAN ps im = fold lan_step ps im"

definition channel_step :: "string \<times> string \<Rightarrow> band_map \<Rightarrow> band_map" where
  "channel_step kv m =
     (if snd kv = [] then m
      else case first_index reWLANChannel (fst kv) of
        None \<Rightarrow> m
      | Some idx \<Rightarrow>
          (case atoi_opt (snd kv) of
             None \<Rightarrow> m
           | Some ch \<Rightarrow>
               if ch \<ge> 1 \<and> ch \<le> 13 then mput idx 0 m
               else if ch \<ge> 36 then mput idx 1 m
               else m))"

definition wlan_std_step :: "string \<times> string \<Rightarrow> band_map \<Rightarrow> band_map" where
  "wlan_std_step kv m =
     (if snd kv = [] then m
      else case first_index reWLANStd (fst kv) of
        None \<Rightarrow> m
      | Some idx \<Rightarrow>
          if map_of m idx \<noteq> None then m
          else
            (let v = to_lower (snd kv) in
             if contains v ''ac'' \<or> (contains v ''a'' \<and> \<not> contains v ''n'') then mput idx 1 m
             else if contains v ''b'' \<or> contains v ''g'' \<or> contains v ''n'' then mput idx 0 m
             else m))"

text \<open>The smallest index of each band, and the slots built from them.\<close>

definition primary_step :: "band_map \<Rightarrow> int \<Rightarrow> (int, int) gomap \<Rightarrow> (int, int) gomap" where
  "primary_step bands idx prim =
     (case map_of bands idx of
        None \<Rightarrow> prim
      | Some b \<Rightarrow>
          (case map_of prim b of
             None \<Rightarrow> mput b idx prim
           | Some cur \<Rightarrow> if idx < cur then mput b idx prim else prim))"

definition primary_slots :: "(int, int) gomap \<Rightarrow> int list" where
  "primary_slots prim =
     (let maxBand = fold (\<lambda>(b, _) mx. if b > mx then b else mx) prim 0
      in fold (\<lambda>(b, i) slots. slots[nat b := i]) prim (replicate (nat (maxBand + 1)) 0))"

definition first_in_range_step :: "int \<Rightarrow> (int, int) gomap \<Rightarrow> (int, int) gomap" where
  "first_in_range_step idx prim =
     (if idx \<ge> 1 \<and> idx \<le> 4 then (if map_of prim 0 = None then mput 0 idx prim else prim)
      else if idx \<ge> 5 \<and> idx \<le> 8 then (if map_of prim 1 = None then mput 1 idx prim else prim)
      else prim)"

definition wlan_indices :: "params \<Rightarrow> int list" where
  "wlan_indices ps =
     (let seen = remdups (List.map_filter (\<lambda>kv. first_index reWLANCfg (fst kv)) ps);
          bands = fold wlan_std_step ps (fold channel_step ps []);
          prim = fold (primary_step bands) seen [];
          indices = sort seen
      in if prim \<noteq> [] then primary_slots prim
         else if list_ex (\<lambda>i. i \<ge> 1 \<and> i \<le> 4) indices \<and> list_ex (\<lambda>i. i \<ge> 5 \<and> i \<le> 8) indices
         then primary_slots (fold first_in_range_step indices [])
         else indices)"

definition discoverTR098WLAN :: "params \<Rightarrow> instance_map \<Rightarrow> instance_map" where
  "discoverTR098WLAN ps im =
     (if List.map_filter (\<lambda>kv. first_index reWLANCfg (fst kv)) ps = [] then im
      else im\<lparr>im_WLANIndices := wlan_indices ps\<rparr>)"

definition discoverTR098 ::
    "params \<Rightarrow> discovery_hints option \<Rightarrow> instance_map \<Rightarrow> instance_map" where
  "discoverTR098 ps hints im =
     discoverTR098WLAN ps (discoverTR098LAN ps (discoverTR098WAN ps hints im))"

definition DiscoverInstancesWithHints ::
    "params \<Rightarrow> discovery_hints option \<Rightarrow> instance_map option" where
  "DiscoverInstancesWithHints ps hints =
     (if isTR181Params ps then discoverTR181 ps hints zero_im
      else Some (discoverTR098 ps hints zero_im))"

definition DiscoverInstances :: "params \<Rightarrow> instance_map option" where
  "DiscoverInstances ps = DiscoverInstancesWithHints ps None"

subsection \<open>Facts: iteration order\<close>

lemma fold_invariant_field:
  assumes "\<And>x s. f (g x s) = f s"
  shows "f (fold g xs s) = f s"
  by (induction xs arbitrary: s) (simp_all add: assms)

lemma in_set_map_filter: "x \<in> set (List.map_filter f xs) \<longleftrightarrow> (\<exists>y \<in> set xs. f y = Some x)"
  by (induction xs) (auto simp: List.map_filter_simps split: option.splits)

lemma set_typed_candidates:
  "set (typed_candidates ps re sel) =
     {idx. \<exists>name val. (name, val) \<in> set ps \<and> sel val \<and> first_index re name = Some idx}"
  unfolding typed_candidates_def set_remdups in_set_map_filter set_eq_iff mem_Collect_eq
  by (force split: if_splits)

lemma sort_distinct_set_eq:
  fixes xs ys :: "int list"
  assumes "distinct xs" "distinct ys" "set xs = set ys"
  shows "sort xs = sort ys"
  using assms by (metis distinct_remdups_id sorted_list_of_set_sort_remdups)

lemma typed_candidates_perm:
  "mset ps = mset qs \<Longrightarrow> sort (typed_candidates ps re sel) = sort (typed_candidates qs re sel)"
proof (rule sort_distinct_set_eq)
  assume "mset ps = mset qs"
  then have "set ps = set qs" by (rule mset_eq_setD)
  then show "set (typed_candidates ps re sel) = set (typed_candidates qs re sel)"
    by (simp add: set_typed_candidates)
qed (simp_all add: typed_candidates_def)

lemma mget_perm: "mset ps = mset qs \<Longrightarrow> wf_map ps \<Longrightarrow> mget ps = mget qs"
  by (intro ext) (simp add: mget_def map_of_perm)

lemma choose_perm:
  assumes "mset ps = mset qs" "wf_map ps" "sort cs = sort ds"
  shows "chooseTR181WANCandidate ps cs h = chooseTR181WANCandidate qs ds h"
  unfolding chooseTR181WANCandidate_def mget_perm [OF assms(1,2)] assms(3) by (rule refl)

lemma choose_member:
  assumes "cs \<noteq> []"
  shows "chooseTR181WANCandidate ps cs h \<in> set cs"
proof -
  have e: "set (sort cs) = set cs" by simp
  obtain c rest where s: "sort cs = c # rest" using assms by (metis neq_Nil_conv set_empty set_sort)
  have "x \<in> set (c # rest)" if "find P (c # rest) = Some x" for P x
    using that by (metis find_Some_iff nth_mem)
  then show ?thesis
    unfolding chooseTR181WANCandidate_def s e [symmetric]
    by (auto split: option.splits simp del: find.simps)
qed

lemma pass1_keeps_wan:
  "im_WANIPIfaceIdx im \<noteq> 0 \<Longrightarrow> im_WANIPIfaceIdx (wan_pass1_step ps h kv im) = im_WANIPIfaceIdx im"
  by (auto simp: wan_pass1_step_def Let_def split: prod.splits option.splits)

lemma fold_pass1_keeps_wan:
  "im_WANIPIfaceIdx im \<noteq> 0 \<Longrightarrow>
     im_WANIPIfaceIdx (fold (wan_pass1_step ps h) kvs im) = im_WANIPIfaceIdx im"
  by (induction kvs arbitrary: im) (simp_all add: pass1_keeps_wan)

definition wan_typed :: "params \<Rightarrow> discovery_hints option \<Rightarrow> int list" where
  "wan_typed ps h =
     typed_candidates ps (wan_type_regex h)
       (\<lambda>v. v \<notin> set (lan_type_values h) \<and> v \<in> set (wan_type_values h))"

lemma discoverTR181WAN_typed:
  assumes "wan_typed ps h \<noteq> []" and "\<forall>i \<in> set (wan_typed ps h). i \<noteq> 0"
    and "discoverTR181WAN ps h zero_im = Some im"
  shows "im_WANIPIfaceIdx im = chooseTR181WANCandidate ps (wan_typed ps h) h"
proof -
  let ?c = "chooseTR181WANCandidate ps (wan_typed ps h) h"
  have nz: "?c \<noteq> 0" using choose_member [OF assms(1)] assms(2) by blast
  have p0: "im_WANIPIfaceIdx (wan_pass0 ps h zero_im) = ?c"
    using assms(1) by (simp add: wan_pass0_def Let_def wan_typed_def zero_im_def)
  then have "im_WANIPIfaceIdx (fold (wan_pass1_step ps h) ps (wan_pass0 ps h zero_im)) = ?c"
    using nz by (simp add: fold_pass1_keeps_wan)
  with assms(3) nz show ?thesis
    by (auto simp: discoverTR181WAN_def Let_def split: if_splits)
qed

text \<open>
  C27. When the device types its interfaces, the WAN interface found does not depend on the order
  in which Go visits the parameter map: two visits of the same map that both return agree, on
  the typed interface that \<^verbatim>\<open>chooseTR181WANCandidate\<close> prefers.
\<close>

theorem typed_wan_order_independent:
  assumes "wf_map ps" and "mset ps = mset qs"
    and "wan_typed ps h \<noteq> []" and "\<forall>i \<in> set (wan_typed ps h). i \<noteq> 0"
    and "discoverTR181WAN ps h zero_im = Some im" and "discoverTR181WAN qs h zero_im = Some im'"
  shows "im_WANIPIfaceIdx im = im_WANIPIfaceIdx im' \<and>
         im_WANIPIfaceIdx im = chooseTR181WANCandidate ps (wan_typed ps h) h \<and>
         im_WANIPIfaceIdx im \<in> set (wan_typed ps h)"
proof -
  have s: "sort (wan_typed ps h) = sort (wan_typed qs h)"
    unfolding wan_typed_def using assms(2) by (rule typed_candidates_perm)
  have st: "set (wan_typed ps h) = set (wan_typed qs h)" by (metis s set_sort)
  have "wan_typed qs h \<noteq> []" using assms(3) st by (metis set_empty)
  then have "im_WANIPIfaceIdx im' = chooseTR181WANCandidate qs (wan_typed qs h) h"
    using assms(4,6) st by (intro discoverTR181WAN_typed) simp_all
  moreover have "im_WANIPIfaceIdx im = chooseTR181WANCandidate ps (wan_typed ps h) h"
    using assms(3,4,5) by (rule discoverTR181WAN_typed)
  ultimately show ?thesis
    using choose_perm [OF assms(2,1) s] choose_member [OF assms(3), of ps h] by simp
qed

definition ex_typed :: params where
  "ex_typed =
     [(''Device.IP.Interface.3.X_TP_ConnType'', ''PPPoE''), (''Device.IP.Interface.1.X_TP_ConnType'', ''LAN''),
      (''Device.IP.Interface.2.X_TP_ConnType'', ''PPPoE'')]"

lemma ex_typed_fact: "wan_typed ex_typed None = [3, 2]" by code_simp

lemma typed_wan_order_independent_witness:
  "map_option im_WANIPIfaceIdx (discoverTR181WAN (rev ex_typed) None zero_im) = Some 2"
proof -
  have "discoverTR181WAN ex_typed None zero_im \<noteq> None" by code_simp
  then obtain im where im: "discoverTR181WAN ex_typed None zero_im = Some im" by blast
  have "discoverTR181WAN (rev ex_typed) None zero_im \<noteq> None" by code_simp
  then obtain im' where im': "discoverTR181WAN (rev ex_typed) None zero_im = Some im'" by blast
  have "wf_map ex_typed" by code_simp
  moreover have "chooseTR181WANCandidate ex_typed [3, 2] None = 2" by code_simp
  ultimately show ?thesis
    using typed_wan_order_independent [OF _ _ _ _ im im'] im' by (simp add: ex_typed_fact)
qed

subsection \<open>Facts: smallest indices\<close>

text \<open>The update \<^verbatim>\<open>if cur == 0 || idx < cur { cur = idx }\<close> that several loops share.\<close>

definition keep_min :: "int \<Rightarrow> int \<Rightarrow> int" where
  "keep_min idx cur = (if cur = 0 \<or> idx < cur then idx else cur)"

lemma fold_keep_min_pos:
  "0 < c \<Longrightarrow> \<forall>i \<in> set is. 0 < i \<Longrightarrow>
     fold keep_min is c \<in> insert c (set is) \<and> (\<forall>x \<in> insert c (set is). fold keep_min is c \<le> x)"
proof (induction "is" arbitrary: c)
  case Nil
  then show ?case by simp
next
  case (Cons i "is")
  have k: "keep_min i c = min c i" using Cons.prems by (auto simp: keep_min_def)
  then have "0 < keep_min i c" using Cons.prems by simp
  with Cons.IH [of "keep_min i c"] Cons.prems
  have "fold keep_min is (min c i) \<in> insert (min c i) (set is) \<and>
      (\<forall>x \<in> insert (min c i) (set is). fold keep_min is (min c i) \<le> x)" by (simp add: k)
  then show ?case by (auto simp: k min_def split: if_splits)
qed

lemma fold_keep_min:
  assumes "\<forall>i \<in> set is. 0 < i"
  shows "fold keep_min is 0 = (if is = [] then 0 else Min (set is))"
proof (cases "is")
  case Nil
  then show ?thesis by simp
next
  case (Cons i js)
  have "keep_min i 0 = i" by (simp add: keep_min_def)
  with Cons assms fold_keep_min_pos [of i js] show ?thesis
    by (auto intro!: Min_eqI [symmetric])
qed

lemma fold_keep_min_update:
  assumes "\<And>kv im. F (g kv im) = (case h kv of None \<Rightarrow> F im | Some i \<Rightarrow> keep_min i (F im))"
  shows "F (fold g kvs im) = fold keep_min (List.map_filter h kvs) (F im)"
  by (induction kvs arbitrary: im)
    (auto simp: assms List.map_filter_simps split: option.splits)

lemma LANDeviceIdx_fold:
  "im_LANDeviceIdx (discoverTR098LAN ps im) =
     fold keep_min (List.map_filter (\<lambda>kv. first_index reLANDevice (fst kv)) ps) (im_LANDeviceIdx im)"
  unfolding discoverTR098LAN_def
  by (rule fold_keep_min_update) (auto simp: lan_step_def keep_min_def split: option.splits)

lemma TR098WAN_keeps_LAN: "im_LANDeviceIdx (discoverTR098WAN ps h im) = im_LANDeviceIdx im"
  by (auto simp: discoverTR098WAN_def first_wan_ip_def Let_def split: option.splits list.splits)

lemma WLAN_keeps_LAN: "im_LANDeviceIdx (discoverTR098WLAN ps im) = im_LANDeviceIdx im"
  by (simp add: discoverTR098WLAN_def)

text \<open>
  On a TR-098 device the LAN device found is the smallest LANDevice instance that occurs in
  the parameters, and none if none occurs, whatever the iteration order.
\<close>

lemma tr098_lan_device:
  assumes "\<not> isTR181Params ps"
    and "\<forall>kv \<in> set ps. \<forall>i. first_index reLANDevice (fst kv) = Some i \<longrightarrow> 0 < i"
  shows "map_option im_LANDeviceIdx (DiscoverInstancesWithHints ps h) =
           Some (let S = {i. \<exists>kv \<in> set ps. first_index reLANDevice (fst kv) = Some i}
                 in if S = {} then 0 else Min S)"
proof -
  let ?is = "List.map_filter (\<lambda>kv. first_index reLANDevice (fst kv)) ps"
  have s: "set ?is = {i. \<exists>kv \<in> set ps. first_index reLANDevice (fst kv) = Some i}"
    by (simp add: set_eq_iff in_set_map_filter)
  then have "\<forall>i \<in> set ?is. 0 < i" using assms(2) by auto
  then have "fold keep_min ?is 0 = (if set ?is = {} then 0 else Min (set ?is))"
    by (simp add: fold_keep_min)
  then show ?thesis using assms(1)
    by (simp add: DiscoverInstancesWithHints_def discoverTR098_def WLAN_keeps_LAN LANDeviceIdx_fold
        TR098WAN_keeps_LAN zero_im_def s Let_def)
qed

definition ex_lans :: params where
  "ex_lans =
     [(''InternetGatewayDevice.LANDevice.12.Enable'', []), (''InternetGatewayDevice.LANDevice.3.Enable'', [])]"

lemma tr098_lan_device_witness:
  "map_option im_LANDeviceIdx (DiscoverInstancesWithHints ex_lans None) = Some 3"
proof -
  have f: "first_index reLANDevice ''InternetGatewayDevice.LANDevice.12.Enable'' = Some 12"
    "first_index reLANDevice ''InternetGatewayDevice.LANDevice.3.Enable'' = Some 3" by code_simp+
  have "{i. \<exists>kv \<in> set ex_lans. first_index reLANDevice (fst kv) = Some i} = {3, 12}"
    by (auto simp: ex_lans_def f)
  moreover have "\<not> isTR181Params ex_lans" by code_simp
  moreover have "\<forall>kv \<in> set ex_lans. \<forall>i. first_index reLANDevice (fst kv) = Some i \<longrightarrow> 0 < i"
    by (simp add: ex_lans_def f)
  ultimately show ?thesis using tr098_lan_device [of ex_lans None] by simp
qed

subsection \<open>WiFi slots\<close>

definition of_band :: "band_map \<Rightarrow> int \<Rightarrow> int list" where
  "of_band m b = map fst (filter (\<lambda>ib. snd ib = b) m)"

lemma smallest_slot_fold:
  assumes "\<forall>ib \<in> set m. 0 \<le> snd ib" and "b < length slots"
  shows "length (fold smallest_slot m slots) = length slots \<and>
         fold smallest_slot m slots ! b = fold keep_min (of_band m (int b)) (slots ! b)"
  using assms
proof (induction m arbitrary: slots)
  case Nil
  then show ?case by (simp add: of_band_def)
next
  case (Cons ib m)
  obtain i c where ib: "ib = (i, c)" by fastforce
  have l: "length (smallest_slot ib slots) = length slots" by (simp add: ib smallest_slot_def)
  have "smallest_slot ib slots ! b = (if c = int b then keep_min i (slots ! b) else slots ! b)"
    using Cons.prems by (auto simp: ib smallest_slot_def keep_min_def nth_list_update)
  with Cons l show ?case by (simp add: of_band_def ib)
qed

text \<open>
  C28. After WiFi discovery the slot of a band holds the smallest (primary) SSID instance that was
  mapped to the band, zero when there is none, independent of the order in which the map of
  SSIDs is visited; the slots are as many as the highest band needs.
\<close>

theorem wifi_primary_ssid:
  assumes "discoverTR181WiFi ps hints im = Some im'"
    and "ssids = ssid_bands ps hints (radio_bands ps)" and "ssids \<noteq> []"
    and "\<forall>ib \<in> set ssids. 0 < fst ib" and "b < length (im_WiFiSSIDIndices im')"
  shows "im_WiFiSSIDIndices im' ! b =
           (let S = {i. (i, int b) \<in> set ssids} in if S = {} then 0 else Min S)"
proof -
  let ?mx = "max_band (radio_bands ps) (max_band ssids 0)"
  let ?slots = "replicate (nat (?mx + 1)) (0::int)"
  have nn: "\<forall>ib \<in> set ssids. 0 \<le> snd ib"
    and im': "im_WiFiSSIDIndices im' = fold smallest_slot ssids ?slots"
    using assms(1,3) unfolding assms(2)
    by (auto simp: discoverTR181WiFi_def Let_def list_ex_iff not_less split: if_splits)
  have len: "length (fold smallest_slot m slots) = length slots" for m slots
    by (induction m arbitrary: slots) (auto simp: smallest_slot_def split: prod.splits)
  from assms(5) have b: "b < length ?slots" by (simp add: im' len)
  have s: "set (of_band ssids (int b)) = {i. (i, int b) \<in> set ssids}"
    by (force simp: of_band_def)
  have "\<forall>i \<in> set (of_band ssids (int b)). 0 < i" using assms(4) s by auto
  then have "fold keep_min (of_band ssids (int b)) 0
      = (if set (of_band ssids (int b)) = {} then 0 else Min (set (of_band ssids (int b))))"
    by (simp add: fold_keep_min)
  moreover have "?slots ! b = 0" using b by simp
  ultimately show ?thesis
    using smallest_slot_fold [OF nn b] by (simp add: im' s Let_def)
qed

definition ex_wifi :: params where
  "ex_wifi =
     [(''Device.WiFi.Radio.1.OperatingFrequencyBand'', ''2.4GHz''),
      (''Device.WiFi.Radio.2.OperatingFrequencyBand'', ''5GHz''),
      (''Device.WiFi.SSID.7.LowerLayers'', ''Device.WiFi.Radio.2.''),
      (''Device.WiFi.SSID.3.LowerLayers'', ''Device.WiFi.Radio.2.''),
      (''Device.WiFi.SSID.1.LowerLayers'', ''Device.WiFi.Radio.1.'')]"

lemma wifi_primary_ssid_witness:
  "map_option (\<lambda>im. im_WiFiSSIDIndices im ! 1) (discoverTR181WiFi ex_wifi None zero_im) = Some 3"
proof -
  have b: "ssid_bands ex_wifi None (radio_bands ex_wifi) = [(7, 1), (3, 1), (1, 0)]" by code_simp
  have "map_option im_WiFiSSIDIndices (discoverTR181WiFi ex_wifi None zero_im) = Some [1, 3]" by code_simp
  then obtain im where im: "discoverTR181WiFi ex_wifi None zero_im = Some im"
    and l: "im_WiFiSSIDIndices im = [1, 3]" by auto
  have "{i. (i, 1) \<in> set [(7, 1), (3, 1), (1::int, 0::int)]} = {3, 7}" by auto
  with wifi_primary_ssid [OF im b [symmetric], of 1] show ?thesis by (simp add: im l)
qed

end
