(* ===== verification/Schema.thy ===== *)
theory Schema
  imports Datamodel
begin

section \<open>internal/schema: registry, resolver and the schema-driven mapper\<close>

text \<open>
  The registry holds the schema files by schema name (reading the YAML text is left outside: the
  registry is given the decoded files with their paths). The resolver picks the schema of a
  device from its manufacturer and data model. The schema mapper answers the path methods from
  the merged tables, filling in the discovered instances; \<^verbatim>\<open>mapper\<close> is the sum of the three
  implementations of the interface.
\<close>

subsection \<open>schema.go and registry.go\<close>

record parameter =
  sp_Name :: string
  sp_Path :: string
  sp_Type :: string

record schema_file =
  sf_ID :: string
  sf_Model :: string
  sf_Vendor :: string
  sf_Description :: string
  sf_Parameters :: "parameter list"

type_synonym registry = "(string, schema_file list) gomap"

text \<open>
  \<^verbatim>\<open>schemaNameFromPath\<close> on slash-separated clean paths: the directory of the file below the
  root, with \<^verbatim>\<open>vendors/\<close> turned into \<^verbatim>\<open>vendor/\<close>.
\<close>

definition dir_of :: "string \<Rightarrow> string" where
  "dir_of p = (case last_index p CHR ''/'' of None \<Rightarrow> ''.'' | Some i \<Rightarrow> if i = 0 then ''/'' else take i p)"

definition schemaNameFromPath :: "string \<Rightarrow> string \<Rightarrow> string" where
  "schemaNameFromPath root path =
     (let rel = trim_prefix path (root @ ''/'');
          dir = dir_of rel
      in case split_n CHR ''/'' 2 dir of
           [a, b] \<Rightarrow> if a = ''vendors'' then ''vendor/'' @ b else dir
         | _ \<Rightarrow> dir)"

text \<open>
  \<^verbatim>\<open>LoadDir\<close> over the entries of the walk, in its order: an error of the walk, a directory, or a file with
  what is read of it, nothing if it cannot be read or parsed. An error ends the walk, and what was loaded
  before stays in the registry.
\<close>

datatype 'a walk_entry = WalkError | IsDir string | IsFile string "'a option"

fun LoadDir :: "string \<Rightarrow> schema_file walk_entry list \<Rightarrow> registry \<Rightarrow> bool \<times> registry" where
  "LoadDir root [] reg = (True, reg)"
| "LoadDir root (WalkError # es) reg = (False, reg)"
| "LoadDir root (IsDir path # es) reg = LoadDir root es reg"
| "LoadDir root (IsFile path content # es) reg =
     (if \<not> has_suffix path ''.yaml'' then LoadDir root es reg
      else case content of
        None \<Rightarrow> (False, reg)
      | Some s \<Rightarrow>
          let name = schemaNameFromPath root path;
              old = (case map_of reg name of None \<Rightarrow> [] | Some ss \<Rightarrow> ss)
          in LoadDir root es (mput name (old @ [s]) reg))"

definition GetAll :: "registry \<Rightarrow> string \<Rightarrow> schema_file list" where
  "GetAll reg name = (case map_of reg name of None \<Rightarrow> [] | Some ss \<Rightarrow> ss)"

definition Has :: "registry \<Rightarrow> string \<Rightarrow> bool" where
  "Has reg name \<longleftrightarrow> length (GetAll reg name) > 0"

definition ParamMap :: "registry \<Rightarrow> string \<Rightarrow> params" where
  "ParamMap reg name =
     fold (\<lambda>s out. fold (\<lambda>p. mput (sp_Name p) (sp_Path p)) (sf_Parameters s) out) (GetAll reg name) []"

text \<open>An error leaves the schemas that were loaded before it.\<close>

lemma LoadDir_append:
  "LoadDir root (es @ fs) reg =
     (case LoadDir root es reg of (True, r) \<Rightarrow> LoadDir root fs r | (False, r) \<Rightarrow> (False, r))"
  by (induction root es reg rule: LoadDir.induct) (auto simp: Let_def split: option.splits prod.splits bool.splits)

subsection \<open>resolver.go\<close>

definition knownVendors :: "(string \<times> string) list" where
  "knownVendors =
     [(''huawei'', ''huawei''), (''zte'', ''zte''), (''tp-link'', ''tplink''), (''tp link'', ''tplink''),
      (''tplink'', ''tplink''), (''fiberhome'', ''fiberhome''), (''intelbras'', ''intelbras''),
      (''datacom'', ''datacom''), (''nokia'', ''nokia''), (''ericsson'', ''ericsson''),
      (''sagemcom'', ''sagemcom''), (''technicolor'', ''technicolor''), (''arcadyan'', ''arcadyan''),
      (''sercomm'', ''sercomm''), (''askey'', ''askey''), (''zteg'', ''cdata''), (''c-data'', ''cdata''),
      (''cdata'', ''cdata''), (''cdtc'', ''cdata''), (''mtn'', ''ruijie''), (''ruijie'', ''ruijie'')]"

text \<open>The exchange sort by length, longest first: the inner and the outer loop.\<close>

fun swap_pass :: "string \<Rightarrow> string list \<Rightarrow> string \<times> string list" where
  "swap_pass x [] = (x, [])"
| "swap_pass x (y # ys) =
     (if length x < length y
      then (case swap_pass y ys of (m, zs) \<Rightarrow> (m, x # zs))
      else (case swap_pass x ys of (m, zs) \<Rightarrow> (m, y # zs)))"

lemma length_swap_pass: "length (snd (swap_pass x xs)) = length xs"
  by (induction x xs rule: swap_pass.induct) (auto split: prod.splits)

function exchange_sort :: "string list \<Rightarrow> string list" where
  "exchange_sort [] = []"
| "exchange_sort (x # xs) = (case swap_pass x xs of (m, zs) \<Rightarrow> m # exchange_sort zs)"
  by pat_completeness auto

termination
  by (relation "measure length") (auto, metis length_swap_pass less_Suc_eq snd_conv)

definition vendor_sep :: "char \<Rightarrow> bool" where
  "vendor_sep c \<longleftrightarrow> c \<in> {CHR '' '', CHR '','', CHR ''.'', CHR ''/'', CHR 0x5C}"

text \<open>
  \<^verbatim>\<open>normaliseVendor\<close>, visiting \<^verbatim>\<open>knownVendors\<close> in the given order; the first word of a
  text of separators only does not exist and panics (\<^term>\<open>None\<close>).
\<close>

definition normaliseVendor :: "(string \<times> string) list \<Rightarrow> string \<Rightarrow> string option" where
  "normaliseVendor vendors manufacturer =
     (let s = to_lower (trim_space manufacturer) in
      if s = [] then Some []
      else case find (\<lambda>p. has_prefix s p) (exchange_sort (map fst vendors)) of
        Some p \<Rightarrow> map_of vendors p
      | None \<Rightarrow>
          (case takeWhile (\<lambda>c. \<not> vendor_sep c) (dropWhile vendor_sep s) of
             [] \<Rightarrow> None
           | w \<Rightarrow> Some w))"

definition Resolve :: "registry \<Rightarrow> string \<Rightarrow> string \<Rightarrow> string option" where
  "Resolve reg manufacturer dataModel =
     (case normaliseVendor knownVendors manufacturer of
        None \<Rightarrow> None
      | Some vendor \<Rightarrow>
          let cand = ''vendor/'' @ vendor @ ''/'' @ dataModel in
          if vendor \<noteq> [] \<and> Has reg cand then Some cand
          else Some (if dataModel = [] then ''tr098'' else dataModel))"

subsection \<open>mapper.go\<close>

record schema_mapper =
  sm_params :: params
  sm_instanceMap :: instance_map
  sm_modelType :: model_type

definition baseModelName :: "string \<Rightarrow> string" where
  "baseModelName name = last (split_on CHR ''/'' name)"

text \<open>A nil pointer is \<^term>\<open>None\<close>.\<close>

definition NewSchemaMapper :: "registry \<Rightarrow> string \<Rightarrow> instance_map \<Rightarrow> schema_mapper option" where
  "NewSchemaMapper reg schemaName im =
     (let baseModel = baseModelName schemaName in
      if \<not> Has reg baseModel \<and> \<not> Has reg schemaName then None
      else
        let generic = mput_all (ParamMap reg baseModel) [];
            merged = (if schemaName \<noteq> baseModel then mput_all (ParamMap reg schemaName) generic else generic)
        in Some \<lparr> sm_params = merged, sm_instanceMap = im,
                  sm_modelType = (if contains baseModel ''tr098'' then TR098 else TR181) \<rparr>)"

definition safeIdx :: "int list \<Rightarrow> nat \<Rightarrow> int \<Rightarrow> string" where
  "safeIdx xs i fallback = (if i < length xs \<and> xs ! i > 0 then itoa (xs ! i) else itoa fallback)"

definition safeInt :: "int \<Rightarrow> int \<Rightarrow> string" where
  "safeInt v fallback = (if v > 0 then itoa v else itoa fallback)"

text \<open>\<^verbatim>\<open>strings.NewReplacer\<close>: at each position the first pair, in argument order, that matches.\<close>

function replace_pairs :: "(string \<times> string) list \<Rightarrow> string \<Rightarrow> string" where
  "replace_pairs ps s =
     (case s of
        [] \<Rightarrow> []
      | c # cs \<Rightarrow>
          (case find (\<lambda>p. fst p \<noteq> [] \<and> has_prefix s (fst p)) ps of
             None \<Rightarrow> c # replace_pairs ps cs
           | Some (old, new) \<Rightarrow> new @ replace_pairs ps (drop (length old) s)))"
  by pat_completeness auto
termination
  by (relation "measure (\<lambda>(ps, s). length s)") (auto simp: find_Some_iff,
    metis diff_less fst_conv length_greater_0_conv zero_less_Suc)

declare replace_pairs.simps [simp del]

definition placeholder_table :: "instance_map \<Rightarrow> (string \<times> string) list" where
  "placeholder_table im =
     [(''{ssid_0}'', safeIdx (im_WiFiSSIDIndices im) 0 1), (''{ssid_1}'', safeIdx (im_WiFiSSIDIndices im) 1 2),
      (''{radio_0}'', safeIdx (im_WiFiRadioIndices im) 0 1), (''{radio_1}'', safeIdx (im_WiFiRadioIndices im) 1 2),
      (''{ap_0}'', safeIdx (im_WiFiAPIndices im) 0 1), (''{ap_1}'', safeIdx (im_WiFiAPIndices im) 1 2),
      (''{wan}'', safeInt (im_WANIPIfaceIdx im) 1), (''{lan}'', safeInt (im_LANIPIfaceIdx im) 2),
      (''{ppp}'', safeInt (im_PPPIfaceIdx im) 1), (''{wan_dev}'', safeInt (im_WANDeviceIdx im) 1),
      (''{wan_conn}'', safeInt (im_WANConnDevIdx im) 1), (''{wan_ip_conn}'', safeInt (im_WANIPConnIdx im) 1),
      (''{wan_ppp_conn}'', safeInt (im_WANPPPConnIdx im) 1), (''{lan_dev}'', safeInt (im_LANDeviceIdx im) 1),
      (''{wlan_0}'', safeIdx (im_WLANIndices im) 0 1), (''{wlan_1}'', safeIdx (im_WLANIndices im) 1 2)]"

definition substitute_path :: "schema_mapper \<Rightarrow> string \<Rightarrow> string" where
  "substitute_path m tpl = replace_pairs (placeholder_table (sm_instanceMap m)) tpl"

definition resolvePath :: "schema_mapper \<Rightarrow> string \<Rightarrow> string" where
  "resolvePath m name =
     (case map_of (sm_params m) name of
        None \<Rightarrow> []
      | Some tpl \<Rightarrow> if tpl = [] then [] else substitute_path m tpl)"

definition Clone :: "schema_mapper \<Rightarrow> instance_map \<Rightarrow> schema_mapper" where
  "Clone m im = m\<lparr>sm_instanceMap := im\<rparr>"

definition schema_DetectModel :: "params \<Rightarrow> model_type" where
  "schema_DetectModel ps = (if \<exists>kv \<in> set ps. has_prefix (fst kv) ''Device.'' then TR181 else TR098)"

text \<open>Paths only the schema mapper has.\<close>

definition WANServiceTypePPPPath :: "schema_mapper \<Rightarrow> string" where
  "WANServiceTypePPPPath m = resolvePath m ''wan.service_type_ppp''"
definition WANStatusPPPPath :: "schema_mapper \<Rightarrow> string" where
  "WANStatusPPPPath m = resolvePath m ''wan.status_ppp''"
definition WANSubnetMaskPath :: "schema_mapper \<Rightarrow> string" where
  "WANSubnetMaskPath m = resolvePath m ''wan.subnet_mask''"

primrec schema_wifi_key :: "wifi_path \<Rightarrow> nat \<Rightarrow> string" where
  "schema_wifi_key WiFiSSIDPath band = ''wifi.ssid.'' @ itoa (int band)"
| "schema_wifi_key WiFiPasswordPath band = ''wifi.password.'' @ itoa (int band)"
| "schema_wifi_key WiFiEnabledPath band = ''wifi.enabled.'' @ itoa (int band)"
| "schema_wifi_key WiFiChannelPath band = ''wifi.channel.'' @ itoa (int band)"
| "schema_wifi_key WiFiBSSIDPath band = ''wifi.bssid.'' @ itoa (int band)"
| "schema_wifi_key WiFiStandardPath band = ''wifi.standard.'' @ itoa (int band)"
| "schema_wifi_key WiFiSecurityModePath band = ''wifi.security_mode.'' @ itoa (int band)"
| "schema_wifi_key WiFiChannelWidthPath band = ''wifi.channel_width.'' @ itoa (int band)"
| "schema_wifi_key WiFiTXPowerPath band = ''wifi.tx_power.'' @ itoa (int band)"
| "schema_wifi_key WiFiClientCountPath band = ''wifi.client_count.'' @ itoa (int band)"
| "schema_wifi_key WiFiBytesSentPath band = ''wifi.stats.bytes_sent.'' @ itoa (int band)"
| "schema_wifi_key WiFiBytesReceivedPath band = ''wifi.stats.bytes_received.'' @ itoa (int band)"
| "schema_wifi_key WiFiPacketsSentPath band = ''wifi.stats.packets_sent.'' @ itoa (int band)"
| "schema_wifi_key WiFiPacketsReceivedPath band =
     ''wifi.stats.packets_received.'' @ itoa (int band)"
| "schema_wifi_key WiFiErrorsSentPath band = ''wifi.stats.errors_sent.'' @ itoa (int band)"
| "schema_wifi_key WiFiErrorsReceivedPath band = ''wifi.stats.errors_received.'' @ itoa (int band)"

primrec schema_wan_key :: "wan_path \<Rightarrow> string" where
  "schema_wan_key WANConnectionTypePath = ''wan.connection_type''"
| "schema_wan_key WANPPPoEUserPath = ''wan.pppoe_user''"
| "schema_wan_key WANPPPoEPassPath = ''wan.pppoe_pass''"
| "schema_wan_key WANIPAddressPath = ''wan.ip_address''"
| "schema_wan_key WANGatewayPath = ''wan.gateway''"
| "schema_wan_key WANDNS1Path = ''wan.dns1''"
| "schema_wan_key WANDNS2Path = ''wan.dns2''"
| "schema_wan_key WANMTUPath = ''wan.mtu''"
| "schema_wan_key WANUptimePath = ''wan.uptime''"
| "schema_wan_key WANMACPath = ''wan.mac''"
| "schema_wan_key WANStatusPath = ''wan.status''"
| "schema_wan_key WANBytesSentPath = ''wan.stats.bytes_sent''"
| "schema_wan_key WANBytesReceivedPath = ''wan.stats.bytes_received''"
| "schema_wan_key WANPacketsSentPath = ''wan.stats.packets_sent''"
| "schema_wan_key WANPacketsReceivedPath = ''wan.stats.packets_received''"
| "schema_wan_key WANErrorsSentPath = ''wan.stats.errors_sent''"
| "schema_wan_key WANErrorsReceivedPath = ''wan.stats.errors_received''"
| "schema_wan_key WANServiceTypePath = ''wan.service_type''"

primrec schema_sys_key :: "sys_path \<Rightarrow> string" where
  "schema_sys_key LANIPAddressPath = ''lan.ip_address''"
| "schema_sys_key LANSubnetMaskPath = ''lan.subnet_mask''"
| "schema_sys_key DHCPServerEnablePath = ''dhcp.server_enable''"
| "schema_sys_key DHCPMinAddressPath = ''dhcp.min_address''"
| "schema_sys_key DHCPMaxAddressPath = ''dhcp.max_address''"
| "schema_sys_key LANDNSPath = ''lan.dns''"
| "schema_sys_key CPEUptimePath = ''system.uptime''"
| "schema_sys_key RAMTotalPath = ''system.ram_total''"
| "schema_sys_key RAMFreePath = ''system.ram_free''"
| "schema_sys_key ManagementServerURLPath = ''mgmt.url''"
| "schema_sys_key ManagementServerUserPath = ''mgmt.user''"
| "schema_sys_key ManagementServerPassPath = ''mgmt.pass''"
| "schema_sys_key ManagementServerInformIntervalPath = ''mgmt.interval''"
| "schema_sys_key HostsBasePath = ''hosts.base''"
| "schema_sys_key HostsCountPath = ''hosts.count''"
| "schema_sys_key PingDiagBasePath = ''diag.ping.base''"
| "schema_sys_key TracerouteDiagBasePath = ''diag.traceroute.base''"
| "schema_sys_key DownloadDiagBasePath = ''diag.download.base''"
| "schema_sys_key UploadDiagBasePath = ''diag.upload.base''"
| "schema_sys_key PortMappingBasePath = ''portmapping.base''"
| "schema_sys_key PortMappingCountPath = ''portmapping.count''"
| "schema_sys_key WebAdminPasswordPath = ''admin.password''"
| "schema_sys_key BandSteeringPath = ''wifi.band_steering''"

subsection \<open>The interface Mapper\<close>

datatype mapper = M181 tr181_mapper | M098 tr098_mapper | MSchema schema_mapper

definition NewMapper :: "model_type \<Rightarrow> mapper" where
  "NewMapper mt = (case mt of TR181 \<Rightarrow> M181 zero_tr181 | TR098 \<Rightarrow> M098 zero_tr098)"

definition wifi_path_of :: "mapper \<Rightarrow> wifi_path \<Rightarrow> nat \<Rightarrow> string" where
  "wifi_path_of m p band =
     (case m of
        M181 t \<Rightarrow> tr181_wifi t p band
      | M098 t \<Rightarrow> tr098_wifi t p band
      | MSchema t \<Rightarrow> resolvePath t (schema_wifi_key p band))"

definition wan_path_of :: "mapper \<Rightarrow> wan_path \<Rightarrow> string" where
  "wan_path_of m p =
     (case m of
        M181 t \<Rightarrow> tr181_wan t p
      | M098 t \<Rightarrow> tr098_wan t p
      | MSchema t \<Rightarrow> resolvePath t (schema_wan_key p))"

definition sys_path_of :: "mapper \<Rightarrow> sys_path \<Rightarrow> string" where
  "sys_path_of m p =
     (case m of
        M181 t \<Rightarrow> tr181_sys t p
      | M098 t \<Rightarrow> tr098_sys t p
      | MSchema t \<Rightarrow> resolvePath t (schema_sys_key p))"

definition SupportsWiFiAccessPoint :: "mapper \<Rightarrow> bool" where
  "SupportsWiFiAccessPoint m =
     (case m of M181 _ \<Rightarrow> True | M098 _ \<Rightarrow> False | MSchema t \<Rightarrow> sm_modelType t = TR181)"

definition WANProvisioningType :: "mapper \<Rightarrow> string" where
  "WANProvisioningType m =
     (case m of
        MSchema t \<Rightarrow>
          (let v = mget (sm_params t) ''wan.provisioning_type'' in if v = [] then ''set_params'' else v)
      | _ \<Rightarrow> ''set_params'')"

definition ExtractDeviceInfo :: "mapper \<Rightarrow> params \<Rightarrow> unified_device" where
  "ExtractDeviceInfo m ps =
     (case m of
        M181 t \<Rightarrow> tr181_ExtractDeviceInfo t ps
      | M098 t \<Rightarrow> tr098_ExtractDeviceInfo t ps
      | MSchema t \<Rightarrow>
          (case sm_modelType t of
             TR181 \<Rightarrow> tr181_ExtractDeviceInfo zero_tr181 ps
           | TR098 \<Rightarrow> tr098_ExtractDeviceInfo zero_tr098 ps))"

definition pick_idx :: "int \<Rightarrow> int \<Rightarrow> int" where
  "pick_idx new old = (if new > 0 then new else old)"

definition pick_idxs :: "int list \<Rightarrow> int list \<Rightarrow> int list" where
  "pick_idxs new old = (if new \<noteq> [] then new else old)"

definition ApplyInstanceMap :: "mapper \<Rightarrow> instance_map \<Rightarrow> mapper" where
  "ApplyInstanceMap mapper im =
     (case mapper of
        M181 m \<Rightarrow> M181 (m\<lparr>
          m1_WANIfaceIdx := pick_idx (im_WANIPIfaceIdx im) (m1_WANIfaceIdx m),
          m1_LANIfaceIdx := pick_idx (im_LANIPIfaceIdx im) (m1_LANIfaceIdx m),
          m1_PPPIfaceIdx := pick_idx (im_PPPIfaceIdx im) (m1_PPPIfaceIdx m),
          m1_SSIDIndices := pick_idxs (im_WiFiSSIDIndices im) (m1_SSIDIndices m),
          m1_RadioIndices := pick_idxs (im_WiFiRadioIndices im) (m1_RadioIndices m),
          m1_APIndices := pick_idxs (im_WiFiAPIndices im) (m1_APIndices m)\<rparr>)
      | M098 m \<Rightarrow> M098 (m\<lparr>
          m0_WANDeviceIdx := pick_idx (im_WANDeviceIdx im) (m0_WANDeviceIdx m),
          m0_WANConnDevIdx := pick_idx (im_WANConnDevIdx im) (m0_WANConnDevIdx m),
          m0_WANIPConnIdx := pick_idx (im_WANIPConnIdx im) (m0_WANIPConnIdx m),
          m0_WANPPPConnIdx := pick_idx (im_WANPPPConnIdx im) (m0_WANPPPConnIdx m),
          m0_LANDeviceIdx := pick_idx (im_LANDeviceIdx im) (m0_LANDeviceIdx m),
          m0_WLANIndices := pick_idxs (im_WLANIndices im) (m0_WLANIndices m)\<rparr>)
      | MSchema m \<Rightarrow> MSchema m)"

subsection \<open>Facts: vendors\<close>

lemma swap_pass_mset: "swap_pass x xs = (m, zs) \<Longrightarrow> add_mset m (mset zs) = add_mset x (mset xs)"
  by (induction x xs arbitrary: m zs rule: swap_pass.induct) (fastforce split: if_splits prod.splits)+

lemma swap_pass_max:
  "swap_pass x xs = (m, zs) \<Longrightarrow> length x \<le> length m \<and> (\<forall>z \<in> set zs. length z \<le> length m)"
  by (induction x xs arbitrary: m zs rule: swap_pass.induct) (fastforce split: if_splits prod.splits)+

lemma exchange_sort_mset: "mset (exchange_sort xs) = mset xs"
proof (induction xs rule: exchange_sort.induct)
  case 1
  then show ?case by simp
next
  case (2 x xs)
  obtain m zs where s: "swap_pass x xs = (m, zs)" by fastforce
  then show ?case using 2 [of m zs] swap_pass_mset [OF s] by simp
qed

lemma exchange_sort_set [simp]: "set (exchange_sort xs) = set xs"
  using exchange_sort_mset by (rule mset_eq_setD)

lemma exchange_sort_desc: "sorted_wrt (\<lambda>a b. length b \<le> length a) (exchange_sort xs)"
proof (induction xs rule: exchange_sort.induct)
  case 1
  then show ?case by simp
next
  case (2 x xs)
  obtain m zs where s: "swap_pass x xs = (m, zs)" by fastforce
  then show ?case using 2 [of m zs] swap_pass_max [OF s] by simp
qed

lemma find_first_sorted:
  assumes "sorted_wrt R xs" "find P xs = Some x" "y \<in> set xs" "P y"
  shows "x = y \<or> R x y"
  using assms
proof (induction xs)
  case Nil
  then show ?case by simp
next
  case (Cons a xs)
  then show ?case by (auto split: if_splits)
qed

lemma find_SomeD: "find P xs = Some x \<Longrightarrow> x \<in> set xs \<and> P x"
  by (metis find_Some_iff nth_mem)

lemma distinct_knownVendors: "distinct (map fst knownVendors)"
  by code_simp

definition vendor_match :: "string \<Rightarrow> string \<Rightarrow> bool" where
  "vendor_match manufacturer p \<longleftrightarrow>
     p \<in> fst ` set knownVendors \<and> has_prefix (to_lower (trim_space manufacturer)) p"

lemma prefix_same_length:
  "has_prefix s p \<Longrightarrow> has_prefix s q \<Longrightarrow> length p = length q \<Longrightarrow> p = q"
  by (simp add: has_prefix_def)

lemma find_vendor:
  assumes "set vs = set knownVendors" and "vendor_match manufacturer p"
    and "\<And>q. vendor_match manufacturer q \<Longrightarrow> length q \<le> length p"
  shows "find (\<lambda>p. has_prefix (to_lower (trim_space manufacturer)) p) (exchange_sort (map fst vs)) = Some p"
proof -
  let ?s = "to_lower (trim_space manufacturer)"
  let ?xs = "exchange_sort (map fst vs)"
  have p: "p \<in> set ?xs" "has_prefix ?s p" using assms(1,2) by (auto simp: vendor_match_def)
  then obtain q where q: "find (\<lambda>p. has_prefix ?s p) ?xs = Some q"
    by (cases "find (\<lambda>p. has_prefix ?s p) ?xs") (auto simp: find_None_iff)
  then have "q \<in> set ?xs" and hq: "has_prefix ?s q" using find_SomeD by metis+
  then have "vendor_match manufacturer q" using assms(1) by (auto simp: vendor_match_def)
  then have "length q \<le> length p" by (rule assms(3))
  moreover have "q = p \<or> length p \<le> length q"
    using find_first_sorted [OF exchange_sort_desc q p] by simp
  ultimately have "q = p" using prefix_same_length [OF hq p(2)] by auto
  with q show ?thesis by simp
qed

text \<open>
  C29. The vendor slug does not depend on the order in which Go visits the vendor table: it is the
  slug of the longest known name that the trimmed, lower-case manufacturer starts with, so that
  \<^verbatim>\<open>zteg\<close> wins over \<^verbatim>\<open>zte\<close>.
\<close>

theorem vendor_longest_prefix:
  assumes "mset vs = mset knownVendors" and "vendor_match manufacturer p"
    and "\<And>q. vendor_match manufacturer q \<Longrightarrow> length q \<le> length p"
  shows "normaliseVendor vs manufacturer = map_of knownVendors p"
proof -
  have st: "set vs = set knownVendors" using assms(1) by (rule mset_eq_setD)
  have "map_of vs = map_of knownVendors"
    using assms(1) distinct_knownVendors
    by (metis map_of_perm wf_map_def)
  moreover have "to_lower (trim_space manufacturer) \<noteq> []"
  proof
    assume "to_lower (trim_space manufacturer) = []"
    then have "p = []" using assms(2) by (simp add: vendor_match_def has_prefix_def)
    moreover have "list_all (\<lambda>kv. fst kv \<noteq> []) knownVendors" by code_simp
    ultimately show False using assms(2) by (auto simp: vendor_match_def list_all_iff)
  qed
  ultimately show ?thesis
    using find_vendor [OF st assms(2,3)] by (simp add: normaliseVendor_def Let_def)
qed

lemma vendor_longest_prefix_witness: "normaliseVendor (rev knownVendors) '' ZTEG Corp'' = Some ''cdata''"
proof -
  have m: "vendor_match '' ZTEG Corp'' ''zteg''" by code_simp
  have "list_all (\<lambda>kv. has_prefix (to_lower (trim_space '' ZTEG Corp'')) (fst kv) \<longrightarrow> length (fst kv) \<le> 4)
      knownVendors" by code_simp
  then have "length q \<le> length ''zteg''" if "vendor_match '' ZTEG Corp'' q" for q
    using that by (auto simp: vendor_match_def list_all_iff)
  moreover have "map_of knownVendors ''zteg'' = Some ''cdata''" by code_simp
  ultimately show ?thesis
    using vendor_longest_prefix [OF _ m, of "rev knownVendors"] by simp
qed

text \<open>
  The schema name the resolver returns is either a registered vendor schema of the same data
  model, or the data model itself (TR-098 when none was reported).
\<close>

lemma resolve_registered:
  assumes "Resolve reg manufacturer dm = Some name"
  shows "(\<exists>v. v \<noteq> [] \<and> normaliseVendor knownVendors manufacturer = Some v \<and>
            name = ''vendor/'' @ v @ ''/'' @ dm \<and> Has reg name) \<or>
         name = (if dm = [] then ''tr098'' else dm)"
  using assms by (auto simp: Resolve_def Let_def split: option.splits if_splits)

definition ex_reg :: registry where
  "ex_reg = [(''tr098'', [\<lparr> sf_ID = ''a'', sf_Model = ''tr098'', sf_Vendor = [], sf_Description = [],
                sf_Parameters = [\<lparr> sp_Name = ''wan.mtu'', sp_Path = ''A.{wan_dev}.MTU'', sp_Type = [] \<rparr>,
                                 \<lparr> sp_Name = ''wan.mac'', sp_Path = ''A.MAC'', sp_Type = [] \<rparr>] \<rparr>]),
             (''vendor/cdata/tr098'', [\<lparr> sf_ID = ''b'', sf_Model = ''tr098'', sf_Vendor = ''cdata'',
                sf_Description = [],
                sf_Parameters = [\<lparr> sp_Name = ''wan.mac'', sp_Path = ''B.MAC'', sp_Type = [] \<rparr>] \<rparr>])]"

lemma resolve_registered_witness:
  "Resolve ex_reg ''ZTEG'' ''tr098'' = Some ''vendor/cdata/tr098'' \<and> Has ex_reg ''vendor/cdata/tr098''"
proof -
  have "Resolve ex_reg ''ZTEG'' ''tr098'' = Some ''vendor/cdata/tr098''" by code_simp
  with resolve_registered [OF this] show ?thesis by simp
qed

subsection \<open>Facts: the schema mapper\<close>

lemma wf_ParamMap [simp]: "wf_map (ParamMap reg name)"
proof -
  have inner: "wf_map out \<Longrightarrow> wf_map (fold (\<lambda>p. mput (sp_Name p) (sp_Path p)) ps out)" for ps out
    by (induction ps arbitrary: out) auto
  have "wf_map out \<Longrightarrow>
      wf_map (fold (\<lambda>s out. fold (\<lambda>p. mput (sp_Name p) (sp_Path p)) (sf_Parameters s) out) ss out)" for ss out
    by (induction ss arbitrary: out) (auto simp: inner)
  from this [OF wf_map_Nil] show ?thesis by (simp add: ParamMap_def)
qed

text \<open>
  A schema mapper exists exactly when the schema or its base model is registered, and looks a
  parameter up in the vendor schema first and in the generic schema of the base model otherwise.
\<close>

lemma schema_mapper_lookup:
  "(case NewSchemaMapper reg name im of
      None \<Rightarrow> \<not> Has reg name \<and> \<not> Has reg (baseModelName name)
    | Some m \<Rightarrow>
        (Has reg name \<or> Has reg (baseModelName name)) \<and> sm_instanceMap m = im \<and>
        map_of (sm_params m) k =
          (case map_of (ParamMap reg name) k of
             Some tpl \<Rightarrow> Some tpl
           | None \<Rightarrow> map_of (ParamMap reg (baseModelName name)) k))"
  by (auto simp: NewSchemaMapper_def Let_def map_add_def split: option.splits)

subsection \<open>Paths stay in their data model\<close>

lemma tr181_wifi_rooted: "has_prefix (tr181_wifi m p band) ''Device.''"
  by (cases p) (simp_all add: has_prefix_def)

lemma tr181_wan_rooted: "tr181_wan m p = [] \<or> has_prefix (tr181_wan m p) ''Device.''"
  by (cases p) (simp_all add: has_prefix_def)

lemma tr181_sys_rooted: "tr181_sys m p = [] \<or> has_prefix (tr181_sys m p) ''Device.''"
  by (cases p) (simp_all add: has_prefix_def)

lemma tr098_wifi_rooted: "has_prefix (tr098_wifi m p band) ''InternetGatewayDevice.''"
  by (cases p) (simp_all add: has_prefix_def wlanBase_def)

lemma tr098_wan_rooted: "tr098_wan m p = [] \<or> has_prefix (tr098_wan m p) ''InternetGatewayDevice.''"
  by (cases p) (simp_all add: has_prefix_def wanBase_def)

lemma tr098_sys_rooted: "tr098_sys m p = [] \<or> has_prefix (tr098_sys m p) ''InternetGatewayDevice.''"
  by (cases p) (simp_all add: has_prefix_def wanBase_def)

text \<open>
  The contract of the interface \<^verbatim>\<open>Mapper\<close> its clients use: every path is either absent
  (empty) or lies below the root of the data model.
\<close>

locale rooted_mapper =
  fixes root :: string
    and wifi :: "wifi_path \<Rightarrow> nat \<Rightarrow> string" and wan :: "wan_path \<Rightarrow> string" and sys :: "sys_path \<Rightarrow> string"
  assumes wifi_rooted: "wifi p band = [] \<or> has_prefix (wifi p band) root"
    and wan_rooted: "wan q = [] \<or> has_prefix (wan q) root"
    and sys_rooted: "sys s = [] \<or> has_prefix (sys s) root"
begin

definition rooted :: "string \<Rightarrow> bool" where
  "rooted p \<longleftrightarrow> p = [] \<or> has_prefix p root"

lemma rooted_paths [simp]: "rooted (wifi p band)" "rooted (wan q)" "rooted (sys s)"
  using wifi_rooted wan_rooted sys_rooted by (simp_all add: rooted_def)

lemma rooted_below: "sys s \<noteq> [] \<Longrightarrow> has_prefix (sys s @ rest) root"
  using sys_rooted [of s] by (auto intro: has_prefix_app_mono)

end

interpretation rm181: rooted_mapper "''Device.''" "wifi_path_of (M181 m)" "wan_path_of (M181 m)"
  "sys_path_of (M181 m)" for m
  by unfold_locales
    (simp_all add: wifi_path_of_def wan_path_of_def sys_path_of_def tr181_wifi_rooted tr181_wan_rooted
      tr181_sys_rooted)

interpretation rm098: rooted_mapper "''InternetGatewayDevice.''" "wifi_path_of (M098 m)"
  "wan_path_of (M098 m)" "sys_path_of (M098 m)" for m
  by unfold_locales
    (simp_all add: wifi_path_of_def wan_path_of_def sys_path_of_def tr098_wifi_rooted tr098_wan_rooted
      tr098_sys_rooted)

end
