(* ===== verification/Driver.thy ===== *)
theory Driver
  imports Schema
begin

section \<open>internal/schema: drivers and provision flows\<close>

text \<open>
  The vendor drivers (\<^verbatim>\<open>driver.go\<close>) and the executor of provisioning flows
  (\<^verbatim>\<open>provision.go\<close>). YAML decoding is left outside; a driver registry is built from the
  decoded files. A nil map is an empty list, a nil pointer is \<^term>\<open>None\<close>.
\<close>

subsection \<open>Provision flows\<close>

datatype step_kind = StepAddObject | StepSet | StepDelete

record provision_step =
  ps_Kind :: step_kind
  ps_When :: string
  ps_Object :: string
  ps_As :: string
  ps_Params :: params

record provision_flow =
  flow_ID :: string
  flow_Description :: string
  flow_Steps :: "provision_step list"

text \<open>A step and a flow as decoded from YAML.\<close>

record step_yaml =
  sy_Kind :: string
  sy_When :: string
  sy_Object :: string
  sy_As :: string
  sy_Params :: params

record flow_yaml =
  fy_ID :: string
  fy_Description :: string
  fy_Steps :: "step_yaml list"

definition parseStepKind :: "string \<Rightarrow> step_kind option" where
  "parseStepKind s =
     (let k = to_lower s in
      if k = ''add_object'' \<or> k = ''add'' then Some StepAddObject
      else if k = ''set'' \<or> k = ''set_params'' then Some StepSet
      else if k = ''delete'' \<or> k = ''delete_object'' then Some StepDelete
      else None)"

fun parse_steps :: "step_yaml list \<Rightarrow> provision_step list option" where
  "parse_steps [] = Some []"
| "parse_steps (s # ss) =
     (case parseStepKind (sy_Kind s) of
        None \<Rightarrow> None
      | Some k \<Rightarrow>
          (case parse_steps ss of
             None \<Rightarrow> None
           | Some rest \<Rightarrow>
               Some (\<lparr> ps_Kind = k, ps_When = sy_When s, ps_Object = sy_Object s, ps_As = sy_As s,
                       ps_Params = sy_Params s \<rparr> # rest)))"

definition load_flow :: "flow_yaml \<Rightarrow> provision_flow option" where
  "load_flow raw =
     (case parse_steps (fy_Steps raw) of
        None \<Rightarrow> None
      | Some steps \<Rightarrow>
          Some \<lparr> flow_ID = fy_ID raw, flow_Description = fy_Description raw, flow_Steps = steps \<rparr>)"

subsection \<open>Drivers\<close>

record wifi_driver =
  wd_BandSteeringPath :: string
  wd_MultiSSIDSuffix24G :: string
  wd_MultiSSIDSuffix5G :: string
  wd_MultiSSIDSuffix6G :: string
  wd_SyncBandsOnSteering :: bool

record ssid_band_yaml =
  sb_Strategy :: string
  sb_Explicit :: "(string, int list) gomap"

record discovery_yaml =
  dy_WANTypePath :: string
  dy_WANTypesWAN :: "string list"
  dy_WANTypesLAN :: "string list"
  dy_WANTypesBridge :: "string list"
  dy_GPONEnablePath :: string
  dy_WANUptimePath :: string
  dy_WANServiceTypePath :: string
  dy_WANVLANPath :: string
  dy_HostConnTypePath :: string
  dy_HostConnTypeValues :: params
  dy_SSIDBand :: "ssid_band_yaml option"
  dy_ExtraSummonPaths :: "string list"
  dy_SystemCPUPath :: string
  dy_SystemMemPctPath :: string

record driver =
  dv_ID :: string
  dv_Vendor :: string
  dv_Model :: string
  dv_DeviceModel :: string
  dv_Description :: string
  dv_Features :: "(string, bool) gomap"
  dv_Config :: params
  dv_SecurityModes :: params
  dv_DefaultParams :: params
  dv_WiFi :: wifi_driver
  dv_Discovery :: discovery_yaml
  dv_Provisions :: "(string, provision_flow) gomap"

definition HasFeature :: "driver option \<Rightarrow> string \<Rightarrow> bool" where
  "HasFeature d name =
     (case d of None \<Rightarrow> False | Some d \<Rightarrow> (case map_of (dv_Features d) name of Some b \<Rightarrow> b | None \<Rightarrow> False))"

definition ConfigValue :: "driver option \<Rightarrow> string \<Rightarrow> string \<Rightarrow> string" where
  "ConfigValue d key fallback =
     (case d of
        None \<Rightarrow> fallback
      | Some d \<Rightarrow>
          (case map_of (dv_Config d) key of
             Some v \<Rightarrow> if v \<noteq> [] then v else fallback
           | None \<Rightarrow> fallback))"

definition MapSecurityMode :: "driver option \<Rightarrow> string \<Rightarrow> string" where
  "MapSecurityMode d uiMode =
     (case d of
        None \<Rightarrow> uiMode
      | Some d \<Rightarrow> (case map_of (dv_SecurityModes d) uiMode of Some v \<Rightarrow> v | None \<Rightarrow> uiMode))"

definition GetProvisionFlow :: "driver option \<Rightarrow> string \<Rightarrow> provision_flow option" where
  "GetProvisionFlow d name = (case d of None \<Rightarrow> None | Some d \<Rightarrow> map_of (dv_Provisions d) name)"

subsection \<open>Driver registry\<close>

type_synonym driver_registry = "(string, driver) gomap"

definition driverNameFromPath :: "string \<Rightarrow> string \<Rightarrow> string" where
  "driverNameFromPath root path =
     (let rel = trim_prefix path (root @ ''/'');
          dir = dir_of rel;
          parts = split_on CHR ''/'' dir
      in if length parts \<ge> 2 \<and> parts ! 0 = ''vendors'' then
           (if length parts \<ge> 5 \<and> parts ! 2 = ''models''
            then ''vendor/'' @ parts ! 1 @ ''/'' @ parts ! 3 @ ''/'' @ parts ! 4
            else if length parts \<ge> 3 then ''vendor/'' @ parts ! 1 @ ''/'' @ parts ! 2
            else dir)
         else dir)"

subsection \<open>Loading drivers\<close>

text \<open>The last element of a slash-separated path.\<close>

definition base_name :: "string \<Rightarrow> string" where
  "base_name p = (case last_index p CHR ''/'' of None \<Rightarrow> p | Some i \<Rightarrow> drop (Suc i) p)"

text \<open>A driver file: the fields of the driver, and the files of its flows, which are in its directory.\<close>

record driver_yaml =
  yd_fields :: driver
  yd_Provisions :: params

type_synonym flow_files = "string \<Rightarrow> string \<Rightarrow> flow_yaml option"

fun load_provisions :: "(string \<Rightarrow> flow_yaml option) \<Rightarrow> params \<Rightarrow> (string, provision_flow) gomap \<Rightarrow> (string, provision_flow) gomap option" where
  "load_provisions rd [] out = Some out"
| "load_provisions rd ((name, fname) # rest) out =
     (case Option.bind (rd fname) load_flow of
        None \<Rightarrow> None
      | Some flow \<Rightarrow> load_provisions rd rest (mput name flow out))"

definition LoadDriverFileWithProvisions :: "flow_files \<Rightarrow> string \<Rightarrow> driver_yaml option \<Rightarrow> driver option" where
  "LoadDriverFileWithProvisions flows path content =
     (case content of
        None \<Rightarrow> None
      | Some raw \<Rightarrow>
          map_option (\<lambda>ps. (yd_fields raw)\<lparr>dv_Provisions := ps\<rparr>)
            (load_provisions (flows (dir_of path)) (yd_Provisions raw) []))"

fun driver_LoadDir :: "flow_files \<Rightarrow> string \<Rightarrow> driver_yaml walk_entry list \<Rightarrow> driver_registry \<Rightarrow> bool \<times> driver_registry" where
  "driver_LoadDir flows root [] reg = (True, reg)"
| "driver_LoadDir flows root (WalkError # es) reg = (False, reg)"
| "driver_LoadDir flows root (IsDir path # es) reg = driver_LoadDir flows root es reg"
| "driver_LoadDir flows root (IsFile path content # es) reg =
     (if base_name path \<noteq> ''driver.yaml'' then driver_LoadDir flows root es reg
      else case LoadDriverFileWithProvisions flows path content of
             None \<Rightarrow> (False, reg)
           | Some d \<Rightarrow> driver_LoadDir flows root es (mput (driverNameFromPath root path) d reg))"

lemma driver_LoadDir_append:
  "driver_LoadDir flows root (es @ fs) reg =
     (case driver_LoadDir flows root es reg of
        (True, r) \<Rightarrow> driver_LoadDir flows root fs r
      | (False, r) \<Rightarrow> (False, r))"
  by (induction flows root es reg rule: driver_LoadDir.induct) (auto split: option.splits prod.splits bool.splits)

lemma load_provisions_flows:
  assumes "load_provisions rd files out = Some ps" and "distinct (map fst files)"
  shows "map_of ps name =
     (case map_of files name of None \<Rightarrow> map_of out name | Some fname \<Rightarrow> Option.bind (rd fname) load_flow)"
  using assms
proof (induction rd files out rule: load_provisions.induct)
  case (2 rd n fname rest out)
  then obtain flow where flow: "Option.bind (rd fname) load_flow = Some flow" by (auto split: option.splits)
  have "n \<notin> fst ` set rest" using 2 by simp
  then have "map_of rest n = None" by (simp add: map_of_eq_None_iff)
  then show ?case using 2 flow by (auto simp: map_of_mput split: option.splits)
qed simp

text \<open>
  A driver that is loaded has exactly the flows its file names, each read from the file named for it,
  and its steps have known kinds.
\<close>

lemma loaded_driver_flows:
  assumes "LoadDriverFileWithProvisions flows path (Some raw) = Some d" and "distinct (map fst (yd_Provisions raw))"
  shows "GetProvisionFlow (Some d) name =
     Option.bind (map_of (yd_Provisions raw) name) (\<lambda>fname. Option.bind (flows (dir_of path) fname) load_flow)"
proof -
  obtain ps where ps: "load_provisions (flows (dir_of path)) (yd_Provisions raw) [] = Some ps"
      "d = (yd_fields raw)\<lparr>dv_Provisions := ps\<rparr>"
    using assms(1) by (auto simp: LoadDriverFileWithProvisions_def)
  then show ?thesis
    using load_provisions_flows [OF ps(1) assms(2), of name]
    by (simp add: GetProvisionFlow_def split: option.splits)
qed

text \<open>Two drivers in directories that only differ below the data model share a name: the later one is kept.\<close>

lemma driver_names_collide:
  "driverNameFromPath ''r'' ''r/vendors/zte/tr098/driver.yaml'' = driverNameFromPath ''r'' ''r/vendors/zte/tr098/old/driver.yaml''"
  by code_simp

subsection \<open>Resolution\<close>

definition mergedDefaultParams :: "driver option \<Rightarrow> driver option \<Rightarrow> params" where
  "mergedDefaultParams vendor model =
     (case vendor of
        None \<Rightarrow> (case model of None \<Rightarrow> [] | Some m \<Rightarrow> dv_DefaultParams m)
      | Some v \<Rightarrow>
          if dv_DefaultParams v = [] then (case model of None \<Rightarrow> [] | Some m \<Rightarrow> dv_DefaultParams m)
          else (case model of
                  None \<Rightarrow> dv_DefaultParams v
                | Some m \<Rightarrow>
                    if dv_DefaultParams m = [] then dv_DefaultParams v
                    else mput_all (dv_DefaultParams m) (mput_all (dv_DefaultParams v) [])))"

text \<open>\<^verbatim>\<open>maps.Equal\<close>\<close>

definition maps_equal :: "('a, 'b) gomap \<Rightarrow> ('a, 'b) gomap \<Rightarrow> bool" where
  "maps_equal a b \<longleftrightarrow> length a = length b \<and> list_all (\<lambda>(k, v). map_of b k = Some v) a"

definition model_char :: "char \<Rightarrow> bool" where
  "model_char c \<longleftrightarrow>
     (let n = (of_char c :: nat) in
      (97 \<le> n \<and> n \<le> 122) \<or> (65 \<le> n \<and> n \<le> 90) \<or> (48 \<le> n \<and> n \<le> 57) \<or>
      c = CHR ''-'' \<or> c = CHR ''_'' \<or> c = CHR ''.'')"

definition normaliseModel :: "string \<Rightarrow> string" where
  "normaliseModel productClass =
     (let s = trim_space productClass in if s = [] then [] else filter model_char s)"

text \<open>The outer option is the panic of \<^term>\<open>normaliseVendor\<close>, the inner one a nil driver.\<close>

definition driver_Resolve :: "driver_registry \<Rightarrow> string \<Rightarrow> string \<Rightarrow> string \<Rightarrow> driver option option" where
  "driver_Resolve r vendor model dataModel =
     (case normaliseVendor knownVendors vendor of
        None \<Rightarrow> None
      | Some vendorSlug \<Rightarrow>
          let modelSlug = normaliseModel model;
              vendorDrv = (if vendorSlug \<noteq> []
                           then map_of r (''vendor/'' @ vendorSlug @ ''/'' @ dataModel) else None);
              chosen = (if vendorSlug \<noteq> [] \<and> modelSlug \<noteq> []
                        then map_of r (''vendor/'' @ vendorSlug @ ''/'' @ modelSlug @ ''/'' @ dataModel)
                        else None)
          in Some (case chosen of
               Some c \<Rightarrow>
                 let effective = mergedDefaultParams vendorDrv (Some c) in
                 Some (if maps_equal effective (dv_DefaultParams c) then c
                       else c\<lparr>dv_DefaultParams := effective\<rparr>)
             | None \<Rightarrow> vendorDrv))"

definition driver_Has :: "driver_registry \<Rightarrow> string \<Rightarrow> bool" where
  "driver_Has r name \<longleftrightarrow> map_of r name \<noteq> None"

subsection \<open>ProvisionExecutor\<close>

record resolved_step =
  rs_Kind :: step_kind
  rs_Object :: string
  rs_Params :: params

record provision_executor =
  pe_steps :: "provision_step list"
  pe_vars :: params
  pe_features :: "(string, bool) gomap"
  pe_cur :: nat

definition evalCondition :: "(string, bool) gomap \<Rightarrow> string \<Rightarrow> bool" where
  "evalCondition features cond0 =
     (let cond1 = trim_space cond0 in
      if cond1 = [] then True
      else
        let negate = has_prefix cond1 ''!'';
            name = (if negate then drop 1 cond1 else cond1);
            result = (case map_of features name of Some b \<Rightarrow> b | None \<Rightarrow> False)
        in if negate then \<not> result else result)"

definition step_active :: "(string, bool) gomap \<Rightarrow> provision_step \<Rightarrow> bool" where
  "step_active features s \<longleftrightarrow> ps_When s = [] \<or> evalCondition features (ps_When s)"

function skip_from :: "(string, bool) gomap \<Rightarrow> provision_step list \<Rightarrow> nat \<Rightarrow> nat" where
  "skip_from features steps cur =
     (if cur < length steps then
        if step_active features (steps ! cur) then cur else skip_from features steps (cur + 1)
      else cur)"
  by pat_completeness auto
termination by (relation "measure (\<lambda>(f, steps, cur). length steps - cur)") auto

declare skip_from.simps [simp del]

definition skipInactive :: "provision_executor \<Rightarrow> provision_executor" where
  "skipInactive pe = pe\<lparr>pe_cur := skip_from (pe_features pe) (pe_steps pe) (pe_cur pe)\<rparr>"

definition driver_config :: "driver option \<Rightarrow> params" where
  "driver_config d = (case d of None \<Rightarrow> [] | Some d \<Rightarrow> dv_Config d)"

definition driver_features :: "driver option \<Rightarrow> (string, bool) gomap" where
  "driver_features d =
     (case d of
        None \<Rightarrow> []
      | Some d \<Rightarrow> fold (\<lambda>(k, v). mput (''feature_'' @ k) v) (dv_Features d) [])"

definition initial_features :: "driver option \<Rightarrow> params \<Rightarrow> (string, bool) gomap" where
  "initial_features d vars =
     (let f0 = driver_features d;
          reuse = (case map_of vars ''gpon_idx'' of None \<Rightarrow> False | Some g \<Rightarrow> g \<noteq> [] \<and> g \<noteq> ''0'');
          f1 = mput ''gpon_create'' (\<not> reuse) (mput ''gpon_reuse'' reuse f0)
      in fold (\<lambda>(k, v) f. if trim_space v \<noteq> [] \<and> v \<noteq> ''0'' then mput (''has_'' @ k) True f else f) vars f1)"

definition NewProvisionExecutor :: "provision_flow \<Rightarrow> driver option \<Rightarrow> params \<Rightarrow> provision_executor" where
  "NewProvisionExecutor flow d inputVars =
     (let vars = mput_all inputVars (mput_all (driver_config d) []) in
      skipInactive \<lparr> pe_steps = flow_Steps flow, pe_vars = vars,
        pe_features = initial_features d vars, pe_cur = 0 \<rparr>)"

definition Done :: "provision_executor \<Rightarrow> bool" where
  "Done pe \<longleftrightarrow> pe_cur pe \<ge> length (pe_steps pe)"

text \<open>The variables are replaced one after the other, in the order the map is visited.\<close>

definition substitute_vars :: "params \<Rightarrow> string \<Rightarrow> string" where
  "substitute_vars vars s = fold (\<lambda>(name, val) s. replace_all s (''{'' @ name @ ''}'') val) vars s"

definition resolveParams :: "params \<Rightarrow> params \<Rightarrow> params" where
  "resolveParams vars raw =
     fold (\<lambda>(k, v) out.
             let rk = substitute_vars vars k; rv = substitute_vars vars v
             in if rv = [] then out else mput rk rv out) raw []"

definition CurrentStep :: "provision_executor \<Rightarrow> resolved_step option" where
  "CurrentStep pe =
     (if Done pe then None
      else let s = pe_steps pe ! pe_cur pe in
        Some \<lparr> rs_Kind = ps_Kind s, rs_Object = substitute_vars (pe_vars pe) (ps_Object s),
               rs_Params = resolveParams (pe_vars pe) (ps_Params s) \<rparr>)"

definition Advance :: "provision_executor \<Rightarrow> provision_executor" where
  "Advance pe = (if Done pe then pe else skipInactive (pe\<lparr>pe_cur := pe_cur pe + 1\<rparr>))"

definition AdvanceAddObject :: "int \<Rightarrow> provision_executor \<Rightarrow> provision_executor" where
  "AdvanceAddObject n pe =
     (if Done pe then pe
      else
        let s = pe_steps pe ! pe_cur pe;
            vars = (if ps_As s \<noteq> [] then mput (ps_As s) (itoa n) (pe_vars pe) else pe_vars pe)
        in skipInactive (pe\<lparr>pe_vars := vars, pe_cur := pe_cur pe + 1\<rparr>))"

subsection \<open>Facts: skipping and advancing\<close>

lemma skip_from_ge: "cur \<le> skip_from f steps cur"
proof (induction f steps cur rule: skip_from.induct)
  case (1 f steps cur)
  then show ?case by (subst skip_from.simps) (auto intro: Suc_leD)
qed

lemma skip_from_le: "cur \<le> length steps \<Longrightarrow> skip_from f steps cur \<le> length steps"
proof (induction f steps cur rule: skip_from.induct)
  case (1 f steps cur)
  then show ?case by (subst skip_from.simps) auto
qed

lemma skip_from_active:
  "skip_from f steps cur < length steps \<Longrightarrow> step_active f (steps ! skip_from f steps cur)"
proof (induction f steps cur rule: skip_from.induct)
  case (1 f steps cur)
  then show ?case by (subst skip_from.simps, subst (asm) skip_from.simps) (auto split: if_splits)
qed

text \<open>The indices of the active steps from a position on.\<close>

definition active_from :: "(string, bool) gomap \<Rightarrow> provision_step list \<Rightarrow> nat \<Rightarrow> nat list" where
  "active_from f steps cur = filter (\<lambda>i. step_active f (steps ! i)) [cur..<length steps]"

lemma active_from_skip:
  "active_from f steps cur =
     (let k = skip_from f steps cur in if k < length steps then k # active_from f steps (k + 1) else [])"
proof (induction f steps cur rule: skip_from.induct)
  case (1 f steps cur)
  show ?case
  proof (cases "cur < length steps")
    case False
    then show ?thesis by (subst skip_from.simps) (simp add: active_from_def)
  next
    case True
    show ?thesis
    proof (cases "step_active f (steps ! cur)")
      case a: True
      have "skip_from f steps cur = cur" using True a by (subst skip_from.simps) simp
      moreover have "[cur..<length steps] = cur # [Suc cur..<length steps]"
        using True by (rule upt_conv_Cons)
      ultimately show ?thesis using True a by (simp add: active_from_def)
    next
      case a: False
      have s: "skip_from f steps cur = skip_from f steps (cur + 1)"
        using True a by (subst skip_from.simps) simp
      have "[cur..<length steps] = cur # [Suc cur..<length steps]"
        using True by (rule upt_conv_Cons)
      then have "active_from f steps cur = active_from f steps (cur + 1)"
        using a by (simp add: active_from_def)
      with "1.IH" [OF True a] s show ?thesis by simp
    qed
  qed
qed

subsection \<open>The step machine\<close>

text \<open>
  What a session relies on when it drives a provisioning flow: a finished machine stays
  finished, and every way of advancing an unfinished one moves it forward through a fixed
  number of steps.
\<close>

locale step_machine =
  fixes total :: "'m \<Rightarrow> nat" and cur :: "'m \<Rightarrow> nat" and advance :: "'a \<Rightarrow> 'm \<Rightarrow> 'm"
  assumes advance_total: "total (advance a m) = total m"
    and advance_forward: "cur m < total m \<Longrightarrow> cur m < cur (advance a m)"
    and advance_stop: "total m \<le> cur m \<Longrightarrow> advance a m = m"
begin

lemma fold_stop: "total m \<le> cur m \<Longrightarrow> fold advance as m = m"
  by (induction as) (simp_all add: advance_stop)

text \<open>As many advances as there are steps left finish the machine, whatever they carry.\<close>

lemma finishes:
  "total m - cur m \<le> length as \<Longrightarrow> total (fold advance as m) \<le> cur (fold advance as m)"
proof (induction as arbitrary: m)
  case Nil
  then show ?case by simp
next
  case (Cons a as)
  show ?case
  proof (cases "cur m < total m")
    case True
    then have "total (advance a m) - cur (advance a m) < total m - cur m"
      using advance_forward [OF True, of a] advance_total [of a m] by linarith
    with Cons show ?thesis by simp
  next
    case False
    then show ?thesis using fold_stop [of m "a # as"] by simp
  qed
qed

end

text \<open>\<^term>\<open>None\<close> is a plain advance, \<^verbatim>\<open>Some n\<close> the answer to an AddObject.\<close>

definition advance_by :: "int option \<Rightarrow> provision_executor \<Rightarrow> provision_executor" where
  "advance_by a pe = (case a of None \<Rightarrow> Advance pe | Some n \<Rightarrow> AdvanceAddObject n pe)"

lemma skip_from_idem: "skip_from f steps (skip_from f steps cur) = skip_from f steps cur"
proof (cases "skip_from f steps cur < length steps")
  case True
  then show ?thesis using skip_from_active [OF True] by (subst skip_from.simps) simp
next
  case False
  then show ?thesis by (subst skip_from.simps) simp
qed

lemma active_from_skipped: "active_from f steps (skip_from f steps cur) = active_from f steps cur"
  using active_from_skip [of f steps "skip_from f steps cur"] active_from_skip [of f steps cur]
  by (simp add: skip_from_idem Let_def)

lemma active_from_here:
  assumes "cur < length steps" and "step_active f (steps ! cur)"
  shows "active_from f steps cur = cur # active_from f steps (cur + 1)"
  using assms active_from_skip [of f steps cur] by (subst (asm) skip_from.simps) (simp add: Let_def)

lemma advance_by_cur:
  "\<not> Done pe \<Longrightarrow> pe_cur (advance_by a pe) = skip_from (pe_features pe) (pe_steps pe) (pe_cur pe + 1)"
  by (cases a) (simp_all add: advance_by_def Advance_def AdvanceAddObject_def skipInactive_def Let_def)

lemma advance_by_keeps [simp]:
  "pe_steps (advance_by a pe) = pe_steps pe" "pe_features (advance_by a pe) = pe_features pe"
  by (cases a; simp add: advance_by_def Advance_def AdvanceAddObject_def skipInactive_def Let_def)+

lemma advance_by_Done: "Done pe \<Longrightarrow> advance_by a pe = pe"
  by (cases a) (simp_all add: advance_by_def Advance_def AdvanceAddObject_def)

interpretation pm: step_machine "\<lambda>pe. length (pe_steps pe)" pe_cur advance_by
proof unfold_locales
  fix pe :: provision_executor and a
  show "length (pe_steps (advance_by a pe)) = length (pe_steps pe)" by simp
  show "pe_cur pe < pe_cur (advance_by a pe)" if "pe_cur pe < length (pe_steps pe)"
    using that skip_from_ge [of "pe_cur pe + 1" "pe_features pe" "pe_steps pe"]
    by (simp add: advance_by_cur Done_def)
  show "advance_by a pe = pe" if "length (pe_steps pe) \<le> pe_cur pe"
    using that by (simp add: advance_by_Done Done_def)
qed

text \<open>The steps a run stops at, one per response of the device.\<close>

fun stops :: "int option list \<Rightarrow> provision_executor \<Rightarrow> nat list" where
  "stops [] pe = (if Done pe then [] else [pe_cur pe])"
| "stops (a # as) pe = (if Done pe then [] else pe_cur pe # stops as (advance_by a pe))"

lemma stops_active:
  assumes "length (pe_steps pe) - pe_cur pe \<le> length as"
    and "Done pe \<or> step_active (pe_features pe) (pe_steps pe ! pe_cur pe)"
  shows "stops as pe = active_from (pe_features pe) (pe_steps pe) (pe_cur pe)"
  using assms
proof (induction as arbitrary: pe)
  case Nil
  then show ?case by (simp add: Done_def active_from_def)
next
  case (Cons a as)
  show ?case
  proof (cases "Done pe")
    case True
    then show ?thesis by (simp add: Done_def active_from_def)
  next
    case False
    let ?f = "pe_features pe" and ?s = "pe_steps pe" and ?c = "pe_cur pe"
    let ?k = "skip_from ?f ?s (?c + 1)"
    have lt: "?c < length ?s" using False by (simp add: Done_def)
    have c: "pe_cur (advance_by a pe) = ?k" using False by (rule advance_by_cur)
    have "?c + 1 \<le> ?k" by (rule skip_from_ge)
    then have "length (pe_steps (advance_by a pe)) - pe_cur (advance_by a pe) \<le> length as"
      using Cons.prems(1) lt c by simp
    moreover have "Done (advance_by a pe) \<or>
        step_active (pe_features (advance_by a pe)) (pe_steps (advance_by a pe) ! pe_cur (advance_by a pe))"
      using skip_from_active [of ?f ?s "?c + 1"] c
      by (cases "?k < length ?s") (auto simp: Done_def skip_from_active)
    ultimately have "stops as (advance_by a pe) = active_from ?f ?s ?k" using Cons.IH c by simp
    also have "active_from ?f ?s ?k = active_from ?f ?s (?c + 1)" by (rule active_from_skipped)
    finally have "stops (a # as) pe = ?c # active_from ?f ?s (?c + 1)" using False by simp
    moreover have "active_from ?f ?s ?c = ?c # active_from ?f ?s (?c + 1)"
      using active_from_here lt Cons.prems(2) False by blast
    ultimately show ?thesis by simp
  qed
qed

lemma NewProvisionExecutor_start:
  "pe_steps (NewProvisionExecutor flow d iv) = flow_Steps flow"
  "pe_cur (NewProvisionExecutor flow d iv) =
     skip_from (pe_features (NewProvisionExecutor flow d iv)) (flow_Steps flow) 0"
  by (simp_all add: NewProvisionExecutor_def skipInactive_def Let_def)

text \<open>
  C10. A provisioning run visits exactly the steps whose condition holds, each once and in the order
  of the flow, and then is done: for any device responses, at least as many as there are steps,
  the sequence of current steps is the list of active indices and the executor ends finished.
\<close>

theorem provision_runs_active_steps:
  assumes "pe = NewProvisionExecutor flow d iv" and "length (flow_Steps flow) \<le> length as"
  shows "stops as pe = active_from (pe_features pe) (flow_Steps flow) 0 \<and> Done (fold advance_by as pe)"
proof -
  note st = NewProvisionExecutor_start [of flow d iv, folded assms(1)]
  have act: "Done pe \<or> step_active (pe_features pe) (pe_steps pe ! pe_cur pe)"
    using skip_from_active [of "pe_features pe" "flow_Steps flow" 0] st
    by (cases "pe_cur pe < length (flow_Steps flow)") (auto simp: Done_def)
  have "stops as pe = active_from (pe_features pe) (pe_steps pe) (pe_cur pe)"
    using assms(2) st act by (intro stops_active) simp_all
  also have "\<dots> = active_from (pe_features pe) (flow_Steps flow) 0"
    using st by (metis active_from_skipped assms(1))
  finally have "stops as pe = active_from (pe_features pe) (flow_Steps flow) 0" .
  moreover have "Done (fold advance_by as pe)"
    using pm.finishes [of pe as] assms(2) st by (simp add: Done_def)
  ultimately show ?thesis by blast
qed

definition ex_flow :: provision_flow where
  "ex_flow = \<lparr> flow_ID = ''f'', flow_Description = [], flow_Steps =
     [\<lparr> ps_Kind = StepAddObject, ps_When = ''gpon_create'', ps_Object = ''Device.X_TP_GPON.Link.'',
        ps_As = ''gpon_idx'', ps_Params = [] \<rparr>,
      \<lparr> ps_Kind = StepSet, ps_When = ''!has_username'', ps_Object = [], ps_As = [],
        ps_Params = [(''A.Enable'', ''0'')] \<rparr>,
      \<lparr> ps_Kind = StepSet, ps_When = [], ps_Object = [], ps_As = [],
        ps_Params = [(''A.{gpon_idx}.Username'', ''{username}''), (''A.Password'', ''{password}'')] \<rparr>] \<rparr>"

definition ex_vars :: params where
  "ex_vars = [(''username'', ''u''), (''password'', [])]"

lemma provision_runs_active_steps_witness:
  "stops [Some 4, None, None] (NewProvisionExecutor ex_flow None ex_vars) = [0, 2]"
proof -
  have "active_from (pe_features (NewProvisionExecutor ex_flow None ex_vars)) (flow_Steps ex_flow) 0 = [0, 2]"
    by code_simp
  with provision_runs_active_steps [OF refl, of ex_flow "[Some 4, None, None]" None ex_vars] show ?thesis
    by (simp add: ex_flow_def)
qed

subsection \<open>Template substitution\<close>

text \<open>
  A template as the flow files write it: plain text with placeholders. Neither the text nor the
  names contain a brace.
\<close>

datatype tpl_item = Txt string | Hole string

definition brace_free :: "string \<Rightarrow> bool" where
  "brace_free s \<longleftrightarrow> CHR ''{'' \<notin> set s \<and> CHR ''}'' \<notin> set s"

fun render :: "tpl_item list \<Rightarrow> string" where
  "render [] = []"
| "render (Txt s # t) = s @ render t"
| "render (Hole n # t) = ''{'' @ n @ ''}'' @ render t"

fun wf_tpl :: "tpl_item list \<Rightarrow> bool" where
  "wf_tpl [] = True"
| "wf_tpl (Txt s # t) = (brace_free s \<and> wf_tpl t)"
| "wf_tpl (Hole n # t) = (brace_free n \<and> wf_tpl t)"

definition fill :: "(string \<rightharpoonup> string) \<Rightarrow> tpl_item \<Rightarrow> tpl_item" where
  "fill m i = (case i of Txt s \<Rightarrow> Txt s | Hole n \<Rightarrow> (case m n of None \<Rightarrow> Hole n | Some v \<Rightarrow> Txt v))"

lemma fill_simps [simp]:
  "fill m (Txt s) = Txt s"
  "fill m (Hole n) = (case m n of None \<Rightarrow> Hole n | Some v \<Rightarrow> Txt v)"
  by (simp_all add: fill_def)

lemma replace_all_skip:
  assumes "CHR ''{'' \<notin> set a" and "old = CHR ''{'' # old'"
  shows "replace_all (a @ s) old new = a @ replace_all s old new"
  using assms
proof (induction a)
  case Nil
  then show ?case by simp
next
  case (Cons c a)
  then have "\<not> has_prefix (c # a @ s) old" by (auto simp: has_prefix_def)
  with Cons show ?case by (subst replace_all.simps) simp
qed

lemma replace_all_hit:
  assumes "old \<noteq> []"
  shows "replace_all (old @ s) old new = new @ replace_all s old new"
proof -
  obtain c cs where c: "old = c # cs" using assms by (cases old) auto
  have "has_prefix (old @ s) old" by simp
  then show ?thesis using c by (subst replace_all.simps) simp
qed

lemma token_prefix:
  assumes "brace_free m" "brace_free n"
  shows "has_prefix (CHR ''{'' # m @ CHR ''}'' # s) (CHR ''{'' # n @ ''}'') \<longleftrightarrow> m = n"
proof
  assume "has_prefix (CHR ''{'' # m @ CHR ''}'' # s) (CHR ''{'' # n @ ''}'')"
  then obtain r where r: "m @ CHR ''}'' # s = n @ CHR ''}'' # r"
    by (auto simp: has_prefix_iff prefix_def)
  have "CHR ''}'' \<notin> set m" "CHR ''}'' \<notin> set n" using assms by (simp_all add: brace_free_def)
  with r show "m = n"
    by (metis cut_at_append option.inject prod.inject)
next
  assume "m = n"
  then show "has_prefix (CHR ''{'' # m @ CHR ''}'' # s) (CHR ''{'' # n @ ''}'')"
    by (simp add: has_prefix_iff prefix_def)
qed

lemma replace_all_render:
  assumes "wf_tpl t" "brace_free n"
  shows "replace_all (render t) (''{'' @ n @ ''}'') v = render (map (fill [n \<mapsto> v]) t)"
  using assms(1)
proof (induction t rule: render.induct)
  case 1
  then show ?case by simp
next
  case (2 s t)
  have "wf_tpl t" and s: "CHR ''{'' \<notin> set s" using "2.prems" by (simp_all add: brace_free_def)
  note IH = "2.IH" [OF this(1)]
  have "replace_all (render (Txt s # t)) (''{'' @ n @ ''}'') v
      = s @ replace_all (render t) (''{'' @ n @ ''}'') v"
    unfolding render.simps using s by (rule replace_all_skip) simp
  then show ?case by (simp only: IH list.map fill_simps render.simps)
next
  case (3 m t)
  have "wf_tpl t" and m: "brace_free m" using "3.prems" by simp_all
  note IH = "3.IH" [OF this(1)]
  show ?case
  proof (cases "m = n")
    case True
    have "replace_all (render (Hole m # t)) (''{'' @ n @ ''}'') v
        = replace_all ((''{'' @ n @ ''}'') @ render t) (''{'' @ n @ ''}'') v" using True by simp
    also have "\<dots> = v @ replace_all (render t) (''{'' @ n @ ''}'') v" by (rule replace_all_hit) simp
    finally show ?thesis using IH True by simp
  next
    case False
    have "replace_all (render (Hole m # t)) (''{'' @ n @ ''}'') v
        = CHR ''{'' # replace_all ((m @ ''}'') @ render t) (''{'' @ n @ ''}'') v"
      using False token_prefix [OF m assms(2), of "render t"] by (subst replace_all.simps) simp
    also have "\<dots> = CHR ''{'' # (m @ ''}'') @ replace_all (render t) (''{'' @ n @ ''}'') v"
      using m by (subst replace_all_skip) (auto simp: brace_free_def)
    finally show ?thesis using IH False by simp
  qed
qed

lemma wf_tpl_fill: "wf_tpl t \<Longrightarrow> (\<And>n v. m n = Some v \<Longrightarrow> brace_free v) \<Longrightarrow> wf_tpl (map (fill m) t)"
  by (induction t rule: render.induct) (auto simp: fill_def split: option.splits)

text \<open>
  C31. On a well-formed template with variables free of braces, the one-after-the-other replacement
  is the intended simultaneous expansion: known placeholders become their values, unknown ones
  stay, and the order in which Go visits the variables makes no difference.
\<close>

theorem substitute_expands:
  assumes "wf_map vars" and "wf_tpl t"
    and "\<forall>(n, v) \<in> set vars. brace_free n \<and> brace_free v"
  shows "substitute_vars vars (render t) = render (map (fill (map_of vars)) t)"
  using assms
proof (induction vars arbitrary: t)
  case Nil
  have "map (fill Map.empty) t = t" by (induction t) (auto simp: fill_def split: tpl_item.splits)
  then show ?case by (simp add: substitute_vars_def)
next
  case (Cons nv vars)
  obtain n v where nv: "nv = (n, v)" by fastforce
  let ?t = "map (fill [n \<mapsto> v]) t"
  have "wf_tpl ?t" using Cons.prems nv by (intro wf_tpl_fill) (auto split: if_splits)
  moreover have "wf_map vars" using Cons.prems(1) by (simp add: wf_map_def)
  ultimately have "substitute_vars vars (render ?t) = render (map (fill (map_of vars)) ?t)"
    using Cons by simp
  moreover have "substitute_vars (nv # vars) (render t) = substitute_vars vars (render ?t)"
    using Cons.prems replace_all_render [of t n v] by (simp add: substitute_vars_def nv)
  moreover have "fill (map_of vars) (fill [n \<mapsto> v] i) = fill (map_of (nv # vars)) i" for i
    using Cons.prems(1)
    by (auto simp: fill_def nv wf_map_def map_of_eq_None_iff split: tpl_item.splits option.splits)
  ultimately show ?case by (simp add: comp_def nv fun_upd_def)
qed

lemma substitute_expands_witness:
  "substitute_vars [(''ip'', ''3''), (''user'', ''u@isp'')] ''A.{ip}.B.{x}.{user}'' = ''A.3.B.{x}.u@isp''"
  using substitute_expands
    [of "[(''ip'', ''3''), (''user'', ''u@isp'')]"
        "[Txt ''A.'', Hole ''ip'', Txt ''.B.'', Hole ''x'', Txt ''.'', Hole ''user'']"]
  by (simp add: wf_map_def brace_free_def fill_def)

text \<open>
  Without that restriction the result depends on Go's map order: a subscriber name that itself
  reads as a placeholder is replaced by the password in one order and kept in the other, and the
  two orders are visits of the same map.
\<close>

lemma substitute_order_dependent:
  "let vars = [(''username'', ''{password}''), (''password'', ''secret'')] in
     wf_map vars \<and>
     substitute_vars vars ''{username}'' = ''secret'' \<and>
     substitute_vars (rev vars) ''{username}'' = ''{password}''"
  by code_simp

subsection \<open>Facts: resolved steps and driver defaults\<close>

lemma maps_equal_map_of:
  assumes "maps_equal a b" "wf_map a" "wf_map b"
  shows "map_of a = map_of b"
proof -
  have sub: "set a \<subseteq> set b" using assms(1) by (auto simp: maps_equal_def list_all_iff dest: map_of_SomeD)
  have da: "distinct a" "distinct b" using assms(2,3) by (simp_all add: wf_map_def distinct_map)
  have "card (set a) = card (set b)"
    using assms(1) da by (simp add: maps_equal_def distinct_card)
  then have "set a = set b" using sub by (simp add: card_subset_eq)
  then show ?thesis using assms(2,3) by (simp add: wf_map_def map_of_inject_set)
qed

lemma resolveParams_nonempty:
  "\<forall>kv \<in> set out. snd kv \<noteq> [] \<Longrightarrow>
     \<forall>kv \<in> set (fold (\<lambda>(k, v) out.
             let rk = substitute_vars vars k; rv = substitute_vars vars v
             in if rv = [] then out else mput rk rv out) raw out). snd kv \<noteq> []"
proof (induction raw arbitrary: out)
  case Nil
  then show ?case by simp
next
  case (Cons kv raw)
  obtain k v where kv: "kv = (k, v)" by fastforce
  have upd: "\<forall>p \<in> set (mput a b m). snd p \<noteq> []" if "\<forall>p \<in> set m. snd p \<noteq> []" "b \<noteq> []" for a b m
    using that by (induction m) auto
  let ?out = "if substitute_vars vars v = [] then out
              else mput (substitute_vars vars k) (substitute_vars vars v) out"
  have "\<forall>p \<in> set ?out. snd p \<noteq> []"
  proof (cases "substitute_vars vars v = []")
    case False
    then show ?thesis using upd [OF Cons.prems] by simp
  qed (use Cons.prems in simp)
  from Cons.IH [OF this] show ?case by (simp add: kv Let_def)
qed



text \<open>
  C30. The driver chosen for a device is the model-specific one when it is registered, with the
  vendor driver's default parameters underneath its own (its own win on a conflict), and the
  vendor driver otherwise; nothing else of the chosen driver changes.
\<close>

theorem driver_resolution:
  assumes "driver_Resolve r vendor model dm = Some res"
    and "normaliseVendor knownVendors vendor = Some slug" and "slug \<noteq> []" and "normaliseModel model \<noteq> []"
    and "\<forall>(k, d) \<in> set r. wf_map (dv_DefaultParams d)"
  shows "(case map_of r (''vendor/'' @ slug @ ''/'' @ normaliseModel model @ ''/'' @ dm) of
            None \<Rightarrow> res = map_of r (''vendor/'' @ slug @ ''/'' @ dm)
          | Some c \<Rightarrow>
              (\<exists>c'. res = Some c' \<and> c'\<lparr>dv_DefaultParams := []\<rparr> = c\<lparr>dv_DefaultParams := []\<rparr> \<and>
                 map_of (dv_DefaultParams c') =
                   (case map_of r (''vendor/'' @ slug @ ''/'' @ dm) of
                      None \<Rightarrow> map_of (dv_DefaultParams c)
                    | Some v \<Rightarrow> map_of (dv_DefaultParams v) ++ map_of (dv_DefaultParams c))))"
proof (cases "map_of r (''vendor/'' @ slug @ ''/'' @ normaliseModel model @ ''/'' @ dm)")
  case None
  then show ?thesis using assms(1-4) by (simp add: driver_Resolve_def Let_def)
next
  case (Some c)
  let ?v = "map_of r (''vendor/'' @ slug @ ''/'' @ dm)"
  let ?e = "mergedDefaultParams ?v (Some c)"
  have wfc: "wf_map (dv_DefaultParams c)" using Some assms(5) map_of_SomeD by fastforce
  have wfv: "wf_map (dv_DefaultParams v)" if "?v = Some v" for v
    using that assms(5) map_of_SomeD by fastforce
  have e: "map_of ?e = (case ?v of None \<Rightarrow> map_of (dv_DefaultParams c)
      | Some v \<Rightarrow> map_of (dv_DefaultParams v) ++ map_of (dv_DefaultParams c))"
    using wfc wfv by (auto simp: mergedDefaultParams_def split: option.splits)
  have we: "wf_map ?e" using wfc wfv by (auto simp: mergedDefaultParams_def split: option.splits)
  have eq: "maps_equal ?e (dv_DefaultParams c) \<Longrightarrow> map_of ?e = map_of (dv_DefaultParams c)"
    using we wfc by (rule_tac maps_equal_map_of)
  show ?thesis using Some assms(1-4) e eq by (auto simp: driver_Resolve_def Let_def)
qed

text \<open>The zero values of the driver structures, on which the examples set what they need.\<close>

definition zero_driver :: driver where
  "zero_driver = \<lparr> dv_ID = [], dv_Vendor = [], dv_Model = [], dv_DeviceModel = [], dv_Description = [],
     dv_Features = [], dv_Config = [], dv_SecurityModes = [], dv_DefaultParams = [],
     dv_WiFi = \<lparr> wd_BandSteeringPath = [], wd_MultiSSIDSuffix24G = [], wd_MultiSSIDSuffix5G = [],
       wd_MultiSSIDSuffix6G = [], wd_SyncBandsOnSteering = False \<rparr>,
     dv_Discovery = \<lparr> dy_WANTypePath = [], dy_WANTypesWAN = [], dy_WANTypesLAN = [],
       dy_WANTypesBridge = [], dy_GPONEnablePath = [], dy_WANUptimePath = [],
       dy_WANServiceTypePath = [], dy_WANVLANPath = [], dy_HostConnTypePath = [],
       dy_HostConnTypeValues = [], dy_SSIDBand = None, dy_ExtraSummonPaths = [],
       dy_SystemCPUPath = [], dy_SystemMemPctPath = [] \<rparr>,
     dv_Provisions = [] \<rparr>"

definition ex_drivers :: driver_registry where
  "ex_drivers =
     [(''vendor/tplink/tr181'', zero_driver\<lparr>dv_DefaultParams := [(''A'', ''1''), (''B'', ''2'')]\<rparr>),
      (''vendor/tplink/XC220-G3/tr181'',
        zero_driver\<lparr>dv_Model := ''XC220-G3'', dv_DefaultParams := [(''B'', ''3'')]\<rparr>)]"

lemma driver_resolution_witness:
  "\<exists>c. driver_Resolve ex_drivers ''TP-Link'' ''XC220-G3'' ''tr181'' = Some (Some c) \<and>
     map_of (dv_DefaultParams c) = map_of [(''A'', ''1''), (''B'', ''2'')] ++ map_of [(''B'', ''3'')]"
proof -
  obtain res where r: "driver_Resolve ex_drivers ''TP-Link'' ''XC220-G3'' ''tr181'' = Some res"
    by (cases "driver_Resolve ex_drivers ''TP-Link'' ''XC220-G3'' ''tr181''") (code_simp, blast)
  have v: "normaliseVendor knownVendors ''TP-Link'' = Some ''tplink''" by code_simp
  have m: "normaliseModel ''XC220-G3'' = ''XC220-G3''" by code_simp
  have w: "\<forall>(k, d) \<in> set ex_drivers. wf_map (dv_DefaultParams d)"
    by (simp add: ex_drivers_def zero_driver_def wf_map_def)
  show ?thesis
    using driver_resolution [OF r v _ _ w] r
    by (simp add: m) (auto simp: ex_drivers_def zero_driver_def)
qed

end
