(* ===== verification/Soap.thy ===== *)
theory Soap
  imports Acs_Prelude
begin

section \<open>internal/cwmp/soap.go: messages to the device\<close>

text \<open>
  The SOAP envelopes the server sends: the message structs, their element trees with the names
  of the struct tags, the text the encoder writes for a tree, and the renaming of prefixes the
  builder does on that text. The parameters of a SetParameterValues request are ordered by the
  comparison of \<^verbatim>\<open>BuildSetParameterValues\<close>.
\<close>

subsection \<open>Messages\<close>

record param_value =
  pv_Name :: string
  pv_Type :: string
  pv_Data :: string

record download =
  dl_CommandKey :: string
  dl_FileType :: string
  dl_URL :: string
  dl_Username :: string
  dl_Password :: string
  dl_FileSize :: int
  dl_TargetFileName :: string
  dl_DelaySeconds :: int

datatype acs_body =
    BInformResponse int
  | BGetRPCMethodsResponse "string list"
  | BGetParameterValues "string list"
  | BSetParameterValues "param_value list" string
  | BGetParameterNames string bool
  | BAddObject string string
  | BDeleteObject string string
  | BDownload download
  | BReboot string
  | BFactoryReset

text \<open>An envelope: the session id of its header and its body.\<close>

type_synonym envelope = "string \<times> acs_body"

subsection \<open>Element trees and their text\<close>

datatype xml = Elem string "(string \<times> string) list" "xml list" | Chars string

definition leaf :: "string \<Rightarrow> string \<Rightarrow> xml" where
  "leaf n s = Elem n [] [Chars s]"

definition param_value_xml :: "param_value \<Rightarrow> xml" where
  "param_value_xml p =
     Elem ''ParameterValueStruct'' []
       [leaf ''Name'' (pv_Name p),
        Elem ''Value'' (if pv_Type p = [] then [] else [(''type'', pv_Type p)]) [Chars (pv_Data p)]]"

fun body_xml :: "acs_body \<Rightarrow> xml" where
  "body_xml (BInformResponse n) = Elem ''cwmp:InformResponse'' [] [leaf ''MaxEnvelopes'' (itoa n)]"
| "body_xml (BGetRPCMethodsResponse ms) =
     Elem ''cwmp:GetRPCMethodsResponse'' [] [Elem ''MethodList'' [] (map (leaf ''string'') ms)]"
| "body_xml (BGetParameterValues names) =
     Elem ''cwmp:GetParameterValues'' []
       [Elem ''ParameterNames''
          [(''soap-enc:arrayType'', ''xsd:string['' @ itoa (int (length names)) @ '']'')]
          (map (leaf ''string'') names)]"
| "body_xml (BSetParameterValues pvs key) =
     Elem ''cwmp:SetParameterValues'' []
       [Elem ''ParameterList''
          [(''soap-enc:arrayType'', ''cwmp:ParameterValueStruct['' @ itoa (int (length pvs)) @ '']'')]
          (map param_value_xml pvs),
        leaf ''ParameterKey'' key]"
| "body_xml (BGetParameterNames path nextLevel) =
     Elem ''cwmp:GetParameterNames'' [] [leaf ''ParameterPath'' path, leaf ''NextLevel'' (format_bool nextLevel)]"
| "body_xml (BAddObject obj key) =
     Elem ''cwmp:AddObject'' [] [leaf ''ObjectName'' obj, leaf ''ParameterKey'' key]"
| "body_xml (BDeleteObject obj key) =
     Elem ''cwmp:DeleteObject'' [] [leaf ''ObjectName'' obj, leaf ''ParameterKey'' key]"
| "body_xml (BDownload d) =
     Elem ''cwmp:Download'' []
       [leaf ''CommandKey'' (dl_CommandKey d), leaf ''FileType'' (dl_FileType d), leaf ''URL'' (dl_URL d),
        leaf ''Username'' (dl_Username d), leaf ''Password'' (dl_Password d),
        leaf ''FileSize'' (itoa (dl_FileSize d)), leaf ''TargetFileName'' (dl_TargetFileName d),
        leaf ''DelaySeconds'' (itoa (dl_DelaySeconds d))]"
| "body_xml (BReboot key) = Elem ''cwmp:Reboot'' [] [leaf ''CommandKey'' key]"
| "body_xml BFactoryReset = Elem ''cwmp:FactoryReset'' [] []"

definition envelope_xml :: "envelope \<Rightarrow> xml" where
  "envelope_xml e =
     Elem ''soap:Envelope''
       [(''xmlns:soap'', ''http://schemas.xmlsoap.org/soap/envelope/''),
        (''xmlns:cwmp'', ''urn:dslforum-org:cwmp-1-0''),
        (''xmlns:xsd'', ''http://www.w3.org/2001/XMLSchema''),
        (''xmlns:xsi'', ''http://www.w3.org/2001/XMLSchema-instance'')]
       [Elem ''soap:Header'' [] [Elem ''cwmp:ID'' [(''soap:mustUnderstand'', ''1'')] [Chars (fst e)]],
        Elem ''soap:Body'' [] [body_xml (snd e)]]"

text \<open>The encoder of package encoding/xml: escaped texts, every element with its end tag.\<close>

definition escape_char :: "char \<Rightarrow> string" where
  "escape_char c =
     (if c = CHR 0x22 then ''&#34;''
      else if c = CHR 0x27 then ''&#39;''
      else if c = CHR ''&'' then ''&amp;''
      else if c = CHR ''<'' then ''&lt;''
      else if c = CHR ''>'' then ''&gt;''
      else if c = CHR 0x09 then ''&#x9;''
      else if c = CHR 0x0A then ''&#xA;''
      else if c = CHR 0x0D then ''&#xD;''
      else [c])"

definition escape :: "string \<Rightarrow> string" where
  "escape s = concat (map escape_char s)"

definition render_attr :: "string \<times> string \<Rightarrow> string" where
  "render_attr a = '' '' @ fst a @ ''='' @ [CHR 0x22] @ escape (snd a) @ [CHR 0x22]"

fun render_xml :: "xml \<Rightarrow> string" where
  "render_xml (Chars s) = escape s"
| "render_xml (Elem n attrs cs) =
     ''<'' @ n @ concat (map render_attr attrs) @ ''>'' @ concat (map render_xml cs) @ ''</'' @ n @ ''>''"

definition xml_header :: string where
  "xml_header = ''<?xml version='' @ [CHR 0x22] @ ''1.0'' @ [CHR 0x22] @ '' encoding='' @ [CHR 0x22] @
     ''UTF-8'' @ [CHR 0x22] @ ''?>'' @ [CHR 0x0A]"

text \<open>The three text replacements at the end of \<^verbatim>\<open>BuildEnvelope\<close>.\<close>

definition rename_prefixes :: "string \<Rightarrow> string" where
  "rename_prefixes out =
     (let q = [CHR 0x22];
          o1 = replace_all out ''xmlns:soap=''
                 (''xmlns:soap-enc='' @ q @ ''http://schemas.xmlsoap.org/soap/encoding/'' @ q @ '' xmlns:soap-env='');
          o2 = replace_all o1 ''soap:'' ''soap-env:''
      in replace_all o2 ('' type='' @ q @ ''xsd:'') ('' xsi:type='' @ q @ ''xsd:''))"

definition BuildEnvelope :: "envelope \<Rightarrow> string" where
  "BuildEnvelope e = rename_prefixes (xml_header @ render_xml (envelope_xml e))"

subsection \<open>Builders\<close>

definition BuildInformResponse :: "string \<Rightarrow> envelope" where
  "BuildInformResponse i = (i, BInformResponse 1)"

definition BuildGetParameterValues :: "string \<Rightarrow> string list \<Rightarrow> envelope" where
  "BuildGetParameterValues i names = (i, BGetParameterValues names)"

definition leaf_name :: "string \<Rightarrow> string" where
  "leaf_name name = last (split_on CHR ''.'' name)"

definition is_disable :: "params \<Rightarrow> string \<Rightarrow> bool" where
  "is_disable ps n \<longleftrightarrow> leaf_name n = ''Enable'' \<and> mget ps n = ''0''"

definition is_vlan :: "string \<Rightarrow> bool" where
  "is_vlan n \<longleftrightarrow> contains n ''VLANTermination'' \<and> leaf_name n = ''VLANID''"

definition is_secure :: "string \<Rightarrow> bool" where
  "is_secure n \<longleftrightarrow> leaf_name n \<in> {''Username'', ''Password'', ''KeyPassphrase'', ''PreSharedKey''}"

definition is_enable :: "params \<Rightarrow> string \<Rightarrow> bool" where
  "is_enable ps n \<longleftrightarrow> leaf_name n = ''Enable'' \<and> mget ps n = ''1''"

definition is_mode :: "string \<Rightarrow> bool" where
  "is_mode n \<longleftrightarrow> leaf_name n = ''ModeEnabled'' \<or> leaf_name n = ''EncryptionMode''"

text \<open>The comparison handed to \<^verbatim>\<open>sort.Slice\<close>.\<close>

definition spv_before :: "params \<Rightarrow> string \<Rightarrow> string \<Rightarrow> bool" where
  "spv_before ps i j =
     (if is_disable ps i \<noteq> is_disable ps j then is_disable ps i
      else if is_vlan i \<noteq> is_vlan j then is_vlan i
      else if is_secure i \<noteq> is_secure j then is_secure i
      else if is_enable ps i \<noteq> is_enable ps j then \<not> is_enable ps i
      else if is_mode i \<noteq> is_mode j then \<not> is_mode i
      else i < j)"

definition inferXSDType :: "string \<Rightarrow> string" where
  "inferXSDType name =
     (let leaf = leaf_name name in
      if leaf = ''ModeEnabled'' then ''xsd:string''
      else if contains leaf ''Enable'' \<or> leaf = ''RequestAddresses'' \<or> leaf = ''RequestPrefixes'' \<or>
              has_suffix leaf ''Mcast'' then ''xsd:boolean''
      else if leaf \<in> set [''VLANID'', ''MaxMTUSize'', ''NumberOfRepetitions'', ''PeriodicInformInterval'',
                ''MaxMTU'', ''Status'', ''X_TP_VLANMode'', ''Port'', ''Channel'', ''TransmitPower'',
                ''OperatingChannelBandwidth'', ''MaxBitRate'', ''RSSI'', ''X_TP_TxPower'',
                ''AssociatedDeviceNumberOfEntries''] then ''xsd:unsignedInt''
      else if leaf = ''X_TP_MulticastStatus'' then ''xsd:int''
      else ''xsd:string'')"

definition spv_names :: "params \<Rightarrow> string list" where
  "spv_names ps = sort_by (spv_before ps) (map fst ps)"

definition BuildSetParameterValues :: "string \<Rightarrow> params \<Rightarrow> envelope" where
  "BuildSetParameterValues i ps =
     (i, BSetParameterValues
           (map (\<lambda>n. \<lparr> pv_Name = n, pv_Type = inferXSDType n, pv_Data = mget ps n \<rparr>) (spv_names ps)) [])"

definition BuildReboot :: "string \<Rightarrow> string \<Rightarrow> envelope" where
  "BuildReboot i commandKey = (i, BReboot commandKey)"

definition BuildFactoryReset :: "string \<Rightarrow> envelope" where
  "BuildFactoryReset i = (i, BFactoryReset)"

definition BuildDownload :: "string \<Rightarrow> download \<Rightarrow> envelope" where
  "BuildDownload i d = (i, BDownload d)"

definition BuildAddObject :: "string \<Rightarrow> string \<Rightarrow> envelope" where
  "BuildAddObject i obj = (i, BAddObject obj [])"

definition BuildDeleteObject :: "string \<Rightarrow> string \<Rightarrow> envelope" where
  "BuildDeleteObject i obj = (i, BDeleteObject obj i)"

definition BuildGetParameterNames :: "string \<Rightarrow> string \<Rightarrow> bool \<Rightarrow> envelope" where
  "BuildGetParameterNames i path nextLevel = (i, BGetParameterNames path nextLevel)"

subsection \<open>Facts: the order of a SetParameterValues request\<close>

text \<open>
  The comparison is the order of a rank, then of the names: disabling switches first, then VLAN
  ids, then credentials, then plain parameters, then security modes, and enabling switches last.
\<close>

definition spv_rank :: "params \<Rightarrow> string \<Rightarrow> nat" where
  "spv_rank ps n =
     (if is_disable ps n then 0 else 16) + (if is_vlan n then 0 else 8) + (if is_secure n then 0 else 4) +
     (if is_enable ps n then 2 else 0) + (if is_mode n then 1 else 0)"

lemma spv_before_rank:
  "spv_before ps i j \<longleftrightarrow> spv_rank ps i < spv_rank ps j \<or> (spv_rank ps i = spv_rank ps j \<and> i < j)"
  by (simp add: spv_before_def spv_rank_def)

interpretation spv: sort_order "spv_before ps" "\<lambda>_. True" for ps
proof unfold_locales
  fix x y z :: string
  show "spv_before ps x y \<Longrightarrow> \<not> spv_before ps y x" by (auto simp: spv_before_rank)
  show "spv_before ps x y \<Longrightarrow> spv_before ps y z \<Longrightarrow> spv_before ps x z"
    by (auto simp: spv_before_rank)
  show "x \<noteq> y \<Longrightarrow> spv_before ps x y \<or> spv_before ps y x"
    by (auto simp: spv_before_rank not_less_iff_gr_or_eq)
qed

lemma spv_before_total: "x \<noteq> y \<Longrightarrow> \<not> spv_before ps y x \<Longrightarrow> spv_before ps x y"
  by (auto simp: spv_before_rank not_less_iff_gr_or_eq)

lemma spv_before_cong: "mget ps = mget qs \<Longrightarrow> spv_before ps = spv_before qs"
proof -
  assume "mget ps = mget qs"
  then have "is_disable ps = is_disable qs" "is_enable ps = is_enable qs"
    by (simp_all add: fun_eq_iff is_disable_def is_enable_def)
  then show ?thesis by (simp add: fun_eq_iff spv_before_def)
qed

lemma spv_names_perm:
  assumes "wf_map ps" "mset ps = mset qs"
  shows "spv_names ps = spv_names qs"
proof -
  have "mget ps = mget qs" using assms by (intro ext) (simp add: mget_def map_of_perm)
  then have b: "spv_before ps = spv_before qs" by (rule spv_before_cong)
  have "mset (map fst ps) = mset (map fst qs)" using assms(2) by simp
  then show ?thesis unfolding spv_names_def b by (rule spv.sort_order_independent) simp
qed





text \<open>
  The comment in the comparison asks for security modes after the re-enabling switch; the code
  puts the switch after the mode. And a value that contains \<^verbatim>\<open>soap:\<close> does not reach
  the device as given: the prefix renaming works on the whole text of the message.
\<close>

lemma spv_comment_divergence:
  "spv_names [(''W.Enable'', ''1''), (''W.Security.ModeEnabled'', ''WPA2-Personal'')] =
     [''W.Security.ModeEnabled'', ''W.Enable''] \<and>
   contains (rename_prefixes (render_xml (body_xml (snd (BuildAddObject ''1'' ''soap:x'')))))
     ''<ObjectName>soap-env:x</ObjectName>''"
  by (intro conjI; code_simp)

end
