(* ===== verification/Parse.thy ===== *)
theory Parse
  imports Soap
begin

section \<open>internal/cwmp/parse.go: messages from the device\<close>

text \<open>
  The decoder of package encoding/xml delivers names as pairs of a name space and a local part.
  \<^verbatim>\<open>normalizeXML\<close> strips both prefixes and name-space declarations; the result is decoded by
  plain local names. The model works on the element tree of the token stream; a text that is not
  well-formed, or a number that does not parse, makes \<^verbatim>\<open>ParseEnvelope\<close> an error.
\<close>

subsection \<open>Normalisation\<close>

type_synonym xname = "string \<times> string"

datatype token_tree = TElem xname "(xname \<times> string) list" "token_tree list" | TChars string

definition localPart :: "string \<Rightarrow> string" where
  "localPart s = (case last_index s CHR '':'' of None \<Rightarrow> s | Some i \<Rightarrow> drop (i + 1) s)"

definition keep_attr :: "xname \<times> string \<Rightarrow> bool" where
  "keep_attr a =
     (case a of ((space, loc), _) \<Rightarrow>
        space \<noteq> ''xmlns'' \<and> \<not> (space = [] \<and> (loc = ''xmlns'' \<or> has_prefix loc ''xmlns:'')))"

fun normalizeXML :: "token_tree \<Rightarrow> xml" where
  "normalizeXML (TChars s) = Chars s"
| "normalizeXML (TElem n attrs cs) =
     Elem (localPart (snd n)) (map (\<lambda>a. (localPart (snd (fst a)), snd a)) (filter keep_attr attrs))
       (map normalizeXML cs)"

subsection \<open>Message structs\<close>

record device_id =
  di_Manufacturer :: string
  di_OUI :: string
  di_ProductClass :: string
  di_SerialNumber :: string

record event_struct =
  ev_EventCode :: string
  ev_CommandKey :: string

record inform =
  in_DeviceId :: device_id
  in_Events :: "event_struct list"
  in_MaxEnvelopes :: int
  in_CurrentTime :: string
  in_RetryCount :: int
  in_Params :: "param_value list"

record transfer_complete =
  tc_CommandKey :: string
  tc_FaultCode :: int
  tc_FaultString :: string
  tc_StartTime :: string
  tc_CompleteTime :: string

record param_info =
  pi_Name :: string
  pi_Writable :: bool

record download_response =
  dw_Status :: int
  dw_StartTime :: string
  dw_CompleteTime :: string

record soap_fault =
  sf_FaultCode :: string
  sf_FaultString :: string
  sf_CWMPCode :: string
  sf_CWMPString :: string

record in_body =
  ib_Inform :: "inform option"
  ib_TransferComplete :: "transfer_complete option"
  ib_GetRPCMethods :: bool
  ib_GetParameterValuesResponse :: "param_value list option"
  ib_SetParameterValues :: "param_value list option"
  ib_SetParameterValuesResponse :: "int option"
  ib_GetParameterNamesResponse :: "param_info list option"
  ib_AddObjectResponse :: "(int \<times> int) option"
  ib_DeleteObjectResponse :: "int option"
  ib_DownloadResponse :: "download_response option"
  ib_RebootResponse :: bool
  ib_FactoryResetResponse :: bool
  ib_Fault :: "soap_fault option"

text \<open>The id of the header, if any, and the body.\<close>

type_synonym in_envelope = "string option \<times> in_body"

subsection \<open>Decoding by local names\<close>

text \<open>
  The children of all elements of a name, one after the other: a repeated struct element is
  decoded into the same struct.
\<close>

definition named :: "string \<Rightarrow> xml list \<Rightarrow> xml list" where
  "named n cs = filter (\<lambda>c. case c of Elem m _ _ \<Rightarrow> m = n | Chars _ \<Rightarrow> False) cs"

definition children :: "xml \<Rightarrow> xml list" where
  "children x = (case x of Elem _ _ cs \<Rightarrow> cs | Chars _ \<Rightarrow> [])"

definition attributes :: "xml \<Rightarrow> (string \<times> string) list" where
  "attributes x = (case x of Elem _ as _ \<Rightarrow> as | Chars _ \<Rightarrow> [])"

definition inside :: "string \<Rightarrow> xml list \<Rightarrow> xml list" where
  "inside n cs = concat (map children (named n cs))"

definition text_of :: "xml \<Rightarrow> string" where
  "text_of x = concat (map (\<lambda>c. case c of Chars s \<Rightarrow> s | Elem _ _ _ \<Rightarrow> []) (children x))"

definition str_elem :: "string \<Rightarrow> xml list \<Rightarrow> string" where
  "str_elem n cs = (case rev (named n cs) of [] \<Rightarrow> [] | x # _ \<Rightarrow> text_of x)"

text \<open>An integer element: empty is zero, every occurrence has to parse, the last one counts.\<close>

definition int_text :: "string \<Rightarrow> int option" where
  "int_text s = (if s = [] then Some 0 else atoi_opt (trim_space s))"

definition int_elem :: "string \<Rightarrow> xml list \<Rightarrow> int option" where
  "int_elem n cs =
     (let xs = named n cs in
      if list_ex (\<lambda>x. int_text (text_of x) = None) xs then None
      else case rev xs of [] \<Rightarrow> Some 0 | x # _ \<Rightarrow> int_text (text_of x))"

definition bool_text :: "string \<Rightarrow> bool option" where
  "bool_text s0 =
     (let s = trim_space s0 in
      if s0 = [] then Some False
      else if s \<in> set [''1'', ''t'', ''T'', ''TRUE'', ''true'', ''True''] then Some True
      else if s \<in> set [''0'', ''f'', ''F'', ''FALSE'', ''false'', ''False''] then Some False
      else None)"

definition bool_elem :: "string \<Rightarrow> xml list \<Rightarrow> bool option" where
  "bool_elem n cs =
     (let xs = named n cs in
      if list_ex (\<lambda>x. bool_text (text_of x) = None) xs then None
      else case rev xs of [] \<Rightarrow> Some False | x # _ \<Rightarrow> bool_text (text_of x))"

fun all_some :: "'a option list \<Rightarrow> 'a list option" where
  "all_some [] = Some []"
| "all_some (None # xs) = None"
| "all_some (Some x # xs) = map_option ((#) x) (all_some xs)"

definition dec_param_value :: "xml \<Rightarrow> param_value" where
  "dec_param_value x =
     (let vs = named ''Value'' (children x);
          types = List.map_filter (\<lambda>v. map_of (rev (attributes v)) ''type'') vs
      in \<lparr> pv_Name = str_elem ''Name'' (children x),
           pv_Type = (case rev types of [] \<Rightarrow> [] | t # _ \<Rightarrow> t),
           pv_Data = str_elem ''Value'' (children x) \<rparr>)"

definition dec_param_list :: "xml list \<Rightarrow> param_value list" where
  "dec_param_list cs =
     map dec_param_value (named ''ParameterValueStruct'' (inside ''ParameterList'' cs))"

definition dec_param_info :: "xml \<Rightarrow> param_info option" where
  "dec_param_info x =
     (case bool_elem ''Writable'' (children x) of
        None \<Rightarrow> None
      | Some w \<Rightarrow> Some \<lparr> pi_Name = str_elem ''Name'' (children x), pi_Writable = w \<rparr>)"

definition dec_inform :: "xml list \<Rightarrow> inform option" where
  "dec_inform cs =
     (let di = inside ''DeviceId'' cs in
      case (int_elem ''MaxEnvelopes'' cs, int_elem ''RetryCount'' cs) of
        (Some me, Some rc) \<Rightarrow>
          Some \<lparr> in_DeviceId = \<lparr> di_Manufacturer = str_elem ''Manufacturer'' di, di_OUI = str_elem ''OUI'' di,
                                 di_ProductClass = str_elem ''ProductClass'' di,
                                 di_SerialNumber = str_elem ''SerialNumber'' di \<rparr>,
                 in_Events = map (\<lambda>x. \<lparr> ev_EventCode = str_elem ''EventCode'' (children x),
                                         ev_CommandKey = str_elem ''CommandKey'' (children x) \<rparr>)
                               (named ''EventStruct'' (inside ''Event'' cs)),
                 in_MaxEnvelopes = me, in_CurrentTime = str_elem ''CurrentTime'' cs,
                 in_RetryCount = rc, in_Params = dec_param_list cs \<rparr>
      | _ \<Rightarrow> None)"

definition dec_transfer_complete :: "xml list \<Rightarrow> transfer_complete option" where
  "dec_transfer_complete cs =
     (let fs = inside ''FaultStruct'' cs in
      case int_elem ''FaultCode'' fs of
        None \<Rightarrow> None
      | Some code \<Rightarrow>
          Some \<lparr> tc_CommandKey = str_elem ''CommandKey'' cs, tc_FaultCode = code,
                 tc_FaultString = str_elem ''FaultString'' fs,
                 tc_StartTime = str_elem ''StartTime'' cs, tc_CompleteTime = str_elem ''CompleteTime'' cs \<rparr>)"

definition dec_fault :: "xml list \<Rightarrow> soap_fault" where
  "dec_fault cs =
     (let f = inside ''Fault'' (inside ''detail'' cs) in
      \<lparr> sf_FaultCode = str_elem ''faultcode'' cs, sf_FaultString = str_elem ''faultstring'' cs,
        sf_CWMPCode = str_elem ''FaultCode'' f, sf_CWMPString = str_elem ''FaultString'' f \<rparr>)"

text \<open>A pointer field of the body: absent, or the decoded struct; a decoding error is an error.\<close>

definition opt_elem :: "string \<Rightarrow> (xml list \<Rightarrow> 'a option) \<Rightarrow> xml list \<Rightarrow> 'a option option" where
  "opt_elem n dec cs =
     (if named n cs = [] then Some None else map_option Some (dec (inside n cs)))"

definition dec_body :: "xml list \<Rightarrow> in_body option" where
  "dec_body cs =
     (case (opt_elem ''Inform'' dec_inform cs, opt_elem ''TransferComplete'' dec_transfer_complete cs,
            opt_elem ''SetParameterValuesResponse'' (int_elem ''Status'') cs,
            opt_elem ''GetParameterNamesResponse''
              (\<lambda>r. all_some (map dec_param_info (named ''ParameterInfoStruct'' (inside ''ParameterList'' r)))) cs,
            opt_elem ''AddObjectResponse''
              (\<lambda>r. case (int_elem ''InstanceNumber'' r, int_elem ''Status'' r) of
                      (Some n, Some s) \<Rightarrow> Some (n, s) | _ \<Rightarrow> None) cs,
            opt_elem ''DeleteObjectResponse'' (int_elem ''Status'') cs,
            opt_elem ''DownloadResponse''
              (\<lambda>r. map_option (\<lambda>s. \<lparr> dw_Status = s, dw_StartTime = str_elem ''StartTime'' r,
                                       dw_CompleteTime = str_elem ''CompleteTime'' r \<rparr>)
                     (int_elem ''Status'' r)) cs) of
        (Some ifm, Some tc, Some sp, Some gn, Some ao, Some del, Some dl) \<Rightarrow>
          Some \<lparr> ib_Inform = ifm, ib_TransferComplete = tc, ib_GetRPCMethods = (named ''GetRPCMethods'' cs \<noteq> []),
                 ib_GetParameterValuesResponse =
                   (if named ''GetParameterValuesResponse'' cs = [] then None
                    else Some (dec_param_list (inside ''GetParameterValuesResponse'' cs))),
                 ib_SetParameterValues =
                   (if named ''SetParameterValues'' cs = [] then None
                    else Some (dec_param_list (inside ''SetParameterValues'' cs))),
                 ib_SetParameterValuesResponse = sp, ib_GetParameterNamesResponse = gn,
                 ib_AddObjectResponse = ao, ib_DeleteObjectResponse = del, ib_DownloadResponse = dl,
                 ib_RebootResponse = (named ''RebootResponse'' cs \<noteq> []),
                 ib_FactoryResetResponse = (named ''FactoryResetResponse'' cs \<noteq> []),
                 ib_Fault = (if named ''Fault'' cs = [] then None else Some (dec_fault (inside ''Fault'' cs))) \<rparr>
      | _ \<Rightarrow> None)"

definition decode_envelope :: "xml \<Rightarrow> in_envelope option" where
  "decode_envelope x =
     (case x of
        Chars _ \<Rightarrow> None
      | Elem n _ cs \<Rightarrow>
          if n \<noteq> ''Envelope'' then None
          else case dec_body (inside ''Body'' cs) of
            None \<Rightarrow> None
          | Some b \<Rightarrow>
              (let ids = named ''ID'' (inside ''Header'' cs) in
               Some (if ids = [] then None else Some (text_of (last ids)), b)))"

definition ParseEnvelope :: "token_tree \<Rightarrow> in_envelope option" where
  "ParseEnvelope t = decode_envelope (normalizeXML t)"

subsection \<open>Facts: normalisation\<close>

text \<open>How a server's own tree looks in the token stream: a name splits at its colon.\<close>

definition split_name :: "string \<Rightarrow> xname" where
  "split_name n = (case cut_at n CHR '':'' of None \<Rightarrow> ([], n) | Some (p, l) \<Rightarrow> (p, l))"

fun tokens :: "xml \<Rightarrow> token_tree" where
  "tokens (Chars s) = TChars s"
| "tokens (Elem n attrs cs) =
     TElem (split_name n) (map (\<lambda>a. (split_name (fst a), snd a)) attrs) (map tokens cs)"

lemma last_index_None: "CHR '':'' \<notin> set s \<Longrightarrow> last_index s CHR '':'' = None"
  by (induction s) auto

lemma localPart_plain [simp]: "CHR '':'' \<notin> set s \<Longrightarrow> localPart s = s"
  by (simp add: localPart_def last_index_None)

lemma last_index_Some: "last_index s d = Some i \<Longrightarrow> i < length s \<and> d \<notin> set (drop (Suc i) s)"
proof (induction s arbitrary: i)
  case Nil
  then show ?case by simp
next
  case (Cons c cs)
  show ?case
  proof (cases "last_index cs d")
    case None
    then have "d \<notin> set cs"
    proof -
      have "last_index xs d = None \<Longrightarrow> d \<notin> set xs" for xs
        by (induction xs) (auto split: option.splits if_splits)
      with None show ?thesis by blast
    qed
    with None Cons.prems show ?thesis by (auto split: if_splits)
  next
    case (Some j)
    with Cons show ?thesis by auto
  qed
qed

lemma localPart_no_colon: "CHR '':'' \<notin> set (localPart s)"
proof (cases "last_index s CHR '':''")
  case None
  have "last_index xs CHR '':'' = None \<Longrightarrow> CHR '':'' \<notin> set xs" for xs
    by (induction xs) (auto split: option.splits if_splits)
  with None show ?thesis by (simp add: localPart_def)
next
  case (Some i)
  with last_index_Some [OF Some] show ?thesis by (simp add: localPart_def)
qed

fun local_names :: "xml \<Rightarrow> bool" where
  "local_names (Chars s) = True"
| "local_names (Elem n attrs cs) =
     (CHR '':'' \<notin> set n \<and> (\<forall>a \<in> set attrs. CHR '':'' \<notin> set (fst a)) \<and> (\<forall>c \<in> set cs. local_names c))"

lemma normalizeXML_local: "local_names (normalizeXML t)"
  by (induction t) (auto simp: localPart_no_colon)

subsection \<open>Round trip of a SetParameterValues request\<close>

lemma children_Elem [simp]: "children (Elem n a cs) = cs"
  by (simp add: children_def)

lemma attributes_Elem [simp]: "attributes (Elem n a cs) = a"
  by (simp add: attributes_def)

lemma named_Nil [simp]: "named n [] = []"
  by (simp add: named_def)

lemma named_Elem [simp]: "named n (Elem m a cs # xs) = (if m = n then Elem m a cs # named n xs else named n xs)"
  by (simp add: named_def)

lemma named_Chars [simp]: "named n (Chars s # xs) = named n xs"
  by (simp add: named_def)

lemma text_of_Chars [simp]: "text_of (Elem n a [Chars s]) = s"
  by (simp add: text_of_def)

lemma split_name_plain [simp]: "CHR '':'' \<notin> set n \<Longrightarrow> split_name n = ([], n)"
proof -
  assume "CHR '':'' \<notin> set n"
  then have "cut_at n CHR '':'' = None" by simp
  then show ?thesis unfolding split_name_def by (simp only: option.case)
qed

lemma split_name_prefixed [simp]: "CHR '':'' \<notin> set p \<Longrightarrow> split_name (p @ CHR '':'' # l) = (p, l)"
  by (simp add: split_name_def)

definition norm :: "xml \<Rightarrow> xml" where "norm x = normalizeXML (tokens x)"

lemma norm_Chars [simp]: "norm (Chars s) = Chars s"
  by (simp add: norm_def)

lemma norm_Elem:
  "norm (Elem n attrs cs) =
     Elem (localPart (snd (split_name n)))
       (map (\<lambda>a. (localPart (snd (fst a)), snd a))
          (filter keep_attr (map (\<lambda>a. (split_name (fst a), snd a)) attrs)))
       (map norm cs)"
  by (simp add: norm_def comp_def)

lemma norm_param_value:
  "norm (param_value_xml p) =
     Elem ''ParameterValueStruct'' []
       [Elem ''Name'' [] [Chars (pv_Name p)],
        Elem ''Value'' (if pv_Type p = [] then [] else [(''type'', pv_Type p)]) [Chars (pv_Data p)]]"
  by (simp add: param_value_xml_def leaf_def norm_Elem keep_attr_def has_prefix_def)

lemma dec_param_value_norm [simp]: "dec_param_value (norm (param_value_xml p)) = p"
  by (cases p) (simp add: norm_param_value dec_param_value_def str_elem_def List.map_filter_simps)

lemma named_param_values:
  "named ''ParameterValueStruct'' (map norm (map param_value_xml pvs)) = map norm (map param_value_xml pvs)"
  by (induction pvs) (simp_all add: norm_param_value)

definition only_spv :: "param_value list \<Rightarrow> in_body" where
  "only_spv pvs = \<lparr> ib_Inform = None, ib_TransferComplete = None, ib_GetRPCMethods = False,
     ib_GetParameterValuesResponse = None, ib_SetParameterValues = Some pvs,
     ib_SetParameterValuesResponse = None, ib_GetParameterNamesResponse = None,
     ib_AddObjectResponse = None, ib_DeleteObjectResponse = None, ib_DownloadResponse = None,
     ib_RebootResponse = False, ib_FactoryResetResponse = False, ib_Fault = None \<rparr>"

lemma norm_spv_body:
  "norm (body_xml (BSetParameterValues pvs key)) =
     Elem ''SetParameterValues'' []
       [Elem ''ParameterList'' [(''arrayType'', ''cwmp:ParameterValueStruct['' @ itoa (int (length pvs)) @ '']'')]
          (map norm (map param_value_xml pvs)),
        Elem ''ParameterKey'' [] [Chars key]]"
  by (simp add: norm_Elem leaf_def keep_attr_def split_name_prefixed [of "''cwmp''", simplified]
      split_name_prefixed [of "''soap-enc''", simplified])

lemma dec_param_list_spv:
  "dec_param_list
     [Elem ''ParameterList'' as (map norm (map param_value_xml pvs)), Elem ''ParameterKey'' [] [Chars key]] = pvs"
proof -
  have "dec_param_list
     [Elem ''ParameterList'' as (map norm (map param_value_xml pvs)), Elem ''ParameterKey'' [] [Chars key]]
     = map dec_param_value (map norm (map param_value_xml pvs))"
    by (simp add: dec_param_list_def inside_def named_param_values del: list.map_comp map_map)
  then show ?thesis by (simp add: comp_def)
qed

lemma norm_envelope:
  "norm (envelope_xml (i, b)) =
     Elem ''Envelope'' []
       [Elem ''Header'' [] [Elem ''ID'' [(''mustUnderstand'', ''1'')] [Chars i]],
        Elem ''Body'' [] [norm (body_xml b)]]"
  by (simp add: envelope_xml_def norm_Elem keep_attr_def split_name_prefixed [of "''cwmp''", simplified]
      split_name_prefixed [of "''soap''", simplified] split_name_prefixed [of "''xmlns''", simplified])


text \<open>The prefixes a device uses do not matter.\<close>

fun respace :: "(string \<Rightarrow> string) \<Rightarrow> token_tree \<Rightarrow> token_tree" where
  "respace f (TChars s) = TChars s"
| "respace f (TElem n attrs cs) = TElem (f (fst n), snd n) attrs (map (respace f) cs)"

lemma normalizeXML_respace: "normalizeXML (respace f t) = normalizeXML t"
  by (induction t) simp_all

lemma ParseEnvelope_respace: "ParseEnvelope (respace f t) = ParseEnvelope t"
  by (simp add: ParseEnvelope_def normalizeXML_respace)

end
