(* ===== verification/Executor.thy ===== *)
theory Executor imports Task_Model Schema begin

text \<open>
  The task executor (internal/task/executor.go): it turns the payload of a task into the parameters
  of a SetParameterValues request or the names of a GetParameterValues request. Paths come from the
  device's mapper; an error is its text, and \<^term>\<open>None\<close> is the nil map of the task types that use
  another request.
\<close>

section \<open>Requests per task type\<close>

definition wan_set_params :: "wan_payload \<Rightarrow> mapper \<Rightarrow> string + params option" where
  "wan_set_params p m =
     (let ps = mput_if (wn_ConnectionType p \<noteq> []) (wan_path_of m WANConnectionTypePath) (wn_ConnectionType p) [];
          ps = mput_if (wn_Username p \<noteq> []) (wan_path_of m WANPPPoEUserPath) (wn_Username p) ps;
          ps = mput_if (wn_Password p \<noteq> []) (wan_path_of m WANPPPoEPassPath) (wn_Password p) ps;
          ps = mput_if (wn_IPAddress p \<noteq> []) (wan_path_of m WANIPAddressPath) (wn_IPAddress p) ps
      in if ps = [] then Inl ''wan payload has no settable fields'' else Inr (Some ps))"

definition lan_set_params :: "lan_payload \<Rightarrow> mapper \<Rightarrow> params" where
  "lan_set_params p m =
     (let ps = mput (sys_path_of m DHCPServerEnablePath) (format_bool (ln_DHCPEnabled p)) [];
          ps = mput_if (ln_IPAddress p \<noteq> []) (sys_path_of m LANIPAddressPath) (ln_IPAddress p) ps;
          ps = mput_if (ln_SubnetMask p \<noteq> []) (sys_path_of m LANSubnetMaskPath) (ln_SubnetMask p) ps;
          ps = mput_if (ln_DHCPStart p \<noteq> []) (sys_path_of m DHCPMinAddressPath) (ln_DHCPStart p) ps;
          ps = mput_if (ln_DHCPEnd p \<noteq> []) (sys_path_of m DHCPMaxAddressPath) (ln_DHCPEnd p) ps
      in mput_if (ln_DNSServer p \<noteq> []) (sys_path_of m LANDNSPath) (ln_DNSServer p) ps)"

definition ping_set_params :: "ping_payload \<Rightarrow> string \<Rightarrow> params" where
  "ping_set_params p base =
     (let ps = mlit [(base @ ''Host'', pg_Host p), (base @ ''DiagnosticsState'', ''Requested'')];
          ps = mput (base @ ''NumberOfRepetitions'') (if pg_Count p > 0 then itoa (pg_Count p) else ''4'') ps;
          ps = mput_if (pg_PacketSize p > 0) (base @ ''DataBlockSize'') (itoa (pg_PacketSize p)) ps;
          ps = mput_if (pg_Timeout p > 0) (base @ ''Timeout'') (itoa (pg_Timeout p)) ps
      in mput_if (pg_DSCP p > 0) (base @ ''DSCP'') (itoa (pg_DSCP p)) ps)"

definition traceroute_set_params :: "traceroute_payload \<Rightarrow> string \<Rightarrow> params" where
  "traceroute_set_params p base =
     (let ps = mlit [(base @ ''Host'', tr_Host p), (base @ ''DiagnosticsState'', ''Requested'')];
          ps = mput (base @ ''MaxHopCount'') (if tr_MaxHops p > 0 then itoa (tr_MaxHops p) else ''30'') ps;
          ps = mput_if (tr_Timeout p > 0) (base @ ''Timeout'') (itoa (tr_Timeout p)) ps;
          ps = mput_if (tr_PacketSize p > 0) (base @ ''DataBlockSize'') (itoa (tr_PacketSize p)) ps
      in mput_if (tr_DSCP p > 0) (base @ ''DSCP'') (itoa (tr_DSCP p)) ps)"

definition speed_set_params :: "speed_payload \<Rightarrow> string \<Rightarrow> params" where
  "speed_set_params p base =
     (let ps = mlit [(base @ ''DownloadURL'', sd_DownloadURL p), (base @ ''DiagnosticsState'', ''Requested'')];
          ps = mput_if (sd_FileSize p > 0) (base @ ''TestFileLength'') (itoa (sd_FileSize p)) ps
      in mput_if (sd_DSCP p > 0) (base @ ''DSCP'') (itoa (sd_DSCP p)) ps)"

text \<open>Decode the payload or fail with the message of the type.\<close>

definition with_payload :: "'p option \<Rightarrow> string \<Rightarrow> ('p \<Rightarrow> string + 'r) \<Rightarrow> string + 'r" where
  "with_payload p msg f = (case p of None \<Rightarrow> Inl msg | Some p \<Rightarrow> f p)"

definition BuildSetParams :: "task \<Rightarrow> mapper \<Rightarrow> string + params option" where
  "BuildSetParams t m =
     (case t_Type t of
        TypeWifi \<Rightarrow> Inl ''wifi set params is handled by driver YAML flow''
      | TypeWAN \<Rightarrow>
          with_payload (decode_wan_payload (t_Payload t)) ''unmarshal wan payload'' (\<lambda>p. wan_set_params p m)
      | TypeLAN \<Rightarrow>
          with_payload (decode_lan_payload (t_Payload t)) ''unmarshal lan payload''
            (\<lambda>p. Inr (Some (lan_set_params p m)))
      | TypeSetParams \<Rightarrow>
          with_payload (decode_set_params_payload (t_Payload t)) ''unmarshal set_parameters payload''
            (\<lambda>p. if sp_Parameters p = [] then Inl ''set_parameters payload has no parameters''
                 else Inr (Some (mput_all (sp_Parameters p) [])))
      | TypePingTest \<Rightarrow>
          with_payload (decode_ping_payload (t_Payload t)) ''unmarshal ping_test payload''
            (\<lambda>p. Inr (Some (ping_set_params p (sys_path_of m PingDiagBasePath))))
      | TypeTraceroute \<Rightarrow>
          with_payload (decode_traceroute_payload (t_Payload t)) ''unmarshal traceroute payload''
            (\<lambda>p. Inr (Some (traceroute_set_params p (sys_path_of m TracerouteDiagBasePath))))
      | TypeSpeedTest \<Rightarrow>
          with_payload (decode_speed_payload (t_Payload t)) ''unmarshal speed_test payload''
            (\<lambda>p. if sd_DownloadURL p = [] then Inl ''speed_test payload requires download_url''
                 else Inr (Some (speed_set_params p (sys_path_of m DownloadDiagBasePath))))
      | TypeWebAdmin \<Rightarrow>
          with_payload (decode_webadmin_payload (t_Payload t)) ''unmarshal web_admin payload''
            (\<lambda>p. if wa_Password p = [] then Inl ''web_admin payload requires password''
                 else let path = sys_path_of m WebAdminPasswordPath in
                   if path = [] then Inl ''web admin password path not supported by this device's data-model (TR-098); use set_parameters with the vendor-specific path''
                   else Inr (Some (mlit [(path, wa_Password p)])))
      | _ \<Rightarrow> Inr None)"

definition buildCPEStatsPaths :: "mapper \<Rightarrow> string list" where
  "buildCPEStatsPaths m =
     [sys_path_of m CPEUptimePath, sys_path_of m RAMTotalPath, sys_path_of m RAMFreePath,
      wan_path_of m WANBytesSentPath, wan_path_of m WANBytesReceivedPath,
      wan_path_of m WANPacketsSentPath, wan_path_of m WANPacketsReceivedPath,
      wan_path_of m WANErrorsSentPath, wan_path_of m WANErrorsReceivedPath,
      wan_path_of m WANStatusPath, wan_path_of m WANUptimePath]"

definition BuildGetParams :: "task \<Rightarrow> mapper \<Rightarrow> string + string list option" where
  "BuildGetParams t m =
     (case t_Type t of
        TypeGetParams \<Rightarrow>
          with_payload (decode_get_params_payload (t_Payload t)) ''unmarshal get_parameters payload''
            (\<lambda>p. if gp_Names p = [] then Inl ''get_parameters payload has no parameter names''
                 else Inr (Some (gp_Names p)))
      | TypeConnectedDevices \<Rightarrow>
          Inr (Some [sys_path_of m HostsBasePath,
            if SupportsWiFiAccessPoint m then ''Device.WiFi.AccessPoint.''
            else ''InternetGatewayDevice.LANDevice.1.WLANConfiguration.''])
      | TypeCPEStats \<Rightarrow> Inr (Some (buildCPEStatsPaths m))
      | TypePortForwarding \<Rightarrow>
          with_payload (decode_portfwd_payload (t_Payload t)) ''unmarshal port_forwarding payload''
            (\<lambda>p. if pf_Action p = PFList then Inr (Some [sys_path_of m PortMappingBasePath]) else Inr None)
      | _ \<Rightarrow> Inr None)"

text \<open>The diagnostics object of a task type, and the names to read once it is complete.\<close>

definition BuildDiagResultPaths :: "task_type \<Rightarrow> mapper \<Rightarrow> string list" where
  "BuildDiagResultPaths ty m =
     (case ty of
        TypePingTest \<Rightarrow> map (\<lambda>s. sys_path_of m PingDiagBasePath @ s)
          [''DiagnosticsState'', ''SuccessCount'', ''FailureCount'', ''AverageResponseTime'',
           ''MinimumResponseTime'', ''MaximumResponseTime'']
      | TypeDiagnostic \<Rightarrow> map (\<lambda>s. sys_path_of m PingDiagBasePath @ s)
          [''DiagnosticsState'', ''SuccessCount'', ''FailureCount'', ''AverageResponseTime'',
           ''MinimumResponseTime'', ''MaximumResponseTime'']
      | TypeTraceroute \<Rightarrow> map (\<lambda>s. sys_path_of m TracerouteDiagBasePath @ s)
          [''DiagnosticsState'', ''ResponseTime'', ''NumberOfRouteHops'', ''RouteHops.'']
      | TypeSpeedTest \<Rightarrow> map (\<lambda>s. sys_path_of m DownloadDiagBasePath @ s)
          [''DiagnosticsState'', ''BOMTime'', ''EOMTime'', ''TestBytesReceived'', ''TotalBytesReceived'']
      | _ \<Rightarrow> [])"

section \<open>Facts\<close>

definition diag_base :: "task_type \<Rightarrow> mapper \<Rightarrow> string" where
  "diag_base ty m =
     (case ty of
        TypeTraceroute \<Rightarrow> sys_path_of m TracerouteDiagBasePath
      | TypeSpeedTest \<Rightarrow> sys_path_of m DownloadDiagBasePath
      | _ \<Rightarrow> sys_path_of m PingDiagBasePath)"

lemma with_payload_Inr [simp]: "with_payload p msg f = Inr r \<longleftrightarrow> (\<exists>x. p = Some x \<and> f x = Inr r)"
  by (cases p) (auto simp: with_payload_def)

lemma request_prefix:
  "map_of (ping_set_params p base) k = Some v \<Longrightarrow> has_prefix k base"
  "map_of (traceroute_set_params q base) k = Some v \<Longrightarrow> has_prefix k base"
  "map_of (speed_set_params s base) k = Some v \<Longrightarrow> has_prefix k base"
  by (auto simp: ping_set_params_def traceroute_set_params_def speed_set_params_def Let_def map_of_mlit
      split: if_splits)

lemma request_state:
  "map_of (ping_set_params p base) (base @ ''DiagnosticsState'') = Some ''Requested''"
  "map_of (traceroute_set_params q base) (base @ ''DiagnosticsState'') = Some ''Requested''"
  "map_of (speed_set_params s base) (base @ ''DiagnosticsState'') = Some ''Requested''"
  by (simp_all add: ping_set_params_def traceroute_set_params_def speed_set_params_def Let_def map_of_mlit)



end
