(* ===== verification/Device_Store.thy ===== *)
theory Device_Store imports Acs_Prelude begin

section \<open>Devices and their store\<close>

text \<open>
  The device document (internal/device/model.go), the MongoDB repository
  (internal/device/repository.go) and the service over it (internal/device/service.go). The
  collection maps serial numbers to documents (the serial is a unique index); every call to the
  server can fail, following a schedule of failures. The clock is an argument. The service passes
  every call on and adds log lines, so that its operations are those of the repository, except
  \<^verbatim>\<open>List\<close> and \<^verbatim>\<open>UpdateTags\<close>; what it puts in front of errors is in Device_Service. Loop and lookup results that are nil pointers or nil
  slices are options.
\<close>

record wan_info =
  wi_ConnectionType :: string
  wi_ServiceType :: string
  wi_IPAddress :: string
  wi_SubnetMask :: string
  wi_Gateway :: string
  wi_DNS1 :: string
  wi_DNS2 :: string
  wi_MACAddress :: string
  wi_PPPoEUsername :: string
  wi_MTU :: int
  wi_LinkStatus :: string
  wi_UptimeSeconds :: int
  wi_BytesSent :: int
  wi_BytesReceived :: int
  wi_PacketsSent :: int
  wi_PacketsReceived :: int
  wi_ErrorsSent :: int
  wi_ErrorsReceived :: int

definition zero_wan_info :: wan_info where
  "zero_wan_info = \<lparr> wi_ConnectionType = [], wi_ServiceType = [], wi_IPAddress = [], wi_SubnetMask = [],
     wi_Gateway = [], wi_DNS1 = [], wi_DNS2 = [], wi_MACAddress = [], wi_PPPoEUsername = [], wi_MTU = 0,
     wi_LinkStatus = [], wi_UptimeSeconds = 0, wi_BytesSent = 0, wi_BytesReceived = 0,
     wi_PacketsSent = 0, wi_PacketsReceived = 0, wi_ErrorsSent = 0, wi_ErrorsReceived = 0 \<rparr>"

record dhcp_lease =
  dl_MACAddress :: string
  dl_IPAddress :: string
  dl_Hostname :: string
  dl_ExpireTime :: int

record lan_info =
  li_IPAddress :: string
  li_SubnetMask :: string
  li_DHCPEnabled :: bool
  li_DHCPStart :: string
  li_DHCPEnd :: string
  li_DNSServers :: string
  li_ActiveLeases :: int
  li_Leases :: "dhcp_lease list"

record wifi_info =
  wl_Band :: string
  wl_SSID :: string
  wl_Enabled :: bool
  wl_BSSID :: string
  wl_Channel :: int
  wl_ChannelWidth :: string
  wl_Standard :: string
  wl_SecurityMode :: string
  wl_TXPower :: int
  wl_ConnectedClients :: int
  wl_BandSteeringEnabled :: "bool option"
  wl_BytesSent :: int
  wl_BytesReceived :: int
  wl_PacketsSent :: int
  wl_PacketsReceived :: int
  wl_ErrorsSent :: int
  wl_ErrorsReceived :: int

record connected_host =
  ch_MACAddress :: string
  ch_IPAddress :: string
  ch_Hostname :: string
  ch_Interface :: string
  ch_RSSI :: "int option"
  ch_Active :: bool
  ch_LeaseTime :: int

record device =
  de_ID :: string
  de_Serial :: string
  de_OUI :: string
  de_Manufacturer :: string
  de_ModelName :: string
  de_ProductClass :: string
  de_DataModel :: string
  de_Schema :: string
  de_Online :: bool
  de_LastInform :: int
  de_IPAddress :: string
  de_WANIP :: string
  de_SWVersion :: string
  de_HWVersion :: string
  de_BLVersion :: string
  de_UptimeSeconds :: int
  de_RAMTotal :: int
  de_RAMFree :: int
  de_CPUUsage :: "int option"
  de_ACSURL :: string
  de_WANs :: "wan_info list option"
  de_LAN :: "lan_info option"
  de_WiFi24 :: "wifi_info option"
  de_WiFi5 :: "wifi_info option"
  de_ConnectedHosts :: "connected_host list option"
  de_Parameters :: "params option"
  de_Tags :: "string list"
  de_CreatedAt :: int
  de_UpdatedAt :: int

text \<open>A document that was just inserted has the zero value in every field that is not set.\<close>

definition new_device :: "string \<Rightarrow> int \<Rightarrow> device" where
  "new_device oid now = \<lparr> de_ID = oid, de_Serial = [], de_OUI = [], de_Manufacturer = [], de_ModelName = [],
     de_ProductClass = [], de_DataModel = [], de_Schema = [], de_Online = False, de_LastInform = now,
     de_IPAddress = [], de_WANIP = [], de_SWVersion = [], de_HWVersion = [], de_BLVersion = [],
     de_UptimeSeconds = 0, de_RAMTotal = 0, de_RAMFree = 0, de_CPUUsage = None, de_ACSURL = [],
     de_WANs = None, de_LAN = None, de_WiFi24 = None, de_WiFi5 = None, de_ConnectedHosts = None,
     de_Parameters = None, de_Tags = [], de_CreatedAt = now, de_UpdatedAt = now \<rparr>"

record device_filter =
  df_Online :: "bool option"
  df_Manufacturer :: string
  df_ModelName :: string
  df_Tag :: string
  df_WANIP :: string
  df_Serial :: string

record upsert_request =
  uq_Serial :: string
  uq_OUI :: string
  uq_Manufacturer :: string
  uq_ModelName :: string
  uq_ProductClass :: string
  uq_DataModel :: string
  uq_Schema :: string
  uq_IPAddress :: string
  uq_WANIP :: string
  uq_SWVersion :: string
  uq_HWVersion :: string
  uq_BLVersion :: string
  uq_UptimeSeconds :: int
  uq_RAMTotal :: int
  uq_RAMFree :: int
  uq_ACSURL :: string
  uq_Parameters :: params

record info_update =
  iu_UptimeSeconds :: "int option"
  iu_RAMTotal :: "int option"
  iu_RAMFree :: "int option"
  iu_CPUUsage :: "int option"
  iu_ACSURL :: "string option"
  iu_IPAddress :: "string option"
  iu_WANIP :: "string option"
  iu_ModelName :: "string option"
  iu_SWVersion :: "string option"
  iu_HWVersion :: "string option"
  iu_WANs :: "wan_info list option"
  iu_LAN :: "lan_info option"
  iu_WiFi24 :: "wifi_info option"
  iu_WiFi5 :: "wifi_info option"
  iu_ConnectedHosts :: "connected_host list option"

definition no_update :: info_update where
  "no_update = \<lparr> iu_UptimeSeconds = None, iu_RAMTotal = None, iu_RAMFree = None, iu_CPUUsage = None,
     iu_ACSURL = None, iu_IPAddress = None, iu_WANIP = None, iu_ModelName = None, iu_SWVersion = None,
     iu_HWVersion = None, iu_WANs = None, iu_LAN = None, iu_WiFi24 = None, iu_WiFi5 = None,
     iu_ConnectedHosts = None \<rparr>"

subsection \<open>The repository\<close>

record device_db =
  db_devices :: "(string, device) gomap"
  db_faults :: "bool list"

definition db_call :: "device_db \<Rightarrow> bool \<times> device_db" where
  "db_call db = (case db_faults db of [] \<Rightarrow> (False, db) | f # fs \<Rightarrow> (f, db\<lparr>db_faults := fs\<rparr>))"

text \<open>\<^verbatim>\<open>UpdateOne\<close> changes the document with the serial, if there is one.\<close>

definition update_one :: "string \<Rightarrow> (device \<Rightarrow> device) \<Rightarrow> device_db \<Rightarrow> bool \<times> device_db" where
  "update_one serial f db0 =
     (let (failed, db) = db_call db0 in
      if failed then (False, db)
      else (True, case map_of (db_devices db) serial of
                    None \<Rightarrow> db
                  | Some d \<Rightarrow> db\<lparr>db_devices := mput serial (f d) (db_devices db)\<rparr>))"

text \<open>The parameters of the stored document; a failed read and a missing document give none.\<close>

definition read_parameters :: "string \<Rightarrow> device_db \<Rightarrow> params option \<times> device_db" where
  "read_parameters serial db0 =
     (let (failed, db) = db_call db0 in
      (if failed then None
       else case map_of (db_devices db) serial of None \<Rightarrow> None | Some d \<Rightarrow> de_Parameters d, db))"

text \<open>\<^verbatim>\<open>$set\<close> of the fields of an Inform, as \<^verbatim>\<open>Upsert\<close> builds it.\<close>

definition inform_fields :: "int \<Rightarrow> upsert_request \<Rightarrow> params \<Rightarrow> device \<Rightarrow> device" where
  "inform_fields now req ps d =
     d\<lparr>de_Serial := uq_Serial req, de_OUI := uq_OUI req, de_Manufacturer := uq_Manufacturer req,
       de_ProductClass := uq_ProductClass req, de_DataModel := uq_DataModel req,
       de_Schema := uq_Schema req, de_BLVersion := uq_BLVersion req, de_Parameters := Some ps,
       de_Online := True, de_LastInform := now, de_UpdatedAt := now,
       de_IPAddress := (if uq_IPAddress req \<noteq> [] then uq_IPAddress req else de_IPAddress d),
       de_WANIP := (if uq_WANIP req \<noteq> [] then uq_WANIP req else de_WANIP d),
       de_ModelName := (if uq_ModelName req \<noteq> [] then uq_ModelName req else de_ModelName d),
       de_SWVersion := (if uq_SWVersion req \<noteq> [] then uq_SWVersion req else de_SWVersion d),
       de_HWVersion := (if uq_HWVersion req \<noteq> [] then uq_HWVersion req else de_HWVersion d),
       de_UptimeSeconds := (if uq_UptimeSeconds req > 0 then uq_UptimeSeconds req else de_UptimeSeconds d),
       de_RAMTotal := (if uq_RAMTotal req > 0 then uq_RAMTotal req else de_RAMTotal d),
       de_RAMFree := (if uq_RAMFree req > 0 then uq_RAMFree req else de_RAMFree d),
       de_ACSURL := (if uq_ACSURL req \<noteq> [] then uq_ACSURL req else de_ACSURL d)\<rparr>"

definition Upsert :: "string \<Rightarrow> int \<Rightarrow> upsert_request \<Rightarrow> device_db \<Rightarrow> device option \<times> device_db" where
  "Upsert oid now req db0 =
     (let (existing, db1) = read_parameters (uq_Serial req) db0;
          ps = (case existing of
                  Some old \<Rightarrow>
                    if length old > length (uq_Parameters req)
                    then mput_all (uq_Parameters req) (mput_all old []) else uq_Parameters req
                | None \<Rightarrow> uq_Parameters req);
          (failed, db) = db_call db1
      in if failed then (None, db)
         else let d0 = (case map_of (db_devices db) (uq_Serial req) of None \<Rightarrow> new_device oid now | Some d \<Rightarrow> d);
                  d = inform_fields now req ps d0
              in (Some d, db\<lparr>db_devices := mput (uq_Serial req) d (db_devices db)\<rparr>))"

definition set_if :: "'a option \<Rightarrow> ('a \<Rightarrow> 'b \<Rightarrow> 'b) \<Rightarrow> 'b \<Rightarrow> 'b" where
  "set_if x f d = (case x of None \<Rightarrow> d | Some v \<Rightarrow> f v d)"

definition nonempty :: "string option \<Rightarrow> string option" where
  "nonempty x = (case x of Some [] \<Rightarrow> None | _ \<Rightarrow> x)"

definition info_fields :: "info_update \<Rightarrow> device \<Rightarrow> device" where
  "info_fields u =
     set_if (iu_ConnectedHosts u) (\<lambda>v d. d\<lparr>de_ConnectedHosts := Some v\<rparr>) \<circ>
     set_if (iu_WiFi5 u) (\<lambda>v d. d\<lparr>de_WiFi5 := Some v\<rparr>) \<circ>
     set_if (iu_WiFi24 u) (\<lambda>v d. d\<lparr>de_WiFi24 := Some v\<rparr>) \<circ>
     set_if (iu_LAN u) (\<lambda>v d. d\<lparr>de_LAN := Some v\<rparr>) \<circ>
     set_if (iu_WANs u) (\<lambda>v d. d\<lparr>de_WANs := Some v\<rparr>) \<circ>
     set_if (nonempty (iu_HWVersion u)) (\<lambda>v d. d\<lparr>de_HWVersion := v\<rparr>) \<circ>
     set_if (nonempty (iu_SWVersion u)) (\<lambda>v d. d\<lparr>de_SWVersion := v\<rparr>) \<circ>
     set_if (nonempty (iu_ModelName u)) (\<lambda>v d. d\<lparr>de_ModelName := v\<rparr>) \<circ>
     set_if (iu_WANIP u) (\<lambda>v d. d\<lparr>de_WANIP := v\<rparr>) \<circ>
     set_if (iu_IPAddress u) (\<lambda>v d. d\<lparr>de_IPAddress := v\<rparr>) \<circ>
     set_if (iu_ACSURL u) (\<lambda>v d. d\<lparr>de_ACSURL := v\<rparr>) \<circ>
     set_if (iu_CPUUsage u) (\<lambda>v d. d\<lparr>de_CPUUsage := Some v\<rparr>) \<circ>
     set_if (iu_RAMFree u) (\<lambda>v d. d\<lparr>de_RAMFree := v\<rparr>) \<circ>
     set_if (iu_RAMTotal u) (\<lambda>v d. d\<lparr>de_RAMTotal := v\<rparr>) \<circ>
     set_if (iu_UptimeSeconds u) (\<lambda>v d. d\<lparr>de_UptimeSeconds := v\<rparr>)"

text \<open>\<^verbatim>\<open>len(setFields) == 1\<close>: only the time stamp would be written.\<close>

definition nothing_to_update :: "info_update \<Rightarrow> bool" where
  "nothing_to_update u \<longleftrightarrow>
     iu_UptimeSeconds u = None \<and> iu_RAMTotal u = None \<and> iu_RAMFree u = None \<and> iu_CPUUsage u = None \<and>
     iu_ACSURL u = None \<and> iu_IPAddress u = None \<and> iu_WANIP u = None \<and> nonempty (iu_ModelName u) = None \<and>
     nonempty (iu_SWVersion u) = None \<and> nonempty (iu_HWVersion u) = None \<and> iu_WANs u = None \<and>
     iu_LAN u = None \<and> iu_WiFi24 u = None \<and> iu_WiFi5 u = None \<and> iu_ConnectedHosts u = None"

definition UpdateInfo :: "int \<Rightarrow> string \<Rightarrow> info_update \<Rightarrow> device_db \<Rightarrow> bool \<times> device_db" where
  "UpdateInfo now serial u db =
     (if nothing_to_update u then (True, db)
      else update_one serial (\<lambda>d. (info_fields u d)\<lparr>de_UpdatedAt := now\<rparr>) db)"

text \<open>The outer option is the error, the inner one the nil of a missing document.\<close>

definition FindBySerial :: "string \<Rightarrow> device_db \<Rightarrow> device option option \<times> device_db" where
  "FindBySerial serial db0 =
     (let (failed, db) = db_call db0 in
      (if failed then None else Some (map_of (db_devices db) serial), db))"

definition matches_filter :: "device_filter \<Rightarrow> device \<Rightarrow> bool" where
  "matches_filter f d \<longleftrightarrow>
     (case df_Online f of None \<Rightarrow> True | Some b \<Rightarrow> de_Online d = b) \<and>
     (df_Manufacturer f = [] \<or> de_Manufacturer d = df_Manufacturer f) \<and>
     (df_ModelName f = [] \<or> de_ModelName d = df_ModelName f) \<and>
     (df_Tag f = [] \<or> df_Tag f \<in> set (de_Tags d)) \<and>
     (df_WANIP f = [] \<or> de_WANIP d = df_WANIP f) \<and>
     (df_Serial f = [] \<or> de_Serial d = df_Serial f)"

definition Find_devices ::
    "device_filter \<Rightarrow> nat \<Rightarrow> nat \<Rightarrow> device_db \<Rightarrow> (device list \<times> nat) option \<times> device_db" where
  "Find_devices f skip limit db0 =
     (let (failed, db1) = db_call db0 in
      if failed then (None, db1)
      else let found = filter (matches_filter f) (map snd (db_devices db1));
               (failed, db) = db_call db1
           in if failed then (None, db)
              else let page = drop skip (sort_by (\<lambda>a b. de_LastInform b < de_LastInform a) found)
                   in (Some (if limit = 0 then page else take limit page, length found), db))"

definition UpdateTags :: "int \<Rightarrow> string \<Rightarrow> string list \<Rightarrow> device_db \<Rightarrow> bool \<times> device_db" where
  "UpdateTags now serial tags = update_one serial (\<lambda>d. d\<lparr>de_Tags := tags, de_UpdatedAt := now\<rparr>)"

definition Delete_device :: "string \<Rightarrow> device_db \<Rightarrow> bool \<times> device_db" where
  "Delete_device serial db0 =
     (let (failed, db) = db_call db0 in
      if failed then (False, db) else (True, db\<lparr>db_devices := mdel serial (db_devices db)\<rparr>))"

definition stale :: "int \<Rightarrow> device \<Rightarrow> bool" where
  "stale olderThan d \<longleftrightarrow> de_Online d \<and> de_LastInform d < olderThan"

definition MarkStaleOffline :: "int \<Rightarrow> int \<Rightarrow> device_db \<Rightarrow> nat option \<times> device_db" where
  "MarkStaleOffline now olderThan db0 =
     (let (failed, db) = db_call db0 in
      if failed then (None, db)
      else (Some (length (filter (stale olderThan \<circ> snd) (db_devices db))),
            db\<lparr>db_devices := map (\<lambda>(s, d).
               (s, if stale olderThan d then d\<lparr>de_Online := False, de_UpdatedAt := now\<rparr> else d))
               (db_devices db)\<rparr>))"

definition SetOnline :: "int \<Rightarrow> string \<Rightarrow> bool \<Rightarrow> device_db \<Rightarrow> bool \<times> device_db" where
  "SetOnline now serial b = update_one serial (\<lambda>d. d\<lparr>de_Online := b, de_UpdatedAt := now\<rparr>)"

definition UpdateParameters :: "int \<Rightarrow> string \<Rightarrow> params \<Rightarrow> device_db \<Rightarrow> bool \<times> device_db" where
  "UpdateParameters now serial ps =
     update_one serial (\<lambda>d. d\<lparr>de_Parameters := Some ps, de_UpdatedAt := now\<rparr>)"

definition MergeParameters :: "int \<Rightarrow> string \<Rightarrow> params \<Rightarrow> device_db \<Rightarrow> bool \<times> device_db" where
  "MergeParameters now serial ps db0 =
     (let (existing, db) = read_parameters serial db0;
          old = (case existing of None \<Rightarrow> [] | Some m \<Rightarrow> m)
      in update_one serial
           (\<lambda>d. d\<lparr>de_Parameters := Some (mput_all ps (mput_all old [])), de_UpdatedAt := now\<rparr>) db)"

subsection \<open>The service\<close>

definition service_List ::
    "device_filter \<Rightarrow> int \<Rightarrow> int \<Rightarrow> device_db \<Rightarrow> (device list \<times> nat) option \<times> device_db" where
  "service_List f page limit db =
     (let page = (if page < 1 then 1 else page);
          limit = (if limit < 1 then 20 else limit);
          skip = wrap64 ((page - 1) * limit)
      in if skip < 0
         then let (failed, db1) = db_call db in (None, if failed then db1 else snd (db_call db1))
         else Find_devices f (nat skip) (nat limit) db)"

definition service_UpdateTags ::
    "int \<Rightarrow> string \<Rightarrow> string list \<Rightarrow> device_db \<Rightarrow> device option option \<times> device_db" where
  "service_UpdateTags now serial tags db0 =
     (let (ok, db) = UpdateTags now serial tags db0 in
      if ok then FindBySerial serial db else (None, db))"

subsection \<open>Facts\<close>

lemma db_call_up [simp]: "db_faults db = [] \<Longrightarrow> db_call db = (False, db)"
  by (simp add: db_call_def)

lemma inform_fields_sel [simp]:
  "de_Parameters (inform_fields now req ps d) = Some ps"
  "de_Tags (inform_fields now req ps d) = de_Tags d"
  "de_WANs (inform_fields now req ps d) = de_WANs d"
  "de_LAN (inform_fields now req ps d) = de_LAN d"
  "de_WiFi24 (inform_fields now req ps d) = de_WiFi24 d"
  "de_WiFi5 (inform_fields now req ps d) = de_WiFi5 d"
  "de_ConnectedHosts (inform_fields now req ps d) = de_ConnectedHosts d"
  "de_Online (inform_fields now req ps d)"
  "de_LastInform (inform_fields now req ps d) = now"
  "de_CreatedAt (inform_fields now req ps d) = de_CreatedAt d"
  "de_WANIP (inform_fields now req ps d) = (if uq_WANIP req \<noteq> [] then uq_WANIP req else de_WANIP d)"
  "de_IPAddress (inform_fields now req ps d) = (if uq_IPAddress req \<noteq> [] then uq_IPAddress req else de_IPAddress d)"
  "de_SWVersion (inform_fields now req ps d) = (if uq_SWVersion req \<noteq> [] then uq_SWVersion req else de_SWVersion d)"
  by (simp_all add: inform_fields_def)

text \<open>
  An Inform of a known device keeps what earlier summons stored: tags, LAN, WAN, WiFi and host
  documents stay, an address the Inform leaves empty stays, and when more parameters are stored than
  the Inform carries the Inform's values are laid over the stored ones; other devices stay as they
  are. The device is online from then on.
\<close>

lemma upsert_keeps_summoned:
  assumes "db_faults db = []" and "map_of (db_devices db) (uq_Serial req) = Some d"
    and "de_Parameters d = Some old" and "wf_map old" and "wf_map (uq_Parameters req)"
    and "length (uq_Parameters req) < length old"
  shows "\<exists>d' db'. Upsert oid now req db = (Some d', db') \<and>
     map_of (db_devices db') = (map_of (db_devices db))(uq_Serial req \<mapsto> d') \<and>
     map_option map_of (de_Parameters d') = Some (map_of old ++ map_of (uq_Parameters req)) \<and>
     de_Tags d' = de_Tags d \<and> de_WANs d' = de_WANs d \<and> de_LAN d' = de_LAN d \<and>
     de_WiFi24 d' = de_WiFi24 d \<and> de_WiFi5 d' = de_WiFi5 d \<and> de_ConnectedHosts d' = de_ConnectedHosts d \<and>
     (uq_WANIP req = [] \<longrightarrow> de_WANIP d' = de_WANIP d) \<and>
     (uq_IPAddress req = [] \<longrightarrow> de_IPAddress d' = de_IPAddress d) \<and>
     de_Online d' \<and> de_LastInform d' = now"
  using assms by (auto simp: Upsert_def read_parameters_def Let_def go_map)

definition ex_device_db :: "bool list \<Rightarrow> device_db" where
  "ex_device_db fs = \<lparr> db_devices =
     [(''S'', (new_device ''1'' 5)\<lparr>de_Serial := ''S'', de_WANIP := ''8.8.8.8'',
        de_Parameters := Some [(''A'', ''1''), (''B'', ''2'')]\<rparr>)], db_faults = fs \<rparr>"

definition ex_inform :: "params \<Rightarrow> upsert_request" where
  "ex_inform ps = \<lparr> uq_Serial = ''S'', uq_OUI = [], uq_Manufacturer = [], uq_ModelName = [],
     uq_ProductClass = [], uq_DataModel = ''tr181'', uq_Schema = ''tr181'', uq_IPAddress = [], uq_WANIP = [],
     uq_SWVersion = [], uq_HWVersion = [], uq_BLVersion = [], uq_UptimeSeconds = 0, uq_RAMTotal = 0,
     uq_RAMFree = 0, uq_ACSURL = [], uq_Parameters = ps \<rparr>"

lemma upsert_keeps_summoned_example:
  "\<exists>d' db'. Upsert ''2'' 9 (ex_inform [(''B'', ''3'')]) (ex_device_db []) = (Some d', db') \<and>
     map_option map_of (de_Parameters d') = Some (map_of [(''A'', ''1''), (''B'', ''2'')] ++ map_of [(''B'', ''3'')]) \<and>
     de_WANIP d' = ''8.8.8.8''"
proof -
  let ?d = "(new_device ''1'' 5)\<lparr>de_Serial := ''S'', de_WANIP := ''8.8.8.8'',
        de_Parameters := Some [(''A'', ''1''), (''B'', ''2'')]\<rparr>"
  have "uq_Serial (ex_inform ps) = ''S''" "uq_Parameters (ex_inform ps) = ps" "uq_WANIP (ex_inform ps) = []" for ps
    by (simp_all add: ex_inform_def)
  then show ?thesis
    using upsert_keeps_summoned [of "ex_device_db []" "ex_inform [(''B'', ''3'')]" ?d "[(''A'', ''1''), (''B'', ''2'')]" "''2''" 9]
    by (simp add: ex_device_db_def wf_map_def) blast
qed

text \<open>
  Stored parameters can still be lost. An Inform with as many parameters as are stored replaces
  them although the read succeeded; and because the error of the read is ignored, a failed read makes
  an Inform, and a merge of a partial summon as well, replace the stored map by the new values.
\<close>

lemma stored_parameters_lost:
  "map_option de_Parameters (fst (Upsert oid now (ex_inform [(''C'', ''1''), (''D'', ''2'')]) (ex_device_db []))) =
     Some (Some [(''C'', ''1''), (''D'', ''2'')]) \<and>
   map_option de_Parameters (fst (Upsert oid now (ex_inform [(''C'', ''1'')]) (ex_device_db [True]))) =
     Some (Some [(''C'', ''1'')]) \<and>
   map_option de_Parameters (map_of (db_devices (snd
     (MergeParameters now ''S'' [(''C'', ''1'')] (ex_device_db [True])))) ''S'') = Some (Some [(''C'', ''1'')])"
  by (simp add: Upsert_def MergeParameters_def read_parameters_def update_one_def db_call_def Let_def
      ex_device_db_def ex_inform_def mput_all_def)

text \<open>
  The staleness check touches exactly the devices that are online and have not been heard of
  since the given time: it marks those offline, changes nothing else of them but the time stamp,
  leaves all other devices alone and returns how many it marked; run again with the same time
  it finds none.
\<close>

lemma stale_devices_marked:
  assumes "db_faults db = []" and "MarkStaleOffline now t db = (n, db')"
  shows "n = Some (length (filter (stale t \<circ> snd) (db_devices db))) \<and>
     (\<forall>s. map_of (db_devices db') s = map_option
        (\<lambda>d. if stale t d then d\<lparr>de_Online := False, de_UpdatedAt := now\<rparr> else d) (map_of (db_devices db) s)) \<and>
     fst (MarkStaleOffline now t db') = Some 0"
proof -
  let ?f = "\<lambda>d :: device. if stale t d then d\<lparr>de_Online := False, de_UpdatedAt := now\<rparr> else d"
  have db': "db' = db\<lparr>db_devices := map (\<lambda>(s, d). (s, ?f d)) (db_devices db)\<rparr>"
    and n: "n = Some (length (filter (stale t \<circ> snd) (db_devices db)))"
    using assms by (auto simp: MarkStaleOffline_def)
  have m: "map_of (map (\<lambda>(s, d). (s, ?f d)) xs) s = map_option ?f (map_of xs s)" for xs :: "(string \<times> device) list" and s
    by (induction xs) auto
  have "\<not> stale t (?f d)" for d by (simp add: stale_def)
  then have "filter (stale t \<circ> snd) (db_devices db') = []"
    unfolding db' by (auto simp: filter_empty_conv)
  moreover have "db_faults db' = []" using assms(1) db' by simp
  ultimately have "fst (MarkStaleOffline now t db') = Some 0" by (simp add: MarkStaleOffline_def)
  then show ?thesis using n m by (simp add: db')
qed

lemma stale_devices_marked_witness: "fst (MarkStaleOffline 9 9 (snd (MarkStaleOffline 9 9 (ex_device_db [])))) = Some 0"
  using stale_devices_marked [of "ex_device_db []" 9 9]
  by (cases "MarkStaleOffline 9 9 (ex_device_db [])") (simp add: ex_device_db_def)

end
