(* ===== verification/Results.thy ===== *)
theory Results imports Executor Driver Device_Store Discovery begin

section \<open>Answers of a device as typed results\<close>

text \<open>
  The parsers of internal/cwmp/results.go: they turn the parameters of a GetParameterValues answer
  into diagnostic results, port mapping rules, connected hosts and the WAN, LAN and WiFi documents
  of a device. A \<^verbatim>\<open>range\<close> loop over the parameters is a fold over the list; a map that a
  function builds and visits itself is visited in insertion order. \<^term>\<open>None\<close> as the whole result
  is a run-time panic (a capture that the driver's pattern does not have).
\<close>

subsection \<open>Diagnostics\<close>

definition parsePingResult :: "params \<Rightarrow> mapper \<Rightarrow> ping_result" where
  "parsePingResult ps m =
     (let base = sys_path_of m PingDiagBasePath;
          num = (\<lambda>k. atoi_val (mget ps (base @ k)));
          success = num ''SuccessCount'';
          failure = num ''FailureCount'';
          sent = (if num ''NumberOfRepetitions'' = 0 then wrap64 (success + failure) else num ''NumberOfRepetitions'')
      in \<lparr> pr_Host = mget ps (base @ ''Host''), pr_PacketsSent = sent, pr_PacketsReceived = success,
           pr_PacketLossPct = (if sent > 0 then (failure * 100, sent) else (0, 1)),
           pr_MinRTTMs = num ''MinimumResponseTime'', pr_AvgRTTMs = num ''AverageResponseTime'',
           pr_MaxRTTMs = num ''MaximumResponseTime'' \<rparr>)"

text \<open>
  The instance number and the field of a name below an object: \<^verbatim>\<open>strings.Cut\<close> of the rest
  at the first dot and a checked \<^verbatim>\<open>Atoi\<close>.
\<close>

definition instance_field :: "string \<Rightarrow> string \<Rightarrow> (int \<times> string) option" where
  "instance_field base name =
     (if \<not> has_prefix name base then None
      else case cut_at (drop (length base) name) CHR ''.'' of
        None \<Rightarrow> None
      | Some (i, field) \<Rightarrow> (case atoi_opt i of None \<Rightarrow> None | Some idx \<Rightarrow> Some (idx, field)))"

text \<open>Update the entry of an instance, made from its zero value when it is new.\<close>

definition on_instance :: "(int \<Rightarrow> 'a) \<Rightarrow> int \<Rightarrow> ('a \<Rightarrow> 'a) \<Rightarrow> (int, 'a) gomap \<Rightarrow> (int, 'a) gomap" where
  "on_instance zero idx f m = mput idx (f (case map_of m idx of None \<Rightarrow> zero idx | Some x \<Rightarrow> x)) m"

text \<open>\<^verbatim>\<open>for i := 1; i <= len(m); i++ { if x, ok := m[i]; ok { ... } }\<close>\<close>

definition dense_entries :: "(int, 'a) gomap \<Rightarrow> 'a list" where
  "dense_entries m = List.map_filter (map_of m) [1 .. int (length m)]"

definition hop_field :: "string \<Rightarrow> string \<Rightarrow> traceroute_hop \<Rightarrow> traceroute_hop" where
  "hop_field field v h =
     (if field = ''HopHost'' \<or> field = ''Host'' then h\<lparr>th_Host := v\<rparr>
      else if field = ''HopRTTimes'' \<or> field = ''RTTimes'' \<or> field = ''HopErrorCode'' then
        (case atoi_opt v of None \<Rightarrow> h | Some rtt \<Rightarrow> h\<lparr>th_RTTMs := rtt\<rparr>)
      else h)"

definition hop_step ::
    "string \<Rightarrow> string \<times> string \<Rightarrow> (int, traceroute_hop) gomap \<Rightarrow> (int, traceroute_hop) gomap" where
  "hop_step base kv hops =
     (case instance_field base (fst kv) of
        None \<Rightarrow> hops
      | Some (idx, field) \<Rightarrow>
          on_instance (\<lambda>i. \<lparr> th_HopNumber = i, th_Host = [], th_RTTMs = 0 \<rparr>) idx (hop_field field (snd kv)) hops)"

definition parseTracerouteResult :: "params \<Rightarrow> mapper \<Rightarrow> traceroute_result" where
  "parseTracerouteResult ps m =
     (let base = sys_path_of m TracerouteDiagBasePath
      in \<lparr> tt_Host = mget ps (base @ ''Host''), tt_MaxHops = atoi_val (mget ps (base @ ''MaxHopCount'')),
           tt_HopCount = atoi_val (mget ps (base @ ''NumberOfRouteHops'')),
           tt_Hops = dense_entries (fold (hop_step (base @ ''RouteHops.'')) ps []) \<rparr>)"

definition int64_val :: "string \<Rightarrow> int" where "int64_val s = fst (parse_int64 s)"

definition parseSpeedTestResult :: "params \<Rightarrow> mapper \<Rightarrow> speed_payload \<Rightarrow> speed_result" where
  "parseSpeedTestResult ps m payload =
     (let base = sys_path_of m DownloadDiagBasePath;
          test = int64_val (mget ps (base @ ''TestBytesReceived''));
          bytes = (if test = 0 then int64_val (mget ps (base @ ''TotalBytesReceived'')) else test);
          duration =
            (case (parse_int64 (mget ps (base @ ''BOMTime'')), parse_int64 (mget ps (base @ ''EOMTime''))) of
               ((bom, None), (eom, None)) \<Rightarrow> if eom > bom then wrap64 (eom - bom) else 0
             | _ \<Rightarrow> 0)
      in \<lparr> sr_DownloadURL = sd_DownloadURL payload,
           sr_DownloadSpeedMbps = (if duration > 0 \<and> bytes > 0 then (bytes * 8, duration * 1000) else (0, 1)),
           sr_DownloadDurationMs = duration, sr_DownloadBytesTotal = bytes \<rparr>)"

definition parseCPEStats :: "params \<Rightarrow> mapper \<Rightarrow> cpe_stats_result \<times> wan_info" where
  "parseCPEStats ps m =
     (let num = (\<lambda>path. int64_val (mget ps path));
          res = \<lparr> cs_UptimeSeconds = num (sys_path_of m CPEUptimePath),
            cs_RAMTotalKB = num (sys_path_of m RAMTotalPath), cs_RAMFreeKB = num (sys_path_of m RAMFreePath),
            cs_WANBytesSent = num (wan_path_of m WANBytesSentPath),
            cs_WANBytesRecv = num (wan_path_of m WANBytesReceivedPath),
            cs_WANPktsSent = num (wan_path_of m WANPacketsSentPath),
            cs_WANPktsRecv = num (wan_path_of m WANPacketsReceivedPath),
            cs_WANErrsSent = num (wan_path_of m WANErrorsSentPath),
            cs_WANErrsRecv = num (wan_path_of m WANErrorsReceivedPath) \<rparr>
      in (res, zero_wan_info\<lparr>wi_LinkStatus := mget ps (wan_path_of m WANStatusPath),
            wi_UptimeSeconds := num (wan_path_of m WANUptimePath), wi_BytesSent := cs_WANBytesSent res,
            wi_BytesReceived := cs_WANBytesRecv res, wi_PacketsSent := cs_WANPktsSent res,
            wi_PacketsReceived := cs_WANPktsRecv res, wi_ErrorsSent := cs_WANErrsSent res,
            wi_ErrorsReceived := cs_WANErrsRecv res\<rparr>))"

subsection \<open>Port mappings\<close>

definition truthy :: "string \<Rightarrow> bool" where
  "truthy v \<longleftrightarrow> equal_fold v ''true'' \<or> v = ''1''"

definition rule_field :: "string \<Rightarrow> string \<Rightarrow> portfwd_rule \<Rightarrow> portfwd_rule" where
  "rule_field field v r =
     (if field = ''PortMappingEnabled'' \<or> field = ''Enable'' then r\<lparr>pm_Enabled := truthy v\<rparr>
      else if field = ''PortMappingProtocol'' \<or> field = ''Protocol'' then r\<lparr>pm_Protocol := v\<rparr>
      else if field = ''ExternalPort'' then r\<lparr>pm_ExternalPort := atoi_val v\<rparr>
      else if field = ''InternalClient'' then r\<lparr>pm_InternalIP := v\<rparr>
      else if field = ''InternalPort'' then r\<lparr>pm_InternalPort := atoi_val v\<rparr>
      else if field = ''PortMappingDescription'' \<or> field = ''Description'' then r\<lparr>pm_Description := v\<rparr>
      else r)"

definition zero_rule :: "int \<Rightarrow> portfwd_rule" where
  "zero_rule i = \<lparr> pm_InstanceNumber = i, pm_Enabled = False, pm_Protocol = [], pm_ExternalPort = 0,
     pm_InternalIP = [], pm_InternalPort = 0, pm_Description = [] \<rparr>"

definition rule_step ::
    "string \<Rightarrow> string \<times> string \<Rightarrow> (int, portfwd_rule) gomap \<Rightarrow> (int, portfwd_rule) gomap" where
  "rule_step base kv rules =
     (case instance_field base (fst kv) of
        None \<Rightarrow> rules
      | Some (idx, field) \<Rightarrow> on_instance zero_rule idx (rule_field field (snd kv)) rules)"

definition parsePortMappingRules :: "params \<Rightarrow> mapper \<Rightarrow> portfwd_rule list" where
  "parsePortMappingRules ps m = dense_entries (fold (rule_step (sys_path_of m PortMappingBasePath)) ps [])"

definition buildPortMappingParams :: "string \<Rightarrow> int \<Rightarrow> portfwd_payload \<Rightarrow> params" where
  "buildPortMappingParams base n p =
     (let prefix = base @ itoa n @ ''.''
      in mlit
       [(prefix @ ''PortMappingEnabled'', if pf_Enabled p = Some False then ''0'' else ''1''),
        (prefix @ ''PortMappingProtocol'', if pf_Protocol p = [] then ''TCP'' else pf_Protocol p),
        (prefix @ ''ExternalPort'', itoa (pf_ExternalPort p)),
        (prefix @ ''InternalClient'', pf_InternalIP p),
        (prefix @ ''InternalPort'', itoa (pf_InternalPort p)),
        (prefix @ ''PortMappingDescription'', pf_Description p),
        (prefix @ ''PortMappingLeaseDuration'', ''0'')])"

subsection \<open>Facts: port mappings\<close>

lemma itoa_no_dot: "CHR ''.'' \<notin> set (itoa i)"
  using show_nat_no_sep [of "CHR ''.''"] by (auto simp: itoa_def is_digit_def)

lemma instance_field_itoa [simp]:
  "int64 i \<Longrightarrow> instance_field base (base @ itoa i @ CHR ''.'' # field) = Some (i, field)"
  by (simp add: instance_field_def cut_at_append itoa_no_dot atoi_opt_itoa int64_def)

definition rule_of :: "int \<Rightarrow> portfwd_payload \<Rightarrow> portfwd_rule" where
  "rule_of i p = \<lparr> pm_InstanceNumber = i, pm_Enabled = (pf_Enabled p \<noteq> Some False),
     pm_Protocol = (if pf_Protocol p = [] then ''TCP'' else pf_Protocol p),
     pm_ExternalPort = pf_ExternalPort p, pm_InternalIP = pf_InternalIP p,
     pm_InternalPort = pf_InternalPort p, pm_Description = pf_Description p \<rparr>"

lemma mput_new: "map_of m k = None \<Longrightarrow> mput k v m = m @ [(k, v)]"
  by (induction m) (auto split: if_splits)

lemma mput_last: "map_of m k = None \<Longrightarrow> mput k w (m @ [(k, v)]) = m @ [(k, w)]"
  by (induction m) (auto split: if_splits)

lemma fold_rule_instance:
  assumes "int64 i" "int64 (pf_ExternalPort p)" "int64 (pf_InternalPort p)" "map_of rules i = None"
  shows "fold (rule_step base) (buildPortMappingParams base i p) rules = rules @ [(i, rule_of i p)]"
  using assms
  by (simp add: buildPortMappingParams_def mlit_def mput_all_def rule_step_def on_instance_def
      map_add_def mput_new mput_last rule_field_def zero_rule_def rule_of_def truthy_def equal_fold_def to_lower_def int64_def
      lower_char_def Let_def)

text \<open>The parameters of a device whose rules were written to the instances 1, 2, ... in turn.\<close>

fun rule_params :: "string \<Rightarrow> int \<Rightarrow> portfwd_payload list \<Rightarrow> params" where
  "rule_params base i [] = []"
| "rule_params base i (p # ps) = buildPortMappingParams base i p @ rule_params base (i + 1) ps"

fun rules_from :: "int \<Rightarrow> portfwd_payload list \<Rightarrow> (int, portfwd_rule) gomap" where
  "rules_from i [] = []"
| "rules_from i (p # ps) = (i, rule_of i p) # rules_from (i + 1) ps"

lemma fold_rule_params:
  assumes "\<forall>p \<in> set ps. int64 (pf_ExternalPort p) \<and> int64 (pf_InternalPort p)"
    and "0 \<le> i" and "i + int (length ps) \<le> max_int64" and "\<forall>k \<in> fst ` set rules. k < i"
  shows "fold (rule_step base) (rule_params base i ps) rules = rules @ rules_from i ps"
  using assms
proof (induction ps arbitrary: i rules)
  case (Cons p ps)
  have "map_of rules i = None" using Cons.prems(4) by (auto simp: map_of_eq_None_iff)
  then have "fold (rule_step base) (buildPortMappingParams base i p) rules = rules @ [(i, rule_of i p)]"
    using Cons.prems by (intro fold_rule_instance) (auto simp: int64_def min_int64_def)
  moreover have "\<forall>k \<in> fst ` set (rules @ [(i, rule_of i p)]). k < i + 1"
    using Cons.prems(4) by auto
  ultimately show ?case using Cons.IH [of "i + 1" "rules @ [(i, rule_of i p)]"] Cons.prems by auto
qed simp

lemma map_filter_rules:
  "List.map_filter (map_of (xs @ rules_from i ps)) [i .. i + int (length ps) - 1] = map snd (rules_from i ps)"
  if "\<forall>k \<in> fst ` set xs. k < i" for xs
  using that
proof (induction ps arbitrary: i xs)
  case Nil
  then show ?case by (simp add: List.map_filter_def)
next
  case (Cons p ps)
  have "map_of xs i = None" using Cons.prems by (auto simp: map_of_eq_None_iff)
  moreover have "[i .. i + int (length (p # ps)) - 1] = i # [i + 1 .. i + 1 + int (length ps) - 1]"
    by (subst upto.simps) (auto simp: algebra_simps)
  moreover have "\<forall>k \<in> fst ` set (xs @ [(i, rule_of i p)]). k < i + 1" using Cons.prems by auto
  ultimately show ?case
    using Cons.IH [of "xs @ [(i, rule_of i p)]" "i + 1"]
    by (simp add: List.map_filter_simps map_add_def)
qed

lemma length_rules_from [simp]: "length (rules_from i ps) = length ps"
  by (induction ps arbitrary: i) auto

text \<open>
  C35. Port mappings that were written to the instances 1 to n read back as the same rules, in that
  order: enabled unless switched off, protocol TCP unless given, ports, client and description as
  in the requests.
\<close>

theorem port_mapping_roundtrip:
  assumes "\<forall>p \<in> set ps. int64 (pf_ExternalPort p) \<and> int64 (pf_InternalPort p)"
    and "int (length ps) < max_int64"
  shows "parsePortMappingRules (rule_params (sys_path_of m PortMappingBasePath) 1 ps) m =
     map snd (rules_from 1 ps)"
  using fold_rule_params [of ps 1 "[]" "sys_path_of m PortMappingBasePath"] map_filter_rules [of "[]" 1 ps] assms
  by (simp add: parsePortMappingRules_def dense_entries_def)

lemma port_mapping_roundtrip_witness:
  "parsePortMappingRules
     (rule_params (sys_path_of (NewMapper TR181) PortMappingBasePath) 1 [zero_portfwd_payload]) (NewMapper TR181) =
   [rule_of 1 zero_portfwd_payload]"
  using port_mapping_roundtrip [of "[zero_portfwd_payload]" "NewMapper TR181"]
  by (simp add: zero_portfwd_payload_def int64_def min_int64_def max_int64_def)

text \<open>
  A gap in the instance numbers hides rules: the loop counts from one to the number of rules
  found, so that a device left with instance 2 only is reported as having none.
\<close>

lemma port_mapping_gap:
  assumes "int64 (pf_ExternalPort p)" and "int64 (pf_InternalPort p)"
  shows "parsePortMappingRules (buildPortMappingParams (sys_path_of m PortMappingBasePath) 2 p) m = []"
proof -
  have "fold (rule_step (sys_path_of m PortMappingBasePath))
      (buildPortMappingParams (sys_path_of m PortMappingBasePath) 2 p) [] = [(2, rule_of 2 p)]"
    using fold_rule_instance [of 2 p "[]"] assms by (simp add: int64_def min_int64_def max_int64_def)
  then show ?thesis by (simp add: parsePortMappingRules_def dense_entries_def List.map_filter_def)
qed

lemma port_mapping_gap_witness:
  "parsePortMappingRules (buildPortMappingParams (sys_path_of (NewMapper TR098) PortMappingBasePath) 2
     zero_portfwd_payload) (NewMapper TR098) = []"
  using port_mapping_gap [of zero_portfwd_payload "NewMapper TR098"]
  by (simp add: zero_portfwd_payload_def int64_def min_int64_def max_int64_def)

subsection \<open>DNS servers and gateways\<close>

definition isValidIPString :: "string \<Rightarrow> bool" where
  "isValidIPString s \<longleftrightarrow> count_list s CHR ''.'' \<ge> 3 \<or> contains s '':''"

definition usable_dns :: "string \<Rightarrow> bool" where
  "usable_dns s \<longleftrightarrow> s \<notin> {[], ''0.0.0.0'', ''0.0.0.0.0.0'', ''::''} \<and> isValidIPString s"

definition cleanDNSServers :: "string \<Rightarrow> string" where
  "cleanDNSServers s =
     (if s = [] then []
      else join_with '','' (filter usable_dns (map trim_space (split_on CHR '','' s))))"

text \<open>First and second entry of a comma separated list.\<close>

definition dns_pair :: "string \<Rightarrow> string \<times> string" where
  "dns_pair s =
     (if s = [] then ([], [])
      else case split_on CHR '','' s of
        [] \<Rightarrow> ([], [])
      | [a] \<Rightarrow> (trim_space a, [])
      | a # b # _ \<Rightarrow> (trim_space a, trim_space b))"

definition samePrefix :: "string \<Rightarrow> string \<Rightarrow> bool" where
  "samePrefix a b =
     (case (split_n CHR ''.'' 3 a, split_n CHR ''.'' 3 b) of
        (a0 # a1 # _, b0 # b1 # _) \<Rightarrow> a0 = b0 \<and> a1 = b1
      | _ \<Rightarrow> False)"

text \<open>The gateway of the first enabled route over the interface, in visiting order.\<close>

definition route_gateway :: "params \<Rightarrow> string \<Rightarrow> string \<times> string \<Rightarrow> string option" where
  "route_gateway ps iface kv =
     (let (k, v) = kv in
      if has_suffix k ''.Interface'' \<and> v = iface \<and> contains k ''IPv4Forwarding'' then
        let base = trim_suffix k ''.Interface'';
            enabled = mget ps (base @ ''.Enable'');
            gw = mget ps (base @ ''.GatewayIPAddress'')
        in if (enabled = ''1'' \<or> enabled = ''true'' \<or> enabled = []) \<and> gw \<noteq> [] \<and> gw \<noteq> ''0.0.0.0''
           then Some gw else None
      else None)"

text \<open>
  Otherwise the first gateway that shares two octets with the address, or the first one at all.
\<close>

definition any_gateways :: "params \<Rightarrow> string list" where
  "any_gateways ps = map snd (filter (\<lambda>(k, v). has_suffix k ''.GatewayIPAddress'' \<and>
     contains k ''IPv4Forwarding'' \<and> v \<noteq> [] \<and> v \<noteq> ''0.0.0.0'') ps)"

definition findGateway :: "string \<Rightarrow> string \<Rightarrow> params \<Rightarrow> string" where
  "findGateway iface wanIP ps =
     (case (if iface \<noteq> [] then List.map_filter (route_gateway ps iface) ps else []) of
        gw # _ \<Rightarrow> gw
      | [] \<Rightarrow>
          (case find (\<lambda>v. wanIP \<noteq> [] \<and> samePrefix wanIP v) (any_gateways ps) of
             Some v \<Rightarrow> v
           | None \<Rightarrow> (case any_gateways ps of [] \<Rightarrow> [] | v # _ \<Rightarrow> v)))"

subsection \<open>The WAN interface of the mapper\<close>

definition reExternalIP :: "string \<Rightarrow> regex" where
  "reExternalIP kind = re_full [Lit ''InternetGatewayDevice.WANDevice.'', Digits, Lit ''.WANConnectionDevice.'',
     Digits, Lit (''.WAN'' @ kind @ ''Connection.''), Digits, Lit ''.ExternalIPAddress'']"

definition fallbackExternalIP :: "params \<Rightarrow> string" where
  "fallbackExternalIP ps =
     (case find (\<lambda>(k, v). v \<noteq> [] \<and> v \<noteq> ''0.0.0.0'' \<and>
         (submatch (reExternalIP ''IP'') k \<noteq> None \<or> submatch (reExternalIP ''PPP'') k \<noteq> None)) ps of
        None \<Rightarrow> []
      | Some (k, v) \<Rightarrow> v)"

text \<open>\<^verbatim>\<open>strings.Replace(s, old, new, 1)\<close>\<close>

definition replace_first :: "string \<Rightarrow> string \<Rightarrow> string \<Rightarrow> string" where
  "replace_first s old new =
     (case index_of s old of None \<Rightarrow> s | Some i \<Rightarrow> take i s @ new @ drop (i + length old) s)"

text \<open>A field of the schema mapper that the other mappers do not have; empty when the path is.\<close>

definition schema_value :: "params \<Rightarrow> mapper \<Rightarrow> (schema_mapper \<Rightarrow> string) \<Rightarrow> string" where
  "schema_value ps m f =
     (case m of MSchema sm \<Rightarrow> if f sm \<noteq> [] then mget ps (f sm) else [] | _ \<Rightarrow> [])"

definition int64_at :: "params \<Rightarrow> string \<Rightarrow> int" where
  "int64_at ps key = (if key = [] then 0 else int64_val (mget ps key))"

definition extractWANInfo :: "params \<Rightarrow> mapper \<Rightarrow> wan_info" where
  "extractWANInfo ps m =
     (let ipPath = wan_path_of m WANIPAddressPath;
          iface = (case index_of ipPath ''.IPv4Address.'' of
                     Some i \<Rightarrow> if i > 0 then take i ipPath @ ''.'' else []
                   | None \<Rightarrow> []);
          mask0 = (if ipPath \<noteq> [] then mget ps (replace_first ipPath ''.IPAddress'' ''.SubnetMask'') else []);
          mask = (if mask0 = [] then schema_value ps m WANSubnetMaskPath else mask0);
          gw0 = mget ps (wan_path_of m WANGatewayPath);
          gw = (if gw0 = [] \<or> gw0 = ''0.0.0.0'' then findGateway iface (mget ps ipPath) ps else gw0);
          dns = dns_pair (mget ps (wan_path_of m WANDNS1Path));
          stPath = wan_path_of m WANServiceTypePath;
          st0 = (if stPath \<noteq> [] then mget ps stPath else []);
          st = (if st0 = [] then schema_value ps m WANServiceTypePPPPath else st0);
          ls0 = mget ps (wan_path_of m WANStatusPath);
          ls = (if ls0 = [] then schema_value ps m WANStatusPPPPath else ls0);
          ip0 = mget ps ipPath;
          ip = (if ip0 = [] \<or> ip0 = ''0.0.0.0'' then fallbackExternalIP ps else ip0)
      in zero_wan_info\<lparr>wi_ConnectionType := mget ps (wan_path_of m WANConnectionTypePath),
           wi_ServiceType := st, wi_IPAddress := ip, wi_SubnetMask := mask, wi_Gateway := gw,
           wi_DNS1 := fst dns, wi_DNS2 := snd dns, wi_MACAddress := mget ps (wan_path_of m WANMACPath),
           wi_PPPoEUsername := mget ps (wan_path_of m WANPPPoEUserPath),
           wi_MTU := atoi_val (mget ps (wan_path_of m WANMTUPath)), wi_LinkStatus := ls,
           wi_UptimeSeconds := int64_at ps (wan_path_of m WANUptimePath)\<rparr>)"

subsection \<open>All WAN interfaces\<close>

definition pppoe_first :: "wan_info \<Rightarrow> wan_info \<Rightarrow> bool" where
  "pppoe_first a b \<longleftrightarrow>
     equal_fold (wi_ConnectionType a) ''PPPoE'' \<and> \<not> equal_fold (wi_ConnectionType b) ''PPPoE''"

definition sortWANInfosByPriority :: "wan_info list \<Rightarrow> wan_info list" where
  "sortWANInfosByPriority = sort_by pppoe_first"

record tr098_entry =
  te_Connection :: string
  te_IPAddress :: string
  te_LinkStatus :: string
  te_Service :: string
  te_Username :: string
  te_SubnetMask :: string
  te_Gateway :: string
  te_DNSServers :: string
  te_MACAddress :: string
  te_MTU :: int
  te_Uptime :: int

definition zero_entry :: "string \<Rightarrow> tr098_entry" where
  "zero_entry conn = \<lparr> te_Connection = conn, te_IPAddress = [], te_LinkStatus = [], te_Service = [],
     te_Username = [], te_SubnetMask = [], te_Gateway = [], te_DNSServers = [], te_MACAddress = [],
     te_MTU = 0, te_Uptime = 0 \<rparr>"

text \<open>
  A name of a connection object split into the object and the field: the object ends in an instance
  number, and the field is not empty and has no line break.
\<close>

definition reConnection :: "string \<Rightarrow> regex" where
  "reConnection kind = re_full [Lit ''InternetGatewayDevice.WANDevice.'', Digits, Lit ''.WANConnectionDevice.'',
     Digits, Lit (''.WAN'' @ kind @ ''Connection.''), Digits]"

definition connection_field :: "string \<Rightarrow> string \<Rightarrow> (string \<times> string) option" where
  "connection_field kind k =
     (case find (\<lambda>n. k ! n = CHR ''.'' \<and> submatch (reConnection kind) (take n k) \<noteq> None) [0..<length k] of
        None \<Rightarrow> None
      | Some n \<Rightarrow>
          let field = drop (Suc n) k
          in if field = [] \<or> CHR 0x0A \<in> set field then None else Some (take n k, field))"

definition entry_field :: "bool \<Rightarrow> string \<Rightarrow> string \<Rightarrow> tr098_entry \<Rightarrow> tr098_entry" where
  "entry_field ppp field v e =
     (if field = ''ConnectionType'' then (if v \<noteq> [] then e\<lparr>te_Connection := v\<rparr> else e)
      else if field = ''ConnectionStatus'' then e\<lparr>te_LinkStatus := v\<rparr>
      else if field = ''ExternalIPAddress'' then e\<lparr>te_IPAddress := v\<rparr>
      else if field = ''SubnetMask'' then e\<lparr>te_SubnetMask := v\<rparr>
      else if field = ''DefaultGateway'' then e\<lparr>te_Gateway := v\<rparr>
      else if field = ''DNSServers'' then e\<lparr>te_DNSServers := v\<rparr>
      else if field = ''MACAddress'' then (if v \<noteq> [] then e\<lparr>te_MACAddress := v\<rparr> else e)
      else if field = ''MaxMTUSize'' then e\<lparr>te_MTU := atoi_val v\<rparr>
      else if field = ''Uptime'' then e\<lparr>te_Uptime := atoi_val v\<rparr>
      else if ppp \<and> field = ''Username'' then e\<lparr>te_Username := v\<rparr>
      else if has_suffix (to_lower field) ''servicelist'' then e\<lparr>te_Service := v\<rparr>
      else e)"

definition entry_step ::
    "string \<times> string \<Rightarrow> (string, tr098_entry) gomap \<Rightarrow> (string, tr098_entry) gomap" where
  "entry_step kv m =
     (let (k, v) = kv;
          put = (\<lambda>ppp conn base field m.
            mput base (entry_field ppp field v (case map_of m base of None \<Rightarrow> zero_entry conn | Some e \<Rightarrow> e)) m);
          m1 = (case connection_field ''IP'' k of None \<Rightarrow> m | Some (b, f) \<Rightarrow> put False ''IP_Routed'' b f m)
      in case connection_field ''PPP'' k of None \<Rightarrow> m1 | Some (b, f) \<Rightarrow> put True ''PPPoE'' b f m1)"

definition entry_wan :: "string \<Rightarrow> tr098_entry \<Rightarrow> wan_info" where
  "entry_wan mac e =
     (let dns = (let clean = cleanDNSServers (te_DNSServers e) in
                 if clean = [] then ([], [])
                 else case split_n CHR '','' 2 clean of
                   [] \<Rightarrow> ([], []) | [a] \<Rightarrow> (trim_space a, []) | a # b # _ \<Rightarrow> (trim_space a, trim_space b))
      in zero_wan_info\<lparr>wi_ConnectionType := te_Connection e, wi_ServiceType := te_Service e,
           wi_IPAddress := te_IPAddress e, wi_SubnetMask := te_SubnetMask e, wi_Gateway := te_Gateway e,
           wi_DNS1 := fst dns, wi_DNS2 := snd dns, wi_MTU := te_MTU e, wi_UptimeSeconds := te_Uptime e,
           wi_LinkStatus := te_LinkStatus e,
           wi_MACAddress := (if te_MACAddress e = [] then mac else te_MACAddress e),
           wi_PPPoEUsername := te_Username e\<rparr>)"

text \<open>
  The visited entries, by object name; an address that was already reported is left out. The
  connection kind of an entry is never empty, since it starts non-empty and only non-empty values
  replace it, so that the code's defaults for an empty kind do not occur.
\<close>

fun entries_wans :: "string \<Rightarrow> tr098_entry list \<Rightarrow> string list \<Rightarrow> wan_info list" where
  "entries_wans mac [] seen = []"
| "entries_wans mac (e # es) seen =
     (if te_IPAddress e = [] \<or> te_IPAddress e = ''0.0.0.0'' \<or> te_IPAddress e \<in> set seen
      then entries_wans mac es seen
      else entry_wan mac e # entries_wans mac es (te_IPAddress e # seen))"

definition extractWANInfosTR098 :: "params \<Rightarrow> string list \<Rightarrow> string \<Rightarrow> wan_info list" where
  "extractWANInfosTR098 ps seen mac =
     (let entries = fold entry_step ps []
      in entries_wans mac (List.map_filter (map_of entries) (sort (map fst entries))) seen)"

text \<open>
  The pattern of the connection type: instance numbers and placeholders of the path become captures.
\<close>

function pattern_items :: "string \<Rightarrow> re_item list" where
  "pattern_items s =
     (case s of
        [] \<Rightarrow> []
      | c # cs \<Rightarrow>
          (let n = digit_run cs in
           if has_prefix s ''{i}'' then Capture # pattern_items (drop 3 s)
           else if c = CHR ''.'' \<and> n > 0 \<and> has_prefix (drop n cs) ''.''
           then Lit ''.'' # Capture # Lit ''.'' # pattern_items (drop (Suc n) cs)
           else Lit [c] # pattern_items cs))"
  by pat_completeness auto
termination by (relation "measure length") auto

declare pattern_items.simps [simp del]

definition buildConnTypePatternFromPath :: "string \<Rightarrow> regex" where
  "buildConnTypePatternFromPath path =
     re_full (pattern_items (if path = [] then ''Device.IP.Interface.1.ConnectionType'' else path))"

definition serviceTypeSuffixFromPath :: "string \<Rightarrow> string" where
  "serviceTypeSuffixFromPath path =
     (if \<not> has_prefix path ''Device.IP.Interface.'' then []
      else case cut_at (drop 20 path) CHR ''.'' of None \<Rightarrow> [] | Some (_, field) \<Rightarrow> field)"

text \<open>What the driver says on WAN paths and interface roles.\<close>

definition or_else :: "string \<Rightarrow> string \<Rightarrow> string" where
  "or_else v dflt = (if v \<noteq> [] then v else dflt)"

definition driver_path :: "driver option \<Rightarrow> (discovery_yaml \<Rightarrow> string) \<Rightarrow> string \<Rightarrow> string" where
  "driver_path d f dflt = (case d of None \<Rightarrow> dflt | Some d \<Rightarrow> or_else (f (dv_Discovery d)) dflt)"

definition driver_values :: "driver option \<Rightarrow> (discovery_yaml \<Rightarrow> string list) \<Rightarrow> string list \<Rightarrow> string list" where
  "driver_values d f dflt =
     (case d of None \<Rightarrow> dflt | Some d \<Rightarrow> if f (dv_Discovery d) \<noteq> [] then f (dv_Discovery d) else dflt)"

definition rePPPRef :: regex where
  "rePPPRef = re_inside [Lit ''Device.PPP.Interface.'', Capture]"

text \<open>Addresses learnt from the PPP interface below, or from the DHCP client above.\<close>

definition ppp_details :: "params \<Rightarrow> string \<Rightarrow> wan_info \<Rightarrow> wan_info" where
  "ppp_details ps obj wan =
     (case submatch rePPPRef (mget ps (obj @ ''LowerLayers'')) of
        Some (i # _) \<Rightarrow>
          let ppp = ''Device.PPP.Interface.'' @ i @ ''.'';
              wan1 = wan\<lparr>wi_PPPoEUsername := mget ps (ppp @ ''Username'')\<rparr>;
              wan2 = (if wi_Gateway wan = [] \<or> wi_Gateway wan = ''0.0.0.0''
                      then wan1\<lparr>wi_Gateway := trim_space (mget ps (ppp @ ''IPCP.RemoteIPAddress''))\<rparr> else wan1);
              dns = mget ps (ppp @ ''IPCP.DNSServers'')
          in if dns = [] then wan2 else wan2\<lparr>wi_DNS1 := fst (dns_pair dns), wi_DNS2 := snd (dns_pair dns)\<rparr>
      | _ \<Rightarrow> wan)"

definition dhcp_details :: "params \<Rightarrow> string \<Rightarrow> wan_info \<Rightarrow> wan_info" where
  "dhcp_details ps obj wan =
     (case find (\<lambda>(k, v). has_suffix k ''.Interface'' \<and> has_prefix k ''Device.DHCPv4.Client.'' \<and> v = obj) ps of
        None \<Rightarrow> wan
      | Some (k, _) \<Rightarrow>
          let dns = mget ps (trim_suffix k ''.Interface'' @ ''.DNSServers'')
          in if dns = [] then wan else wan\<lparr>wi_DNS1 := fst (dns_pair dns), wi_DNS2 := snd (dns_pair dns)\<rparr>)"

definition wan_of_interface ::
    "params \<Rightarrow> string \<Rightarrow> string \<Rightarrow> string \<Rightarrow> string \<Rightarrow> string \<Rightarrow> wan_info" where
  "wan_of_interface ps stSuffix uptimeTpl mac idx v =
     (let obj = ''Device.IP.Interface.'' @ idx @ ''.'';
          ip = mget ps (obj @ ''IPv4Address.1.IPAddress'');
          up0 = mget ps (replace_all uptimeTpl ''{i}'' idx);
          up = (if up0 = [] then mget ps (obj @ ''LastChange'') else up0);
          wan = zero_wan_info\<lparr>wi_ConnectionType := v,
            wi_ServiceType := (if stSuffix \<noteq> [] then mget ps (obj @ stSuffix) else []),
            wi_IPAddress := ip, wi_SubnetMask := mget ps (obj @ ''IPv4Address.1.SubnetMask''),
            wi_LinkStatus := mget ps (obj @ ''Status''), wi_Gateway := findGateway obj ip ps,
            wi_MACAddress := mac, wi_MTU := atoi_val (mget ps (obj @ ''MaxMTUSize'')),
            wi_UptimeSeconds := (case parse_int64 up of (u, None) \<Rightarrow> u | _ \<Rightarrow> 0)\<rparr>
      in if v = ''PPPoE'' then ppp_details ps obj wan
         else if v = ''DHCP'' then dhcp_details ps obj wan
         else wan)"

text \<open>
  The loop over the connection types, with the addresses seen so far; a pattern without an instance
  number panics on its first match that is a WAN interface.
\<close>

fun wan_loop ::
    "(string \<Rightarrow> string \<Rightarrow> wan_info) \<Rightarrow> (string \<Rightarrow> string) \<Rightarrow> regex \<Rightarrow> string list \<Rightarrow> params \<Rightarrow>
     wan_info list \<Rightarrow> string list \<Rightarrow> wan_info list option" where
  "wan_loop mk addr re skip [] wans seen = Some wans"
| "wan_loop mk addr re skip ((k, v) # rest) wans seen =
     (case submatch re k of
        None \<Rightarrow> wan_loop mk addr re skip rest wans seen
      | Some ms \<Rightarrow>
          if v = [] \<or> v \<in> set skip then wan_loop mk addr re skip rest wans seen
          else case ms of
            [] \<Rightarrow> None
          | idx # _ \<Rightarrow>
              if addr idx = [] \<or> addr idx = ''0.0.0.0'' \<or> addr idx \<in> set seen
              then wan_loop mk addr re skip rest wans seen
              else wan_loop mk addr re skip rest (wans @ [mk idx v]) (addr idx # seen))"

definition extractWANInfos :: "params \<Rightarrow> mapper \<Rightarrow> driver option \<Rightarrow> wan_info list option" where
  "extractWANInfos ps m d =
     (let mac = mget ps (wan_path_of m WANMACPath);
          tr098 = has_prefix (wan_path_of m WANConnectionTypePath) ''InternetGatewayDevice.'';
          main = extractWANInfo ps m;
          has_main = (\<not> tr098 \<and> wi_IPAddress main \<noteq> [] \<and> wi_IPAddress main \<noteq> ''0.0.0.0'');
          wans = (if has_main then [main] else []);
          seen = map wi_IPAddress wans;
          connPath = driver_path d dy_WANTypePath (wan_path_of m WANConnectionTypePath);
          stSuffix = serviceTypeSuffixFromPath (driver_path d dy_WANServiceTypePath (wan_path_of m WANServiceTypePath));
          uptimeTpl = driver_path d dy_WANUptimePath ''Device.IP.Interface.{i}.X_TP_Uptime'';
          skip = driver_values d dy_WANTypesLAN [''LAN''] @ driver_values d dy_WANTypesBridge [''Bridge'']
      in if tr098 then Some (sortWANInfosByPriority (extractWANInfosTR098 ps seen mac))
         else map_option sortWANInfosByPriority
           (wan_loop (wan_of_interface ps stSuffix uptimeTpl mac)
              (\<lambda>idx. mget ps (''Device.IP.Interface.'' @ idx @ ''.IPv4Address.1.IPAddress''))
              (buildConnTypePatternFromPath connPath) skip ps wans seen))"

subsection \<open>LAN, WiFi and band steering\<close>

definition bool_at :: "params \<Rightarrow> string \<Rightarrow> bool" where
  "bool_at ps key \<longleftrightarrow> key \<noteq> [] \<and> truthy (mget ps key)"

definition int_at :: "params \<Rightarrow> string \<Rightarrow> int" where
  "int_at ps key = (if key = [] then 0 else atoi_val (mget ps key))"

definition extractLANInfo :: "params \<Rightarrow> mapper \<Rightarrow> lan_info" where
  "extractLANInfo ps m =
     \<lparr> li_IPAddress = mget ps (sys_path_of m LANIPAddressPath),
       li_SubnetMask = mget ps (sys_path_of m LANSubnetMaskPath),
       li_DHCPEnabled = bool_at ps (sys_path_of m DHCPServerEnablePath),
       li_DHCPStart = mget ps (sys_path_of m DHCPMinAddressPath),
       li_DHCPEnd = mget ps (sys_path_of m DHCPMaxAddressPath),
       li_DNSServers = cleanDNSServers (mget ps (sys_path_of m LANDNSPath)),
       li_ActiveLeases = 0, li_Leases = [] \<rparr>"

definition extractWiFiInfo :: "nat \<Rightarrow> params \<Rightarrow> mapper \<Rightarrow> wifi_info" where
  "extractWiFiInfo band ps m =
     (let path = (\<lambda>p. wifi_path_of m p band);
          str = (\<lambda>p. mget ps (path p));
          channel = int_at ps (path WiFiChannelPath);
          std = (if str WiFiStandardPath = [] \<and> channel > 0
                 then (if channel \<le> 13 then ''b/g/n'' else ''a/n/ac'') else str WiFiStandardPath)
      in \<lparr> wl_Band = (if band = 1 then ''5GHz'' else ''2.4GHz''), wl_SSID = str WiFiSSIDPath,
           wl_Enabled = bool_at ps (path WiFiEnabledPath), wl_BSSID = str WiFiBSSIDPath, wl_Channel = channel,
           wl_ChannelWidth = str WiFiChannelWidthPath, wl_Standard = std,
           wl_SecurityMode = str WiFiSecurityModePath, wl_TXPower = int_at ps (path WiFiTXPowerPath),
           wl_ConnectedClients = int_at ps (path WiFiClientCountPath), wl_BandSteeringEnabled = None,
           wl_BytesSent = int64_at ps (path WiFiBytesSentPath),
           wl_BytesReceived = int64_at ps (path WiFiBytesReceivedPath),
           wl_PacketsSent = int64_at ps (path WiFiPacketsSentPath),
           wl_PacketsReceived = int64_at ps (path WiFiPacketsReceivedPath),
           wl_ErrorsSent = int64_at ps (path WiFiErrorsSentPath),
           wl_ErrorsReceived = int64_at ps (path WiFiErrorsReceivedPath) \<rparr>)"

definition extractBandSteeringStatus :: "params \<Rightarrow> mapper \<Rightarrow> bool option" where
  "extractBandSteeringStatus ps m =
     (let path = sys_path_of m BandSteeringPath in
      if path = [] then None
      else case map_of ps path of
        None \<Rightarrow> None
      | Some v \<Rightarrow> if v \<noteq> [] then Some (truthy v) else None)"

subsection \<open>Connected hosts\<close>

definition normaliseInterface :: "string \<Rightarrow> string" where
  "normaliseInterface raw =
     (let l = to_lower raw in
      if contains l ''wifi'' \<or> contains l ''wlan'' \<or> contains l ''wireless'' then ''WiFi''
      else if contains l ''ethernet'' \<or> contains l ''lan'' then ''LAN''
      else raw)"

definition wlanBandFromLayer2 :: "string \<Rightarrow> string" where
  "wlanBandFromLayer2 s =
     (case last_index s CHR ''.'' of
        None \<Rightarrow> ''Wi-Fi''
      | Some i \<Rightarrow>
          (case atoi_opt (drop (Suc i) s) of
             None \<Rightarrow> ''Wi-Fi''
           | Some n \<Rightarrow>
               if 1 \<le> n \<and> n \<le> 4 then ''Wi-Fi 2.4GHz''
               else if 5 \<le> n \<and> n \<le> 8 then ''Wi-Fi 5GHz''
               else ''Wi-Fi''))"

definition buildIndexedPathRegex :: "string \<Rightarrow> regex" where
  "buildIndexedPathRegex tpl = re_full (placeholder_items tpl)"

text \<open>The associated devices of the TR-098 radios: address and signal strength per entry.\<close>

definition assoc_field :: "string \<Rightarrow> string \<Rightarrow> string \<times> int option \<Rightarrow> string \<times> int option" where
  "assoc_field field v e =
     (if field \<in> {''AssociatedDeviceMACAddress'', ''MACAddress'', ''X_ZTE-COM_MACAddress''} then (to_lower v, snd e)
      else if field \<in> {''RSSI'', ''SignalStrength'', ''AssociatedDeviceRssi'', ''X_ZTE-COM_Rssi'',
        ''X_ZTE-COM_SignalStrength'', ''X_CMS_SignalStrength''} then
        (case atoi_opt v of None \<Rightarrow> e | Some r \<Rightarrow> (fst e, Some r))
      else e)"

definition assoc_step ::
    "string \<times> string \<Rightarrow> (string, string \<times> int option) gomap \<Rightarrow> (string, string \<times> int option) gomap" where
  "assoc_step kv m =
     (let wlan = ''InternetGatewayDevice.LANDevice.1.WLANConfiguration.'';
          rest = drop (length wlan) (fst kv)
      in if \<not> has_prefix (fst kv) wlan \<or> \<not> contains rest ''AssociatedDevice.'' then m
         else case split_n CHR ''.'' 4 rest of
           [a, _, b, field] \<Rightarrow>
             let key = a @ ''.'' @ b
             in mput key (assoc_field field (snd kv) (case map_of m key of None \<Rightarrow> ([], None) | Some e \<Rightarrow> e)) m
         | _ \<Rightarrow> m)"

definition buildWLANAssociatedDeviceRSSI :: "params \<Rightarrow> (string, int) gomap" where
  "buildWLANAssociatedDeviceRSSI ps =
     fold (\<lambda>(_, mac, rssi) m.
             case rssi of Some r \<Rightarrow> if mac \<noteq> [] then mput mac r m else m | None \<Rightarrow> m)
       (fold assoc_step ps []) []"

definition host_field :: "params \<Rightarrow> string \<Rightarrow> string \<Rightarrow> connected_host \<Rightarrow> connected_host" where
  "host_field ps field v h =
     (if field = ''MACAddress'' \<or> field = ''PhysAddress'' then h\<lparr>ch_MACAddress := v\<rparr>
      else if field = ''IPAddress'' then h\<lparr>ch_IPAddress := v\<rparr>
      else if field = ''HostName'' then h\<lparr>ch_Hostname := v\<rparr>
      else if field = ''InterfaceType'' \<or> field = ''Layer1Interface'' then h\<lparr>ch_Interface := normaliseInterface v\<rparr>
      else if field = ''Active'' then h\<lparr>ch_Active := truthy v\<rparr>
      else if field = ''LeaseTimeRemaining'' then h\<lparr>ch_LeaseTime := atoi_val v\<rparr>
      else if field = ''Layer2Interface'' then
        (if contains v ''WLANConfiguration'' then h\<lparr>ch_Interface := wlanBandFromLayer2 v\<rparr> else h)
      else if field = ''X_TP_LanConnType'' then
        (if v = ''1'' then h\<lparr>ch_Interface := ''Wi-Fi''\<rparr>
         else if v = ''0'' then h\<lparr>ch_Interface := ''LAN''\<rparr> else h)
      else if field = ''X_HW_RSSI'' then
        (case atoi_opt v of Some r \<Rightarrow> if r \<noteq> 0 then h\<lparr>ch_RSSI := Some r\<rparr> else h | None \<Rightarrow> h)
      else if field = ''AssociatedDevice'' \<and> v \<noteq> [] then
        (let h1 = h\<lparr>ch_Interface :=
               (if contains v ''AccessPoint.1'' then ''Wi-Fi 2.4GHz''
                else if contains v ''AccessPoint.2'' \<or> contains v ''AccessPoint.5'' then ''Wi-Fi 5GHz''
                else ''Wi-Fi'')\<rparr>;
             s = mget ps (v @ ''SignalStrength'')
         in case atoi_opt s of Some r \<Rightarrow> h1\<lparr>ch_RSSI := Some r\<rparr> | None \<Rightarrow> h1)
      else h)"

text \<open>The driver's path for the connection type of a host, with its values for radio and cable.\<close>

definition host_type :: "regex option \<Rightarrow> string option \<Rightarrow> string option \<Rightarrow> int \<Rightarrow> string \<times> string \<Rightarrow> connected_host \<Rightarrow> connected_host option" where
  "host_type re wifi lan idx kv h =
     (case re of
        None \<Rightarrow> Some h
      | Some re \<Rightarrow>
          (case submatch re (fst kv) of
             None \<Rightarrow> Some h
           | Some [] \<Rightarrow> None
           | Some (i # _) \<Rightarrow>
               if atoi_opt i = Some idx then
                 if wifi = Some (snd kv) then Some (h\<lparr>ch_Interface := ''Wi-Fi''\<rparr>)
                 else if lan = Some (snd kv) then Some (h\<lparr>ch_Interface := ''LAN''\<rparr>)
                 else Some h
               else Some h))"

definition zero_host :: connected_host where
  "zero_host = \<lparr> ch_MACAddress = [], ch_IPAddress = [], ch_Hostname = [], ch_Interface = [],
     ch_RSSI = None, ch_Active = True, ch_LeaseTime = 0 \<rparr>"

fun host_loop ::
    "params \<Rightarrow> string \<Rightarrow> (int \<Rightarrow> string \<times> string \<Rightarrow> connected_host \<Rightarrow> connected_host option) \<Rightarrow> params \<Rightarrow>
     (int, connected_host) gomap \<Rightarrow> (int, connected_host) gomap option" where
  "host_loop ps base typ [] hosts = Some hosts"
| "host_loop ps base typ (kv # rest) hosts =
     (case instance_field base (fst kv) of
        None \<Rightarrow> host_loop ps base typ rest hosts
      | Some (idx, field) \<Rightarrow>
          let h = (case map_of hosts idx of None \<Rightarrow> zero_host | Some h \<Rightarrow> h)
          in case typ idx kv (host_field ps field (snd kv) h) of
               None \<Rightarrow> None
             | Some h' \<Rightarrow> host_loop ps base typ rest (mput idx h' hosts))"

definition with_rssi :: "(string, int) gomap \<Rightarrow> connected_host \<Rightarrow> connected_host" where
  "with_rssi rssi h =
     (if ch_RSSI h = None then h\<lparr>ch_RSSI := map_of rssi (to_lower (ch_MACAddress h))\<rparr> else h)"

definition parseConnectedHosts :: "params \<Rightarrow> mapper \<Rightarrow> driver option \<Rightarrow> connected_host list option" where
  "parseConnectedHosts ps m d =
     (let path = driver_path d dy_HostConnTypePath [];
          vals = (case d of None \<Rightarrow> [] | Some d \<Rightarrow> dy_HostConnTypeValues (dv_Discovery d));
          re = (if path = [] then None else Some (buildIndexedPathRegex path));
          wifi = (if path \<noteq> [] \<and> vals \<noteq> [] then map_of vals ''wifi'' else Some ''1'');
          lan = (if path \<noteq> [] \<and> vals \<noteq> [] then map_of vals ''lan'' else Some ''0'')
      in map_option
           (\<lambda>hosts. map (with_rssi (buildWLANAssociatedDeviceRSSI ps))
              (filter (\<lambda>h. ch_MACAddress h \<noteq> []) (map snd hosts)))
           (host_loop ps (sys_path_of m HostsBasePath) (host_type re wifi lan) ps []))"

subsection \<open>Facts: WAN interfaces\<close>


lemma set_insert_by: "set (insert_by lt x ys) = insert x (set ys)"
  by (induction ys) auto

lemma details_address [simp]:
  "wi_IPAddress (ppp_details ps obj wan) = wi_IPAddress wan"
  "wi_IPAddress (dhcp_details ps obj wan) = wi_IPAddress wan"
  by (auto simp: ppp_details_def dhcp_details_def Let_def split: option.splits list.splits)

lemma wan_of_interface_address [simp]:
  "wi_IPAddress (wan_of_interface ps st tpl mac idx v) =
     mget ps (''Device.IP.Interface.'' @ idx @ ''.IPv4Address.1.IPAddress'')"
  by (simp add: wan_of_interface_def Let_def zero_wan_info_def)

definition usable_wans :: "wan_info list \<Rightarrow> bool" where
  "usable_wans wans \<longleftrightarrow> distinct (map wi_IPAddress wans) \<and>
     (\<forall>w \<in> set wans. wi_IPAddress w \<noteq> [] \<and> wi_IPAddress w \<noteq> ''0.0.0.0'')"

lemma usable_wans_perm: "mset xs = mset ys \<Longrightarrow> usable_wans xs = usable_wans ys"
  using mset_eq_setD [of xs ys] mset_eq_imp_distinct_iff [of "map wi_IPAddress xs" "map wi_IPAddress ys"]
  by (simp add: usable_wans_def)

lemma wan_loop_usable:
  assumes "wan_loop mk addr re skip ps wans seen = Some res"
    and "\<And>idx v. wi_IPAddress (mk idx v) = addr idx"
    and "usable_wans wans" and "set seen = wi_IPAddress ` set wans"
  shows "usable_wans res"
  using assms
proof (induction mk addr re skip ps wans seen rule: wan_loop.induct)
  case (2 mk addr re skip k v rest wans seen)
  show ?case
  proof (cases "submatch re k")
    case None
    then show ?thesis using 2 by simp
  next
    case (Some ms)
    show ?thesis
    proof (cases "v = [] \<or> v \<in> set skip")
      case True
      then show ?thesis using 2 Some by auto
    next
      case False
      then obtain idx ms' where ms: "ms = idx # ms'" using 2(5) Some by (cases ms) auto
      show ?thesis
      proof (cases "addr idx = [] \<or> addr idx = ''0.0.0.0'' \<or> addr idx \<in> set seen")
        case True
        then show ?thesis using 2 Some False ms by auto
      next
        case new: False
        have "usable_wans (wans @ [mk idx v])" using new 2(6-8) by (auto simp: usable_wans_def)
        then show ?thesis using 2 Some False ms new by auto
      qed
    qed
  qed
qed simp

lemma entries_wans_usable:
  "usable_wans (entries_wans mac es seen) \<and> set (map wi_IPAddress (entries_wans mac es seen)) \<inter> set seen = {}"
proof (induction mac es seen rule: entries_wans.induct)
  case (2 mac e es seen)
  have "wi_IPAddress (entry_wan mac e) = te_IPAddress e" by (simp add: entry_wan_def Let_def zero_wan_info_def)
  then show ?case using 2 by (auto simp: usable_wans_def)
qed (simp add: usable_wans_def)

text \<open>
  C34. The WAN interfaces reported for a device have usable addresses and no address twice, whatever
  the parameters, the mapper, the driver and the order in which the parameters are visited; and PPPoE
  connections come first.
\<close>

theorem wan_interfaces_usable:
  assumes "extractWANInfos ps m d = Some wans"
  shows "distinct (map wi_IPAddress wans) \<and>
     (\<forall>w \<in> set wans. wi_IPAddress w \<noteq> [] \<and> wi_IPAddress w \<noteq> ''0.0.0.0'') \<and>
     sorted_wrt (\<lambda>a b. \<not> pppoe_first b a) wans"
proof -
  have sorted: "sorted_wrt (\<lambda>a b. \<not> pppoe_first b a) (sortWANInfosByPriority xs)" for xs
  proof -
    have ins: "sorted_wrt (\<lambda>a b. \<not> pppoe_first b a) ys \<Longrightarrow>
        sorted_wrt (\<lambda>a b. \<not> pppoe_first b a) (insert_by pppoe_first x ys)" for x ys
      by (induction ys) (auto simp: pppoe_first_def set_insert_by)
    show ?thesis unfolding sortWANInfosByPriority_def sort_by_def by (induction xs) (auto intro: ins)
  qed
  have "\<exists>xs. wans = sortWANInfosByPriority xs \<and> usable_wans xs"
  proof (cases "has_prefix (wan_path_of m WANConnectionTypePath) ''InternetGatewayDevice.''")
    case True
    then show ?thesis using assms entries_wans_usable
      by (auto simp: extractWANInfos_def Let_def extractWANInfosTR098_def)
  next
    case False
    let ?main = "if wi_IPAddress (extractWANInfo ps m) \<noteq> [] \<and> wi_IPAddress (extractWANInfo ps m) \<noteq> ''0.0.0.0''
      then [extractWANInfo ps m] else []"
    from False assms obtain xs where xs: "wans = sortWANInfosByPriority xs"
      and loop: "wan_loop (wan_of_interface ps
          (serviceTypeSuffixFromPath (driver_path d dy_WANServiceTypePath (wan_path_of m WANServiceTypePath)))
          (driver_path d dy_WANUptimePath ''Device.IP.Interface.{i}.X_TP_Uptime'')
          (mget ps (wan_path_of m WANMACPath)))
        (\<lambda>idx. mget ps (''Device.IP.Interface.'' @ idx @ ''.IPv4Address.1.IPAddress''))
        (buildConnTypePatternFromPath (driver_path d dy_WANTypePath (wan_path_of m WANConnectionTypePath)))
        (driver_values d dy_WANTypesLAN [''LAN''] @ driver_values d dy_WANTypesBridge [''Bridge''])
        ps ?main (map wi_IPAddress ?main) = Some xs"
      by (auto simp: extractWANInfos_def Let_def)
    have "usable_wans xs"
      by (rule wan_loop_usable [OF loop]) (auto simp: usable_wans_def)
    then show ?thesis using xs by blast
  qed
  then obtain xs where xs: "wans = sortWANInfosByPriority xs" "usable_wans xs" by blast
  then have "usable_wans wans"
    using usable_wans_perm [of xs wans] by (simp add: sortWANInfosByPriority_def)
  then show ?thesis using sorted xs(1) by (simp add: usable_wans_def)
qed

definition ex_wan_params :: params where
  "ex_wan_params =
     [(''Device.IP.Interface.2.X_TP_ConnType'', ''PPPoE''),
      (''Device.IP.Interface.2.IPv4Address.1.IPAddress'', ''8.8.8.8''),
      (''Device.IP.Interface.1.IPv4Address.1.IPAddress'', ''100.64.0.9''),
      (''Device.IP.Interface.3.X_TP_ConnType'', ''DHCP''),
      (''Device.IP.Interface.3.IPv4Address.1.IPAddress'', ''8.8.8.8'')]"

lemma wan_interfaces_usable_witness:
  "\<exists>wans. extractWANInfos ex_wan_params (NewMapper TR181) None = Some wans \<and> length wans = 2 \<and>
     distinct (map wi_IPAddress wans)"
proof -
  have "(case extractWANInfos ex_wan_params (NewMapper TR181) None of None \<Rightarrow> 0 | Some ws \<Rightarrow> length ws) = 2"
    by code_simp
  then obtain wans where "extractWANInfos ex_wan_params (NewMapper TR181) None = Some wans" "length wans = 2"
    by (auto split: option.splits)
  then show ?thesis using wan_interfaces_usable [of ex_wan_params "NewMapper TR181" None wans] by blast
qed

subsection \<open>Facts: DNS lists\<close>

lemma split_join:
  "\<forall>x \<in> set xs. d \<notin> set x \<Longrightarrow> split_on d (join_with [d] xs) = (if xs = [] then [[]] else xs)"
  by (induction "[d]" xs rule: join_with.induct) (auto simp: split_on_no_occ split_on_append)

lemma join_with_Nil_iff: "\<forall>x \<in> set xs. x \<noteq> [] \<Longrightarrow> join_with sep xs = [] \<longleftrightarrow> xs = []"
  by (induction sep xs rule: join_with.induct) auto

lemma set_trim_space: "set (trim_space s) \<subseteq> set s"
  unfolding trim_space_def set_rev using set_dropWhileD [of _ is_space] by (metis set_rev subsetI)

text \<open>
  The cleaned DNS list of a device consists of usable entries only: splitting it at its commas
  gives exactly the usable entries of the raw list, trimmed and in order, and cleaning it again
  changes nothing.
\<close>

lemma dns_list_clean:
  "split_on CHR '','' (cleanDNSServers s) =
     (let ds = filter usable_dns (map trim_space (split_on CHR '','' s)) in if ds = [] then [[]] else ds) \<and>
   cleanDNSServers (cleanDNSServers s) = cleanDNSServers s"
proof -
  let ?us = "\<lambda>s. filter usable_dns (map trim_space (split_on CHR '','' s))"
  have comma: "\<forall>x \<in> set (?us s). CHR '','' \<notin> set x"
    using split_on_no_sep set_trim_space by fastforce
  have ne: "\<forall>x \<in> set (?us s). x \<noteq> []" by (auto simp: usable_dns_def)
  have clean: "cleanDNSServers s = join_with '','' (?us s)"
    by (simp add: cleanDNSServers_def usable_dns_def trim_space_def)
  have split: "split_on CHR '','' (cleanDNSServers s) = (if ?us s = [] then [[]] else ?us s)"
    unfolding clean using split_join [OF comma] .
  have "map trim_space (?us s) = ?us s"
    by (rule map_idI) auto
  moreover have nil: "\<not> usable_dns []" by (simp add: usable_dns_def)
  ultimately have us: "?us (cleanDNSServers s) = ?us s"
    using split nil by (cases "?us s = []") simp_all
  have "cleanDNSServers (cleanDNSServers s) = join_with '','' (?us (cleanDNSServers s))"
    by (simp add: cleanDNSServers_def [of "cleanDNSServers s"] usable_dns_def trim_space_def)
  also have "\<dots> = cleanDNSServers s" by (simp only: us clean [symmetric])
  finally have "cleanDNSServers (cleanDNSServers s) = cleanDNSServers s" .
  then show ?thesis using split by (simp add: Let_def)
qed

end
