(* ===== verification/Wan_Provision.thy ===== *)
theory Wan_Provision imports Task_Model Driver Soap begin

section \<open>WAN provisioning in a session\<close>

text \<open>
  The state machine that runs a provisioning flow over CWMP (internal/cwmp/wan_provision.go) and the
  helpers of the WAN task (internal/cwmp/wan_provisioner.go). An error is its text; the id of a
  request (a fresh UUID) is an argument.
\<close>

record wan_provision =
  wp_task :: task
  wp_exe :: provision_executor

definition newWANProvisionFromDriver :: "task \<Rightarrow> driver \<Rightarrow> string \<Rightarrow> params \<Rightarrow> string + wan_provision" where
  "newWANProvisionFromDriver t d flowName inputVars =
     (case GetProvisionFlow (Some d) flowName of
        None \<Rightarrow> Inl ''driver has no provision flow''
      | Some flow \<Rightarrow> Inr \<lparr> wp_task = t, wp_exe = NewProvisionExecutor flow (Some d) inputVars \<rparr>)"

definition wp_done :: "wan_provision \<Rightarrow> bool" where
  "wp_done p \<longleftrightarrow> Done (wp_exe p)"

definition step_request :: "string \<Rightarrow> resolved_step \<Rightarrow> envelope" where
  "step_request i s =
     (case rs_Kind s of
        StepAddObject \<Rightarrow> BuildAddObject i (rs_Object s)
      | StepSet \<Rightarrow> BuildSetParameterValues i (rs_Params s)
      | StepDelete \<Rightarrow> BuildDeleteObject i (rs_Object s))"

definition buildCurrentXML :: "string \<Rightarrow> wan_provision \<Rightarrow> string + envelope" where
  "buildCurrentXML i p =
     (case CurrentStep (wp_exe p) of
        None \<Rightarrow> Inl ''wan provision already complete''
      | Some s \<Rightarrow> Inr (step_request i s))"

text \<open>The next request after an answer; none when the flow is complete.\<close>

definition next_request :: "string \<Rightarrow> wan_provision \<Rightarrow> string + envelope option" where
  "next_request i p =
     (if wp_done p then Inr None
      else case buildCurrentXML i p of Inl e \<Rightarrow> Inl e | Inr x \<Rightarrow> Inr (Some x))"

definition onAddObject :: "string \<Rightarrow> int \<Rightarrow> wan_provision \<Rightarrow> (string + envelope option) \<times> wan_provision" where
  "onAddObject i n p =
     (case CurrentStep (wp_exe p) of
        None \<Rightarrow> (Inl ''expected AddObject step'', p)
      | Some s \<Rightarrow>
          if rs_Kind s \<noteq> StepAddObject then (Inl ''expected AddObject step'', p)
          else let q = p\<lparr>wp_exe := AdvanceAddObject n (wp_exe p)\<rparr> in (next_request i q, q))"

definition onSetParams :: "string \<Rightarrow> wan_provision \<Rightarrow> (string + envelope option) \<times> wan_provision" where
  "onSetParams i p =
     (if wp_done p then (Inr None, p)
      else let q = p\<lparr>wp_exe := Advance (wp_exe p)\<rparr> in (next_request i q, q))"

definition onDeleteObject :: "string \<Rightarrow> wan_provision \<Rightarrow> (string + envelope option) \<times> wan_provision" where
  "onDeleteObject i p =
     (if wp_done p then (Inr None, p)
      else let q = p\<lparr>wp_exe := Advance (wp_exe p)\<rparr> in (next_request i q, q))"

subsection \<open>The built-in flows\<close>

definition add_step :: "string \<Rightarrow> string \<Rightarrow> provision_step" where
  "add_step obj v = \<lparr> ps_Kind = StepAddObject, ps_When = [], ps_Object = obj, ps_As = v, ps_Params = [] \<rparr>"

definition set_step :: "params \<Rightarrow> provision_step" where
  "set_step ps = \<lparr> ps_Kind = StepSet, ps_When = [], ps_Object = [], ps_As = [], ps_Params = ps \<rparr>"

definition delete_step :: "string \<Rightarrow> provision_step" where
  "delete_step obj = \<lparr> ps_Kind = StepDelete, ps_When = [], ps_Object = obj, ps_As = [], ps_Params = [] \<rparr>"

definition gpon_link_step :: "string \<Rightarrow> string \<Rightarrow> provision_step" where
  "gpon_link_step link v = set_step
     [(''Device.X_TP_GPON.Link.'' @ link @ ''.Alias'', ''TpLink_'' @ v),
      (''Device.X_TP_GPON.Link.'' @ link @ ''.LowerLayers'', ''Device.Optical.Interface.1.'')]"

text \<open>The steps both flows share: links, VLAN, PPP and IP interfaces, NAT, DHCPv6, enabling.\<close>

definition recreate_steps :: "string \<Rightarrow> string \<Rightarrow> string \<Rightarrow> string \<Rightarrow> provision_step list" where
  "recreate_steps v gi username password =
    [add_step ''Device.Ethernet.Link.'' ''eth'',
     set_step
      [(''Device.Ethernet.Link.{eth}.Alias'', ''ethlink_'' @ v),
       (''Device.Ethernet.Link.{eth}.Enable'', ''1''),
       (''Device.Ethernet.Link.{eth}.LowerLayers'', ''Device.X_TP_GPON.Link.'' @ gi @ ''.'')],
     add_step ''Device.Ethernet.VLANTermination.'' ''vterm'',
     set_step
      [(''Device.Ethernet.VLANTermination.{vterm}.Alias'', ''VLAN_'' @ v),
       (''Device.Ethernet.VLANTermination.{vterm}.Enable'', ''1''),
       (''Device.Ethernet.VLANTermination.{vterm}.LowerLayers'', ''Device.Ethernet.Link.{eth}.''),
       (''Device.Ethernet.VLANTermination.{vterm}.VLANID'', v)],
     set_step
      [(''Device.Ethernet.VLANTermination.{vterm}.X_TP_MulticastStatus'', ''1''),
       (''Device.Ethernet.VLANTermination.{vterm}.X_TP_VLANEnable'', ''1''),
       (''Device.Ethernet.VLANTermination.{vterm}.X_TP_VLANMode'', ''2'')],
     add_step ''Device.PPP.Interface.'' ''ppp'',
     add_step ''Device.IP.Interface.'' ''ip'',
     set_step [(''Device.IP.Interface.{ip}.LowerLayers'', ''Device.PPP.Interface.{ppp}.'')],
     set_step
      [(''Device.PPP.Interface.{ppp}.Alias'', ''Internet_PPPoE''),
       (''Device.PPP.Interface.{ppp}.AuthenticationProtocol'', ''AUTO_AUTH''),
       (''Device.PPP.Interface.{ppp}.LowerLayers'', ''Device.Ethernet.VLANTermination.{vterm}.''),
       (''Device.PPP.Interface.{ppp}.Password'', password),
       (''Device.PPP.Interface.{ppp}.Username'', username),
       (''Device.PPP.Interface.{ppp}.X_TP_UsernameDomainEnable'', ''1'')],
     set_step
      [(''Device.IP.Interface.{ip}.Alias'', ''Internet_PPPoE''),
       (''Device.IP.Interface.{ip}.IPv4Enable'', ''1''),
       (''Device.IP.Interface.{ip}.MaxMTUSize'', ''1492''),
       (''Device.IP.Interface.{ip}.X_TP_ConnName'', ''Internet_PPPoE''),
       (''Device.IP.Interface.{ip}.X_TP_ConnType'', ''PPPoE''),
       (''Device.IP.Interface.{ip}.X_TP_IPv6AddrType'', ''SLAAC''),
       (''Device.IP.Interface.{ip}.X_TP_ServiceType'', ''Internet'')],
     add_step ''Device.NAT.InterfaceSetting.'' ''nat'',
     set_step [(''Device.NAT.InterfaceSetting.{nat}.Interface'', ''Device.IP.Interface.{ip}.'')],
     set_step [(''Device.IP.Interface.{ip}.IPv6Enable'', ''1'')],
     add_step ''Device.DHCPv6.Client.'' ''dhcpv6'',
     set_step [(''Device.DHCPv6.Client.{dhcpv6}.Interface'', ''Device.IP.Interface.{ip}.'')],
     set_step
      [(''Device.DHCPv6.Client.{dhcpv6}.RequestAddresses'', ''0''),
       (''Device.DHCPv6.Client.{dhcpv6}.RequestPrefixes'', ''1''),
       (''Device.DHCPv6.Client.{dhcpv6}.RequestedOptions'', ''23''),
       (''Device.DHCPv6.Client.{dhcpv6}.X_TP_EnableRaRouter'', ''1''),
       (''Device.DHCPv6.Client.{dhcpv6}.X_TP_EnableSLAAC'', ''1'')],
     set_step
      [(''Device.X_TP_DefaultGateway.IPv4DefaultGatewayType'', ''Manual''),
       (''Device.X_TP_DefaultGateway.CustomIPv4DefaultGateway'', ''Internet_PPPoE''),
       (''Device.X_TP_DefaultGateway.IPv6DefaultGatewayType'', ''Manual''),
       (''Device.X_TP_DefaultGateway.CustomIPv6DefaultGateway'', ''Internet_PPPoE'')],
     set_step
      [(''Device.DHCPv6.Client.{dhcpv6}.Enable'', ''1''),
       (''Device.Ethernet.Link.{eth}.Enable'', ''1''),
       (''Device.Ethernet.VLANTermination.{vterm}.Enable'', ''1''),
       (''Device.IP.Interface.{ip}.Enable'', ''1''),
       (''Device.NAT.InterfaceSetting.{nat}.Enable'', ''1''),
       (''Device.PPP.Interface.{ppp}.Enable'', ''1''),
       (''Device.X_TP_GPON.Link.'' @ gi @ ''.Enable'', ''1''),
       (''Device.DeviceInfo.ProvisioningCode'', ''helix.rPPP'')]]"

definition newWANProvision :: "task \<Rightarrow> int \<Rightarrow> int \<Rightarrow> string \<Rightarrow> string \<Rightarrow> wan_provision" where
  "newWANProvision t gponIdx vlanID username password =
     (let v = itoa vlanID;
          gi = itoa gponIdx;
          first = (if gponIdx > 0 then [gpon_link_step gi v]
                   else [add_step ''Device.X_TP_GPON.Link.'' ''gpon_idx'', gpon_link_step ''{gpon_idx}'' v]);
          flow = \<lparr> flow_ID = ''legacy_wan_pppoe'', flow_Description = [],
                   flow_Steps = first @ recreate_steps v gi username password \<rparr>;
          vars = (if gponIdx > 0 then [(''gpon_idx'', gi)] else [])
      in \<lparr> wp_task = t, wp_exe = NewProvisionExecutor flow None vars \<rparr>)"

definition newWANProvisionDeleteAndAdd ::
    "task \<Rightarrow> int \<Rightarrow> int \<Rightarrow> int \<Rightarrow> int \<Rightarrow> int \<Rightarrow> int \<Rightarrow> string \<Rightarrow> string \<Rightarrow> wan_provision" where
  "newWANProvisionDeleteAndAdd t ipIdx pppIdx vlanIdx ethIdx gponIdx vlanID username password =
     (let v = itoa vlanID;
          gi = itoa gponIdx;
          dels = [delete_step (''Device.IP.Interface.'' @ itoa ipIdx @ ''.''),
                  delete_step (''Device.PPP.Interface.'' @ itoa pppIdx @ ''.''),
                  delete_step (''Device.Ethernet.VLANTermination.'' @ itoa vlanIdx @ ''.''),
                  delete_step (''Device.Ethernet.Link.'' @ itoa ethIdx @ ''.'')];
          flow = \<lparr> flow_ID = ''legacy_wan_delete_add'', flow_Description = [],
                   flow_Steps = dels @ [gpon_link_step gi v] @ recreate_steps v gi username password \<rparr>
      in \<lparr> wp_task = t, wp_exe = NewProvisionExecutor flow None [(''gpon_idx'', gi)] \<rparr>)"

subsection \<open>Helpers of the WAN task\<close>

definition buildGenericWANParams :: "wan_payload \<Rightarrow> string \<Rightarrow> string \<Rightarrow> string + params" where
  "buildGenericWANParams p userPath passPath =
     (if userPath = [] \<or> passPath = [] then Inl ''mapper has no PPPoE credential paths for this device''
      else
        let ps = mput_if (wn_Password p \<noteq> []) passPath (wn_Password p)
                   (mput_if (wn_Username p \<noteq> []) userPath (wn_Username p) [])
        in if ps = [] then Inl ''WAN generic provisioning: username or password is required'' else Inr ps)"

definition buildGenericVLANUpdate :: "wan_payload \<Rightarrow> int \<Rightarrow> string \<Rightarrow> string \<Rightarrow> string + params" where
  "buildGenericVLANUpdate p vlanTermIdx userPath passPath =
     (if vlanTermIdx = 0 then Inl ''WAN VLAN update: no VLANTermination index found in instance map''
      else if wn_VLAN p = 0 then Inl ''WAN VLAN update: VLAN ID is required''
      else Inr (mput_if (wn_Password p \<noteq> [] \<and> passPath \<noteq> []) passPath (wn_Password p)
             (mput_if (wn_Username p \<noteq> [] \<and> userPath \<noteq> []) userPath (wn_Username p)
               (mput (''Device.Ethernet.VLANTermination.'' @ itoa vlanTermIdx @ ''.VLANID'') (itoa (wn_VLAN p)) []))))"

definition buildWANCredentialMap :: "wan_payload \<Rightarrow> params" where
  "buildWANCredentialMap p =
     (let creds = mput_if (wn_VLAN p > 0) ''_helix.provision.vlan_id'' (itoa (wn_VLAN p))
            (mput_if (wn_Password p \<noteq> []) ''_helix.provision.pppoe_password'' (wn_Password p)
              (mput_if (wn_Username p \<noteq> []) ''_helix.provision.pppoe_username'' (wn_Username p) []));
          conn = (if wn_ConnectionType p = [] \<and> (wn_Username p \<noteq> [] \<or> wn_Password p \<noteq> [] \<or> wn_VLAN p > 0)
                  then ''pppoe'' else wn_ConnectionType p)
      in mput_if (conn \<noteq> []) ''_helix.provision.connection_type'' conn creds)"

definition wanIPv6EnabledStr :: "wan_payload \<Rightarrow> string" where
  "wanIPv6EnabledStr p = (if wn_IPv6Enabled p = Some True then ''1'' else ''0'')"

definition resolveWANIPMode :: "wan_payload \<Rightarrow> driver option \<Rightarrow> string" where
  "resolveWANIPMode p d =
     (if wn_IPv6Enabled p \<noteq> Some True then []
      else case d of None \<Rightarrow> [] | Some d \<Rightarrow> mget (dv_Config d) ''wan_ip_mode_v6'')"

subsection \<open>Facts: a run over the wire\<close>

text \<open>The handler of an answer by the kind of the current step, as the session dispatches it.\<close>

definition wp_answer :: "string \<Rightarrow> int \<Rightarrow> wan_provision \<Rightarrow> (string + envelope option) \<times> wan_provision" where
  "wp_answer i n p =
     (case CurrentStep (wp_exe p) of
        None \<Rightarrow> (Inr None, p)
      | Some s \<Rightarrow>
          (case rs_Kind s of
             StepAddObject \<Rightarrow> onAddObject i n p
           | StepSet \<Rightarrow> onSetParams i p
           | StepDelete \<Rightarrow> onDeleteObject i p))"

fun wp_replies :: "(string \<times> int) list \<Rightarrow> wan_provision \<Rightarrow> (string + envelope option) list" where
  "wp_replies [] p = []"
| "wp_replies ((i, n) # as) p = (case wp_answer i n p of (r, q) \<Rightarrow> r # wp_replies as q)"

definition body_kind :: "acs_body \<Rightarrow> step_kind option" where
  "body_kind b =
     (case b of
        BAddObject _ _ \<Rightarrow> Some StepAddObject
      | BSetParameterValues _ _ \<Rightarrow> Some StepSet
      | BDeleteObject _ _ \<Rightarrow> Some StepDelete
      | _ \<Rightarrow> None)"

text \<open>What a reply of the state machine says: an error, the end, or a request of some kind.\<close>

datatype wp_event = WError | WComplete | WRequest "step_kind option"

definition wp_event_of :: "string + envelope option \<Rightarrow> wp_event" where
  "wp_event_of r =
     (case r of Inl _ \<Rightarrow> WError | Inr None \<Rightarrow> WComplete | Inr (Some e) \<Rightarrow> WRequest (body_kind (snd e)))"

lemma body_kind_step_request [simp]: "body_kind (snd (step_request i s)) = Some (rs_Kind s)"
  by (cases "rs_Kind s") (simp_all add: step_request_def body_kind_def BuildAddObject_def
      BuildSetParameterValues_def BuildDeleteObject_def)

lemma next_request_event:
  "wp_event_of (next_request i p) =
     (if wp_done p then WComplete else WRequest (Some (ps_Kind (pe_steps (wp_exe p) ! pe_cur (wp_exe p)))))"
  by (simp add: next_request_def buildCurrentXML_def CurrentStep_def wp_done_def wp_event_of_def Let_def)

lemma wp_answer_advances:
  assumes "\<not> wp_done p"
  shows "\<exists>a. wp_answer i n p =
    (next_request i (p\<lparr>wp_exe := advance_by a (wp_exe p)\<rparr>), p\<lparr>wp_exe := advance_by a (wp_exe p)\<rparr>)"
proof (cases "ps_Kind (pe_steps (wp_exe p) ! pe_cur (wp_exe p))")
  case StepAddObject
  then have "wp_answer i n p = (next_request i (p\<lparr>wp_exe := advance_by (Some n) (wp_exe p)\<rparr>),
      p\<lparr>wp_exe := advance_by (Some n) (wp_exe p)\<rparr>)"
    using assms by (simp add: wp_answer_def onAddObject_def CurrentStep_def wp_done_def advance_by_def Let_def)
  then show ?thesis by blast
next
  case StepSet
  then have "wp_answer i n p = (next_request i (p\<lparr>wp_exe := advance_by None (wp_exe p)\<rparr>),
      p\<lparr>wp_exe := advance_by None (wp_exe p)\<rparr>)"
    using assms by (simp add: wp_answer_def onSetParams_def CurrentStep_def wp_done_def advance_by_def Let_def)
  then show ?thesis by blast
next
  case StepDelete
  then have "wp_answer i n p = (next_request i (p\<lparr>wp_exe := advance_by None (wp_exe p)\<rparr>),
      p\<lparr>wp_exe := advance_by None (wp_exe p)\<rparr>)"
    using assms by (simp add: wp_answer_def onDeleteObject_def CurrentStep_def wp_done_def advance_by_def Let_def)
  then show ?thesis by blast
qed

lemma wp_replies_active:
  assumes "f = pe_features (wp_exe p)" and "steps = pe_steps (wp_exe p)"
    and "skip_from f steps c = pe_cur (wp_exe p)"
    and "length as = length (active_from f steps c)"
  shows "map wp_event_of (next_request i p # wp_replies as p) =
     map (\<lambda>j. WRequest (Some (ps_Kind (steps ! j)))) (active_from f steps c) @ [WComplete]"
  using assms
proof (induction as arbitrary: p c i)
  case Nil
  then have "wp_done p"
    using active_from_skip [of f steps c] by (auto simp: wp_done_def Done_def Let_def split: if_splits)
  then show ?case using Nil by (simp add: next_request_event)
next
  case (Cons a as)
  let ?c = "pe_cur (wp_exe p)"
  have lt: "?c < length steps" and act: "active_from f steps c = ?c # active_from f steps (?c + 1)"
    using Cons.prems active_from_skip [of f steps c] by (auto simp: Let_def split: if_splits)
  have nd: "\<not> wp_done p" using lt Cons.prems(2) by (simp add: wp_done_def Done_def)
  obtain j n where a: "a = (j, n)" by (cases a)
  obtain b where ans: "wp_answer j n p = (next_request j (p\<lparr>wp_exe := advance_by b (wp_exe p)\<rparr>),
      p\<lparr>wp_exe := advance_by b (wp_exe p)\<rparr>)"
    using wp_answer_advances [OF nd] by blast
  have "map wp_event_of (next_request j (p\<lparr>wp_exe := advance_by b (wp_exe p)\<rparr>) #
      wp_replies as (p\<lparr>wp_exe := advance_by b (wp_exe p)\<rparr>)) =
      map (\<lambda>j. WRequest (Some (ps_Kind (steps ! j)))) (active_from f steps (?c + 1)) @ [WComplete]"
    using Cons.prems act nd advance_by_cur [of "wp_exe p" b]
    by (intro Cons.IH) (simp_all add: wp_done_def)
  then show ?case using nd act Cons.prems(2) by (simp add: a ans next_request_event)
qed

text \<open>
  C14. Over the wire a provisioning flow is one request per active step, in the order of the flow and
  of the kind of the step, each sent as the answer to the device's response to the step before; after
  the last response the flow is complete, and no step fails on the server's side, whatever instance
  numbers the device reports.
\<close>

theorem wan_provision_requests:
  assumes "wp_exe p = NewProvisionExecutor flow d iv"
    and "length answers = length (active_from (pe_features (wp_exe p)) (flow_Steps flow) 0)"
  shows "map wp_event_of (next_request i p # wp_replies answers p) =
     map (\<lambda>j. WRequest (Some (ps_Kind (flow_Steps flow ! j))))
       (active_from (pe_features (wp_exe p)) (flow_Steps flow) 0) @ [WComplete]"
  using wp_replies_active [of "pe_features (wp_exe p)" p "flow_Steps flow" 0 answers i] assms
    NewProvisionExecutor_start [of flow d iv] by simp

lemma wan_provision_requests_witness:
  "map wp_event_of (next_request ''i'' \<lparr> wp_task = zero_task, wp_exe = NewProvisionExecutor ex_flow None ex_vars \<rparr> #
     wp_replies [(''j'', 7), (''k'', 0)] \<lparr> wp_task = zero_task, wp_exe = NewProvisionExecutor ex_flow None ex_vars \<rparr>) =
   [WRequest (Some StepAddObject), WRequest (Some StepSet), WComplete]"
proof -
  have a: "active_from (pe_features (NewProvisionExecutor ex_flow None ex_vars)) (flow_Steps ex_flow) 0 = [0, 2]"
    by code_simp
  have k: "ps_Kind (flow_Steps ex_flow ! 0) = StepAddObject" "ps_Kind (flow_Steps ex_flow ! 2) = StepSet"
    by (simp_all add: ex_flow_def)
  show ?thesis
    using wan_provision_requests
      [of "\<lparr> wp_task = zero_task, wp_exe = NewProvisionExecutor ex_flow None ex_vars \<rparr>" ex_flow None ex_vars
        "[(''j'', 7), (''k'', 0)]" "''i''"] a k
    by simp
qed

subsection \<open>Facts: the helpers\<close>

text \<open>
  The credentials kept for the dashboard live under their own prefix, so that they never collide
  with a parameter of a device; the user name, the password and the VLAN of the task are there exactly
  when the task gives them, and a task that gives one of them always leaves a connection type.
\<close>

lemma wan_credentials:
  "(\<forall>k \<in> dom (map_of (buildWANCredentialMap p)). has_prefix k ''_helix.provision.'') \<and>
   map_of (buildWANCredentialMap p) ''_helix.provision.pppoe_username'' =
     (if wn_Username p = [] then None else Some (wn_Username p)) \<and>
   map_of (buildWANCredentialMap p) ''_helix.provision.pppoe_password'' =
     (if wn_Password p = [] then None else Some (wn_Password p)) \<and>
   map_of (buildWANCredentialMap p) ''_helix.provision.vlan_id'' =
     (if wn_VLAN p > 0 then Some (itoa (wn_VLAN p)) else None) \<and>
   (map_of (buildWANCredentialMap p) ''_helix.provision.connection_type'' = None) =
     (buildWANCredentialMap p = [])"
proof -
  let ?keys = "[''_helix.provision.vlan_id'', ''_helix.provision.pppoe_password'',
    ''_helix.provision.pppoe_username'', ''_helix.provision.connection_type'']"
  have dom: "dom (map_of (buildWANCredentialMap p)) \<subseteq> set ?keys"
    by (auto simp: buildWANCredentialMap_def Let_def simp del: list.inject split: if_splits)
  have "list_all (\<lambda>k. has_prefix k ''_helix.provision.'') ?keys" by code_simp
  with dom have "\<forall>k \<in> dom (map_of (buildWANCredentialMap p)). has_prefix k ''_helix.provision.''"
    unfolding list_all_iff by blast
  moreover have "buildWANCredentialMap p = [] \<longleftrightarrow> map_of (buildWANCredentialMap p) = Map.empty" by simp
  moreover have "map_of (buildWANCredentialMap p) = Map.empty \<longleftrightarrow>
      map_of (buildWANCredentialMap p) ''_helix.provision.connection_type'' = None"
    by (auto simp: buildWANCredentialMap_def Let_def)
  ultimately show ?thesis by (simp add: buildWANCredentialMap_def Let_def)
qed

text \<open>
  The built-in flow for a device without a GPON link of its own is wired to the link 0, not to the
  link that its first step created: whatever instance number the device returns for it, the lower
  layer of the new Ethernet link and the last step name instance 0.
\<close>

lemma builtin_flow_ignores_new_link:
  "let wp = newWANProvision t 0 vlan username password; steps = pe_steps (wp_exe wp) in
   ps_As (hd steps) = ''gpon_idx'' \<and> ps_Object (hd steps) = ''Device.X_TP_GPON.Link.'' \<and>
   mget (ps_Params (steps ! 3)) ''Device.Ethernet.Link.{eth}.LowerLayers'' = ''Device.X_TP_GPON.Link.0.'' \<and>
   map_of (ps_Params (last steps)) ''Device.X_TP_GPON.Link.0.Enable'' = Some ''1'' \<and>
   map_of (ps_Params (last steps)) ''Device.X_TP_GPON.Link.{gpon_idx}.Enable'' = None"
proof -
  have "itoa 0 = ''0''" by code_simp
  then show ?thesis
    by (simp add: newWANProvision_def NewProvisionExecutor_start Let_def recreate_steps_def add_step_def
        set_step_def gpon_link_step_def mget_def)
qed

end
