(* ===== verification/Params_Repo.thy ===== *)
theory Params_Repo
  imports Redis
begin
section \<open>The parameter repository\<close>

text \<open>
  Package internal/parameter: the PostgreSQL repository (postgresql.go) with its Redis cache
  (redis_cache.go) and the rates of traffic samples (traffic.go). The SQL texts and the two stored
  functions of scripts/schema-postgresql.sql are read as operations on tables. A call of the
  database may fail with no effect: \<^verbatim>\<open>pr_faults\<close> says which ones do (a value that the
  columns refuse is such a failure); the cache has the schedule of its Redis server. A context that
  runs out is a failed call. \<^verbatim>\<open>now\<close> is the clock of the database.
\<close>

record param_cell =
  pc_value :: "string option"
  pc_updated :: int

record param_meta =
  pm_total :: int
  pm_updated :: int
  pm_snapshot :: "int option"
  pm_count :: int

record history_row =
  hr_serial :: string
  hr_param :: string
  hr_old :: string
  hr_new :: string
  hr_at :: int
  hr_by :: string

record traffic_sample =
  ts_RecordedAt :: int
  ts_BytesSent :: int
  ts_BytesReceived :: int

record param_repo =
  pr_params :: "(string \<times> string, param_cell) gomap"
  pr_meta :: "(string, param_meta) gomap"
  pr_snaps :: "(string \<times> string, json \<times> int) gomap"
  pr_history :: "history_row list"
  pr_traffic :: "(string \<times> traffic_sample) list"
  pr_faults :: "bool list"
  pr_cache :: redis

definition db_try :: "param_repo \<Rightarrow> bool \<times> param_repo" where
  "db_try r = (case pr_faults r of [] \<Rightarrow> (False, r) | f # fs \<Rightarrow> (f, r\<lparr>pr_faults := fs\<rparr>))"

text \<open>\<^verbatim>\<open>json.Unmarshal\<close> into a \<^verbatim>\<open>map[string]string\<close>: \<^verbatim>\<open>null\<close> leaves the map nil.\<close>

definition unmarshal_params :: "json \<Rightarrow> params option option" where
  "unmarshal_params v =
     (case v of JNull \<Rightarrow> Some None
      | JObj kvs \<Rightarrow> map_option Some (dec_str_members kvs []) | _ \<Rightarrow> None)"

subsection \<open>The cache\<close>

definition cacheKey :: "string \<Rightarrow> string" where
  "cacheKey serial = ''params:'' @ serial"

definition cache_Get :: "string \<Rightarrow> redis \<Rightarrow> (string + params option) \<times> redis" where
  "cache_Get k c0 =
     (let (f, c) = next_fault c0
      in if f then (Inl ''redis get'', c)
         else case rd_str c k of
                None \<Rightarrow> (Inr None, c)
              | Some v \<Rightarrow>
                  (case unmarshal_params v of
                     None \<Rightarrow> (Inl ''unmarshal cached params'', c)
                   | Some m \<Rightarrow> (Inr m, c)))"

definition cache_Set :: "string \<Rightarrow> params \<Rightarrow> int \<Rightarrow> redis \<Rightarrow> string option \<times> redis" where
  "cache_Set k m ttl c0 =
     (let (f, c) = next_fault c0
      in if f then (Some ''redis set'', c)
         else (None, redis_set k (enc_params m) (if ttl > 0 then Some ttl else None) c))"

definition cache_Delete :: "string \<Rightarrow> redis \<Rightarrow> string option \<times> redis" where
  "cache_Delete k c0 =
     (let (f, c) = next_fault c0 in if f then (Some ''redis del'', c) else (None, redis_del k c))"

text \<open>
  The pages are the answers of \<^verbatim>\<open>SCAN\<close> with the pattern \<^verbatim>\<open>params:*\<close>; the iterator
  asks for the next page when the last one is used up.
\<close>

fun flush_keys :: "string list \<Rightarrow> redis \<Rightarrow> string option \<times> redis" where
  "flush_keys [] c = (None, c)"
| "flush_keys (k # ks) c0 =
     (let (f, c) = next_fault c0
      in if f then (Some ''delete cache'', c) else flush_keys ks (redis_del k c))"

fun cache_Flush :: "string list list \<Rightarrow> redis \<Rightarrow> string option \<times> redis" where
  "cache_Flush [] c = (None, c)"
| "cache_Flush (page # pages) c0 =
     (let (f, c) = next_fault c0
      in if f then (Some ''scan'', c)
         else case flush_keys (filter (\<lambda>k. has_prefix k ''params:'') page) c of
                (Some e, c1) \<Rightarrow> (Some e, c1)
              | (None, c1) \<Rightarrow> cache_Flush pages c1)"

subsection \<open>Parameters\<close>

text \<open>The stored function \<^verbatim>\<open>upsert_device_parameters\<close>.\<close>

definition upsert_param :: "int \<Rightarrow> string \<Rightarrow> string \<times> string \<Rightarrow>
    (string \<times> string, param_cell) gomap \<Rightarrow> (string \<times> string, param_cell) gomap" where
  "upsert_param now serial kv = mput (serial, fst kv) \<lparr> pc_value = Some (snd kv), pc_updated = now \<rparr>"

definition upsert_device_parameters :: "int \<Rightarrow> string \<Rightarrow> params \<Rightarrow> param_repo \<Rightarrow> param_repo" where
  "upsert_device_parameters now serial ps r =
     (let n = int (length ps);
          meta = (case map_of (pr_meta r) serial of
                    None \<Rightarrow> \<lparr> pm_total = n, pm_updated = now, pm_snapshot = None, pm_count = 0 \<rparr>
                  | Some m \<Rightarrow> m\<lparr>pm_total := n, pm_updated := now\<rparr>)
      in r\<lparr>pr_params := fold (upsert_param now serial) ps (pr_params r),
           pr_meta := mput serial meta (pr_meta r)\<rparr>)"

definition invalidate :: "string \<Rightarrow> param_repo \<Rightarrow> param_repo" where
  "invalidate serial r = r\<lparr>pr_cache := snd (cache_Delete (cacheKey serial) (pr_cache r))\<rparr>"

definition pr_UpdateParameters :: "int \<Rightarrow> string \<Rightarrow> params \<Rightarrow> param_repo \<Rightarrow> string option \<times> param_repo" where
  "pr_UpdateParameters now serial ps r0 =
     (if ps = [] then (None, r0)
      else let (f, r) = db_try r0
           in if f then (Some ''upsert parameters'', r)
              else (None, invalidate serial (upsert_device_parameters now serial ps r)))"

definition pr_GetParameter :: "string \<Rightarrow> string \<Rightarrow> param_repo \<Rightarrow> (string + string) \<times> param_repo" where
  "pr_GetParameter serial name r0 =
     (let (f, r) = db_try r0
      in if f then (Inl ''query parameter'', r)
         else case map_of (pr_params r) (serial, name) of
                None \<Rightarrow> (Inr [], r)
              | Some c \<Rightarrow> (Inr (case pc_value c of None \<Rightarrow> [] | Some v \<Rightarrow> v), r))"

text \<open>
  The rows of one device. Scanning a NULL value into a string is an error. The order of the rows is
  lost in the map they are put into.
\<close>

definition device_rows :: "string \<Rightarrow> param_repo \<Rightarrow> (string \<times> param_cell) list" where
  "device_rows serial r =
     map (\<lambda>kc. (snd (fst kc), snd kc)) (filter (\<lambda>kc. fst (fst kc) = serial) (pr_params r))"

fun scan_rows :: "(string \<times> param_cell) list \<Rightarrow> params \<Rightarrow> params option" where
  "scan_rows [] m = Some m"
| "scan_rows ((n, c) # rows) m =
     (case pc_value c of None \<Rightarrow> None | Some v \<Rightarrow> scan_rows rows (mput n v m))"

definition GetAllParameters :: "string \<Rightarrow> param_repo \<Rightarrow> (string + params) \<times> param_repo" where
  "GetAllParameters serial r0 =
     (let (hit, c) = cache_Get (cacheKey serial) (pr_cache r0);
          r1 = r0\<lparr>pr_cache := c\<rparr>
      in case hit of
           Inr (Some m) \<Rightarrow> (Inr m, r1)
         | _ \<Rightarrow>
             (let (f, r) = db_try r1
              in if f then (Inl ''query parameters'', r)
                 else case scan_rows (device_rows serial r) [] of
                        None \<Rightarrow> (Inl ''scan row'', r)
                      | Some m \<Rightarrow>
                          (Inr m, r\<lparr>pr_cache := snd (cache_Set (cacheKey serial) m 3600 (pr_cache r))\<rparr>)))"

text \<open>\<^verbatim>\<open>LIKE\<close> with the escape character backslash.\<close>

fun sql_like :: "string \<Rightarrow> string \<Rightarrow> bool" where
  "sql_like [] s \<longleftrightarrow> s = []"
| "sql_like (p # ps) s \<longleftrightarrow>
     (if p = CHR 0x5C then
        (case ps of
           [] \<Rightarrow> False
         | q # qs \<Rightarrow> (case s of [] \<Rightarrow> False | c # cs \<Rightarrow> c = q \<and> sql_like qs cs))
      else if p = CHR ''%'' then
        sql_like ps s \<or> (case s of [] \<Rightarrow> False | c # cs \<Rightarrow> sql_like (p # ps) cs)
      else if p = CHR ''_'' then (case s of [] \<Rightarrow> False | c # cs \<Rightarrow> sql_like ps cs)
      else (case s of [] \<Rightarrow> False | c # cs \<Rightarrow> c = p \<and> sql_like ps cs))"

definition prefix_pattern :: "string \<Rightarrow> string" where
  "prefix_pattern p = replace_all p ''_'' [CHR 0x5C, CHR ''_''] @ ''%''"

definition GetParametersByPrefix :: "string \<Rightarrow> string \<Rightarrow> param_repo \<Rightarrow> (string + params) \<times> param_repo" where
  "GetParametersByPrefix serial p r0 =
     (let (f, r) = db_try r0
      in if f then (Inl ''query by prefix'', r)
         else case scan_rows (filter (\<lambda>row. sql_like (prefix_pattern p) (fst row)) (device_rows serial r)) [] of
                None \<Rightarrow> (Inl ''scan row'', r)
              | Some m \<Rightarrow> (Inr m, r))"

subsection \<open>Snapshots\<close>

text \<open>The stored function \<^verbatim>\<open>save_parameter_snapshot\<close>.\<close>

definition save_parameter_snapshot :: "int \<Rightarrow> string \<Rightarrow> string \<Rightarrow> json \<Rightarrow> param_repo \<Rightarrow> param_repo" where
  "save_parameter_snapshot now serial ty v r =
     r\<lparr>pr_snaps := mput (serial, ty) (v, now) (pr_snaps r),
       pr_meta := (case map_of (pr_meta r) serial of
                     None \<Rightarrow> pr_meta r
                   | Some m \<Rightarrow> mput serial (m\<lparr>pm_snapshot := Some now, pm_count := pm_count m + 1\<rparr>) (pr_meta r))\<rparr>"

definition SaveSnapshot :: "int \<Rightarrow> string \<Rightarrow> string \<Rightarrow> params \<Rightarrow> param_repo \<Rightarrow> string option \<times> param_repo" where
  "SaveSnapshot now serial ty ps r0 =
     (let (f, r) = db_try r0
      in if f then (Some ''save snapshot'', r)
         else (None, save_parameter_snapshot now serial ty (enc_params ps) r))"

definition GetSnapshot :: "string \<Rightarrow> string \<Rightarrow> param_repo \<Rightarrow> (string + params option) \<times> param_repo" where
  "GetSnapshot serial ty r0 =
     (let (f, r) = db_try r0
      in if f then (Inl ''query snapshot'', r)
         else case map_of (pr_snaps r) (serial, ty) of
                None \<Rightarrow> (Inr None, r)
              | Some (v, at) \<Rightarrow>
                  (case unmarshal_params v of
                     None \<Rightarrow> (Inl ''unmarshal snapshot'', r)
                   | Some m \<Rightarrow> (Inr m, r)))"

text \<open>
  \<^verbatim>\<open>ORDER BY captured_at DESC LIMIT 1\<close>: of rows captured at the same instant the server may
  return any; here it is the first in the table.
\<close>

definition latest_snapshot :: "string \<Rightarrow> param_repo \<Rightarrow> (string \<times> json) option" where
  "latest_snapshot serial r =
     (case sort_by (\<lambda>a b. snd (snd a) > snd (snd b)) (filter (\<lambda>s. fst (fst s) = serial) (pr_snaps r)) of
        [] \<Rightarrow> None | s # _ \<Rightarrow> Some (snd (fst s), fst (snd s)))"

definition GetLatestSnapshot ::
    "string \<Rightarrow> param_repo \<Rightarrow> (string + (string \<times> params option)) \<times> param_repo" where
  "GetLatestSnapshot serial r0 =
     (let (f, r) = db_try r0
      in if f then (Inl ''query latest snapshot'', r)
         else case latest_snapshot serial r of
                None \<Rightarrow> (Inr ([], None), r)
              | Some (ty, v) \<Rightarrow>
                  (case unmarshal_params v of
                     None \<Rightarrow> (Inl ''unmarshal snapshot'', r)
                   | Some m \<Rightarrow> (Inr (ty, m), r)))"

definition DeleteSnapshot :: "string \<Rightarrow> string \<Rightarrow> param_repo \<Rightarrow> string option \<times> param_repo" where
  "DeleteSnapshot serial ty r0 =
     (let (f, r) = db_try r0
      in if f then (Some ''delete snapshot'', r)
         else (None, r\<lparr>pr_snaps := mdel (serial, ty) (pr_snaps r)\<rparr>))"

text \<open>
  The rows of the query for all devices are fetched one by one, and each fetch may fail, which ends
  the loop; the other queries of this theory are answered as a whole.
\<close>

fun capture_rows :: "int \<Rightarrow> string list \<Rightarrow> param_repo \<Rightarrow> string option \<times> param_repo" where
  "capture_rows now [] r0 = (let (f, r) = db_try r0 in (if f then Some ''rows error'' else None, r))"
| "capture_rows now (s # ss) r0 =
     (let (f, r) = db_try r0
      in if f then (Some ''rows error'', r)
         else case GetAllParameters s r of
                (Inl _, r1) \<Rightarrow> capture_rows now ss r1
              | (Inr ps, r1) \<Rightarrow> capture_rows now ss (snd (SaveSnapshot now s ''last_known_good'' ps r1)))"

definition CaptureAllDeviceSnapshots :: "int \<Rightarrow> param_repo \<Rightarrow> string option \<times> param_repo" where
  "CaptureAllDeviceSnapshots now r0 =
     (let (f, r) = db_try r0
      in if f then (Some ''query devices'', r)
         else capture_rows now (remdups (map (\<lambda>kc. fst (fst kc)) (pr_params r))) r)"

subsection \<open>History, statistics, deletion\<close>

definition RecordParameterChange ::
    "int \<Rightarrow> string \<Rightarrow> string \<Rightarrow> string \<Rightarrow> string \<Rightarrow> string \<Rightarrow> param_repo \<Rightarrow> string option \<times> param_repo" where
  "RecordParameterChange now serial name old new by r0 =
     (let (f, r) = db_try r0
      in if f then (Some ''record change'', r)
         else (None, r\<lparr>pr_history := pr_history r @
                 [\<lparr> hr_serial = serial, hr_param = name, hr_old = old, hr_new = new, hr_at = now, hr_by = by \<rparr>]\<rparr>))"

text \<open>A negative \<^verbatim>\<open>LIMIT\<close> is an error of the server.\<close>

definition GetParameterHistory ::
    "string \<Rightarrow> string \<Rightarrow> int \<Rightarrow> param_repo \<Rightarrow> (string + history_row list) \<times> param_repo" where
  "GetParameterHistory serial name limit r0 =
     (let (f, r) = db_try r0
      in if f \<or> limit < 0 then (Inl ''query history'', r)
         else (Inr (take (nat limit) (sort_by (\<lambda>a b. hr_at a > hr_at b)
                 (filter (\<lambda>h. hr_serial h = serial \<and> hr_param h = name) (pr_history r)))), r))"

definition DeleteOldHistory :: "int \<Rightarrow> int \<Rightarrow> param_repo \<Rightarrow> string option \<times> param_repo" where
  "DeleteOldHistory now daysOld r0 =
     (let (f, r) = db_try r0
      in if f then (Some ''delete old history'', r)
         else (None, r\<lparr>pr_history := filter (\<lambda>h. \<not> hr_at h < now - 86400000000000 * daysOld) (pr_history r)\<rparr>))"

definition CountParameters :: "string \<Rightarrow> param_repo \<Rightarrow> (string + int) \<times> param_repo" where
  "CountParameters serial r0 =
     (let (f, r) = db_try r0
      in if f then (Inl ''count parameters'', r) else (Inr (int (length (device_rows serial r))), r))"

text \<open>
  Number of rows, time of the last write, time of the last snapshot. A device with no rows has no
  group: the zero values are returned.
\<close>

definition GetDeviceParameterStats ::
    "string \<Rightarrow> param_repo \<Rightarrow> (string + (int \<times> int option \<times> int option)) \<times> param_repo" where
  "GetDeviceParameterStats serial r0 =
     (let (f, r) = db_try r0; rows = device_rows serial r
      in if f then (Inl ''query stats'', r)
         else if rows = [] then (Inr (0, None, None), r)
         else (Inr (int (length rows), Some (Max (set (map (\<lambda>row. pc_updated (snd row)) rows))),
                    (case map_of (pr_meta r) serial of None \<Rightarrow> None | Some m \<Rightarrow> pm_snapshot m)), r))"

definition DeleteDeviceParameters :: "string \<Rightarrow> param_repo \<Rightarrow> string option \<times> param_repo" where
  "DeleteDeviceParameters serial r0 =
     (let (f, r) = db_try r0
      in if f then (Some ''delete parameters'', r)
         else let r1 = r\<lparr>pr_params := filter (\<lambda>kc. fst (fst kc) \<noteq> serial) (pr_params r)\<rparr>;
                  (g, r2) = db_try r1;
                  r3 = (if g then r2 else r2\<lparr>pr_meta := mdel serial (pr_meta r2)\<rparr>)
              in (None, invalidate serial r3))"

subsection \<open>Traffic samples\<close>

definition RecordWANTrafficSample :: "string \<Rightarrow> traffic_sample \<Rightarrow> param_repo \<Rightarrow> string option \<times> param_repo" where
  "RecordWANTrafficSample serial t r0 =
     (if serial = [] then (None, r0)
      else let (f, r) = db_try r0
           in if f then (Some ''insert wan traffic sample'', r)
              else (None, r\<lparr>pr_traffic := pr_traffic r @ [(serial, t)]\<rparr>))"

definition sample_limit :: "int \<Rightarrow> nat" where
  "sample_limit limit =
     (let l = (if limit < 1 then 500 else limit) in nat (if l > 5000 then 5000 else l))"

definition ListWANTrafficSamples ::
    "string \<Rightarrow> int \<Rightarrow> int \<Rightarrow> param_repo \<Rightarrow> (string + traffic_sample list) \<times> param_repo" where
  "ListWANTrafficSamples serial since limit r0 =
     (let (f, r) = db_try r0
      in if f then (Inl ''list wan traffic samples'', r)
         else (Inr (take (sample_limit limit) (sort_by (\<lambda>a b. ts_RecordedAt a < ts_RecordedAt b)
                 (map snd (filter (\<lambda>x. fst x = serial \<and> since \<le> ts_RecordedAt (snd x)) (pr_traffic r))))), r))"

definition DeleteOldTrafficSamples :: "int \<Rightarrow> int \<Rightarrow> param_repo \<Rightarrow> string option \<times> param_repo" where
  "DeleteOldTrafficSamples now daysOld r0 =
     (let d = (if daysOld < 1 then 30 else daysOld); (f, r) = db_try r0
      in if f then (Some ''delete old wan traffic samples'', r)
         else (None, r\<lparr>pr_traffic := filter (\<lambda>x. \<not> ts_RecordedAt (snd x) < now - 86400000000000 * d) (pr_traffic r)\<rparr>))"

text \<open>
  One point of the rate graph. Instants are nanoseconds; a rate is the quotient of a number of bits
  by a number of seconds, kept as the byte difference (an \<^verbatim>\<open>int64\<close>, which wraps) and the
  duration; both byte differences are zero in a point that is not valid.
\<close>

record rate_point =
  rp_Until :: int
  rp_Duration :: int
  rp_TxBytes :: int
  rp_RxBytes :: int
  rp_Valid :: bool

text \<open>\<^verbatim>\<open>time.Time.Sub\<close> saturates.\<close>

definition time_sub :: "int \<Rightarrow> int \<Rightarrow> int" where
  "time_sub t u = max min_int64 (min max_int64 (t - u))"

definition rate_step :: "traffic_sample \<Rightarrow> traffic_sample \<Rightarrow> rate_point option" where
  "rate_step prev cur =
     (let dt = time_sub (ts_RecordedAt cur) (ts_RecordedAt prev);
          ds = wrap64 (ts_BytesSent cur - ts_BytesSent prev);
          dr = wrap64 (ts_BytesReceived cur - ts_BytesReceived prev);
          valid = (ds \<ge> 0 \<and> dr \<ge> 0)
      in if dt \<le> 0 then None
         else Some \<lparr> rp_Until = ts_RecordedAt cur, rp_Duration = dt,
                rp_TxBytes = (if valid then ds else 0), rp_RxBytes = (if valid then dr else 0),
                rp_Valid = valid \<rparr>)"

fun TrafficSamplesToRatePoints :: "traffic_sample list \<Rightarrow> rate_point list" where
  "TrafficSamplesToRatePoints (p # c # rest) =
     (case rate_step p c of
        None \<Rightarrow> TrafficSamplesToRatePoints (c # rest)
      | Some x \<Rightarrow> x # TrafficSamplesToRatePoints (c # rest))"
| "TrafficSamplesToRatePoints _ = []"

subsection \<open>The repository keeps cache and table together\<close>

text \<open>What the table stores for a device, and the invariant of a repository whose cache is coherent.\<close>

definition stored :: "string \<Rightarrow> param_repo \<Rightarrow> string \<Rightarrow> string option" where
  "stored serial r n = (case map_of (pr_params r) (serial, n) of None \<Rightarrow> None | Some c \<Rightarrow> pc_value c)"

definition table_ok :: "param_repo \<Rightarrow> bool" where
  "table_ok r \<longleftrightarrow> wf_map (pr_params r) \<and> 
     (\<forall>k c. map_of (pr_params r) k = Some c \<longrightarrow> pc_value c \<noteq> None)"

definition cache_ok :: "param_repo \<Rightarrow> bool" where
  "cache_ok r \<longleftrightarrow>
     (\<forall>s v. rd_str (pr_cache r) (cacheKey s) = Some v \<longrightarrow>
        (\<exists>m. unmarshal_params v = Some (Some m) \<and> map_of m = stored s r))"

named_theorems repo_simps \<open>what an operation leaves alone\<close>

lemma db_try_keeps [repo_simps]:
  "pr_params (snd (db_try r)) = pr_params r"
  "pr_meta (snd (db_try r)) = pr_meta r"
  "pr_snaps (snd (db_try r)) = pr_snaps r"
  "pr_history (snd (db_try r)) = pr_history r"
  "pr_traffic (snd (db_try r)) = pr_traffic r"
  "pr_cache (snd (db_try r)) = pr_cache r"
  by (simp_all add: db_try_def split: list.splits)

lemma db_try_up [simp]: "pr_faults r = [] \<Longrightarrow> db_try r = (False, r)"
  by (simp add: db_try_def)

lemma inv_cong:
  assumes "pr_params r' = pr_params r" and "rd_str (pr_cache r') = rd_str (pr_cache r)"
  shows "table_ok r' \<longleftrightarrow> table_ok r" "cache_ok r' \<longleftrightarrow> cache_ok r" "stored s r' = stored s r"
  using assms by (auto simp: table_ok_def cache_ok_def stored_def fun_eq_iff)

lemma db_try_inv [repo_simps]:
  "table_ok (snd (db_try r)) = table_ok r" "cache_ok (snd (db_try r)) = cache_ok r"
  "stored s (snd (db_try r)) = stored s r"
  using inv_cong [of "snd (db_try r)" r] by (simp_all add: repo_simps)

lemma next_fault_str [simp]:
  "rd_str (snd (next_fault c)) = rd_str c"
  by (simp add: next_fault_def split: list.splits)

lemma unmarshal_enc_params:
  assumes "wf_map m"
  shows "\<exists>m'. unmarshal_params (enc_params m) = Some (Some m') \<and> map_of m' = map_of m"
  using assms by (simp add: unmarshal_params_def enc_params_def dec_str_members_strings)

lemma scan_rows_values:
  assumes "\<forall>row \<in> set rows. pc_value (snd row) \<noteq> None"
  shows "scan_rows rows m = Some (mput_all (map (\<lambda>row. (fst row, the (pc_value (snd row)))) rows) m)"
  using assms by (induction rows arbitrary: m) auto

lemma device_rows_names: "wf_map (pr_params r) \<Longrightarrow> wf_map (device_rows s r)"
proof -
  have "distinct (map fst xs) \<Longrightarrow>
      distinct (map (\<lambda>kc. snd (fst kc)) (filter (\<lambda>kc. fst (fst kc) = s) xs))"
    for xs :: "((string \<times> string) \<times> param_cell) list"
    by (induction xs) (auto simp: image_iff)
  then show "wf_map (pr_params r) \<Longrightarrow> wf_map (device_rows s r)"
    by (simp add: device_rows_def wf_map_def comp_def)
qed

lemma map_of_device_rows:
  "map_of (device_rows s r) n = map_of (pr_params r) (s, n)"
proof -
  have "map_of (map (\<lambda>kc. (snd (fst kc), snd kc)) (filter (\<lambda>kc. fst (fst kc) = s) xs)) n = map_of xs (s, n)"
    for xs :: "((string \<times> string) \<times> param_cell) list"
    by (induction xs) auto
  then show ?thesis by (simp add: device_rows_def)
qed

lemma map_of_values: "map_of (map (\<lambda>row. (fst row, f (snd row))) rows) = map_option f \<circ> map_of rows"
  by (induction rows) (auto simp: fun_eq_iff)

lemma scan_device_rows:
  assumes "table_ok r"
  shows "\<exists>m. scan_rows (device_rows s r) [] = Some m \<and> map_of m = stored s r \<and> wf_map m"
proof -
  let ?rows = "device_rows s r"
  let ?kvs = "map (\<lambda>row. (fst row, the (pc_value (snd row)))) ?rows"
  have vals: "\<forall>row \<in> set ?rows. pc_value (snd row) \<noteq> None"
    using assms map_of_SomeI [of "pr_params r"] unfolding device_rows_def table_ok_def by fastforce
  have wf: "wf_map ?kvs"
    using device_rows_names assms by (simp add: table_ok_def wf_map_def comp_def)
  have vals': "pc_value c \<noteq> None" if "map_of (pr_params r) k = Some c" for k c
    using assms that unfolding table_ok_def by blast
  have "map_of ?kvs = stored s r"
    unfolding map_of_values [of "\<lambda>c. the (pc_value c)"]
    using vals' by (fastforce simp: map_of_device_rows stored_def fun_eq_iff split: option.splits)
  with wf show ?thesis by (simp add: scan_rows_values [OF vals])
qed

lemma upserts_mput_all:
  "fold (upsert_param now s) ps t =
     mput_all (map (\<lambda>kv. ((s, fst kv), \<lparr> pc_value = Some (snd kv), pc_updated = now \<rparr>)) ps) t"
  by (induction ps arbitrary: t) (auto simp: upsert_param_def)

lemma map_of_upserts:
  assumes "wf_map ps"
  shows "map_of (fold (upsert_param now s) ps t) (s', n) =
     (if s' = s \<and> mhas ps n
      then Some \<lparr> pc_value = map_of ps n, pc_updated = now \<rparr> else map_of t (s', n))"
proof -
  have "map_of (map (\<lambda>kv. ((s, fst kv), \<lparr> pc_value = Some (snd kv), pc_updated = now \<rparr>)) ps) (s', n) =
      (if s' = s \<and> mhas ps n then Some \<lparr> pc_value = map_of ps n, pc_updated = now \<rparr> else None)"
    by (induction ps) (auto simp: mhas_def)
  moreover have "distinct (map (Pair s) (map fst ps))"
    using assms by (subst distinct_map) (simp add: wf_map_def inj_on_def)
  then have "wf_map (map (\<lambda>kv. ((s, fst kv), \<lparr> pc_value = Some (snd kv), pc_updated = now \<rparr>)) ps)"
    by (simp add: wf_map_def comp_def)
  ultimately show ?thesis
    by (simp add: upserts_mput_all map_add_def)
qed

lemma upsert_table:
  assumes "wf_map ps" and "table_ok r"
  shows "table_ok (upsert_device_parameters now s ps r)"
    and "stored s' (upsert_device_parameters now s ps r) =
         (if s' = s then stored s r ++ map_of ps else stored s' r)"
proof -
  have "wf_map (fold (upsert_param now s) ps (pr_params r))"
    using assms(2) by (simp add: upserts_mput_all table_ok_def)
  then show "table_ok (upsert_device_parameters now s ps r)"
    using assms by (auto simp: table_ok_def upsert_device_parameters_def Let_def map_of_upserts mhas_def)
  show "stored s' (upsert_device_parameters now s ps r) =
         (if s' = s then stored s r ++ map_of ps else stored s' r)"
    using assms(1)
    by (auto simp: fun_eq_iff stored_def upsert_device_parameters_def Let_def map_of_upserts mhas_def
        map_add_def split: option.splits)
qed

lemma cache_Get_keeps [repo_simps]: "rd_str (snd (cache_Get k c)) = rd_str c"
  by (auto simp: cache_Get_def split: prod.splits option.splits dest: next_fault_keeps)

lemma cache_Get_hit:
  "fst (cache_Get k c) = Inr (Some m) \<Longrightarrow> \<exists>v. rd_str c k = Some v \<and> unmarshal_params v = Some (Some m)"
  by (auto simp: cache_Get_def split: prod.splits option.splits if_splits dest: next_fault_keeps)

lemma cache_Set_str: "wf_map m \<Longrightarrow> rd_str (snd (cache_Set k m ttl c)) \<in> {rd_str c, (rd_str c)(k \<mapsto> enc_params m)}"
  by (auto simp: cache_Set_def redis_set_def Let_def split: prod.splits dest: next_fault_keeps)

lemma cacheKey_inj [simp]: "cacheKey s = cacheKey s' \<longleftrightarrow> s = s'"
  by (simp add: cacheKey_def)

lemma stored_cache [simp]: "stored s (r\<lparr>pr_cache := c\<rparr>) = stored s r"
  by (simp add: stored_def fun_eq_iff)

lemma cache_ok_set:
  assumes "cache_ok r" and "wf_map m" and "map_of m = stored s r"
  shows "cache_ok (r\<lparr>pr_cache := snd (cache_Set (cacheKey s) m ttl (pr_cache r))\<rparr>)"
proof -
  let ?k = "cacheKey s"
  consider "rd_str (snd (cache_Set ?k m ttl (pr_cache r))) = rd_str (pr_cache r)"
    | "rd_str (snd (cache_Set ?k m ttl (pr_cache r))) = (rd_str (pr_cache r))(?k \<mapsto> enc_params m)"
    using cache_Set_str [OF assms(2), of ?k ttl "pr_cache r"] by blast
  then show ?thesis
    using assms unmarshal_enc_params [OF assms(2)] by cases (auto simp: cache_ok_def)
qed

text \<open>Reading through the cache, whatever fails: an answer is what the table stores, or an error.\<close>

lemma GetAll_keeps [repo_simps]:
  "pr_params (snd (GetAllParameters s r)) = pr_params r"
  "pr_snaps (snd (GetAllParameters s r)) = pr_snaps r"
  by (auto simp: GetAllParameters_def Let_def db_try_def split: prod.splits option.splits sum.splits list.splits)

lemma GetAll_cases:
  assumes "table_ok r" and "cache_ok r"
  shows "(case fst (GetAllParameters s r) of Inl _ \<Rightarrow> True | Inr m \<Rightarrow> map_of m = stored s r)
    \<and> table_ok (snd (GetAllParameters s r)) \<and> cache_ok (snd (GetAllParameters s r))"
proof -
  define c where "c = snd (cache_Get (cacheKey s) (pr_cache r))"
  define r1 where "r1 = r\<lparr>pr_cache := c\<rparr>"
  define f where "f = fst (db_try r1)"
  define r2 where "r2 = snd (db_try r1)"
  have keep: "pr_params r2 = pr_params r" "pr_params r1 = pr_params r"
      "rd_str (pr_cache r2) = rd_str (pr_cache r)" "rd_str (pr_cache r1) = rd_str (pr_cache r)"
    by (simp_all add: r2_def r1_def c_def repo_simps)
  have inv1: "table_ok r1" "cache_ok r1" "stored s r1 = stored s r"
    using inv_cong [OF keep(2) keep(4)] assms by simp_all
  have inv2: "table_ok r2" "cache_ok r2" "stored s r2 = stored s r"
    using inv_cong [OF keep(1) keep(3)] assms by simp_all
  obtain m where m: "scan_rows (device_rows s r2) [] = Some m" "map_of m = stored s r2" "wf_map m"
    using scan_device_rows [OF inv2(1)] by blast
  have set_ok: "cache_ok (r2\<lparr>pr_cache := snd (cache_Set (cacheKey s) m 3600 (pr_cache r2))\<rparr>)"
      "table_ok (r2\<lparr>pr_cache := snd (cache_Set (cacheKey s) m 3600 (pr_cache r2))\<rparr>)"
    using cache_ok_set inv2 m by (auto simp: table_ok_def)
  show ?thesis
  proof (cases "\<exists>h. fst (cache_Get (cacheKey s) (pr_cache r)) = Inr (Some h)")
    case True
    then obtain h where h: "fst (cache_Get (cacheKey s) (pr_cache r)) = Inr (Some h)" by blast
    then have "map_of h = stored s r"
      using cache_Get_hit [OF h] assms(2) unfolding cache_ok_def by fastforce
    moreover have "GetAllParameters s r = (Inr h, r1)"
      using h by (cases "cache_Get (cacheKey s) (pr_cache r)")
        (simp add: GetAllParameters_def r1_def c_def)
    ultimately show ?thesis using inv1 by simp
  next
    case False
    then have "GetAllParameters s r = (if f then (Inl ''query parameters'', r2)
        else (Inr m, r2\<lparr>pr_cache := snd (cache_Set (cacheKey s) m 3600 (pr_cache r2))\<rparr>))"
      using m by (cases "cache_Get (cacheKey s) (pr_cache r)"; cases "db_try r1")
        (auto simp: GetAllParameters_def r1_def r2_def c_def f_def Let_def split: sum.splits option.splits)
    then show ?thesis using inv2 m set_ok by auto
  qed
qed

lemma invalidate_keeps [repo_simps]:
  "pr_params (invalidate s r) = pr_params r" "pr_meta (invalidate s r) = pr_meta r"
  "stored s' (invalidate s r) = stored s' r" "table_ok (invalidate s r) = table_ok r"
  by (simp_all add: invalidate_def table_ok_def)

lemma invalidate_str:
  "\<not> fst (next_fault (pr_cache r)) \<Longrightarrow>
   rd_str (pr_cache (invalidate s r)) = (rd_str (pr_cache r))(cacheKey s := None)"
  by (auto simp: invalidate_def cache_Delete_def redis_del_def split: prod.splits dest: next_fault_keeps)

lemma invalidate_ok:
  assumes "\<not> fst (next_fault (pr_cache r))" and "cache_ok r0"
    and "rd_str (pr_cache r) = rd_str (pr_cache r0)"
    and "\<And>s'. s' \<noteq> s \<Longrightarrow> stored s' r = stored s' r0"
  shows "cache_ok (invalidate s r)"
  using assms by (auto simp: cache_ok_def invalidate_str repo_simps)

lemma update_keeps_ok:
  assumes "table_ok r" and "cache_ok r" and "wf_map ps" and "\<not> fst (next_fault (pr_cache r))"
  shows "table_ok (snd (pr_UpdateParameters now s ps r)) \<and> cache_ok (snd (pr_UpdateParameters now s ps r))"
proof -
  define r1 where "r1 = snd (db_try r)"
  have r1: "table_ok r1" "cache_ok r1" "pr_cache r1 = pr_cache r"
    using assms by (simp_all add: r1_def repo_simps)
  let ?u = "upsert_device_parameters now s ps r1"
  have "pr_cache ?u = pr_cache r1" by (simp add: upsert_device_parameters_def Let_def)
  then have "cache_ok (invalidate s ?u)"
    using r1 assms by (intro invalidate_ok [of _ r1]) (simp_all add: upsert_table)
  moreover have "table_ok (invalidate s ?u)"
    using r1 assms by (simp add: repo_simps upsert_table)
  ultimately show ?thesis
    using r1 assms(1,2) by (cases "db_try r") (auto simp: pr_UpdateParameters_def r1_def)
qed

lemma update_stores:
  assumes "table_ok r" and "wf_map ps" and "fst (pr_UpdateParameters now s ps r) = None"
  shows "stored s' (snd (pr_UpdateParameters now s ps r)) =
         (if s' = s then stored s r ++ map_of ps else stored s' r)"
proof (cases "ps = []")
  case True
  then show ?thesis by (simp add: pr_UpdateParameters_def)
next
  case False
  show ?thesis
    using False assms db_try_inv [where r = r] by (cases "db_try r")
      (auto simp: pr_UpdateParameters_def repo_simps upsert_table split: if_splits)
qed

lemma delete_keeps_ok:
  assumes "table_ok r" and "cache_ok r" and "\<not> fst (next_fault (pr_cache r))"
  shows "table_ok (snd (DeleteDeviceParameters s r)) \<and> cache_ok (snd (DeleteDeviceParameters s r))"
proof (cases "fst (db_try r)")
  case True
  then show ?thesis
    using db_try_inv [where r = r] assms by (cases "db_try r") (simp add: DeleteDeviceParameters_def)
next
  case False
  define r1 where "r1 = (snd (db_try r))\<lparr>pr_params := filter (\<lambda>kc. fst (fst kc) \<noteq> s) (pr_params r)\<rparr>"
  define r3 where "r3 = (if fst (db_try r1) then snd (db_try r1)
      else (snd (db_try r1))\<lparr>pr_meta := mdel s (pr_meta r1)\<rparr>)"
  have del: "snd (DeleteDeviceParameters s r) = invalidate s r3"
    using False by (cases "db_try r"; cases "db_try r1")
      (auto simp: DeleteDeviceParameters_def Let_def r1_def r3_def db_try_def split: list.splits)
  have par: "pr_params r3 = filter (\<lambda>kc. fst (fst kc) \<noteq> s) (pr_params r)" and cache: "pr_cache r3 = pr_cache r"
    by (simp_all add: r3_def r1_def repo_simps)
  have look: "map_of (pr_params r3) (t, n) = (if t = s then None else map_of (pr_params r) (t, n))" for t n
  proof -
    have "map_of (filter (\<lambda>kc. fst (fst kc) \<noteq> s) xs) (t, n) = (if t = s then None else map_of xs (t, n))"
      for xs :: "((string \<times> string) \<times> param_cell) list" by (induction xs) auto
    then show ?thesis by (simp add: par)
  qed
  have "table_ok r3"
    using assms(1) by (auto simp: table_ok_def look) (simp add: par)
  moreover have "cache_ok (invalidate s r3)"
    using assms by (intro invalidate_ok [of _ r]) (simp_all add: cache stored_def look fun_eq_iff)
  ultimately show ?thesis by (simp add: del repo_simps)
qed

lemma snapshot_keeps [repo_simps]:
  "pr_params (snd (SaveSnapshot now s ty ps r)) = pr_params r"
  "pr_cache (snd (SaveSnapshot now s ty ps r)) = pr_cache r"
  "table_ok (snd (SaveSnapshot now s ty ps r)) = table_ok r"
  "cache_ok (snd (SaveSnapshot now s ty ps r)) = cache_ok r"
  "stored t (snd (SaveSnapshot now s ty ps r)) = stored t r"
proof -
  show par: "pr_params (snd (SaveSnapshot now s ty ps r)) = pr_params r"
    and cache: "pr_cache (snd (SaveSnapshot now s ty ps r)) = pr_cache r"
    by (auto simp: SaveSnapshot_def save_parameter_snapshot_def db_try_def split: list.splits)
  show "table_ok (snd (SaveSnapshot now s ty ps r)) = table_ok r"
    "cache_ok (snd (SaveSnapshot now s ty ps r)) = cache_ok r"
    "stored t (snd (SaveSnapshot now s ty ps r)) = stored t r"
    using inv_cong [OF par] by (simp_all add: cache)
qed

lemma capture_keeps:
  assumes "table_ok r" and "cache_ok r"
  shows "table_ok (snd (capture_rows now ss r)) \<and> cache_ok (snd (capture_rows now ss r))"
  using assms
proof (induction ss arbitrary: r)
  case Nil
  then show ?case using db_try_inv [where r = r] by (cases "db_try r") simp
next
  case (Cons s ss)
  obtain f r1 where r1: "db_try r = (f, r1)" by fastforce
  obtain res r2 where r2: "GetAllParameters s r1 = (res, r2)" by fastforce
  have ok: "table_ok r1" "cache_ok r1" using db_try_inv [where r = r] r1 Cons.prems by simp_all
  then have "table_ok r2" "cache_ok r2" using GetAll_cases [OF ok, of s] r2 by simp_all
  then show ?case
    using ok r1 r2 Cons.IH by (simp add: repo_simps split: sum.splits)
qed

text \<open>
  A repository that starts empty and goes through any operations in any order, with any failures
  of the database and of the reads and writes of the cache; only the deletions of a cache entry
  reach the cache. A cache entry may expire at any time.
\<close>

inductive repo_reachable :: "param_repo \<Rightarrow> bool" where
  start: "pr_params r = [] \<Longrightarrow> rd_str (pr_cache r) = (\<lambda>_. None) \<Longrightarrow> repo_reachable r"
| update: "repo_reachable r \<Longrightarrow> wf_map ps \<Longrightarrow> \<not> fst (next_fault (pr_cache r)) \<Longrightarrow>
    repo_reachable (snd (pr_UpdateParameters now s ps r))"
| delete: "repo_reachable r \<Longrightarrow> \<not> fst (next_fault (pr_cache r)) \<Longrightarrow>
    repo_reachable (snd (DeleteDeviceParameters s r))"
| read: "repo_reachable r \<Longrightarrow> repo_reachable (snd (GetAllParameters s r))"
| snapshot: "repo_reachable r \<Longrightarrow> repo_reachable (snd (SaveSnapshot now s ty ps r))"
| capture: "repo_reachable r \<Longrightarrow> repo_reachable (snd (CaptureAllDeviceSnapshots now r))"
| expire: "repo_reachable r \<Longrightarrow> repo_reachable (r\<lparr>pr_cache := redis_expired k (pr_cache r)\<rparr>)"

lemma repo_reachable_ok: "repo_reachable r \<Longrightarrow> table_ok r \<and> cache_ok r"
proof (induction rule: repo_reachable.induct)
  case (start r)
  then show ?case by (simp add: table_ok_def cache_ok_def)
next
  case (update r ps now s)
  then show ?case by (intro update_keeps_ok) simp_all
next
  case (delete r s)
  then show ?case by (intro delete_keeps_ok) simp_all
next
  case (read r s)
  then show ?case using GetAll_cases by blast
next
  case (snapshot r now s ty ps)
  then show ?case by (simp add: repo_simps)
next
  case (capture r now)
  then show ?case
    using db_try_inv [where r = r] capture_keeps [of "snd (db_try r)"]
    by (cases "db_try r") (simp add: CaptureAllDeviceSnapshots_def)
next
  case (expire r k)
  then show ?case
    by (auto simp: table_ok_def cache_ok_def redis_expired_def)
qed

definition ex_repo :: "bool list \<Rightarrow> param_repo" where
  "ex_repo fs = \<lparr> pr_params = [], pr_meta = [], pr_snaps = [], pr_history = [], pr_traffic = [],
     pr_faults = [], pr_cache = empty_redis\<lparr>rd_faults := fs\<rparr> \<rparr>"

text \<open>
  Whatever calls of the database fail, and in whatever order parameters are written, deleted,
  read and captured, GetAllParameters returns exactly what the table stores for the device, or an
  error, as long as the deletions of cache entries succeed.
\<close>

lemma reads_what_is_stored:
  assumes "repo_reachable r"
  shows "case fst (GetAllParameters s r) of Inl _ \<Rightarrow> True | Inr m \<Rightarrow> map_of m = stored s r"
  using repo_reachable_ok [OF assms] GetAll_cases [of r s] by blast

lemma reads_what_is_stored_example:
  "map_of [(''a'', ''2'')] = stored ''S''
     (snd (pr_UpdateParameters 2 ''S'' [(''a'', ''2'')] (snd (GetAllParameters ''S''
       (snd (pr_UpdateParameters 1 ''S'' [(''a'', ''1'')] (ex_repo []))))))) \<and>
   repo_reachable (snd (pr_UpdateParameters 2 ''S'' [(''a'', ''2'')] (snd (GetAllParameters ''S''
       (snd (pr_UpdateParameters 1 ''S'' [(''a'', ''1'')] (ex_repo [])))))))"
proof -
  let ?r1 = "snd (GetAllParameters ''S'' (snd (pr_UpdateParameters 1 ''S'' [(''a'', ''1'')] (ex_repo []))))"
  let ?r2 = "snd (pr_UpdateParameters 2 ''S'' [(''a'', ''2'')] ?r1)"
  have "rd_faults (pr_cache ?r1) = []" by code_simp
  moreover have "rd_faults (pr_cache (ex_repo [])) = []" by code_simp
  moreover have "repo_reachable (ex_repo [])"
    by (rule start) (simp_all add: ex_repo_def empty_redis_def)
  ultimately have reach: "repo_reachable ?r2"
    by (intro update read) (simp_all add: wf_map_def)
  have "fst (GetAllParameters ''S'' ?r2) = Inr [(''a'', ''2'')]" by code_simp
  then show ?thesis
    using reads_what_is_stored [OF reach, of "''S''"] reach by simp
qed

text \<open>
  A write whose cache deletion fails is reported as a success, and the next read returns the
  old parameters from the cache.
\<close>

lemma stale_after_failed_invalidation:
  "let r1 = snd (GetAllParameters ''S'' (snd (pr_UpdateParameters 1 ''S'' [(''a'', ''1'')]
              (ex_repo [False, False, False, True]))));
       (e, r2) = pr_UpdateParameters 2 ''S'' [(''a'', ''2'')] r1
   in e = None \<and> stored ''S'' r2 ''a'' = Some ''2'' \<and>
      fst (GetAllParameters ''S'' r2) = Inr [(''a'', ''1'')]"
  by code_simp

subsection \<open>Reading by prefix\<close>

lemma replace_char:
  "replace_all s [d] new = concat (map (\<lambda>c. if c = d then new else [c]) s)"
proof (induction s)
  case Nil
  then show ?case by (simp add: replace_all.simps)
next
  case (Cons c s)
  then show ?case by (subst replace_all.simps) (simp add: has_prefix_def)
qed

lemma like_any: "sql_like ''%'' s"
  by (induction s) simp_all

lemma like_escaped:
  assumes "CHR ''%'' \<notin> set p" and "CHR 0x5C \<notin> set p"
  shows "sql_like (concat (map (\<lambda>c. if c = CHR ''_'' then [CHR 0x5C, CHR ''_''] else [c]) p) @ ''%'') s
    \<longleftrightarrow> has_prefix s p"
  using assms
proof (induction p arbitrary: s)
  case Nil
  then show ?case by (simp only: list.map concat.simps append_Nil like_any has_prefix_Nil)
next
  case (Cons c p)
  then show ?case by (cases s) (auto simp: has_prefix_def)
qed

lemma prefix_pattern_like:
  assumes "CHR ''%'' \<notin> set p" and "CHR 0x5C \<notin> set p"
  shows "sql_like (prefix_pattern p) s \<longleftrightarrow> has_prefix s p"
  using like_escaped [OF assms] by (simp add: prefix_pattern_def replace_char)

lemma map_of_filter_key: "map_of (filter (\<lambda>x. P (fst x)) xs) = (\<lambda>k. if P k then map_of xs k else None)"
  by (induction xs) (auto simp: fun_eq_iff)

text \<open>
  Reading by prefix escapes the underscore only: for prefixes with neither a percent sign nor a
  backslash the answer is exactly the stored parameters whose name starts with the prefix.
\<close>

lemma prefix_query_exact:
  assumes "repo_reachable r" and "CHR ''%'' \<notin> set p" and "CHR 0x5C \<notin> set p"
    and "fst (GetParametersByPrefix s p r) = Inr m"
  shows "map_of m = (\<lambda>n. if has_prefix n p then stored s r n else None)"
proof -
  define r1 where "r1 = snd (db_try r)"
  have ok: "table_ok r1" and st: "stored s r1 = stored s r"
    using repo_reachable_ok [OF assms(1)] by (simp_all add: r1_def repo_simps)
  let ?rows = "filter (\<lambda>row. has_prefix (fst row) p) (device_rows s r1)"
  let ?kvs = "map (\<lambda>row. (fst row, the (pc_value (snd row)))) ?rows"
  have "wf_map (device_rows s r1)"
    using ok by (simp add: device_rows_names table_ok_def)
  then have wf: "wf_map ?kvs"
    by (auto simp: wf_map_def comp_def distinct_map_filter)
  have vals: "pc_value c \<noteq> None" if "(n, c) \<in> set (device_rows s r1)" for n c
    using map_of_SomeI [OF \<open>wf_map (device_rows s r1)\<close> that] ok
    by (simp add: map_of_device_rows table_ok_def)
  have "map_of ?kvs = (\<lambda>n. if has_prefix n p then stored s r1 n else None)"
    unfolding map_of_values [of "\<lambda>c. the (pc_value c)"] map_of_filter_key [of "\<lambda>n. has_prefix n p"]
    using ok by (fastforce simp: map_of_device_rows stored_def table_ok_def fun_eq_iff split: option.splits)
  moreover have "scan_rows ?rows [] = Some (mput_all ?kvs [])"
    using vals by (intro scan_rows_values) auto
  ultimately show ?thesis
    using assms(4) wf st
    by (cases "db_try r") (auto simp: GetParametersByPrefix_def prefix_pattern_like [OF assms(2,3)] r1_def
        split: if_splits)
qed

subsection \<open>Traffic rates\<close>

lemma time_sub_pos: "t < u \<Longrightarrow> 0 < time_sub u t"
  by (simp add: time_sub_def max_int64_def min_int64_def)

definition counter_ok :: "traffic_sample \<Rightarrow> bool" where
  "counter_ok s \<longleftrightarrow> 0 \<le> ts_BytesSent s \<and> ts_BytesSent s \<le> max_int64
     \<and> 0 \<le> ts_BytesReceived s \<and> ts_BytesReceived s \<le> max_int64"

text \<open>A sample that follows another: later, and neither counter went back.\<close>

definition follows :: "traffic_sample \<Rightarrow> traffic_sample \<Rightarrow> bool" where
  "follows p c \<longleftrightarrow> ts_RecordedAt p < ts_RecordedAt c
     \<and> ts_BytesSent p \<le> ts_BytesSent c \<and> ts_BytesReceived p \<le> ts_BytesReceived c"

lemma rate_step_follows:
  assumes "counter_ok p" and "counter_ok c" and "follows p c"
  shows "rate_step p c = Some \<lparr> rp_Until = ts_RecordedAt c,
     rp_Duration = time_sub (ts_RecordedAt c) (ts_RecordedAt p),
     rp_TxBytes = ts_BytesSent c - ts_BytesSent p, rp_RxBytes = ts_BytesReceived c - ts_BytesReceived p,
     rp_Valid = True \<rparr>"
proof -
  have "wrap64 (ts_BytesSent c - ts_BytesSent p) = ts_BytesSent c - ts_BytesSent p"
    "wrap64 (ts_BytesReceived c - ts_BytesReceived p) = ts_BytesReceived c - ts_BytesReceived p"
    using assms by (auto simp: counter_ok_def follows_def min_int64_def max_int64_def intro!: wrap64_id)
  moreover have "0 < time_sub (ts_RecordedAt c) (ts_RecordedAt p)"
    using assms(3) by (simp add: follows_def time_sub_pos)
  ultimately show ?thesis
    using assms(3) by (simp add: rate_step_def follows_def Let_def)
qed

lemma rates_of_series:
  assumes "\<forall>s \<in> set ss. counter_ok s" and "successively follows ss" and "ss \<noteq> []"
  shows "length (TrafficSamplesToRatePoints ss) = length ss - 1
    \<and> (\<forall>p \<in> set (TrafficSamplesToRatePoints ss). rp_Valid p)
    \<and> sum_list (map rp_TxBytes (TrafficSamplesToRatePoints ss)) = ts_BytesSent (last ss) - ts_BytesSent (hd ss)
    \<and> sum_list (map rp_RxBytes (TrafficSamplesToRatePoints ss)) =
        ts_BytesReceived (last ss) - ts_BytesReceived (hd ss)"
  using assms
proof (induction ss rule: TrafficSamplesToRatePoints.induct)
  case (1 p c rest)
  then show ?case by (simp add: rate_step_follows)
qed simp_all



text \<open>Whatever the samples hold, a point covers a positive duration and its byte counts are 64-bit.\<close>

lemma wrap64_max: "wrap64 i \<le> max_int64"
proof -
  have "(i + 9223372036854775808) mod 18446744073709551616 < 18446744073709551616" by simp
  then show ?thesis by (simp add: wrap64_def max_int64_def)
qed

lemma rate_point_bounds:
  "p \<in> set (TrafficSamplesToRatePoints ss) \<Longrightarrow>
     0 < rp_Duration p \<and> 0 \<le> rp_TxBytes p \<and> rp_TxBytes p \<le> max_int64 \<and>
     0 \<le> rp_RxBytes p \<and> rp_RxBytes p \<le> max_int64"
proof (induction ss rule: TrafficSamplesToRatePoints.induct)
  case (1 a b rest)
  then show ?case
    by (auto simp: rate_step_def Let_def wrap64_max split: if_splits option.splits)
       (simp_all add: max_int64_def)
qed simp_all

text \<open>
  The samples listed are the oldest of the window when there are more of them than the limit: the
  newest readings are left out.
\<close>

lemma list_drops_newest:
  "let r = (ex_repo [])\<lparr>pr_traffic := map (\<lambda>t. (''S'', \<lparr> ts_RecordedAt = t, ts_BytesSent = t, ts_BytesReceived = 0 \<rparr>)) [1, 2, 3]\<rparr>
   in (case fst (ListWANTrafficSamples ''S'' 0 2 r) of
         Inl _ \<Rightarrow> [] | Inr ss \<Rightarrow> map ts_RecordedAt ss) = [1, 2]"
  by code_simp
end
