(* ===== verification/Session.thy ===== *)
theory Session
  imports Task_Queue Wan_Provision Results Executor Params_Repo
begin
section \<open>CWMP sessions and their manager\<close>

text \<open>
  The first part of internal/cwmp/session.go: the state of a session, the manager that finds
  sessions by cookie, by device serial and by the id of an outstanding request, and the move of a
  device's unfinished work into the session it comes back with. Sessions are shared by reference
  (two indices of the manager may name the same one), so the manager holds a store of sessions and
  its indices hold references into it. A lock is held for each access, so an access is atomic.
\<close>

datatype session_state = StateNew | StateInform | StateProcessing | StateDone

text \<open>
  The mapper of a session: no interface value before the first Inform, an interface that holds a
  nil pointer when the schema is not registered (its methods panic), or a mapper.
\<close>

datatype mapper_ref = NoMapper | NilSchemaMapper | Mapper mapper

definition deref :: "mapper_ref \<Rightarrow> mapper option" where
  "deref m = (case m of Mapper x \<Rightarrow> Some x | _ \<Rightarrow> None)"

definition schema_mapper_ref :: "registry \<Rightarrow> string \<Rightarrow> instance_map \<Rightarrow> mapper_ref" where
  "schema_mapper_ref reg name im =
     (case NewSchemaMapper reg name im of None \<Rightarrow> NilSchemaMapper | Some m \<Rightarrow> Mapper (MSchema m))"

text \<open>
  The follow-up of an AddObject for a port mapping: a closure over the object path, the payload and
  the task.
\<close>

record follow_up =
  fu_base :: string
  fu_payload :: portfwd_payload
  fu_task :: string

definition call_follow_up :: "follow_up \<Rightarrow> int \<Rightarrow> envelope" where
  "call_follow_up f n =
     BuildSetParameterValues (fu_task f) (buildPortMappingParams (fu_base f) n (fu_payload f))"

record session =
  se_ID :: string
  se_DeviceSerial :: string
  se_State :: session_state
  se_CreatedAt :: int
  se_pendingTasks :: "task list"
  se_currentTask :: "task option"
  se_mapper :: mapper_ref
  se_instanceMap :: instance_map
  se_driver :: "driver option"
  se_addObjFollowUp :: "follow_up option"
  se_wanProvision :: "wan_provision option"
  se_summonPhase :: int
  se_summonSchemaName :: string
  se_summonMode :: string
  se_summonAllNames :: "string list"
  se_summonBatchIdx :: int
  se_summonAllParams :: params
  se_summonTargetPaths :: "string list"
  se_lastSetParams :: params
  se_isBootstrap :: bool
  se_pendingProvisionMark :: bool
  se_needsGlobalDefaults :: bool
  se_pendingWANCredentials :: params

definition new_session :: "string \<Rightarrow> int \<Rightarrow> session" where
  "new_session i now = \<lparr> se_ID = i, se_DeviceSerial = [], se_State = StateNew, se_CreatedAt = now,
     se_pendingTasks = [], se_currentTask = None, se_mapper = NoMapper, se_instanceMap = zero_im,
     se_driver = None, se_addObjFollowUp = None, se_wanProvision = None, se_summonPhase = 0,
     se_summonSchemaName = [], se_summonMode = [], se_summonAllNames = [], se_summonBatchIdx = 0,
     se_summonAllParams = [], se_summonTargetPaths = [], se_lastSetParams = [], se_isBootstrap = False,
     se_pendingProvisionMark = False, se_needsGlobalDefaults = False, se_pendingWANCredentials = [] \<rparr>"

subsection \<open>Discovery hints of a driver\<close>

definition explicit_bands :: "string \<times> int list \<Rightarrow> (int, int) gomap \<Rightarrow> (int, int) gomap" where
  "explicit_bands e m =
     (case atoi_opt (trim_space (fst e)) of
        None \<Rightarrow> m
      | Some band \<Rightarrow> fold (\<lambda>ssid. mput ssid band) (filter (\<lambda>ssid. \<not> ssid < 1) (snd e)) m)"

definition wifiSSIDBandHintsFromYAML :: "ssid_band_yaml option \<Rightarrow> band_hints option" where
  "wifiSSIDBandHintsFromYAML y =
     (case y of
        None \<Rightarrow> None
      | Some y \<Rightarrow>
          let strategy = trim_space (sb_Strategy y)
          in Some \<lparr> bh_Strategy = strategy,
               bh_ExplicitSSIDBand =
                 (if strategy = ''explicit'' \<and> sb_Explicit y \<noteq> []
                  then fold explicit_bands (sb_Explicit y) [] else []) \<rparr>)"

definition discoveryHintsFromDriver :: "driver option \<Rightarrow> discovery_hints option" where
  "discoveryHintsFromDriver d =
     (case d of
        None \<Rightarrow> None
      | Some d \<Rightarrow>
          let y = dv_Discovery d;
              p = dy_WANVLANPath y;
              vlanSuffix = (if p = [] then []
                            else case last_index p CHR ''.'' of None \<Rightarrow> [] | Some i \<Rightarrow> drop i p)
          in Some \<lparr> dh_WANTypePath = dy_WANTypePath y, dh_WANTypeValuesWAN = dy_WANTypesWAN y,
               dh_WANTypeValuesLAN = dy_WANTypesLAN y, dh_WANServiceTypePath = dy_WANServiceTypePath y,
               dh_GPONEnablePath = dy_GPONEnablePath y, dh_WANTR098VLANPathSuffix = vlanSuffix,
               dh_WiFiSSIDBand = wifiSSIDBandHintsFromYAML (dy_SSIDBand y) \<rparr>)"

subsection \<open>The manager\<close>

record session_manager =
  sm_sessions :: "(string, nat) gomap"
  sm_serial :: "(string, nat) gomap"
  sm_rpc :: "(string, nat) gomap"
  sm_heap :: "nat \<Rightarrow> session"
  sm_next :: nat

definition empty_manager :: session_manager where
  "empty_manager = \<lparr> sm_sessions = [], sm_serial = [], sm_rpc = [], sm_heap = (\<lambda>_. new_session [] 0), sm_next = 0 \<rparr>"

definition update_session :: "nat \<Rightarrow> (session \<Rightarrow> session) \<Rightarrow> session_manager \<Rightarrow> session_manager" where
  "update_session r f m = m\<lparr>sm_heap := (sm_heap m)(r := f (sm_heap m r))\<rparr>"

definition GetOrCreate :: "int \<Rightarrow> string \<Rightarrow> session_manager \<Rightarrow> nat \<times> session_manager" where
  "GetOrCreate now sessionID m =
     (case map_of (sm_sessions m) sessionID of
        Some r \<Rightarrow> (r, m)
      | None \<Rightarrow>
          (sm_next m,
           m\<lparr>sm_sessions := mput sessionID (sm_next m) (sm_sessions m),
             sm_heap := (sm_heap m)(sm_next m := new_session sessionID now),
             sm_next := sm_next m + 1\<rparr>))"

definition Delete_session :: "string \<Rightarrow> session_manager \<Rightarrow> session_manager" where
  "Delete_session sessionID m = m\<lparr>sm_sessions := mdel sessionID (sm_sessions m)\<rparr>"

definition BindSerial :: "string \<Rightarrow> nat \<Rightarrow> session_manager \<Rightarrow> session_manager" where
  "BindSerial serial r m = (if serial = [] then m else m\<lparr>sm_serial := mput serial r (sm_serial m)\<rparr>)"

definition GetBySerial :: "string \<Rightarrow> session_manager \<Rightarrow> nat option" where
  "GetBySerial serial m = (if serial = [] then None else map_of (sm_serial m) serial)"

definition BindRPCID :: "string \<Rightarrow> nat \<Rightarrow> session_manager \<Rightarrow> session_manager" where
  "BindRPCID i r m = (if i = [] then m else m\<lparr>sm_rpc := mput i r (sm_rpc m)\<rparr>)"

definition TakeByRPCID :: "string \<Rightarrow> session_manager \<Rightarrow> nat option \<times> session_manager" where
  "TakeByRPCID i m =
     (if i = [] then (None, m)
      else case map_of (sm_rpc m) i of
             None \<Rightarrow> (None, m)
           | Some r \<Rightarrow> (Some r, m\<lparr>sm_rpc := mdel i (sm_rpc m)\<rparr>))"

definition expired :: "int \<Rightarrow> session \<Rightarrow> bool" where
  "expired now s \<longleftrightarrow> se_CreatedAt s < now - 1800000000000"

definition Cleanup :: "int \<Rightarrow> session_manager \<Rightarrow> session_manager" where
  "Cleanup now m =
     (let old = map snd (filter (\<lambda>kr. expired now (sm_heap m (snd kr))) (sm_sessions m));
          m1 = m\<lparr>sm_sessions := filter (\<lambda>kr. \<not> expired now (sm_heap m (snd kr))) (sm_sessions m)\<rparr>
      in if old = [] then m1
         else m1\<lparr>sm_serial := filter (\<lambda>kr. snd kr \<notin> set old) (sm_serial m),
                 sm_rpc := filter (\<lambda>kr. snd kr \<notin> set old) (sm_rpc m)\<rparr>)"

subsection \<open>Adopting the work of an earlier session\<close>

definition in_flight :: "session \<Rightarrow> bool" where
  "in_flight s \<longleftrightarrow> se_currentTask s \<noteq> None \<or> se_wanProvision s \<noteq> None \<or> se_addObjFollowUp s \<noteq> None"

definition take_over :: "session \<Rightarrow> session \<Rightarrow> session" where
  "take_over prev s =
     (if se_currentTask s \<noteq> None then s
      else s\<lparr>se_currentTask := se_currentTask prev,
             se_wanProvision := se_wanProvision prev,
             se_addObjFollowUp := se_addObjFollowUp prev,
             se_pendingProvisionMark := (se_pendingProvisionMark prev \<or> se_pendingProvisionMark s),
             se_lastSetParams := (if se_lastSetParams prev \<noteq> [] then se_lastSetParams prev else se_lastSetParams s),
             se_pendingWANCredentials :=
               (if se_pendingWANCredentials prev \<noteq> [] then se_pendingWANCredentials prev
                else se_pendingWANCredentials s)\<rparr>)"

definition clear_moved :: "session \<Rightarrow> session" where
  "clear_moved s = s\<lparr>se_currentTask := None, se_wanProvision := None, se_addObjFollowUp := None,
     se_lastSetParams := [], se_pendingProvisionMark := False, se_pendingWANCredentials := []\<rparr>"

definition adoptInFlightBySerial :: "string \<Rightarrow> nat \<Rightarrow> session_manager \<Rightarrow> bool \<times> session_manager" where
  "adoptInFlightBySerial serial cur m =
     (case GetBySerial serial m of
        None \<Rightarrow> (False, m)
      | Some p \<Rightarrow>
          let prev = sm_heap m p in
          if p = cur \<or> \<not> in_flight prev then (False, m)
          else let m1 = update_session cur (take_over prev) m;
                   m2 = update_session p clear_moved m1
               in (True, if se_ID prev \<noteq> [] then Delete_session (se_ID prev) m2 else m2))"

subsection \<open>Facts on the manager\<close>

named_theorems manager_simps \<open>selectors after each operation of the manager\<close>

lemma update_session_sel [manager_simps]:
  "sm_sessions (update_session r f m) = sm_sessions m"
  "sm_serial (update_session r f m) = sm_serial m"
  "sm_rpc (update_session r f m) = sm_rpc m"
  "sm_next (update_session r f m) = sm_next m"
  "sm_heap (update_session r f m) a = (if a = r then f (sm_heap m r) else sm_heap m a)"
  by (simp_all add: update_session_def)

lemma Delete_session_sel [manager_simps]:
  "sm_sessions (Delete_session i m) = mdel i (sm_sessions m)"
  "sm_serial (Delete_session i m) = sm_serial m"
  "sm_rpc (Delete_session i m) = sm_rpc m"
  "sm_next (Delete_session i m) = sm_next m"
  "sm_heap (Delete_session i m) = sm_heap m"
  by (simp_all add: Delete_session_def)

lemma BindSerial_sel [manager_simps]:
  "sm_sessions (BindSerial k r m) = sm_sessions m"
  "sm_rpc (BindSerial k r m) = sm_rpc m"
  "sm_next (BindSerial k r m) = sm_next m"
  "sm_heap (BindSerial k r m) = sm_heap m"
  "sm_serial (BindSerial k r m) = (if k = [] then sm_serial m else mput k r (sm_serial m))"
  by (simp_all add: BindSerial_def)

lemma BindRPCID_sel [manager_simps]:
  "sm_sessions (BindRPCID k r m) = sm_sessions m"
  "sm_serial (BindRPCID k r m) = sm_serial m"
  "sm_next (BindRPCID k r m) = sm_next m"
  "sm_heap (BindRPCID k r m) = sm_heap m"
  "sm_rpc (BindRPCID k r m) = (if k = [] then sm_rpc m else mput k r (sm_rpc m))"
  by (simp_all add: BindRPCID_def)

lemma TakeByRPCID_sel [manager_simps]:
  "sm_sessions (snd (TakeByRPCID k m)) = sm_sessions m"
  "sm_serial (snd (TakeByRPCID k m)) = sm_serial m"
  "sm_next (snd (TakeByRPCID k m)) = sm_next m"
  "sm_heap (snd (TakeByRPCID k m)) = sm_heap m"
  "wf_map (sm_rpc m) \<Longrightarrow> wf_map (sm_rpc (snd (TakeByRPCID k m)))"
  "map_of (sm_rpc (snd (TakeByRPCID k m))) = (if k = [] then map_of (sm_rpc m) else (map_of (sm_rpc m))(k := None))"
  "fst (TakeByRPCID k m) = (if k = [] then None else map_of (sm_rpc m) k)"
  by (auto simp: TakeByRPCID_def fun_eq_iff split: option.splits)

text \<open>
  A well-formed manager: references point to allocated sessions, and a session is filed under its
  own id. Sessions that were never allocated are empty, and each index has a key at most once.
\<close>

definition manager_ok :: "session_manager \<Rightarrow> bool" where
  "manager_ok m \<longleftrightarrow>
     (\<forall>i r. map_of (sm_sessions m) i = Some r \<longrightarrow> r < sm_next m \<and> se_ID (sm_heap m r) = i) \<and>
     (\<forall>k r. map_of (sm_serial m) k = Some r \<longrightarrow> r < sm_next m) \<and>
     (\<forall>k r. map_of (sm_rpc m) k = Some r \<longrightarrow> r < sm_next m) \<and>
     (\<forall>r. sm_next m \<le> r \<longrightarrow> se_currentTask (sm_heap m r) = None) \<and>
     wf_map (sm_sessions m) \<and> wf_map (sm_serial m) \<and> wf_map (sm_rpc m)"

text \<open>No task is in flight in two sessions.\<close>

definition in_flight_id :: "session \<Rightarrow> string option" where
  "in_flight_id s = map_option t_ID (se_currentTask s)"

definition single_owner :: "session_manager \<Rightarrow> bool" where
  "single_owner m \<longleftrightarrow>
     (\<forall>a b. a \<noteq> b \<longrightarrow> in_flight_id (sm_heap m a) \<noteq> None \<longrightarrow>
        in_flight_id (sm_heap m a) \<noteq> in_flight_id (sm_heap m b))"

lemma manager_ok_empty: "manager_ok empty_manager"
  by (simp add: manager_ok_def empty_manager_def new_session_def)

lemma GetOrCreate_ok:
  assumes "manager_ok m"
  shows "manager_ok (snd (GetOrCreate now i m)) \<and>
     map_of (sm_sessions (snd (GetOrCreate now i m))) i = Some (fst (GetOrCreate now i m))"
  using assms by (fastforce simp: GetOrCreate_def manager_ok_def new_session_def split: option.splits)

lemma GetOrCreate_owner: "single_owner m \<Longrightarrow> single_owner (snd (GetOrCreate now i m))"
  by (auto simp: GetOrCreate_def single_owner_def in_flight_id_def new_session_def split: option.splits)

lemma update_session_ok:
  assumes "manager_ok m" and "r < sm_next m" and "se_ID (f (sm_heap m r)) = se_ID (sm_heap m r)"
  shows "manager_ok (update_session r f m)"
  using assms by (auto simp: manager_ok_def manager_simps)

lemma index_ops_ok:
  assumes "manager_ok m"
  shows "manager_ok (Delete_session i m)" "r < sm_next m \<Longrightarrow> manager_ok (BindSerial k r m)"
    "r < sm_next m \<Longrightarrow> manager_ok (BindRPCID k r m)" "manager_ok (snd (TakeByRPCID k m))"
  using assms by (auto simp: manager_ok_def manager_simps split: if_splits)

lemma map_of_filter_val:
  assumes "wf_map m"
  shows "map_of (filter (\<lambda>kr. P (snd kr)) m) k = (case map_of m k of Some v \<Rightarrow> if P v then Some v else None | None \<Rightarrow> None)"
  using assms
proof (induction m)
  case Nil
  then show ?case by simp
next
  case (Cons x m)
  then have "map_of m (fst x) = None" by (simp add: wf_map_def map_of_eq_None_iff)
  with Cons show ?case by (auto simp: wf_map_def split: option.splits)
qed

text \<open>\<^verbatim>\<open>adoptInFlightBySerial\<close>: what moves, and what every other session keeps.\<close>

lemma adopt_heap:
  assumes "adoptInFlightBySerial serial cur m = (b, m')"
  shows "sm_heap m' = (if b
      then (sm_heap m)(cur := take_over (sm_heap m (the (GetBySerial serial m))) (sm_heap m cur),
             the (GetBySerial serial m) := clear_moved (sm_heap m (the (GetBySerial serial m))))
      else sm_heap m)"
  using assms
  by (auto simp: adoptInFlightBySerial_def manager_simps fun_eq_iff Let_def split: option.splits if_splits)

lemma adopt_moves:
  assumes "GetBySerial serial m = Some p" and "p \<noteq> cur" and "in_flight (sm_heap m p)"
    and "se_currentTask (sm_heap m cur) = None"
  shows "fst (adoptInFlightBySerial serial cur m)
    \<and> (let m' = snd (adoptInFlightBySerial serial cur m) in
        se_currentTask (sm_heap m' cur) = se_currentTask (sm_heap m p) \<and>
        se_wanProvision (sm_heap m' cur) = se_wanProvision (sm_heap m p) \<and>
        se_addObjFollowUp (sm_heap m' cur) = se_addObjFollowUp (sm_heap m p) \<and>
        \<not> in_flight (sm_heap m' p) \<and>
        (\<forall>r. r \<noteq> p \<and> r \<noteq> cur \<longrightarrow> sm_heap m' r = sm_heap m r))"
  using assms
  by (auto simp: adoptInFlightBySerial_def manager_simps Let_def take_over_def clear_moved_def in_flight_def)

lemma adopt_owner:
  assumes "single_owner m" and "adoptInFlightBySerial serial cur m = (b, m')"
  shows "single_owner m'"
proof (cases b)
  case False
  then show ?thesis using assms by (simp add: single_owner_def adopt_heap [OF assms(2)])
next
  case True
  then obtain p where p: "GetBySerial serial m = Some p" "p \<noteq> cur"
    using assms(2) by (auto simp: adoptInFlightBySerial_def Let_def split: option.splits if_splits)
  have heap: "sm_heap m' = (sm_heap m)(cur := take_over (sm_heap m p) (sm_heap m cur),
      p := clear_moved (sm_heap m p))"
    using adopt_heap [OF assms(2)] True p by simp
  have p_none: "in_flight_id (sm_heap m' p) = None"
    by (simp add: heap in_flight_id_def clear_moved_def)
  have cur_from: "in_flight_id (sm_heap m' cur) \<in> {in_flight_id (sm_heap m cur), in_flight_id (sm_heap m p)}"
    using p by (simp add: heap in_flight_id_def take_over_def)
  have rest: "in_flight_id (sm_heap m' r) = in_flight_id (sm_heap m r)" if "r \<noteq> p" "r \<noteq> cur" for r
    using that by (simp add: heap)
  show ?thesis
    unfolding single_owner_def
  proof (intro allI impI)
    fix a b
    assume ab: "a \<noteq> b" "in_flight_id (sm_heap m' a) \<noteq> None"
    then show "in_flight_id (sm_heap m' a) \<noteq> in_flight_id (sm_heap m' b)"
      using assms(1) p p_none cur_from rest [of a] rest [of b]
      unfolding single_owner_def by (cases "a = cur"; cases "b = cur"; cases "b = p"; cases "a = p") (metis insertE singletonD)+
  qed
qed

lemma adopt_ok:
  assumes "manager_ok m" and "cur < sm_next m" and "adoptInFlightBySerial serial cur m = (b, m')"
  shows "manager_ok m' \<and> sm_next m' = sm_next m"
  using assms
  by (auto simp: adoptInFlightBySerial_def Let_def GetBySerial_def take_over_def clear_moved_def manager_ok_def
      manager_simps split: option.splits if_splits)

text \<open>
  Cleanup: what survives under an id is a session that is not expired; the bindings of the sessions
  it removes go with them.
\<close>

lemma cleanup_sessions:
  assumes "wf_map (sm_sessions m)"
  shows "map_of (sm_sessions (Cleanup now m)) i =
     (case map_of (sm_sessions m) i of None \<Rightarrow> None
      | Some r \<Rightarrow> if expired now (sm_heap m r) then None else Some r)"
  using map_of_filter_val [OF assms, of "\<lambda>r. \<not> expired now (sm_heap m r)" i]
  by (simp add: Cleanup_def Let_def split: option.splits)

lemma cleanup_bindings:
  assumes "wf_map (sm_sessions m)" and "wf_map (sm_serial m)"
    and "map_of (sm_sessions m) i = Some r" and "expired now (sm_heap m r)"
  shows "map_of (sm_serial (Cleanup now m)) k \<noteq> Some r"
proof -
  let ?old = "map snd (filter (\<lambda>kr. expired now (sm_heap m (snd kr))) (sm_sessions m))"
  have old: "r \<in> set ?old" using assms(3,4) by (force dest: map_of_SomeD)
  then have "?old \<noteq> []" by (metis empty_iff list.set(1))
  then have "sm_serial (Cleanup now m) = filter (\<lambda>kr. snd kr \<notin> set ?old) (sm_serial m)"
    unfolding Cleanup_def Let_def by (simp only: if_False) simp
  then show ?thesis
    using map_of_filter_val [OF assms(2), of "\<lambda>r. r \<notin> set ?old" k] old
    by (simp split: option.splits) blast
qed

text \<open>
  A session that was deleted under its own id is not seen by Cleanup any more: its binding by
  serial, and the session with it, stay for ever.
\<close>

lemma deleted_session_stays_bound:
  "let (r, m1) = GetOrCreate 0 ''c'' empty_manager;
       m2 = Delete_session ''c'' (BindSerial ''S'' r m1)
   in GetBySerial ''S'' (Cleanup 99000000000000 m2) = Some r \<and> expired 99000000000000 (sm_heap m2 r)"
  by code_simp

subsection \<open>The server around the sessions\<close>

text \<open>
  What the goroutines a request starts will do: fill missing fields of the device document from the
  stored parameters, record the parameters of an Inform, save a snapshot before a reboot.
\<close>

datatype job =
    JobBackfill string device string
  | JobRecord string params
  | JobPreReset string

record world =
  w_queue :: redis
  w_devices :: device_db
  w_repo :: param_repo
  w_jobs :: "job list"
  w_lastSummon :: "(string, int) gomap"
  w_full :: "string list"

text \<open>
  What a request brings: the clock, read once, the identifiers the libraries generate in it, the
  configuration, and the parser of JSON texts, for the one text a request parses that is not kept as
  a tree.
\<close>

record env =
  e_now :: int
  e_sid :: string
  e_resp :: string
  e_rpc :: string
  e_oid :: string
  e_queue :: queue_cfg
  e_schemas :: registry
  e_drivers :: "driver_registry option"
  e_json :: "string \<Rightarrow> json option"

text \<open>
  The reply to a request: an envelope of the session, a SOAP fault (id, fault code, CWMP code and
  message), the answer to a TransferComplete, an empty 204, an HTTP error, or a panic, which the
  HTTP server turns into a closed connection.
\<close>

datatype reply =
    RXml envelope
  | RFault string string string string
  | RTransferComplete string
  | RNoContent
  | RHttpError nat
  | RPanic

definition queue_update :: "env \<Rightarrow> task \<Rightarrow> world \<Rightarrow> bool \<times> world" where
  "queue_update e t w =
     (case UpdateStatus (e_queue e) t (w_queue w) of (err, q) \<Rightarrow> (err = None, w\<lparr>w_queue := q\<rparr>))"

definition queue_enqueue :: "env \<Rightarrow> task \<Rightarrow> world \<Rightarrow> bool \<times> world" where
  "queue_enqueue e t w =
     (case Enqueue (e_queue e) t (w_queue w) of
        (Inl _, q) \<Rightarrow> (False, w\<lparr>w_queue := q\<rparr>) | (Inr _, q) \<Rightarrow> (True, w\<lparr>w_queue := q\<rparr>))"

definition store_params :: "env \<Rightarrow> string \<Rightarrow> params \<Rightarrow> world \<Rightarrow> world" where
  "store_params e serial ps w = w\<lparr>w_repo := snd (pr_UpdateParameters (e_now e) serial ps (w_repo w))\<rparr>"

definition update_info :: "env \<Rightarrow> string \<Rightarrow> info_update \<Rightarrow> world \<Rightarrow> world" where
  "update_info e serial u w = w\<lparr>w_devices := snd (UpdateInfo (e_now e) serial u (w_devices w))\<rparr>"
end
