(* ===== verification/Execute.thy ===== *)
theory Execute
  imports Session
begin
section \<open>From a task to a request\<close>

text \<open>
  \<^verbatim>\<open>executeTask\<close> of internal/cwmp/session.go with the helpers it calls: the request a
  task becomes on the device of the session, and the state a multi-step task leaves in the session.
  The requests of a provisioning flow carry a fresh id, all others the id of the task.
\<close>

text \<open>
  An error text; an envelope the dispatcher sends and whose task becomes the current one; an
  envelope that was written already; a panic (a path asked of a mapper that is not there).
\<close>

datatype exec_result = ExError string | ExSend envelope | ExWritten envelope | ExPanic

definition buildSetParamsXML :: "string \<Rightarrow> params \<Rightarrow> session \<Rightarrow> exec_result \<times> session" where
  "buildSetParamsXML i ps s = (ExSend (BuildSetParameterValues i ps), s\<lparr>se_lastSetParams := ps\<rparr>)"

definition with_mapper :: "session \<Rightarrow> (mapper \<Rightarrow> exec_result \<times> session) \<Rightarrow> exec_result \<times> session" where
  "with_mapper s f = (case deref (se_mapper s) of None \<Rightarrow> (ExPanic, s) | Some m \<Rightarrow> f m)"

text \<open>
  The executor of package task on the mapper of the session: only a payload error and the types that
  ask for no path do without one.
\<close>

definition build_set :: "task \<Rightarrow> session \<Rightarrow> (string + params option) option" where
  "build_set t s =
     (case deref (se_mapper s) of
        Some m \<Rightarrow> Some (BuildSetParams t m)
      | None \<Rightarrow>
          (case BuildSetParams t (NewMapper TR181) of
             Inl err \<Rightarrow> Some (Inl err)
           | Inr ps \<Rightarrow> if ps = None \<or> t_Type t = TypeSetParams then Some (Inr ps) else None))"

definition build_get :: "task \<Rightarrow> session \<Rightarrow> (string + string list option) option" where
  "build_get t s =
     (case deref (se_mapper s) of
        Some m \<Rightarrow> Some (BuildGetParams t m)
      | None \<Rightarrow>
          (case BuildGetParams t (NewMapper TR181) of
             Inl err \<Rightarrow> Some (Inl err)
           | Inr ns \<Rightarrow> if ns = None \<or> t_Type t = TypeGetParams then Some (Inr ns) else None))"

subsection \<open>WAN tasks\<close>

definition or_one :: "int \<Rightarrow> int" where "or_one i = (if i = 0 then 1 else i)"

definition wan_is_pppoe :: "wan_payload \<Rightarrow> bool" where
  "wan_is_pppoe p =
     (let connType = trim_space (to_lower (wn_ConnectionType p)) in
      connType = ''pppoe'' \<or>
      (connType = [] \<and> (wn_Username p \<noteq> [] \<or> wn_Password p \<noteq> [] \<or> wn_VLAN p > 0)))"

definition tr098_provisioned :: "instance_map \<Rightarrow> bool" where
  "tr098_provisioned im \<longleftrightarrow> im_WANPPPConnIdx im > 0"

definition tr181_provisioned :: "instance_map \<Rightarrow> bool" where
  "tr181_provisioned im \<longleftrightarrow> im_WANIPIfaceIdx im > 0 \<and> im_PPPIfaceIdx im > 0"

definition wan_index_vars :: "instance_map \<Rightarrow> params" where
  "wan_index_vars im =
     [(''wan_dev'', itoa (or_one (im_WANDeviceIdx im))), (''wan_conn'', itoa (or_one (im_WANConnDevIdx im))),
      (''wan_ip_conn'', itoa (or_one (im_WANIPConnIdx im))),
      (''wan_ppp_conn'', itoa (or_one (im_WANPPPConnIdx im)))]"

definition with_ip_mode :: "wan_payload \<Rightarrow> driver \<Rightarrow> params \<Rightarrow> params" where
  "with_ip_mode p d vars =
     mput_if (resolveWANIPMode p (Some d) \<noteq> []) ''wan_ip_mode'' (resolveWANIPMode p (Some d)) vars"

definition wan_new_vars :: "wan_payload \<Rightarrow> instance_map \<Rightarrow> driver \<Rightarrow> params" where
  "wan_new_vars p im d =
     (let mtu = (if wn_MTU p > 0 then itoa (wn_MTU p)
                 else if mget (dv_Config d) ''default_mtu'' \<noteq> [] then mget (dv_Config d) ''default_mtu''
                 else ''1492'')
      in with_ip_mode p d
           ([(''vlan_id'', itoa (wn_VLAN p)), (''username'', wn_Username p), (''password'', wn_Password p),
             (''gpon_idx'', itoa (im_FreeGPONLinkIdx im))] @ wan_index_vars im @
            [(''ipv6_enabled'', wanIPv6EnabledStr p), (''mtu'', mtu)]))"

text \<open>A provisioning flow starts: it and its task go into the session, then its first request is built.\<close>

definition start_provision :: "env \<Rightarrow> task \<Rightarrow> wan_payload \<Rightarrow> wan_provision \<Rightarrow> session \<Rightarrow> exec_result \<times> session" where
  "start_provision e t p wp s0 =
     (let s = s0\<lparr>se_wanProvision := Some wp, se_currentTask := Some t,
                 se_pendingWANCredentials := buildWANCredentialMap p\<rparr>
      in case buildCurrentXML (e_rpc e) wp of
           Inl err \<Rightarrow> (ExError err, s)
         | Inr x \<Rightarrow> (ExWritten x, s))"

definition exec_wan_generic :: "task \<Rightarrow> wan_payload \<Rightarrow> session \<Rightarrow> exec_result \<times> session" where
  "exec_wan_generic t p s =
     with_mapper s (\<lambda>m.
       case buildGenericWANParams p (wan_path_of m WANPPPoEUserPath) (wan_path_of m WANPPPoEPassPath) of
         Inl err \<Rightarrow> (ExError err, s)
       | Inr ps \<Rightarrow>
           buildSetParamsXML (t_ID t) ps (s\<lparr>se_pendingWANCredentials := buildWANCredentialMap p\<rparr>))"

definition exec_wan_new :: "env \<Rightarrow> task \<Rightarrow> wan_payload \<Rightarrow> session \<Rightarrow> exec_result \<times> session" where
  "exec_wan_new e t p s =
     (let im = se_instanceMap s in
      if wn_VLAN p = 0 then (ExError ''WAN full provisioning requires VLAN ID'', s)
      else if wn_Username p = [] then (ExError ''WAN full provisioning requires PPPoE username'', s)
      else
        case se_driver s of
          Some d \<Rightarrow>
            if GetProvisionFlow (Some d) ''wan_pppoe_new'' \<noteq> None then
              (case newWANProvisionFromDriver t d ''wan_pppoe_new'' (wan_new_vars p im d) of
                 Inl err \<Rightarrow> (ExError (''create driver provision flow: '' @ err), s)
               | Inr wp \<Rightarrow> start_provision e t p wp s)
            else with_mapper s (\<lambda>m.
              if WANProvisioningType m = ''add_object''
              then start_provision e t p
                (newWANProvision t (im_FreeGPONLinkIdx im) (wn_VLAN p) (wn_Username p) (wn_Password p)) s
              else exec_wan_generic t p s)
        | None \<Rightarrow> with_mapper s (\<lambda>m.
            if WANProvisioningType m = ''add_object''
            then start_provision e t p
              (newWANProvision t (im_FreeGPONLinkIdx im) (wn_VLAN p) (wn_Username p) (wn_Password p)) s
            else exec_wan_generic t p s))"

definition wan_update_vars :: "wan_payload \<Rightarrow> instance_map \<Rightarrow> driver \<Rightarrow> params" where
  "wan_update_vars p im d =
     with_ip_mode p d
       ([(''ip_iface_idx'', itoa (im_WANIPIfaceIdx im)), (''ppp_iface_idx'', itoa (im_PPPIfaceIdx im)),
         (''username'', wn_Username p), (''password'', wn_Password p)] @ wan_index_vars im @
        [(''ipv6_enabled'', wanIPv6EnabledStr p)])"

text \<open>The parameters when no driver is loaded.\<close>

definition wan_fallback_params :: "wan_payload \<Rightarrow> instance_map \<Rightarrow> bool \<Rightarrow> mapper \<Rightarrow> params" where
  "wan_fallback_params p im vlanChanging m =
     (let ps = mput_if (wn_Username p \<noteq> []) (wan_path_of m WANPPPoEUserPath) (wn_Username p) [];
          ps = mput_if (wn_Password p \<noteq> []) (wan_path_of m WANPPPoEPassPath) (wn_Password p) ps;
          tagged = (vlanChanging \<and> im_WANVLANTermIdx im > 0);
          ps = mput_if tagged (''Device.Ethernet.VLANTermination.'' @ itoa (im_WANVLANTermIdx im) @ ''.VLANID'')
                 (itoa (wn_VLAN p)) ps;
          ps = mput_if tagged (''Device.IP.Interface.'' @ itoa (im_WANIPIfaceIdx im) @ ''.Enable'') ''0'' ps;
          ppp = im_PPPIfaceIdx im > 0;
          ps = mput_if ppp (''Device.PPP.Interface.'' @ itoa (im_PPPIfaceIdx im) @ ''.AuthenticationProtocol'')
                 ''AUTO_AUTH'' ps;
          ps = mput_if ppp (''Device.PPP.Interface.'' @ itoa (im_PPPIfaceIdx im) @ ''.Enable'') ''1'' ps
      in mput_if (im_WANIPIfaceIdx im > 0) (''Device.IP.Interface.'' @ itoa (im_WANIPIfaceIdx im) @ ''.Enable'')
           ''1'' ps)"

text \<open>Whether the fallback asks the mapper for a path.\<close>

definition exec_wan_fallback :: "task \<Rightarrow> wan_payload \<Rightarrow> bool \<Rightarrow> session \<Rightarrow> exec_result \<times> session" where
  "exec_wan_fallback t p vlanChanging s =
     (let send = (\<lambda>ps. if ps = [] then (ExError ''WAN update fallback: no parameters could be built'', s)
                 else buildSetParamsXML (t_ID t) ps (s\<lparr>se_pendingWANCredentials := buildWANCredentialMap p\<rparr>))
      in if wn_Username p = [] \<and> wn_Password p = []
         then send (wan_fallback_params p (se_instanceMap s) vlanChanging (NewMapper TR181))
         else with_mapper s (\<lambda>m. send (wan_fallback_params p (se_instanceMap s) vlanChanging m)))"

definition exec_wan_update :: "env \<Rightarrow> task \<Rightarrow> wan_payload \<Rightarrow> session \<Rightarrow> exec_result \<times> session" where
  "exec_wan_update e t p s =
     (let im = se_instanceMap s;
          vlanChanging = (wn_VLAN p > 0 \<and> wn_VLAN p \<noteq> im_WANCurrentVLAN im);
          credentialsChanging = (wn_Username p \<noteq> [] \<or> wn_Password p \<noteq> [])
      in if vlanChanging \<and> wn_Username p = []
         then (ExError ''WAN PPPoE VLAN change requires PPPoE username'', s)
         else if \<not> vlanChanging \<and> \<not> credentialsChanging
         then (ExError ''WAN update: no credentials or VLAN change provided'', s)
         else case se_driver s of
                None \<Rightarrow> exec_wan_fallback t p vlanChanging s
              | Some d \<Rightarrow>
                  if vlanChanging \<and> tr181_provisioned im \<and>
                     (im_WANIPIfaceIdx im = 0 \<or> im_PPPIfaceIdx im = 0 \<or> im_WANVLANTermIdx im = 0)
                  then (ExError ''WAN PPPoE VLAN change requires instance map'', s)
                  else
                    let flowName = (if vlanChanging then ''wan_pppoe_update_vlan'' else ''wan_pppoe_update'');
                        vars0 = wan_update_vars p im d;
                        vars = (if vlanChanging
                                then mput ''vlan_term_idx'' (itoa (im_WANVLANTermIdx im))
                                       (mput ''vlan_id'' (itoa (wn_VLAN p)) vars0)
                                else vars0)
                    in case newWANProvisionFromDriver t d flowName vars of
                         Inl err \<Rightarrow> (ExError (''create driver WAN update flow: '' @ err), s)
                       | Inr wp \<Rightarrow> start_provision e t p wp s)"

definition exec_set_params :: "task \<Rightarrow> session \<Rightarrow> exec_result \<times> session" where
  "exec_set_params t s =
     (case build_set t s of
        None \<Rightarrow> (ExPanic, s)
      | Some (Inl err) \<Rightarrow> (ExError err, s)
      | Some (Inr None) \<Rightarrow> (ExError ''task produced no parameters'', s)
      | Some (Inr (Some ps)) \<Rightarrow>
          if ps = [] then (ExError ''task produced no parameters'', s) else buildSetParamsXML (t_ID t) ps s)"

definition exec_wan :: "env \<Rightarrow> task \<Rightarrow> session \<Rightarrow> exec_result \<times> session" where
  "exec_wan e t s =
     (case decode_wan_payload (t_Payload t) of
        None \<Rightarrow> (ExError ''unmarshal wan payload'', s)
      | Some p \<Rightarrow>
          let im = se_instanceMap s in
          if wan_is_pppoe p then
            (if tr098_provisioned im \<or> tr181_provisioned im then exec_wan_update e t p s
             else exec_wan_new e t p s)
          else exec_set_params t s)"

subsection \<open>WiFi tasks\<close>

definition value_if_path :: "string \<Rightarrow> string \<Rightarrow> string" where
  "value_if_path path v = (if trim_space path = [] then [] else v)"

definition wifi_security :: "wifi_payload \<Rightarrow> driver \<Rightarrow> string" where
  "wifi_security p d =
     (if wf_Security p \<noteq> [] then
        (if wf_Security p = ''None'' then ''None'' else MapSecurityMode (Some d) (wf_Security p))
      else if wf_Password p \<noteq> [] then MapSecurityMode (Some d) ''WPA2-PSK''
      else [])"

definition opt_bool_text :: "bool option \<Rightarrow> string" where
  "opt_bool_text b = (case b of None \<Rightarrow> [] | Some b \<Rightarrow> format_bool b)"

definition wifi_vars :: "wifi_payload \<Rightarrow> driver \<Rightarrow> mapper \<Rightarrow> params" where
  "wifi_vars p d m =
     (let band = (if wf_Band p = ''5'' then 1 else 0);
          other = (if band = 1 then 0 else (1 :: nat));
          security = wifi_security p d;
          password = (if security = ''None'' then [] else wf_Password p);
          path = (\<lambda>q b. trim_space (wifi_path_of m q b));
          steerPath = trim_space (wd_BandSteeringPath (dv_WiFi d));
          steer = (if steerPath \<noteq> [] then opt_bool_text (wf_BandSteeringEnabled p) else []);
          sync = (wf_BandSteeringEnabled p = Some True);
          syncPath = (\<lambda>q. if sync then path q other else []);
          synced = (\<lambda>q v. value_if_path (syncPath q) (if sync then v else []));
          pair = (\<lambda>q v. value_if_path (path q band) v)
      in [(''band_steering_path'', steerPath), (''band_steering_enabled'', value_if_path steerPath steer),
          (''ssid_path'', path WiFiSSIDPath band), (''ssid'', pair WiFiSSIDPath (wf_SSID p)),
          (''security_path'', path WiFiSecurityModePath band), (''security_mode'', pair WiFiSecurityModePath security),
          (''password_path'', path WiFiPasswordPath band), (''password'', pair WiFiPasswordPath password),
          (''enabled_path'', path WiFiEnabledPath band),
          (''enabled'', pair WiFiEnabledPath (opt_bool_text (wf_Enabled p))),
          (''channel_path'', path WiFiChannelPath band),
          (''channel'', pair WiFiChannelPath (if wf_Channel p \<noteq> 0 then itoa (wf_Channel p) else [])),
          (''sync_ssid_path'', syncPath WiFiSSIDPath), (''sync_ssid'', synced WiFiSSIDPath (wf_SSID p)),
          (''sync_security_path'', syncPath WiFiSecurityModePath),
          (''sync_security_mode'', synced WiFiSecurityModePath security),
          (''sync_password_path'', syncPath WiFiPasswordPath),
          (''sync_password'', synced WiFiPasswordPath password)])"

definition buildWiFiParamsFromDriverFlow :: "driver \<Rightarrow> mapper \<Rightarrow> wifi_payload \<Rightarrow> string + params" where
  "buildWiFiParamsFromDriverFlow d m p =
     (case GetProvisionFlow (Some d) ''wifi_update'' of
        None \<Rightarrow> Inl ''driver has no provision flow''
      | Some flow \<Rightarrow>
          (case CurrentStep (NewProvisionExecutor flow (Some d) (wifi_vars p d m)) of
             None \<Rightarrow> Inl ''driver wifi flow has no executable step''
           | Some st \<Rightarrow>
               if rs_Kind st \<noteq> StepSet then Inl ''driver wifi flow must start with set step''
               else Inr (rs_Params st)))"

definition exec_wifi :: "task \<Rightarrow> session \<Rightarrow> exec_result \<times> session" where
  "exec_wifi t s =
     (case decode_wifi_payload (t_Payload t) of
        None \<Rightarrow> (ExError ''unmarshal wifi payload'', s)
      | Some p \<Rightarrow>
          (case se_driver s of
             None \<Rightarrow> (ExError ''wifi update requires device driver'', s)
           | Some d \<Rightarrow>
               if GetProvisionFlow (Some d) ''wifi_update'' = None
               then (ExError ''wifi update flow not found in driver'', s)
               else with_mapper s (\<lambda>m.
                 case buildWiFiParamsFromDriverFlow d m p of
                   Inl err \<Rightarrow> (ExError err, s)
                 | Inr ps \<Rightarrow>
                     if ps = [] then (ExError ''task produced no parameters'', s)
                     else buildSetParamsXML (t_ID t) ps s)))"

subsection \<open>The other tasks\<close>

definition diagnosticStatePath :: "string \<Rightarrow> mapper \<Rightarrow> string" where
  "diagnosticStatePath diagType m =
     (if to_lower diagType = ''traceroute'' then sys_path_of m TracerouteDiagBasePath @ ''DiagnosticsState''
      else sys_path_of m PingDiagBasePath @ ''DiagnosticsState'')"

text \<open>
  The executor has no parameters for the legacy diagnostic type, so the state parameter is what is
  sent.
\<close>

definition exec_diagnostic :: "task \<Rightarrow> session \<Rightarrow> exec_result \<times> session" where
  "exec_diagnostic t s =
     (case decode_diagnostic_payload (t_Payload t) of
        None \<Rightarrow> (ExError ''unmarshal diagnostic payload'', s)
      | Some p \<Rightarrow>
          (case build_set t s of
             None \<Rightarrow> (ExPanic, s)
           | Some r \<Rightarrow>
               let ps = (case r of Inr (Some ps) \<Rightarrow> ps | _ \<Rightarrow> []) in
               if ps \<noteq> [] then (ExSend (BuildSetParameterValues (t_ID t) ps), s)
               else with_mapper s (\<lambda>m.
                 (ExSend (BuildSetParameterValues (t_ID t)
                    [(diagnosticStatePath (dg_DiagType p) m, ''Requested'')]), s))))"

definition exec_get :: "task \<Rightarrow> session \<Rightarrow> exec_result \<times> session" where
  "exec_get t s =
     (case build_get t s of
        None \<Rightarrow> (ExPanic, s)
      | Some (Inl err) \<Rightarrow> (ExError err, s)
      | Some (Inr ns) \<Rightarrow>
          let names = (case ns of None \<Rightarrow> [] | Some ns \<Rightarrow> ns) in
          if names = [] then (ExError ''task has no parameter names'', s)
          else (ExSend (BuildGetParameterValues (t_ID t) names), s))"

definition exec_diag_result :: "task \<Rightarrow> session \<Rightarrow> exec_result \<times> session" where
  "exec_diag_result t s =
     (case decode_diag_result_payload (t_Payload t) of
        None \<Rightarrow> (ExError ''unmarshal GetDiagResultPayload'', s)
      | Some p \<Rightarrow>
          if dr_Paths p = [] then (ExError ''GetDiagResult task has no paths'', s)
          else (ExSend (BuildGetParameterValues (t_ID t) (dr_Paths p)), s))"

definition exec_portfwd :: "task \<Rightarrow> session \<Rightarrow> exec_result \<times> session" where
  "exec_portfwd t s =
     (case decode_portfwd_payload (t_Payload t) of
        None \<Rightarrow> (ExError ''unmarshal port_forwarding payload'', s)
      | Some p \<Rightarrow>
          (case pf_Action p of
             PFAdd \<Rightarrow>
               with_mapper s (\<lambda>m.
                 let base = sys_path_of m PortMappingBasePath in
                 (ExWritten (BuildAddObject (t_ID t) base),
                  s\<lparr>se_currentTask := Some t,
                    se_addObjFollowUp := Some \<lparr> fu_base = base, fu_payload = p, fu_task = t_ID t \<rparr>\<rparr>))
           | PFRemove \<Rightarrow>
               if pf_InstanceNumber p \<le> 0
               then (ExError ''port_forwarding remove requires instance_number'', s)
               else with_mapper s (\<lambda>m.
                 (ExSend (BuildDeleteObject (t_ID t)
                    (sys_path_of m PortMappingBasePath @ itoa (pf_InstanceNumber p) @ ''.'')), s))
           | PFList \<Rightarrow> exec_get t s
           | PFOther a \<Rightarrow> (ExError ''unknown port_forwarding action'', s)))"

definition exec_firmware :: "task \<Rightarrow> session \<Rightarrow> exec_result \<times> session" where
  "exec_firmware t s =
     (case decode_firmware_payload (t_Payload t) of
        None \<Rightarrow> (ExError ''unmarshal firmware payload'', s)
      | Some p \<Rightarrow>
          (ExSend (BuildDownload (t_ID t)
             \<lparr> dl_CommandKey = t_ID t,
               dl_FileType = (if fw_FileType p = [] then ''1 Firmware Upgrade Image'' else fw_FileType p),
               dl_URL = fw_URL p, dl_Username = fw_Username p, dl_Password = fw_Password p,
               dl_FileSize = 0, dl_TargetFileName = [], dl_DelaySeconds = 0 \<rparr>), s))"

definition executeTask :: "env \<Rightarrow> task \<Rightarrow> session \<Rightarrow> exec_result \<times> session" where
  "executeTask e t s =
     (case t_Type t of
        TypeWAN \<Rightarrow> exec_wan e t s
      | TypeWifi \<Rightarrow> exec_wifi t s
      | TypeLAN \<Rightarrow> exec_set_params t s
      | TypeSetParams \<Rightarrow> exec_set_params t s
      | TypePingTest \<Rightarrow> exec_set_params t s
      | TypeTraceroute \<Rightarrow> exec_set_params t s
      | TypeSpeedTest \<Rightarrow> exec_set_params t s
      | TypeDiagnostic \<Rightarrow> exec_diagnostic t s
      | TypeGetParams \<Rightarrow> exec_get t s
      | TypeConnectedDevices \<Rightarrow> exec_get t s
      | TypeCPEStats \<Rightarrow> exec_get t s
      | TypeGetDiagResult \<Rightarrow> exec_diag_result t s
      | TypePortForwarding \<Rightarrow> exec_portfwd t s
      | TypeReboot \<Rightarrow> (ExSend (BuildReboot (t_ID t) (t_ID t)), s)
      | TypeFactoryReset \<Rightarrow> (ExSend (BuildFactoryReset (t_ID t)), s)
      | TypeFirmware \<Rightarrow> exec_firmware t s
      | _ \<Rightarrow> (ExError ''unknown task type'', s))"

text \<open>The goroutine a reboot starts.\<close>

definition task_jobs :: "task \<Rightarrow> session \<Rightarrow> job list" where
  "task_jobs t s = (if t_Type t = TypeReboot then [JobPreReset (se_DeviceSerial s)] else [])"

subsection \<open>Facts\<close>

lemmas exec_defs = exec_wan_def exec_wifi_def exec_set_params_def exec_diagnostic_def exec_get_def
  exec_diag_result_def exec_portfwd_def exec_firmware_def exec_wan_update_def exec_wan_new_def
  exec_wan_fallback_def exec_wan_generic_def start_provision_def buildSetParamsXML_def with_mapper_def

text \<open>
  What running a task may change in a session: the task in flight with its provisioning state or
  follow-up, and what is kept for when it succeeds.
\<close>

definition exec_frame :: "session \<Rightarrow> session \<Rightarrow> bool" where
  "exec_frame s s' \<longleftrightarrow>
     s' = s\<lparr>se_currentTask := se_currentTask s', se_wanProvision := se_wanProvision s',
            se_addObjFollowUp := se_addObjFollowUp s', se_lastSetParams := se_lastSetParams s',
            se_pendingWANCredentials := se_pendingWANCredentials s'\<rparr>"

lemma exec_frame_refl [simp]: "exec_frame s s"
  by (simp add: exec_frame_def)

lemma exec_frame_sel:
  assumes "exec_frame s s'"
  shows "se_pendingTasks s' = se_pendingTasks s" "se_ID s' = se_ID s" "se_mapper s' = se_mapper s"
    "se_DeviceSerial s' = se_DeviceSerial s" "se_driver s' = se_driver s" "se_State s' = se_State s"
    "se_summonPhase s' = se_summonPhase s" "se_instanceMap s' = se_instanceMap s"
    "se_pendingProvisionMark s' = se_pendingProvisionMark s" "se_CreatedAt s' = se_CreatedAt s"
    "se_summonAllNames s' = se_summonAllNames s" "se_summonBatchIdx s' = se_summonBatchIdx s"
    "se_summonSchemaName s' = se_summonSchemaName s"
  by (subst assms [unfolded exec_frame_def], simp)+

lemma exec_frame_with_mapper:
  "(\<And>m. exec_frame s (snd (f m))) \<Longrightarrow> exec_frame s (snd (with_mapper s f))"
  by (simp add: with_mapper_def split: option.splits)

lemma exec_frame_sends [simp]:
  "exec_frame s (snd (buildSetParamsXML i ps s))"
  "exec_frame s (snd (buildSetParamsXML i ps (s\<lparr>se_pendingWANCredentials := c\<rparr>)))"
  "exec_frame s (snd (start_provision e t p wp s))"
  by (simp_all add: exec_frame_def buildSetParamsXML_def start_provision_def Let_def split: sum.splits)

lemma exec_frame_wan:
  "exec_frame s (snd (exec_wan_generic t p s))"
  "exec_frame s (snd (exec_wan_new e t p s))"
  "exec_frame s (snd (exec_wan_fallback t p v s))"
  "exec_frame s (snd (exec_wan_update e t p s))"
proof -
  show generic: "exec_frame s (snd (exec_wan_generic t p s))"
    by (auto simp: exec_wan_generic_def intro!: exec_frame_with_mapper split: sum.splits)
  show "exec_frame s (snd (exec_wan_new e t p s))"
    using generic
    by (auto simp: exec_wan_new_def Let_def intro!: exec_frame_with_mapper split: sum.splits option.splits)
  show fallback: "exec_frame s (snd (exec_wan_fallback t p v s))" for v
    by (auto simp: exec_wan_fallback_def Let_def intro!: exec_frame_with_mapper)
  show "exec_frame s (snd (exec_wan_update e t p s))"
    using fallback by (auto simp: exec_wan_update_def Let_def split: sum.splits option.splits)
qed

lemma exec_frame_parts:
  "exec_frame s (snd (exec_set_params t s))" "exec_frame s (snd (exec_get t s))"
  "exec_frame s (snd (exec_wifi t s))" "exec_frame s (snd (exec_diagnostic t s))"
  "exec_frame s (snd (exec_diag_result t s))" "exec_frame s (snd (exec_firmware t s))"
  "exec_frame s (snd (exec_portfwd t s))" "exec_frame s (snd (exec_wan e t s))"
proof -
  show set: "exec_frame s (snd (exec_set_params t s))" and get: "exec_frame s (snd (exec_get t s))"
    by (auto simp: exec_set_params_def exec_get_def Let_def split: sum.splits option.splits)
  show "exec_frame s (snd (exec_wifi t s))" "exec_frame s (snd (exec_diagnostic t s))"
    "exec_frame s (snd (exec_diag_result t s))" "exec_frame s (snd (exec_firmware t s))"
    by (auto simp: exec_wifi_def exec_diagnostic_def exec_diag_result_def exec_firmware_def Let_def
        intro!: exec_frame_with_mapper split: sum.splits option.splits)
  show "exec_frame s (snd (exec_portfwd t s))"
    using get by (auto simp: exec_portfwd_def Let_def intro!: exec_frame_with_mapper
        split: option.splits portfwd_action.splits) (simp add: exec_frame_def)
  show "exec_frame s (snd (exec_wan e t s))"
    using set exec_frame_wan by (auto simp: exec_wan_def Let_def split: option.splits)
qed

lemma executeTask_frame: "exec_frame s (snd (executeTask e t s))"
  by (cases "t_Type t") (simp_all add: executeTask_def exec_frame_parts)

lemmas executeTask_keeps [simp] = exec_frame_sel [OF executeTask_frame]
end
