(* ===== verification/Dispatch.thy ===== *)
theory Dispatch
  imports Execute
begin
section \<open>Dispatching the tasks of a session\<close>

text \<open>
  How a session works off its pending tasks (internal/cwmp/session.go): marking a task as executing,
  building and sending its request, failing it when there is none, and closing the session when no
  task is left. The state is the session with the world around it. The two functions call each
  other; every call has fewer pending tasks, so a request of a device is always answered.
\<close>

subsection \<open>Completing a task\<close>

definition finished_task :: "int \<Rightarrow> json option \<Rightarrow> string \<Rightarrow> task \<Rightarrow> task" where
  "finished_task now result errMsg t =
     (if errMsg \<noteq> []
      then t\<lparr>t_CompletedAt := Some now, t_Status := StatusFailed, t_Error := errMsg\<rparr>
      else t\<lparr>t_CompletedAt := Some now, t_Status := StatusDone,
             t_Result := (if result = None then t_Result t else result)\<rparr>)"

definition completeTask :: "env \<Rightarrow> task \<Rightarrow> json option \<Rightarrow> string \<Rightarrow> world \<Rightarrow> world" where
  "completeTask e t result errMsg w = snd (queue_update e (finished_task (e_now e) result errMsg t) w)"

definition started_task :: "int \<Rightarrow> task \<Rightarrow> task" where
  "started_task now t =
     t\<lparr>t_Status := StatusExecuting, t_ExecutedAt := Some now, t_Attempts := wrap64 (t_Attempts t + 1)\<rparr>"

text \<open>Synthetic tasks are kept out of the queue.\<close>

definition mark_executing :: "env \<Rightarrow> task \<Rightarrow> world \<Rightarrow> (task \<times> bool) \<times> world" where
  "mark_executing e t w =
     (if t_Type t = TypeGetDiagResult then ((t, True), w)
      else let t' = started_task (e_now e) t in
           (case queue_update e t' w of (ok, w') \<Rightarrow> ((t', ok), w')))"

definition mark_build_failed :: "env \<Rightarrow> task \<Rightarrow> string \<Rightarrow> world \<Rightarrow> world" where
  "mark_build_failed e t err w =
     (if t_Type t = TypeGetDiagResult then w
      else snd (queue_update e
             (t\<lparr>t_Status := StatusFailed, t_CompletedAt := Some (e_now e), t_Error := err\<rparr>) w))"

subsection \<open>Dispatch\<close>

lemma executeTask_pending:
  "(res, s') = executeTask e t s \<Longrightarrow> se_pendingTasks s' = se_pendingTasks s"
  using executeTask_keeps(1) [of e t s] by (metis snd_conv)

function dispatchTask :: "env \<Rightarrow> task \<Rightarrow> session \<Rightarrow> world \<Rightarrow> reply \<times> session \<times> world"
  and dispatchNextOrClose :: "env \<Rightarrow> session \<Rightarrow> world \<Rightarrow> reply \<times> session \<times> world" where
  "dispatchTask e t0 s0 w0 =
     (case mark_executing e t0 w0 of
        ((t, ok), w1) \<Rightarrow>
          if \<not> ok then dispatchNextOrClose e s0 w1
          else let w2 = w1\<lparr>w_jobs := w_jobs w1 @ task_jobs t s0\<rparr> in
            (case executeTask e t s0 of
               (ExError err, s) \<Rightarrow> dispatchNextOrClose e s (mark_build_failed e t err w2)
             | (ExPanic, s) \<Rightarrow> (RPanic, s, w2)
             | (ExWritten x, s) \<Rightarrow> (RXml x, s, w2)
             | (ExSend x, s) \<Rightarrow> (RXml x, s\<lparr>se_currentTask := Some t\<rparr>, w2)))"
| "dispatchNextOrClose e s w =
     (case se_pendingTasks s of
        t # ts \<Rightarrow> dispatchTask e t (s\<lparr>se_pendingTasks := ts\<rparr>) w
      | [] \<Rightarrow> (RNoContent, s\<lparr>se_State := StateDone\<rparr>, w))"
  by pat_completeness auto
termination
  by (relation "measure (case_sum (\<lambda>(e, t, s, w). 2 * length (se_pendingTasks s) + 1)
                                  (\<lambda>(e, s, w). 2 * length (se_pendingTasks s)))")
    (auto dest: executeTask_pending)

declare dispatchTask.simps [simp del] dispatchNextOrClose.simps [simp del]

definition handleTaskResponse ::
    "env \<Rightarrow> json option \<Rightarrow> string \<Rightarrow> session \<Rightarrow> world \<Rightarrow> reply \<times> session \<times> world" where
  "handleTaskResponse e result errMsg s0 w0 =
     (let s = s0\<lparr>se_currentTask := None\<rparr> in
      case se_currentTask s0 of
        None \<Rightarrow> dispatchNextOrClose e s w0
      | Some t \<Rightarrow>
          let fresh = (t_Type t = TypeWAN \<or> t_Type t = TypeWifi \<or> t_Type t = TypeLAN) \<and> errMsg = [];
              w1 = (if fresh then w0\<lparr>w_lastSummon := mdel (se_DeviceSerial s0) (w_lastSummon w0)\<rparr> else w0)
          in dispatchNextOrClose e s (completeTask e t result errMsg w1))"

subsection \<open>Facts: what running a task yields\<close>

text \<open>
  An envelope that still has to be sent carries the id of the task and leaves the task in flight
  alone; a request that was written belongs to a multi-step task, which is the current one; only a
  missing mapper panics; an error leaves the session as it was, except for a provisioning flow
  without an active step.
\<close>

definition task_request :: "envelope \<Rightarrow> bool" where
  "task_request x \<longleftrightarrow> (case snd x of BGetParameterNames _ _ \<Rightarrow> False | _ \<Rightarrow> True)"

definition exec_post :: "task \<Rightarrow> session \<Rightarrow> exec_result \<times> session \<Rightarrow> bool" where
  "exec_post t s r \<longleftrightarrow>
     (case fst r of
        ExSend x \<Rightarrow> fst x = t_ID t \<and> task_request x \<and> se_currentTask (snd r) = se_currentTask s
          \<and> se_wanProvision (snd r) = se_wanProvision s \<and> se_addObjFollowUp (snd r) = se_addObjFollowUp s
      | ExWritten x \<Rightarrow> se_currentTask (snd r) = Some t \<and> task_request x
          \<and> (se_wanProvision (snd r) \<noteq> None \<or> se_addObjFollowUp (snd r) \<noteq> None)
      | ExPanic \<Rightarrow> deref (se_mapper s) = None \<and> snd r = s
      | ExError err \<Rightarrow> snd r = s \<or> (se_currentTask (snd r) = Some t \<and> se_wanProvision (snd r) \<noteq> None))"

named_theorems exec_posts \<open>outcomes of the parts of executeTask\<close>

lemma exec_post_error [simp]: "exec_post t s (ExError err, s)"
  by (simp add: exec_post_def)

lemma exec_post_send [simp]: "fst x = t_ID t \<Longrightarrow> task_request x \<Longrightarrow> exec_post t s (ExSend x, s)"
  by (simp add: exec_post_def)

lemma exec_post_with_mapper:
  "(\<And>m. exec_post t s (f m)) \<Longrightarrow> exec_post t s (with_mapper s f)"
  by (simp add: with_mapper_def exec_post_def split: option.splits)

lemma build_ids [simp]:
  "fst (BuildSetParameterValues i ps) = i" "fst (BuildGetParameterValues i ns) = i"
  "fst (BuildReboot i k) = i" "fst (BuildFactoryReset i) = i" "fst (BuildDownload i d) = i"
  "fst (BuildAddObject i ob) = i" "fst (BuildDeleteObject i ob) = i"
  by (simp_all add: BuildSetParameterValues_def BuildGetParameterValues_def BuildReboot_def
      BuildFactoryReset_def BuildDownload_def BuildAddObject_def BuildDeleteObject_def)

lemma build_requests [simp]:
  "task_request (BuildSetParameterValues i ps)" "task_request (BuildGetParameterValues i ns)"
  "task_request (BuildReboot i k)" "task_request (BuildFactoryReset i)" "task_request (BuildDownload i d)"
  "task_request (BuildAddObject i ob)" "task_request (BuildDeleteObject i ob)" "task_request (step_request i st)"
  by (simp_all add: task_request_def BuildSetParameterValues_def BuildGetParameterValues_def BuildReboot_def
      BuildFactoryReset_def BuildDownload_def BuildAddObject_def BuildDeleteObject_def step_request_def
      split: step_kind.splits)

lemma current_request: "buildCurrentXML i wp = Inr x \<Longrightarrow> task_request x"
  by (auto simp: buildCurrentXML_def split: option.splits)

lemma exec_post_build [exec_posts]:
  "exec_post t s (buildSetParamsXML (t_ID t) ps s)"
  "exec_post t s (buildSetParamsXML (t_ID t) ps (s\<lparr>se_pendingWANCredentials := c\<rparr>))"
  "exec_post t s (start_provision e t p wp s)"
  by (auto simp: exec_post_def buildSetParamsXML_def start_provision_def Let_def current_request split: sum.splits)

lemma build_missing:
  "build_set t s = None \<Longrightarrow> deref (se_mapper s) = None" "build_get t s = None \<Longrightarrow> deref (se_mapper s) = None"
  by (auto simp: build_set_def build_get_def split: option.splits sum.splits)

lemma exec_post_panic [simp]: "deref (se_mapper s) = None \<Longrightarrow> exec_post t s (ExPanic, s)"
  by (simp add: exec_post_def)

lemma exec_post_simple [exec_posts]:
  "exec_post t s (exec_set_params t s)" "exec_post t s (exec_get t s)" "exec_post t s (exec_diag_result t s)"
  "exec_post t s (exec_firmware t s)" "exec_post t s (exec_wifi t s)" "exec_post t s (exec_diagnostic t s)"
  by (auto simp: exec_set_params_def exec_get_def exec_diag_result_def exec_firmware_def exec_wifi_def
      exec_diagnostic_def Let_def exec_posts build_missing intro!: exec_post_with_mapper
      split: option.splits sum.splits)

lemma exec_post_wan_parts [exec_posts]:
  "exec_post t s (exec_wan_generic t p s)" "exec_post t s (exec_wan_fallback t p v s)"
  by (auto simp: exec_wan_generic_def exec_wan_fallback_def Let_def exec_posts intro!: exec_post_with_mapper
      split: sum.splits)

lemma exec_post_wan [exec_posts]: "exec_post t s (exec_wan e t s)"
  by (auto simp: exec_wan_def exec_wan_new_def exec_wan_update_def Let_def exec_posts
      intro!: exec_post_with_mapper split: option.splits sum.splits)

lemma exec_post_portfwd [exec_posts]: "exec_post t s (exec_portfwd t s)"
  by (auto simp: exec_portfwd_def exec_post_def [of _ _ "(ExWritten _, _)"] exec_posts Let_def intro!: exec_post_with_mapper
      split: option.splits portfwd_action.splits)

lemma executeTask_post: "exec_post t s (executeTask e t s)"
  by (cases "t_Type t") (simp_all add: executeTask_def exec_posts)

subsection \<open>Facts: what dispatching does\<close>

lemma mark_executing_task:
  "mark_executing e t w = ((t', ok), w') \<Longrightarrow> t_ID t' = t_ID t \<and> t_Type t' = t_Type t \<and> t_Serial t' = t_Serial t"
  by (auto simp: mark_executing_def started_task_def Let_def split: if_splits prod.splits)

text \<open>The reply, and the tasks left, after working through pending tasks.\<close>

definition dispatched :: "task list \<Rightarrow> session \<Rightarrow> reply \<times> session \<times> world \<Rightarrow> bool" where
  "dispatched ts s0 r \<longleftrightarrow>
     (case r of (rep, s, w) \<Rightarrow>
        se_mapper s = se_mapper s0 \<and> se_ID s = se_ID s0 \<and> se_DeviceSerial s = se_DeviceSerial s0 \<and>
        se_summonPhase s = se_summonPhase s0 \<and> se_summonAllNames s = se_summonAllNames s0 \<and>
        se_summonBatchIdx s = se_summonBatchIdx s0 \<and> se_summonSchemaName s = se_summonSchemaName s0 \<and>
        (case rep of
           RXml x \<Rightarrow> task_request x \<and> (\<exists>failed t. ts = failed @ t # se_pendingTasks s \<and> in_flight_id s = Some (t_ID t))
         | RNoContent \<Rightarrow> se_pendingTasks s = [] \<and> se_State s = StateDone
         | RPanic \<Rightarrow> deref (se_mapper s) = None
         | _ \<Rightarrow> False))"

lemma dispatched_skip:
  assumes "dispatched ts s1 r"
    and "se_mapper s1 = se_mapper s" "se_ID s1 = se_ID s" "se_DeviceSerial s1 = se_DeviceSerial s"
    and "se_summonPhase s1 = se_summonPhase s" "se_summonAllNames s1 = se_summonAllNames s"
    and "se_summonBatchIdx s1 = se_summonBatchIdx s" "se_summonSchemaName s1 = se_summonSchemaName s"
  shows "dispatched (t # ts) s r"
  using assms by (auto simp: dispatched_def split: reply.splits)

lemma dispatch_outcome:
  "dispatched (t # se_pendingTasks s) s (dispatchTask e t s w)"
  "dispatched (se_pendingTasks s') s' (dispatchNextOrClose e s' w')"
proof (induction e t s w and e s' w' rule: dispatchTask_dispatchNextOrClose.induct)
  case (1 e t0 s0 w0)
  obtain t ok w1 where mark: "mark_executing e t0 w0 = ((t, ok), w1)" by (metis prod.exhaust)
  obtain res s where exec: "executeTask e t s0 = (res, s)" by fastforce
  note t = mark_executing_task [OF mark]
  note keep = exec_frame_sel [OF executeTask_frame [of s0 e t], unfolded exec snd_conv]
  note post = executeTask_post [of t s0 e, unfolded exec]
  show ?case
  proof (cases ok)
    case False
    then have "dispatched (se_pendingTasks s0) s0 (dispatchNextOrClose e s0 w1)"
      using 1(1) [OF mark [symmetric] refl] by simp
    then show ?thesis
      using False by (simp add: dispatchTask.simps mark dispatched_skip)
  next
    case True
    show ?thesis
    proof (cases res)
      case (ExError err)
      have "dispatched (se_pendingTasks s) s
          (dispatchNextOrClose e s (mark_build_failed e t err (w1\<lparr>w_jobs := w_jobs w1 @ task_jobs t s0\<rparr>)))"
        using 1(2) [OF mark [symmetric] refl _ refl exec [symmetric]] True ExError by simp
      then have "dispatched (t0 # se_pendingTasks s0) s0
          (dispatchNextOrClose e s (mark_build_failed e t err (w1\<lparr>w_jobs := w_jobs w1 @ task_jobs t s0\<rparr>)))"
        using keep by (metis dispatched_skip)
      then show ?thesis using True ExError by (simp add: dispatchTask.simps mark exec)
    qed (use True keep post t in \<open>auto simp: dispatchTask.simps mark exec dispatched_def exec_post_def in_flight_id_def\<close>)
  qed
next
  case (2 e s w)
  show ?case
  proof (cases "se_pendingTasks s")
    case Nil
    then show ?thesis by (simp add: dispatchNextOrClose.simps dispatched_def)
  next
    case (Cons t ts)
    then show ?thesis
      using 2 [OF Cons] by (simp add: dispatchNextOrClose.simps dispatched_def)
  qed
qed

text \<open>What is in the queue after dispatching, when every call to the queue succeeds.\<close>

lemma wrap64_range: "int64 (wrap64 i)"
proof -
  have "0 \<le> (i + 9223372036854775808) mod 18446744073709551616"
    "(i + 9223372036854775808) mod 18446744073709551616 < 18446744073709551616" by simp_all
  then show ?thesis by (simp add: wrap64_def int64_def min_int64_def max_int64_def)
qed

lemma wf_started [simp]: "wf_task t \<Longrightarrow> wf_task (started_task now t)"
  by (simp add: started_task_def wf_task_def wrap64_range wf_status_def status_str_def status_of_def)

lemma wf_failed [simp]:
  "wf_task t \<Longrightarrow> wf_task (t\<lparr>t_Status := StatusFailed, t_CompletedAt := c, t_Error := err\<rparr>)"
  by (simp add: wf_task_def wf_status_def status_str_def status_of_def)

lemma queue_update_up:
  assumes "rd_faults (w_queue w) = []" and "wf_task t"
  shows "fst (queue_update e t w)" "rd_faults (w_queue (snd (queue_update e t w))) = []"
    "lookup_task (w_queue (snd (queue_update e t w))) = (lookup_task (w_queue w))(t_ID t \<mapsto> stored_task t)"
  using UpdateStatus_up(1,2) [OF assms(1), of "e_queue e" t] lookup_task_UpdateStatus [OF assms, of "e_queue e"]
  by (auto simp: queue_update_def split: prod.splits)

lemma mark_executing_up:
  assumes "rd_faults (w_queue w) = []" and "wf_task t" and "t_Type t \<noteq> TypeGetDiagResult"
  obtains w' where "mark_executing e t w = ((started_task (e_now e) t, True), w')" "rd_faults (w_queue w') = []"
    "lookup_task (w_queue w') = (lookup_task (w_queue w))(t_ID t \<mapsto> stored_task (started_task (e_now e) t))"
proof
  let ?w = "snd (queue_update e (started_task (e_now e) t) w)"
  show "mark_executing e t w = ((started_task (e_now e) t, True), ?w)"
    using queue_update_up(1) [OF assms(1) wf_started [OF assms(2)], of e "e_now e"] assms(3)
    by (cases "queue_update e (started_task (e_now e) t) w") (simp add: mark_executing_def Let_def)
  show "rd_faults (w_queue ?w) = []"
    "lookup_task (w_queue ?w) = (lookup_task (w_queue w))(t_ID t \<mapsto> stored_task (started_task (e_now e) t))"
    using queue_update_up(2,3) [OF assms(1) wf_started [OF assms(2)], of e "e_now e"]
    by (simp_all add: started_task_def)
qed

lemma mark_executing_eq:
  assumes "rd_faults (w_queue w) = []" and "wf_task t" and "t_Type t \<noteq> TypeGetDiagResult"
  shows "mark_executing e t w =
    ((started_task (e_now e) t, True), snd (queue_update e (started_task (e_now e) t) w))"
  using queue_update_up(1) [OF assms(1) wf_started [OF assms(2)], of e "e_now e"] assms(3)
  by (cases "queue_update e (started_task (e_now e) t) w") (simp add: mark_executing_def Let_def)

text \<open>One step of the dispatcher with a reachable queue.\<close>

lemma dispatch_step_error:
  assumes "rd_faults (w_queue w) = []" and "wf_task t" and "t_Type t \<noteq> TypeGetDiagResult"
    and "se_pendingTasks s = t # ts"
    and "executeTask e (started_task (e_now e) t) (s\<lparr>se_pendingTasks := ts\<rparr>) = (ExError err, s1)"
  obtains w1 where "dispatchNextOrClose e s w = dispatchNextOrClose e s1 w1" "rd_faults (w_queue w1) = []"
proof
  let ?t = "started_task (e_now e) t"
  let ?w = "snd (queue_update e ?t w)"
  let ?w1 = "mark_build_failed e ?t err (?w\<lparr>w_jobs := w_jobs ?w @ task_jobs ?t (s\<lparr>se_pendingTasks := ts\<rparr>)\<rparr>)"
  show "dispatchNextOrClose e s w = dispatchNextOrClose e s1 ?w1"
    by (simp add: dispatchNextOrClose.simps [of e s w] dispatchTask.simps assms mark_executing_eq)
  show "rd_faults (w_queue ?w1) = []"
    using assms by (simp add: mark_build_failed_def queue_update_up)
qed

lemma dispatch_step_send:
  assumes "rd_faults (w_queue w) = []" and "wf_task t" and "t_Type t \<noteq> TypeGetDiagResult"
    and "se_pendingTasks s = t # ts"
    and "executeTask e (started_task (e_now e) t) (s\<lparr>se_pendingTasks := ts\<rparr>) = (ExSend x, s1)"
  obtains w1 where
    "dispatchNextOrClose e s w = (RXml x, s1\<lparr>se_currentTask := Some (started_task (e_now e) t)\<rparr>, w1)"
  by (simp add: dispatchNextOrClose.simps [of e s w] dispatchTask.simps assms mark_executing_eq)

text \<open>How a task is accounted for: failed for good, on the device, or lost in a panic.\<close>

definition accounted :: "int \<Rightarrow> reply \<times> session \<times> world \<Rightarrow> string \<Rightarrow> bool" where
  "accounted now r i \<longleftrightarrow>
     (case r of (rep, s, w) \<Rightarrow>
        (case lookup_task (w_queue w) i of
           None \<Rightarrow> False
         | Some u \<Rightarrow> (t_Status u = StatusFailed \<and> t_CompletedAt u = Some now)
             \<or> (t_Status u = StatusExecuting \<and>
                  (case rep of RXml _ \<Rightarrow> \<exists>c. se_currentTask s = Some c \<and> t_ID c = i \<and> u = stored_task c
                   | RPanic \<Rightarrow> True | _ \<Rightarrow> False))))"

definition settled :: "int \<Rightarrow> task list \<Rightarrow> world \<Rightarrow> reply \<times> session \<times> world \<Rightarrow> bool" where
  "settled now ts w0 r \<longleftrightarrow>
     (case r of (rep, s, w) \<Rightarrow>
        rd_faults (w_queue w) = [] \<and>
        (\<forall>i. i \<notin> t_ID ` set ts \<or> i \<in> t_ID ` set (se_pendingTasks s) \<longrightarrow>
           lookup_task (w_queue w) i = lookup_task (w_queue w0) i) \<and>
        set (se_pendingTasks s) \<subseteq> set ts \<and>
        (\<forall>x. rep = RXml x \<longrightarrow> (\<exists>c. se_currentTask s = Some c \<and> wf_task c \<and> t_Type c \<noteq> TypeGetDiagResult \<and>
           t_Status c = StatusExecuting \<and> t_ID c \<in> t_ID ` set ts - t_ID ` set (se_pendingTasks s) \<and>
           lookup_task (w_queue w) (t_ID c) = Some (stored_task c))) \<and>
        (\<forall>i \<in> t_ID ` set ts - t_ID ` set (se_pendingTasks s). accounted now r i))"

definition workable :: "task list \<Rightarrow> bool" where
  "workable ts \<longleftrightarrow> distinct (map t_ID ts) \<and> (\<forall>t \<in> set ts. wf_task t \<and> t_Type t \<noteq> TypeGetDiagResult)"

lemma settled_skip:
  assumes "settled now ts w1 r" and "t_ID t \<notin> t_ID ` set ts"
    and "lookup_task (w_queue w1) = (lookup_task (w_queue w))(t_ID t \<mapsto> u)"
    and "t_Status u = StatusFailed" and "t_CompletedAt u = Some now"
  shows "settled now (t # ts) w r"
proof -
  obtain rep s w' where r: "r = (rep, s, w')" by (metis prod.exhaust)
  from assms(1,2) have "t_ID t \<notin> t_ID ` set (se_pendingTasks s)" by (auto simp: settled_def r)
  with assms show ?thesis by (fastforce simp: settled_def r accounted_def)
qed

lemma dispatch_settles:
  "rd_faults (w_queue w) = [] \<Longrightarrow> workable (t # se_pendingTasks s) \<Longrightarrow>
     settled (e_now e) (t # se_pendingTasks s) w (dispatchTask e t s w)"
  "rd_faults (w_queue w') = [] \<Longrightarrow> workable (se_pendingTasks s') \<Longrightarrow>
     settled (e_now e) (se_pendingTasks s') w' (dispatchNextOrClose e s' w')"
proof (induction e t s w and e s' w' rule: dispatchTask_dispatchNextOrClose.induct)
  case (1 e t0 s0 w0)
  let ?t = "started_task (e_now e) t0"
  from 1(4) have wf: "wf_task t0" "t_Type t0 \<noteq> TypeGetDiagResult" "t_ID t0 \<notin> t_ID ` set (se_pendingTasks s0)"
    and rest: "workable (se_pendingTasks s0)"
    by (auto simp: workable_def)
  obtain w1 where mark: "mark_executing e t0 w0 = ((?t, True), w1)" and up: "rd_faults (w_queue w1) = []"
    and look: "lookup_task (w_queue w1) = (lookup_task (w_queue w0))(t_ID t0 \<mapsto> stored_task ?t)"
    using mark_executing_up [OF 1(3) wf(1,2)] by blast
  let ?w = "w1\<lparr>w_jobs := w_jobs w1 @ task_jobs ?t s0\<rparr>"
  obtain res s where exec: "executeTask e ?t s0 = (res, s)" by fastforce
  have keep: "se_pendingTasks s = se_pendingTasks s0"
    using executeTask_keeps(1) [of e ?t s0] exec by simp
  have post: "exec_post ?t s0 (res, s)" using executeTask_post [of ?t s0 e] exec by simp
  have started [simp]: "t_ID ?t = t_ID t0" "t_Status ?t = StatusExecuting" "t_Type ?t = t_Type t0"
    by (simp_all add: started_task_def)
  show ?case
  proof (cases res)
    case (ExError err)
    let ?u = "?t\<lparr>t_Status := StatusFailed, t_CompletedAt := Some (e_now e), t_Error := err\<rparr>"
    let ?w2 = "mark_build_failed e ?t err ?w"
    have w2: "rd_faults (w_queue ?w2) = []"
      "lookup_task (w_queue ?w2) = (lookup_task (w_queue w0))(t_ID t0 \<mapsto> stored_task ?u)"
      using queue_update_up(2,3) [of ?w ?u e] up wf look by (simp_all add: mark_build_failed_def)
    have "settled (e_now e) (se_pendingTasks s) ?w2 (dispatchNextOrClose e s ?w2)"
      using 1(2) [OF mark [symmetric] refl _ refl exec [symmetric]] ExError w2 rest keep by simp
    then show ?thesis
      using settled_skip [of "e_now e" "se_pendingTasks s" ?w2 _ t0 w0 "stored_task ?u"] wf w2 keep ExError
      by (simp add: dispatchTask.simps mark exec)
  qed (use keep post up look wf in
      \<open>auto simp: dispatchTask.simps mark exec settled_def accounted_def exec_post_def in_flight_id_def\<close>)
next
  case (2 e s w)
  then show ?case
    by (cases "se_pendingTasks s") (simp_all add: dispatchNextOrClose.simps settled_def)
qed

subsection \<open>Properties\<close>

text \<open>
  Dispatching always ends with one reply: it skips tasks from the front of the pending list that
  cannot be sent until one can, which is then the task in flight, or it closes the session with no
  task left; it panics only when the session has no mapper.
\<close>

lemma dispatch_answers:
  "case dispatchNextOrClose e s w of (rep, s', w') \<Rightarrow>
     (case rep of
        RXml x \<Rightarrow> \<exists>skipped t. se_pendingTasks s = skipped @ t # se_pendingTasks s'
                     \<and> in_flight_id s' = Some (t_ID t)
      | RNoContent \<Rightarrow> se_pendingTasks s' = [] \<and> se_State s' = StateDone
      | RPanic \<Rightarrow> deref (se_mapper s') = None
      | _ \<Rightarrow> False)"
  using dispatch_outcome(2) [of s e w] by (auto simp: dispatched_def split: prod.splits reply.splits)


definition ex_env :: env where
  "ex_env = \<lparr> e_now = 5, e_sid = ''sid'', e_resp = ''resp'', e_rpc = ''rpc'', e_oid = ''oid'',
     e_queue = ex_cfg, e_schemas = [], e_drivers = None, e_json = (\<lambda>_. None) \<rparr>"

definition ex_world :: world where
  "ex_world = \<lparr> w_queue = empty_redis, w_devices = \<lparr> db_devices = [], db_faults = [] \<rparr>,
     w_repo = ex_repo [], w_jobs = [], w_lastSummon = [], w_full = [] \<rparr>"

definition ex_busy_session :: session where
  "ex_busy_session = (new_session ''s'' 0)\<lparr>se_DeviceSerial := ''CPE1'', se_mapper := Mapper (M181 zero_tr181),
     se_pendingTasks := [ex_task ''a'' TypeWifi, ex_task ''b'' TypeReboot, ex_task ''c'' TypeReboot]\<rparr>"


text \<open>
  When the queue cannot record that a task starts, the session drops the task without running it;
  it stays as it was in the queue.
\<close>

lemma unrecorded_start_skips:
  assumes "rd_faults (w_queue w) = [True]" and "se_pendingTasks s = [t]" and "t_Type t \<noteq> TypeGetDiagResult"
  shows "case dispatchNextOrClose e s w of (rep, s', w') \<Rightarrow>
     rep = RNoContent \<and> rd_str (w_queue w') = rd_str (w_queue w)"
  using assms
  by (simp add: dispatchNextOrClose.simps dispatchTask.simps mark_executing_def queue_update_def
      UpdateStatus_def next_fault_def Let_def)

text \<open>
  The session does not look at the queue before it runs a task it has loaded: a task that was
  cancelled in the meantime is sent to the device, and the queue then says it is executing.
\<close>

lemma cancelled_task_runs:
  assumes "rd_faults (w_queue w) = []" and "se_pendingTasks s = t # ts" and "wf_task t" and "t_Type t = TypeReboot"
    and "lookup_task (w_queue w) (t_ID t) = Some u" and "t_Status u = StatusCancelled"
  shows "case dispatchNextOrClose e s w of (rep, s', w') \<Rightarrow>
     rep = RXml (t_ID t, BReboot (t_ID t)) \<and>
     (\<exists>v. lookup_task (w_queue w') (t_ID t) = Some v \<and> t_Status v = StatusExecuting)"
proof -
  let ?t = "started_task (e_now e) t"
  have "executeTask e ?t (s\<lparr>se_pendingTasks := ts\<rparr>) = (ExSend (t_ID t, BReboot (t_ID t)), s\<lparr>se_pendingTasks := ts\<rparr>)"
    using assms(4) by (simp add: executeTask_def BuildReboot_def started_task_def)
  then show ?thesis
    using assms(2,4) mark_executing_eq [OF assms(1,3), of e]
      queue_update_up(3) [OF assms(1) wf_started [OF assms(3)], of e "e_now e"]
    by (simp add: dispatchNextOrClose.simps [of e s w] dispatchTask.simps stored_task_def started_task_def)
qed
end
