(* ===== verification/Summon.thy ===== *)
theory Summon
  imports Dispatch Device_Store Parse
begin
section \<open>Reading the parameters of a device\<close>

text \<open>
  The summons of internal/cwmp/session.go. A full summon asks for all parameter names (phase 1) and
  then for the values in batches (phase 2); a targeted summon asks for a few subtrees at once
  (phases 3 and 4). What comes back is stored, the mapper of the session is rebuilt from it, the
  summary of the device is brought up to date, and default parameters that differ are queued as
  synthetic tasks in front of the pending ones.
\<close>

subsection \<open>The summary of a device\<close>

definition cpu_of :: "string \<Rightarrow> int option" where
  "cpu_of raw =
     (let token = (case split_n CHR '';'' 2 raw of [] \<Rightarrow> [] | x # _ \<Rightarrow> x);
          token = trim_suffix (trim_space token) ''%''
      in case parse_int64 token of (c, None) \<Rightarrow> Some c | _ \<Rightarrow> None)"

definition extractCPUUsage :: "params \<Rightarrow> driver option \<Rightarrow> int option" where
  "extractCPUUsage ps d =
     (let std = [''Device.DeviceInfo.ProcessStatus.CPUUsage'',
                 ''InternetGatewayDevice.DeviceInfo.ProcessStatus.CPUUsage''];
          paths = (case d of
                     None \<Rightarrow> std
                   | Some d \<Rightarrow> if dy_SystemCPUPath (dv_Discovery d) \<noteq> []
                              then dy_SystemCPUPath (dv_Discovery d) # std else std);
          raws = filter (\<lambda>r. r \<noteq> []) (map (\<lambda>p. trim_space (mget ps p)) paths)
      in case List.map_filter cpu_of raws of [] \<Rightarrow> None | c # _ \<Rightarrow> Some c)"

definition patchRAMFromPct :: "driver option \<Rightarrow> params \<Rightarrow> cpe_stats_result \<Rightarrow> cpe_stats_result" where
  "patchRAMFromPct d ps st =
     (case d of
        None \<Rightarrow> st
      | Some d \<Rightarrow>
          let path = dy_SystemMemPctPath (dv_Discovery d);
              raw = trim_space (mget ps path)
          in if path = [] \<or> cs_RAMTotalKB st \<noteq> 0 \<or> raw = [] then st
             else case parse_int64 (trim_suffix raw ''%'') of
                    (pct, None) \<Rightarrow>
                      if pct < 0 \<or> pct > 100 then st
                      else st\<lparr>cs_RAMTotalKB := 100, cs_RAMFreeKB := 100 - pct\<rparr>
                  | _ \<Rightarrow> st)"

definition exact_pppoe_first :: "wan_info \<Rightarrow> wan_info \<Rightarrow> bool" where
  "exact_pppoe_first a b \<longleftrightarrow> wi_ConnectionType a = ''PPPoE'' \<and> wi_ConnectionType b \<noteq> ''PPPoE''"

definition wifi_seen :: "wifi_info \<Rightarrow> wifi_info option" where
  "wifi_seen w = (if wl_SSID w \<noteq> [] \<or> wl_Enabled w \<or> wl_Channel w > 0 then Some w else None)"

text \<open>
  The update both kinds of summon write; \<^term>\<open>None\<close> is a panic. The pointers to the uptime, the
  RAM and the ACS URL are always set.
\<close>

definition summary_update :: "params \<Rightarrow> mapper \<Rightarrow> driver option \<Rightarrow> connected_host list option \<Rightarrow> info_update option" where
  "summary_update ps m d hosts =
     map_option (\<lambda>wans0.
       let steer = extractBandSteeringStatus ps m;
           wifi24 = (extractWiFiInfo 0 ps m)\<lparr>wl_BandSteeringEnabled := steer\<rparr>;
           wifi5 = (extractWiFiInfo 1 ps m)\<lparr>wl_BandSteeringEnabled := steer\<rparr>;
           lan = extractLANInfo ps m;
           wans = sort_by exact_pppoe_first wans0;
           best = (case find (\<lambda>w. wi_IPAddress w \<noteq> []) wans of None \<Rightarrow> [] | Some w \<Rightarrow> wi_IPAddress w);
           url = or_else (mget ps ''Device.ManagementServer.URL'') (mget ps ''InternetGatewayDevice.ManagementServer.URL'');
           st = patchRAMFromPct d ps (fst (parseCPEStats ps m));
           info = ExtractDeviceInfo m ps
       in no_update\<lparr>iu_WANs := (if wans = [] then None else Some wans),
            iu_UptimeSeconds := Some (cs_UptimeSeconds st), iu_RAMTotal := Some (cs_RAMTotalKB st),
            iu_RAMFree := Some (cs_RAMFreeKB st), iu_CPUUsage := extractCPUUsage ps d, iu_ACSURL := Some url,
            iu_ModelName := Some (ud_ModelName info), iu_SWVersion := Some (ud_SWVersion info),
            iu_HWVersion := Some (ud_HWVersion info),
            iu_IPAddress := (if li_IPAddress lan \<noteq> [] then Some (li_IPAddress lan) else None),
            iu_WANIP := (if best \<noteq> [] then Some best else None),
            iu_WiFi24 := wifi_seen wifi24, iu_WiFi5 := wifi_seen wifi5,
            iu_LAN := (if li_IPAddress lan \<noteq> [] \<or> li_DHCPEnabled lan then Some lan else None),
            iu_ConnectedHosts := hosts\<rparr>)
       (extractWANInfos ps m d)"

subsection \<open>Default parameters\<close>

definition encode_set_params :: "params \<Rightarrow> json" where
  "encode_set_params ps = JObj [(''parameters'', enc_params ps)]"

definition synthetic_set :: "string \<Rightarrow> string \<Rightarrow> params \<Rightarrow> task" where
  "synthetic_set i serial ps = zero_task\<lparr>t_ID := i, t_Serial := serial, t_Type := TypeSetParams,
     t_Payload := Some (encode_set_params ps), t_Status := StatusPending\<rparr>"

definition differing :: "params \<Rightarrow> params \<Rightarrow> params" where
  "differing want cur = filter (\<lambda>kv. trim_space (mget cur (fst kv)) \<noteq> trim_space (snd kv)) want"

definition injectDefaultParamTask :: "string \<Rightarrow> driver option \<Rightarrow> params \<Rightarrow> session \<Rightarrow> session" where
  "injectDefaultParamTask serial d cur s =
     (let want = (case d of None \<Rightarrow> [] | Some d \<Rightarrow> dv_DefaultParams d);
          toSet = differing want cur
      in if toSet = [] then s
         else s\<lparr>se_pendingTasks := synthetic_set (''default_params_'' @ serial) serial toSet # se_pendingTasks s\<rparr>)"

record virtual_spec =
  vs_Value :: string
  vs_Candidates :: "string list"

definition virtual_field :: "string \<Rightarrow> json \<Rightarrow> virtual_spec \<Rightarrow> virtual_spec option" where
  "virtual_field k v x =
     (if k = ''value'' then dec_str v (\<lambda>s x. x\<lparr>vs_Value := s\<rparr>) x
      else if k = ''candidates'' then dec_strs v (\<lambda>l x. x\<lparr>vs_Candidates := l\<rparr>) x
      else Some x)"

definition virtual_candidates :: "(string \<Rightarrow> json option) \<Rightarrow> bool \<Rightarrow> params \<Rightarrow> string \<Rightarrow> params" where
  "virtual_candidates json isIGD cur v =
     (case unmarshal virtual_field \<lparr> vs_Value = [], vs_Candidates = [] \<rparr> (json v) of
        None \<Rightarrow> []
      | Some spec \<Rightarrow>
          if vs_Value spec = [] then []
          else map (\<lambda>c. (c, vs_Value spec))
                 (filter (\<lambda>c. (isIGD \<and> has_prefix c ''InternetGatewayDevice.'')
                            \<or> (\<not> isIGD \<and> has_prefix c ''Device.'') \<or> mhas cur c) (vs_Candidates spec)))"

definition expandVirtualParams :: "(string \<Rightarrow> json option) \<Rightarrow> params \<Rightarrow> params \<Rightarrow> bool \<Rightarrow> params" where
  "expandVirtualParams json raw cur isIGD =
     fold (\<lambda>(k, v) out.
        if \<not> has_prefix k ''_vp.'' then mput k v out
        else mput_all (virtual_candidates json isIGD cur v) out) raw []"

definition root_matches :: "bool \<Rightarrow> string \<Rightarrow> bool" where
  "root_matches isIGD path \<longleftrightarrow>
     \<not> has_prefix path ''_'' \<and> \<not> (isIGD \<and> has_prefix path ''Device.'')
     \<and> \<not> (\<not> isIGD \<and> has_prefix path ''InternetGatewayDevice.'')"

definition provisioned_mark :: params where
  "provisioned_mark = [(''_helix.provisioned'', ''true'')]"

definition injectGlobalDefaultParams ::
    "env \<Rightarrow> string \<Rightarrow> params \<Rightarrow> session \<Rightarrow> world \<Rightarrow> session \<times> world" where
  "injectGlobalDefaultParams e serial cur s w0 =
     (if serial = [] then (s, w0)
      else case GetAllParameters ''__system__'' (w_repo w0) of
        (Inl _, r) \<Rightarrow> (s, w0\<lparr>w_repo := r\<rparr>)
      | (Inr globals, r) \<Rightarrow>
          if globals = [] then (s, w0\<lparr>w_repo := r\<rparr>)
          else
            let ask = (\<not> se_isBootstrap s \<and> \<not> se_needsGlobalDefaults s);
                (answer, r) = (if ask then pr_GetParameter serial ''_helix.provisioned'' r else (Inr [], r));
                w = w0\<lparr>w_repo := r\<rparr>
            in if ask \<and> answer = Inr ''true'' then (s, w)
               else
                 let isIGD = list_ex (\<lambda>kv. has_prefix (fst kv) ''InternetGatewayDevice.'') cur;
                     toSet = differing (filter (\<lambda>kv. root_matches isIGD (fst kv))
                               (expandVirtualParams (e_json e) globals cur isIGD)) cur
                 in if toSet = []
                    then (s\<lparr>se_needsGlobalDefaults := False\<rparr>, store_params e serial provisioned_mark w)
                    else (s\<lparr>se_pendingTasks :=
                              synthetic_set (''global_defaults_'' @ serial) serial toSet # se_pendingTasks s,
                            se_pendingProvisionMark := True, se_needsGlobalDefaults := False\<rparr>, w))"

subsection \<open>Asking for names and values\<close>

definition is_tr098_schema :: "string \<Rightarrow> bool" where
  "is_tr098_schema name \<longleftrightarrow> contains (to_lower name) ''tr098''"

text \<open>The method call on a nil schema mapper panics: \<^term>\<open>None\<close>.\<close>

definition summon_root :: "session \<Rightarrow> string option" where
  "summon_root s =
     (if se_summonSchemaName s \<noteq> [] \<and> is_tr098_schema (se_summonSchemaName s)
      then Some ''InternetGatewayDevice.''
      else case se_mapper s of
        NilSchemaMapper \<Rightarrow> None
      | Mapper (MSchema m) \<Rightarrow>
          Some (if sm_modelType m = TR098 then ''InternetGatewayDevice.'' else ''Device.'')
      | _ \<Rightarrow> Some ''Device.'')"

definition sendGetParameterNamesSummon :: "env \<Rightarrow> session \<Rightarrow> world \<Rightarrow> reply \<times> session \<times> world" where
  "sendGetParameterNamesSummon e s0 w =
     (let s = s0\<lparr>se_summonPhase := 1\<rparr> in
      case summon_root s of
        None \<Rightarrow> (RPanic, s, w)
      | Some root \<Rightarrow> (RXml (BuildGetParameterNames (e_rpc e) root False), s, w))"

definition sendTargetedSummon :: "env \<Rightarrow> session \<Rightarrow> world \<Rightarrow> reply \<times> session \<times> world" where
  "sendTargetedSummon e s w =
     (RXml (BuildGetParameterValues (e_rpc e) (se_summonTargetPaths s)), s\<lparr>se_summonPhase := 4\<rparr>, w)"

definition summonBatchSizeForSchema :: "string \<Rightarrow> nat" where
  "summonBatchSizeForSchema name = (if is_tr098_schema name then 5000 else 500)"

text \<open>The session with a mapper rebuilt from parameters; discovery may panic.\<close>

definition rebuild_mapper :: "env \<Rightarrow> string \<Rightarrow> params \<Rightarrow> session \<Rightarrow> session option" where
  "rebuild_mapper e schemaName ps s =
     map_option (\<lambda>im. s\<lparr>se_mapper := schema_mapper_ref (e_schemas e) schemaName im, se_instanceMap := im\<rparr>)
       (DiscoverInstancesWithHints ps (discoveryHintsFromDriver (se_driver s)))"

definition finishSummon :: "env \<Rightarrow> session \<Rightarrow> world \<Rightarrow> reply \<times> session \<times> world" where
  "finishSummon e s0 w0 =
     (let serial = se_DeviceSerial s0; ps = se_summonAllParams s0;
          s1 = s0\<lparr>se_summonPhase := 0, se_summonAllNames := [], se_summonAllParams := []\<rparr>;
          w1 = store_params e serial ps
                 (w0\<lparr>w_devices := snd (UpdateParameters (e_now e) serial ps (w_devices w0))\<rparr>)
      in case rebuild_mapper e (se_summonSchemaName s0) ps s1 of
           None \<Rightarrow> (RPanic, s1, w1)
         | Some s2 \<Rightarrow>
             (case Option.bind (deref (se_mapper s2)) (\<lambda>m. summary_update ps m (se_driver s2) None) of
                None \<Rightarrow> (RPanic, s2, w1)
              | Some u \<Rightarrow>
                  let s3 = injectDefaultParamTask serial (se_driver s2) ps s2;
                      (s4, w2) = injectGlobalDefaultParams e serial ps s3 (update_info e serial u w1)
                  in dispatchNextOrClose e s4 w2))"

definition sendNextSummonBatch :: "env \<Rightarrow> session \<Rightarrow> world \<Rightarrow> reply \<times> session \<times> world" where
  "sendNextSummonBatch e s w =
     (let names = se_summonAllNames s;
          size = summonBatchSizeForSchema (se_summonSchemaName s);
          start = nat (se_summonBatchIdx s) * size
      in if start \<ge> length names then finishSummon e s w
         else (RXml (BuildGetParameterValues (e_rpc e) (take size (drop start names))), s, w))"

definition handleGetParameterNamesResponse ::
    "env \<Rightarrow> param_info list \<Rightarrow> session \<Rightarrow> world \<Rightarrow> reply \<times> session \<times> world" where
  "handleGetParameterNamesResponse e infos s w =
     (let names = filter (\<lambda>n. \<not> has_suffix n ''.'') (map pi_Name infos) in
      if names = [] then dispatchNextOrClose e (s\<lparr>se_summonPhase := 0\<rparr>) w
      else sendNextSummonBatch e (s\<lparr>se_summonPhase := 2, se_summonAllNames := names,
             se_summonBatchIdx := 0, se_summonAllParams := []\<rparr>) w)"

definition handleTargetedSummonResponse ::
    "env \<Rightarrow> params \<Rightarrow> session \<Rightarrow> world \<Rightarrow> reply \<times> session \<times> world" where
  "handleTargetedSummonResponse e ps s0 w0 =
     (let serial = se_DeviceSerial s0; mode = se_summonMode s0;
          s1 = s0\<lparr>se_summonPhase := 0, se_summonMode := [], se_summonTargetPaths := []\<rparr>
      in case rebuild_mapper e (se_summonSchemaName s0) ps s1 of
           None \<Rightarrow> (RPanic, s1, w0)
         | Some s2 \<Rightarrow>
             if mode \<noteq> ''ui_refresh'' then dispatchNextOrClose e s2 w0
             else
               let w1 = store_params e serial ps
                     (w0\<lparr>w_devices := snd (MergeParameters (e_now e) serial ps (w_devices w0))\<rparr>) in
               (case Option.bind (deref (se_mapper s2)) (\<lambda>m.
                       Option.bind (parseConnectedHosts ps m (se_driver s2)) (\<lambda>hosts.
                         summary_update ps m (se_driver s2) (Some hosts))) of
                  None \<Rightarrow> (RPanic, s2, w1)
                | Some u \<Rightarrow>
                    let s3 = injectDefaultParamTask serial (se_driver s2) ps s2;
                        (s4, w2) = injectGlobalDefaultParams e serial ps s3 (update_info e serial u w1)
                    in dispatchNextOrClose e s4 w2))"

text \<open>The answer to a batch: what phase 2 does with a GetParameterValuesResponse.\<close>

definition accumulate_batch :: "env \<Rightarrow> params \<Rightarrow> session \<Rightarrow> world \<Rightarrow> reply \<times> session \<times> world" where
  "accumulate_batch e ps s w =
     sendNextSummonBatch e (s\<lparr>se_summonAllParams := mput_all ps (se_summonAllParams s),
       se_summonBatchIdx := se_summonBatchIdx s + 1\<rparr>) w"

subsection \<open>Facts: a full summon\<close>

definition batches :: "nat \<Rightarrow> 'a list \<Rightarrow> nat \<Rightarrow> 'a list list" where
  "batches sz xs n = map (\<lambda>k. take sz (drop (k * sz) xs)) [0..<n]"

definition batch_count :: "nat \<Rightarrow> 'a list \<Rightarrow> nat" where
  "batch_count sz xs = (length xs + sz - 1) div sz"

lemma concat_batches: "concat (batches sz xs n) = take (n * sz) xs"
proof (induction n)
  case 0
  then show ?case by (simp add: batches_def)
next
  case (Suc n)
  have "concat (batches sz xs (Suc n)) = concat (batches sz xs n) @ take sz (drop (n * sz) xs)"
    by (simp add: batches_def)
  also have "\<dots> = take (n * sz + sz) xs"
    by (simp add: Suc take_add)
  finally show ?case by (simp add: add.commute)
qed

lemma batch_count_covers: "0 < sz \<Longrightarrow> length xs \<le> batch_count sz xs * sz"
proof -
  assume s: "0 < sz"
  have "length xs + sz - 1 < (length xs + sz - 1) div sz * sz + sz"
    using s by (metis add.commute dividend_less_div_times)
  then show ?thesis by (simp add: batch_count_def)
qed

lemma batch_count_exact: "0 < sz \<Longrightarrow> k < batch_count sz xs \<Longrightarrow> k * sz < length xs"
proof -
  assume s: "0 < sz" and k: "k < batch_count sz xs"
  then have "Suc k * sz \<le> length xs + sz - 1"
    by (simp add: batch_count_def less_eq_div_iff_mult_less_eq Suc_le_eq [symmetric] del: mult_Suc)
  then show ?thesis using s by simp
qed

lemma size_pos [simp]: "0 < summonBatchSizeForSchema n"
  by (simp add: summonBatchSizeForSchema_def)

fun summon_run :: "(env \<times> params) list \<Rightarrow> reply \<times> session \<times> world \<Rightarrow> reply list \<times> session \<times> world" where
  "summon_run [] (rep, s, w) = ([rep], s, w)"
| "summon_run ((e, ps) # as) (rep, s, w) =
     (case summon_run as (accumulate_batch e ps s w) of (reps, s', w') \<Rightarrow> (rep # reps, s', w'))"

definition asked_names :: "reply \<Rightarrow> string list option" where
  "asked_names rep = (case rep of RXml (_, BGetParameterValues ns) \<Rightarrow> Some ns | _ \<Rightarrow> None)"

lemma asked_names_gpv [simp]: "asked_names (RXml (i, BGetParameterValues ns)) = Some ns"
  by (simp add: asked_names_def)

lemma next_batch:
  assumes "nat (se_summonBatchIdx s) = k" and "k < batch_count sz (se_summonAllNames s)"
    and "sz = summonBatchSizeForSchema (se_summonSchemaName s)"
  shows "sendNextSummonBatch e s w =
    (RXml (e_rpc e, BGetParameterValues (take sz (drop (k * sz) (se_summonAllNames s)))), s, w)"
  using batch_count_exact [of sz k "se_summonAllNames s"] assms
  by (simp add: sendNextSummonBatch_def Let_def BuildGetParameterValues_def)

lemma summon_run_from:
  assumes "se_summonBatchIdx s = int k" and "k + length as < batch_count sz (se_summonAllNames s)"
    and "sz = summonBatchSizeForSchema (se_summonSchemaName s)"
  shows "case summon_run as (sendNextSummonBatch e s w) of (reps, s', w') \<Rightarrow>
    map asked_names reps =
      map (\<lambda>i. Some (take sz (drop (i * sz) (se_summonAllNames s)))) [k..<k + length as + 1] \<and>
    se_summonAllParams s' = fold (\<lambda>a. mput_all (snd a)) as (se_summonAllParams s) \<and> w' = w"
  using assms
proof (induction as arbitrary: s e k)
  case Nil
  have "sendNextSummonBatch e s w =
    (RXml (e_rpc e, BGetParameterValues (take sz (drop (k * sz) (se_summonAllNames s)))), s, w)"
    using Nil by (intro next_batch) simp_all
  then show ?case by simp
next
  case (Cons a as)
  obtain e' ps where a: "a = (e', ps)" by fastforce
  let ?s = "s\<lparr>se_summonAllParams := mput_all ps (se_summonAllParams s),
       se_summonBatchIdx := se_summonBatchIdx s + 1\<rparr>"
  have now: "sendNextSummonBatch e s w =
    (RXml (e_rpc e, BGetParameterValues (take sz (drop (k * sz) (se_summonAllNames s)))), s, w)"
    using Cons.prems by (intro next_batch) simp_all
  have "case summon_run as (sendNextSummonBatch e' ?s w) of (reps, s', w') \<Rightarrow>
    map asked_names reps =
      map (\<lambda>i. Some (take sz (drop (i * sz) (se_summonAllNames ?s)))) [Suc k..<Suc k + length as + 1] \<and>
    se_summonAllParams s' = fold (\<lambda>a. mput_all (snd a)) as (se_summonAllParams ?s) \<and> w' = w"
    using Cons.prems by (intro Cons.IH) simp_all
  moreover have "[k..<k + length (a # as) + 1] = k # [Suc k..<Suc k + length as + 1]"
    by (subst upt_rec) simp
  ultimately show ?case
    by (auto simp: a now accumulate_batch_def split: prod.splits)
qed



subsection \<open>Facts: default parameters\<close>

lemma differing_applied:
  assumes "wf_map want"
  shows "differing want (mput_all (differing want cur) cur) = []"
proof -
  have wf: "wf_map (differing want cur)"
    using assms by (simp add: differing_def)
  have "trim_space (mget (mput_all (differing want cur) cur) k) = trim_space v" if kv: "(k, v) \<in> set want" for k v
  proof (cases "trim_space (mget cur k) = trim_space v")
    case True
    then have "map_of (differing want cur) k = None"
      using map_of_SomeI [OF assms kv] map_of_SomeI [OF assms]
      by (force simp: differing_def map_of_eq_None_iff)
    then show ?thesis using True wf by (simp add: mget_def map_add_def)
  next
    case False
    then have "map_of (differing want cur) k = Some v"
      using kv by (intro map_of_SomeI [OF wf]) (simp add: differing_def)
    then show ?thesis using wf by (simp add: mget_def)
  qed
  then show ?thesis by (auto simp: differing_def filter_empty_conv)
qed



text \<open>What the injected task asks for is what the executor will send.\<close>

lemma synthetic_set_params:
  assumes "wf_map ps" and "ps \<noteq> []"
  shows "\<exists>qs. BuildSetParams (synthetic_set i serial ps) m = Inr (Some qs) \<and> map_of qs = map_of ps"
proof -
  have "to_lower ''parameters'' = ''parameters''" by (simp add: to_lower_def lower_char_def)
  then have dec: "decode_set_params_payload (t_Payload (synthetic_set i serial ps)) =
      Some \<lparr> sp_Parameters = mput_all ps [] \<rparr>"
    by (simp add: synthetic_set_def decode_set_params_payload_def encode_set_params_def dec_struct_def
        set_params_payload_field_def zero_set_params_payload_def dec_str_map_def enc_params_def
        dec_str_members_strings)
  have wf: "wf_map (mput_all ps [])" by simp
  have "map_of (mput_all ps []) = map_of ps" using assms(1) by simp
  moreover have "mput_all ps [] \<noteq> []"
    using assms calculation by (metis list.exhaust map_of.simps(1) map_of_eq_empty_iff)
  ultimately show ?thesis
    using wf dec by (simp add: BuildSetParams_def with_payload_def synthetic_set_def)
qed
end
