(* ===== verification/Responses.thy ===== *)
theory Responses
  imports Summon
begin
section \<open>Responses of a device\<close>

text \<open>
  The handlers of internal/cwmp/session.go for what a device answers to a request of the server: the
  answer advances a summon, a provisioning flow or a follow-up, or it completes the task in flight,
  and then the next task is dispatched.
\<close>

subsection \<open>Results\<close>

definition buildGetParamResult :: "param_value list \<Rightarrow> params" where
  "buildGetParamResult pvs = mput_all (map (\<lambda>p. (pv_Name p, pv_Data p)) pvs) []"

text \<open>
  The result of a diagnostic, as it is stored; a panic without a mapper. A speed test whose payload
  cannot be decoded never gets this far: its request was not built.
\<close>

definition parseDiagResult :: "task_type \<Rightarrow> params \<Rightarrow> mapper option \<Rightarrow> task \<Rightarrow> json option" where
  "parseDiagResult ty ps m orig =
     (if ty = TypePingTest \<or> ty = TypeDiagnostic
      then map_option (\<lambda>m. encode_ping_result (parsePingResult ps m)) m
      else if ty = TypeTraceroute then map_option (\<lambda>m. encode_traceroute_result (parseTracerouteResult ps m)) m
      else if ty = TypeSpeedTest
      then map_option (\<lambda>m. encode_speed_result (parseSpeedTestResult ps m
             (case decode_speed_payload (t_Payload orig) of None \<Rightarrow> zero_speed_payload | Some p \<Rightarrow> p))) m
      else Some (enc_params ps))"

text \<open>
  \<^verbatim>\<open>persistDiagToDevice\<close>: the result of no diagnostic is a list of hosts, so only the
  WAN counters are stored.
\<close>

definition persistDiagToDevice ::
    "env \<Rightarrow> string \<Rightarrow> task_type \<Rightarrow> params \<Rightarrow> mapper option \<Rightarrow> world \<Rightarrow> world option" where
  "persistDiagToDevice e serial ty ps m w =
     (if ty = TypeCPEStats
      then map_option (\<lambda>m. update_info e serial (no_update\<lparr>iu_WANs := Some [snd (parseCPEStats ps m)]\<rparr>) w) m
      else Some w)"

definition encode_connected_host :: "connected_host \<Rightarrow> json" where
  "encode_connected_host h = JObj
     ([(''mac'', JStr (ch_MACAddress h)), (''ip'', JStr (ch_IPAddress h)),
       (''hostname'', JStr (ch_Hostname h)), (''interface'', JStr (ch_Interface h))]
      @ (case ch_RSSI h of None \<Rightarrow> [] | Some r \<Rightarrow> [(''rssi'', JInt r)])
      @ [(''active'', JBool (ch_Active h)), (''lease_time'', JInt (ch_LeaseTime h))])"

definition done_task :: "int \<Rightarrow> json \<Rightarrow> task \<Rightarrow> task" where
  "done_task now result t =
     t\<lparr>t_CompletedAt := Some now, t_Status := StatusDone, t_Result := Some result\<rparr>"

definition complete_with :: "env \<Rightarrow> task \<Rightarrow> json \<Rightarrow> world \<Rightarrow> world" where
  "complete_with e t result w = snd (queue_update e (done_task (e_now e) result t) w)"

text \<open>The original of a collected diagnostic is completed; \<^term>\<open>None\<close> is a panic.\<close>

definition collect_diagnostic :: "env \<Rightarrow> task \<Rightarrow> params \<Rightarrow> mapper option \<Rightarrow> world \<Rightarrow> world option" where
  "collect_diagnostic e t ps m w0 =
     (case decode_diag_result_payload (t_Payload t) of
        None \<Rightarrow> Some w0
      | Some p \<Rightarrow>
          (case GetByID (dr_OriginalTaskID p) (w_queue w0) of
             (Inl _, q) \<Rightarrow> Some (w0\<lparr>w_queue := q\<rparr>)
           | (Inr orig, q) \<Rightarrow>
               Option.bind (parseDiagResult (dr_OriginalTaskType p) ps m orig) (\<lambda>result.
                 persistDiagToDevice e (t_Serial orig) (dr_OriginalTaskType p) ps m
                   (complete_with e orig result (w0\<lparr>w_queue := q\<rparr>)))))"

text \<open>The effect of a GetParameterValues response on the task it belongs to.\<close>

definition finish_get :: "env \<Rightarrow> task \<Rightarrow> params \<Rightarrow> mapper option \<Rightarrow> driver option \<Rightarrow> world \<Rightarrow> world option" where
  "finish_get e t ps m d w =
     (if t_Type t = TypeGetDiagResult then collect_diagnostic e t ps m w
      else if t_Type t = TypeConnectedDevices then
        Option.bind m (\<lambda>m. map_option (\<lambda>hosts.
            update_info e (t_Serial t) (no_update\<lparr>iu_ConnectedHosts := Some hosts\<rparr>)
              (complete_with e t (JArr (map encode_connected_host hosts)) w))
          (parseConnectedHosts ps m d))
      else if t_Type t = TypeCPEStats then
        map_option (\<lambda>m.
          update_info e (t_Serial t) (no_update\<lparr>iu_WANs := Some [snd (parseCPEStats ps m)]\<rparr>)
            (complete_with e t (encode_cpe_stats_result (fst (parseCPEStats ps m))) w)) m
      else if t_Type t = TypePortForwarding then
        map_option (\<lambda>m. complete_with e t
            (JArr (map encode_portfwd_rule (parsePortMappingRules ps m))) w) m
      else Some (completeTask e t (Some (enc_params ps)) [] w))"

definition handleGetParamValuesResponse ::
    "env \<Rightarrow> param_value list \<Rightarrow> session \<Rightarrow> world \<Rightarrow> reply \<times> session \<times> world" where
  "handleGetParamValuesResponse e pvs s0 w =
     (let ps = buildGetParamResult pvs in
      if se_summonPhase s0 = 2 then accumulate_batch e ps s0 w
      else if se_summonPhase s0 = 4 then handleTargetedSummonResponse e ps s0 w
      else
        let s = s0\<lparr>se_currentTask := None\<rparr> in
        case se_currentTask s0 of
          None \<Rightarrow> dispatchNextOrClose e s w
        | Some t \<Rightarrow>
            (case finish_get e t ps (deref (se_mapper s)) (se_driver s) w of
               None \<Rightarrow> (RPanic, s, w)
             | Some w' \<Rightarrow> dispatchNextOrClose e s w'))"

subsection \<open>The other responses\<close>

definition handleDownloadResponse ::
    "env \<Rightarrow> download_response \<Rightarrow> session \<Rightarrow> world \<Rightarrow> reply \<times> session \<times> world" where
  "handleDownloadResponse e d s w =
     (if dw_Status d = 0 then handleTaskResponse e None [] s w
      else case se_pendingTasks s of
             [] \<Rightarrow> (RNoContent, s, w)
           | t # ts \<Rightarrow> dispatchTask e t (s\<lparr>se_pendingTasks := ts\<rparr>) w)"

text \<open>
  The answer to a step of a provisioning flow: the next request, or the end of the flow and of its
  task. \<^verbatim>\<open>finish\<close> is what the handler does in the session and the world when the flow is
  complete.
\<close>

definition provision_answer ::
    "env \<Rightarrow> (string + envelope option) \<times> wan_provision \<Rightarrow> (session \<Rightarrow> world \<Rightarrow> session \<times> world) \<Rightarrow>
     session \<Rightarrow> world \<Rightarrow> reply \<times> session \<times> world" where
  "provision_answer e r finish s w =
     (case r of
        (Inl err, _) \<Rightarrow> handleTaskResponse e None err (s\<lparr>se_wanProvision := None\<rparr>) w
      | (Inr (Some x), wp) \<Rightarrow> (RXml x, s\<lparr>se_wanProvision := Some wp\<rparr>, w)
      | (Inr None, _) \<Rightarrow>
          (case finish (s\<lparr>se_wanProvision := None\<rparr>) w of (s', w') \<Rightarrow> handleTaskResponse e None [] s' w'))"

definition handleAddObjectResponse ::
    "env \<Rightarrow> int \<Rightarrow> session \<Rightarrow> world \<Rightarrow> reply \<times> session \<times> world" where
  "handleAddObjectResponse e n s0 w =
     (let s = s0\<lparr>se_addObjFollowUp := None\<rparr> in
      case se_wanProvision s0 of
        Some wp \<Rightarrow> provision_answer e (onAddObject (e_rpc e) n wp) Pair s w
      | None \<Rightarrow>
          (case se_addObjFollowUp s0 of
             None \<Rightarrow> handleTaskResponse e None [] s w
           | Some f \<Rightarrow> (RXml (call_follow_up f n), s, w)))"

definition handleDeleteObjectResponse :: "env \<Rightarrow> session \<Rightarrow> world \<Rightarrow> reply \<times> session \<times> world" where
  "handleDeleteObjectResponse e s w =
     (case se_wanProvision s of
        Some wp \<Rightarrow> provision_answer e (onDeleteObject (e_rpc e) wp) Pair s w
      | None \<Rightarrow> handleTaskResponse e None [] s w)"

definition persistWANCredentials :: "env \<Rightarrow> string \<Rightarrow> params \<Rightarrow> world \<Rightarrow> world" where
  "persistWANCredentials e serial creds w =
     (if creds = [] \<or> serial = [] then w else store_params e serial creds w)"

definition take_credentials :: "env \<Rightarrow> session \<Rightarrow> world \<Rightarrow> session \<times> world" where
  "take_credentials e s w =
     (s\<lparr>se_pendingWANCredentials := []\<rparr>,
      persistWANCredentials e (se_DeviceSerial s) (se_pendingWANCredentials s) w)"

text \<open>
  After a SetParameterValues that was not a step of a flow: the parameters it set, the mark of a
  provisioned device and the credentials go into the parameter store, then the task is completed.
\<close>

definition set_params_done :: "env \<Rightarrow> session \<Rightarrow> world \<Rightarrow> reply \<times> session \<times> world" where
  "set_params_done e s0 w0 =
     (let serial = se_DeviceSerial s0;
          s = s0\<lparr>se_lastSetParams := [], se_pendingWANCredentials := [], se_pendingProvisionMark := False\<rparr>;
          w1 = (if se_lastSetParams s0 \<noteq> [] then store_params e serial (se_lastSetParams s0) w0 else w0);
          w2 = (if se_pendingProvisionMark s0 \<and> serial \<noteq> [] then store_params e serial provisioned_mark w1 else w1)
      in handleTaskResponse e None [] s (persistWANCredentials e serial (se_pendingWANCredentials s0) w2))"

definition handleSetParamValuesResponse :: "env \<Rightarrow> session \<Rightarrow> world \<Rightarrow> reply \<times> session \<times> world" where
  "handleSetParamValuesResponse e s w0 =
     (case se_wanProvision s of
        Some wp \<Rightarrow> provision_answer e (onSetParams (e_rpc e) wp) (take_credentials e) s w0
      | None \<Rightarrow>
          (case se_currentTask s of
             Some t \<Rightarrow>
               if IsDiagnosticAsync (t_Type t) then dispatchNextOrClose e (s\<lparr>se_currentTask := None\<rparr>) w0
               else set_params_done e s w0
           | None \<Rightarrow> set_params_done e s w0))"

definition handleFault :: "env \<Rightarrow> soap_fault \<Rightarrow> session \<Rightarrow> world \<Rightarrow> reply \<times> session \<times> world" where
  "handleFault e f s w =
     (let (code, msg) = (if sf_CWMPCode f = [] then (sf_FaultCode f, sf_FaultString f)
                         else (sf_CWMPCode f, sf_CWMPString f))
      in handleTaskResponse e None (''CWMP '' @ code @ '': '' @ msg)
           (s\<lparr>se_wanProvision := None, se_addObjFollowUp := None\<rparr>) w)"

definition transferred_task :: "int \<Rightarrow> transfer_complete \<Rightarrow> task \<Rightarrow> task" where
  "transferred_task now tc t =
     (if tc_FaultCode tc = 0 then t\<lparr>t_CompletedAt := Some now, t_Status := StatusDone\<rparr>
      else t\<lparr>t_CompletedAt := Some now, t_Status := StatusFailed,
             t_Error := ''fault '' @ itoa (tc_FaultCode tc) @ '': '' @ tc_FaultString tc\<rparr>)"

definition handleTransferComplete :: "env \<Rightarrow> transfer_complete \<Rightarrow> world \<Rightarrow> world" where
  "handleTransferComplete e tc w =
     (if tc_CommandKey tc = [] then w
      else case GetByID (tc_CommandKey tc) (w_queue w) of
             (Inl _, q) \<Rightarrow> w\<lparr>w_queue := q\<rparr>
           | (Inr t, q) \<Rightarrow> snd (queue_update e (transferred_task (e_now e) tc t) (w\<lparr>w_queue := q\<rparr>)))"

definition rpc_methods :: "string list" where
  "rpc_methods = [''GetRPCMethods'', ''SetParameterValues'', ''GetParameterValues'', ''GetParameterNames'',
     ''AddObject'', ''DeleteObject'', ''Download'', ''Reboot'', ''FactoryReset'']"

definition handleGetRPCMethods :: "string \<Rightarrow> reply" where
  "handleGetRPCMethods i = RXml (i, BGetRPCMethodsResponse rpc_methods)"

subsection \<open>A device that answers every request\<close>

text \<open>
  What a device that carries out every request answers: an instance number, the values it reads, and
  the positive response to the kind of request it was sent.
\<close>

record device_answer =
  an_env :: env
  an_instance :: int
  an_values :: "param_value list"
  an_names :: "param_info list"

definition answer_body :: "device_answer \<Rightarrow> acs_body \<Rightarrow> session \<Rightarrow> world \<Rightarrow> reply \<times> session \<times> world" where
  "answer_body a body s w =
     (let e = an_env a in
      case body of
        BSetParameterValues _ _ \<Rightarrow> handleSetParamValuesResponse e s w
      | BGetParameterValues _ \<Rightarrow> handleGetParamValuesResponse e (an_values a) s w
      | BGetParameterNames _ _ \<Rightarrow> handleGetParameterNamesResponse e (an_names a) s w
      | BAddObject _ _ \<Rightarrow> handleAddObjectResponse e (an_instance a) s w
      | BDeleteObject _ _ \<Rightarrow> handleDeleteObjectResponse e s w
      | BDownload _ \<Rightarrow> handleDownloadResponse e \<lparr> dw_Status = 0, dw_StartTime = [], dw_CompleteTime = [] \<rparr> s w
      | _ \<Rightarrow> handleTaskResponse e None [] s w)"

definition answer :: "device_answer \<Rightarrow> reply \<times> session \<times> world \<Rightarrow> reply \<times> session \<times> world" where
  "answer a r = (case r of (rep, s, w) \<Rightarrow> (case rep of RXml x \<Rightarrow> answer_body a (snd x) s w | _ \<Rightarrow> r))"

fun conversation :: "device_answer list \<Rightarrow> reply \<times> session \<times> world \<Rightarrow> reply \<times> session \<times> world" where
  "conversation [] r = r"
| "conversation (a # as) r = conversation as (answer a r)"

definition closed :: "reply \<times> session \<times> world \<Rightarrow> bool" where
  "closed r \<longleftrightarrow> (case fst r of RXml _ \<Rightarrow> False | _ \<Rightarrow> True)"

subsection \<open>Facts: every session ends\<close>

text \<open>
  What is left to do in a session, most significant first: an outstanding request for names, the
  batches of a summon, the pending tasks, the steps of a provisioning flow, a follow-up. Every answer
  makes it smaller.
\<close>

definition batches_left :: "session \<Rightarrow> nat" where
  "batches_left s =
     (if se_summonPhase s = 2
      then 1 + nat (int (length (se_summonAllNames s))
                    - se_summonBatchIdx s * int (summonBatchSizeForSchema (se_summonSchemaName s)))
      else if se_summonPhase s = 4 then 1 else 0)"

definition steps_left :: "session \<Rightarrow> nat" where
  "steps_left s = (case se_wanProvision s of None \<Rightarrow> 0
     | Some wp \<Rightarrow> 1 + (length (pe_steps (wp_exe wp)) - pe_cur (wp_exe wp)))"

definition names_asked :: "reply \<Rightarrow> nat" where
  "names_asked rep = (case rep of RXml x \<Rightarrow> if task_request x then 0 else 1 | _ \<Rightarrow> 0)"

definition smaller :: "((reply \<times> session \<times> world) \<times> (reply \<times> session \<times> world)) set" where
  "smaller = inv_image
     (less_than <*lex*> less_than <*lex*> less_than <*lex*> less_than <*lex*> less_than)
     (\<lambda>(rep, s, w). (names_asked rep, batches_left s, length (se_pendingTasks s), steps_left s,
        if se_addObjFollowUp s = None then 0 else (1 :: nat)))"

lemma wf_smaller: "wf smaller"
  unfolding smaller_def by (intro wf_inv_image wf_lex_prod wf_less_than)

lemma batches_left_upd [simp]:
  "batches_left (s\<lparr>se_currentTask := c\<rparr>) = batches_left s"
  "batches_left (s\<lparr>se_wanProvision := wp\<rparr>) = batches_left s"
  "batches_left (s\<lparr>se_addObjFollowUp := f\<rparr>) = batches_left s"
  "batches_left (s\<lparr>se_lastSetParams := ps\<rparr>) = batches_left s"
  "batches_left (s\<lparr>se_pendingWANCredentials := ps\<rparr>) = batches_left s"
  "batches_left (s\<lparr>se_pendingProvisionMark := b\<rparr>) = batches_left s"
  "batches_left (s\<lparr>se_pendingTasks := ts\<rparr>) = batches_left s"
  by (simp_all add: batches_left_def)

lemma steps_left_upd [simp]:
  "steps_left (s\<lparr>se_addObjFollowUp := f\<rparr>) = steps_left s"
  "steps_left (s\<lparr>se_wanProvision := Some wp\<rparr>) = 1 + (length (pe_steps (wp_exe wp)) - pe_cur (wp_exe wp))"
  by (simp_all add: steps_left_def)

lemma smallerI:
  "names_asked rep' < names_asked rep \<or> names_asked rep' \<le> names_asked rep \<and>
    (batches_left s' < batches_left s \<or> batches_left s' \<le> batches_left s \<and>
     (length (se_pendingTasks s') < length (se_pendingTasks s) \<or>
      length (se_pendingTasks s') \<le> length (se_pendingTasks s) \<and>
      (steps_left s' < steps_left s \<or> steps_left s' \<le> steps_left s \<and>
       se_addObjFollowUp s' = None \<and> se_addObjFollowUp s \<noteq> None)))
   \<Longrightarrow> ((rep', s', w'), (rep, s, w)) \<in> smaller"
  by (auto simp: smaller_def)

text \<open>An answer closes the session or leaves less to do.\<close>

definition moved_on :: "reply \<times> session \<times> world \<Rightarrow> reply \<times> session \<times> world \<Rightarrow> bool" where
  "moved_on r' r \<longleftrightarrow> closed r' \<or> (r', r) \<in> smaller"

text \<open>Dispatching the next task of a session that is no further from its end.\<close>

lemma dispatch_moves_on:
  assumes "batches_left s1 \<le> batches_left s"
    and "batches_left s1 < batches_left s \<or> length (se_pendingTasks s1) \<le> length (se_pendingTasks s)"
  shows "moved_on (dispatchNextOrClose e s1 w1) (RXml x, s, w)"
proof -
  obtain rep s' w' where r: "dispatchNextOrClose e s1 w1 = (rep, s', w')" by (metis prod.exhaust)
  from dispatch_outcome(2) [of s1 e w1] r have d: "dispatched (se_pendingTasks s1) s1 (rep, s', w')" by simp
  then have "batches_left s' = batches_left s1"
    by (simp add: dispatched_def batches_left_def)
  moreover have "length (se_pendingTasks s') < length (se_pendingTasks s1)" if "rep = RXml y" for y
    using d that by (auto simp: dispatched_def)
  moreover have "names_asked rep = 0"
    using d by (auto simp: dispatched_def names_asked_def split: reply.splits)
  ultimately show ?thesis
    using assms by (auto simp: moved_on_def closed_def r intro!: smallerI split: reply.splits)
qed

lemma task_response_moves_on:
  assumes "batches_left s1 = batches_left s" and "se_pendingTasks s1 = se_pendingTasks s"
  shows "moved_on (handleTaskResponse e res err s1 w1) (RXml x, s, w)"
  using assms
  by (auto simp: handleTaskResponse_def Let_def intro!: dispatch_moves_on split: option.splits)

lemma provision_step_less:
  assumes "r = onAddObject i n wp \<or> r = onSetParams i wp \<or> r = onDeleteObject i wp"
    and "fst r = Inr (Some x)"
  shows "task_request x"
    "length (pe_steps (wp_exe (snd r))) - pe_cur (wp_exe (snd r)) < length (pe_steps (wp_exe wp)) - pe_cur (wp_exe wp)"
proof -
  obtain a where nd: "\<not> Done (wp_exe wp)" and q: "snd r = wp\<lparr>wp_exe := advance_by a (wp_exe wp)\<rparr>"
    and x: "next_request i (snd r) = Inr (Some x)"
  proof -
    have "\<not> Done (wp_exe wp) \<and> (snd r = wp\<lparr>wp_exe := Advance (wp_exe wp)\<rparr> \<or> snd r = wp\<lparr>wp_exe := AdvanceAddObject n (wp_exe wp)\<rparr>)
      \<and> next_request i (snd r) = Inr (Some x)"
      using assms
      by (auto simp: onAddObject_def onSetParams_def onDeleteObject_def wp_done_def CurrentStep_def Let_def
          split: option.splits if_splits)
    then show ?thesis using that [of None] that [of "Some n"] by (auto simp: advance_by_def)
  qed
  show "task_request x" using x by (auto simp: next_request_def current_request split: if_splits sum.splits)
  from nd have less: "pe_cur (wp_exe wp) < length (pe_steps (wp_exe wp))" by (simp add: Done_def)
  show "length (pe_steps (wp_exe (snd r))) - pe_cur (wp_exe (snd r)) < length (pe_steps (wp_exe wp)) - pe_cur (wp_exe wp)"
    using pm.advance_forward [OF less, of a] less by (simp add: q)
qed

lemma provision_moves_on:
  assumes "r = onAddObject i n wp \<or> r = onSetParams i wp \<or> r = onDeleteObject i wp"
    and "se_wanProvision s = Some wp" and "f = Pair \<or> f = take_credentials e"
  shows "moved_on (provision_answer e r f (s\<lparr>se_addObjFollowUp := fu\<rparr>) w) (RXml x, s, w0)"
    "moved_on (provision_answer e r f s w) (RXml x, s, w0)"
proof -
  have "moved_on (provision_answer e r f s1 w) (RXml x, s, w0)"
    if "batches_left s1 = batches_left s" "se_pendingTasks s1 = se_pendingTasks s" for s1
  proof (cases "fst r")
    case (Inl err)
    then show ?thesis
      using that by (auto simp: provision_answer_def intro!: task_response_moves_on split: prod.splits)
  next
    case (Inr y)
    show ?thesis
    proof (cases y)
      case None
      then show ?thesis
        using Inr that assms(3)
        by (auto simp: provision_answer_def take_credentials_def intro!: task_response_moves_on split: prod.splits)
    next
      case (Some z)
      have "provision_answer e r f s1 w = (RXml z, s1\<lparr>se_wanProvision := Some (snd r)\<rparr>, w)"
        using Inr Some by (cases r) (simp add: provision_answer_def)
      moreover have "steps_left (s1\<lparr>se_wanProvision := Some (snd r)\<rparr>) < steps_left s"
        using provision_step_less(2) [OF assms(1)] Inr Some assms(2) by (simp add: steps_left_def)
      moreover have "names_asked (RXml z) = 0"
        using provision_step_less(1) [OF assms(1)] Inr Some by (simp add: names_asked_def)
      ultimately show ?thesis using that by (simp add: moved_on_def smallerI)
    qed
  qed
  then show "moved_on (provision_answer e r f (s\<lparr>se_addObjFollowUp := fu\<rparr>) w) (RXml x, s, w0)"
    "moved_on (provision_answer e r f s w) (RXml x, s, w0)" by simp_all
qed

lemma set_moves_on: "moved_on (handleSetParamValuesResponse e s w) (RXml x, s, w0)"
  by (auto simp: handleSetParamValuesResponse_def set_params_done_def Let_def
      intro!: provision_moves_on dispatch_moves_on task_response_moves_on split: option.splits)

lemma delete_moves_on: "moved_on (handleDeleteObjectResponse e s w) (RXml x, s, w0)"
  by (auto simp: handleDeleteObjectResponse_def
      intro!: provision_moves_on task_response_moves_on split: option.splits)

lemma add_moves_on: "moved_on (handleAddObjectResponse e n s w) (RXml x, s, w0)"
proof (cases "se_wanProvision s")
  case (Some wp)
  then show ?thesis
    using provision_moves_on(1) [of "onAddObject (e_rpc e) n wp" "e_rpc e" n wp s Pair e None w x w0]
    by (simp add: handleAddObjectResponse_def Let_def)
next
  case None
  show ?thesis
  proof (cases "se_addObjFollowUp s")
    case None
    then show ?thesis
      using \<open>se_wanProvision s = None\<close>
      by (auto simp: handleAddObjectResponse_def Let_def intro!: task_response_moves_on)
  next
    case (Some f)
    have "names_asked (RXml (call_follow_up f n)) = 0"
      by (simp add: names_asked_def call_follow_up_def)
    then show ?thesis
      using Some None by (simp add: handleAddObjectResponse_def Let_def moved_on_def smallerI)
  qed
qed

text \<open>The end of a summon takes its share off, whatever it adds to the pending tasks.\<close>

lemma inject_phase [simp]:
  "se_summonPhase (injectDefaultParamTask serial d cur s) = se_summonPhase s"
  "se_summonPhase (fst (injectGlobalDefaultParams e serial cur s w)) = se_summonPhase s"
  by (auto simp: injectDefaultParamTask_def injectGlobalDefaultParams_def Let_def
      split: option.splits prod.splits sum.splits)

lemma rebuild_phase: "rebuild_mapper e n ps s = Some s' \<Longrightarrow> se_summonPhase s' = se_summonPhase s"
  by (auto simp: rebuild_mapper_def)

lemma batches_left_idle: "se_summonPhase s = 0 \<Longrightarrow> batches_left s = 0"
  by (simp add: batches_left_def)

lemma idle_moves_on:
  "se_summonPhase s1 = 0 \<Longrightarrow> 0 < batches_left s \<Longrightarrow>
     moved_on (dispatchNextOrClose e s1 w1) (RXml x, s, w)"
  by (simp add: dispatch_moves_on batches_left_idle)

lemma idle_names_moves_on:
  assumes "\<not> task_request x" and "se_summonPhase s1 = 0"
  shows "moved_on (dispatchNextOrClose e s1 w1) (RXml x, s, w)"
proof -
  obtain rep s' w' where r: "dispatchNextOrClose e s1 w1 = (rep, s', w')" by (metis prod.exhaust)
  then have "names_asked rep = 0"
    using dispatch_outcome(2) [of s1 e w1] by (auto simp: dispatched_def names_asked_def split: reply.splits)
  then show ?thesis
    using assms(1) by (simp add: moved_on_def r smallerI names_asked_def)
qed

lemma finishSummon_moves_on:
  assumes "0 < batches_left s \<or> \<not> task_request x"
  shows "moved_on (finishSummon e s1 w1) (RXml x, s, w)"
proof -
  have "moved_on (dispatchNextOrClose e s2 w2) (RXml x, s, w)" if "se_summonPhase s2 = 0" for s2 w2
    using assms that idle_moves_on idle_names_moves_on by blast
  then show ?thesis
    by (auto simp: finishSummon_def Let_def moved_on_def [of "(RPanic, _)"] closed_def dest!: rebuild_phase
        split: option.splits prod.splits) (metis fst_conv inject_phase)+
qed

lemma targeted_moves_on:
  assumes "se_summonPhase s = 4"
  shows "moved_on (handleTargetedSummonResponse e ps s w1) (RXml x, s, w)"
proof -
  have "0 < batches_left s" using assms by (simp add: batches_left_def)
  then have "moved_on (dispatchNextOrClose e s2 w2) (RXml x, s, w)" if "se_summonPhase s2 = 0" for s2 w2
    using that idle_moves_on by blast
  then show ?thesis
    by (auto simp: handleTargetedSummonResponse_def Let_def moved_on_def [of "(RPanic, _)"] closed_def
        dest!: rebuild_phase split: option.splits prod.splits) (metis fst_conv inject_phase)+
qed

lemma next_batch_moves_on:
  assumes "se_summonPhase s1 = 2" and "0 < batches_left s \<or> \<not> task_request x"
    and "\<not> task_request x \<or> (se_summonAllNames s1 = se_summonAllNames s \<and> se_summonPhase s = 2 \<and>
           se_summonSchemaName s1 = se_summonSchemaName s \<and> se_summonBatchIdx s1 = se_summonBatchIdx s + 1)"
  shows "moved_on (sendNextSummonBatch e s1 w1) (RXml x, s, w)"
proof (cases "nat (se_summonBatchIdx s1) * summonBatchSizeForSchema (se_summonSchemaName s1) \<ge> length (se_summonAllNames s1)")
  case True
  then show ?thesis by (simp add: sendNextSummonBatch_def Let_def finishSummon_moves_on assms(2))
next
  case False
  let ?size = "summonBatchSizeForSchema (se_summonSchemaName s1)" and ?names = "se_summonAllNames s1"
  define y where "y = BuildGetParameterValues (e_rpc e) (take ?size (drop (nat (se_summonBatchIdx s1) * ?size) ?names))"
  have step: "sendNextSummonBatch e s1 w1 = (RXml y, s1, w1)" and names: "names_asked (RXml y) = 0"
    using False by (simp_all add: sendNextSummonBatch_def Let_def y_def names_asked_def)
  show ?thesis
  proof (cases "task_request x")
    case True
    let ?n = "int (length ?names)" and ?i = "se_summonBatchIdx s" and ?z = "int ?size"
    from True assms(3) have s: "se_summonAllNames s = ?names" "se_summonSchemaName s1 = se_summonSchemaName s"
      "se_summonPhase s = 2" "se_summonBatchIdx s1 = ?i + 1" by auto
    have "(?i + 1) * ?z < ?n"
    proof (cases "?i + 1 \<le> 0")
      case True
      then have "(?i + 1) * ?z \<le> 0" by (simp add: mult_nonpos_nonneg)
      moreover have "0 < length ?names" using False by (cases ?names) simp_all
      ultimately show ?thesis by linarith
    next
      case pos: False
      have "int (nat (?i + 1) * ?size) < ?n"
        using False by (simp only: s(4) of_nat_less_iff not_le)
      then show ?thesis using pos by simp
    qed
    then have "nat (?n - (?i + 1) * ?z) < nat (?n - ?i * ?z)"
      using size_pos [of "se_summonSchemaName s1"] by (simp add: algebra_simps)
    then have "batches_left s1 < batches_left s"
      using s assms(1) by (simp add: batches_left_def)
    then show ?thesis using step names by (simp add: moved_on_def smallerI)
  next
    case False
    then show ?thesis using step names by (simp add: moved_on_def smallerI names_asked_def)
  qed
qed

lemma names_moves_on:
  assumes "\<not> task_request x"
  shows "moved_on (handleGetParameterNamesResponse e infos s w1) (RXml x, s, w)"
  using assms
  by (auto simp: handleGetParameterNamesResponse_def Let_def intro!: idle_names_moves_on next_batch_moves_on)

lemma get_moves_on: "moved_on (handleGetParamValuesResponse e pvs s w1) (RXml x, s, w)"
  by (auto simp: handleGetParamValuesResponse_def Let_def accumulate_batch_def moved_on_def [of "(RPanic, _)"]
      closed_def batches_left_def [of s]
      intro!: dispatch_moves_on targeted_moves_on next_batch_moves_on split: option.splits)

lemma answer_moves_on: "\<not> closed r \<Longrightarrow> moved_on (answer a r) r"
proof -
  assume "\<not> closed r"
  then obtain i body s w where r: "r = (RXml (i, body), s, w)"
    by (cases r) (auto simp: closed_def split: reply.splits)
  show ?thesis
    by (cases body)
      (auto simp: r answer_def answer_body_def Let_def handleDownloadResponse_def task_request_def
        intro: set_moves_on get_moves_on add_moves_on delete_moves_on task_response_moves_on names_moves_on)
qed

lemma answer_closed: "closed r \<Longrightarrow> answer a r = r"
  by (auto simp: closed_def answer_def split: reply.splits prod.splits)

lemma conversation_closed: "closed r \<Longrightarrow> conversation as r = r"
  by (induction as) (simp_all add: answer_closed)

text \<open>A closing step of any kind is reached when every step moves on.\<close>

lemma rounds_close:
  assumes "\<And>a r. closed r \<Longrightarrow> f a r = r" and "\<And>a r. \<not> closed r \<Longrightarrow> moved_on (f a r) r"
  shows "\<exists>n. closed (fold f (map as [0..<n]) r)"
proof (induction r arbitrary: as rule: wf_induct_rule [OF wf_smaller])
  case (1 r)
  show ?case
  proof (cases "closed r")
    case True
    then have "closed (fold f (map as [0..<0]) r)" by simp
    then show ?thesis by blast
  next
    case False
    have "\<exists>n. closed (fold f (map (\<lambda>k. as (Suc k)) [0..<n]) (f (as 0) r))"
    proof (cases "closed (f (as 0) r)")
      case True
      then have "closed (fold f (map (\<lambda>k. as (Suc k)) [0..<0]) (f (as 0) r))" by simp
      then show ?thesis by blast
    next
      case open_still: False
      then have "(f (as 0) r, r) \<in> smaller"
        using assms(2) [OF False, of "as 0"] by (simp add: moved_on_def)
      then show ?thesis by (rule 1)
    qed
    then obtain n where "closed (fold f (map (\<lambda>k. as (Suc k)) [0..<n]) (f (as 0) r))" ..
    moreover have "map as [0..<Suc n] = as 0 # map (\<lambda>k. as (Suc k)) [0..<n]"
      by (simp add: upt_conv_Cons map_Suc_upt [symmetric] comp_def del: upt_Suc)
    ultimately have "closed (fold f (map as [0..<Suc n]) r)" by simp
    then show ?thesis by blast
  qed
qed

lemma conversation_fold: "conversation as r = fold answer as r"
  by (induction as arbitrary: r) simp_all

lemma conversation_ends: "\<exists>n. closed (conversation (map as [0..<n]) r)"
  unfolding conversation_fold using answer_closed answer_moves_on by (rule rounds_close)

subsection \<open>Facts: where the tasks of a session end\<close>

text \<open>
  A task has ended in the queue, or it is a diagnostic whose result the device will report in a
  later session.
\<close>

definition ended :: "redis \<Rightarrow> string \<Rightarrow> bool" where
  "ended q i \<longleftrightarrow> (case lookup_task q i of None \<Rightarrow> False
     | Some u \<Rightarrow> terminal (t_Status u) \<or> (t_Status u = StatusExecuting \<and> IsDiagnosticAsync (t_Type u)))"

text \<open>The session after an answer and before the next task: the tasks of \<^verbatim>\<open>I\<close> wait or have ended.\<close>

definition between_tasks :: "string set \<Rightarrow> session \<Rightarrow> world \<Rightarrow> bool" where
  "between_tasks I s w \<longleftrightarrow> rd_faults (w_queue w) = [] \<and> workable (se_pendingTasks s) \<and> se_summonPhase s = 0 \<and>
     (\<forall>i \<in> I. i \<in> t_ID ` set (se_pendingTasks s) \<or> ended (w_queue w) i)"

text \<open>The session while a request is outstanding: its task is the one in flight.\<close>

definition in_hand :: "string set \<Rightarrow> session \<Rightarrow> world \<Rightarrow> bool" where
  "in_hand I s w \<longleftrightarrow>
     (\<exists>c. se_currentTask s = Some c \<and> wf_task c \<and> t_Type c \<noteq> TypeGetDiagResult \<and> t_Status c = StatusExecuting \<and>
        t_ID c \<notin> t_ID ` set (se_pendingTasks s) \<and> lookup_task (w_queue w) (t_ID c) = Some (stored_task c) \<and>
        between_tasks (I - {t_ID c}) s w)"

definition tracked :: "string set \<Rightarrow> reply \<times> session \<times> world \<Rightarrow> bool" where
  "tracked I r \<longleftrightarrow>
     (case r of (rep, s, w) \<Rightarrow>
        (case rep of
           RXml x \<Rightarrow> task_request x \<and> in_hand I s w
         | RNoContent \<Rightarrow> \<forall>i \<in> I. ended (w_queue w) i
         | RPanic \<Rightarrow> True
         | _ \<Rightarrow> False))"

lemma accounted_ended:
  "accounted now (RXml x, s, w) i \<Longrightarrow> se_currentTask s = Some c \<Longrightarrow> i \<noteq> t_ID c \<Longrightarrow> ended (w_queue w) i"
  "accounted now (RNoContent, s, w) i \<Longrightarrow> ended (w_queue w) i"
  by (auto simp: accounted_def ended_def terminal_def split: option.splits)

lemma workable_sub: "workable ts \<Longrightarrow> ts = us @ vs \<Longrightarrow> workable vs"
  by (auto simp: workable_def)

lemma tracked_dispatch:
  assumes "between_tasks I s w"
  shows "tracked I (dispatchNextOrClose e s w)"
proof -
  obtain rep s' w' where r: "dispatchNextOrClose e s w = (rep, s', w')" by (metis prod.exhaust)
  from assms have up: "rd_faults (w_queue w) = []" "workable (se_pendingTasks s)" by (simp_all add: between_tasks_def)
  have d: "dispatched (se_pendingTasks s) s (rep, s', w')" using dispatch_outcome(2) [of s e w] r by simp
  have st: "settled (e_now e) (se_pendingTasks s) w (rep, s', w')" using dispatch_settles(2) [OF up, of e] r by simp
  show ?thesis
  proof (cases rep)
    case (RXml x)
    from d RXml obtain failed t where ts: "se_pendingTasks s = (failed @ [t]) @ se_pendingTasks s'"
      and x: "task_request x" by (auto simp: dispatched_def)
    from st RXml obtain c where c: "se_currentTask s' = Some c" "wf_task c" "t_Type c \<noteq> TypeGetDiagResult"
      "t_Status c = StatusExecuting" "t_ID c \<in> t_ID ` set (se_pendingTasks s) - t_ID ` set (se_pendingTasks s')"
      "lookup_task (w_queue w') (t_ID c) = Some (stored_task c)"
      by (auto simp: settled_def)
    have "i \<in> t_ID ` set (se_pendingTasks s') \<or> ended (w_queue w') i" if "i \<in> I - {t_ID c}" for i
    proof (cases "i \<in> t_ID ` set (se_pendingTasks s)")
      case True
      then have "i \<notin> t_ID ` set (se_pendingTasks s') \<Longrightarrow> accounted (e_now e) (RXml x, s', w') i"
        using st RXml by (simp add: settled_def)
      then show ?thesis using accounted_ended(1) [OF _ c(1)] that by blast
    next
      case False
      then show ?thesis
        using st assms that by (auto simp: settled_def between_tasks_def ended_def)
    qed
    then show ?thesis
      using c x d st assms workable_sub [OF up(2) ts]
      by (auto simp: tracked_def r RXml in_hand_def between_tasks_def dispatched_def settled_def)
  next
    case RNoContent
    then have none: "se_pendingTasks s' = []" using d by (simp add: dispatched_def)
    have "ended (w_queue w') i" if "i \<in> I" for i
    proof (cases "i \<in> t_ID ` set (se_pendingTasks s)")
      case True
      then have "accounted (e_now e) (RNoContent, s', w') i" using st none RNoContent by (auto simp: settled_def)
      then show ?thesis by (rule accounted_ended)
    next
      case False
      then show ?thesis using st assms that by (auto simp: settled_def between_tasks_def ended_def)
    qed
    then show ?thesis by (simp add: tracked_def r RNoContent)
  qed (use d in \<open>auto simp: tracked_def r dispatched_def\<close>)
qed

text \<open>The task in flight is completed, whatever its result.\<close>

lemma wf_finished [simp]: "wf_task t \<Longrightarrow> wf_task (finished_task now res err t)" "wf_task t \<Longrightarrow> wf_task (done_task now j t)"
  by (simp_all add: finished_task_def done_task_def wf_task_def wf_status_def status_str_def status_of_def)

lemma finished_sel [simp]:
  "t_ID (finished_task now res err t) = t_ID t" "terminal (t_Status (finished_task now res err t))"
  "t_ID (done_task now j t) = t_ID t" "terminal (t_Status (done_task now j t))"
  by (simp_all add: finished_task_def done_task_def)

lemma between_tasks_upd [simp]:
  "between_tasks I (s\<lparr>se_currentTask := c\<rparr>) w = between_tasks I s w"
  "between_tasks I (s\<lparr>se_wanProvision := wp\<rparr>) w = between_tasks I s w"
  "between_tasks I (s\<lparr>se_addObjFollowUp := f\<rparr>) w = between_tasks I s w"
  "between_tasks I (s\<lparr>se_lastSetParams := ps\<rparr>) w = between_tasks I s w"
  "between_tasks I (s\<lparr>se_pendingWANCredentials := ps\<rparr>) w = between_tasks I s w"
  "between_tasks I (s\<lparr>se_pendingProvisionMark := b\<rparr>) w = between_tasks I s w"
  "between_tasks I s (w\<lparr>w_lastSummon := l\<rparr>) = between_tasks I s w"
  "between_tasks I s (w\<lparr>w_repo := p\<rparr>) = between_tasks I s w"
  "between_tasks I s (w\<lparr>w_devices := d\<rparr>) = between_tasks I s w"
  by (simp_all add: between_tasks_def)

lemma in_hand_upd [simp]:
  "in_hand I (s\<lparr>se_wanProvision := wp\<rparr>) w = in_hand I s w"
  "in_hand I (s\<lparr>se_addObjFollowUp := f\<rparr>) w = in_hand I s w"
  "in_hand I (s\<lparr>se_lastSetParams := ps\<rparr>) w = in_hand I s w"
  "in_hand I (s\<lparr>se_pendingWANCredentials := ps\<rparr>) w = in_hand I s w"
  "in_hand I (s\<lparr>se_pendingProvisionMark := b\<rparr>) w = in_hand I s w"
  "in_hand I s (w\<lparr>w_lastSummon := l\<rparr>) = in_hand I s w"
  "in_hand I s (w\<lparr>w_repo := p\<rparr>) = in_hand I s w"
  "in_hand I s (w\<lparr>w_devices := d\<rparr>) = in_hand I s w"
  by (simp_all add: in_hand_def)

lemma in_hand_store [simp]: "in_hand I s (store_params e serial ps w) = in_hand I s w"
  by (simp add: store_params_def)

lemma between_info [simp]: "between_tasks I s (update_info e serial u w) = between_tasks I s w"
  by (simp add: update_info_def)

lemma between_completed:
  assumes "in_hand I s w" and "se_currentTask s = Some c"
    and "wf_task u" "t_ID u = t_ID c" "terminal (t_Status u)"
  shows "between_tasks I s (snd (queue_update e u w))"
proof -
  from assms have c: "between_tasks (I - {t_ID c}) s w" "t_ID c \<notin> t_ID ` set (se_pendingTasks s)"
    by (auto simp: in_hand_def)
  have up: "rd_faults (w_queue (snd (queue_update e u w))) = []"
    "lookup_task (w_queue (snd (queue_update e u w))) = (lookup_task (w_queue w))(t_ID c \<mapsto> stored_task u)"
    using queue_update_up(2,3) [OF _ assms(3), of w e] c(1) assms(4) by (simp_all add: between_tasks_def)
  then have "ended (w_queue (snd (queue_update e u w))) i = (i = t_ID c \<or> ended (w_queue w) i)" for i
    using assms(5) by (simp add: ended_def)
  then show ?thesis using c up by (auto simp: between_tasks_def)
qed

lemma tracked_completed:
  assumes "in_hand I s w" and "se_currentTask s = Some c"
    and "wf_task u" "t_ID u = t_ID c" "terminal (t_Status u)"
  shows "tracked I (dispatchNextOrClose e (s\<lparr>se_currentTask := None\<rparr>) (snd (queue_update e u w)))"
  using between_completed [OF assms] by (intro tracked_dispatch) simp

lemma tracked_response:
  assumes "in_hand I s w"
  shows "tracked I (handleTaskResponse e res err s w)"
proof -
  from assms obtain c where c: "se_currentTask s = Some c" "wf_task c" by (auto simp: in_hand_def)
  then show ?thesis
    using assms
    by (auto simp: handleTaskResponse_def completeTask_def Let_def intro!: tracked_completed)
qed

lemma tracked_provision:
  assumes "in_hand I s w" and "f = Pair \<or> f = take_credentials e"
    and "\<And>x. fst r = Inr (Some x) \<Longrightarrow> task_request x"
  shows "tracked I (provision_answer e r f s w)"
proof (cases "fst r")
  case (Inl err)
  then show ?thesis
    using assms(1) by (auto simp: provision_answer_def intro!: tracked_response split: prod.splits)
next
  case (Inr y)
  then show ?thesis
    using assms
    by (cases y) (auto simp: provision_answer_def take_credentials_def persistWANCredentials_def tracked_def [of _ "(RXml _, _)"]
      intro!: tracked_response split: prod.splits)
qed

lemma tracked_set:
  assumes "in_hand I s w"
  shows "tracked I (handleSetParamValuesResponse e s w)"
proof (cases "se_wanProvision s")
  case (Some wp)
  then show ?thesis
    using assms provision_step_less(1) [of "onSetParams (e_rpc e) wp" _ 0 wp]
    by (auto simp: handleSetParamValuesResponse_def intro!: tracked_provision)
next
  case None
  from assms obtain c where c: "se_currentTask s = Some c" "between_tasks (I - {t_ID c}) s w"
    "lookup_task (w_queue w) (t_ID c) = Some (stored_task c)" "t_Status c = StatusExecuting"
    by (auto simp: in_hand_def)
  show ?thesis
  proof (cases "IsDiagnosticAsync (t_Type c)")
    case True
    then have "ended (w_queue w) (t_ID c)" using c by (simp add: ended_def stored_task_def)
    then have "between_tasks I s w" using c(2) by (auto simp: between_tasks_def)
    then show ?thesis
      using None True c(1) by (simp add: handleSetParamValuesResponse_def tracked_dispatch)
  next
    case False
    then show ?thesis
      using None c(1) assms
      by (auto simp: handleSetParamValuesResponse_def set_params_done_def persistWANCredentials_def Let_def
          intro!: tracked_response)
  qed
qed

lemma tracked_add:
  assumes "in_hand I s w"
  shows "tracked I (handleAddObjectResponse e n s w)"
proof (cases "se_wanProvision s")
  case (Some wp)
  then show ?thesis
    using assms provision_step_less(1) [of "onAddObject (e_rpc e) n wp" "e_rpc e" n wp]
    by (auto simp: handleAddObjectResponse_def Let_def intro!: tracked_provision)
next
  case None
  then show ?thesis
    using assms
    by (auto simp: handleAddObjectResponse_def Let_def call_follow_up_def tracked_def [of _ "(RXml _, _)"]
        intro!: tracked_response split: option.splits)
qed

lemma tracked_delete:
  assumes "in_hand I s w"
  shows "tracked I (handleDeleteObjectResponse e s w)"
  using assms provision_step_less(1) [of "onDeleteObject (e_rpc e) _" "e_rpc e" 0]
  by (auto simp: handleDeleteObjectResponse_def intro!: tracked_provision tracked_response split: option.splits)

lemma tracked_get:
  assumes "in_hand I s w"
  shows "tracked I (handleGetParamValuesResponse e pvs s w)"
proof -
  from assms obtain c where c: "se_currentTask s = Some c" "wf_task c" "t_Type c \<noteq> TypeGetDiagResult"
    "se_summonPhase s = 0"
    by (auto simp: in_hand_def between_tasks_def)
  let ?ps = "buildGetParamResult pvs" and ?m = "deref (se_mapper s)"
  have "between_tasks I s w'" if "finish_get e c ?ps ?m (se_driver s) w = Some w'" for w'
    using that c assms between_completed [OF assms c(1)]
    by (auto simp: finish_get_def complete_with_def completeTask_def bind_eq_Some_conv split: if_splits)
  then show ?thesis
    using c by (auto simp: handleGetParamValuesResponse_def Let_def tracked_def [of _ "(RPanic, _)"]
      intro!: tracked_dispatch split: option.splits)
qed

lemma tracked_answer:
  assumes "tracked I r"
  shows "tracked I (answer a r)"
proof (cases "closed r")
  case True
  then show ?thesis using assms by (simp add: answer_closed)
next
  case False
  then obtain i body s w where r: "r = (RXml (i, body), s, w)"
    by (cases r) (auto simp: closed_def split: reply.splits)
  then have "in_hand I s w" "task_request (i, body)" using assms by (auto simp: tracked_def)
  then show ?thesis
    by (cases body)
      (auto simp: r answer_def answer_body_def Let_def handleDownloadResponse_def task_request_def
        intro: tracked_set tracked_add tracked_delete tracked_get tracked_response)
qed

lemma tracked_conversation: "tracked I r \<Longrightarrow> tracked I (conversation as r)"
  by (induction as arbitrary: r) (simp_all add: tracked_answer)

subsection \<open>Properties\<close>

text \<open>
  C11. Every session ends: whatever a device answers that carries out each request it is sent, from
  any state of the session, in any phase of a summon or provisioning flow and with any failures of
  the stores, after finitely many answers the server sends no further request.
\<close>

theorem session_ends: "\<exists>n. \<not> (\<exists>x. fst (conversation (map answers [0..<n]) r) = RXml x)"
  using conversation_ends [of answers r] by (auto simp: closed_def split: reply.splits)

text \<open>
  Every task handed to a session reaches an end: when the device answers each request and the
  queue can be reached, the session closes, and then each task that was pending is done or failed
  in the queue, or is a diagnostic that the device runs; only a missing mapper or the panic of a
  parser can end it before.
\<close>

lemma tasks_reach_an_end:
  assumes "rd_faults (w_queue w) = []" and "workable (se_pendingTasks s)" and "se_summonPhase s = 0"
  shows "\<exists>n. case conversation (map answers [0..<n]) (dispatchNextOrClose e s w) of (rep, s', w') \<Rightarrow>
     rep = RPanic \<or>
     (rep = RNoContent \<and> (\<forall>t \<in> set (se_pendingTasks s). \<exists>u. lookup_task (w_queue w') (t_ID t) = Some u \<and>
        (terminal (t_Status u) \<or> (t_Status u = StatusExecuting \<and> IsDiagnosticAsync (t_Type u)))))"
proof -
  let ?I = "t_ID ` set (se_pendingTasks s)" and ?r = "dispatchNextOrClose e s w"
  have "tracked ?I ?r" using assms by (intro tracked_dispatch) (simp add: between_tasks_def)
  then have t: "tracked ?I (conversation as ?r)" for as by (rule tracked_conversation)
  obtain n where n: "closed (conversation (map answers [0..<n]) ?r)" using conversation_ends by blast
  obtain rep s' w' where r: "conversation (map answers [0..<n]) ?r = (rep, s', w')" by (metis prod.exhaust)
  have "rep = RPanic \<or> (rep = RNoContent \<and> (\<forall>i \<in> ?I. ended (w_queue w') i))"
    using t [of "map answers [0..<n]"] n by (simp add: r tracked_def closed_def split: reply.splits)
  moreover have "\<exists>u. lookup_task (w_queue w') i = Some u \<and>
      (terminal (t_Status u) \<or> (t_Status u = StatusExecuting \<and> IsDiagnosticAsync (t_Type u)))"
    if "ended (w_queue w') i" for i
    using that by (simp add: ended_def split: option.splits)
  ultimately show ?thesis
    by (intro exI [of _ n]) (simp only: r case_prod_conv, blast)
qed

definition ex_answer :: device_answer where
  "ex_answer = \<lparr> an_env = ex_env, an_instance = 3, an_values = [], an_names = [] \<rparr>"

lemma tasks_reach_an_end_witness:
  "\<exists>n. case conversation (map (\<lambda>_. ex_answer) [0..<n]) (dispatchNextOrClose ex_env ex_busy_session ex_world) of
     (rep, s', w') \<Rightarrow> rep = RPanic \<or>
       (rep = RNoContent \<and> (\<forall>i \<in> {''a'', ''b'', ''c''}. \<exists>u. lookup_task (w_queue w') i = Some u \<and>
          (terminal (t_Status u) \<or> (t_Status u = StatusExecuting \<and> IsDiagnosticAsync (t_Type u)))))"
proof -
  have up: "rd_faults (w_queue ex_world) = []" by (simp add: ex_world_def empty_redis_def)
  have pend: "se_pendingTasks ex_busy_session =
      [ex_task ''a'' TypeWifi, ex_task ''b'' TypeReboot, ex_task ''c'' TypeReboot]" "se_summonPhase ex_busy_session = 0"
    by (simp_all add: ex_busy_session_def new_session_def)
  have "wf_task (ex_task ''a'' TypeWifi)" "wf_task (ex_task ''b'' TypeReboot)" "wf_task (ex_task ''c'' TypeReboot)"
    by (simp_all add: wf_type_def type_str_def type_of_def type_table_def)
  then have "workable (se_pendingTasks ex_busy_session)" by (simp add: workable_def pend)
  from tasks_reach_an_end [OF up this pend(2), of "\<lambda>_. ex_answer" ex_env]
  show ?thesis by (simp add: pend case_prod_beta)
qed

text \<open>
  A fault ends the provisioning flow or the follow-up with the task: the task is failed with the
  CWMP fault, and nothing of the flow is left for the next task.
\<close>

lemma fault_fails_task:
  assumes "rd_faults (w_queue w) = []" and "se_pendingTasks s = []"
    and "se_currentTask s = Some c" and "wf_task c"
  shows "case handleFault e f s w of (rep, s', w') \<Rightarrow>
     rep = RNoContent \<and> se_currentTask s' = None \<and> se_wanProvision s' = None \<and> se_addObjFollowUp s' = None \<and>
     (\<exists>u. lookup_task (w_queue w') (t_ID c) = Some u \<and> t_Status u = StatusFailed \<and> has_prefix (t_Error u) ''CWMP '')"
proof -
  obtain msg where f: "handleFault e f s w =
      handleTaskResponse e None (''CWMP '' @ msg) (s\<lparr>se_wanProvision := None, se_addObjFollowUp := None\<rparr>) w"
    by (cases "sf_CWMPCode f = []") (simp_all add: handleFault_def)
  define u where "u = finished_task (e_now e) None (''CWMP '' @ msg) c"
  have u: "wf_task u" "t_ID u = t_ID c" "t_Status u = StatusFailed" "t_Error u = ''CWMP '' @ msg"
    using assms(4) by (simp_all add: u_def finished_task_def wf_task_def wf_status_def status_str_def status_of_def)
  have "handleFault e f s w = (RNoContent, s\<lparr>se_wanProvision := None, se_addObjFollowUp := None,
      se_currentTask := None, se_State := StateDone\<rparr>, snd (queue_update e u w))"
    using assms(2,3) by (simp add: f handleTaskResponse_def completeTask_def u_def dispatchNextOrClose.simps)
  then show ?thesis
    using queue_update_up(3) [OF assms(1) u(1), of e] u by (simp add: has_prefix_def stored_task_def)
qed

text \<open>
  The answer to a cpe_stats task replaces the WAN interfaces of the device document by one entry
  with nothing but counters.
\<close>

lemma stats_replace_wans:
  assumes "t_Type t = TypeCPEStats"
  shows "finish_get e t ps (Some m) d w =
    Some (update_info e (t_Serial t) (no_update\<lparr>iu_WANs := Some [snd (parseCPEStats ps m)]\<rparr>)
      (complete_with e t (encode_cpe_stats_result (fst (parseCPEStats ps m))) w))"
  "wi_IPAddress (snd (parseCPEStats ps m)) = []"
  using assms by (simp_all add: finish_get_def parseCPEStats_def Let_def zero_wan_info_def)
end
