(* ===== verification/Restore.thy ===== *)
theory Restore
  imports Summon
begin
section \<open>Restoring a device after a factory reset\<close>

text \<open>
  The part of internal/cwmp/session.go that recognises a factory reset from an Inform and queues the
  tasks that bring the configuration back: from the snapshot saved before a reboot of the server's
  own, or from the last known good one. The loops over a snapshot take it in Go's map order, which
  is the order of the list.
\<close>

subsection \<open>What an Inform tells\<close>

definition firstRootObject :: "params \<Rightarrow> string" where
  "firstRootObject ps =
     (if list_ex (\<lambda>kv. has_prefix (fst kv) ''InternetGatewayDevice.'') ps then ''InternetGatewayDevice.''
      else if list_ex (\<lambda>kv. has_prefix (fst kv) ''Device.'') ps then ''Device.''
      else [])"

definition informParamValue :: "inform \<Rightarrow> string \<Rightarrow> string" where
  "informParamValue msg name =
     (case find (\<lambda>pv. pv_Name pv = name) (in_Params msg) of None \<Rightarrow> [] | Some pv \<Rightarrow> pv_Data pv)"

definition hasBootstrapEvent :: "inform \<Rightarrow> bool" where
  "hasBootstrapEvent msg \<longleftrightarrow> list_ex (\<lambda>ev. ev_EventCode ev = ''0 BOOTSTRAP'') (in_Events msg)"

subsection \<open>Payloads of restore tasks\<close>

definition opt_bool :: "string \<Rightarrow> bool option \<Rightarrow> (string \<times> json) list" where
  "opt_bool k b = (case b of None \<Rightarrow> [] | Some b \<Rightarrow> [(k, JBool b)])"

definition encode_wifi_payload :: "wifi_payload \<Rightarrow> json" where
  "encode_wifi_payload p = JObj
     ([(''band'', JStr (wf_Band p)), (''ssid'', JStr (wf_SSID p)), (''password'', JStr (wf_Password p)),
       (''security'', JStr (wf_Security p))] @ enc_opt ''channel'' (wf_Channel p \<noteq> 0) (JInt (wf_Channel p))
      @ opt_bool ''enabled'' (wf_Enabled p) @ opt_bool ''band_steering_enabled'' (wf_BandSteeringEnabled p))"

definition encode_wan_payload :: "wan_payload \<Rightarrow> json" where
  "encode_wan_payload p = JObj
     ((''connection_type'', JStr (wn_ConnectionType p)) # enc_opt ''username'' (wn_Username p \<noteq> []) (JStr (wn_Username p))
      @ enc_opt ''password'' (wn_Password p \<noteq> []) (JStr (wn_Password p)) @ enc_opt ''ip_address'' (wn_IPAddress p \<noteq> []) (JStr (wn_IPAddress p))
      @ enc_opt ''subnet_mask'' (wn_SubnetMask p \<noteq> []) (JStr (wn_SubnetMask p)) @ enc_opt ''gateway'' (wn_Gateway p \<noteq> []) (JStr (wn_Gateway p))
      @ enc_opt ''dns1'' (wn_DNS1 p \<noteq> []) (JStr (wn_DNS1 p)) @ enc_opt ''dns2'' (wn_DNS2 p \<noteq> []) (JStr (wn_DNS2 p))
      @ enc_opt ''vlan'' (wn_VLAN p \<noteq> 0) (JInt (wn_VLAN p)) @ enc_opt ''mtu'' (wn_MTU p \<noteq> 0) (JInt (wn_MTU p)) @ opt_bool ''ipv6_enabled'' (wn_IPv6Enabled p))"

definition restore_task :: "string \<Rightarrow> string \<Rightarrow> task_type \<Rightarrow> json \<Rightarrow> task" where
  "restore_task i serial ty payload = zero_task\<lparr>t_ID := i, t_Serial := serial, t_Type := ty,
     t_Status := StatusPending, t_Payload := Some payload\<rparr>"

subsection \<open>Which parameters are restored\<close>

definition criticalPatterns :: "string list" where
  "criticalPatterns = [''.SSID'', ''PreSharedKey'', ''ModeEnabled'', ''WPAAuthenticationMode'',
     ''WPAEncryptionModes'', ''BeaconType'', ''.Username'', ''.Password'', ''VLANID'', ''ProvisioningCode'']"

definition excluded_key :: "string \<Rightarrow> bool" where
  "excluded_key k \<longleftrightarrow>
     list_ex (contains k) [''.Stats.'', ''.Status'', ''.AutoDetect'', ''.ConfigFile'', ''ManagementServer'',
       ''.MultiAP.'', ''.DataElements.'', ''Users.User.''] \<or>
     list_ex (has_suffix k) [''.BSSID'', ''.Name'', ''.LastChange'', ''NumberOfEntries'', ''PasswordReset'']"

definition primary_wifi :: "string \<Rightarrow> bool" where
  "primary_wifi k \<longleftrightarrow> list_ex (contains k)
     [''WiFi.SSID.1.'', ''WiFi.SSID.2.'', ''WiFi.AccessPoint.1.'', ''WiFi.AccessPoint.2.'']"

definition critical_key :: "string \<Rightarrow> bool" where
  "critical_key k \<longleftrightarrow> list_ex (contains k) criticalPatterns \<and> \<not> excluded_key k
     \<and> (contains k ''WiFi.'' \<longrightarrow> primary_wifi k)"

definition filterCriticalParameters :: "params \<Rightarrow> params" where
  "filterCriticalParameters ps = filter (\<lambda>kv. critical_key (fst kv)) ps"

definition restoreParameters :: "env \<Rightarrow> string \<Rightarrow> params \<Rightarrow> string \<Rightarrow> world \<Rightarrow> world" where
  "restoreParameters e serial ps snapshotType w =
     (let critical = filterCriticalParameters ps in
      if critical = [] then w
      else snd (queue_enqueue e
             (restore_task (''restore_'' @ snapshotType @ ''_'' @ itoa (e_now e div 1000000000)) serial
                TypeSetParams (encode_set_params critical)) w))"

subsection \<open>The VLAN of the PPP connection\<close>

definition positive_vlan :: "string \<Rightarrow> int option" where
  "positive_vlan s = (case atoi_opt s of Some v \<Rightarrow> if v > 0 then Some v else None | None \<Rightarrow> None)"

definition vlan_of_object :: "params \<Rightarrow> string \<Rightarrow> int option" where
  "vlan_of_object ps obj =
     (let key = obj @ ''.VLANID'' in
      case Option.bind (map_of ps key) positive_vlan of
        Some v \<Rightarrow> Some v
      | None \<Rightarrow> (case List.map_filter (positive_vlan \<circ> snd) (filter (\<lambda>kv. equal_fold (fst kv) key) ps) of
                   [] \<Rightarrow> None | v # _ \<Rightarrow> Some v))"

definition first_layer :: "string \<Rightarrow> string" where
  "first_layer s = trim_space (case split_on CHR '','' s of [] \<Rightarrow> [] | p # _ \<Rightarrow> p)"

fun vlan_chain :: "nat \<Rightarrow> string list \<Rightarrow> params \<Rightarrow> string \<Rightarrow> int" where
  "vlan_chain 0 visited ps current = 0"
| "vlan_chain (Suc n) visited ps current =
     (let obj = trim_suffix current ''.''; below = mget ps (obj @ ''.LowerLayers'') in
      if current = [] \<or> obj \<in> set visited then 0
      else if contains (to_lower obj) ''vlantermination''
      then (case vlan_of_object ps obj of None \<Rightarrow> 0 | Some v \<Rightarrow> v)
      else if below = [] then 0
      else vlan_chain n (obj # visited) ps (first_layer below))"

definition resolveVLANFromChain :: "params \<Rightarrow> string \<Rightarrow> int" where
  "resolveVLANFromChain ps layers = vlan_chain 4 [] ps (trim_space layers)"

subsection \<open>WAN\<close>

record ppp_found =
  pp_username :: string
  pp_password :: string
  pp_lower :: string

definition ppp_step :: "string \<times> string \<Rightarrow> ppp_found \<Rightarrow> ppp_found" where
  "ppp_step kv f =
     (let lower = to_lower (fst kv); v = snd kv; ppp = contains lower ''ppp'' in
      if has_suffix lower ''.username'' \<and> ppp
      then (if v \<noteq> [] \<and> pp_username f = [] then f\<lparr>pp_username := v\<rparr> else f)
      else if has_suffix lower ''.password'' \<and> ppp
      then (if v \<noteq> [] \<and> pp_password f = [] then f\<lparr>pp_password := v\<rparr> else f)
      else if has_suffix lower ''.lowerlayers'' \<and> ppp
      then (if v \<noteq> [] then f\<lparr>pp_lower := v\<rparr> else f)
      else f)"

definition find_ppp :: "params \<Rightarrow> ppp_found" where
  "find_ppp ps = fold ppp_step ps
     \<lparr> pp_username = mget ps ''_helix.provision.pppoe_username'',
       pp_password = mget ps ''_helix.provision.pppoe_password'', pp_lower = [] \<rparr>"

definition vlan_candidates :: "params \<Rightarrow> int list" where
  "vlan_candidates ps = List.map_filter (positive_vlan \<circ> snd)
     (filter (\<lambda>kv. has_suffix (to_lower (fst kv)) ''.vlanid'' \<and> contains (to_lower (fst kv)) ''vlantermination'') ps)"

definition restore_vlan :: "params \<Rightarrow> string \<Rightarrow> int" where
  "restore_vlan ps lower =
     (let v = resolveVLANFromChain ps lower in
      if v \<noteq> 0 then v else case vlan_candidates ps of [c] \<Rightarrow> c | _ \<Rightarrow> 0)"

definition wan_restore_payload :: "params \<Rightarrow> wan_payload" where
  "wan_restore_payload ps =
     (let f = find_ppp ps in
      zero_wan_payload\<lparr>wn_ConnectionType := ''pppoe'', wn_Username := pp_username f,
        wn_Password := pp_password f, wn_VLAN := restore_vlan ps (pp_lower f), wn_IPv6Enabled := Some True\<rparr>)"

definition restoreWANConfig :: "env \<Rightarrow> string \<Rightarrow> params \<Rightarrow> world \<Rightarrow> world" where
  "restoreWANConfig e serial ps w =
     (if pp_username (find_ppp ps) = [] then w
      else snd (queue_enqueue e
             (restore_task (''restore_wan_'' @ itoa (e_now e)) serial TypeWAN
                (encode_wan_payload (wan_restore_payload ps))) w))"

subsection \<open>WiFi\<close>

definition deviceSecToPayloadSec :: "string \<Rightarrow> string" where
  "deviceSecToPayloadSec s =
     (if s = ''WPA2-Personal'' then ''WPA2-PSK''
      else if s = ''WPA-WPA2-Personal'' then ''WPA-WPA2-PSK''
      else if s = ''WPA-Personal'' then ''WPA-PSK''
      else s)"

definition wifi_restore_payload :: "params \<Rightarrow> mapper \<Rightarrow> nat \<Rightarrow> wifi_payload" where
  "wifi_restore_payload ps m b =
     (let password = mget ps (wifi_path_of m WiFiPasswordPath b);
          security = deviceSecToPayloadSec (mget ps (wifi_path_of m WiFiSecurityModePath b))
      in zero_wifi_payload\<lparr>wf_Band := (if b = 0 then ''2.4'' else ''5''),
           wf_SSID := mget ps (wifi_path_of m WiFiSSIDPath b), wf_Password := password,
           wf_Security := (if password \<noteq> [] \<and> (security = [] \<or> security = ''None'') then ''WPA2-PSK'' else security),
           wf_BandSteeringEnabled := (if b = 0 then extractBandSteeringStatus ps m else None)\<rparr>)"

definition restore_band :: "env \<Rightarrow> string \<Rightarrow> params \<Rightarrow> mapper \<Rightarrow> nat \<Rightarrow> world \<Rightarrow> world" where
  "restore_band e serial ps m b w =
     (if mget ps (wifi_path_of m WiFiSSIDPath b) = [] then w
      else snd (queue_enqueue e
             (restore_task (''restore_wifi_'' @ (if b = 0 then ''2_4'' else ''5'') @ ''_'' @ itoa (e_now e)) serial
                TypeWifi (encode_wifi_payload (wifi_restore_payload ps m b))) w))"

definition restore_provcode :: "env \<Rightarrow> string \<Rightarrow> params \<Rightarrow> world \<Rightarrow> world" where
  "restore_provcode e serial ps w =
     (let path = (if firstRootObject ps = ''InternetGatewayDevice.''
                  then ''InternetGatewayDevice.DeviceInfo.ProvisioningCode''
                  else ''Device.DeviceInfo.ProvisioningCode'')
      in if mget ps path = [] then w
         else snd (queue_enqueue e (restore_task (''restore_provcode_'' @ itoa (e_now e)) serial TypeSetParams
                (encode_set_params [(path, mget ps path)])) w))"

definition model_name :: "model_type \<Rightarrow> string" where
  "model_name mt = (case mt of TR181 \<Rightarrow> ''tr181'' | TR098 \<Rightarrow> ''tr098'')"

text \<open>The mapper of the session with the instances of the snapshot; \<^term>\<open>None\<close> is a panic.\<close>

definition snapshot_hints :: "env \<Rightarrow> params \<Rightarrow> discovery_hints option option" where
  "snapshot_hints e ps =
     (let igd = (firstRootObject ps = ''InternetGatewayDevice.'');
          pick = (\<lambda>f. let v = mget ps (''InternetGatewayDevice.DeviceInfo.'' @ f);
                         d = mget ps (''Device.DeviceInfo.'' @ f)
                     in if igd \<and> v \<noteq> [] then v else d)
      in case e_drivers e of
           None \<Rightarrow> Some None
         | Some r \<Rightarrow> map_option discoveryHintsFromDriver
             (driver_Resolve r (pick ''Manufacturer'') (pick ''ProductClass'')
                (model_name (DetectFromRootObject (firstRootObject ps)))))"

definition snapshot_mapper :: "env \<Rightarrow> params \<Rightarrow> mapper_ref \<Rightarrow> mapper option" where
  "snapshot_mapper e ps m =
     Option.bind (snapshot_hints e ps) (\<lambda>hints.
       Option.bind (DiscoverInstancesWithHints ps hints) (\<lambda>im.
         map_option (\<lambda>m. case m of MSchema sm \<Rightarrow> MSchema (Clone sm im) | _ \<Rightarrow> ApplyInstanceMap m im) (deref m)))"

definition restoreWiFiConfig :: "env \<Rightarrow> string \<Rightarrow> params \<Rightarrow> mapper_ref \<Rightarrow> world \<Rightarrow> world option" where
  "restoreWiFiConfig e serial ps m w =
     map_option (\<lambda>m. restore_provcode e serial ps
         (restore_band e serial ps m 1 (restore_band e serial ps m 0 w)))
       (snapshot_mapper e ps m)"

subsection \<open>Recognising a reset\<close>

text \<open>The result says whether the request goes on or panicked.\<close>

definition from_last_known_good :: "env \<Rightarrow> string \<Rightarrow> inform \<Rightarrow> mapper_ref \<Rightarrow> world \<Rightarrow> bool \<times> world" where
  "from_last_known_good e serial msg m w0 =
     (case GetSnapshot serial ''last_known_good'' (w_repo w0) of
        (Inr (Some ps), r) \<Rightarrow>
          let w1 = w0\<lparr>w_repo := r\<rparr>;
              code = ''Device.DeviceInfo.ProvisioningCode'';
              cleared = (informParamValue msg code = [] \<and> mget ps code \<noteq> [])
          in if \<not> hasBootstrapEvent msg \<and> \<not> cleared then (True, w1)
             else let w2 = w1\<lparr>w_repo := snd (DeleteDeviceParameters serial r)\<rparr> in
               (case restoreWiFiConfig e serial ps m w2 of
                  None \<Rightarrow> (False, w2)
                | Some w3 \<Rightarrow> (True, restoreWANConfig e serial ps w3))
      | (_, r) \<Rightarrow> (True, w0\<lparr>w_repo := r\<rparr>))"

definition detectAndHandleReset :: "env \<Rightarrow> string \<Rightarrow> inform \<Rightarrow> mapper_ref \<Rightarrow> world \<Rightarrow> bool \<times> world" where
  "detectAndHandleReset e serial msg m w0 =
     (case GetSnapshot serial ''pre_reset_params'' (w_repo w0) of
        (Inr (Some ps), r) \<Rightarrow>
          let w1 = w0\<lparr>w_repo := snd (DeleteSnapshot serial ''pre_reset_params'' r)\<rparr> in
          (True, if hasBootstrapEvent msg then restoreParameters e serial ps ''pre_reset_params'' w1 else w1)
      | (_, r) \<Rightarrow> from_last_known_good e serial msg m (w0\<lparr>w_repo := r\<rparr>))"

subsection \<open>Facts\<close>

lemma restore_keys [simp]:
  "to_lower ''band'' = ''band''" "to_lower ''ssid'' = ''ssid''" "to_lower ''password'' = ''password''"
  "to_lower ''security'' = ''security''" "to_lower ''channel'' = ''channel''" "to_lower ''enabled'' = ''enabled''"
  "to_lower ''band_steering_enabled'' = ''band_steering_enabled''"
  "to_lower ''connection_type'' = ''connection_type''" "to_lower ''username'' = ''username''"
  "to_lower ''ip_address'' = ''ip_address''" "to_lower ''subnet_mask'' = ''subnet_mask''"
  "to_lower ''gateway'' = ''gateway''" "to_lower ''dns1'' = ''dns1''" "to_lower ''dns2'' = ''dns2''"
  "to_lower ''vlan'' = ''vlan''" "to_lower ''mtu'' = ''mtu''" "to_lower ''ipv6_enabled'' = ''ipv6_enabled''"
  by (simp_all add: to_lower_def lower_char_def)

lemma dec_members_opt_bool [simp]:
  "dec_members field (opt_bool k b) x = (case b of None \<Rightarrow> Some x | Some b \<Rightarrow> field (to_lower k) (JBool b) x)"
  by (simp add: opt_bool_def split: option.splits)

text \<open>A member left out reads like one that holds the zero value.\<close>

lemma dec_members_omitempty:
  "f (to_lower k) (JStr []) x = Some x \<Longrightarrow> dec_members f (enc_opt k (v \<noteq> []) (JStr v)) x = f (to_lower k) (JStr v) x"
  "f (to_lower k) (JInt 0) x = Some x \<Longrightarrow> dec_members f (enc_opt k (i \<noteq> 0) (JInt i)) x = f (to_lower k) (JInt i) x"
  by simp_all

lemma wifi_payload_roundtrip:
  "int64 (wf_Channel p) \<Longrightarrow> decode_wifi_payload (Some (encode_wifi_payload p)) = Some p"
  by (cases p; cases "wf_Enabled p"; cases "wf_BandSteeringEnabled p")
    (simp_all add: decode_wifi_payload_def encode_wifi_payload_def dec_struct_def json_dec wifi_payload_field_def
      zero_wifi_payload_def int64_def dec_members_omitempty min_int64_def max_int64_def del: dec_members_enc_opt)

lemma wan_payload_roundtrip:
  "int64 (wn_VLAN p) \<Longrightarrow> int64 (wn_MTU p) \<Longrightarrow> decode_wan_payload (Some (encode_wan_payload p)) = Some p"
  by (cases p; cases "wn_IPv6Enabled p")
    (simp_all add: decode_wan_payload_def encode_wan_payload_def dec_struct_def json_dec wan_payload_field_def
      zero_wan_payload_def int64_def dec_members_omitempty min_int64_def max_int64_def del: dec_members_enc_opt)

text \<open>The chain of lower layers: what is below an object, and where the VLAN was found.\<close>

definition below_of :: "params \<Rightarrow> string \<Rightarrow> string \<Rightarrow> bool" where
  "below_of ps a b \<longleftrightarrow> mget ps (a @ ''.LowerLayers'') \<noteq> [] \<and>
     b = trim_suffix (first_layer (mget ps (a @ ''.LowerLayers''))) ''.''"

lemma positive_vlan_pos: "positive_vlan s = Some v \<Longrightarrow> 0 < v"
  by (simp add: positive_vlan_def split: option.splits if_splits)

lemma vlan_of_object_found:
  assumes "vlan_of_object ps obj = Some v"
  shows "\<exists>k s. (k, s) \<in> set ps \<and> equal_fold k (obj @ ''.VLANID'') \<and> positive_vlan s = Some v"
proof (cases "Option.bind (map_of ps (obj @ ''.VLANID'')) positive_vlan")
  case (Some u)
  then show ?thesis
    using assms by (force simp: vlan_of_object_def Let_def bind_eq_Some_conv equal_fold_def dest: map_of_SomeD)
next
  case None
  have "v \<in> set (List.map_filter (positive_vlan \<circ> snd) (filter (\<lambda>kv. equal_fold (fst kv) (obj @ ''.VLANID'')) ps))"
    using assms None by (simp add: vlan_of_object_def Let_def split: list.splits)
  then show ?thesis by (force simp: List.map_filter_def)
qed

lemma vlan_chain_found:
  "vlan_chain n visited ps cur = v \<Longrightarrow> v \<noteq> 0 \<Longrightarrow>
     \<exists>k obj. k < n \<and> (below_of ps ^^ k) (trim_suffix cur ''.'') obj \<and>
       contains (to_lower obj) ''vlantermination'' \<and> vlan_of_object ps obj = Some v"
proof (induction n arbitrary: visited cur)
  case 0
  then show ?case by simp
next
  case (Suc n)
  let ?obj = "trim_suffix cur ''.''"
  let ?below = "mget ps (?obj @ ''.LowerLayers'')"
  show ?case
  proof (cases "contains (to_lower ?obj) ''vlantermination''")
    case True
    then have "vlan_of_object ps ?obj = Some v"
      using Suc.prems by (simp add: Let_def split: if_splits option.splits)
    then show ?thesis using True by (intro exI [of _ 0] exI [of _ ?obj]) simp
  next
    case False
    then have b: "?below \<noteq> []" and "vlan_chain n (?obj # visited) ps (first_layer ?below) = v"
      using Suc.prems by (auto simp: Let_def split: if_splits)
    from Suc.IH [OF this(2) Suc.prems(2)] obtain k obj where
      k: "k < n" "(below_of ps ^^ k) (trim_suffix (first_layer ?below) ''.'') obj"
      "contains (to_lower obj) ''vlantermination''" "vlan_of_object ps obj = Some v" by blast
    have "below_of ps ?obj (trim_suffix (first_layer ?below) ''.'')" using b by (simp add: below_of_def)
    then have "(below_of ps ^^ Suc k) ?obj obj" using k(2) by (rule relpowp_Suc_I2)
    then show ?thesis using k by blast
  qed
qed

text \<open>Stored credentials win over what the snapshot holds of the device's own PPP objects.\<close>

lemma fold_ppp_keeps:
  assumes "pp_username f \<noteq> []"
  shows "pp_username (fold ppp_step ps f) = pp_username f"
    "pp_password f \<noteq> [] \<Longrightarrow> pp_password (fold ppp_step ps f) = pp_password f"
proof -
  have "pp_username (fold ppp_step ps f) = pp_username f \<and>
      (pp_password f \<noteq> [] \<longrightarrow> pp_password (fold ppp_step ps f) = pp_password f)"
    using assms
  proof (induction ps arbitrary: f)
    case Nil
    then show ?case by simp
  next
    case (Cons kv ps)
    have "pp_username (ppp_step kv f) = pp_username f"
      "pp_password f \<noteq> [] \<longrightarrow> pp_password (ppp_step kv f) = pp_password f"
      using Cons.prems by (simp_all add: ppp_step_def Let_def)
    with Cons show ?case by simp
  qed
  then show "pp_username (fold ppp_step ps f) = pp_username f"
    "pp_password f \<noteq> [] \<Longrightarrow> pp_password (fold ppp_step ps f) = pp_password f" by simp_all
qed

lemma enqueue_up:
  assumes "rd_faults (w_queue w) = []" and "wf_task t" and "int64 (qc_maxAttempts (e_queue e))"
  shows "rd_faults (w_queue (snd (queue_enqueue e t w))) = []"
    "lookup_task (w_queue (snd (queue_enqueue e t w))) =
       (lookup_task (w_queue w))(t_ID t \<mapsto> stored_task (enqueued (e_queue e) t))"
    "rd_list (w_queue (snd (queue_enqueue e t w))) (queueKey (t_Serial t)) = rd_list (w_queue w) (queueKey (t_Serial t)) @ [t_ID t]"
    "w_repo (snd (queue_enqueue e t w)) = w_repo w"
  using assms Enqueue_up [OF assms(1), of "e_queue e" t] lookup_task_Enqueue [OF assms, of]
  by (auto simp: queue_enqueue_def split: prod.splits sum.splits)

lemma enqueue_frame [simp]:
  "w_repo (snd (queue_enqueue e t w)) = w_repo w" "w_devices (snd (queue_enqueue e t w)) = w_devices w"
  by (simp_all add: queue_enqueue_def split: prod.splits sum.splits)

lemma enqueue_no_faults:
  "rd_faults (w_queue w) = [] \<Longrightarrow> rd_faults (w_queue (snd (queue_enqueue e t w))) = []"
  using Enqueue_up(2) [of "w_queue w" "e_queue e" t] by (auto simp: queue_enqueue_def split: prod.splits sum.splits)

lemma restore_wifi_no_faults:
  assumes "restoreWiFiConfig e serial ps m w = Some w'" and "rd_faults (w_queue w) = []"
  shows "rd_faults (w_queue w') = []"
  using assms
  by (auto simp: restoreWiFiConfig_def restore_provcode_def restore_band_def Let_def enqueue_no_faults)

lemma wf_restore_task [simp]: "ty = TypeWAN \<or> ty = TypeWifi \<or> ty = TypeSetParams \<Longrightarrow> wf_task (restore_task i serial ty v)"
  by (elim disjE) (simp_all add: restore_task_def wf_task_def zero_task_def wf_type_def wf_status_def int64_def min_int64_def max_int64_def
      type_str_def type_of_def type_table_def status_str_def status_of_def)

lemma restore_task_sel [simp]:
  "t_ID (restore_task i serial ty v) = i" "t_Serial (restore_task i serial ty v) = serial"
  "t_Type (restore_task i serial ty v) = ty" "t_Payload (restore_task i serial ty v) = Some v"
  "t_Status (restore_task i serial ty v) = StatusPending"
  by (simp_all add: restore_task_def)

lemma credential_map_sel:
  "wn_Username p \<noteq> [] \<Longrightarrow> (''_helix.provision.pppoe_username'', wn_Username p) \<in> set (buildWANCredentialMap p)"
  "wn_Password p \<noteq> [] \<Longrightarrow> (''_helix.provision.pppoe_password'', wn_Password p) \<in> set (buildWANCredentialMap p)"
  by (auto simp: buildWANCredentialMap_def Let_def mput_if_def)

text \<open>What the WAN task of a restore carries.\<close>

lemma restore_payload_credentials:
  assumes "\<forall>(k, v) \<in> set (buildWANCredentialMap p). map_of ps k = Some v"
    and "wn_Username p \<noteq> []" and "wn_Password p \<noteq> []"
  shows "pp_username (find_ppp ps) = wn_Username p" "pp_password (find_ppp ps) = wn_Password p"
proof -
  let ?f = "\<lparr> pp_username = mget ps ''_helix.provision.pppoe_username'',
       pp_password = mget ps ''_helix.provision.pppoe_password'', pp_lower = [] \<rparr>"
  have "mget ps ''_helix.provision.pppoe_username'' = wn_Username p"
    "mget ps ''_helix.provision.pppoe_password'' = wn_Password p"
    using assms(1) credential_map_sel(1) [OF assms(2)] credential_map_sel(2) [OF assms(3)] by (auto simp: mget_def)
  then show "pp_username (find_ppp ps) = wn_Username p" "pp_password (find_ppp ps) = wn_Password p"
    using fold_ppp_keeps [of ?f ps] assms(2,3) by (simp_all add: find_ppp_def)
qed

lemma vlan_int64: "int64 (restore_vlan ps l)"
proof -
  have pv: "int64 v" if "positive_vlan s = Some v" for s v
  proof -
    from that have "v = atoi_val s"
      by (auto simp: positive_vlan_def atoi_opt_def atoi_val_def split: option.splits prod.splits if_splits)
    then show ?thesis using atoi_range [of s] by (simp add: int64_def)
  qed
  have ch: "int64 (vlan_chain n vis ps c)" for n vis c
  proof (cases "vlan_chain n vis ps c = 0")
    case False
    then show ?thesis using vlan_chain_found [OF refl False] vlan_of_object_found pv by metis
  qed (simp add: int64_def min_int64_def max_int64_def)
  have "int64 c" if "vlan_candidates ps = [c]" for c
  proof -
    from that have "c \<in> set (vlan_candidates ps)" by simp
    then show ?thesis using pv by (auto simp: vlan_candidates_def List.map_filter_def)
  qed
  then show ?thesis
    using ch by (auto simp: restore_vlan_def resolveVLANFromChain_def Let_def int64_def min_int64_def max_int64_def
      split: list.splits)
qed

lemma db_try_params: "pr_params (snd (db_try r)) = pr_params r"
  by (simp add: db_try_def split: list.splits)

lemma GetSnapshot_params: "pr_params (snd (GetSnapshot serial ty r)) = pr_params r"
  using db_try_params [of r]
  by (cases "db_try r") (auto simp: GetSnapshot_def Let_def split: option.splits)

lemma DeleteSnapshot_params: "pr_params (snd (DeleteSnapshot serial ty r)) = pr_params r"
  using db_try_params [of r] by (cases "db_try r") (simp add: DeleteSnapshot_def)

lemma plain_inform_frame:
  assumes "\<not> hasBootstrapEvent msg" and "informParamValue msg ''Device.DeviceInfo.ProvisioningCode'' \<noteq> []"
  shows "case detectAndHandleReset e serial msg m w of (ok, w') \<Rightarrow>
     ok \<and> (\<exists>r. w' = w\<lparr>w_repo := r\<rparr> \<and> pr_params r = pr_params (w_repo w))"
proof -
  have late: "case from_last_known_good e serial msg m u of (ok, w') \<Rightarrow>
      ok \<and> (\<exists>r. w' = u\<lparr>w_repo := r\<rparr> \<and> pr_params r = pr_params (w_repo u))" for u
    using GetSnapshot_params [of serial "''last_known_good''" "w_repo u"] assms
    by (cases "GetSnapshot serial ''last_known_good'' (w_repo u)")
      (auto simp: from_last_known_good_def Let_def split: sum.splits option.splits)
  obtain res r where g: "GetSnapshot serial ''pre_reset_params'' (w_repo w) = (res, r)" by fastforce
  then have r: "pr_params r = pr_params (w_repo w)" using GetSnapshot_params [of serial "''pre_reset_params''" "w_repo w"] by simp
  show ?thesis
  proof (cases "\<exists>ps. res = Inr (Some ps)")
    case True
    then show ?thesis using g r assms(1) DeleteSnapshot_params by (auto simp: detectAndHandleReset_def Let_def)
  next
    case False
    then have "detectAndHandleReset e serial msg m w = from_last_known_good e serial msg m (w\<lparr>w_repo := r\<rparr>)"
      using g by (auto simp: detectAndHandleReset_def split: sum.splits option.splits)
    then show ?thesis using late [of "w\<lparr>w_repo := r\<rparr>"] r by (simp add: case_prod_beta)
  qed
qed

subsection \<open>Properties\<close>


text \<open>
  C22. An ordinary Inform restores nothing: without a BOOTSTRAP event and with a provisioning code
  in the Inform, the task queue, the device documents and the stored parameters stay as they are,
  whatever snapshots there are and whatever calls of the stores fail.
\<close>

theorem plain_inform_restores_nothing:
  assumes "\<not> hasBootstrapEvent msg" and "informParamValue msg ''Device.DeviceInfo.ProvisioningCode'' \<noteq> []"
  shows "case detectAndHandleReset e serial msg m w of (ok, w') \<Rightarrow>
     ok \<and> w_queue w' = w_queue w \<and> w_devices w' = w_devices w \<and>
     pr_params (w_repo w') = pr_params (w_repo w)"
  using plain_inform_frame [OF assms, where e = e and serial = serial and m = m and w = w] by auto

text \<open>
  The VLAN of a restored connection is read from an object named as a VLAN termination that is at most three
  steps of lower layers below the PPP interface; it is positive, or 0 when none was found.
\<close>

lemma chain_vlan_sound:
  assumes "resolveVLANFromChain ps layers = v" and "v \<noteq> 0"
  shows "0 < v \<and> (\<exists>k obj. k < 4 \<and> (below_of ps ^^ k) (trim_suffix (trim_space layers) ''.'') obj \<and>
     contains (to_lower obj) ''vlantermination'' \<and>
     (\<exists>(key, s) \<in> set ps. equal_fold key (obj @ ''.VLANID'') \<and> positive_vlan s = Some v))"
proof -
  from vlan_chain_found [OF assms(1) [unfolded resolveVLANFromChain_def] assms(2)] obtain k obj where
    k: "k < 4" "(below_of ps ^^ k) (trim_suffix (trim_space layers) ''.'') obj"
    "contains (to_lower obj) ''vlantermination''" "vlan_of_object ps obj = Some v" by blast
  from vlan_of_object_found [OF k(4)] obtain key s where
    s: "(key, s) \<in> set ps" "equal_fold key (obj @ ''.VLANID'')" "positive_vlan s = Some v" by blast
  show ?thesis using k(1-3) s positive_vlan_pos by blast
qed

text \<open>
  The VLAN id a WAN task stored with the credentials is not read back: from a snapshot with nothing
  but what the task stored, the restored task carries VLAN 0, and it fails when it is run on the
  reset device.
\<close>

definition ex_credentials :: wan_payload where
  "ex_credentials = zero_wan_payload\<lparr>wn_ConnectionType := ''pppoe'', wn_Username := ''u'', wn_Password := ''p'', wn_VLAN := 110\<rparr>"

lemma stored_vlan_not_restored:
  "map_of (buildWANCredentialMap ex_credentials) ''_helix.provision.vlan_id'' = Some ''110''"
  "wn_VLAN (wan_restore_payload (buildWANCredentialMap ex_credentials)) = 0"
  "wn_VLAN p = 0 \<Longrightarrow> exec_wan_new e t p s = (ExError ''WAN full provisioning requires VLAN ID'', s)"
proof -
  show "map_of (buildWANCredentialMap ex_credentials) ''_helix.provision.vlan_id'' = Some ''110''" by code_simp
  show "wn_VLAN (wan_restore_payload (buildWANCredentialMap ex_credentials)) = 0" by code_simp
  show "wn_VLAN p = 0 \<Longrightarrow> exec_wan_new e t p s = (ExError ''WAN full provisioning requires VLAN ID'', s)"
    by (simp add: exec_wan_new_def)
qed

text \<open>
  The filter for critical parameters takes read-only parameters of an SSID object, because the
  pattern for the SSID name occurs in the path of every parameter of the object.
\<close>

lemma critical_filter_too_wide:
  "filterCriticalParameters
     [(''Device.WiFi.SSID.1.SSID'', ''home''), (''Device.WiFi.SSID.1.MACAddress'', ''00:11''),
      (''Device.WiFi.SSID.1.LowerLayers'', ''Device.WiFi.Radio.1.'')] =
   [(''Device.WiFi.SSID.1.SSID'', ''home''), (''Device.WiFi.SSID.1.MACAddress'', ''00:11''),
    (''Device.WiFi.SSID.1.LowerLayers'', ''Device.WiFi.Radio.1.'')]"
  by code_simp

text \<open>On a TR-098 device the cleared provisioning code is not noticed: only the path of TR-181 is read.\<close>

lemma tr098_cleared_code_missed:
  assumes "GetSnapshot serial ''last_known_good'' (w_repo w) = (Inr (Some ps), r)"
    and "mget ps ''Device.DeviceInfo.ProvisioningCode'' = []" and "\<not> hasBootstrapEvent msg"
  shows "from_last_known_good e serial msg m w = (True, w\<lparr>w_repo := r\<rparr>)"
  using assms by (simp add: from_last_known_good_def Let_def)

definition ex_snapshot :: params where
  "ex_snapshot = buildWANCredentialMap ex_credentials @
     [(''Device.PPP.Interface.1.Username'', ''other''),
      (''Device.PPP.Interface.1.LowerLayers'', ''Device.Ethernet.VLANTermination.6.''),
      (''Device.Ethernet.VLANTermination.6.VLANID'', ''110''),
      (''Device.WiFi.SSID.1.SSID'', ''home'')]"

definition ex_reset_world :: world where
  "ex_reset_world = ex_world\<lparr>w_repo := (ex_repo [])\<lparr>pr_snaps := [((''CPE1'', ''last_known_good''), (enc_params ex_snapshot, 0))]\<rparr>\<rparr>"

definition ex_reset_inform :: "string \<Rightarrow> string \<Rightarrow> inform" where
  "ex_reset_inform event code = \<lparr> in_DeviceId = \<lparr> di_Manufacturer = ''TP-Link'', di_OUI = ''00'', di_ProductClass = ''X'', di_SerialNumber = ''CPE1'' \<rparr>,
     in_Events = [\<lparr> ev_EventCode = event, ev_CommandKey = [] \<rparr>], in_MaxEnvelopes = 1, in_CurrentTime = [], in_RetryCount = 0,
     in_Params = [\<lparr> pv_Name = ''Device.DeviceInfo.ProvisioningCode'', pv_Type = ''xsd:string'', pv_Data = code \<rparr>] \<rparr>"


lemma plain_inform_restores_nothing_witness:
  "case detectAndHandleReset ex_env ''CPE1'' (ex_reset_inform ''2 PERIODIC'' ''acs'') (Mapper (M181 zero_tr181)) ex_reset_world of (ok, w') \<Rightarrow>
     ok \<and> w_queue w' = empty_redis"
proof -
  have "\<not> hasBootstrapEvent (ex_reset_inform ''2 PERIODIC'' ''acs'')"
    "informParamValue (ex_reset_inform ''2 PERIODIC'' ''acs'') ''Device.DeviceInfo.ProvisioningCode'' \<noteq> []"
    by (simp_all add: hasBootstrapEvent_def informParamValue_def ex_reset_inform_def)
  from plain_inform_restores_nothing [OF this, where e = ex_env and serial = "''CPE1''" and m = "Mapper (M181 zero_tr181)" and w = ex_reset_world]
  show ?thesis by (auto simp: ex_reset_world_def ex_world_def)
qed
end
