(* ===== verification/Server.thy ===== *)
theory Server
  imports Responses Restore
begin
section \<open>The server: requests, sessions and the world\<close>

text \<open>
  The outermost layer of internal/cwmp/session.go: finding the session of a request, the Inform
  handler, the dispatch of a message to its handler, the goroutines a request leaves behind, and the
  API's request for a full summon. The server's state is the session manager with the world. A
  request is one step: the clock is read once in it, and requests of one session do not overlap (a
  device waits for the answer before it sends its next request).
\<close>

record acs =
  ac_sm :: session_manager
  ac_world :: world

definition on_session ::
    "nat \<Rightarrow> (session \<Rightarrow> world \<Rightarrow> reply \<times> session \<times> world) \<Rightarrow> acs \<Rightarrow> reply \<times> acs" where
  "on_session r h a =
     (case h (sm_heap (ac_sm a) r) (ac_world a) of
        (rep, s, w) \<Rightarrow> (rep, \<lparr> ac_sm = update_session r (\<lambda>_. s) (ac_sm a), ac_world = w \<rparr>))"

subsection \<open>Reading an Inform\<close>

text \<open>
  \<^verbatim>\<open>fmt.Sscanf(s, "%d", &v)\<close>: leading blanks but no line break, a sign, digits; what follows
  is ignored.
\<close>

definition parseInt64 :: "string \<Rightarrow> int option" where
  "parseInt64 s =
     (let t = dropWhile (\<lambda>c. is_space c \<and> c \<noteq> CHR 0x0A) s;
          sign = (case t of c # _ \<Rightarrow> if c = CHR ''-'' \<or> c = CHR ''+'' then [c] else [] | [] \<Rightarrow> []);
          digits = takeWhile is_digit (drop (length sign) t)
      in if digits = [] then None
         else case parse_int64 (sign @ digits) of (v, None) \<Rightarrow> Some v | _ \<Rightarrow> None)"

definition inform_field :: "string \<Rightarrow> string \<Rightarrow> upsert_request \<Rightarrow> upsert_request" where
  "inform_field name v q =
     (let lower = to_lower name; ends = has_suffix lower;
          num = (\<lambda>f. case parseInt64 v of None \<Rightarrow> q | Some i \<Rightarrow> f i)
      in if ends ''modelname'' then q\<lparr>uq_ModelName := v\<rparr>
         else if ends ''softwareversion'' then q\<lparr>uq_SWVersion := v\<rparr>
         else if ends ''hardwareversion'' then q\<lparr>uq_HWVersion := v\<rparr>
         else if ends ''bootloaderversion'' then q\<lparr>uq_BLVersion := v\<rparr>
         else if ends ''externalipaddress'' \<or> ends ''wanipaddress'' then q\<lparr>uq_WANIP := v\<rparr>
         else if ends ''ipaddress'' \<and> uq_IPAddress q = [] then q\<lparr>uq_IPAddress := v\<rparr>
         else if ends ''uptime'' then num (\<lambda>i. q\<lparr>uq_UptimeSeconds := i\<rparr>)
         else if ends ''memorystatus.total'' then num (\<lambda>i. q\<lparr>uq_RAMTotal := i\<rparr>)
         else if ends ''memorystatus.free'' then num (\<lambda>i. q\<lparr>uq_RAMFree := i\<rparr>)
         else if ends ''managementserver.url'' \<and> uq_ACSURL q = [] then q\<lparr>uq_ACSURL := v\<rparr>
         else q)"

definition inform_param :: "param_value \<Rightarrow> upsert_request \<Rightarrow> upsert_request" where
  "inform_param pv q =
     inform_field (pv_Name pv) (pv_Data pv) (q\<lparr>uq_Parameters := mput (pv_Name pv) (pv_Data pv) (uq_Parameters q)\<rparr>)"

definition extractInformParams :: "inform \<Rightarrow> upsert_request" where
  "extractInformParams msg =
     (let d = in_DeviceId msg;
          q0 = \<lparr> uq_Serial = di_SerialNumber d, uq_OUI = di_OUI d, uq_Manufacturer = di_Manufacturer d,
                 uq_ModelName = [], uq_ProductClass = di_ProductClass d, uq_DataModel = [], uq_Schema = [],
                 uq_IPAddress = [], uq_WANIP = [], uq_SWVersion = [], uq_HWVersion = [], uq_BLVersion = [],
                 uq_UptimeSeconds = 0, uq_RAMTotal = 0, uq_RAMFree = 0, uq_ACSURL = [], uq_Parameters = [] \<rparr>;
          q = fold inform_param (in_Params msg) q0;
          root = firstRootObject (uq_Parameters q);
          q = q\<lparr>uq_DataModel := (if root = ''InternetGatewayDevice.'' then ''tr098''
                                  else if root = ''Device.'' then ''tr181'' else [])\<rparr>
      in if uq_ModelName q = [] \<and> uq_ProductClass q \<noteq> [] then q\<lparr>uq_ModelName := uq_ProductClass q\<rparr> else q)"

definition hasDiagnosticsCompleteEvent :: "inform \<Rightarrow> bool" where
  "hasDiagnosticsCompleteEvent msg \<longleftrightarrow> list_ex (\<lambda>ev. contains (ev_EventCode ev) ''DIAGNOSTICS COMPLETE'') (in_Events msg)"

subsection \<open>What to read before the tasks\<close>

definition targetedSummonPaths :: "string \<Rightarrow> task list \<Rightarrow> string list" where
  "targetedSummonPaths schemaName pending =
     (case find (\<lambda>t. t_Type t = TypeWifi \<or> t_Type t = TypeWAN) pending of
        None \<Rightarrow> []
      | Some t \<Rightarrow>
          if t_Type t = TypeWifi
          then (if is_tr098_schema schemaName then [''InternetGatewayDevice.LANDevice.''] else [''Device.WiFi.''])
          else (if is_tr098_schema schemaName then [''InternetGatewayDevice.WANDevice.'']
                else [''Device.IP.Interface.'', ''Device.PPP.Interface.'', ''Device.Ethernet.VLANTermination.'',
                      ''Device.Ethernet.Link.'']))"

definition uiSummonPaths :: "string \<Rightarrow> driver option \<Rightarrow> string list" where
  "uiSummonPaths schemaName d =
     (if is_tr098_schema schemaName
      then [''InternetGatewayDevice.DeviceInfo.'', ''InternetGatewayDevice.WANDevice.'',
            ''InternetGatewayDevice.LANDevice.'', ''InternetGatewayDevice.ManagementServer.'']
      else [''Device.DeviceInfo.'', ''Device.IP.Interface.'', ''Device.PPP.Interface.'', ''Device.WiFi.'',
            ''Device.WiFi.AccessPoint.'', ''Device.Optical.Interface.'', ''Device.Ethernet.VLANTermination.'',
            ''Device.Ethernet.Link.'', ''Device.ManagementServer.'', ''Device.Hosts.''])
     @ (case d of None \<Rightarrow> [] | Some d \<Rightarrow> dy_ExtraSummonPaths (dv_Discovery d))"

definition summon_due :: "int \<Rightarrow> string \<Rightarrow> world \<Rightarrow> bool" where
  "summon_due now serial w \<longleftrightarrow>
     (case map_of (w_lastSummon w) serial of None \<Rightarrow> True | Some t \<Rightarrow> \<not> now - t < 120000000000)"

definition plan_summon ::
    "env \<Rightarrow> string \<Rightarrow> string \<Rightarrow> driver option \<Rightarrow> task list \<Rightarrow> session \<Rightarrow> world \<Rightarrow> session \<times> world" where
  "plan_summon e serial schemaName d pending s w =
     (let due = summon_due (e_now e) serial w;
          paths = (if due then uiSummonPaths schemaName d else targetedSummonPaths schemaName pending)
      in if paths = [] then (s, w)
         else (s\<lparr>se_summonPhase := 3, se_summonMode := (if due then ''ui_refresh'' else ''task_discovery''),
                se_summonSchemaName := schemaName, se_summonTargetPaths := paths\<rparr>,
               if due then w\<lparr>w_lastSummon := mput serial (e_now e) (w_lastSummon w)\<rparr> else w))"

subsection \<open>Collecting diagnostics\<close>

definition collect_task :: "string \<Rightarrow> mapper \<Rightarrow> task \<Rightarrow> task option" where
  "collect_task serial m t =
     (let paths = BuildDiagResultPaths (t_Type t) m in
      if paths = [] then None
      else Some (zero_task\<lparr>t_ID := t_ID t @ ''_collect'', t_Serial := serial, t_Type := TypeGetDiagResult,
             t_Payload := Some (encode_diag_result_payload
                \<lparr> dr_OriginalTaskID = t_ID t, dr_OriginalTaskType = t_Type t, dr_Paths = paths \<rparr>),
             t_Status := StatusPending\<rparr>))"

text \<open>The synthetic tasks of an Inform; \<^term>\<open>None\<close> is a panic of a missing mapper.\<close>

definition collect_tasks :: "string \<Rightarrow> inform \<Rightarrow> mapper_ref \<Rightarrow> world \<Rightarrow> task list option \<times> world" where
  "collect_tasks serial msg m w =
     (if \<not> hasDiagnosticsCompleteEvent msg then (Some [], w)
      else case FindExecutingDiagnostics serial (w_queue w) of
             (Inl _, q) \<Rightarrow> (Some [], w\<lparr>w_queue := q\<rparr>)
           | (Inr ts, q) \<Rightarrow>
               (if ts = [] then Some [] else map_option (\<lambda>m. List.map_filter (collect_task serial m) ts) (deref m),
                w\<lparr>w_queue := q\<rparr>))"

subsection \<open>The Inform handler\<close>

text \<open>The goroutines an Inform starts.\<close>

definition inform_jobs :: "upsert_request \<Rightarrow> device \<Rightarrow> job list" where
  "inform_jobs q dev =
     (let wans = (case de_WANs dev of None \<Rightarrow> [] | Some ws \<Rightarrow> ws);
          backfill = (de_ModelName dev = [] \<or> de_CPUUsage dev = None \<or> list_ex (\<lambda>x. wi_ServiceType x = []) wans)
      in (if backfill then [JobBackfill (uq_Serial q) dev (uq_Schema q)] else [])
         @ (if uq_Parameters q \<noteq> [] then [JobRecord (uq_Serial q) (uq_Parameters q)] else []))"

definition inform_driver :: "env \<Rightarrow> upsert_request \<Rightarrow> driver option option" where
  "inform_driver e q =
     (case e_drivers e of
        None \<Rightarrow> Some None
      | Some r \<Rightarrow> driver_Resolve r (uq_Manufacturer q) (uq_ProductClass q)
                    (model_name (DetectFromRootObject (firstRootObject (uq_Parameters q)))))"

definition mark_needs_defaults :: "string \<Rightarrow> session \<Rightarrow> world \<Rightarrow> session \<times> world" where
  "mark_needs_defaults serial s w =
     (if se_isBootstrap s then (s\<lparr>se_needsGlobalDefaults := True\<rparr>, w)
      else case pr_GetParameter serial ''_helix.provisioned'' (w_repo w) of
             (flag, r) \<Rightarrow>
               (if flag \<noteq> Inr ''true'' then s\<lparr>se_needsGlobalDefaults := True\<rparr> else s, w\<lparr>w_repo := r\<rparr>))"

text \<open>The rest of the handler once the tasks of the queue are known.\<close>

definition inform_tasks ::
    "env \<Rightarrow> string \<Rightarrow> inform \<Rightarrow> upsert_request \<Rightarrow> driver option \<Rightarrow> instance_map \<Rightarrow> mapper_ref \<Rightarrow> task list \<Rightarrow>
     session \<Rightarrow> world \<Rightarrow> reply \<times> session \<times> world" where
  "inform_tasks e i msg q d im m pending s0 w0 =
     (let serial = uq_Serial q;
          (s1, w1) = plan_summon e serial (uq_Schema q) d pending s0 w0
      in case collect_tasks serial msg m w1 of
           (None, w2) \<Rightarrow> (RPanic, s1, w2)
         | (Some synth, w2) \<Rightarrow>
             let s2 = s1\<lparr>se_pendingTasks := synth @ pending, se_mapper := m, se_instanceMap := im,
                        se_driver := d, se_State := StateProcessing\<rparr>;
                 (s3, w3) = mark_needs_defaults serial s2 w2;
                 (s4, w4) = injectGlobalDefaultParams e serial (uq_Parameters q) s3 w3
             in (RXml (BuildInformResponse i), s4, w4))"

definition inform_accepted ::
    "env \<Rightarrow> string \<Rightarrow> inform \<Rightarrow> upsert_request \<Rightarrow> device \<Rightarrow> session \<Rightarrow> world \<Rightarrow> reply \<times> session \<times> world" where
  "inform_accepted e i msg q dev s w0 =
     (let serial = uq_Serial q; w1 = w0\<lparr>w_jobs := w_jobs w0 @ inform_jobs q dev\<rparr> in
      case inform_driver e q of
        None \<Rightarrow> (RPanic, s, w1)
      | Some d \<Rightarrow>
          (case DiscoverInstancesWithHints (uq_Parameters q) (discoveryHintsFromDriver d) of
             None \<Rightarrow> (RPanic, s, w1)
           | Some im \<Rightarrow>
               let m = schema_mapper_ref (e_schemas e) (uq_Schema q) im in
               (case detectAndHandleReset e serial msg m w1 of
                  (False, w2) \<Rightarrow> (RPanic, s, w2)
                | (True, w2) \<Rightarrow>
                    (case DequeuePending serial (w_queue w2) of
                       (res, rd) \<Rightarrow>
                         let w3 = w2\<lparr>w_queue := rd\<rparr>; pending = (case res of Inl _ \<Rightarrow> [] | Inr ts \<Rightarrow> ts) in
                         if serial \<in> set (w_full w3)
                         then dispatchNextOrClose e (s\<lparr>se_summonPhase := 1, se_summonSchemaName := uq_Schema q\<rparr>)
                                (w3\<lparr>w_full := removeAll serial (w_full w3)\<rparr>)
                         else inform_tasks e i msg q d im m pending s w3))))"

definition begin_inform :: "string \<Rightarrow> inform \<Rightarrow> nat \<Rightarrow> session_manager \<Rightarrow> session_manager" where
  "begin_inform serial msg r m0 =
     (let m1 = update_session r (\<lambda>s. s\<lparr>se_DeviceSerial := serial\<rparr>) m0;
          m2 = BindSerial serial r (snd (adoptInFlightBySerial serial r m1))
      in update_session r (\<lambda>s. s\<lparr>se_isBootstrap := hasBootstrapEvent msg\<rparr>) m2)"

definition handleInform :: "env \<Rightarrow> string \<Rightarrow> inform \<Rightarrow> nat \<Rightarrow> acs \<Rightarrow> reply \<times> acs" where
  "handleInform e i msg r a0 =
     (let q0 = extractInformParams msg;
          a1 = a0\<lparr>ac_sm := begin_inform (uq_Serial q0) msg r (ac_sm a0)\<rparr>
      in case Resolve (e_schemas e) (uq_Manufacturer q0) (uq_DataModel q0) of
           None \<Rightarrow> (RPanic, a1)
         | Some schemaName \<Rightarrow>
             let q = q0\<lparr>uq_Schema := schemaName\<rparr>; w = ac_world a1 in
             (case Upsert (e_oid e) (e_now e) q (w_devices w) of
                (None, db) \<Rightarrow>
                  (RFault i ''Server'' ''9002'' ''Internal error'', a1\<lparr>ac_world := w\<lparr>w_devices := db\<rparr>\<rparr>)
              | (Some dev, db) \<Rightarrow>
                  on_session r (inform_accepted e i msg q dev) (a1\<lparr>ac_world := w\<lparr>w_devices := db\<rparr>\<rparr>)))"

subsection \<open>Goroutines\<close>

text \<open>
  What the goroutines do when they get to run. \<^term>\<open>None\<close> is a panic: outside of a request
  nothing recovers it, and the process ends.
\<close>

definition backfill_update :: "device \<Rightarrow> params \<Rightarrow> mapper option \<Rightarrow> info_update option" where
  "backfill_update dev ps m =
     (let name = or_else (mget ps ''InternetGatewayDevice.DeviceInfo.ModelName'') (mget ps ''Device.DeviceInfo.ModelName'');
          wans = (case de_WANs dev of None \<Rightarrow> [] | Some ws \<Rightarrow> ws);
          u = no_update\<lparr>iu_ModelName := (if de_ModelName dev = [] \<and> name \<noteq> [] then Some name else None),
                iu_CPUUsage := (if de_CPUUsage dev = None then extractCPUUsage ps None else None)\<rparr>
      in if list_ex (\<lambda>x. wi_ServiceType x = []) wans
         then Option.bind m (\<lambda>m. map_option (\<lambda>ws. if ws = [] then u else u\<lparr>iu_WANs := Some ws\<rparr>) (extractWANInfos ps m None))
         else Some u)"

definition run_backfill :: "env \<Rightarrow> string \<Rightarrow> device \<Rightarrow> string \<Rightarrow> world \<Rightarrow> world option" where
  "run_backfill e serial dev schemaName w =
     (case GetAllParameters serial (w_repo w) of
        (Inl _, r) \<Rightarrow> Some (w\<lparr>w_repo := r\<rparr>)
      | (Inr ps, r) \<Rightarrow>
          if ps = [] then Some (w\<lparr>w_repo := r\<rparr>)
          else map_option (\<lambda>u. if iu_ModelName u = None \<and> iu_CPUUsage u = None \<and> iu_WANs u = None
                               then w\<lparr>w_repo := r\<rparr> else update_info e serial u (w\<lparr>w_repo := r\<rparr>))
                 (backfill_update dev ps (deref (schema_mapper_ref (e_schemas e) schemaName zero_im))))"

definition run_pre_reset :: "env \<Rightarrow> string \<Rightarrow> world \<Rightarrow> world" where
  "run_pre_reset e serial w =
     (if serial = [] then w
      else case GetAllParameters serial (w_repo w) of
             (Inl _, r) \<Rightarrow> w\<lparr>w_repo := r\<rparr>
           | (Inr ps, r) \<Rightarrow> w\<lparr>w_repo := snd (SaveSnapshot (e_now e) serial ''pre_reset_params'' ps r)\<rparr>)"

definition run_job :: "env \<Rightarrow> job \<Rightarrow> world \<Rightarrow> world option" where
  "run_job e j w =
     (case j of
        JobBackfill serial dev schemaName \<Rightarrow> run_backfill e serial dev schemaName w
      | JobRecord serial ps \<Rightarrow> Some (store_params e serial ps w)
      | JobPreReset serial \<Rightarrow> Some (run_pre_reset e serial w))"

subsection \<open>Requests\<close>

text \<open>
  A request: the value of the session cookie, if there is one, and the body: it cannot be read, it
  is blank, or it is a text, with its token tree if it is well-formed.
\<close>

datatype request_body = BodyError | BodyEmpty | BodyText "token_tree option"

record http_request =
  rq_cookie :: "string option"
  rq_body :: request_body

text \<open>
  Without a cookie the id in the SOAP header is looked for with the struct of outgoing messages. Its
  tags have the prefix in the name, and the decoder splits the prefix off every name, so the root
  element never matches and the id is a new one.
\<close>

definition getSessionID :: "env \<Rightarrow> http_request \<Rightarrow> string" where
  "getSessionID e rq = (case rq_cookie rq of None \<Rightarrow> e_sid e | Some c \<Rightarrow> if c = [] then e_sid e else c)"

definition headerID :: "string option \<Rightarrow> string" where
  "headerID h = (case h of None \<Rightarrow> [] | Some v \<Rightarrow> v)"

definition requestID :: "string option \<Rightarrow> string" where
  "requestID h = trim_space (headerID h)"

definition responseID :: "env \<Rightarrow> string option \<Rightarrow> string" where
  "responseID e h = or_else (headerID h) (e_resp e)"

text \<open>An envelope written to a session binds its id to the session.\<close>

definition bindOutboundRPCID :: "nat \<Rightarrow> reply \<times> acs \<Rightarrow> reply \<times> acs" where
  "bindOutboundRPCID r ra =
     (case ra of (rep, a) \<Rightarrow>
        (case rep of
           RXml x \<Rightarrow> (rep, a\<lparr>ac_sm := BindRPCID (trim_space (fst x)) r (ac_sm a)\<rparr>)
         | RTransferComplete i \<Rightarrow> (rep, a\<lparr>ac_sm := BindRPCID (trim_space i) r (ac_sm a)\<rparr>)
         | _ \<Rightarrow> (rep, a)))"

text \<open>A blank body: the device has nothing to say and waits for a request.\<close>

definition resume_session :: "env \<Rightarrow> session \<Rightarrow> world \<Rightarrow> reply \<times> session \<times> world" where
  "resume_session e s w =
     (if se_summonPhase s = 1 then sendGetParameterNamesSummon e s w
      else if se_summonPhase s = 3 then sendTargetedSummon e s w
      else case se_wanProvision s of
        Some wp \<Rightarrow>
          (case buildCurrentXML (e_rpc e) wp of
             Inl err \<Rightarrow> handleTaskResponse e None err (s\<lparr>se_wanProvision := None\<rparr>) w
           | Inr x \<Rightarrow> (RXml x, s, w))
      | None \<Rightarrow>
          (case se_currentTask s of
             Some t \<Rightarrow> dispatchTask e t s w
           | None \<Rightarrow>
               (case se_pendingTasks s of
                  t # ts \<Rightarrow> dispatchTask e t (s\<lparr>se_pendingTasks := ts\<rparr>) w
                | [] \<Rightarrow> (RNoContent, s\<lparr>se_State := StateDone\<rparr>, w))))"

definition nothing_left :: "session \<Rightarrow> bool" where
  "nothing_left s \<longleftrightarrow> se_summonPhase s \<noteq> 1 \<and> se_summonPhase s \<noteq> 3 \<and> se_wanProvision s = None \<and>
     se_currentTask s = None \<and> se_pendingTasks s = []"

definition empty_request :: "env \<Rightarrow> string \<Rightarrow> nat \<Rightarrow> acs \<Rightarrow> reply \<times> acs" where
  "empty_request e sid r a =
     (let over = nothing_left (sm_heap (ac_sm a) r);
          (rep, a') = on_session r (resume_session e) a
      in (rep, if over then a'\<lparr>ac_sm := Delete_session sid (ac_sm a')\<rparr> else a'))"

definition transfer_complete_request :: "env \<Rightarrow> string \<Rightarrow> transfer_complete \<Rightarrow> session \<Rightarrow> world \<Rightarrow> reply \<times> session \<times> world" where
  "transfer_complete_request e i tc s w = (RTransferComplete i, s, handleTransferComplete e tc w)"

definition message_handler :: "env \<Rightarrow> string option \<Rightarrow> in_body \<Rightarrow> session \<Rightarrow> world \<Rightarrow> reply \<times> session \<times> world" where
  "message_handler e h b s w =
     (if ib_GetRPCMethods b then (handleGetRPCMethods (responseID e h), s, w)
      else case ib_TransferComplete b of Some tc \<Rightarrow> transfer_complete_request e (responseID e h) tc s w | None \<Rightarrow>
        if ib_SetParameterValuesResponse b \<noteq> None then handleSetParamValuesResponse e s w
      else case ib_GetParameterNamesResponse b of Some ns \<Rightarrow> handleGetParameterNamesResponse e ns s w | None \<Rightarrow>
           case ib_GetParameterValuesResponse b of Some pvs \<Rightarrow> handleGetParamValuesResponse e pvs s w | None \<Rightarrow>
        if ib_RebootResponse b \<or> ib_FactoryResetResponse b then handleTaskResponse e None [] s w
      else case ib_DownloadResponse b of Some d \<Rightarrow> handleDownloadResponse e d s w | None \<Rightarrow>
           case ib_AddObjectResponse b of Some n \<Rightarrow> handleAddObjectResponse e (fst n) s w | None \<Rightarrow>
        if ib_DeleteObjectResponse b \<noteq> None then handleDeleteObjectResponse e s w
      else case ib_Fault b of Some f \<Rightarrow> handleFault e f s w | None \<Rightarrow> (RNoContent, s, w))"

text \<open>
  The session that serves a message other than an Inform: the one that sent the request with the id
  of the message, or the session of the cookie.
\<close>

definition serving_session :: "string option \<Rightarrow> nat \<Rightarrow> session_manager \<Rightarrow> nat \<times> session_manager" where
  "serving_session h r m =
     (case TakeByRPCID (requestID h) m of (Some p, m') \<Rightarrow> (p, m') | (None, m') \<Rightarrow> (r, m'))"

definition ServeHTTP :: "env \<Rightarrow> http_request \<Rightarrow> acs \<Rightarrow> reply \<times> acs" where
  "ServeHTTP e rq a0 =
     (let sid = getSessionID e rq;
          (r, m) = GetOrCreate (e_now e) sid (ac_sm a0);
          a = a0\<lparr>ac_sm := m\<rparr>
      in case rq_body rq of
           BodyError \<Rightarrow> (RHttpError 400, a)
         | BodyEmpty \<Rightarrow> bindOutboundRPCID r (empty_request e sid r a)
         | BodyText t \<Rightarrow>
             (case Option.bind t ParseEnvelope of
                None \<Rightarrow> (RFault sid ''Client'' ''9003'' ''Invalid arguments'', a)
              | Some (h, b) \<Rightarrow>
                  (case ib_Inform b of
                     Some msg \<Rightarrow> bindOutboundRPCID r (handleInform e (responseID e h) msg r a)
                   | None \<Rightarrow>
                       (case serving_session h r m of (p, m') \<Rightarrow>
                          bindOutboundRPCID p (on_session p (message_handler e h b) (a\<lparr>ac_sm := m'\<rparr>))))))"

definition TriggerFullSummon :: "string \<Rightarrow> acs \<Rightarrow> acs" where
  "TriggerFullSummon serial a0 =
     (let w = ac_world a0; a = a0\<lparr>ac_world := w\<lparr>w_full := List.insert serial (w_full w)\<rparr>\<rparr>
      in case GetBySerial serial (ac_sm a) of
           None \<Rightarrow> a
         | Some r \<Rightarrow> a\<lparr>ac_sm := update_session r
             (\<lambda>s. if se_State s \<noteq> StateDone then s\<lparr>se_summonPhase := 1\<rparr> else s) (ac_sm a)\<rparr>)"

subsection \<open>Steps of the server\<close>

text \<open>
  What can happen to the server: a request, the periodic clean-up of sessions, an API request for a
  full summon, a goroutine that gets to run, and a change of the stores from outside (the API, the
  presence monitor, other processes).
\<close>

inductive acs_step :: "acs \<Rightarrow> acs \<Rightarrow> bool" where
  request: "ServeHTTP e rq a = (rep, a') \<Longrightarrow> acs_step a a'"
| cleanup: "acs_step a (a\<lparr>ac_sm := Cleanup now (ac_sm a)\<rparr>)"
| trigger: "acs_step a (TriggerFullSummon serial a)"
| job: "ac_world a = w\<lparr>w_jobs := js @ j # ks\<rparr> \<Longrightarrow> run_job e j (w\<lparr>w_jobs := js @ ks\<rparr>) = Some w' \<Longrightarrow>
     acs_step a (a\<lparr>ac_world := w'\<rparr>)"
| outside: "acs_step a (a\<lparr>ac_world := w\<rparr>)"

inductive_cases acs_stepE: "acs_step a b"

inductive acs_reachable :: "acs \<Rightarrow> bool" where
  start: "acs_reachable \<lparr> ac_sm = empty_manager, ac_world = w \<rparr>"
| step: "acs_reachable a \<Longrightarrow> acs_step a b \<Longrightarrow> acs_reachable b"

subsection \<open>Facts: handlers keep the identity of their session\<close>

definition same_id :: "session \<Rightarrow> reply \<times> session \<times> world \<Rightarrow> bool" where
  "same_id s r \<longleftrightarrow> se_ID (fst (snd r)) = se_ID s"

named_theorems same_ids \<open>handlers that keep the id of their session\<close>

lemma same_id_triple [simp]: "same_id s (rep, s', w) \<longleftrightarrow> se_ID s' = se_ID s"
  by (simp add: same_id_def)

lemma same_id_dispatch [same_ids]:
  "se_ID s1 = se_ID s \<Longrightarrow> same_id s (dispatchNextOrClose e s1 w)"
  "se_ID s1 = se_ID s \<Longrightarrow> same_id s (dispatchTask e t s1 w)"
  using dispatch_outcome(2) [of s1 e w] dispatch_outcome(1) [of t s1 e w]
  by (auto simp: same_id_def dispatched_def split: prod.splits)

lemma same_id_task_response [same_ids]:
  "se_ID s1 = se_ID s \<Longrightarrow> same_id s (handleTaskResponse e res err s1 w)"
  by (auto simp: handleTaskResponse_def Let_def intro!: same_ids split: option.splits)

lemma same_id_provision [same_ids]:
  assumes "se_ID s1 = se_ID s" and "\<And>s w. se_ID (fst (f s w)) = se_ID s"
  shows "same_id s (provision_answer e r f s1 w)"
proof -
  obtain q wp where r: "r = (q, wp)" by fastforce
  obtain s2 w2 where f: "f (s1\<lparr>se_wanProvision := None\<rparr>) w = (s2, w2)" by fastforce
  with assms(2) [of "s1\<lparr>se_wanProvision := None\<rparr>" w] assms(1) have "se_ID s2 = se_ID s" by simp
  then show ?thesis
    using assms(1) by (auto simp: provision_answer_def r f intro!: same_ids split: sum.splits option.splits)
qed

lemma inject_id [simp]:
  "se_ID (injectDefaultParamTask serial d cur s) = se_ID s"
  "se_ID (fst (injectGlobalDefaultParams e serial cur s w)) = se_ID s"
  by (auto simp: injectDefaultParamTask_def injectGlobalDefaultParams_def Let_def
      split: option.splits prod.splits sum.splits)

lemma rebuild_id: "rebuild_mapper e n ps s = Some s' \<Longrightarrow> se_ID s' = se_ID s"
  by (auto simp: rebuild_mapper_def)

lemma same_id_after_inject:
  assumes "se_ID s1 = se_ID s"
  shows "same_id s (case injectGlobalDefaultParams e serial cur (injectDefaultParamTask serial d cur s1) w of
    (s2, w2) \<Rightarrow> dispatchNextOrClose e s2 w2)"
  using assms inject_id(2) [of e serial cur "injectDefaultParamTask serial d cur s1" w]
  by (auto intro!: same_ids split: prod.splits simp del: inject_id(2))

lemma same_id_summons [same_ids]:
  "se_ID s1 = se_ID s \<Longrightarrow> same_id s (finishSummon e s1 w)"
  "se_ID s1 = se_ID s \<Longrightarrow> same_id s (sendNextSummonBatch e s1 w)"
  "se_ID s1 = se_ID s \<Longrightarrow> same_id s (handleTargetedSummonResponse e ps s1 w)"
  "se_ID s1 = se_ID s \<Longrightarrow> same_id s (sendGetParameterNamesSummon e s1 w)"
  "se_ID s1 = se_ID s \<Longrightarrow> same_id s (sendTargetedSummon e s1 w)"
proof -
  show f: "se_ID s1 = se_ID s \<Longrightarrow> same_id s (finishSummon e s1 w)" for s1
    by (auto simp: finishSummon_def Let_def intro!: same_id_after_inject dest!: rebuild_id split: option.splits)
  show "se_ID s1 = se_ID s \<Longrightarrow> same_id s (sendNextSummonBatch e s1 w)"
    by (auto simp: sendNextSummonBatch_def Let_def f)
  show "se_ID s1 = se_ID s \<Longrightarrow> same_id s (handleTargetedSummonResponse e ps s1 w)"
    by (auto simp: handleTargetedSummonResponse_def Let_def intro!: same_id_after_inject same_ids dest!: rebuild_id
        split: option.splits)
  show "se_ID s1 = se_ID s \<Longrightarrow> same_id s (sendGetParameterNamesSummon e s1 w)"
    by (auto simp: sendGetParameterNamesSummon_def Let_def split: option.splits)
  show "se_ID s1 = se_ID s \<Longrightarrow> same_id s (sendTargetedSummon e s1 w)"
    by (simp add: sendTargetedSummon_def)
qed

lemma same_id_responses [same_ids]:
  "same_id s (handleSetParamValuesResponse e s w)" "same_id s (handleGetParamValuesResponse e pvs s w)"
  "same_id s (handleGetParameterNamesResponse e ns s w)" "same_id s (handleAddObjectResponse e n s w)"
  "same_id s (handleDeleteObjectResponse e s w)" "same_id s (handleDownloadResponse e d s w)"
  "same_id s (handleFault e f s w)" "same_id s (resume_session e s w)"
  by (auto simp: handleSetParamValuesResponse_def set_params_done_def take_credentials_def handleGetParamValuesResponse_def
      accumulate_batch_def handleGetParameterNamesResponse_def handleAddObjectResponse_def handleDeleteObjectResponse_def
      handleDownloadResponse_def handleFault_def resume_session_def Let_def intro!: same_ids
      split: option.splits list.splits prod.splits sum.splits)

lemma same_id_message [same_ids]: "same_id s (message_handler e h b s w)"
  by (auto simp: message_handler_def transfer_complete_request_def intro!: same_ids split: option.splits)

lemma same_id_inform_tasks: "same_id s (inform_tasks e i msg q d im m pending s w)"
proof -
  obtain s1 w1 where p: "plan_summon e (uq_Serial q) (uq_Schema q) d pending s w = (s1, w1)" by fastforce
  then have s1: "se_ID s1 = se_ID s" by (auto simp: plan_summon_def Let_def split: if_splits)
  obtain c w2 where c: "collect_tasks (uq_Serial q) msg m w1 = (c, w2)" by fastforce
  show ?thesis
  proof (cases c)
    case None
    then show ?thesis using s1 by (simp add: inform_tasks_def p c Let_def)
  next
    case (Some synth)
    let ?s2 = "s1\<lparr>se_pendingTasks := synth @ pending, se_mapper := m, se_instanceMap := im,
                 se_driver := d, se_State := StateProcessing\<rparr>"
    obtain s3 w3 where m: "mark_needs_defaults (uq_Serial q) ?s2 w2 = (s3, w3)" by fastforce
    have s3: "se_ID s3 = se_ID s"
      using m s1 by (auto simp: mark_needs_defaults_def split: if_splits prod.splits)
    obtain s4 w4 where i: "injectGlobalDefaultParams e (uq_Serial q) (uq_Parameters q) s3 w3 = (s4, w4)" by fastforce
    then have "se_ID s4 = se_ID s3" using inject_id(2) [of e "uq_Serial q" "uq_Parameters q" s3 w3] by simp
    then show ?thesis using s3 by (simp add: inform_tasks_def p c Some m i Let_def)
  qed
qed

lemma same_id_inform [same_ids]: "same_id s (inform_accepted e i msg q dev s w)"
  by (auto simp: inform_accepted_def Let_def intro!: same_ids same_id_inform_tasks split: option.splits prod.splits bool.splits)

subsection \<open>Facts: the manager stays well-formed\<close>

lemma on_session_ok:
  assumes "manager_ok (ac_sm a)" and "r < sm_next (ac_sm a)"
    and "same_id (sm_heap (ac_sm a) r) (h (sm_heap (ac_sm a) r) (ac_world a))"
  shows "manager_ok (ac_sm (snd (on_session r h a)))" "sm_next (ac_sm (snd (on_session r h a))) = sm_next (ac_sm a)"
  using assms update_session_ok [OF assms(1,2), of "\<lambda>_. fst (snd (h (sm_heap (ac_sm a) r) (ac_world a)))"]
  by (auto simp: on_session_def same_id_def manager_simps split: prod.splits)

lemma bind_ok:
  assumes "manager_ok (ac_sm (snd ra))" and "r < sm_next (ac_sm (snd ra))"
  shows "manager_ok (ac_sm (snd (bindOutboundRPCID r ra)))"
  using assms by (cases ra) (auto simp: bindOutboundRPCID_def intro: index_ops_ok split: reply.splits)

lemma allocated:
  "manager_ok m \<Longrightarrow> map_of (sm_sessions m) i = Some r \<Longrightarrow> r < sm_next m"
  "manager_ok m \<Longrightarrow> map_of (sm_rpc m) i = Some r \<Longrightarrow> r < sm_next m"
  "manager_ok m \<Longrightarrow> map_of (sm_serial m) i = Some r \<Longrightarrow> r < sm_next m"
  by (auto simp: manager_ok_def)

lemma begin_inform_ok:
  assumes "manager_ok m" and "r < sm_next m"
  shows "manager_ok (begin_inform serial msg r m)" "sm_next (begin_inform serial msg r m) = sm_next m"
proof -
  let ?m1 = "update_session r (\<lambda>s. s\<lparr>se_DeviceSerial := serial\<rparr>) m"
  have m1: "manager_ok ?m1" "r < sm_next ?m1"
    using update_session_ok [OF assms, of "\<lambda>s. s\<lparr>se_DeviceSerial := serial\<rparr>"] assms(2) by (simp_all add: manager_simps)
  obtain b m2 where ad: "adoptInFlightBySerial serial r ?m1 = (b, m2)" by fastforce
  have m2: "manager_ok m2" "sm_next m2 = sm_next m" using adopt_ok [OF m1 ad] by (simp_all add: manager_simps)
  have m3: "manager_ok (BindSerial serial r m2)" "r < sm_next (BindSerial serial r m2)"
    using index_ops_ok(2) [OF m2(1)] m2(2) assms(2) by (simp_all add: manager_simps)
  show "manager_ok (begin_inform serial msg r m)" "sm_next (begin_inform serial msg r m) = sm_next m"
    using update_session_ok [OF m3, of "\<lambda>s. s\<lparr>se_isBootstrap := hasBootstrapEvent msg\<rparr>"] m2(2)
    by (simp_all add: begin_inform_def ad Let_def manager_simps)
qed

lemma handleInform_ok:
  assumes "manager_ok (ac_sm a)" and "r < sm_next (ac_sm a)"
  shows "manager_ok (ac_sm (snd (handleInform e i msg r a)))"
    "sm_next (ac_sm (snd (handleInform e i msg r a))) = sm_next (ac_sm a)"
proof -
  let ?m = "begin_inform (uq_Serial (extractInformParams msg)) msg r (ac_sm a)"
  note ok = begin_inform_ok [OF assms, of "uq_Serial (extractInformParams msg)" msg]
  have on: "manager_ok (ac_sm (snd (on_session r (inform_accepted e i msg q dev) \<lparr>ac_sm = ?m, ac_world = w\<rparr>)))"
    "sm_next (ac_sm (snd (on_session r (inform_accepted e i msg q dev) \<lparr>ac_sm = ?m, ac_world = w\<rparr>))) = sm_next (ac_sm a)" for q dev w
    using on_session_ok [of "\<lparr>ac_sm = ?m, ac_world = w\<rparr>" r "inform_accepted e i msg q dev"] ok assms(2)
    by (simp_all add: same_ids)
  have eq: "a\<lparr>ac_sm := ?m, ac_world := w\<rparr> = \<lparr>ac_sm = ?m, ac_world = w\<rparr>" for w by simp
  show "manager_ok (ac_sm (snd (handleInform e i msg r a)))"
    "sm_next (ac_sm (snd (handleInform e i msg r a))) = sm_next (ac_sm a)"
    using ok on by (simp_all add: handleInform_def Let_def eq split: option.splits prod.splits)
qed

lemma empty_request_ok:
  assumes "manager_ok (ac_sm a)" and "r < sm_next (ac_sm a)"
  shows "manager_ok (ac_sm (snd (empty_request e sid r a)))"
    "sm_next (ac_sm (snd (empty_request e sid r a))) = sm_next (ac_sm a)"
  using on_session_ok [OF assms, of "resume_session e"] index_ops_ok(1)
  by (auto simp: empty_request_def Let_def same_ids manager_simps split: prod.splits)

lemma GetOrCreate_next: "sm_next m \<le> sm_next (snd (GetOrCreate now i m))"
  by (simp add: GetOrCreate_def split: option.splits)

lemma ServeHTTP_ok:
  assumes "manager_ok (ac_sm a)"
  shows "manager_ok (ac_sm (snd (ServeHTTP e rq a)))"
proof -
  obtain r m where g: "GetOrCreate (e_now e) (getSessionID e rq) (ac_sm a) = (r, m)" by fastforce
  have m: "manager_ok m" "r < sm_next m"
    using GetOrCreate_ok [OF assms, of "e_now e" "getSessionID e rq"] allocated(1) by (auto simp: g)
  let ?a = "a\<lparr>ac_sm := m\<rparr>"
  have E: "manager_ok (ac_sm (snd (bindOutboundRPCID r (empty_request e sid r ?a))))" for sid
    using empty_request_ok [of ?a r e sid] m by (intro bind_ok) simp_all
  have I: "manager_ok (ac_sm (snd (bindOutboundRPCID r (handleInform e i msg r ?a))))" for i msg
    using handleInform_ok [of ?a r e i msg] m by (intro bind_ok) simp_all
  have M: "manager_ok (ac_sm (snd (bindOutboundRPCID p (on_session p (message_handler e h b) (?a\<lparr>ac_sm := m'\<rparr>)))))"
    if "serving_session h r m = (p, m')" for h b p m'
  proof -
    have "m' = snd (TakeByRPCID (requestID h) m)" "p = r \<or> fst (TakeByRPCID (requestID h) m) = Some p"
      using that by (auto simp: serving_session_def split: prod.splits option.splits)
    then have "manager_ok m'" "p < sm_next m'"
      using index_ops_ok(4) [OF m(1)] m allocated(2) [OF m(1)] by (auto simp: manager_simps split: if_splits)
    then show ?thesis
      using on_session_ok [of "?a\<lparr>ac_sm := m'\<rparr>" p "message_handler e h b"] by (intro bind_ok) (simp_all add: same_ids)
  qed
  show ?thesis
    using E I M m by (auto simp: ServeHTTP_def g Let_def split: request_body.splits option.splits prod.splits)
qed

lemma Cleanup_sub:
  fixes m :: session_manager and now :: int
  defines "m' \<equiv> Cleanup now m"
  shows "sm_heap m' = sm_heap m" "sm_next m' = sm_next m"
    "\<exists>P. sm_sessions m' = filter (\<lambda>kr. P (snd kr)) (sm_sessions m)"
    "\<exists>P. sm_serial m' = filter (\<lambda>kr. P (snd kr)) (sm_serial m)"
    "\<exists>P. sm_rpc m' = filter (\<lambda>kr. P (snd kr)) (sm_rpc m)"
proof -
  show "sm_heap m' = sm_heap m" "sm_next m' = sm_next m" by (simp_all add: m'_def Cleanup_def Let_def)
  show "\<exists>P. sm_sessions m' = filter (\<lambda>kr. P (snd kr)) (sm_sessions m)"
    by (rule exI [of _ "\<lambda>r. \<not> expired now (sm_heap m r)"]) (simp add: m'_def Cleanup_def Let_def)
  let ?old = "map snd (filter (\<lambda>kr. expired now (sm_heap m (snd kr))) (sm_sessions m))"
  have "sm_serial m' = (if ?old = [] then sm_serial m else filter (\<lambda>kr. snd kr \<notin> set ?old) (sm_serial m))"
    "sm_rpc m' = (if ?old = [] then sm_rpc m else filter (\<lambda>kr. snd kr \<notin> set ?old) (sm_rpc m))"
    unfolding m'_def Cleanup_def Let_def by simp_all
  then have eq: "sm_serial m' = filter (\<lambda>kr. (\<lambda>r. ?old = [] \<or> r \<notin> set ?old) (snd kr)) (sm_serial m)"
    "sm_rpc m' = filter (\<lambda>kr. (\<lambda>r. ?old = [] \<or> r \<notin> set ?old) (snd kr)) (sm_rpc m)"
    by (cases "?old = []"; simp)+
  show "\<exists>P. sm_serial m' = filter (\<lambda>kr. P (snd kr)) (sm_serial m)" 
    by (rule exI [of _ "\<lambda>r. ?old = [] \<or> r \<notin> set ?old"]) (rule eq(1))
  show "\<exists>P. sm_rpc m' = filter (\<lambda>kr. P (snd kr)) (sm_rpc m)" 
    by (rule exI [of _ "\<lambda>r. ?old = [] \<or> r \<notin> set ?old"]) (rule eq(2))
qed

lemma Cleanup_ok:
  assumes "manager_ok m"
  shows "manager_ok (Cleanup now m)"
proof -
  obtain P Q R where eq: "sm_sessions (Cleanup now m) = filter (\<lambda>kr. P (snd kr)) (sm_sessions m)"
    "sm_serial (Cleanup now m) = filter (\<lambda>kr. Q (snd kr)) (sm_serial m)"
    "sm_rpc (Cleanup now m) = filter (\<lambda>kr. R (snd kr)) (sm_rpc m)"
    using Cleanup_sub [where now = now and m = m] by blast
  have sub: "map_of (filter (\<lambda>kr. P (snd kr)) f) k = Some r \<Longrightarrow> wf_map f \<Longrightarrow> map_of f k = Some r"
    for P and f :: "(string, nat) gomap" and k r
    by (simp add: map_of_filter_val split: option.splits if_splits)
  have wf: "wf_map (sm_sessions m)" "wf_map (sm_serial m)" "wf_map (sm_rpc m)"
    using assms by (simp_all add: manager_ok_def)
  note from_old = sub [OF _ wf(1)] sub [OF _ wf(2)] sub [OF _ wf(3)]
  show ?thesis
    unfolding manager_ok_def eq Cleanup_sub(1,2)
    using assms wf by (auto simp: manager_ok_def dest!: from_old)
qed

lemma TriggerFullSummon_ok:
  assumes "manager_ok (ac_sm a)"
  shows "manager_ok (ac_sm (TriggerFullSummon serial a))"
proof -
  have "manager_ok (update_session r f (ac_sm a))"
    if "GetBySerial serial (ac_sm a) = Some r" and "\<And>s. se_ID (f s) = se_ID s" for r f
    using that allocated(3) [OF assms] by (intro update_session_ok [OF assms]) (auto simp: GetBySerial_def split: if_splits)
  then show ?thesis
    using assms by (auto simp: TriggerFullSummon_def Let_def split: option.splits)
qed

lemma acs_reachable_ok: "acs_reachable a \<Longrightarrow> manager_ok (ac_sm a)"
proof (induction rule: acs_reachable.induct)
  case (start w)
  then show ?case by (simp add: manager_ok_empty)
next
  case (step a b)
  from step(2) show ?case
  proof (elim acs_stepE)
    fix e rq rep
    assume "ServeHTTP e rq a = (rep, b)"
    then show ?thesis using ServeHTTP_ok [OF step.IH, of e rq] by simp
  qed (simp_all add: step.IH Cleanup_ok TriggerFullSummon_ok)
qed

subsection \<open>Facts: which session serves a request\<close>

definition server_of :: "env \<Rightarrow> http_request \<Rightarrow> acs \<Rightarrow> nat" where
  "server_of e rq a =
     (case GetOrCreate (e_now e) (getSessionID e rq) (ac_sm a) of (r, m) \<Rightarrow>
        (case rq_body rq of
           BodyText t \<Rightarrow>
             (case Option.bind t ParseEnvelope of
                Some (h, b) \<Rightarrow> if ib_Inform b = None then fst (serving_session h r m) else r
              | None \<Rightarrow> r)
         | _ \<Rightarrow> r))"

lemma bound_after_reply:
  assumes "ServeHTTP e rq a = (RXml x, a1)" and "trim_space (fst x) \<noteq> []"
  shows "map_of (sm_rpc (ac_sm a1)) (trim_space (fst x)) = Some (server_of e rq a)"
proof -
  have b: "bindOutboundRPCID r ra = (RXml x, a1) \<Longrightarrow> map_of (sm_rpc (ac_sm a1)) (trim_space (fst x)) = Some r" for r ra
    using assms(2) by (cases ra) (auto simp: bindOutboundRPCID_def manager_simps split: reply.splits)
  obtain r m where g: "GetOrCreate (e_now e) (getSessionID e rq) (ac_sm a) = (r, m)" by fastforce
  show ?thesis
  proof (cases "rq_body rq")
    case (BodyText t)
    then show ?thesis
      using assms(1) b by (auto simp: ServeHTTP_def server_of_def g Let_def split: option.splits prod.splits)
  qed (use assms(1) b in \<open>auto simp: ServeHTTP_def server_of_def g Let_def\<close>)
qed

lemma GetOrCreate_frame:
  "sm_rpc (snd (GetOrCreate now i m)) = sm_rpc m"
  "r < sm_next m \<Longrightarrow> sm_heap (snd (GetOrCreate now i m)) r = sm_heap m r"
  by (simp_all add: GetOrCreate_def split: option.splits)

lemma answer_served_by:
  assumes "map_of (sm_rpc (ac_sm a)) (trim_space h) = Some r" and "manager_ok (ac_sm a)" and "trim_space h \<noteq> []"
    and "rq_body rq = BodyText (Some t)" and "ParseEnvelope t = Some (Some h, b)" and "ib_Inform b = None"
  shows "fst (ServeHTTP e rq a) = fst (message_handler e (Some h) b (sm_heap (ac_sm a) r) (ac_world a))"
proof -
  obtain p m where g: "GetOrCreate (e_now e) (getSessionID e rq) (ac_sm a) = (p, m)" by fastforce
  have m: "sm_rpc m = sm_rpc (ac_sm a)" "sm_heap m r = sm_heap (ac_sm a) r"
    using GetOrCreate_frame(1) [of "e_now e" "getSessionID e rq" "ac_sm a"]
      GetOrCreate_frame(2) [OF allocated(2) [OF assms(2,1)], of "e_now e" "getSessionID e rq"] by (simp_all add: g)
  have s: "serving_session (Some h) p m = (r, m\<lparr>sm_rpc := mdel (trim_space h) (sm_rpc m)\<rparr>)"
    using assms(1,3) m(1) by (simp add: serving_session_def TakeByRPCID_def requestID_def headerID_def)
  have fst_bind: "fst (bindOutboundRPCID r ra) = fst ra" for ra
    by (cases ra) (simp add: bindOutboundRPCID_def split: reply.splits)
  show ?thesis
    using assms(4-6) m(2)
    by (simp add: ServeHTTP_def g s Let_def fst_bind on_session_def split: prod.splits)
qed

subsection \<open>Facts: what an Inform loads into the session\<close>

lemma collect_type: "collect_tasks serial msg m w = (Some ts, w') \<Longrightarrow> t \<in> set ts \<Longrightarrow> t_Type t = TypeGetDiagResult"
  by (force simp: collect_tasks_def collect_task_def List.map_filter_def Let_def
      split: if_splits sum.splits prod.splits option.splits)

lemma inject_pending:
  "se_pendingTasks (fst (injectGlobalDefaultParams e serial cur s w)) = se_pendingTasks s \<or>
   (\<exists>ps. se_pendingTasks (fst (injectGlobalDefaultParams e serial cur s w)) =
      synthetic_set (''global_defaults_'' @ serial) serial ps # se_pendingTasks s)"
  by (auto simp: injectGlobalDefaultParams_def Let_def split: prod.splits sum.splits)

lemma inject_front:
  "\<exists>front. se_pendingTasks (fst (injectGlobalDefaultParams e serial cur s w)) = front @ se_pendingTasks s \<and>
     (\<forall>t \<in> set front. t_ID t = ''global_defaults_'' @ serial)"
  using inject_pending [of e serial cur s w]
proof
  assume "\<exists>ps. se_pendingTasks (fst (injectGlobalDefaultParams e serial cur s w)) =
      synthetic_set (''global_defaults_'' @ serial) serial ps # se_pendingTasks s"
  then obtain ps where "se_pendingTasks (fst (injectGlobalDefaultParams e serial cur s w)) =
      synthetic_set (''global_defaults_'' @ serial) serial ps # se_pendingTasks s" ..
  then show ?thesis
    by (intro exI [of _ "[synthetic_set (''global_defaults_'' @ serial) serial ps]"]) (simp add: synthetic_set_def)
qed simp

text \<open>The tasks a session holds: collections and global defaults in front of those of the queue.\<close>

definition loaded :: "string \<Rightarrow> task list \<Rightarrow> session \<Rightarrow> bool" where
  "loaded serial ts s \<longleftrightarrow>
     (\<exists>front. se_pendingTasks s = front @ ts \<and>
        (\<forall>t \<in> set front. t_Type t = TypeGetDiagResult \<or> t_ID t = ''global_defaults_'' @ serial))"

lemma inform_tasks_loaded:
  assumes "inform_tasks e i msg q d im m pending s w = (rep, s', w')" and "rep \<noteq> RPanic"
  shows "rep = RXml (BuildInformResponse i)" "loaded (uq_Serial q) pending s'"
proof -
  obtain s1 w1 where p: "plan_summon e (uq_Serial q) (uq_Schema q) d pending s w = (s1, w1)" by fastforce
  obtain c w2 where c: "collect_tasks (uq_Serial q) msg m w1 = (c, w2)" by fastforce
  from assms p c obtain synth where s: "c = Some synth" by (cases c) (auto simp: inform_tasks_def Let_def)
  let ?s2 = "s1\<lparr>se_pendingTasks := synth @ pending, se_mapper := m, se_instanceMap := im,
                 se_driver := d, se_State := StateProcessing\<rparr>"
  obtain s3 w3 where k: "mark_needs_defaults (uq_Serial q) ?s2 w2 = (s3, w3)" by fastforce
  have s3: "se_pendingTasks s3 = synth @ pending"
    using k by (auto simp: mark_needs_defaults_def split: if_splits prod.splits)
  let ?inj = "injectGlobalDefaultParams e (uq_Serial q) (uq_Parameters q) s3 w3"
  have run: "rep = RXml (BuildInformResponse i)" "s' = fst ?inj"
    using assms(1) by (auto simp: inform_tasks_def p c s k Let_def split: prod.splits)
  show "rep = RXml (BuildInformResponse i)" by (rule run)
  obtain front where "se_pendingTasks s' = front @ synth @ pending"
    "\<forall>t \<in> set front. t_ID t = ''global_defaults_'' @ uq_Serial q"
    using inject_front [of e "uq_Serial q" "uq_Parameters q" s3 w3] run(2) s3 by auto
  then show "loaded (uq_Serial q) pending s'"
    using collect_type [OF c [unfolded s]] unfolding loaded_def
    by (intro exI [of _ "front @ synth"]) auto
qed

lemma inform_accepted_loaded:
  assumes "inform_accepted e i msg q dev s w = (rep, s', w')" and "rep \<noteq> RPanic"
    and "\<not> hasBootstrapEvent msg" and "informParamValue msg ''Device.DeviceInfo.ProvisioningCode'' \<noteq> []"
    and "rd_faults (w_queue w) = []" and "uq_Serial q \<notin> set (w_full w)"
  shows "rep = RXml (BuildInformResponse i) \<and>
    loaded (uq_Serial q) (filter (\<lambda>t. t_Status t = StatusPending) (queue_tasks (w_queue w) (uq_Serial q))) s'"
proof -
  let ?serial = "uq_Serial q" and ?w1 = "w\<lparr>w_jobs := w_jobs w @ inform_jobs q dev\<rparr>"
  from assms(1,2) obtain d im where d: "inform_driver e q = Some d"
    "DiscoverInstancesWithHints (uq_Parameters q) (discoveryHintsFromDriver d) = Some im"
    by (auto simp: inform_accepted_def Let_def split: option.splits)
  let ?m = "schema_mapper_ref (e_schemas e) (uq_Schema q) im"
  obtain r where reset: "detectAndHandleReset e ?serial msg ?m ?w1 = (True, ?w1\<lparr>w_repo := r\<rparr>)"
    using plain_inform_frame [OF assms(3,4), where e = e and serial = ?serial and m = ?m and w = ?w1] by auto
  have "DequeuePending ?serial (w_queue w) =
      (Inr (filter (\<lambda>t. t_Status t = StatusPending) (queue_tasks (w_queue w) ?serial)), w_queue w)"
    using assms(5) by (rule DequeuePending_up)
  then have "inform_tasks e i msg q d im ?m (filter (\<lambda>t. t_Status t = StatusPending) (queue_tasks (w_queue w) ?serial))
      s (?w1\<lparr>w_repo := r, w_queue := w_queue w\<rparr>) = (rep, s', w')"
    using assms(1,6) by (simp add: inform_accepted_def Let_def d reset)
  from inform_tasks_loaded [OF this assms(2)] show ?thesis by simp
qed

text \<open>When every lookup succeeds, the Inform is answered.\<close>

lemma inform_tasks_answered:
  assumes "\<not> hasDiagnosticsCompleteEvent msg"
  shows "fst (inform_tasks e i msg q d im m pending s w) = RXml (BuildInformResponse i)"
  using assms by (simp add: inform_tasks_def collect_tasks_def Let_def split: prod.splits)

lemma inform_answered:
  fixes msg :: inform
  defines "q \<equiv> extractInformParams msg"
  assumes "Resolve (e_schemas e) (uq_Manufacturer q) (uq_DataModel q) = Some schemaName"
    and "Upsert (e_oid e) (e_now e) (q\<lparr>uq_Schema := schemaName\<rparr>) (w_devices (ac_world a)) = (Some dev, db)"
    and "e_drivers e = None" and "DiscoverInstancesWithHints (uq_Parameters q) None = Some im"
    and "\<not> hasBootstrapEvent msg" and "informParamValue msg ''Device.DeviceInfo.ProvisioningCode'' \<noteq> []"
    and "\<not> hasDiagnosticsCompleteEvent msg" and "uq_Serial q \<notin> set (w_full (ac_world a))"
  shows "fst (handleInform e i msg r a) = RXml (BuildInformResponse i)"
proof -
  have "fst (inform_accepted e i msg (q\<lparr>uq_Schema := schemaName\<rparr>) dev s ((ac_world a)\<lparr>w_devices := db\<rparr>)) =
      RXml (BuildInformResponse i)" for s
  proof -
    let ?w = "(ac_world a)\<lparr>w_devices := db, w_jobs := w_jobs (ac_world a) @ inform_jobs (q\<lparr>uq_Schema := schemaName\<rparr>) dev\<rparr>"
    obtain r where "detectAndHandleReset e (uq_Serial q) msg (schema_mapper_ref (e_schemas e) schemaName im) ?w = (True, ?w\<lparr>w_repo := r\<rparr>)"
      using plain_inform_frame [OF assms(6,7), where e = e and serial = "uq_Serial q"
          and m = "schema_mapper_ref (e_schemas e) schemaName im" and w = ?w] by auto
    then show ?thesis
      using assms(4,5,8,9)
      by (simp add: inform_accepted_def inform_driver_def discoveryHintsFromDriver_def inform_tasks_answered Let_def
          split: prod.splits)
  qed
  then show ?thesis
    using assms(2,3) by (simp add: handleInform_def q_def Let_def on_session_def split: prod.splits) (metis fst_conv)
qed

subsection \<open>Properties\<close>




text \<open>
  A full summon asked for through the API leaves the Inform without an InformResponse: the session
  is closed with an empty reply, and it gets neither mapper nor tasks.
\<close>

lemma full_summon_skips_inform_response:
  assumes "inform_driver e q = Some d"
    and "DiscoverInstancesWithHints (uq_Parameters q) (discoveryHintsFromDriver d) = Some im"
    and "\<not> hasBootstrapEvent msg" and "informParamValue msg ''Device.DeviceInfo.ProvisioningCode'' \<noteq> []"
    and "uq_Serial q \<in> set (w_full w)" and "se_pendingTasks s = []"
  shows "case inform_accepted e i msg q dev s w of (rep, s', w') \<Rightarrow>
    rep = RNoContent \<and> se_mapper s' = se_mapper s \<and> se_pendingTasks s' = []"
proof -
  let ?w = "w\<lparr>w_jobs := w_jobs w @ inform_jobs q dev\<rparr>"
  obtain r where "detectAndHandleReset e (uq_Serial q) msg (schema_mapper_ref (e_schemas e) (uq_Schema q) im) ?w = (True, ?w\<lparr>w_repo := r\<rparr>)"
    using plain_inform_frame [OF assms(3,4), where e = e and serial = "uq_Serial q"
        and m = "schema_mapper_ref (e_schemas e) (uq_Schema q) im" and w = ?w] by auto
  then show ?thesis
    using assms(1,2,5,6) by (simp add: inform_accepted_def Let_def dispatchNextOrClose.simps split: prod.splits)
qed

subsection \<open>Examples\<close>

definition ex_acs :: acs where
  "ex_acs = \<lparr> ac_sm = empty_manager, ac_world = ex_world \<rparr>"

definition ex_message :: "string \<Rightarrow> token_tree list \<Rightarrow> token_tree" where
  "ex_message i body =
     TElem (''soap'', ''Envelope'') []
       [TElem (''soap'', ''Header'') [] [TElem (''cwmp'', ''ID'') [] [TChars i]],
        TElem (''soap'', ''Body'') [] body]"

definition ex_request :: "string \<Rightarrow> string \<Rightarrow> token_tree list \<Rightarrow> http_request" where
  "ex_request cookie i body = \<lparr> rq_cookie = Some cookie, rq_body = BodyText (Some (ex_message i body)) \<rparr>"

lemma ex_parses:
  "map_option (\<lambda>(h, b). (h, ib_Inform b = None, ib_GetRPCMethods b)) (ParseEnvelope (ex_message ''7'' [TElem (''cwmp'', ''GetRPCMethods'') [] []])) =
     Some (Some ''7'', True, True)"
  "map_option (\<lambda>(h, b). (h, ib_Inform b = None)) (ParseEnvelope (ex_message ''7'' [])) = Some (Some ''7'', True)"
  by code_simp+



definition ex_loaded_world :: world where
  "ex_loaded_world = ex_world\<lparr>w_queue := snd (Enqueue ex_cfg (ex_task ''a'' TypeReboot) empty_redis)\<rparr>"

abbreviation ex_periodic :: inform where "ex_periodic \<equiv> ex_reset_inform ''2 PERIODIC'' ''acs''"

lemma ex_inform_plain:
  "\<not> hasBootstrapEvent ex_periodic" "informParamValue ex_periodic ''Device.DeviceInfo.ProvisioningCode'' \<noteq> []"
  "\<not> hasDiagnosticsCompleteEvent ex_periodic"
  by (simp_all add: hasBootstrapEvent_def informParamValue_def hasDiagnosticsCompleteEvent_def ex_reset_inform_def has_prefix_def)

lemma ex_inform_upsert:
  "uq_Serial (extractInformParams ex_periodic) = ''CPE1''"
  "Resolve [] (uq_Manufacturer (extractInformParams ex_periodic)) (uq_DataModel (extractInformParams ex_periodic)) = Some ''tr181''"
  "uq_Parameters (extractInformParams ex_periodic) = [(''Device.DeviceInfo.ProvisioningCode'', ''acs'')]"
  by code_simp+

lemma ex_inform_discovery: "\<exists>im. DiscoverInstancesWithHints [(''Device.DeviceInfo.ProvisioningCode'', ''acs'')] None = Some im"
proof -
  have "DiscoverInstancesWithHints [(''Device.DeviceInfo.ProvisioningCode'', ''acs'')] None \<noteq> None" by code_simp
  then show ?thesis by blast
qed

end
