(* ===== verification/Payload_Codec.thy ===== *)
theory Payload_Codec
  imports Restore
begin

section \<open>Payloads as the API stores them\<close>

text \<open>
  \<^verbatim>\<open>json.Marshal\<close> of the payload structs of internal/task/model.go, which the API applies to the
  payload it has decoded from a request; fields marked \<^verbatim>\<open>omitempty\<close> are left out when they are zero.
  What the executor decodes from the stored task is what the API decoded from the request.
\<close>

definition enc_str :: "string \<Rightarrow> string \<Rightarrow> (string \<times> json) list" where
  "enc_str k s = enc_opt k (s \<noteq> []) (JStr s)"

definition enc_int :: "string \<Rightarrow> int \<Rightarrow> (string \<times> json) list" where
  "enc_int k i = enc_opt k (i \<noteq> 0) (JInt i)"

definition encode_lan_payload :: "lan_payload \<Rightarrow> json" where
  "encode_lan_payload p = JObj
     ((''dhcp_enabled'', JBool (ln_DHCPEnabled p)) # enc_str ''ip_address'' (ln_IPAddress p)
      @ enc_str ''subnet_mask'' (ln_SubnetMask p) @ enc_str ''dhcp_start'' (ln_DHCPStart p)
      @ enc_str ''dhcp_end'' (ln_DHCPEnd p) @ enc_str ''dns_server'' (ln_DNSServer p)
      @ enc_int ''lease_time'' (ln_LeaseTime p))"

definition encode_firmware_payload :: "firmware_payload \<Rightarrow> json" where
  "encode_firmware_payload p = JObj
     ((''url'', JStr (fw_URL p)) # enc_str ''version'' (fw_Version p) @ enc_str ''file_type'' (fw_FileType p)
      @ enc_str ''username'' (fw_Username p) @ enc_str ''password'' (fw_Password p))"

definition encode_diagnostic_payload :: "diagnostic_payload \<Rightarrow> json" where
  "encode_diagnostic_payload p = JObj
     ([(''diag_type'', JStr (dg_DiagType p)), (''target'', JStr (dg_Target p))] @ enc_int ''count'' (dg_Count p))"

definition encode_ping_payload :: "ping_payload \<Rightarrow> json" where
  "encode_ping_payload p = JObj
     ((''host'', JStr (pg_Host p)) # enc_int ''count'' (pg_Count p) @ enc_int ''packet_size'' (pg_PacketSize p)
      @ enc_int ''timeout'' (pg_Timeout p) @ enc_int ''dscp'' (pg_DSCP p))"

definition encode_traceroute_payload :: "traceroute_payload \<Rightarrow> json" where
  "encode_traceroute_payload p = JObj
     ((''host'', JStr (tr_Host p)) # enc_int ''max_hops'' (tr_MaxHops p) @ enc_int ''timeout'' (tr_Timeout p)
      @ enc_int ''packet_size'' (tr_PacketSize p) @ enc_int ''dscp'' (tr_DSCP p))"

definition encode_speed_payload :: "speed_payload \<Rightarrow> json" where
  "encode_speed_payload p = JObj
     ((''download_url'', JStr (sd_DownloadURL p)) # enc_str ''upload_url'' (sd_UploadURL p)
      @ enc_int ''file_size'' (sd_FileSize p) @ enc_int ''dscp'' (sd_DSCP p))"

definition action_str :: "portfwd_action \<Rightarrow> string" where
  "action_str a = (case a of PFAdd \<Rightarrow> ''add'' | PFRemove \<Rightarrow> ''remove'' | PFList \<Rightarrow> ''list'' | PFOther s \<Rightarrow> s)"

definition encode_portfwd_payload :: "portfwd_payload \<Rightarrow> json" where
  "encode_portfwd_payload p = JObj
     ((''action'', JStr (action_str (pf_Action p))) # enc_str ''protocol'' (pf_Protocol p)
      @ enc_int ''external_port'' (pf_ExternalPort p) @ enc_str ''internal_ip'' (pf_InternalIP p)
      @ enc_int ''internal_port'' (pf_InternalPort p) @ enc_str ''description'' (pf_Description p)
      @ opt_bool ''enabled'' (pf_Enabled p) @ enc_int ''instance_number'' (pf_InstanceNumber p))"

subsection \<open>Facts\<close>

lemma payload_keys [simp]:
  "to_lower ''dhcp_enabled'' = ''dhcp_enabled''" "to_lower ''dhcp_start'' = ''dhcp_start''"
  "to_lower ''dhcp_end'' = ''dhcp_end''" "to_lower ''dns_server'' = ''dns_server''"
  "to_lower ''lease_time'' = ''lease_time''" "to_lower ''url'' = ''url''" "to_lower ''version'' = ''version''"
  "to_lower ''file_type'' = ''file_type''" "to_lower ''diag_type'' = ''diag_type''"
  "to_lower ''target'' = ''target''" "to_lower ''count'' = ''count''" "to_lower ''host'' = ''host''"
  "to_lower ''packet_size'' = ''packet_size''" "to_lower ''timeout'' = ''timeout''" "to_lower ''dscp'' = ''dscp''"
  "to_lower ''max_hops'' = ''max_hops''" "to_lower ''download_url'' = ''download_url''"
  "to_lower ''upload_url'' = ''upload_url''" "to_lower ''file_size'' = ''file_size''"
  "to_lower ''action'' = ''action''" "to_lower ''protocol'' = ''protocol''"
  "to_lower ''external_port'' = ''external_port''" "to_lower ''internal_ip'' = ''internal_ip''"
  "to_lower ''internal_port'' = ''internal_port''" "to_lower ''description'' = ''description''"
  "to_lower ''instance_number'' = ''instance_number''" "to_lower ''parameters'' = ''parameters''"
  by (simp_all add: to_lower_def lower_char_def)

text \<open>What a decoder keeps of every member holds of the decoded struct.\<close>

lemma dec_members_inv:
  assumes "dec_members f kvs x = Some y" and "P x"
    and "\<And>k v x y. f k v x = Some y \<Longrightarrow> P x \<Longrightarrow> P y"
  shows "P y"
  using assms(1,2)
proof (induction kvs arbitrary: x)
  case (Cons kv kvs)
  obtain k v where kv: "kv = (k, v)" by (cases kv)
  with Cons.prems obtain z where "f (to_lower k) v x = Some z" "dec_members f kvs z = Some y"
    by (auto split: option.splits)
  with Cons.IH Cons.prems(2) assms(3) show ?case by blast
qed simp

lemma unmarshal_inv:
  assumes "unmarshal f zero raw = Some y" and "P zero"
    and "\<And>k v x y. f k v x = Some y \<Longrightarrow> P x \<Longrightarrow> P y"
  shows "P y"
  using assms(1,2) dec_members_inv [OF _ _ assms(3)]
  by (auto simp: unmarshal_def dec_struct_def split: option.splits json.splits)

lemma int64_0 [simp]: "int64 0"
  by (simp add: int64_def min_int64_def max_int64_def)

lemma dec_members_omit [simp]:
  "dec_members f (enc_str k s) x = (if s = [] then Some x else f (to_lower k) (JStr s) x)"
  "dec_members f (enc_int k i) x = (if i = 0 then Some x else f (to_lower k) (JInt i) x)"
  by (simp_all add: enc_str_def enc_int_def)

named_theorems payload_defs \<open>decoders and encoders of payloads\<close>

lemmas [payload_defs] = dec_struct_def json_dec int64_def
  decode_wifi_payload_def wifi_payload_field_def zero_wifi_payload_def encode_wifi_payload_def
  decode_wan_payload_def wan_payload_field_def zero_wan_payload_def encode_wan_payload_def
  decode_lan_payload_def lan_payload_field_def zero_lan_payload_def encode_lan_payload_def
  decode_firmware_payload_def firmware_payload_field_def zero_firmware_payload_def encode_firmware_payload_def
  decode_diagnostic_payload_def diagnostic_payload_field_def zero_diagnostic_payload_def encode_diagnostic_payload_def
  decode_ping_payload_def ping_payload_field_def zero_ping_payload_def encode_ping_payload_def
  decode_traceroute_payload_def traceroute_payload_field_def zero_traceroute_payload_def encode_traceroute_payload_def
  decode_speed_payload_def speed_payload_field_def zero_speed_payload_def encode_speed_payload_def
  decode_portfwd_payload_def portfwd_payload_field_def zero_portfwd_payload_def encode_portfwd_payload_def

lemmas int64_bounds = int64_def min_int64_def max_int64_def

text \<open>The integers of a decoded payload fit in 64 bits.\<close>

lemma decoded_wifi: "decode_wifi_payload raw = Some p \<Longrightarrow> int64 (wf_Channel p)"
  unfolding decode_wifi_payload_def
  by (erule unmarshal_inv)
    (auto simp: wifi_payload_field_def zero_wifi_payload_def json_dec int64_bounds split: if_splits json.splits)

lemma decoded_wan: "decode_wan_payload raw = Some p \<Longrightarrow> int64 (wn_VLAN p) \<and> int64 (wn_MTU p)"
  unfolding decode_wan_payload_def
  by (erule unmarshal_inv)
    (auto simp: wan_payload_field_def zero_wan_payload_def json_dec int64_bounds split: if_splits json.splits)

lemma decoded_lan: "decode_lan_payload raw = Some p \<Longrightarrow> int64 (ln_LeaseTime p)"
  unfolding decode_lan_payload_def
  by (erule unmarshal_inv)
    (auto simp: lan_payload_field_def zero_lan_payload_def json_dec int64_bounds split: if_splits json.splits)

lemma decoded_diagnostic: "decode_diagnostic_payload raw = Some p \<Longrightarrow> int64 (dg_Count p)"
  unfolding decode_diagnostic_payload_def
  by (erule unmarshal_inv)
    (auto simp: diagnostic_payload_field_def zero_diagnostic_payload_def json_dec int64_bounds split: if_splits json.splits)

lemma decoded_ping: "decode_ping_payload raw = Some p \<Longrightarrow> int64 (pg_Count p) \<and> int64 (pg_PacketSize p) \<and> int64 (pg_Timeout p) \<and> int64 (pg_DSCP p)"
  unfolding decode_ping_payload_def
  by (erule unmarshal_inv)
    (auto simp: ping_payload_field_def zero_ping_payload_def json_dec int64_bounds split: if_splits json.splits)

lemma decoded_traceroute: "decode_traceroute_payload raw = Some p \<Longrightarrow> int64 (tr_MaxHops p) \<and> int64 (tr_Timeout p) \<and> int64 (tr_PacketSize p) \<and> int64 (tr_DSCP p)"
  unfolding decode_traceroute_payload_def
  by (erule unmarshal_inv)
    (auto simp: traceroute_payload_field_def zero_traceroute_payload_def json_dec int64_bounds split: if_splits json.splits)

lemma decoded_speed: "decode_speed_payload raw = Some p \<Longrightarrow> int64 (sd_FileSize p) \<and> int64 (sd_DSCP p)"
  unfolding decode_speed_payload_def
  by (erule unmarshal_inv)
    (auto simp: speed_payload_field_def zero_speed_payload_def json_dec int64_bounds split: if_splits json.splits)

lemma action_of_str [simp]: "action_of (action_str (action_of s)) = action_of s"
  by (simp add: action_of_def action_str_def)

lemma decoded_portfwd: "decode_portfwd_payload raw = Some p \<Longrightarrow>
     int64 (pf_ExternalPort p) \<and> int64 (pf_InternalPort p) \<and> int64 (pf_InstanceNumber p) \<and>
     action_of (action_str (pf_Action p)) = pf_Action p"
  unfolding decode_portfwd_payload_def
proof (erule unmarshal_inv)
  let ?P = "\<lambda>p. int64 (pf_ExternalPort p) \<and> int64 (pf_InternalPort p) \<and> int64 (pf_InstanceNumber p) \<and>
     action_of (action_str (pf_Action p)) = pf_Action p"
  show "?P zero_portfwd_payload" by (simp add: zero_portfwd_payload_def action_of_def action_str_def)
  show "?P y" if "portfwd_payload_field k v x = Some y" "?P x" for k v x y
    using that by (auto simp: portfwd_payload_field_def json_dec int64_def split: if_splits json.splits)
qed

lemma decoded_params:
  assumes "decode_set_params_payload raw = Some p"
  shows "wf_map (sp_Parameters p)"
proof -
  have "wf_map m'" if "dec_str_members kvs m = Some m'" "wf_map m" for kvs m m'
    using that by (induction kvs m rule: dec_str_members.induct) (auto split: json.splits)
  then show ?thesis
    using assms unfolding decode_set_params_payload_def
    by (elim unmarshal_inv) (auto simp: set_params_payload_field_def zero_set_params_payload_def dec_str_map_def wf_map_def
        split: if_splits json.splits)
qed

lemma mput_all_fresh:
  "wf_map (m @ ps) \<Longrightarrow> mput_all ps m = m @ ps"
proof (induction ps arbitrary: m)
  case (Cons kv ps)
  obtain k v where kv: "kv = (k, v)" by (cases kv)
  have "map_of m k = None" using Cons.prems by (auto simp: kv wf_map_def map_of_eq_None_iff)
  then show ?case using Cons by (simp add: kv mput_all_def mput_new)
qed simp

text \<open>What is decoded, stored and decoded again is the same payload.\<close>

lemma payload_stored:
  "decode_wifi_payload raw = Some p1 \<Longrightarrow> decode_wifi_payload (Some (encode_wifi_payload p1)) = Some p1"
  "decode_wan_payload raw = Some p2 \<Longrightarrow> decode_wan_payload (Some (encode_wan_payload p2)) = Some p2"
  using decoded_wifi decoded_wan wifi_payload_roundtrip wan_payload_roundtrip by blast+

lemma payload_stored_lan:
  "decode_lan_payload raw = Some p \<Longrightarrow> decode_lan_payload (Some (encode_lan_payload p)) = Some p"
  using decoded_lan [of raw p] by (cases p) (auto simp: payload_defs)

lemma payload_stored_diagnostic:
  "decode_diagnostic_payload raw = Some p \<Longrightarrow> decode_diagnostic_payload (Some (encode_diagnostic_payload p)) = Some p"
  using decoded_diagnostic [of raw p] by (cases p) (auto simp: payload_defs)

lemma payload_stored_ping:
  "decode_ping_payload raw = Some p \<Longrightarrow> decode_ping_payload (Some (encode_ping_payload p)) = Some p"
  using decoded_ping [of raw p] by (cases p) (auto simp: payload_defs)

lemma payload_stored_traceroute:
  "decode_traceroute_payload raw = Some p \<Longrightarrow> decode_traceroute_payload (Some (encode_traceroute_payload p)) = Some p"
  using decoded_traceroute [of raw p] by (cases p) (auto simp: payload_defs)

lemma payload_stored_speed:
  "decode_speed_payload raw = Some p \<Longrightarrow> decode_speed_payload (Some (encode_speed_payload p)) = Some p"
  using decoded_speed [of raw p] by (cases p) (auto simp: payload_defs)

lemma payload_stored_portfwd:
  "decode_portfwd_payload raw = Some p \<Longrightarrow> decode_portfwd_payload (Some (encode_portfwd_payload p)) = Some p"
  using decoded_portfwd [of raw p] by (cases p; cases "pf_Enabled p") (auto simp: payload_defs)

lemma payload_stored_firmware:
  "decode_firmware_payload (Some (encode_firmware_payload p)) = Some p"
  by (cases p) (auto simp: payload_defs)

lemma payload_stored_set_params:
  "decode_set_params_payload raw = Some p \<Longrightarrow>
     decode_set_params_payload (Some (encode_set_params (sp_Parameters p))) = Some p"
  using decoded_params [of raw p] mput_all_fresh [of "[]" "sp_Parameters p"]
  by (cases p) (simp add: decode_set_params_payload_def dec_struct_def encode_set_params_def set_params_payload_field_def
      zero_set_params_payload_def dec_str_map_def enc_params_def dec_str_members_strings)

end
