(* ===== verification/Task_Life.thy ===== *)
theory Task_Life
  imports Server
begin

section \<open>The life of one task in a session\<close>

text \<open>
  One task is followed from the pending list of a session to its end, whatever else the session does:
  it waits, it is in flight, or it has ended in the queue. The session may go through a summon
  (internal/cwmp/session.go: \<^verbatim>\<open>sendTargetedSummon\<close>, \<^verbatim>\<open>finishSummon\<close>), hold synthetic tasks, and
  the device may refuse the request of any task with a fault.
\<close>

subsection \<open>Where a task is\<close>

text \<open>The task with the id is pending once, and it is one that the queue knows.\<close>

fun waits :: "string \<Rightarrow> task list \<Rightarrow> bool" where
  "waits i [] = False"
| "waits i (t # ts) =
     (if t_ID t = i then wf_task t \<and> t_Type t \<noteq> TypeGetDiagResult \<and> i \<notin> t_ID ` set ts else waits i ts)"

text \<open>Before the next dispatch: the task waits, or it has ended.\<close>

definition idle :: "string \<Rightarrow> session \<Rightarrow> world \<Rightarrow> bool" where
  "idle i s w \<longleftrightarrow> rd_faults (w_queue w) = [] \<and>
     (waits i (se_pendingTasks s) \<or> (i \<notin> t_ID ` set (se_pendingTasks s) \<and> ended (w_queue w) i))"

text \<open>While a request is outstanding: the task is in flight, or another one is.\<close>

definition own_task :: "string \<Rightarrow> session \<Rightarrow> world \<Rightarrow> task \<Rightarrow> bool" where
  "own_task i s w c \<longleftrightarrow> rd_faults (w_queue w) = [] \<and> t_ID c = i \<and> wf_task c \<and> t_Type c \<noteq> TypeGetDiagResult \<and>
     t_Status c = StatusExecuting \<and> i \<notin> t_ID ` set (se_pendingTasks s) \<and> lookup_task (w_queue w) i = Some (stored_task c)"

definition in_flight_or_idle :: "string \<Rightarrow> session \<Rightarrow> world \<Rightarrow> bool" where
  "in_flight_or_idle i s w \<longleftrightarrow>
     (case se_currentTask s of
        Some c \<Rightarrow> if t_ID c = i then own_task i s w c else idle i s w
      | None \<Rightarrow> idle i s w)"

definition summon_request :: "int \<Rightarrow> envelope \<Rightarrow> bool" where
  "summon_request p x \<longleftrightarrow>
     (case snd x of
        BGetParameterNames _ _ \<Rightarrow> p = 1
      | BGetParameterValues _ \<Rightarrow> p = 2 \<or> p = 4
      | _ \<Rightarrow> False)"

definition outstanding :: "string \<Rightarrow> envelope \<Rightarrow> session \<Rightarrow> world \<Rightarrow> bool" where
  "outstanding i x s w \<longleftrightarrow>
     (if se_summonPhase s = 0 then task_request x \<and> in_flight_or_idle i s w
      else summon_request (se_summonPhase s) x \<and> idle i s w)"

text \<open>What is known of the task after each reply.\<close>

definition pursued :: "string \<Rightarrow> reply \<times> session \<times> world \<Rightarrow> bool" where
  "pursued i r \<longleftrightarrow>
     (case r of (rep, s, w) \<Rightarrow>
        (case rep of
           RXml x \<Rightarrow> outstanding i x s w
         | RNoContent \<Rightarrow> ended (w_queue w) i
         | RPanic \<Rightarrow> True
         | _ \<Rightarrow> False))"

lemma pursued_simps [simp]:
  "pursued i (RXml x, s, w) = outstanding i x s w"
  "pursued i (RNoContent, s, w) = ended (w_queue w) i"
  "pursued i (RPanic, s, w)"
  by (simp_all add: pursued_def)

subsection \<open>Facts: updates of the queue\<close>

lemma queue_update_any:
  assumes "rd_faults (w_queue w) = []"
  shows "fst (queue_update e t w)" "rd_faults (w_queue (snd (queue_update e t w))) = []"
    "i \<noteq> t_ID t \<Longrightarrow> lookup_task (w_queue (snd (queue_update e t w))) i = lookup_task (w_queue w) i"
  using UpdateStatus_up [OF assms, of "e_queue e" t]
  by (auto simp: queue_update_def lookup_task_def split: prod.splits)

lemma ended_update:
  assumes "rd_faults (w_queue w) = []" and "i \<noteq> t_ID u \<Longrightarrow> ended (w_queue w) i"
    and "t_ID u = i \<Longrightarrow> wf_task u \<and> terminal (t_Status u)"
  shows "ended (w_queue (snd (queue_update e u w))) i"
  using queue_update_any(3) [OF assms(1)] queue_update_up(3) [OF assms(1)] assms(2,3)
  by (cases "t_ID u = i") (auto simp: ended_def)

lemma idle_update:
  assumes "idle i s w" and "t_ID u = i \<Longrightarrow> wf_task u \<and> terminal (t_Status u)"
  shows "idle i s (snd (queue_update e u w))"
  using assms ended_update [of w i u e] queue_update_any(2) [of w e u] by (auto simp: idle_def)

lemma completed:
  assumes "in_flight_or_idle i s w" and "se_currentTask s = Some c"
    and "t_ID u = t_ID c" "wf_task c \<Longrightarrow> wf_task u" "terminal (t_Status u)"
  shows "idle i s (snd (queue_update e u w))"
proof (cases "t_ID c = i")
  case True
  then have "own_task i s w c" using assms by (simp add: in_flight_or_idle_def)
  then show ?thesis
    using assms(3-5) True ended_update [of w i u e] queue_update_any(2) [of w e u]
    by (auto simp: own_task_def idle_def)
next
  case False
  then show ?thesis using assms by (intro idle_update) (auto simp: in_flight_or_idle_def)
qed

text \<open>What the handlers touch besides.\<close>

lemma idle_upd [simp]:
  "idle i (s\<lparr>se_currentTask := c\<rparr>) w = idle i s w"
  "idle i (s\<lparr>se_wanProvision := wp\<rparr>) w = idle i s w"
  "idle i (s\<lparr>se_addObjFollowUp := f\<rparr>) w = idle i s w"
  "idle i (s\<lparr>se_lastSetParams := ps\<rparr>) w = idle i s w"
  "idle i (s\<lparr>se_pendingWANCredentials := ps\<rparr>) w = idle i s w"
  "idle i (s\<lparr>se_pendingProvisionMark := b\<rparr>) w = idle i s w"
  "idle i (s\<lparr>se_needsGlobalDefaults := b\<rparr>) w = idle i s w"
  "idle i (s\<lparr>se_summonPhase := p\<rparr>) w = idle i s w"
  "idle i (s\<lparr>se_summonMode := m\<rparr>) w = idle i s w"
  "idle i (s\<lparr>se_summonTargetPaths := ns\<rparr>) w = idle i s w"
  "idle i (s\<lparr>se_summonAllNames := ns\<rparr>) w = idle i s w"
  "idle i (s\<lparr>se_summonAllParams := ps\<rparr>) w = idle i s w"
  "idle i (s\<lparr>se_summonBatchIdx := k\<rparr>) w = idle i s w"
  "idle i (s\<lparr>se_mapper := mm\<rparr>) w = idle i s w"
  "idle i (s\<lparr>se_instanceMap := im\<rparr>) w = idle i s w"
  "idle i s (w\<lparr>w_lastSummon := l\<rparr>) = idle i s w"
  "idle i s (w\<lparr>w_repo := p'\<rparr>) = idle i s w"
  "idle i s (w\<lparr>w_devices := d\<rparr>) = idle i s w"
  by (simp_all add: idle_def)

lemma idle_stores [simp]:
  "idle i s (store_params e serial ps w) = idle i s w"
  "idle i s (update_info e serial u w) = idle i s w"
  "idle i s (persistWANCredentials e serial ps w) = idle i s w"
  by (simp_all add: store_params_def update_info_def persistWANCredentials_def)

lemma in_flight_upd [simp]:
  "in_flight_or_idle i (s\<lparr>se_wanProvision := wp\<rparr>) w = in_flight_or_idle i s w"
  "in_flight_or_idle i (s\<lparr>se_addObjFollowUp := f\<rparr>) w = in_flight_or_idle i s w"
  "in_flight_or_idle i (s\<lparr>se_lastSetParams := ps\<rparr>) w = in_flight_or_idle i s w"
  "in_flight_or_idle i (s\<lparr>se_pendingWANCredentials := ps\<rparr>) w = in_flight_or_idle i s w"
  "in_flight_or_idle i (s\<lparr>se_pendingProvisionMark := b\<rparr>) w = in_flight_or_idle i s w"
  "in_flight_or_idle i s (w\<lparr>w_lastSummon := l\<rparr>) = in_flight_or_idle i s w"
  "in_flight_or_idle i s (store_params e serial ps w) = in_flight_or_idle i s w"
  "in_flight_or_idle i s (persistWANCredentials e serial ps w) = in_flight_or_idle i s w"
  by (simp_all add: in_flight_or_idle_def own_task_def store_params_def persistWANCredentials_def split: option.splits)

lemma started_sel [simp]:
  "t_ID (started_task now t) = t_ID t" "t_Type (started_task now t) = t_Type t"
  "t_Status (started_task now t) = StatusExecuting"
  by (simp_all add: started_task_def)

subsection \<open>Facts: dispatching keeps track of the task\<close>

lemma dispatch_pursues:
  "rd_faults (w_queue w) = [] \<Longrightarrow> se_summonPhase s = 0 \<Longrightarrow>
     waits i (t # se_pendingTasks s) \<or> (i \<notin> t_ID ` set (t # se_pendingTasks s) \<and> ended (w_queue w) i) \<Longrightarrow>
     pursued i (dispatchTask e t s w)"
  "idle i s' w' \<Longrightarrow> se_summonPhase s' = 0 \<Longrightarrow> pursued i (dispatchNextOrClose e s' w')"
proof (induction e t s w and e s' w' rule: dispatchTask_dispatchNextOrClose.induct)
  case (1 e t0 s0 w0)
  note up = 1(3) and phase = 1(4) and where_is = 1(5)
  obtain t ok w1 where mark: "mark_executing e t0 w0 = ((t, ok), w1)" by (metis prod.exhaust)
  have t: "t_ID t = t_ID t0" "t_Type t = t_Type t0" using mark_executing_task [OF mark] by auto
  have up1: "ok" "rd_faults (w_queue w1) = []"
    and other: "i \<noteq> t_ID t0 \<Longrightarrow> lookup_task (w_queue w1) i = lookup_task (w_queue w0) i"
    using mark up queue_update_any [OF up, where e = e and t = "started_task (e_now e) t0"]
    by (auto simp: mark_executing_def Let_def split: if_splits prod.splits)
  let ?w = "w1\<lparr>w_jobs := w_jobs w1 @ task_jobs t s0\<rparr>"
  obtain res s where exec: "executeTask e t s0 = (res, s)" by fastforce
  have keep: "se_pendingTasks s = se_pendingTasks s0" "se_summonPhase s = 0"
    using exec_frame_sel [OF executeTask_frame [of s0 e t], unfolded exec snd_conv] phase by auto
  have post: "exec_post t s0 (res, s)" using executeTask_post [of t s0 e] exec by simp
  have mine: "own_task i s ?w t" "wf_task t" if "t_ID t0 = i"
  proof -
    from that where_is have wf: "wf_task t0" "t_Type t0 \<noteq> TypeGetDiagResult" "i \<notin> t_ID ` set (se_pendingTasks s0)" by auto
    then have "t = started_task (e_now e) t0" "w1 = snd (queue_update e (started_task (e_now e) t0) w0)"
      using mark mark_executing_eq [OF up wf(1,2), of e] by auto
    with wf up1 that keep queue_update_up(3) [OF up wf_started [OF wf(1)]]
    show "own_task i s ?w t" "wf_task t" by (auto simp: own_task_def)
  qed
  have rest: "idle i s ?w" if "t_ID t0 \<noteq> i"
    using that where_is other up1 keep by (auto simp: idle_def ended_def)
  show ?case
  proof (cases res)
    case (ExError err)
    let ?w2 = "mark_build_failed e t err ?w"
    have "idle i s ?w2"
    proof (cases "t_ID t0 = i")
      case True
      have "t_Type t \<noteq> TypeGetDiagResult" using mine(1) [OF True] by (simp add: own_task_def)
      moreover have "in_flight_or_idle i (s\<lparr>se_currentTask := Some t\<rparr>) ?w"
        using mine(1) [OF True] t True by (simp add: in_flight_or_idle_def own_task_def)
      ultimately show ?thesis
        using completed [of i "s\<lparr>se_currentTask := Some t\<rparr>" ?w t
            "t\<lparr>t_Status := StatusFailed, t_CompletedAt := Some (e_now e), t_Error := err\<rparr>" e]
        by (simp add: mark_build_failed_def)
    next
      case False
      then show ?thesis using rest t by (auto simp: mark_build_failed_def intro: idle_update)
    qed
    then have "pursued i (dispatchNextOrClose e s ?w2)"
      using 1(2) [OF mark [symmetric] refl _ refl exec [symmetric]] ExError up1 keep by simp
    then show ?thesis using up1 ExError by (simp add: dispatchTask.simps mark exec)
  qed (use up1 keep post mine rest t in \<open>auto simp: dispatchTask.simps mark exec exec_post_def outstanding_def
        in_flight_or_idle_def own_task_def\<close>)
next
  case (2 e s w)
  then show ?case
    by (cases "se_pendingTasks s") (auto simp: dispatchNextOrClose.simps idle_def)
qed


subsection \<open>Facts: the answers of the device\<close>

lemma response_pursues:
  assumes "in_flight_or_idle i s w" and "se_summonPhase s = 0"
  shows "pursued i (handleTaskResponse e res err s w)"
proof (cases "se_currentTask s")
  case None
  then show ?thesis
    using assms by (simp add: handleTaskResponse_def in_flight_or_idle_def dispatch_pursues(2))
next
  case (Some c)
  have "idle i (s\<lparr>se_currentTask := None\<rparr>) (completeTask e c res err w1)"
    if "in_flight_or_idle i s w1" for w1
    using completed [OF that Some, of "finished_task (e_now e) res err c" e] by (simp add: completeTask_def)
  moreover have "in_flight_or_idle i s (w\<lparr>w_lastSummon := l\<rparr>)" for l using assms(1) by simp
  ultimately show ?thesis
    using assms by (simp add: handleTaskResponse_def Some Let_def dispatch_pursues(2))
qed

lemma provision_pursues:
  assumes "in_flight_or_idle i s w" and "se_summonPhase s = 0" and "f = Pair \<or> f = take_credentials e"
    and "\<And>x. fst r = Inr (Some x) \<Longrightarrow> task_request x"
  shows "pursued i (provision_answer e r f s w)"
proof (cases "fst r")
  case (Inl err)
  then show ?thesis
    using assms(1,2) by (auto simp: provision_answer_def intro!: response_pursues split: prod.splits)
next
  case (Inr y)
  then show ?thesis
    using assms
    by (cases y) (auto simp: provision_answer_def take_credentials_def outstanding_def
      intro!: response_pursues split: prod.splits)
qed

lemma set_pursues:
  assumes "in_flight_or_idle i s w" and "se_summonPhase s = 0"
  shows "pursued i (handleSetParamValuesResponse e s w)"
proof (cases "se_wanProvision s")
  case (Some wp)
  then show ?thesis
    using assms provision_step_less(1) [of "onSetParams (e_rpc e) wp" _ 0 wp]
    by (auto simp: handleSetParamValuesResponse_def intro!: provision_pursues)
next
  case None
  have "pursued i (dispatchNextOrClose e (s\<lparr>se_currentTask := None\<rparr>) w)"
    if "se_currentTask s = Some c" "IsDiagnosticAsync (t_Type c)" for c
  proof -
    have "idle i s w"
      using assms(1) that
      by (auto simp: in_flight_or_idle_def own_task_def idle_def ended_def stored_task_def split: if_splits)
    then show ?thesis using assms(2) by (simp add: dispatch_pursues(2))
  qed
  then show ?thesis
    using None assms
    by (auto simp: handleSetParamValuesResponse_def set_params_done_def Let_def intro!: response_pursues
        split: option.splits)
qed

lemma add_pursues:
  assumes "in_flight_or_idle i s w" and "se_summonPhase s = 0"
  shows "pursued i (handleAddObjectResponse e n s w)"
  using assms provision_step_less(1) [of "onAddObject (e_rpc e) n _" "e_rpc e" n]
  by (auto simp: handleAddObjectResponse_def Let_def call_follow_up_def outstanding_def
      intro!: provision_pursues response_pursues split: option.splits)

lemma delete_pursues:
  assumes "in_flight_or_idle i s w" and "se_summonPhase s = 0"
  shows "pursued i (handleDeleteObjectResponse e s w)"
  using assms provision_step_less(1) [of "onDeleteObject (e_rpc e) _" "e_rpc e" 0]
  by (auto simp: handleDeleteObjectResponse_def intro!: provision_pursues response_pursues split: option.splits)

text \<open>The answer with values: also the collection of another task's result leaves the task where it is.\<close>

lemma GetByID_up:
  assumes "rd_faults q = []"
  shows "snd (GetByID k q) = q" "fst (GetByID k q) = Inr t \<Longrightarrow> wf_task t"
proof -
  show "snd (GetByID k q) = q" using fetchTask_up [OF assms] by (simp add: GetByID_def)
  assume "fst (GetByID k q) = Inr t"
  then have "lookup_task q k = Some t" by (simp add: GetByID_def fetchTask_Inr_up [OF assms])
  then show "wf_task t"
    by (auto simp: lookup_task_def decode_task_def dec_struct_def wf_task_zero
        split: option.splits json.splits intro: dec_members_typed [OF _ wf_task_zero])
qed

lemma finish_get_idle:
  assumes "in_flight_or_idle i s w" and "se_currentTask s = Some c" and "finish_get e c ps m d w = Some w'"
  shows "idle i s w'"
proof (cases "t_Type c = TypeGetDiagResult")
  case True
  then have idle: "idle i s w"
    using assms(1,2) by (auto simp: in_flight_or_idle_def own_task_def split: if_splits)
  then have up: "rd_faults (w_queue w) = []" by (simp add: idle_def)
  have "idle i s (snd (queue_update e (done_task (e_now e) result orig) w))" if "wf_task orig" for orig result
    using idle that by (intro idle_update) simp_all
  then have "idle i s (complete_with e orig result (w\<lparr>w_queue := snd (GetByID k (w_queue w))\<rparr>))"
    if "fst (GetByID k (w_queue w)) = Inr orig" for orig result k
    using GetByID_up [OF up, of k] that by (simp add: complete_with_def)
  then have "idle i s (complete_with e orig result (w\<lparr>w_queue := q\<rparr>))"
    if "GetByID k (w_queue w) = (Inr orig, q)" for orig result k q
    using that by (metis fst_conv snd_conv)
  moreover have "idle i s (w\<lparr>w_queue := q\<rparr>)" if "GetByID k (w_queue w) = (x, q)" for x k q
    using that idle GetByID_up(1) [OF up, of k] by simp
  moreover have "collect_diagnostic e c ps m w = Some w'" using assms(3) True by (simp add: finish_get_def)
  ultimately show ?thesis
    using idle
    by (auto simp: collect_diagnostic_def persistDiagToDevice_def bind_eq_Some_conv
        split: option.splits prod.splits sum.splits if_splits)
next
  case False
  have "idle i s (completeTask e c res err w)" "idle i s (complete_with e c j w)" for res err j
    using completed [OF assms(1,2)] by (simp_all add: completeTask_def complete_with_def)
  then show ?thesis
    using assms(3) False by (auto simp: finish_get_def bind_eq_Some_conv split: if_splits)
qed


subsection \<open>Facts: summons leave the task where it is\<close>

text \<open>The ids the summon gives to the tasks it puts in front; the ids of the API are UUIDs.\<close>

definition own_id :: "string \<Rightarrow> bool" where
  "own_id i \<longleftrightarrow> \<not> has_prefix i ''default_params_'' \<and> \<not> has_prefix i ''global_defaults_''"

lemma synthetic_id [simp]: "t_ID (synthetic_set i serial ps) = i"
  by (simp add: synthetic_set_def)

lemma own_id_other [simp]: "own_id i \<Longrightarrow> i \<noteq> ''default_params_'' @ serial" "own_id i \<Longrightarrow> i \<noteq> ''global_defaults_'' @ serial"
  by (auto simp: own_id_def has_prefix_def)

lemma idle_in_front [simp]:
  "t_ID t \<noteq> i \<Longrightarrow> idle i (s\<lparr>se_pendingTasks := t # se_pendingTasks s\<rparr>) w = idle i s w"
  by (auto simp: idle_def)

lemma inject_idle:
  assumes "own_id i" and "idle i s w"
  shows "idle i (injectDefaultParamTask serial d cur s) w"
    "injectGlobalDefaultParams e serial cur s w = (s', w') \<Longrightarrow> idle i s' w'"
proof -
  have other: "t_ID (synthetic_set (''default_params_'' @ serial) serial ps) \<noteq> i"
    "t_ID (synthetic_set (''global_defaults_'' @ serial) serial ps) \<noteq> i" for ps
    using own_id_other [OF assms(1), of serial] by auto
  show "idle i (injectDefaultParamTask serial d cur s) w"
    using assms(2) other by (simp add: injectDefaultParamTask_def Let_def)
  have front: "idle i (s\<lparr>se_pendingTasks := synthetic_set (''global_defaults_'' @ serial) serial ps # se_pendingTasks s,
      se_pendingProvisionMark := a, se_needsGlobalDefaults := b\<rparr>) (w\<lparr>w_repo := r\<rparr>)" for ps a b r
    using assms(2) other by simp
  show "idle i s' w'" if "injectGlobalDefaultParams e serial cur s w = (s', w')"
    using that assms(2) front
    by (auto simp: injectGlobalDefaultParams_def Let_def split: if_splits sum.splits prod.splits)
qed

text \<open>The end of a summon: the mapper is rebuilt, tasks may be put in front, the next one is sent.\<close>

lemma after_summon:
  assumes "own_id i" and "idle i s w" and "se_summonPhase s = 0"
    and "injectGlobalDefaultParams e serial cur (injectDefaultParamTask serial' d cur' s) w = (s', w')"
  shows "pursued i (dispatchNextOrClose e s' w')"
proof (rule dispatch_pursues(2))
  show "idle i s' w'" using inject_idle(2) [OF assms(1) inject_idle(1) [OF assms(1,2)] assms(4)] .
  have "se_summonPhase s' = se_summonPhase (fst (injectGlobalDefaultParams e serial cur (injectDefaultParamTask serial' d cur' s) w))"
    using assms(4) by simp
  then show "se_summonPhase s' = 0" using assms(3) by (simp only: inject_phase)
qed

lemma rebuild_idle: "rebuild_mapper e n ps s = Some s' \<Longrightarrow> idle i s' w = idle i s w"
  by (auto simp: rebuild_mapper_def)

lemma finishSummon_pursues:
  assumes "own_id i" and "idle i s w"
  shows "pursued i (finishSummon e s w)"
proof -
  let ?s1 = "s\<lparr>se_summonPhase := 0, se_summonAllNames := [], se_summonAllParams := []\<rparr>"
  have "pursued i (dispatchNextOrClose e s4 w2)"
    if "rebuild_mapper e n ps ?s1 = Some s2"
      "injectGlobalDefaultParams e serial cur (injectDefaultParamTask serial' d cur' s2) w1 = (s4, w2)"
      "idle i s w1" for n ps s2 serial cur serial' d cur' w1 s4 w2
    using after_summon [OF assms(1) _ _ that(2)] rebuild_idle [OF that(1)] rebuild_phase [OF that(1)] that(3) by simp
  moreover have "idle i s (update_info e serial u (store_params e serial ps (w\<lparr>w_devices := d\<rparr>)))" for serial u ps d
    using assms(2) by simp
  ultimately show ?thesis
    by (simp add: finishSummon_def Let_def split: option.splits prod.splits)
qed

lemma targeted_pursues:
  assumes "own_id i" and "idle i s w"
  shows "pursued i (handleTargetedSummonResponse e ps s w)"
proof -
  let ?s1 = "s\<lparr>se_summonPhase := 0, se_summonMode := [], se_summonTargetPaths := []\<rparr>"
  have "pursued i (dispatchNextOrClose e s4 w2)"
    if "rebuild_mapper e n ps ?s1 = Some s2"
      "injectGlobalDefaultParams e serial cur (injectDefaultParamTask serial' d cur' s2) w1 = (s4, w2)"
      "idle i s w1" for n ps s2 serial cur serial' d cur' w1 s4 w2
    using after_summon [OF assms(1) _ _ that(2)] rebuild_idle [OF that(1)] rebuild_phase [OF that(1)] that(3) by simp
  moreover have "pursued i (dispatchNextOrClose e s2 w)" if "rebuild_mapper e n ps ?s1 = Some s2" for n ps s2
    using dispatch_pursues(2) rebuild_idle [OF that] rebuild_phase [OF that] assms(2) by simp
  moreover have "idle i s (update_info e serial u (store_params e serial ps (w\<lparr>w_devices := d\<rparr>)))" for serial u ps d
    using assms(2) by simp
  ultimately show ?thesis
    by (simp add: handleTargetedSummonResponse_def Let_def split: option.splits prod.splits)
qed

lemma next_batch_pursues:
  assumes "own_id i" and "idle i s w" and "se_summonPhase s = 2"
  shows "pursued i (sendNextSummonBatch e s w)"
  using assms finishSummon_pursues
  by (simp add: sendNextSummonBatch_def Let_def outstanding_def summon_request_def BuildGetParameterValues_def)

lemma names_pursues:
  assumes "own_id i" and "idle i s w"
  shows "pursued i (handleGetParameterNamesResponse e infos s w)"
  using assms by (simp add: handleGetParameterNamesResponse_def Let_def next_batch_pursues dispatch_pursues(2))

lemma get_pursues:
  assumes "own_id i" and "outstanding i (j, BGetParameterValues ns) s w"
  shows "pursued i (handleGetParamValuesResponse e pvs s w)"
proof (cases "se_summonPhase s = 0")
  case True
  then have f: "in_flight_or_idle i s w" using assms(2) by (simp add: outstanding_def)
  have "idle i s w" if "se_currentTask s = None"
    using f that by (simp add: in_flight_or_idle_def)
  then show ?thesis
    using True finish_get_idle [OF f]
    by (auto simp: handleGetParamValuesResponse_def Let_def intro!: dispatch_pursues(2) split: option.splits)
next
  case False
  then show ?thesis
    using assms
    by (auto simp: outstanding_def summon_request_def handleGetParamValuesResponse_def accumulate_batch_def Let_def
        intro!: next_batch_pursues targeted_pursues)
qed

subsection \<open>A device that may refuse\<close>

text \<open>
  A device that answers the requests of a summon and carries out the request of a task or refuses it
  with a fault.
\<close>

record reaction = device_answer +
  rc_fault :: "soap_fault option"

definition react :: "reaction \<Rightarrow> reply \<times> session \<times> world \<Rightarrow> reply \<times> session \<times> world" where
  "react a r =
     (case r of (rep, s, w) \<Rightarrow>
        (case rep of
           RXml x \<Rightarrow>
             (case rc_fault a of
                Some f \<Rightarrow> if se_summonPhase s = 0 then handleFault (an_env a) f s w
                          else answer (device_answer.truncate a) r
              | None \<Rightarrow> answer (device_answer.truncate a) r)
         | _ \<Rightarrow> r))"

definition dialogue :: "reaction list \<Rightarrow> reply \<times> session \<times> world \<Rightarrow> reply \<times> session \<times> world" where
  "dialogue as r = fold react as r"

lemma answer_pursues:
  assumes "own_id i" and "pursued i r"
  shows "pursued i (answer a r)"
proof (cases "closed r")
  case True
  then show ?thesis using assms by (simp add: answer_closed)
next
  case False
  then obtain j body s w where r: "r = (RXml (j, body), s, w)"
    by (cases r) (auto simp: closed_def split: reply.splits)
  have out: "outstanding i (j, body) s w" using assms(2) by (simp add: r)
  have idle: "in_flight_or_idle i s w \<and> se_summonPhase s = 0"
    if "\<forall>p b. body \<noteq> BGetParameterNames p b" "\<forall>ns. body \<noteq> BGetParameterValues ns"
    using out that by (auto simp: outstanding_def summon_request_def split: acs_body.splits if_splits)
  show ?thesis
  proof (cases body)
    case (BGetParameterNames p b)
    then show ?thesis
      using out assms(1)
      by (simp add: r answer_def answer_body_def outstanding_def task_request_def names_pursues split: if_splits)
  next
    case (BGetParameterValues ns)
    then show ?thesis using out get_pursues [OF assms(1)] by (simp add: r answer_def answer_body_def)
  qed (use idle in \<open>auto simp: r answer_def answer_body_def Let_def handleDownloadResponse_def
        intro: set_pursues add_pursues delete_pursues response_pursues\<close>)
qed

lemma fault_pursues:
  assumes "outstanding i x s w" and "se_summonPhase s = 0"
  shows "pursued i (handleFault e f s w)"
  using assms by (auto simp: handleFault_def outstanding_def intro!: response_pursues split: prod.splits)

lemma react_pursues:
  assumes "own_id i" and "pursued i r"
  shows "pursued i (react a r)"
proof -
  obtain rep s w where r: "r = (rep, s, w)" by (metis prod.exhaust)
  show ?thesis
    using assms(2) answer_pursues [OF assms] fault_pursues
    by (auto simp: react_def r split: reply.splits option.splits)
qed

lemma dialogue_pursues: "own_id i \<Longrightarrow> pursued i r \<Longrightarrow> pursued i (dialogue as r)"
  unfolding dialogue_def by (induction as arbitrary: r) (simp_all add: react_pursues)

lemma react_closed: "closed r \<Longrightarrow> react a r = r"
  by (auto simp: react_def closed_def split: prod.splits reply.splits)

lemma react_moves_on: "\<not> closed r \<Longrightarrow> moved_on (react a r) r"
proof -
  assume o: "\<not> closed r"
  then obtain x s w where r: "r = (RXml x, s, w)" by (cases r) (auto simp: closed_def split: reply.splits)
  have "moved_on (handleFault (an_env a) f s w) (RXml x, s, w)" for f
    by (auto simp: handleFault_def intro!: task_response_moves_on split: prod.splits)
  then show ?thesis using answer_moves_on [OF o] by (simp add: react_def r split: option.splits)
qed


lemma dialogue_ends: "\<exists>n. closed (dialogue (map as [0..<n]) r)"
  unfolding dialogue_def using react_closed react_moves_on by (rule rounds_close)

text \<open>What becomes of a task whose session can start: it is pending once and nothing is in flight.\<close>

lemma resume_pursues:
  assumes "idle i s w"
    and "se_summonPhase s = 1 \<or> se_summonPhase s = 3 \<or>
      (se_summonPhase s = 0 \<and> se_wanProvision s = None \<and> se_currentTask s = None)"
  shows "pursued i (resume_session e s w)"
proof -
  have "idle i s w" "rd_faults (w_queue w) = []" using assms(1) by (simp_all add: idle_def)
  then show ?thesis
    using assms(2)
    by (auto simp: resume_session_def sendGetParameterNamesSummon_def sendTargetedSummon_def Let_def outstanding_def
        summon_request_def BuildGetParameterNames_def BuildGetParameterValues_def idle_def
        intro!: dispatch_pursues(1) split: option.splits list.splits)
qed

lemma pursued_end:
  assumes "own_id i" and "pursued i r"
  shows "\<exists>n. case dialogue (map as [0..<n]) r of (rep, s, w) \<Rightarrow> rep = RPanic \<or> (rep = RNoContent \<and> ended (w_queue w) i)"
proof -
  obtain n where n: "closed (dialogue (map as [0..<n]) r)" using dialogue_ends by blast
  obtain rep s w where r: "dialogue (map as [0..<n]) r = (rep, s, w)" by (metis prod.exhaust)
  have "rep = RPanic \<or> (rep = RNoContent \<and> ended (w_queue w) i)"
    using dialogue_pursues [OF assms, of "map as [0..<n]"] n
    by (auto simp: r closed_def pursued_def split: reply.splits)
  then show ?thesis by (intro exI [of _ n]) (simp add: r)
qed



definition ex_reaction :: reaction where
  "ex_reaction = \<lparr> an_env = ex_env, an_instance = 3, an_values = [], an_names = [],
     rc_fault = Some \<lparr> sf_FaultCode = ''Client'', sf_FaultString = ''CWMP fault'', sf_CWMPCode = ''9001'',
       sf_CWMPString = ''Request denied'' \<rparr> \<rparr>"


text \<open>
  A device that refuses the request of a summon is another matter: the fault leaves the phase of the
  summon in place, and the values it then sends for a get_parameters task are taken for those of the
  summon. The session closes, and the task is executing in the queue for ever.
\<close>

lemma summon_fault_strands_task:
  assumes "rd_faults (w_queue w) = []" and "se_summonPhase s = 4" and "se_summonMode s \<noteq> ''ui_refresh''"
    and "se_currentTask s = None" and "se_pendingTasks s = [t]" and "wf_task t" and "t_Type t = TypeGetParams"
    and "decode_get_params_payload (t_Payload t) = Some p" and "gp_Names p \<noteq> []"
  shows "case handleFault e f s w of (rep, s', w') \<Rightarrow>
     rep = RXml (t_ID t, BGetParameterValues (gp_Names p)) \<and>
     (case handleGetParamValuesResponse e pvs s' w' of (rep2, s2, w2) \<Rightarrow>
        rep2 = RPanic \<or> (rep2 = RNoContent \<and>
          (\<exists>u. lookup_task (w_queue w2) (t_ID t) = Some u \<and> t_Status u = StatusExecuting)))"
proof -
  let ?s = "s\<lparr>se_wanProvision := None, se_addObjFollowUp := None, se_currentTask := None\<rparr>"
  let ?t = "started_task (e_now e) t"
  let ?w = "snd (queue_update e ?t w)"
  have "executeTask e ?t (?s\<lparr>se_pendingTasks := []\<rparr>) =
      (ExSend (t_ID t, BGetParameterValues (gp_Names p)), ?s\<lparr>se_pendingTasks := []\<rparr>)"
    using assms(7-9)
    by (simp add: executeTask_def exec_get_def build_get_def BuildGetParams_def started_task_def with_payload_def
        BuildGetParameterValues_def split: option.splits)
  moreover have "task_jobs ?t s' = []" for s'
    using assms(7) by (simp add: task_jobs_def)
  ultimately have "handleFault e f s w =
      (RXml (t_ID t, BGetParameterValues (gp_Names p)), ?s\<lparr>se_pendingTasks := [], se_currentTask := Some ?t\<rparr>, ?w)"
    using assms mark_executing_eq [OF assms(1,6), of e]
    by (simp add: handleFault_def handleTaskResponse_def dispatchNextOrClose.simps dispatchTask.simps split: prod.splits)
  moreover have "lookup_task (w_queue ?w) (t_ID t) = Some (stored_task ?t)"
    using queue_update_up(3) [OF assms(1) wf_started [OF assms(6)]] by simp
  ultimately show ?thesis
    using assms(2,3)
    by (auto simp: handleGetParamValuesResponse_def handleTargetedSummonResponse_def rebuild_mapper_def Let_def
        dispatchNextOrClose.simps split: option.splits)
qed

text \<open>
  A task that was in flight when the device reconnected is sent again only when no summon is due:
  after a summon the next pending task takes its place.
\<close>

lemma summon_drops_adopted_task:
  assumes "rd_faults (w_queue w) = []" and "se_summonPhase s = 4" and "se_summonMode s \<noteq> ''ui_refresh''"
    and "se_currentTask s = Some c" and "se_pendingTasks s = [t]" and "wf_task t" and "t_Type t = TypeReboot"
    and "t_ID t \<noteq> t_ID c"
  shows "case handleGetParamValuesResponse e pvs s w of (rep, s', w') \<Rightarrow>
     rep = RPanic \<or> (rep = RXml (t_ID t, BReboot (t_ID t)) \<and> se_currentTask s' = Some (started_task (e_now e) t) \<and>
       lookup_task (w_queue w') (t_ID c) = lookup_task (w_queue w) (t_ID c))"
proof -
  have exec: "executeTask e (started_task (e_now e) t) s' = (ExSend (t_ID t, BReboot (t_ID t)), s')" for s'
    using assms(7) by (simp add: executeTask_def BuildReboot_def started_task_def)
  have "lookup_task (w_queue (snd (queue_update e (started_task (e_now e) t) w))) (t_ID c) = lookup_task (w_queue w) (t_ID c)"
    using queue_update_any(3) [OF assms(1)] assms(8) by simp
  then show ?thesis
    using assms(2,3,5,7) mark_executing_eq [OF assms(1,6), of e]
    by (auto simp: handleGetParamValuesResponse_def handleTargetedSummonResponse_def rebuild_mapper_def Let_def
        dispatchNextOrClose.simps dispatchTask.simps exec split: option.splits)
qed

end
