(* ===== verification/Api_Tasks.thy ===== *)
theory Api_Tasks imports Payload_Codec Task_Life begin

section \<open>The REST handlers for tasks\<close>

text \<open>
  internal/api/handler/task.go and helpers.go. A handler gets the path variable, the decoded JSON body
  (\<^term>\<open>None\<close> when it is no JSON value) or the query parameters, and the stores, and returns the status
  with the value handed to \<^verbatim>\<open>writeJSON\<close>, and the stores. The UUID of a new task and the clock are
  arguments.
\<close>

subsection \<open>Responses\<close>

datatype api_body =
    BError string
  | BQueueError queue_error
  | BStatus string
  | BTask task
  | BTasks "task list" int int int
  | BDevice device
  | BDevices "device list" nat int int
  | BParams params
  | BProvision string string string string
  | BTraffic string int "rate_point list"
  | BSnapshot string nat
  | BLogin string string int
  | BRefresh string int
  | BHealth string string string
  | BNull
  | BNothing

type_synonym response = "nat \<times> api_body"

definition writeError :: "nat \<Rightarrow> string \<Rightarrow> response" where
  "writeError status msg = (status, BError msg)"

definition bad_request :: "string \<Rightarrow> response" where "bad_request = writeError 400"

definition invalid_body :: response where "invalid_body = bad_request ''invalid request body''"

text \<open>The query parameters \<^verbatim>\<open>page\<close> and \<^verbatim>\<open>limit\<close>, empty when absent.\<close>

definition paginationParams :: "string \<Rightarrow> string \<Rightarrow> int \<times> int" where
  "paginationParams page limit =
     (case atoi_opt page of None \<Rightarrow> 1 | Some n \<Rightarrow> if n > 0 then n else 1,
      case atoi_opt limit of None \<Rightarrow> 20 | Some n \<Rightarrow> if n > 0 \<and> n \<le> 200 then n else 20)"

subsection \<open>Creating tasks\<close>

definition task_max_attempts :: "int \<Rightarrow> int" where
  "task_max_attempts n = (if n \<le> 0 then 3 else n)"

definition requireDevice :: "string \<Rightarrow> world \<Rightarrow> response option \<times> world" where
  "requireDevice serial w =
     (case FindBySerial serial (w_devices w) of
        (None, db) \<Rightarrow> (Some (writeError 500 ''failed to fetch device''), w\<lparr>w_devices := db\<rparr>)
      | (Some None, db) \<Rightarrow> (Some (writeError 404 ''device not found''), w\<lparr>w_devices := db\<rparr>)
      | (Some (Some _), db) \<Rightarrow> (None, w\<lparr>w_devices := db\<rparr>))"

definition new_task :: "env \<Rightarrow> string \<Rightarrow> int \<Rightarrow> string \<Rightarrow> task_type \<Rightarrow> json \<Rightarrow> task" where
  "new_task e i attempts serial ty payload =
     zero_task\<lparr>t_ID := i, t_Serial := serial, t_Type := ty, t_Payload := Some payload,
       t_Status := StatusPending, t_CreatedAt := e_now e, t_MaxAttempts := attempts\<rparr>"

definition enqueueTask :: "env \<Rightarrow> string \<Rightarrow> int \<Rightarrow> string \<Rightarrow> task_type \<Rightarrow> json \<Rightarrow> world \<Rightarrow> response \<times> world" where
  "enqueueTask e i attempts serial ty payload w =
     (case Enqueue (e_queue e) (new_task e i attempts serial ty payload) (w_queue w) of
        (Inl _, q) \<Rightarrow> (writeError 500 ''failed to enqueue task'', w\<lparr>w_queue := q\<rparr>)
      | (Inr t, q) \<Rightarrow> ((201, BTask t), w\<lparr>w_queue := q\<rparr>))"

text \<open>
  The part all creating handlers share: the device must exist, the body must decode and pass the
  checks, and the task is enqueued with the marshalled payload.
\<close>

definition create_with ::
    "env \<Rightarrow> string \<Rightarrow> int \<Rightarrow> string \<Rightarrow> task_type \<Rightarrow> response + json \<Rightarrow> world \<Rightarrow> response \<times> world" where
  "create_with e i attempts serial ty payload w0 =
     (case requireDevice serial w0 of
        (Some r, w) \<Rightarrow> (r, w)
      | (None, w) \<Rightarrow>
          (case payload of Inl r \<Rightarrow> (r, w) | Inr j \<Rightarrow> enqueueTask e i attempts serial ty j w))"

definition decoded :: "'a option \<Rightarrow> ('a \<Rightarrow> response option) \<Rightarrow> ('a \<Rightarrow> json) \<Rightarrow> response + json" where
  "decoded p check encode =
     (case p of
        None \<Rightarrow> Inl invalid_body
      | Some p \<Rightarrow> (case check p of Some r \<Rightarrow> Inl r | None \<Rightarrow> Inr (encode p)))"

definition require :: "bool \<Rightarrow> string \<Rightarrow> response option" where
  "require ok msg = (if ok then None else Some (bad_request msg))"

text \<open>The handlers of the routes, one for each type of task.\<close>

definition CreateWifi :: "env \<Rightarrow> string \<Rightarrow> int \<Rightarrow> string \<Rightarrow> json option \<Rightarrow> world \<Rightarrow> response \<times> world" where
  "CreateWifi e i attempts serial body = create_with e i attempts serial TypeWifi
     (decoded (decode_wifi_payload body) (\<lambda>_. None) encode_wifi_payload)"

definition CreateWAN :: "env \<Rightarrow> string \<Rightarrow> int \<Rightarrow> string \<Rightarrow> json option \<Rightarrow> world \<Rightarrow> response \<times> world" where
  "CreateWAN e i attempts serial body = create_with e i attempts serial TypeWAN
     (decoded (decode_wan_payload body) (\<lambda>_. None) encode_wan_payload)"

definition CreateLAN :: "env \<Rightarrow> string \<Rightarrow> int \<Rightarrow> string \<Rightarrow> json option \<Rightarrow> world \<Rightarrow> response \<times> world" where
  "CreateLAN e i attempts serial body = create_with e i attempts serial TypeLAN
     (decoded (decode_lan_payload body) (\<lambda>_. None) encode_lan_payload)"

definition CreateReboot :: "env \<Rightarrow> string \<Rightarrow> int \<Rightarrow> string \<Rightarrow> world \<Rightarrow> response \<times> world" where
  "CreateReboot e i attempts serial = create_with e i attempts serial TypeReboot (Inr (JObj []))"

definition CreateFactoryReset :: "env \<Rightarrow> string \<Rightarrow> int \<Rightarrow> string \<Rightarrow> world \<Rightarrow> response \<times> world" where
  "CreateFactoryReset e i attempts serial = create_with e i attempts serial TypeFactoryReset (Inr (JObj []))"

definition CreateSetParams :: "env \<Rightarrow> string \<Rightarrow> int \<Rightarrow> string \<Rightarrow> json option \<Rightarrow> world \<Rightarrow> response \<times> world" where
  "CreateSetParams e i attempts serial body = create_with e i attempts serial TypeSetParams
     (decoded (decode_set_params_payload body)
       (\<lambda>p. require (sp_Parameters p \<noteq> []) ''parameters map must not be empty'')
       (\<lambda>p. encode_set_params (sp_Parameters p)))"

definition CreateFirmware :: "env \<Rightarrow> string \<Rightarrow> int \<Rightarrow> string \<Rightarrow> json option \<Rightarrow> world \<Rightarrow> response \<times> world" where
  "CreateFirmware e i attempts serial body = create_with e i attempts serial TypeFirmware
     (decoded (decode_firmware_payload body) (\<lambda>p. require (fw_URL p \<noteq> []) ''firmware url is required'')
       encode_firmware_payload)"

definition CreateDiagnostic :: "env \<Rightarrow> string \<Rightarrow> int \<Rightarrow> string \<Rightarrow> json option \<Rightarrow> world \<Rightarrow> response \<times> world" where
  "CreateDiagnostic e i attempts serial body = create_with e i attempts serial TypeDiagnostic
     (decoded (decode_diagnostic_payload body)
       (\<lambda>p. require (dg_Target p \<noteq> []) ''diagnostic target is required'') encode_diagnostic_payload)"

definition CreatePingTest :: "env \<Rightarrow> string \<Rightarrow> int \<Rightarrow> string \<Rightarrow> json option \<Rightarrow> world \<Rightarrow> response \<times> world" where
  "CreatePingTest e i attempts serial body = create_with e i attempts serial TypePingTest
     (decoded (decode_ping_payload body) (\<lambda>p. require (pg_Host p \<noteq> []) ''host is required'') encode_ping_payload)"

definition CreateTraceroute :: "env \<Rightarrow> string \<Rightarrow> int \<Rightarrow> string \<Rightarrow> json option \<Rightarrow> world \<Rightarrow> response \<times> world" where
  "CreateTraceroute e i attempts serial body = create_with e i attempts serial TypeTraceroute
     (decoded (decode_traceroute_payload body) (\<lambda>p. require (tr_Host p \<noteq> []) ''host is required'')
       encode_traceroute_payload)"

definition CreateSpeedTest :: "env \<Rightarrow> string \<Rightarrow> int \<Rightarrow> string \<Rightarrow> json option \<Rightarrow> world \<Rightarrow> response \<times> world" where
  "CreateSpeedTest e i attempts serial body = create_with e i attempts serial TypeSpeedTest
     (decoded (decode_speed_payload body) (\<lambda>p. require (sd_DownloadURL p \<noteq> []) ''download_url is required'')
       encode_speed_payload)"

definition CreateConnectedDevices :: "env \<Rightarrow> string \<Rightarrow> int \<Rightarrow> string \<Rightarrow> world \<Rightarrow> response \<times> world" where
  "CreateConnectedDevices e i attempts serial =
     create_with e i attempts serial TypeConnectedDevices (Inr (JObj []))"

definition CreateCPEStats :: "env \<Rightarrow> string \<Rightarrow> int \<Rightarrow> string \<Rightarrow> world \<Rightarrow> response \<times> world" where
  "CreateCPEStats e i attempts serial = create_with e i attempts serial TypeCPEStats (Inr (JObj []))"

definition check_port_forwarding :: "portfwd_payload \<Rightarrow> response option" where
  "check_port_forwarding p =
     (case pf_Action p of
        PFAdd \<Rightarrow> require (\<not> (pf_ExternalPort p \<le> 0 \<or> pf_InternalIP p = [] \<or> pf_InternalPort p \<le> 0))
                   ''add requires external_port, internal_ip and internal_port''
      | PFRemove \<Rightarrow> require (\<not> pf_InstanceNumber p \<le> 0) ''remove requires instance_number''
      | PFList \<Rightarrow> None
      | PFOther _ \<Rightarrow> Some (bad_request ''action must be add, remove or list''))"

definition CreatePortForwarding :: "env \<Rightarrow> string \<Rightarrow> int \<Rightarrow> string \<Rightarrow> json option \<Rightarrow> world \<Rightarrow> response \<times> world" where
  "CreatePortForwarding e i attempts serial body = create_with e i attempts serial TypePortForwarding
     (decoded (decode_portfwd_payload body) check_port_forwarding encode_portfwd_payload)"

subsection \<open>Reading and cancelling tasks\<close>

definition ListByDevice :: "string \<Rightarrow> string \<Rightarrow> string \<Rightarrow> world \<Rightarrow> response \<times> world" where
  "ListByDevice serial page_q limit_q w0 =
     (case requireDevice serial w0 of
        (Some r, w) \<Rightarrow> (r, w)
      | (None, w) \<Rightarrow>
          (case paginationParams page_q limit_q of
             (page, limit) \<Rightarrow>
               (case List_tasks serial page limit (w_queue w) of
                  (Inl _, q) \<Rightarrow> (writeError 500 ''failed to list tasks'', w\<lparr>w_queue := q\<rparr>)
                | (Inr (ts, n), q) \<Rightarrow> ((200, BTasks ts n page limit), w\<lparr>w_queue := q\<rparr>))))"

definition Get_task :: "string \<Rightarrow> world \<Rightarrow> response \<times> world" where
  "Get_task i w =
     (if i = [] then (bad_request ''task_id is required'', w)
      else case GetByID i (w_queue w) of
             (Inl _, q) \<Rightarrow> (writeError 404 ''task not found'', w\<lparr>w_queue := q\<rparr>)
           | (Inr t, q) \<Rightarrow> ((200, BTask t), w\<lparr>w_queue := q\<rparr>))"

definition Cancel_task :: "env \<Rightarrow> string \<Rightarrow> world \<Rightarrow> response \<times> world" where
  "Cancel_task e i w0 =
     (if i = [] then (bad_request ''task_id is required'', w0)
      else case GetByID i (w_queue w0) of
             (Inl _, q) \<Rightarrow> (writeError 404 ''task not found'', w0\<lparr>w_queue := q\<rparr>)
           | (Inr t, q) \<Rightarrow>
               (case Cancel (e_queue e) (e_now e) i (t_Serial t) q of
                  (Some err, q') \<Rightarrow> ((409, BQueueError err), w0\<lparr>w_queue := q'\<rparr>)
                | (None, q') \<Rightarrow> ((200, BStatus ''cancelled''), w0\<lparr>w_queue := q'\<rparr>)))"

subsection \<open>The endpoints that create tasks\<close>

datatype task_endpoint =
    TaskWifi | TaskWAN | TaskLAN | TaskReboot | TaskFactoryReset | TaskSetParams | TaskFirmware | TaskDiagnostic
  | TaskPing | TaskTraceroute | TaskSpeedTest | TaskConnectedDevices | TaskCPEStats | TaskPortForwarding

definition create_task ::
    "task_endpoint \<Rightarrow> env \<Rightarrow> string \<Rightarrow> int \<Rightarrow> string \<Rightarrow> json option \<Rightarrow> world \<Rightarrow> response \<times> world" where
  "create_task k e i attempts serial body =
     (case k of
        TaskWifi \<Rightarrow> CreateWifi e i attempts serial body
      | TaskWAN \<Rightarrow> CreateWAN e i attempts serial body
      | TaskLAN \<Rightarrow> CreateLAN e i attempts serial body
      | TaskReboot \<Rightarrow> CreateReboot e i attempts serial
      | TaskFactoryReset \<Rightarrow> CreateFactoryReset e i attempts serial
      | TaskSetParams \<Rightarrow> CreateSetParams e i attempts serial body
      | TaskFirmware \<Rightarrow> CreateFirmware e i attempts serial body
      | TaskDiagnostic \<Rightarrow> CreateDiagnostic e i attempts serial body
      | TaskPing \<Rightarrow> CreatePingTest e i attempts serial body
      | TaskTraceroute \<Rightarrow> CreateTraceroute e i attempts serial body
      | TaskSpeedTest \<Rightarrow> CreateSpeedTest e i attempts serial body
      | TaskConnectedDevices \<Rightarrow> CreateConnectedDevices e i attempts serial
      | TaskCPEStats \<Rightarrow> CreateCPEStats e i attempts serial
      | TaskPortForwarding \<Rightarrow> CreatePortForwarding e i attempts serial body)"

definition endpoint_type :: "task_endpoint \<Rightarrow> task_type" where
  "endpoint_type k =
     (case k of TaskWifi \<Rightarrow> TypeWifi | TaskWAN \<Rightarrow> TypeWAN | TaskLAN \<Rightarrow> TypeLAN | TaskReboot \<Rightarrow> TypeReboot
      | TaskFactoryReset \<Rightarrow> TypeFactoryReset | TaskSetParams \<Rightarrow> TypeSetParams | TaskFirmware \<Rightarrow> TypeFirmware
      | TaskDiagnostic \<Rightarrow> TypeDiagnostic | TaskPing \<Rightarrow> TypePingTest | TaskTraceroute \<Rightarrow> TypeTraceroute
      | TaskSpeedTest \<Rightarrow> TypeSpeedTest | TaskConnectedDevices \<Rightarrow> TypeConnectedDevices
      | TaskCPEStats \<Rightarrow> TypeCPEStats | TaskPortForwarding \<Rightarrow> TypePortForwarding)"

subsection \<open>Facts\<close>

text \<open>Two raw payloads that the executor reads alike.\<close>

definition same_payload :: "task_type \<Rightarrow> json option \<Rightarrow> json option \<Rightarrow> bool" where
  "same_payload ty a b =
     (case ty of
        TypeWifi \<Rightarrow> decode_wifi_payload a = decode_wifi_payload b
      | TypeWAN \<Rightarrow> decode_wan_payload a = decode_wan_payload b
      | TypeLAN \<Rightarrow> decode_lan_payload a = decode_lan_payload b
      | TypeSetParams \<Rightarrow> decode_set_params_payload a = decode_set_params_payload b
      | TypeFirmware \<Rightarrow> decode_firmware_payload a = decode_firmware_payload b
      | TypeDiagnostic \<Rightarrow> decode_diagnostic_payload a = decode_diagnostic_payload b
      | TypePingTest \<Rightarrow> decode_ping_payload a = decode_ping_payload b
      | TypeTraceroute \<Rightarrow> decode_traceroute_payload a = decode_traceroute_payload b
      | TypeSpeedTest \<Rightarrow> decode_speed_payload a = decode_speed_payload b
      | TypePortForwarding \<Rightarrow> decode_portfwd_payload a = decode_portfwd_payload b
      | _ \<Rightarrow> True)"

lemmas creators = CreateWifi_def CreateWAN_def CreateLAN_def CreateReboot_def CreateFactoryReset_def
  CreateSetParams_def CreateFirmware_def CreateDiagnostic_def CreatePingTest_def CreateTraceroute_def
  CreateSpeedTest_def CreateConnectedDevices_def CreateCPEStats_def CreatePortForwarding_def

text \<open>An answer that only carries an error.\<close>

definition refused :: "response \<Rightarrow> bool" where
  "refused r \<longleftrightarrow> (\<exists>c m. r = (c, BError m) \<and> c \<noteq> 201)"

text \<open>Every endpoint goes through the shared part, with a payload that reads like the body.\<close>

lemma create_task_cases:
  obtains payload where "create_task k e i attempts serial body = create_with e i attempts serial (endpoint_type k) payload"
    and "\<And>j. payload = Inr j \<Longrightarrow> same_payload (endpoint_type k) (Some j) body"
    and "\<And>r. payload = Inl r \<Longrightarrow> refused r"
proof -
  have "\<exists>payload. create_task k e i attempts serial body = create_with e i attempts serial (endpoint_type k) payload \<and>
      (\<forall>j. payload = Inr j \<longrightarrow> same_payload (endpoint_type k) (Some j) body) \<and> (\<forall>r. payload = Inl r \<longrightarrow> refused r)"
    by (cases k)
      (simp_all add: create_task_def endpoint_type_def creators,
       (rule exI, rule conjI, rule refl, auto simp: decoded_def refused_def same_payload_def require_def invalid_body_def
          bad_request_def writeError_def check_port_forwarding_def payload_stored payload_stored_lan payload_stored_diagnostic
          payload_stored_ping payload_stored_traceroute payload_stored_speed payload_stored_portfwd
          payload_stored_firmware payload_stored_set_params
          split: option.splits if_splits portfwd_action.splits)+)
  then show ?thesis using that by blast
qed

lemma new_task_sel [simp]:
  "t_ID (new_task e i n serial ty p) = i" "t_Serial (new_task e i n serial ty p) = serial"
  "t_Type (new_task e i n serial ty p) = ty" "t_Payload (new_task e i n serial ty p) = Some p"
  "t_Status (new_task e i n serial ty p) = StatusPending"
  by (simp_all add: new_task_def)

lemma endpoint_type_wf [simp]: "wf_type (endpoint_type k)" "endpoint_type k \<noteq> TypeGetDiagResult"
  by (cases k; simp add: endpoint_type_def)+

lemma wf_new_task: "int64 n \<Longrightarrow> wf_type ty \<Longrightarrow> wf_task (new_task e i n serial ty p)"
  by (simp add: wf_task_def new_task_def zero_task_def)

lemma enqueued_new_task:
  "n \<noteq> 0 \<Longrightarrow> enqueued cfg (new_task e i n serial ty p) = new_task e i n serial ty p"
  "stored_task (new_task e i n serial ty p) = new_task e i n serial ty p"
  by (simp_all add: enqueued_def stored_task_def new_task_def zero_task_def)

lemma requireDevice_queue:
  "requireDevice serial w = (r, w') \<Longrightarrow> w_queue w' = w_queue w \<and> w_repo w' = w_repo w \<and> w_full w' = w_full w"
  by (auto simp: requireDevice_def split: prod.splits option.splits)

lemma requireDevice_refuses: "requireDevice serial w = (Some r, w') \<Longrightarrow> refused r"
  by (auto simp: requireDevice_def writeError_def refused_def split: prod.splits option.splits)

text \<open>What a creating request does to the queue.\<close>

lemma create_with_queue:
  assumes "queue_up (w_queue w)" and "create_with e i n serial ty payload w = (resp, w')"
    and "n \<noteq> 0" and "\<And>r. payload = Inl r \<Longrightarrow> refused r"
  shows "(\<exists>j. payload = Inr j \<and> resp = (201, BTask (new_task e i n serial ty j)) \<and>
            w_queue w' = snd (Enqueue (e_queue e) (new_task e i n serial ty j) (w_queue w)))
       \<or> (refused resp \<and> w_queue w' = w_queue w)"
proof -
  obtain r w1 where dev: "requireDevice serial w = (r, w1)" by fastforce
  have q: "w_queue w1 = w_queue w" "rd_faults (w_queue w) = []"
    using requireDevice_queue [OF dev] assms(1) by (simp_all add: queue_up_def)
  show ?thesis
  proof (cases r)
    case (Some x)
    then show ?thesis
      using assms(2) dev q requireDevice_refuses [of serial w x w1] by (auto simp: create_with_def)
  next
    case None
    show ?thesis
    proof (cases payload)
      case (Inl x)
      then show ?thesis using assms(2,4) dev None q by (auto simp: create_with_def)
    next
      case (Inr j)
      have "fst (Enqueue (e_queue e) (new_task e i n serial ty j) (w_queue w)) = Inr (new_task e i n serial ty j)"
        using Enqueue_up(1) [OF q(2), of "e_queue e" "new_task e i n serial ty j"] assms(3) by (simp add: enqueued_new_task)
      then show ?thesis
        using assms(2) dev None q Inr
        by (cases "Enqueue (e_queue e) (new_task e i n serial ty j) (w_queue w)")
          (auto simp: create_with_def enqueueTask_def)
    qed
  qed
qed

text \<open>What a creating request does to the device's queue, whatever the endpoint.\<close>

lemma create_task_effect:
  assumes "queue_up (w_queue w)" and "\<forall>s. i \<notin> set (rd_list (w_queue w) (queueKey s))" and "int64 n" and "n \<noteq> 0"
    and "int64 (qc_maxAttempts (e_queue e))"
  shows "case create_task k e i n serial body w of (resp, w') \<Rightarrow>
     queue_up (w_queue w') \<and>
     (case resp of
        (status, BTask t) \<Rightarrow> status = 201 \<and> pending_of (w_queue w') serial = pending_of (w_queue w) serial @ [t] \<and>
          t_ID t = i \<and> t_Serial t = serial \<and> t_Type t = endpoint_type k \<and> t_Status t = StatusPending \<and>
          same_payload (endpoint_type k) (t_Payload t) body
      | (status, _) \<Rightarrow> status \<noteq> 201 \<and> w_queue w' = w_queue w)"
proof -
  obtain payload where c: "create_task k e i n serial body = create_with e i n serial (endpoint_type k) payload"
    and same: "\<And>j. payload = Inr j \<Longrightarrow> same_payload (endpoint_type k) (Some j) body"
    and bad: "\<And>r. payload = Inl r \<Longrightarrow> refused r"
    using create_task_cases [of k e i n serial body] by metis
  obtain resp w' where run: "create_task k e i n serial body w = (resp, w')" by fastforce
  from create_with_queue [OF assms(1) run [unfolded c] assms(4) bad] show ?thesis
  proof
    assume "\<exists>j. payload = Inr j \<and> resp = (201, BTask (new_task e i n serial (endpoint_type k) j)) \<and>
        w_queue w' = snd (Enqueue (e_queue e) (new_task e i n serial (endpoint_type k) j) (w_queue w))"
    then obtain j where j: "payload = Inr j" "resp = (201, BTask (new_task e i n serial (endpoint_type k) j))"
      and q: "w_queue w' = snd (Enqueue (e_queue e) (new_task e i n serial (endpoint_type k) j) (w_queue w))" by blast
    let ?t = "new_task e i n serial (endpoint_type k) j"
    have t: "wf_task ?t" "fresh_task (w_queue w) ?t" using assms(2,3) by (simp_all add: wf_new_task fresh_task_def)
    show ?thesis
      using queue_inv_Enqueue [OF assms(1) t(1) assms(5) t(2)] queue_tasks_Enqueue [OF _ t(1) assms(5) t(2), of serial] assms(1)
        same [OF j(1)] assms(4)
      by (simp add: run j q pending_of_def queue_up_def enqueued_new_task)
  next
    assume "refused resp \<and> w_queue w' = w_queue w"
    then show ?thesis using assms(1) by (auto simp: run refused_def)
  qed
qed

subsection \<open>Properties\<close>

text \<open>
  C5. A task the API accepts is the next one of its device: when the answer is 201, the device's
  pending tasks are the ones it had, followed by a task with the new id, the type of the endpoint and
  a payload that the executor reads exactly as it would read the body of the request; with any other
  answer the queue is as it was.
\<close>

theorem accepted_task_is_queued:
  assumes "queue_up (w_queue w)" and "\<forall>s. i \<notin> set (rd_list (w_queue w) (queueKey s))" and "int64 n" and "n \<noteq> 0"
    and "int64 (qc_maxAttempts (e_queue e))"
  shows "case create_task k e i n serial body w of (resp, w') \<Rightarrow>
     queue_up (w_queue w') \<and>
     (case resp of
        (status, BTask t) \<Rightarrow> status = 201 \<and> pending_of (w_queue w') serial = pending_of (w_queue w) serial @ [t] \<and>
          t_ID t = i \<and> t_Serial t = serial \<and> t_Type t = endpoint_type k \<and> t_Status t = StatusPending \<and>
          same_payload (endpoint_type k) (t_Payload t) body
      | (status, _) \<Rightarrow> status \<noteq> 201 \<and> w_queue w' = w_queue w)"
  using assms by (rule create_task_effect)

definition ex_api_world :: world where
  "ex_api_world = ex_world\<lparr>w_devices := \<lparr> db_devices = [(''CPE1'', new_device ''oid'' 0)], db_faults = [] \<rparr>\<rparr>"

lemma ex_api_world_queue [simp]: "w_queue ex_api_world = empty_redis"
  by (simp add: ex_api_world_def ex_world_def)

lemma accepted_task_is_queued_witness:
  "\<exists>t w'. create_task TaskFirmware ex_env ''id1'' 3 ''CPE1'' (Some (JObj [(''url'', JStr ''http://f'')])) ex_api_world =
        ((201, BTask t), w') \<and> pending_of (w_queue w') ''CPE1'' = [t] \<and> t_ID t = ''id1'' \<and>
        decode_firmware_payload (t_Payload t) = Some (zero_firmware_payload\<lparr>fw_URL := ''http://f''\<rparr>)"
proof -
  let ?body = "Some (JObj [(''url'', JStr ''http://f'')])"
  let ?run = "create_task TaskFirmware ex_env ''id1'' 3 ''CPE1'' ?body ex_api_world"
  have dec: "decode_firmware_payload ?body = Some (zero_firmware_payload\<lparr>fw_URL := ''http://f''\<rparr>)"
    by (simp add: payload_defs)
  have "requireDevice ''CPE1'' ex_api_world = (None, ex_api_world)"
    by (simp add: requireDevice_def FindBySerial_def ex_api_world_def)
  moreover have ok: "fst (Enqueue cfg t empty_redis) = Inr (enqueued cfg t)" for cfg t
    by (rule Enqueue_up(1)) (simp add: empty_redis_def)
  moreover have "Enqueue cfg t empty_redis \<noteq> (Inl err, q)" for cfg t err q
    using ok [of cfg t] by auto
  ultimately have "\<exists>t w'. ?run = ((201, BTask t), w')"
    using dec
    by (auto simp: create_task_def CreateFirmware_def create_with_def decoded_def require_def enqueueTask_def
        zero_firmware_payload_def split: prod.splits sum.splits)
  then obtain t w' where run: "?run = ((201, BTask t), w')" by blast
  have "queue_up (w_queue ex_api_world)" by simp
  moreover have "\<forall>s. ''id1'' \<notin> set (rd_list (w_queue ex_api_world) (queueKey s))"
    "int64 3" "int64 (qc_maxAttempts (e_queue ex_env))" "pending_of empty_redis ''CPE1'' = []"
    by (simp_all add: empty_redis_def int64_bounds ex_env_def pending_of_def queue_tasks_def List.map_filter_def ex_cfg_def)
  ultimately show ?thesis
    using accepted_task_is_queued [where w = ex_api_world and i = "''id1''" and n = 3 and e = ex_env and k = TaskFirmware and
        serial = "''CPE1''" and body = ?body] run dec
    by (simp add: endpoint_type_def same_payload_def)
qed

text \<open>Paging parameters the handlers pass on are always in range.\<close>

lemma pagination_bounds:
  "paginationParams p l = (page, limit) \<Longrightarrow> 1 \<le> page \<and> 1 \<le> limit \<and> limit \<le> 200"
  by (auto simp: paginationParams_def split: option.splits if_splits)
end
