(* ===== verification/Task_Journey.thy ===== *)
theory Task_Journey imports Api_Tasks Task_Life begin

section \<open>The way of a task from the API to its end\<close>

text \<open>
  A task is created through the REST API, loaded by the next Inform of its device, and dispatched in
  the session: Api_Tasks, Server and Task_Life put together. No code of its own.
\<close>

subsection \<open>Facts: what the Inform hands over\<close>

lemma waits_behind: "i \<notin> t_ID ` set front \<Longrightarrow> waits i (front @ ts) = waits i ts"
  by (induction front) auto

lemma waits_last: "i \<notin> t_ID ` set ts \<Longrightarrow> t_ID t = i \<Longrightarrow> wf_task t \<Longrightarrow> t_Type t \<noteq> TypeGetDiagResult \<Longrightarrow> waits i (ts @ [t])"
  by (simp add: waits_behind)

definition plain_id :: "string \<Rightarrow> bool" where
  "plain_id i \<longleftrightarrow> own_id i \<and> \<not> has_suffix i ''_collect''"

lemma collect_ids:
  assumes "collect_tasks serial msg m w = (Some ts, w')" and "t \<in> set ts"
  shows "has_suffix (t_ID t) ''_collect''"
proof -
  have "has_suffix (t_ID t) ''_collect''" if "collect_task serial m' u = Some t" for m' u
    using that by (auto simp: collect_task_def has_suffix_def Let_def split: if_splits)
  then show ?thesis
    using assms by (auto simp: collect_tasks_def List.map_filter_def split: if_splits sum.splits prod.splits option.splits)
qed

lemma collect_queue:
  "rd_faults (w_queue w) = [] \<Longrightarrow> w_queue (snd (collect_tasks serial msg m w)) = w_queue w"
  by (simp add: collect_tasks_def FindExecutingDiagnostics_up)

text \<open>A session with nothing in flight.\<close>

definition at_rest :: "session \<Rightarrow> bool" where
  "at_rest s \<longleftrightarrow> se_currentTask s = None \<and> se_wanProvision s = None \<and> (se_summonPhase s = 0 \<or> se_summonPhase s = 3)"

lemma at_rest_upd [simp]:
  "at_rest (s\<lparr>se_pendingTasks := ts\<rparr>) = at_rest s" "at_rest (s\<lparr>se_needsGlobalDefaults := b\<rparr>) = at_rest s"
  "at_rest (s\<lparr>se_mapper := m\<rparr>) = at_rest s" "at_rest (s\<lparr>se_instanceMap := im\<rparr>) = at_rest s"
  "at_rest (s\<lparr>se_driver := d\<rparr>) = at_rest s" "at_rest (s\<lparr>se_State := st\<rparr>) = at_rest s"
  "at_rest (s\<lparr>se_pendingProvisionMark := b\<rparr>) = at_rest s"
  by (simp_all add: at_rest_def)

lemma inject_at_rest:
  "at_rest s \<Longrightarrow> at_rest (fst (injectGlobalDefaultParams e serial cur s w))"
  "w_queue (snd (injectGlobalDefaultParams e serial cur s w)) = w_queue w"
  by (auto simp: injectGlobalDefaultParams_def store_params_def Let_def split: prod.splits sum.splits)

lemma inform_tasks_idle:
  assumes "inform_tasks e j msg q d im m pending s w = (rep, s', w')" and "rep \<noteq> RPanic"
    and "rd_faults (w_queue w) = []" and "at_rest s" and "plain_id i" and "waits i pending"
  shows "at_rest s' \<and> idle i s' w' \<and> w_queue w' = w_queue w"
proof -
  let ?serial = "uq_Serial q"
  obtain s1 w1 where p: "plan_summon e ?serial (uq_Schema q) d pending s w = (s1, w1)" by fastforce
  have s1: "at_rest s1" "w_queue w1 = w_queue w"
    using p assms(4) by (auto simp: plan_summon_def at_rest_def Let_def split: if_splits)
  obtain c w2 where c: "collect_tasks ?serial msg m w1 = (c, w2)" by fastforce
  have w2: "w_queue w2 = w_queue w" using collect_queue [of w1 ?serial msg m] c s1(2) assms(3) by simp
  from assms(1,2) p c obtain synth where s: "c = Some synth" by (cases c) (auto simp: inform_tasks_def Let_def)
  let ?s2 = "s1\<lparr>se_pendingTasks := synth @ pending, se_mapper := m, se_instanceMap := im,
                 se_driver := d, se_State := StateProcessing\<rparr>"
  obtain s3 w3 where k: "mark_needs_defaults ?serial ?s2 w2 = (s3, w3)" by fastforce
  have s3: "se_pendingTasks s3 = synth @ pending" "at_rest s3" "w_queue w3 = w_queue w"
    using k s1(1) w2 by (auto simp: mark_needs_defaults_def split: if_splits prod.splits)
  let ?inj = "injectGlobalDefaultParams e ?serial (uq_Parameters q) s3 w3"
  have run: "s' = fst ?inj" "w' = snd ?inj"
    using assms(1) by (auto simp: inform_tasks_def p c s k Let_def split: prod.splits)
  obtain front where f: "se_pendingTasks s' = front @ synth @ pending"
    "\<forall>t \<in> set front. t_ID t = ''global_defaults_'' @ ?serial"
    using inject_front [of e ?serial "uq_Parameters q" s3 w3] run(1) s3(1) by auto
  have "i \<notin> t_ID ` set (front @ synth)"
    using f(2) collect_ids [OF c [unfolded s]] assms(5) own_id_other(2) [of i ?serial]
    by (auto simp: plain_id_def)
  then have "waits i (se_pendingTasks s')"
    using assms(6) waits_behind [of i "front @ synth" pending] f(1) by simp
  then show ?thesis
    using run inject_at_rest s3(2,3) assms(3) by (simp add: idle_def)
qed

lemma inform_accepted_idle:
  assumes "inform_accepted e j msg q dev s w = (rep, s', w')" and "rep \<noteq> RPanic"
    and "\<not> hasBootstrapEvent msg" and "informParamValue msg ''Device.DeviceInfo.ProvisioningCode'' \<noteq> []"
    and "rd_faults (w_queue w) = []" and "uq_Serial q \<notin> set (w_full w)"
    and "at_rest s" and "plain_id i" and "waits i (pending_of (w_queue w) (uq_Serial q))"
  shows "at_rest s' \<and> idle i s' w' \<and> w_queue w' = w_queue w"
proof -
  let ?serial = "uq_Serial q" and ?w1 = "w\<lparr>w_jobs := w_jobs w @ inform_jobs q dev\<rparr>"
  from assms(1,2) obtain d im where d: "inform_driver e q = Some d"
    "DiscoverInstancesWithHints (uq_Parameters q) (discoveryHintsFromDriver d) = Some im"
    by (auto simp: inform_accepted_def Let_def split: option.splits)
  let ?m = "schema_mapper_ref (e_schemas e) (uq_Schema q) im"
  obtain r where reset: "detectAndHandleReset e ?serial msg ?m ?w1 = (True, ?w1\<lparr>w_repo := r\<rparr>)"
    using plain_inform_frame [OF assms(3,4), where e = e and serial = ?serial and m = ?m and w = ?w1] by auto
  have "inform_tasks e j msg q d im ?m (pending_of (w_queue w) ?serial) s (?w1\<lparr>w_repo := r, w_queue := w_queue w\<rparr>) =
      (rep, s', w')"
    using assms(1,6) DequeuePending_up [OF assms(5), of ?serial]
    by (simp add: inform_accepted_def Let_def d reset pending_of_def)
  from inform_tasks_idle [OF this assms(2) _ assms(7-9)] assms(5) show ?thesis by simp
qed

lemma begin_inform_fresh:
  assumes "map_of (sm_serial m) serial = None"
  shows "sm_heap (begin_inform serial msg r m) r =
    (sm_heap m r)\<lparr>se_DeviceSerial := serial, se_isBootstrap := hasBootstrapEvent msg\<rparr>"
  using assms
  by (simp add: begin_inform_def adoptInFlightBySerial_def GetBySerial_def manager_simps Let_def)

text \<open>
  After an Inform that found no other session of the device, the session of the Inform is at rest and
  the task waits in it.
\<close>

lemma inform_hands_over:
  fixes msg :: inform
  defines "serial \<equiv> uq_Serial (extractInformParams msg)"
  assumes "handleInform e j msg r a = (RXml x, a')"
    and "\<not> hasBootstrapEvent msg" and "informParamValue msg ''Device.DeviceInfo.ProvisioningCode'' \<noteq> []"
    and "rd_faults (w_queue (ac_world a)) = []" and "serial \<notin> set (w_full (ac_world a))"
    and "map_of (sm_serial (ac_sm a)) serial = None" and "at_rest (sm_heap (ac_sm a) r)"
    and "plain_id i" and "waits i (pending_of (w_queue (ac_world a)) serial)"
  shows "at_rest (sm_heap (ac_sm a') r) \<and> idle i (sm_heap (ac_sm a') r) (ac_world a')"
proof -
  let ?q = "extractInformParams msg"
  from assms(2) obtain schemaName where n: "Resolve (e_schemas e) (uq_Manufacturer ?q) (uq_DataModel ?q) = Some schemaName"
    by (auto simp: handleInform_def Let_def split: option.splits)
  let ?q' = "?q\<lparr>uq_Schema := schemaName\<rparr>"
  from assms(2) n obtain dev db where u: "Upsert (e_oid e) (e_now e) ?q' (w_devices (ac_world a)) = (Some dev, db)"
    by (cases "Upsert (e_oid e) (e_now e) ?q' (w_devices (ac_world a))") (auto simp: handleInform_def Let_def split: option.splits)
  let ?m = "begin_inform serial msg r (ac_sm a)" and ?w = "(ac_world a)\<lparr>w_devices := db\<rparr>"
  obtain s' w' where run: "inform_accepted e j msg ?q' dev (sm_heap ?m r) ?w = (RXml x, s', w')"
    and a': "a' = \<lparr> ac_sm = update_session r (\<lambda>_. s') ?m, ac_world = w' \<rparr>"
    using assms(2) by (auto simp: handleInform_def Let_def n u on_session_def serial_def split: prod.splits)
  have "at_rest (sm_heap ?m r)" using assms(7,8) by (simp add: begin_inform_fresh at_rest_def)
  then show ?thesis
    using inform_accepted_idle [OF run _ assms(3,4), of i] assms(5,6,9,10)
    by (simp add: a' manager_simps serial_def)
qed

subsection \<open>Facts: the created task waits\<close>

lemma create_task_full: "create_task k e i n serial body w = (resp, w') \<Longrightarrow> w_full w' = w_full w"
proof -
  assume run: "create_task k e i n serial body w = (resp, w')"
  obtain payload where c: "create_task k e i n serial body = create_with e i n serial (endpoint_type k) payload"
    by (rule create_task_cases)
  show ?thesis
    using run requireDevice_queue [of serial w] unfolding c
    by (auto simp: create_with_def enqueueTask_def split: prod.splits option.splits sum.splits)
qed

lemma pending_ids:
  assumes "queue_up q" and "t \<in> set (pending_of q s)"
  shows "t_ID t \<in> set (rd_list q (queueKey s)) \<and> wf_task t"
  using assms by (fastforce simp: pending_of_def queue_tasks_def queue_up_def queue_inv_def List.map_filter_def)

lemma created_task_waits:
  assumes "queue_up (w_queue w)" and "\<forall>s. i \<notin> set (rd_list (w_queue w) (queueKey s))" and "int64 n" and "n \<noteq> 0"
    and "int64 (qc_maxAttempts (e_queue e))" and "create_task k e i n serial body w = ((201, b), w')"
  shows "waits i (pending_of (w_queue w') serial) \<and> queue_up (w_queue w')"
proof -
  obtain t where t: "queue_up (w_queue w')" "pending_of (w_queue w') serial = pending_of (w_queue w) serial @ [t]"
    "t_ID t = i" "t_Type t = endpoint_type k"
    using create_task_effect [OF assms(1-5), where k = k and serial = serial and body = body] assms(6) by (cases b) auto
  have "wf_task t" using pending_ids [OF t(1), of t serial] t(2) by simp
  moreover have "i \<notin> t_ID ` set (pending_of (w_queue w) serial)"
    using pending_ids [OF assms(1)] assms(2) by blast
  ultimately show ?thesis using t by (simp add: waits_last)
qed

subsection \<open>The whole way\<close>


text \<open>An operator asks for a reboot of a device that then sends its periodic Inform.\<close>

definition ex_journey :: acs where
  "ex_journey = \<lparr> ac_sm = snd (GetOrCreate 0 ''s'' empty_manager), ac_world = ex_api_world \<rparr>"

lemma ex_journey_manager:
  "sm_heap (ac_sm ex_journey) 0 = new_session ''s'' 0" "map_of (sm_serial (ac_sm ex_journey)) k = None"
  by (simp_all add: ex_journey_def GetOrCreate_def empty_manager_def)

lemma ex_journey_created:
  "\<exists>b w1. create_task TaskReboot ex_env ''id1'' 3 ''CPE1'' None ex_api_world = ((201, b), w1) \<and>
     w_devices w1 = w_devices ex_api_world"
proof -
  have "fst (Enqueue cfg t empty_redis) = Inr (enqueued cfg t)" for cfg t
    by (rule Enqueue_up(1)) (simp add: empty_redis_def)
  then have "Enqueue cfg t empty_redis \<noteq> (Inl err, q)" for cfg t err q by (metis Inl_Inr_False fst_conv)
  moreover have "requireDevice ''CPE1'' ex_api_world = (None, ex_api_world)"
    by (simp add: requireDevice_def FindBySerial_def ex_api_world_def)
  ultimately show ?thesis
    by (auto simp: create_task_def CreateReboot_def create_with_def enqueueTask_def split: prod.splits sum.splits)
qed


end
