(* ===== verification/Api_Devices.thy ===== *)
theory Api_Devices imports Api_Tasks begin

section \<open>The REST handlers for devices\<close>

text \<open>
  internal/api/handler/device.go, snapshot.go, config.go, summon.go and health.go over the device
  store, the parameter store and the CWMP server. Query parameters are empty when absent.
\<close>

definition parse_bool :: "string \<Rightarrow> bool option" where
  "parse_bool s =
     (if s \<in> {''1'', ''t'', ''T'', ''TRUE'', ''true'', ''True''} then Some True
      else if s \<in> {''0'', ''f'', ''F'', ''FALSE'', ''false'', ''False''} then Some False else None)"

text \<open>The query of \<^verbatim>\<open>GET /api/v1/devices\<close>.\<close>

record device_query =
  dq_page :: string
  dq_limit :: string
  dq_manufacturer :: string
  dq_model :: string
  dq_online :: string
  dq_tag :: string
  dq_wan_ip :: string

definition query_filter :: "device_query \<Rightarrow> device_filter" where
  "query_filter q = \<lparr> df_Online = (if dq_online q = [] then None else parse_bool (dq_online q)),
     df_Manufacturer = dq_manufacturer q, df_ModelName = dq_model q, df_Tag = dq_tag q,
     df_WANIP = dq_wan_ip q, df_Serial = [] \<rparr>"

definition List_devices :: "device_query \<Rightarrow> world \<Rightarrow> response \<times> world" where
  "List_devices q w =
     (case paginationParams (dq_page q) (dq_limit q) of
        (page, limit) \<Rightarrow>
          (case service_List (query_filter q) page limit (w_devices w) of
             (None, db) \<Rightarrow> (writeError 500 ''failed to list devices'', w\<lparr>w_devices := db\<rparr>)
           | (Some (ds, n), db) \<Rightarrow> ((200, BDevices ds n page limit), w\<lparr>w_devices := db\<rparr>)))"

text \<open>The answer to a lookup of one document.\<close>

definition found_answer :: "string \<Rightarrow> device option option \<times> device_db \<Rightarrow> world \<Rightarrow> response \<times> world" where
  "found_answer msg found w =
     ((case fst found of
         None \<Rightarrow> writeError 500 msg
       | Some None \<Rightarrow> writeError 404 ''device not found''
       | Some (Some d) \<Rightarrow> (200, BDevice d)), w\<lparr>w_devices := snd found\<rparr>)"

definition serial_required :: response where "serial_required = bad_request ''serial is required''"

definition Get_device :: "string \<Rightarrow> world \<Rightarrow> response \<times> world" where
  "Get_device serial w =
     (if serial = [] then (serial_required, w)
      else found_answer ''failed to fetch device'' (FindBySerial serial (w_devices w)) w)"

text \<open>The body \<^verbatim>\<open>{"tags": [...]}\<close>; a missing list is the empty one.\<close>

definition tags_field :: "string \<Rightarrow> json \<Rightarrow> string list \<Rightarrow> string list option" where
  "tags_field k v ts = (if k = ''tags'' then dec_strs v (\<lambda>l _. l) ts else Some ts)"

definition Update_device :: "env \<Rightarrow> string \<Rightarrow> json option \<Rightarrow> world \<Rightarrow> response \<times> world" where
  "Update_device e serial body w =
     (if serial = [] then (serial_required, w)
      else case unmarshal tags_field [] body of
             None \<Rightarrow> (invalid_body, w)
           | Some tags \<Rightarrow>
               found_answer ''failed to update device''
                 (service_UpdateTags (e_now e) serial tags (w_devices w)) w)"

definition Delete_device_request :: "string \<Rightarrow> world \<Rightarrow> response \<times> world" where
  "Delete_device_request serial w0 =
     (if serial = [] then (serial_required, w0)
      else case requireDevice serial w0 of
             (Some r, w) \<Rightarrow> (r, w)
           | (None, w) \<Rightarrow>
               (case Delete_device serial (w_devices w) of
                  (False, db) \<Rightarrow> (writeError 500 ''failed to delete device'', w\<lparr>w_devices := db\<rparr>)
                | (True, db) \<Rightarrow>
                    (case DeleteDeviceParameters serial (w_repo w) of
                       (Some _, r) \<Rightarrow>
                         (writeError 500 ''failed to delete device parameters'', w\<lparr>w_devices := db, w_repo := r\<rparr>)
                     | (None, r) \<Rightarrow> ((200, BStatus ''deleted''), w\<lparr>w_devices := db, w_repo := r\<rparr>))))"

definition GetParameters_request :: "string \<Rightarrow> world \<Rightarrow> response \<times> world" where
  "GetParameters_request serial w =
     (if serial = [] then (serial_required, w)
      else case GetAllParameters serial (w_repo w) of
             (Inl _, r) \<Rightarrow> (writeError 500 ''failed to fetch parameters'', w\<lparr>w_repo := r\<rparr>)
           | (Inr ps, r) \<Rightarrow> ((200, BParams ps), w\<lparr>w_repo := r\<rparr>))"

definition GetProvisionInfo :: "string \<Rightarrow> world \<Rightarrow> response \<times> world" where
  "GetProvisionInfo serial w =
     (if serial = [] then (serial_required, w)
      else case GetParametersByPrefix serial ''_helix.provision.'' (w_repo w) of
             (Inl _, r) \<Rightarrow> (writeError 500 ''failed to fetch provision info'', w\<lparr>w_repo := r\<rparr>)
           | (Inr ps, r) \<Rightarrow>
               ((200, BProvision (mget ps ''_helix.provision.pppoe_username'')
                        (mget ps ''_helix.provision.pppoe_password'') (mget ps ''_helix.provision.vlan_id'')
                        (mget ps ''_helix.provision.connection_type'')), w\<lparr>w_repo := r\<rparr>))"

definition positive_or :: "int \<Rightarrow> string \<Rightarrow> int" where
  "positive_or d s = (case atoi_opt s of None \<Rightarrow> d | Some n \<Rightarrow> if n > 0 then n else d)"

definition traffic_hours :: "string \<Rightarrow> int" where
  "traffic_hours s = min 168 (positive_or 24 s)"

definition GetTraffic :: "env \<Rightarrow> string \<Rightarrow> string \<Rightarrow> string \<Rightarrow> world \<Rightarrow> response \<times> world" where
  "GetTraffic e serial hours limit w =
     (if serial = [] then (serial_required, w)
      else let since = e_now e - traffic_hours hours * 3600000000000 in
           case ListWANTrafficSamples serial since (positive_or 2000 limit) (w_repo w) of
             (Inl _, r) \<Rightarrow> (writeError 500 ''failed to list traffic samples'', w\<lparr>w_repo := r\<rparr>)
           | (Inr ss, r) \<Rightarrow>
               ((200, BTraffic serial since (TrafficSamplesToRatePoints ss)), w\<lparr>w_repo := r\<rparr>))"

subsection \<open>Snapshots, default parameters and summons\<close>

definition SaveLastKnownGood :: "env \<Rightarrow> string \<Rightarrow> world \<Rightarrow> response \<times> world" where
  "SaveLastKnownGood e serial w0 =
     (if serial = [] then (serial_required, w0)
      else case requireDevice serial w0 of
             (Some r, w) \<Rightarrow> (r, w)
           | (None, w) \<Rightarrow>
               (case GetAllParameters serial (w_repo w) of
                  (Inl _, r) \<Rightarrow> (writeError 500 ''failed to read device parameters'', w\<lparr>w_repo := r\<rparr>)
                | (Inr ps, r) \<Rightarrow>
                    if ps = []
                    then (writeError 409 ''no parameters stored for this device yet; wait for a full parameter summon first'',
                          w\<lparr>w_repo := r\<rparr>)
                    else case SaveSnapshot (e_now e) serial ''last_known_good'' ps r of
                           (Some _, r') \<Rightarrow> (writeError 500 ''failed to save snapshot'', w\<lparr>w_repo := r'\<rparr>)
                         | (None, r') \<Rightarrow> ((200, BSnapshot serial (length ps)), w\<lparr>w_repo := r'\<rparr>)))"

definition systemSerial :: string where "systemSerial = ''__system__''"

definition GetDefaultParams :: "world \<Rightarrow> response \<times> world" where
  "GetDefaultParams w =
     (case GetAllParameters systemSerial (w_repo w) of
        (Inl _, r) \<Rightarrow> (writeError 500 ''failed to load default params'', w\<lparr>w_repo := r\<rparr>)
      | (Inr ps, r) \<Rightarrow> ((200, BParams ps), w\<lparr>w_repo := r\<rparr>))"

text \<open>The map a body decoded to, written back: a nil map is \<^verbatim>\<open>null\<close>.\<close>

definition answer_params :: "params option \<Rightarrow> api_body" where
  "answer_params nps = (case nps of None \<Rightarrow> BNull | Some ps \<Rightarrow> BParams ps)"

definition UpdateDefaultParams :: "env \<Rightarrow> json option \<Rightarrow> world \<Rightarrow> response \<times> world" where
  "UpdateDefaultParams e body w =
     (case Option.bind body unmarshal_params of
        None \<Rightarrow> (invalid_body, w)
      | Some nps \<Rightarrow>
          let ps = (case nps of None \<Rightarrow> [] | Some ps \<Rightarrow> ps) in
          (case DeleteDeviceParameters systemSerial (w_repo w) of
             (Some _, r) \<Rightarrow> (writeError 500 ''failed to clear default params'', w\<lparr>w_repo := r\<rparr>)
           | (None, r) \<Rightarrow>
               if ps = [] then ((200, answer_params nps), w\<lparr>w_repo := r\<rparr>)
               else case pr_UpdateParameters (e_now e) systemSerial ps r of
                      (Some _, r') \<Rightarrow> (writeError 500 ''failed to save default params'', w\<lparr>w_repo := r'\<rparr>)
                    | (None, r') \<Rightarrow> ((200, answer_params nps), w\<lparr>w_repo := r'\<rparr>)))"

definition summon_text :: string where
  "summon_text = ''summon scheduled '' @ [CHR 0xE2, CHR 0x80, CHR 0x94] @
     '' parameters will be refreshed on next device contact''"

definition TriggerFullSummon_request :: "string \<Rightarrow> acs \<Rightarrow> response \<times> acs" where
  "TriggerFullSummon_request serial a =
     (if serial = [] then (bad_request ''serial required'', a)
      else ((202, BStatus summon_text), TriggerFullSummon serial a))"

text \<open>Whether the pings of the two servers fail comes from outside.\<close>

definition health_check :: "bool \<Rightarrow> bool \<Rightarrow> response" where
  "health_check mongo_ok redis_ok =
     (let text = (\<lambda>ok. if ok then ''OK'' else ''error'') in
      if mongo_ok \<and> redis_ok then (200, BHealth ''OK'' (text mongo_ok) (text redis_ok))
      else (503, BHealth ''DEGRADED'' (text mongo_ok) (text redis_ok)))"

subsection \<open>Facts\<close>

lemma dec_str_members_wf: "dec_str_members kvs m = Some m' \<Longrightarrow> wf_map m \<Longrightarrow> wf_map m'"
  by (induction kvs m rule: dec_str_members.induct) (auto split: json.splits)

lemma unmarshal_params_wf: "unmarshal_params v = Some (Some ps) \<Longrightarrow> wf_map ps"
  by (auto simp: unmarshal_params_def wf_map_def split: json.splits dest: dec_str_members_wf)

text \<open>Deleting leaves a device with no parameter.\<close>

lemma delete_stored:
  assumes "DeleteDeviceParameters s r = (None, r')"
  shows "stored s r' = Map.empty"
proof -
  define r1 where "r1 = (snd (db_try r))\<lparr>pr_params := filter (\<lambda>kc. fst (fst kc) \<noteq> s) (pr_params r)\<rparr>"
  define r3 where "r3 = (if fst (db_try r1) then snd (db_try r1)
      else (snd (db_try r1))\<lparr>pr_meta := mdel s (pr_meta r1)\<rparr>)"
  have del: "r' = invalidate s r3"
    using assms by (cases "db_try r"; cases "db_try r1")
      (auto simp: DeleteDeviceParameters_def Let_def r1_def r3_def db_try_def split: list.splits if_splits)
  have "pr_params r3 = filter (\<lambda>kc. fst (fst kc) \<noteq> s) (pr_params r)"
    by (simp add: r3_def r1_def repo_simps)
  moreover have "map_of (filter (\<lambda>kc. fst (fst kc) \<noteq> s) xs) (s, n) = None"
    for n and xs :: "((string \<times> string) \<times> param_cell) list" by (induction xs) auto
  ultimately show ?thesis by (simp add: del repo_simps stored_def fun_eq_iff)
qed

lemma invalidate_up: "rd_faults (pr_cache r) = [] \<Longrightarrow> rd_faults (pr_cache (invalidate s r)) = []"
  by (simp add: invalidate_def cache_Delete_def redis_del_def next_fault_def)

lemma delete_cache_up:
  assumes "rd_faults (pr_cache r) = []"
  shows "rd_faults (pr_cache (snd (DeleteDeviceParameters s r))) = []"
  using assms invalidate_up
  by (auto simp: DeleteDeviceParameters_def Let_def repo_simps db_try_def split: list.splits)

lemma cache_up: "rd_faults c = [] \<Longrightarrow> \<not> fst (next_fault c)"
  by (simp add: next_fault_def)

text \<open>What replacing the default parameters leaves in the store when it answers 200.\<close>

lemma default_params_stored:
  assumes "table_ok (w_repo w)" and "cache_ok (w_repo w)" and "rd_faults (pr_cache (w_repo w)) = []"
    and "Option.bind body unmarshal_params = Some nps"
    and "UpdateDefaultParams e body w = ((200, b), w')"
  shows "stored systemSerial (w_repo w') = map_of (case nps of None \<Rightarrow> [] | Some ps \<Rightarrow> ps)
    \<and> table_ok (w_repo w') \<and> cache_ok (w_repo w')"
proof -
  define ps where "ps = (case nps of None \<Rightarrow> [] | Some ps \<Rightarrow> ps)"
  have wf: "wf_map ps"
    using assms(4) by (cases nps) (auto simp: ps_def wf_map_def [of "[]"] bind_eq_Some_conv dest: unmarshal_params_wf)
  obtain err r where del: "DeleteDeviceParameters systemSerial (w_repo w) = (err, r)" by fastforce
  have err: "err = None"
    using assms(4,5) del by (cases err) (auto simp: UpdateDefaultParams_def writeError_def)
  have r: "table_ok r" "cache_ok r" "\<not> fst (next_fault (pr_cache r))" "stored systemSerial r = Map.empty"
    using delete_keeps_ok [of "w_repo w" systemSerial] delete_cache_up [of "w_repo w" systemSerial] assms(1-3)
      delete_stored [of systemSerial "w_repo w" r] del err
    by (simp_all add: cache_up)
  show ?thesis
  proof (cases "ps = []")
    case True
    then show ?thesis using assms(4,5) del err r by (auto simp: UpdateDefaultParams_def ps_def [symmetric])
  next
    case False
    obtain err' r' where up: "pr_UpdateParameters (e_now e) systemSerial ps r = (err', r')" by fastforce
    have "err' = None \<and> w_repo w' = r'"
      using assms(4,5) del err up False
      by (cases err') (auto simp: UpdateDefaultParams_def ps_def [symmetric] writeError_def)
    then show ?thesis
      using update_keeps_ok [OF r(1,2) wf r(3), of "e_now e" systemSerial]
        update_stores [OF r(1) wf, of "e_now e" systemSerial systemSerial] up r(4)
      by (simp add: ps_def [symmetric])
  qed
qed



text \<open>
  Replacing them is not atomic: when the insertion fails after the deletion, the answer is an error
  and the old defaults are gone.
\<close>

definition ex_defaults_world :: world where
  "ex_defaults_world = ex_world\<lparr>w_repo :=
     (snd (pr_UpdateParameters 0 systemSerial [(''a'', ''1'')] (ex_repo [])))\<lparr>pr_faults := [False, False, True]\<rparr>\<rparr>"

lemma default_params_not_atomic:
  "stored systemSerial (w_repo ex_defaults_world) ''a'' = Some ''1''"
  "case UpdateDefaultParams ex_env (Some (JObj [(''a'', JStr ''2'')])) ex_defaults_world of (resp, w') \<Rightarrow>
     resp = writeError 500 ''failed to save default params'' \<and> pr_params (w_repo w') = []"
  by code_simp+

text \<open>A summon is accepted whether or not the device has a session.\<close>

lemma summon_always_accepted:
  "serial \<noteq> [] \<Longrightarrow> fst (TriggerFullSummon_request serial a) = (202, BStatus summon_text)"
  by (simp add: TriggerFullSummon_request_def)

end
