(* ===== verification/Api_Router.thy ===== *)
theory Api_Router imports Api_Devices begin

section \<open>Tokens, middleware and the route table of the REST API\<close>

text \<open>
  internal/auth/jwt.go, internal/api/handler/auth.go, internal/api/middleware and
  internal/api/router.go. Three libraries are parameters: the JWT library (signing and parsing), the
  token bucket of golang.org/x/time/rate, and the matching of path templates of gorilla/mux. A path
  that no route takes goes to the file server of the embedded web interface, whose files are not part
  of the model.
\<close>

subsection \<open>Tokens\<close>

text \<open>Times in claims are seconds, the clock of the server is in nanoseconds.\<close>

record claims =
  cl_UserID :: string
  cl_Username :: string
  cl_IssuedAt :: int
  cl_NotBefore :: int
  cl_ExpiresAt :: int

text \<open>
  The JWT library as the code uses it: HS256 signing of claims under a secret, which may fail, and
  parsing at a time, which checks the method, the signature, that there is an expiry, and the times.
\<close>

record jwt_lib =
  jl_sign :: "string \<Rightarrow> claims \<Rightarrow> string option"
  jl_parse :: "string \<Rightarrow> int \<Rightarrow> string \<Rightarrow> claims option"

record jwt_service =
  js_secret :: string
  js_expiresIn :: int
  js_refreshExpiresIn :: int

definition numeric_date :: "int \<Rightarrow> int" where "numeric_date t = t div 1000000000"

definition sign :: "jwt_lib \<Rightarrow> jwt_service \<Rightarrow> int \<Rightarrow> string \<Rightarrow> string \<Rightarrow> int \<Rightarrow> string option" where
  "sign lib js now userID username ttl =
     jl_sign lib (js_secret js) \<lparr> cl_UserID = userID, cl_Username = username, cl_IssuedAt = numeric_date now,
       cl_NotBefore = numeric_date now, cl_ExpiresAt = numeric_date (now + ttl) \<rparr>"

definition GenerateToken :: "jwt_lib \<Rightarrow> jwt_service \<Rightarrow> int \<Rightarrow> string \<Rightarrow> string \<Rightarrow> string option" where
  "GenerateToken lib js now u n = sign lib js now u n (js_expiresIn js)"

definition GenerateRefreshToken :: "jwt_lib \<Rightarrow> jwt_service \<Rightarrow> int \<Rightarrow> string \<Rightarrow> string \<Rightarrow> string option" where
  "GenerateRefreshToken lib js now u n = sign lib js now u n (js_refreshExpiresIn js)"

definition ValidateToken :: "jwt_lib \<Rightarrow> jwt_service \<Rightarrow> int \<Rightarrow> string \<Rightarrow> claims option" where
  "ValidateToken lib js now tok =
     (case jl_parse lib (js_secret js) now tok of
        None \<Rightarrow> None
      | Some c \<Rightarrow> if cl_UserID c = [] then None else Some c)"

subsection \<open>Login and refresh\<close>

record login_request =
  lr_Username :: string
  lr_Password :: string

definition login_field :: "string \<Rightarrow> json \<Rightarrow> login_request \<Rightarrow> login_request option" where
  "login_field k v p =
     (if k = ''username'' then dec_str v (\<lambda>s p. p\<lparr>lr_Username := s\<rparr>) p
      else if k = ''password'' then dec_str v (\<lambda>s p. p\<lparr>lr_Password := s\<rparr>) p
      else Some p)"

definition decode_login :: "json option \<Rightarrow> login_request option" where
  "decode_login = unmarshal login_field \<lparr> lr_Username = [], lr_Password = [] \<rparr>"

definition refresh_field :: "string \<Rightarrow> json \<Rightarrow> string \<Rightarrow> string option" where
  "refresh_field k v t = (if k = ''refresh_token'' then dec_str v (\<lambda>s _. s) t else Some t)"

definition decode_refresh :: "json option \<Rightarrow> string option" where
  "decode_refresh = unmarshal refresh_field []"

record auth_handler =
  ah_jwt :: jwt_service
  ah_adminUser :: string
  ah_adminPass :: string

definition Login :: "jwt_lib \<Rightarrow> auth_handler \<Rightarrow> int \<Rightarrow> json option \<Rightarrow> response" where
  "Login lib h now body =
     (case decode_login body of
        None \<Rightarrow> invalid_body
      | Some r \<Rightarrow>
          if lr_Username r = [] \<or> lr_Password r = [] then bad_request ''username and password are required''
          else if lr_Username r \<noteq> ah_adminUser h \<or> lr_Password r \<noteq> ah_adminPass h
          then writeError 401 ''invalid credentials''
          else (case GenerateToken lib (ah_jwt h) now (lr_Username r) (lr_Username r) of
                  None \<Rightarrow> writeError 500 ''failed to generate token''
                | Some t \<Rightarrow>
                    (case GenerateRefreshToken lib (ah_jwt h) now (lr_Username r) (lr_Username r) of
                       None \<Rightarrow> writeError 500 ''failed to generate refresh token''
                     | Some rt \<Rightarrow> (200, BLogin t rt 86400))))"

definition Refresh :: "jwt_lib \<Rightarrow> auth_handler \<Rightarrow> int \<Rightarrow> json option \<Rightarrow> response" where
  "Refresh lib h now body =
     (case decode_refresh body of
        None \<Rightarrow> invalid_body
      | Some rt \<Rightarrow>
          if rt = [] then bad_request ''refresh_token is required''
          else (case ValidateToken lib (ah_jwt h) now rt of
                  None \<Rightarrow> writeError 401 ''invalid or expired refresh token''
                | Some c \<Rightarrow>
                    (case GenerateToken lib (ah_jwt h) now (cl_UserID c) (cl_Username c) of
                       None \<Rightarrow> writeError 500 ''failed to generate token''
                     | Some t \<Rightarrow> (200, BRefresh t 86400))))"

subsection \<open>Routes\<close>

datatype api_endpoint =
    EHealth | ELogin | ERefresh
  | EListDevices | EGetDevice | EUpdateDevice | EDeleteDevice | EGetParameters | ESummon | EProvision
  | EGetDefaults | EUpdateDefaults | ESnapshot | ECreate task_endpoint | EListTasks | EGetTask | ECancelTask
  | EStatic string

text \<open>The route table, in the order in which the routes are tried; only \<^verbatim>\<open>GET\<close> may be \<^verbatim>\<open>HEAD\<close> for the two assets.\<close>

definition device_routes :: "(string \<times> string \<times> api_endpoint) list" where
  "device_routes =
    [(''GET'', ''/devices'', EListDevices),
     (''GET'', ''/devices/{serial}'', EGetDevice),
     (''PUT'', ''/devices/{serial}'', EUpdateDevice),
     (''DELETE'', ''/devices/{serial}'', EDeleteDevice),
     (''GET'', ''/devices/{serial}/parameters'', EGetParameters),
     (''POST'', ''/devices/{serial}/summon'', ESummon),
     (''GET'', ''/devices/{serial}/provision'', EProvision),
     (''GET'', ''/config/default-params'', EGetDefaults),
     (''PUT'', ''/config/default-params'', EUpdateDefaults),
     (''POST'', ''/devices/{serial}/snapshots/last-known-good'', ESnapshot)]"

definition task_routes :: "(string \<times> string \<times> api_endpoint) list" where
  "task_routes =
    [(''POST'', ''/devices/{serial}/tasks/wifi'', ECreate TaskWifi),
     (''POST'', ''/devices/{serial}/tasks/wan'', ECreate TaskWAN),
     (''POST'', ''/devices/{serial}/tasks/lan'', ECreate TaskLAN),
     (''POST'', ''/devices/{serial}/tasks/reboot'', ECreate TaskReboot),
     (''POST'', ''/devices/{serial}/tasks/factory-reset'', ECreate TaskFactoryReset),
     (''POST'', ''/devices/{serial}/tasks/parameters'', ECreate TaskSetParams),
     (''POST'', ''/devices/{serial}/tasks/firmware'', ECreate TaskFirmware),
     (''POST'', ''/devices/{serial}/tasks/diagnostic'', ECreate TaskDiagnostic),
     (''POST'', ''/devices/{serial}/tasks/ping'', ECreate TaskPing),
     (''POST'', ''/devices/{serial}/tasks/traceroute'', ECreate TaskTraceroute),
     (''POST'', ''/devices/{serial}/tasks/speed-test'', ECreate TaskSpeedTest),
     (''POST'', ''/devices/{serial}/tasks/connected-devices'', ECreate TaskConnectedDevices),
     (''POST'', ''/devices/{serial}/tasks/cpe-stats'', ECreate TaskCPEStats),
     (''POST'', ''/devices/{serial}/tasks/port-forwarding'', ECreate TaskPortForwarding),
     (''GET'', ''/devices/{serial}/tasks'', EListTasks),
     (''GET'', ''/tasks/{task_id}'', EGetTask),
     (''DELETE'', ''/tasks/{task_id}'', ECancelTask)]"

definition api_prefix :: string where "api_prefix = ''/api/v1''"

text \<open>All routes: the method, the template, and whether it belongs to the router with \<^verbatim>\<open>JWTAuth\<close>.\<close>

definition all_routes :: "(string \<times> string \<times> bool \<times> api_endpoint) list" where
  "all_routes =
     (''GET'', ''/health'', False, EHealth) #
     (''POST'', api_prefix @ ''/auth/login'', False, ELogin) #
     (''POST'', api_prefix @ ''/auth/refresh'', False, ERefresh) #
     map (\<lambda>(m, t, ep). (m, api_prefix @ t, True, ep)) (device_routes @ task_routes) @
     [(''GET'', ''/app.js'', False, EStatic ''app.js''), (''HEAD'', ''/app.js'', False, EStatic ''app.js''),
      (''GET'', ''/style.css'', False, EStatic ''style.css''), (''HEAD'', ''/style.css'', False, EStatic ''style.css'')]"

text \<open>The first route whose method and template match, with the variables of the template.\<close>

type_synonym path_match = "string \<Rightarrow> string \<Rightarrow> params option"

fun find_route ::
    "path_match \<Rightarrow> string \<Rightarrow> string \<Rightarrow> (string \<times> string \<times> bool \<times> api_endpoint) list \<Rightarrow> (bool \<times> api_endpoint \<times> params) option" where
  "find_route mx meth path [] = None"
| "find_route mx meth path ((m, t, p, ep) # rs) =
     (case (if meth = m then mx t path else None) of
        Some vars \<Rightarrow> Some (p, ep, vars)
      | None \<Rightarrow> find_route mx meth path rs)"

subsection \<open>Middleware\<close>

text \<open>
  A limiter is the list of the times it was asked at, newest first, and the library decides from it
  whether one more request is allowed at 100 per second with a burst of 50.
\<close>

record ip_limiter =
  il_calls :: "int list"
  il_lastSeen :: int

type_synonym rate_limiter = "(string, ip_limiter) gomap"

type_synonym rate_lib = "int \<Rightarrow> int \<Rightarrow> int list \<Rightarrow> int \<Rightarrow> bool"

definition getLimiter :: "int \<Rightarrow> string \<Rightarrow> rate_limiter \<Rightarrow> ip_limiter \<times> rate_limiter" where
  "getLimiter now ip rl =
     (let l = (case map_of rl ip of None \<Rightarrow> \<lparr> il_calls = [], il_lastSeen = 0 \<rparr> | Some l \<Rightarrow> l);
          l = l\<lparr>il_lastSeen := now\<rparr>
      in (l, mput ip l rl))"

definition limiter_cleanup :: "int \<Rightarrow> rate_limiter \<Rightarrow> rate_limiter" where
  "limiter_cleanup now rl = filter (\<lambda>x. \<not> time_sub now (il_lastSeen (snd x)) > 300000000000) rl"

definition RateLimit :: "rate_lib \<Rightarrow> int \<Rightarrow> string \<Rightarrow> rate_limiter \<Rightarrow> bool \<times> rate_limiter" where
  "RateLimit allow now ip rl =
     (case getLimiter now ip rl of
        (l, rl') \<Rightarrow> (allow 100 50 (il_calls l) now, mput ip (l\<lparr>il_calls := now # il_calls l\<rparr>) rl'))"

text \<open>The token of the \<^verbatim>\<open>Authorization\<close> header, or the message of the 401.\<close>

definition bearer_token :: "string \<Rightarrow> string + string" where
  "bearer_token h =
     (if h = [] then Inl ''missing Authorization header''
      else if \<not> has_prefix h ''Bearer '' then Inl ''authorization header must use Bearer scheme''
      else if trim_prefix h ''Bearer '' = [] then Inl ''bearer token is empty''
      else Inr (trim_prefix h ''Bearer ''))"

definition JWTAuth :: "jwt_lib \<Rightarrow> jwt_service \<Rightarrow> int \<Rightarrow> string \<Rightarrow> response option" where
  "JWTAuth lib js now h =
     (case bearer_token h of
        Inl msg \<Rightarrow> Some (writeError 401 msg)
      | Inr tok \<Rightarrow>
          (case ValidateToken lib js now tok of
             None \<Rightarrow> Some (writeError 401 ''invalid or expired token'')
           | Some _ \<Rightarrow> None))"

subsection \<open>A request\<close>

text \<open>
  The method, the path, the headers and the body, the address of the client without its port, and the
  UUID a new task takes.
\<close>

record api_request =
  aq_method :: string
  aq_path :: string
  aq_query :: params
  aq_authorization :: string
  aq_body :: "json option"
  aq_ip :: string
  aq_uuid :: string

text \<open>The libraries, the configuration, and whether the pings of the two servers succeed.\<close>

record api_config =
  ac_jwtlib :: jwt_lib
  ac_allow :: rate_lib
  ac_match :: path_match
  ac_auth :: auth_handler
  ac_maxAttempts :: int
  ac_pings :: "bool \<times> bool"

record api_state =
  as_acs :: acs
  as_limits :: rate_limiter

datatype api_answer = Answer response | ServeFile string

definition on_world :: "(world \<Rightarrow> response \<times> world) \<Rightarrow> acs \<Rightarrow> response \<times> acs" where
  "on_world f a = (case f (ac_world a) of (r, w) \<Rightarrow> (r, a\<lparr>ac_world := w\<rparr>))"

definition device_request :: "params \<Rightarrow> device_query" where
  "device_request q = \<lparr> dq_page = mget q ''page'', dq_limit = mget q ''limit'', dq_manufacturer = mget q ''manufacturer'',
     dq_model = mget q ''model'', dq_online = mget q ''online'', dq_tag = mget q ''tag'', dq_wan_ip = mget q ''wan_ip'' \<rparr>"

definition handle :: "api_config \<Rightarrow> env \<Rightarrow> api_request \<Rightarrow> api_endpoint \<Rightarrow> params \<Rightarrow> acs \<Rightarrow> api_answer \<times> acs" where
  "handle cfg e rq ep vars a =
     (let serial = mget vars ''serial''; body = aq_body rq; q = aq_query rq;
          auth = ac_auth cfg; lib = ac_jwtlib cfg
      in case ep of
           EHealth \<Rightarrow> (Answer (health_check (fst (ac_pings cfg)) (snd (ac_pings cfg))), a)
         | ELogin \<Rightarrow> (Answer (Login lib auth (e_now e) body), a)
         | ERefresh \<Rightarrow> (Answer (Refresh lib auth (e_now e) body), a)
         | EListDevices \<Rightarrow> map_prod Answer id (on_world (List_devices (device_request q)) a)
         | EGetDevice \<Rightarrow> map_prod Answer id (on_world (Get_device serial) a)
         | EUpdateDevice \<Rightarrow> map_prod Answer id (on_world (Update_device e serial body) a)
         | EDeleteDevice \<Rightarrow> map_prod Answer id (on_world (Delete_device_request serial) a)
         | EGetParameters \<Rightarrow> map_prod Answer id (on_world (GetParameters_request serial) a)
         | ESummon \<Rightarrow> map_prod Answer id (TriggerFullSummon_request serial a)
         | EProvision \<Rightarrow> map_prod Answer id (on_world (GetProvisionInfo serial) a)
         | EGetDefaults \<Rightarrow> map_prod Answer id (on_world GetDefaultParams a)
         | EUpdateDefaults \<Rightarrow> map_prod Answer id (on_world (UpdateDefaultParams e body) a)
         | ESnapshot \<Rightarrow> map_prod Answer id (on_world (SaveLastKnownGood e serial) a)
         | ECreate k \<Rightarrow> map_prod Answer id
             (on_world (create_task k e (aq_uuid rq) (task_max_attempts (ac_maxAttempts cfg)) serial body) a)
         | EListTasks \<Rightarrow> map_prod Answer id
             (on_world (ListByDevice serial (mget q ''page'') (mget q ''limit'')) a)
         | EGetTask \<Rightarrow> map_prod Answer id (on_world (Get_task (mget vars ''task_id'')) a)
         | ECancelTask \<Rightarrow> map_prod Answer id (on_world (Cancel_task e (mget vars ''task_id'')) a)
         | EStatic f \<Rightarrow> (ServeFile f, a))"

definition routed :: "api_config \<Rightarrow> env \<Rightarrow> api_request \<Rightarrow> acs \<Rightarrow> api_answer \<times> acs" where
  "routed cfg e rq a =
     (case find_route (ac_match cfg) (aq_method rq) (aq_path rq) all_routes of
        None \<Rightarrow> (ServeFile (aq_path rq), a)
      | Some (protected, ep, vars) \<Rightarrow>
          (case (if protected then JWTAuth (ac_jwtlib cfg) (ah_jwt (ac_auth cfg)) (e_now e) (aq_authorization rq) else None) of
             Some r \<Rightarrow> (Answer r, a)
           | None \<Rightarrow> handle cfg e rq ep vars a))"

text \<open>A preflight is answered at once; the headers are not part of the model.\<close>

definition CORS ::
    "api_request \<Rightarrow> (api_state \<Rightarrow> api_answer \<times> api_state) \<Rightarrow> api_state \<Rightarrow> api_answer \<times> api_state" where
  "CORS rq next_handler st =
     (if aq_method rq = ''OPTIONS'' then (Answer (204, BNothing), st) else next_handler st)"

text \<open>The whole stack: a preflight, then the rate limit, then the route.\<close>

definition serve_api :: "api_config \<Rightarrow> env \<Rightarrow> api_request \<Rightarrow> api_state \<Rightarrow> api_answer \<times> api_state" where
  "serve_api cfg e rq =
     CORS rq (\<lambda>st.
       case RateLimit (ac_allow cfg) (e_now e) (aq_ip rq) (as_limits st) of
         (False, rl) \<Rightarrow> (Answer (writeError 429 ''rate limit exceeded''), st\<lparr>as_limits := rl\<rparr>)
       | (True, rl) \<Rightarrow>
           (case routed cfg e rq (as_acs st) of
              (ans, a) \<Rightarrow> (ans, \<lparr> as_acs = a, as_limits = rl \<rparr>)))"

subsection \<open>Facts: routes\<close>

lemma find_route_in: "find_route mx m path rs = Some (p, ep, vars) \<Longrightarrow> \<exists>m t. (m, t, p, ep) \<in> set rs"
  by (induction mx m path rs rule: find_route.induct) (auto split: option.splits if_splits)

definition public_endpoint :: "api_endpoint \<Rightarrow> bool" where
  "public_endpoint ep \<longleftrightarrow> (case ep of EHealth \<Rightarrow> True | ELogin \<Rightarrow> True | ERefresh \<Rightarrow> True | EStatic _ \<Rightarrow> True | _ \<Rightarrow> False)"

lemma public_routes: "(m, t, False, ep) \<in> set all_routes \<Longrightarrow> public_endpoint ep"
  by (auto simp: all_routes_def public_endpoint_def)

text \<open>The traffic series that the documentation of the router lists has no route.\<close>

lemma traffic_not_routed:
  "''/api/v1/devices/{serial}/traffic'' \<notin> set (map (fst \<circ> snd) all_routes)"
  by (simp add: all_routes_def api_prefix_def device_routes_def task_routes_def)

subsection \<open>Facts: tokens\<close>

text \<open>What is documented of the library: the claims of a token are the signed ones, within their times.\<close>

definition jwt_ok :: "jwt_lib \<Rightarrow> bool" where
  "jwt_ok lib \<longleftrightarrow> (\<forall>secret c tok now. jl_sign lib secret c = Some tok \<longrightarrow>
     jl_parse lib secret now tok =
       (if cl_NotBefore c * 1000000000 \<le> now \<and> now < cl_ExpiresAt c * 1000000000 then Some c else None))"

lemma generated_token_validates:
  assumes "jwt_ok lib" and "sign lib js t u n ttl = Some tok" and "u \<noteq> []"
    and "t \<le> now" and "now < numeric_date (t + ttl) * 1000000000"
  shows "\<exists>c. ValidateToken lib js now tok = Some c \<and> cl_UserID c = u \<and> cl_Username c = n"
proof -
  have "numeric_date t * 1000000000 \<le> now" using assms(4) by (simp add: numeric_date_def)
  then show ?thesis using assms by (simp add: ValidateToken_def sign_def jwt_ok_def)
qed

text \<open>The token a login answers with opens the protected routes until it expires.\<close>

lemma login_opens_api:
  assumes "jwt_ok lib" and "Login lib h t body = (200, BLogin tok rt secs)"
    and "t \<le> now" and "now < numeric_date (t + js_expiresIn (ah_jwt h)) * 1000000000" and "tok \<noteq> []"
  shows "JWTAuth lib (ah_jwt h) now (''Bearer '' @ tok) = None"
proof -
  obtain u where u: "sign lib (ah_jwt h) t u u (js_expiresIn (ah_jwt h)) = Some tok" "u \<noteq> []"
    using assms(2)
    by (auto simp: Login_def GenerateToken_def invalid_body_def bad_request_def writeError_def split: option.splits if_splits)
  have "bearer_token (''Bearer '' @ tok) = Inr tok"
    using assms(5) has_prefix_append [of "''Bearer ''" tok] by (simp add: bearer_token_def trim_prefix_def)
  then show ?thesis
    using generated_token_validates [OF assms(1) u(1,2) assms(3,4)] by (auto simp: JWTAuth_def)
qed

text \<open>A token that opens the routes also renews itself: access tokens are refresh tokens.\<close>

lemma access_token_refreshes:
  assumes "JWTAuth lib (ah_jwt h) now (''Bearer '' @ tok) = None" and "\<forall>s c. jl_sign lib s c \<noteq> None"
  shows "\<exists>t. Refresh lib h now (Some (JObj [(''refresh_token'', JStr tok)])) = (200, BRefresh t 86400)"
proof -
  have "bearer_token (''Bearer '' @ tok) = (if tok = [] then Inl ''bearer token is empty'' else Inr tok)"
    using has_prefix_append [of "''Bearer ''" tok] by (simp add: bearer_token_def trim_prefix_def)
  then obtain c where c: "ValidateToken lib (ah_jwt h) now tok = Some c" "tok \<noteq> []"
    using assms(1) by (auto simp: JWTAuth_def split: if_splits option.splits)
  have "decode_refresh (Some (JObj [(''refresh_token'', JStr tok)])) = Some tok"
    by (simp add: decode_refresh_def unmarshal_def dec_struct_def refresh_field_def dec_str_def to_lower_def lower_char_def)
  then show ?thesis
    using c assms(2) by (simp add: Refresh_def GenerateToken_def sign_def split: option.splits) (metis option.distinct(1))
qed

text \<open>The lifetime a login announces is a day, whatever the configured one is.\<close>

lemma announced_lifetime:
  "Login lib h now body = (200, BLogin tok rt secs) \<Longrightarrow> secs = 86400"
  by (auto simp: Login_def invalid_body_def bad_request_def writeError_def split: option.splits if_splits)

subsection \<open>Facts: what a client without a token can do\<close>

definition operator_login :: "api_config \<Rightarrow> api_request \<Rightarrow> bool" where
  "operator_login cfg rq \<longleftrightarrow>
     (case decode_login (aq_body rq) of
        None \<Rightarrow> False
      | Some r \<Rightarrow> lr_Username r = ah_adminUser (ac_auth cfg) \<and> lr_Password r = ah_adminPass (ac_auth cfg))"

text \<open>The tokens a request carries, and those an answer hands out.\<close>

definition request_tokens :: "api_request \<Rightarrow> string set" where
  "request_tokens rq =
     (case bearer_token (aq_authorization rq) of Inl _ \<Rightarrow> {} | Inr t \<Rightarrow> {t}) \<union> set_option (decode_refresh (aq_body rq))"

definition answer_tokens :: "api_answer \<Rightarrow> string set" where
  "answer_tokens ans =
     (case ans of Answer (_, BLogin t rt _) \<Rightarrow> {t, rt} | Answer (_, BRefresh t _) \<Rightarrow> {t} | _ \<Rightarrow> {})"

definition token_valid :: "api_config \<Rightarrow> int \<Rightarrow> string \<Rightarrow> bool" where
  "token_valid cfg now t \<longleftrightarrow> jl_parse (ac_jwtlib cfg) (js_secret (ah_jwt (ac_auth cfg))) now t \<noteq> None"

lemma answer_tokens_error [simp]: "answer_tokens (Answer (writeError c m)) = {}"
  by (simp add: answer_tokens_def writeError_def)

lemma answer_tokens_public [simp]:
  "answer_tokens (Answer (health_check a b)) = {}" "answer_tokens (ServeFile f) = {}"
  by (simp_all add: answer_tokens_def health_check_def)

lemma JWTAuth_refuses:
  assumes "\<forall>t \<in> request_tokens rq. \<not> token_valid cfg now t"
  shows "\<exists>r. JWTAuth (ac_jwtlib cfg) (ah_jwt (ac_auth cfg)) now (aq_authorization rq) = Some r \<and>
     answer_tokens (Answer r) = {} \<and> fst r = 401"
  using assms
  by (auto simp: JWTAuth_def request_tokens_def token_valid_def ValidateToken_def writeError_def answer_tokens_def
      split: sum.splits option.splits)

lemma Login_refuses:
  assumes "\<not> operator_login cfg rq"
  shows "answer_tokens (Answer (Login lib (ac_auth cfg) now (aq_body rq))) = {}"
  using assms
  by (auto simp: Login_def operator_login_def invalid_body_def bad_request_def split: option.splits)

lemma Refresh_refuses:
  assumes "\<forall>t \<in> request_tokens rq. \<not> token_valid cfg now t"
  shows "answer_tokens (Answer (Refresh (ac_jwtlib cfg) (ac_auth cfg) now (aq_body rq))) = {}"
  using assms
  by (auto simp: Refresh_def request_tokens_def token_valid_def ValidateToken_def invalid_body_def bad_request_def
      split: option.splits)

lemma routed_unauthorised:
  assumes "\<forall>t \<in> request_tokens rq. \<not> token_valid cfg (e_now e) t" and "\<not> operator_login cfg rq"
    and "routed cfg e rq a = (ans, a')"
  shows "a' = a \<and> answer_tokens ans = {}"
proof (cases "find_route (ac_match cfg) (aq_method rq) (aq_path rq) all_routes")
  case None
  then show ?thesis using assms(3) by (auto simp: routed_def answer_tokens_def)
next
  case (Some x)
  obtain p ep vars where x: "x = (p, ep, vars)" by (cases x)
  show ?thesis
  proof (cases p)
    case True
    then show ?thesis using assms(3) Some x JWTAuth_refuses [OF assms(1)] by (auto simp: routed_def)
  next
    case False
    then have "public_endpoint ep" using find_route_in Some x public_routes by metis
    then show ?thesis
      using assms(3) Some x False Login_refuses [OF assms(2)] Refresh_refuses [OF assms(1)]
      by (auto simp: routed_def handle_def public_endpoint_def split: api_endpoint.splits)
  qed
qed

lemma serve_api_unauthorised:
  assumes "\<forall>t \<in> request_tokens rq. \<not> token_valid cfg (e_now e) t" and "\<not> operator_login cfg rq"
    and "serve_api cfg e rq st = (ans, st')"
  shows "as_acs st' = as_acs st \<and> answer_tokens ans = {}"
proof -
  have "answer_tokens (Answer (204, BNothing)) = {}" by (simp add: answer_tokens_def)
  then show ?thesis
    using assms(3) routed_unauthorised [OF assms(1,2), of "as_acs st"]
    by (auto simp: serve_api_def CORS_def split: if_splits prod.splits bool.splits)
qed

text \<open>
  A run of requests, oldest first, with the tokens handed out so far. That HS256 signatures cannot be
  forged is a premise of each step: a token that the library accepts was handed out before.
\<close>

inductive api_run :: "api_config \<Rightarrow> api_state \<Rightarrow> api_request list \<Rightarrow> api_state \<Rightarrow> string set \<Rightarrow> bool" for cfg st0 where
  start: "api_run cfg st0 [] st0 {}"
| serve: "api_run cfg st0 rqs st T \<Longrightarrow> \<forall>t \<in> request_tokens rq. token_valid cfg (e_now e) t \<longrightarrow> t \<in> T \<Longrightarrow>
    serve_api cfg e rq st = (ans, st') \<Longrightarrow> api_run cfg st0 (rqs @ [rq]) st' (T \<union> answer_tokens ans)"
| cleanup: "api_run cfg st0 rqs st T \<Longrightarrow>
    api_run cfg st0 rqs (st\<lparr>as_limits := limiter_cleanup now (as_limits st)\<rparr>) T"

text \<open>
  Without the operator's credentials the REST API is closed: as long as no request of a run carried
  the configured user name and password, every device, task, parameter and session is as it was at the
  start and no token has been handed out, whatever the requests, their tokens, paths and bodies are.
\<close>

lemma nothing_before_login:
  assumes "api_run cfg st0 rqs st T" and "\<forall>rq \<in> set rqs. \<not> operator_login cfg rq"
  shows "as_acs st = as_acs st0 \<and> T = {}"
  using assms
proof (induction rule: api_run.induct)
  case (serve rqs st T rq e ans st')
  have IH: "as_acs st = as_acs st0" "T = {}" using serve by simp_all
  have invalid: "\<forall>t \<in> request_tokens rq. \<not> token_valid cfg (e_now e) t" using serve.hyps(2) IH(2) by blast
  show ?case using serve_api_unauthorised [OF invalid _ serve.hyps(3)] serve.prems IH by simp
qed simp_all

text \<open>A library that knows one token.\<close>

definition ex_claims :: claims where
  "ex_claims = \<lparr> cl_UserID = ''admin'', cl_Username = ''admin'', cl_IssuedAt = 0, cl_NotBefore = 0, cl_ExpiresAt = 100 \<rparr>"

definition ex_jwt :: jwt_lib where
  "ex_jwt = \<lparr> jl_sign = (\<lambda>s c. if s = ''k'' \<and> c = ex_claims then Some ''tok'' else None),
     jl_parse = (\<lambda>s now t. if s = ''k'' \<and> t = ''tok'' \<and> 0 \<le> now \<and> now < 100000000000 then Some ex_claims else None) \<rparr>"

lemma ex_jwt_ok: "jwt_ok ex_jwt"
  by (simp add: jwt_ok_def ex_jwt_def ex_claims_def)

definition ex_api_config :: api_config where
  "ex_api_config = \<lparr> ac_jwtlib = ex_jwt, ac_allow = (\<lambda>rps burst calls now. length calls < nat burst),
     ac_match = (\<lambda>t path. if t = path then Some [] else None),
     ac_auth = \<lparr> ah_jwt = \<lparr> js_secret = ''k'', js_expiresIn = 100000000000, js_refreshExpiresIn = 100000000000 \<rparr>,
       ah_adminUser = ''admin'', ah_adminPass = ''pw'' \<rparr>, ac_maxAttempts = 3, ac_pings = (True, True) \<rparr>"

definition ex_put_defaults :: api_request where
  "ex_put_defaults = \<lparr> aq_method = ''PUT'', aq_path = ''/api/v1/config/default-params'', aq_query = [],
     aq_authorization = ''Bearer guess'', aq_body = Some (JObj []), aq_ip = ''10.0.0.9'', aq_uuid = ''id9'' \<rparr>"

lemma nothing_before_login_witness:
  "\<exists>ans st'. serve_api ex_api_config ex_env ex_put_defaults \<lparr> as_acs = ex_acs, as_limits = [] \<rparr> = (ans, st') \<and>
     as_acs st' = ex_acs"
proof -
  let ?st0 = "\<lparr> as_acs = ex_acs, as_limits = [] \<rparr>"
  obtain ans st' where run: "serve_api ex_api_config ex_env ex_put_defaults ?st0 = (ans, st')" by fastforce
  have bearer: "bearer_token ''Bearer guess'' = Inr ''guess''"
    using has_prefix_append [of "''Bearer ''" "''guess''"] by (simp add: bearer_token_def trim_prefix_def)
  have "decode_refresh (Some (JObj [])) = Some []" "\<not> operator_login ex_api_config ex_put_defaults"
    by (simp_all add: operator_login_def decode_login_def decode_refresh_def unmarshal_def dec_struct_def ex_put_defaults_def
        ex_api_config_def)
  moreover have "\<not> token_valid ex_api_config now t" if "t \<in> {''guess'', []}" for now t
    using that by (auto simp: token_valid_def ex_api_config_def ex_jwt_def)
  ultimately have "api_run ex_api_config ?st0 [ex_put_defaults] st' ({} \<union> answer_tokens ans)"
    using api_run.serve [OF api_run.start _ run] bearer by (simp add: request_tokens_def ex_put_defaults_def)
  then show ?thesis
    using nothing_before_login [of ex_api_config ?st0 "[ex_put_defaults]" st'] run
      \<open>\<not> operator_login ex_api_config ex_put_defaults\<close> by auto
qed

end
