(* ===== verification/Md5.thy ===== *)
theory Md5 imports Acs_Prelude "HOL-Library.Word" begin

unbundle bit_operations_syntax

section \<open>MD5 in hexadecimal\<close>

text \<open>
  \<^verbatim>\<open>md5hex\<close> of internal/auth/digest.go: the MD5 digest of crypto/md5 (RFC 1321) on 32-bit words, printed
  with \<^verbatim>\<open>%x\<close>. A string is its bytes. The words and the length are little-endian.
\<close>

type_synonym chain = "32 word \<times> 32 word \<times> 32 word \<times> 32 word"

definition md5_table :: "32 word list" where
  "md5_table = [
     0xd76aa478, 0xe8c7b756, 0x242070db, 0xc1bdceee, 0xf57c0faf, 0x4787c62a, 0xa8304613, 0xfd469501,
     0x698098d8, 0x8b44f7af, 0xffff5bb1, 0x895cd7be, 0x6b901122, 0xfd987193, 0xa679438e, 0x49b40821,
     0xf61e2562, 0xc040b340, 0x265e5a51, 0xe9b6c7aa, 0xd62f105d, 0x02441453, 0xd8a1e681, 0xe7d3fbc8,
     0x21e1cde6, 0xc33707d6, 0xf4d50d87, 0x455a14ed, 0xa9e3e905, 0xfcefa3f8, 0x676f02d9, 0x8d2a4c8a,
     0xfffa3942, 0x8771f681, 0x6d9d6122, 0xfde5380c, 0xa4beea44, 0x4bdecfa9, 0xf6bb4b60, 0xbebfbc70,
     0x289b7ec6, 0xeaa127fa, 0xd4ef3085, 0x04881d05, 0xd9d4d039, 0xe6db99e5, 0x1fa27cf8, 0xc4ac5665,
     0xf4292244, 0x432aff97, 0xab9423a7, 0xfc93a039, 0x655b59c3, 0x8f0ccc92, 0xffeff47d, 0x85845dd1,
     0x6fa87e4f, 0xfe2ce6e0, 0xa3014314, 0x4e0811a1, 0xf7537e82, 0xbd3af235, 0x2ad7d2bb, 0xeb86d391]"

definition md5_shifts :: "nat list" where
  "md5_shifts = [7, 12, 17, 22, 5, 9, 14, 20, 4, 11, 16, 23, 6, 10, 15, 21]"

definition rotl32 :: "nat \<Rightarrow> 32 word \<Rightarrow> 32 word" where
  "rotl32 n x = push_bit n x OR drop_bit (32 - n) x"

definition md5_mix :: "nat \<Rightarrow> 32 word \<Rightarrow> 32 word \<Rightarrow> 32 word \<Rightarrow> 32 word \<times> nat" where
  "md5_mix i b c d =
     (if i < 16 then ((b AND c) OR (NOT b AND d), i)
      else if i < 32 then ((d AND b) OR (NOT d AND c), (5 * i + 1) mod 16)
      else if i < 48 then (b XOR c XOR d, (3 * i + 5) mod 16)
      else (c XOR (b OR NOT d), 7 * i mod 16))"

definition md5_step :: "32 word list \<Rightarrow> nat \<Rightarrow> chain \<Rightarrow> chain" where
  "md5_step m i h =
     (case h of (a, b, c, d) \<Rightarrow>
        (case md5_mix i b c d of (f, g) \<Rightarrow>
           (d, b + rotl32 (md5_shifts ! (4 * (i div 16) + i mod 4)) (a + f + md5_table ! i + m ! g), b, c)))"

definition md5_block :: "32 word list \<Rightarrow> chain \<Rightarrow> chain" where
  "md5_block m h =
     (case (h, fold (md5_step m) [0..<64] h) of
        ((a, b, c, d), (a', b', c', d')) \<Rightarrow> (a + a', b + b', c + c', d + d'))"

fun chunks_of :: "nat \<Rightarrow> 'a list \<Rightarrow> 'a list list" where
  "chunks_of n xs = (if n = 0 \<or> xs = [] then [] else take n xs # chunks_of n (drop n xs))"

declare chunks_of.simps [simp del]

definition le_bytes :: "nat \<Rightarrow> nat \<Rightarrow> nat list" where
  "le_bytes k n = map (\<lambda>i. n div 256 ^ i mod 256) [0..<k]"

definition le_word :: "nat list \<Rightarrow> 32 word" where
  "le_word bs = word_of_nat (foldr (\<lambda>b n. b + 256 * n) bs 0)"

definition md5_pad :: "nat list \<Rightarrow> nat list" where
  "md5_pad bs = bs @ 128 # replicate ((119 - length bs mod 64) mod 64) 0 @ le_bytes 8 (8 * length bs)"

definition md5_sum :: "string \<Rightarrow> nat list" where
  "md5_sum s =
     (case fold (\<lambda>block. md5_block (map le_word (chunks_of 4 block))) (chunks_of 64 (md5_pad (map of_char s)))
             (0x67452301, 0xefcdab89, 0x98badcfe, 0x10325476) of
        (a, b, c, d) \<Rightarrow> concat (map (le_bytes 4 \<circ> unat) [a, b, c, d]))"

definition hex_alphabet :: string where "hex_alphabet = ''0123456789abcdef''"

definition hex_digit :: "nat \<Rightarrow> char" where
  "hex_digit n = hex_alphabet ! n"

definition hex_byte :: "nat \<Rightarrow> string" where
  "hex_byte b = [hex_digit (b div 16), hex_digit (b mod 16)]"

definition md5hex :: "string \<Rightarrow> string" where
  "md5hex s = concat (map hex_byte (md5_sum s))"

subsection \<open>A test vector, and the characters of a digest\<close>

lemma chunks_of_step: "0 < n \<Longrightarrow> length xs = n \<Longrightarrow> chunks_of n (xs @ ys) = xs # chunks_of n ys"
  by (subst chunks_of.simps) auto

lemma chunks_of_zeros: "0 < n \<Longrightarrow> chunks_of n (replicate (n * k) x) = replicate k (replicate n x)"
proof (induction k)
  case (Suc k)
  then show ?case by (simp add: replicate_add chunks_of_step)
qed (simp add: chunks_of.simps)

lemma chunk1: "0 < n \<Longrightarrow> length xs = n \<Longrightarrow> chunks_of n xs = [xs]"
  using chunks_of_step [of n xs "[]"] by (simp add: chunks_of.simps)

lemma md5_pad_Nil: "md5_pad [] = 128 # replicate 63 0"
proof -
  have "le_bytes 8 0 = replicate 8 0" by (simp add: le_bytes_def map_replicate_const)
  then show ?thesis by (simp add: md5_pad_def flip: replicate_add)
qed

lemma md5_words_Nil: "map le_word (chunks_of 4 (128 # replicate 63 0)) = 128 # replicate 15 0"
proof -
  have "chunks_of 4 ((128 # replicate 3 0) @ replicate (4 * 15) (0::nat)) = (128 # replicate 3 0) # replicate 15 (replicate 4 0)"
    by (subst chunks_of_step) (simp_all add: chunks_of_zeros [of 4 15 0, simplified])
  moreover have "(128 # replicate 3 0) @ replicate (4 * 15) (0::nat) = 128 # replicate 63 0"
    by (simp flip: replicate_add)
  moreover have "le_word (128 # replicate 3 0) = 128" "le_word (replicate 4 0) = 0"
  proof -
    have "replicate 3 (0::nat) = [0, 0, 0]" "replicate 4 (0::nat) = [0, 0, 0, 0]" by (simp_all add: numeral_eq_Suc)
    then show "le_word (128 # replicate 3 0) = 128" "le_word (replicate 4 0) = 0" by (simp_all add: le_word_def)
  qed
  ultimately show ?thesis by (simp add: map_replicate)
qed

lemma rounds_0:
  "fold (md5_step (128 # replicate 15 0)) [0..<16] (0x67452301, 0xefcdab89, 0x98badcfe, 0x10325476) =
     (0xf56c7cf1, 0xd6819c6a, 0x5aa53f75, 0x374943a7)"
  by (simp add: upt_rec md5_step_def md5_mix_def rotl32_def md5_shifts_def md5_table_def)

lemma rounds_1:
  "fold (md5_step (128 # replicate 15 0)) [16..<32] (0xf56c7cf1, 0xd6819c6a, 0x5aa53f75, 0x374943a7) =
     (0x13707036, 0xa2205f1f, 0x1c31c384, 0xae7813db)"
  by (simp add: upt_rec md5_step_def md5_mix_def rotl32_def md5_shifts_def md5_table_def)

lemma rounds_2:
  "fold (md5_step (128 # replicate 15 0)) [32..<48] (0x13707036, 0xa2205f1f, 0x1c31c384, 0xae7813db) =
     (0x3f55edfd, 0xca7d2dbd, 0x68d84ea2, 0x22a31f54)"
  by (simp add: upt_rec md5_step_def md5_mix_def rotl32_def md5_shifts_def md5_table_def)

lemma rounds_3:
  "fold (md5_step (128 # replicate 15 0)) [48..<64] (0x3f55edfd, 0xca7d2dbd, 0x68d84ea2, 0x22a31f54) =
     (0x7246fad3, 0x14e45506, 0xff4ea3eb, 0x6e10a476)"
  by (simp add: upt_rec md5_step_def md5_mix_def rotl32_def md5_shifts_def md5_table_def)

text \<open>The digest of the empty string, as in RFC 1321.\<close>

lemma md5hex_Nil: "md5hex [] = ''d41d8cd98f00b204e9800998ecf8427e''"
proof -
  have split: "[a..<c] = [a..<b] @ [b..<c]" if "a \<le> b" "b \<le> c" for a b c :: nat
    using upt_add_eq_append [of a b "c - b"] that by simp
  have "[0..<64] = [0..<16] @ [16..<64]" "[16..<64] = [16..<32] @ [32..<64]" "[32..<64] = [32..<48] @ [48..<64::nat]"
    by (rule split; simp)+
  then have upt: "[0..<64] = [0..<16] @ [16..<32] @ [32..<48] @ [48..<64]" by (simp only:)
  have "md5_sum [] = [212, 29, 140, 217, 143, 0, 178, 4, 233, 128, 9, 152, 236, 248, 66, 126]"
    by (simp del: upt_conv_Cons upt_rec_numeral add: md5_sum_def md5_pad_Nil chunk1 md5_words_Nil md5_block_def upt
        rounds_0 rounds_1 rounds_2 rounds_3) (simp add: le_bytes_def upt_rec)
  then show ?thesis by (simp add: md5hex_def hex_byte_def hex_digit_def hex_alphabet_def)
qed

text \<open>A digest in hexadecimal has no character that a header would have to quote.\<close>

lemma md5_sum_bytes: "b \<in> set (md5_sum s) \<Longrightarrow> b < 256"
  by (auto simp: md5_sum_def le_bytes_def split: prod.splits)

lemma md5hex_digits: "set (md5hex s) \<subseteq> set hex_alphabet"
proof -
  have digit: "hex_digit n \<in> set hex_alphabet" if "n < 16" for n
    using that by (simp add: hex_digit_def hex_alphabet_def del: list.set)
  have "set (hex_byte b) \<subseteq> set hex_alphabet" if "b < 256" for b
    using that digit [of "b div 16"] digit [of "b mod 16"] by (simp add: hex_byte_def less_mult_imp_div_less)
  then show ?thesis using md5_sum_bytes [of _ s] by (auto simp: md5hex_def)
qed

lemma md5hex_not_Nil: "md5hex s \<noteq> []"
proof -
  have "md5_sum s \<noteq> []" by (simp add: md5_sum_def le_bytes_def split: prod.splits)
  then show ?thesis by (cases "md5_sum s") (simp_all add: md5hex_def hex_byte_def)
qed

end
