(* ===== verification/Digest.thy ===== *)
theory Digest imports Md5 begin

section \<open>HTTP digest authentication of devices\<close>

text \<open>
  internal/auth/digest.go. The nonces map keeps, for each nonce issued, when it was and how often it
  was presented. A request is its method and its \<^verbatim>\<open>Authorization\<close> header, empty when absent; the clock
  and the UUID a challenge takes are arguments, and a request is one step: the mutex is released
  between the parts of a request, but each part only touches the entry of one nonce or drops old ones.
\<close>

definition digestNonceTTL :: int where "digestNonceTTL = 300000000000"

definition digestMaxNonceUse :: int where "digestMaxNonceUse = 1000"

record nonce_entry =
  ne_created :: int
  ne_used :: int

record digest_auth =
  da_realm :: string
  da_username :: string
  da_password :: string
  da_nonces :: "(string, nonce_entry) gomap"

definition NewDigestAuth :: "string \<Rightarrow> string \<Rightarrow> string \<Rightarrow> digest_auth" where
  "NewDigestAuth realm user pass =
     \<lparr> da_realm = realm, da_username = user, da_password = pass, da_nonces = [] \<rparr>"

record auth_request =
  ar_method :: string
  ar_authorization :: string

subsection \<open>The header\<close>

definition unquote :: "string \<Rightarrow> string" where
  "unquote v =
     (if 2 \<le> length v \<and> hd v = CHR 0x22 \<and> last v = CHR 0x22 then butlast (tl v) else v)"

definition digest_part :: "string \<Rightarrow> params \<Rightarrow> params" where
  "digest_part part ps =
     (case cut_at (trim_space part) CHR ''='' of
        None \<Rightarrow> ps
      | Some (k, v) \<Rightarrow> mput (trim_space k) (unquote (trim_space v)) ps)"

definition parseDigestHeader :: "string \<Rightarrow> params" where
  "parseDigestHeader s = fold digest_part (split_on CHR '','' s) []"

subsection \<open>Validation\<close>

text \<open>The response a client that knows the password computes, with and without \<^verbatim>\<open>qop\<close>.\<close>

definition expected_response :: "string \<Rightarrow> string \<Rightarrow> params \<Rightarrow> string" where
  "expected_response password meth ps =
     (let nonce = mget ps ''nonce''; qop = mget ps ''qop'';
          ha1 = md5hex (mget ps ''username'' @ '':'' @ mget ps ''realm'' @ '':'' @ password);
          ha2 = md5hex (meth @ '':'' @ mget ps ''uri'')
      in if qop = ''auth'' \<or> qop = ''auth-int''
         then md5hex (ha1 @ '':'' @ nonce @ '':'' @ mget ps ''nc'' @ '':'' @ mget ps ''cnonce'' @ '':'' @ qop @ '':'' @ ha2)
         else md5hex (ha1 @ '':'' @ nonce @ '':'' @ ha2))"

text \<open>Every known nonce counts as used, whether or not the response is right.\<close>

definition use_nonce :: "string \<Rightarrow> digest_auth \<Rightarrow> int option \<times> digest_auth" where
  "use_nonce nonce d =
     (case map_of (da_nonces d) nonce of
        None \<Rightarrow> (None, d)
      | Some n \<Rightarrow>
          (Some (ne_used n + 1), d\<lparr>da_nonces := mput nonce (n\<lparr>ne_used := ne_used n + 1\<rparr>) (da_nonces d)\<rparr>))"

definition complete :: "params \<Rightarrow> bool" where
  "complete ps \<longleftrightarrow> (\<forall>k \<in> {''username'', ''realm'', ''nonce'', ''uri'', ''response''}. mget ps k \<noteq> [])"

definition response_matches :: "string \<Rightarrow> string \<Rightarrow> params \<Rightarrow> bool" where
  "response_matches password meth ps \<longleftrightarrow>
     equal_fold (mget ps ''response'') (expected_response password meth ps)"

definition ValidateRequest :: "auth_request \<Rightarrow> digest_auth \<Rightarrow> string option \<times> digest_auth" where
  "ValidateRequest r d0 =
     (let h = ar_authorization r in
      if h = [] \<or> \<not> has_prefix h ''Digest '' then (None, d0)
      else
        let ps = parseDigestHeader (drop 7 h)
        in if \<not> complete ps then (None, d0)
           else case use_nonce (mget ps ''nonce'') d0 of
                  (None, d) \<Rightarrow> (None, d)
                | (Some used, d) \<Rightarrow>
                    if used > digestMaxNonceUse then (None, d)
                    else if \<not> response_matches (da_password d) (ar_method r) ps then (None, d)
                    else (Some (mget ps ''username''), d))"

definition newNonce :: "int \<Rightarrow> string \<Rightarrow> digest_auth \<Rightarrow> digest_auth" where
  "newNonce now uuid d = d\<lparr>da_nonces := mput uuid \<lparr> ne_created = now, ne_used = 0 \<rparr> (da_nonces d)\<rparr>"

definition cleanStaleNonces :: "int \<Rightarrow> digest_auth \<Rightarrow> digest_auth" where
  "cleanStaleNonces now d =
     d\<lparr>da_nonces := filter (\<lambda>nx. \<not> ne_created (snd nx) < now - digestNonceTTL) (da_nonces d)\<rparr>"

text \<open>The middleware challenges with a new nonce, or hands the request to the next handler.\<close>

datatype digest_outcome = Challenge string string | Passed string

definition Middleware :: "int \<Rightarrow> string \<Rightarrow> auth_request \<Rightarrow> digest_auth \<Rightarrow> digest_outcome \<times> digest_auth" where
  "Middleware now uuid r d0 =
     (case ValidateRequest r (cleanStaleNonces now d0) of
        (None, d) \<Rightarrow> (Challenge (da_realm d) uuid, newNonce now uuid d)
      | (Some username, d) \<Rightarrow> (Passed username, d))"

subsection \<open>Facts: one request\<close>

definition digest_params :: "auth_request \<Rightarrow> params" where
  "digest_params r = parseDigestHeader (drop 7 (ar_authorization r))"

abbreviation presented :: "auth_request \<Rightarrow> string" where
  "presented r \<equiv> mget (digest_params r) ''nonce''"

text \<open>A response made with the password for the nonce, the method and the URI the request names.\<close>

definition proves_password :: "string \<Rightarrow> auth_request \<Rightarrow> bool" where
  "proves_password password r \<longleftrightarrow> response_matches password (ar_method r) (digest_params r)"

lemma use_nonce_keeps [simp]:
  "use_nonce n d = (u, d') \<Longrightarrow> da_password d' = da_password d \<and> da_realm d' = da_realm d"
  by (auto simp: use_nonce_def split: option.splits)

lemma ValidateRequest_cases:
  assumes "ValidateRequest r d = (res, d')"
  obtains (untouched) "res = None" "d' = d"
    | (counted) n where "map_of (da_nonces d) (presented r) = Some n"
      "d' = d\<lparr>da_nonces := mput (presented r) (n\<lparr>ne_used := ne_used n + 1\<rparr>) (da_nonces d)\<rparr>"
      "res \<noteq> None \<Longrightarrow> ne_used n < digestMaxNonceUse \<and> proves_password (da_password d) r"
proof (cases "use_nonce (presented r) d")
  case (Pair u d1)
  then show ?thesis
    using assms that unfolding ValidateRequest_def Let_def digest_params_def [symmetric]
    by (cases "map_of (da_nonces d) (presented r)")
      (auto simp: use_nonce_def proves_password_def split: if_splits)
qed

text \<open>When a request is valid.\<close>

lemma validate_passes:
  "fst (ValidateRequest r d) = Some u \<longleftrightarrow>
     has_prefix (ar_authorization r) ''Digest '' \<and> complete (digest_params r) \<and> proves_password (da_password d) r \<and>
     u = mget (digest_params r) ''username'' \<and>
     (\<exists>n. map_of (da_nonces d) (presented r) = Some n \<and> ne_used n < digestMaxNonceUse)"
proof -
  have "has_prefix [] ''Digest '' \<longleftrightarrow> False" by (simp add: has_prefix_def)
  then show ?thesis
    unfolding ValidateRequest_def Let_def digest_params_def [symmetric]
    by (cases "ar_authorization r = []"; cases "map_of (da_nonces d) (presented r)")
      (auto simp: use_nonce_def proves_password_def)
qed

lemma Middleware_out: "fst (Middleware now uuid r d) = Passed u \<longleftrightarrow> fst (ValidateRequest r (cleanStaleNonces now d)) = Some u"
  by (simp add: Middleware_def split: prod.splits option.splits)

lemma clean_keeps [simp]:
  "da_password (cleanStaleNonces now d) = da_password d" "da_realm (cleanStaleNonces now d) = da_realm d"
  "da_password (newNonce now u d) = da_password d" "da_realm (newNonce now u d) = da_realm d"
  by (simp_all add: cleanStaleNonces_def newNonce_def)

lemma map_of_filter_Some:
  "map_of (filter P m) k = Some v \<Longrightarrow> wf_map m \<Longrightarrow> map_of m k = Some v \<and> P (k, v)"
  by (auto dest!: map_of_SomeD intro: map_of_SomeI)

subsection \<open>Facts: a run of requests\<close>

text \<open>
  What happened, newest first: a nonce issued at a time, or a request let through under a nonce at a
  time. \<^verbatim>\<open>uuid.New\<close> never repeats, so a challenge takes a nonce that was not issued before.
\<close>

datatype digest_event = Issued string int | Admitted auth_request int

definition admitted :: "string \<Rightarrow> digest_event list \<Rightarrow> nat" where
  "admitted n h = length (filter (\<lambda>e. case e of Admitted r _ \<Rightarrow> presented r = n | _ \<Rightarrow> False) h)"

definition issued :: "digest_event list \<Rightarrow> string set" where
  "issued h = {n. \<exists>t. Issued n t \<in> set h}"

inductive digest_run :: "digest_auth \<Rightarrow> digest_event list \<Rightarrow> bool" where
  start: "digest_run (NewDigestAuth realm user pass) []"
| challenged: "digest_run d h \<Longrightarrow> uuid \<notin> issued h \<Longrightarrow>
    Middleware now uuid r d = (Challenge realm uuid, d') \<Longrightarrow> digest_run d' (Issued uuid now # h)"
| passed: "digest_run d h \<Longrightarrow> Middleware now uuid r d = (Passed user, d') \<Longrightarrow>
    digest_run d' (Admitted r now # h)"

definition nonces_ok :: "digest_auth \<Rightarrow> digest_event list \<Rightarrow> bool" where
  "nonces_ok d h \<longleftrightarrow> wf_map (da_nonces d) \<and>
     (\<forall>n x. map_of (da_nonces d) n = Some x \<longrightarrow> Issued n (ne_created x) \<in> set h \<and> int (admitted n h) \<le> ne_used x) \<and>
     (\<forall>n. int (admitted n h) \<le> digestMaxNonceUse) \<and>
     (\<forall>n. 0 < admitted n h \<longrightarrow> n \<in> issued h)"

lemma nonces_ok_clean: "nonces_ok d h \<Longrightarrow> nonces_ok (cleanStaleNonces now d) h"
  unfolding nonces_ok_def cleanStaleNonces_def by (auto dest: map_of_filter_Some)

lemma nonces_ok_validate:
  assumes "nonces_ok d h" and "ValidateRequest r d = (res, d')"
  shows "nonces_ok d' h"
  using assms(2)
proof (cases rule: ValidateRequest_cases)
  case (counted n)
  then have "Issued (presented r) (ne_created n) \<in> set h \<and> int (admitted (presented r) h) \<le> ne_used n"
    using assms(1) by (simp add: nonces_ok_def)
  then show ?thesis using assms(1) by (simp add: nonces_ok_def counted(2))
qed (use assms(1) in simp)

lemma admitted_simps [simp]:
  "admitted n [] = 0" "admitted n (Issued m t # h) = admitted n h"
  "admitted n (Admitted r t # h) = (if presented r = n then Suc (admitted n h) else admitted n h)"
  by (simp_all add: admitted_def)

lemma issued_simps [simp]:
  "issued [] = {}" "issued (Issued m t # h) = insert m (issued h)" "issued (Admitted r t # h) = issued h"
  by (auto simp: issued_def)

lemma nonces_ok_challenge:
  assumes "nonces_ok d h" and "uuid \<notin> issued h"
  shows "nonces_ok (newNonce now uuid d) (Issued uuid now # h)"
proof -
  have "admitted uuid h = 0" using assms by (auto simp: nonces_ok_def)
  then show ?thesis using assms(1) by (auto simp: nonces_ok_def newNonce_def)
qed

lemma Middleware_passed:
  assumes "Middleware now uuid r d = (Passed user, d')" and "wf_map (da_nonces d)"
  shows "\<exists>n. map_of (da_nonces d) (presented r) = Some n \<and> now - digestNonceTTL \<le> ne_created n \<and>
     ne_used n < digestMaxNonceUse \<and> proves_password (da_password d) r \<and>
     d' = (cleanStaleNonces now d)\<lparr>da_nonces :=
       mput (presented r) (n\<lparr>ne_used := ne_used n + 1\<rparr>) (da_nonces (cleanStaleNonces now d))\<rparr> \<and>
     map_of (da_nonces (cleanStaleNonces now d)) (presented r) = Some n"
proof -
  have v: "ValidateRequest r (cleanStaleNonces now d) = (Some user, d')"
    using assms(1) by (auto simp: Middleware_def split: prod.splits option.splits)
  then show ?thesis
  proof (cases rule: ValidateRequest_cases)
    case (counted n)
    moreover have "map_of (da_nonces d) (presented r) = Some n \<and> \<not> ne_created n < now - digestNonceTTL"
      using map_of_filter_Some [OF counted(1) [unfolded cleanStaleNonces_def, simplified] assms(2)] by simp
    ultimately show ?thesis by auto
  qed simp
qed

lemma digest_run_ok: "digest_run d h \<Longrightarrow> nonces_ok d h"
proof (induction rule: digest_run.induct)
  case (start realm user pass)
  then show ?case by (simp add: nonces_ok_def NewDigestAuth_def digestMaxNonceUse_def)
next
  case (challenged d h uuid now r realm d')
  then obtain d1 where "ValidateRequest r (cleanStaleNonces now d) = (None, d1)" "d' = newNonce now uuid d1"
    by (auto simp: Middleware_def split: prod.splits option.splits)
  then show ?case using challenged nonces_ok_challenge nonces_ok_validate nonces_ok_clean by metis
next
  case (passed d h now uuid r user d')
  let ?c = "cleanStaleNonces now d"
  have c: "nonces_ok ?c h" using passed.IH by (rule nonces_ok_clean)
  obtain n where n: "map_of (da_nonces ?c) (presented r) = Some n" "ne_used n < digestMaxNonceUse"
      "d' = ?c\<lparr>da_nonces := mput (presented r) (n\<lparr>ne_used := ne_used n + 1\<rparr>) (da_nonces ?c)\<rparr>"
    using Middleware_passed [OF passed.hyps(2)] passed.IH by (auto simp: nonces_ok_def)
  then show ?case using c by (fastforce simp: nonces_ok_def issued_def)
qed

lemma Middleware_keeps: "Middleware now uuid r d = (out, d') \<Longrightarrow> da_password d' = da_password d"
  by (auto simp: Middleware_def split: prod.splits option.splits elim!: ValidateRequest_cases)

text \<open>
  Whatever requests came before, a request let through presents a nonce that the server issued in one
  of its challenges, at most five minutes ago, with a response computed from the configured password,
  and under no nonce are more than a thousand requests let through.
\<close>

lemma admitted_proves_password:
  assumes "digest_run d h" and "Middleware now uuid r d = (Passed user, d')"
  shows "proves_password (da_password d) r \<and>
     (\<exists>t. Issued (presented r) t \<in> set h \<and> now - 300000000000 \<le> t) \<and>
     admitted (presented r) (Admitted r now # h) \<le> 1000"
proof -
  have ok: "nonces_ok d h" "nonces_ok d' (Admitted r now # h)"
    using digest_run_ok assms(1) passed [OF assms] by blast+
  obtain n where n: "map_of (da_nonces d) (presented r) = Some n" "now - digestNonceTTL \<le> ne_created n"
      "proves_password (da_password d) r"
    using Middleware_passed [OF assms(2)] ok(1) by (auto simp: nonces_ok_def)
  have "Issued (presented r) (ne_created n) \<in> set h" using ok(1) n(1) by (simp add: nonces_ok_def)
  moreover have "int (admitted (presented r) (Admitted r now # h)) \<le> 1000"
    using ok(2) unfolding nonces_ok_def digestMaxNonceUse_def by blast
  ultimately show ?thesis using n(2,3) by (auto simp: digestNonceTTL_def simp del: admitted_simps)
qed

subsection \<open>Facts: a device that answers its challenge\<close>

text \<open>The header of a client: fields with quoted values, separated by commas.\<close>

definition quoted_field :: "string \<times> string \<Rightarrow> string" where
  "quoted_field kv = fst kv @ ''='' @ [CHR 0x22] @ snd kv @ [CHR 0x22]"

record client =
  ct_username :: string
  ct_realm :: string
  ct_uri :: string
  ct_cnonce :: string

definition answer_fields :: "client \<Rightarrow> string \<Rightarrow> params" where
  "answer_fields c nonce =
     [(''username'', ct_username c), (''realm'', ct_realm c), (''nonce'', nonce), (''uri'', ct_uri c),
      (''qop'', ''auth''), (''nc'', ''00000001''), (''cnonce'', ct_cnonce c)]"

definition client_fields :: "string \<Rightarrow> string \<Rightarrow> client \<Rightarrow> string \<Rightarrow> params" where
  "client_fields password meth c nonce =
     answer_fields c nonce @ [(''response'', expected_response password meth (answer_fields c nonce))]"

definition client_header :: "params \<Rightarrow> string" where
  "client_header kvs = ''Digest '' @ join_with '', '' (map quoted_field kvs)"

text \<open>A name that needs no quoting, and a value that has no comma.\<close>

definition plain_name :: "string \<Rightarrow> bool" where
  "plain_name k \<longleftrightarrow> k \<noteq> [] \<and> (\<forall>c \<in> set k. \<not> is_space c \<and> c \<noteq> CHR '','' \<and> c \<noteq> CHR ''='')"

lemma trim_space_id: "s \<noteq> [] \<Longrightarrow> \<not> is_space (hd s) \<Longrightarrow> \<not> is_space (last s) \<Longrightarrow> trim_space s = s"
proof -
  have id: "xs \<noteq> [] \<Longrightarrow> \<not> P (hd xs) \<Longrightarrow> dropWhile P xs = xs" for P and xs :: string by (cases xs) auto
  show "s \<noteq> [] \<Longrightarrow> \<not> is_space (hd s) \<Longrightarrow> \<not> is_space (last s) \<Longrightarrow> trim_space s = s"
    by (simp add: trim_space_def id hd_rev)
qed

lemma trim_space_blank: "trim_space (CHR '' '' # s) = trim_space s"
  by (simp add: trim_space_def is_space_def)

lemma digest_part_quoted:
  assumes "plain_name k"
  shows "digest_part (quoted_field (k, v)) ps = mput k v ps"
    and "digest_part (CHR '' '' # quoted_field (k, v)) ps = mput k v ps"
proof -
  have k: "k \<noteq> []" "\<not> is_space (hd k)" "\<not> is_space (last k)" "CHR ''='' \<notin> set k"
    using assms by (auto simp: plain_name_def)
  have quote: "\<not> is_space CHR 0x22" by (simp add: is_space_def)
  have t: "trim_space (quoted_field (k, v)) = quoted_field (k, v)"
    using k(1,2) quote by (intro trim_space_id) (simp_all add: quoted_field_def)
  have "trim_space ([CHR 0x22] @ v @ [CHR 0x22]) = [CHR 0x22] @ v @ [CHR 0x22]"
    using quote by (intro trim_space_id) simp_all
  moreover have "trim_space k = k" using k by (intro trim_space_id)
  moreover have "unquote ([CHR 0x22] @ v @ [CHR 0x22]) = v" by (simp add: unquote_def)
  ultimately show "digest_part (quoted_field (k, v)) ps = mput k v ps"
    using t k(4) cut_at_append [of "CHR ''=''" k "[CHR 0x22] @ v @ [CHR 0x22]"]
    by (simp add: digest_part_def) (simp add: quoted_field_def)
  then show "digest_part (CHR '' '' # quoted_field (k, v)) ps = mput k v ps"
    by (simp add: digest_part_def trim_space_blank)
qed

lemma split_on_join_blank:
  assumes "\<forall>p \<in> set (p # ps). CHR '','' \<notin> set p"
  shows "split_on CHR '','' (join_with '', '' (p # ps)) = p # map (\<lambda>p. CHR '' '' # p) ps"
  using assms
proof (induction ps arbitrary: p)
  case (Cons q ps)
  have "split_on CHR '','' (join_with '', '' (p # q # ps)) =
      p # split_on CHR '','' (CHR '' '' # join_with '', '' (q # ps))"
    using Cons.prems split_on_append [of "CHR '',''" p "CHR '' '' # join_with '', '' (q # ps)"] by simp
  also have "\<dots> = p # map (\<lambda>p. CHR '' '' # p) (q # ps)"
    using Cons.IH [of q] Cons.prems by simp
  finally show ?case .
qed (simp add: split_on_no_occ)

text \<open>What such a header says is what is read.\<close>

lemma parse_client_header:
  assumes "\<forall>(k, v) \<in> set kvs. plain_name k \<and> CHR '','' \<notin> set v" and "kvs \<noteq> []"
  shows "has_prefix (client_header kvs) ''Digest ''"
    and "parseDigestHeader (drop 7 (client_header kvs)) = mput_all kvs []"
proof -
  show "has_prefix (client_header kvs) ''Digest ''" unfolding client_header_def by (rule has_prefix_append)
  obtain kv rest where kvs: "kvs = kv # rest" using assms(2) by (cases kvs) auto
  have nocomma: "\<forall>p \<in> set (map quoted_field kvs). CHR '','' \<notin> set p"
    using assms(1) by (fastforce simp: quoted_field_def plain_name_def)
  have fold: "fold digest_part (map (\<lambda>p. CHR '' '' # p) (map quoted_field rest)) m = mput_all rest m" for m
    using assms(1) unfolding kvs by (induction rest arbitrary: m) (auto simp: digest_part_quoted)
  have "split_on CHR '','' (drop 7 (client_header kvs)) = quoted_field kv # map (\<lambda>p. CHR '' '' # p) (map quoted_field rest)"
    using split_on_join_blank [of "quoted_field kv" "map quoted_field rest"] nocomma unfolding kvs
    by (simp add: client_header_def)
  then show "parseDigestHeader (drop 7 (client_header kvs)) = mput_all kvs []"
    using assms(1) fold unfolding parseDigestHeader_def kvs by (cases kv) (simp add: digest_part_quoted)
qed

lemma expected_response_plain: "CHR '','' \<notin> set (expected_response pw m ps)"
proof -
  have "CHR '','' \<notin> set (md5hex s)" for s using md5hex_digits [of s] by (auto simp: hex_alphabet_def)
  then show ?thesis by (simp add: expected_response_def Let_def)
qed

lemma expected_response_not_Nil: "expected_response pw m ps \<noteq> []"
  by (simp add: expected_response_def Let_def md5hex_not_Nil)

text \<open>A nonce of the last five minutes survives the clean-up.\<close>

lemma fresh_nonce_kept:
  assumes "wf_map (da_nonces d)" and "map_of (da_nonces d) k = Some n" and "now - digestNonceTTL \<le> ne_created n"
  shows "map_of (da_nonces (cleanStaleNonces now d)) k = Some n"
  using assms by (auto simp: cleanStaleNonces_def intro!: map_of_SomeI dest!: map_of_SomeD)

lemma client_answer_passes:
  assumes "wf_map (da_nonces d)" and "map_of (da_nonces d) nonce = Some n" and "now - digestNonceTTL \<le> ne_created n"
    and "ne_used n < digestMaxNonceUse"
    and "\<forall>v \<in> {ct_username c, ct_realm c, nonce, ct_uri c}. v \<noteq> [] \<and> CHR '','' \<notin> set v" and "CHR '','' \<notin> set (ct_cnonce c)"
  shows "fst (Middleware now uuid
      \<lparr> ar_method = meth, ar_authorization = client_header (client_fields (da_password d) meth c nonce) \<rparr> d)
    = Passed (ct_username c)"
proof -
  let ?kvs = "client_fields (da_password d) meth c nonce"
  define r where "r = \<lparr> ar_method = meth, ar_authorization = client_header ?kvs \<rparr>"
  have plain: "\<forall>(k, v) \<in> set ?kvs. plain_name k \<and> CHR '','' \<notin> set v" "?kvs \<noteq> []"
    using assms(5,6) by (simp_all add: client_fields_def answer_fields_def plain_name_def is_space_def expected_response_plain)
  have ps: "digest_params r = mput_all ?kvs []"
    using parse_client_header(2) [OF plain] by (simp add: r_def digest_params_def)
  have get: "mget (digest_params r) k = mget (answer_fields c nonce) k" if "k \<noteq> ''response''" for k
    using that by (simp add: ps client_fields_def answer_fields_def mget_def)
  have response: "mget (digest_params r) ''response'' = expected_response (da_password d) meth (answer_fields c nonce)"
    by (simp add: ps client_fields_def answer_fields_def mget_def)
  have same: "expected_response pw m (digest_params r) = expected_response pw m (answer_fields c nonce)" for pw m
    by (simp add: expected_response_def get Let_def)
  have nonce: "presented r = nonce" "mget (digest_params r) ''username'' = ct_username c"
    by (simp_all add: get) (simp_all add: answer_fields_def mget_def)
  have meth: "ar_method r = meth" by (simp add: r_def)
  have "complete (digest_params r)"
    using assms(5) by (simp add: complete_def get response expected_response_not_Nil) (simp add: answer_fields_def mget_def)
  moreover have "proves_password (da_password d) r"
    by (simp add: proves_password_def response_matches_def response same equal_fold_def meth)
  moreover have "has_prefix (ar_authorization r) ''Digest ''" using parse_client_header(1) [OF plain] by (simp add: r_def)
  ultimately show ?thesis
    using fresh_nonce_kept [OF assms(1-3)] assms(4) by (simp add: Middleware_out validate_passes nonce flip: r_def)
qed

text \<open>
  A device that knows the password gets through: when it answers a challenge with the nonce, while
  the nonce is at most five minutes old and was presented less than a thousand times, with the digest
  of the password, the request is let through under the name it gave, in whatever state the other
  nonces are. The name and the realm only have to be there and to hold no comma.
\<close>

lemma challenge_can_be_answered:
  assumes "digest_run d h" and "map_of (da_nonces d) nonce = Some n" and "now - 300000000000 \<le> ne_created n"
    and "ne_used n < 1000"
    and "\<forall>v \<in> {ct_username c, ct_realm c, nonce, ct_uri c}. v \<noteq> [] \<and> CHR '','' \<notin> set v" and "CHR '','' \<notin> set (ct_cnonce c)"
  shows "fst (Middleware now uuid
      \<lparr> ar_method = meth, ar_authorization = client_header (client_fields (da_password d) meth c nonce) \<rparr> d)
    = Passed (ct_username c)"
  using digest_run_ok [OF assms(1)] assms
  by (intro client_answer_passes) (simp_all add: digestNonceTTL_def digestMaxNonceUse_def nonces_ok_def)

lemma validate_keeps_realm: "ValidateRequest r d = (v, d') \<Longrightarrow> da_realm d' = da_realm d"
  by (erule ValidateRequest_cases) simp_all

lemma Middleware_out_eq:
  "fst (Middleware now uuid r d) =
     (case fst (ValidateRequest r (cleanStaleNonces now d)) of None \<Rightarrow> Challenge (da_realm d) uuid | Some u \<Rightarrow> Passed u)"
  by (auto simp: Middleware_def validate_keeps_realm split: prod.splits option.splits)

definition ex_client :: client where
  "ex_client = \<lparr> ct_username = ''acs'', ct_realm = ''ACS'', ct_uri = ''/acs'', ct_cnonce = ''c1'' \<rparr>"

definition ex_digest :: digest_auth where
  "ex_digest = newNonce 10 ''n1'' (NewDigestAuth ''ACS'' ''acs'' ''secret'')"

lemma ex_digest_run: "digest_run ex_digest [Issued ''n1'' 10]"
proof -
  have "Middleware 10 ''n1'' \<lparr> ar_method = ''POST'', ar_authorization = [] \<rparr> (NewDigestAuth ''ACS'' ''acs'' ''secret'') =
      (Challenge ''ACS'' ''n1'', ex_digest)"
    by (simp add: Middleware_def ValidateRequest_def cleanStaleNonces_def NewDigestAuth_def ex_digest_def newNonce_def)
  then show ?thesis by (intro challenged [OF start]) simp_all
qed

lemma challenge_can_be_answered_example:
  "fst (Middleware 20 ''n2'' \<lparr> ar_method = ''POST'', ar_authorization =
      client_header (client_fields ''secret'' ''POST'' ex_client ''n1'') \<rparr> ex_digest) = Passed ''acs''"
  using challenge_can_be_answered [OF ex_digest_run, where nonce = "''n1''" and now = 20 and uuid = "''n2''" and
      meth = "''POST''" and c = ex_client]
  by (simp add: ex_digest_def ex_client_def newNonce_def NewDigestAuth_def)

lemma ex_digest_passes:
  "\<exists>d'. Middleware 20 ''n2'' \<lparr> ar_method = ''POST'', ar_authorization =
      client_header (client_fields ''secret'' ''POST'' ex_client ''n1'') \<rparr> ex_digest = (Passed ''acs'', d')"
proof -
  let ?r = "\<lparr> ar_method = ''POST'', ar_authorization =
      client_header (client_fields ''secret'' ''POST'' ex_client ''n1'') \<rparr>"
  have "fst (Middleware 20 ''n2'' ?r ex_digest) = Passed ''acs''"
    using client_answer_passes [where d = ex_digest and nonce = "''n1''" and
      n = "\<lparr> ne_created = 10, ne_used = 0 \<rparr>" and now = 20 and uuid = "''n2''" and
      meth = "''POST''" and c = ex_client]
    by (simp add: ex_digest_def ex_client_def newNonce_def NewDigestAuth_def digestNonceTTL_def digestMaxNonceUse_def wf_map_def)
  then show ?thesis by (cases "Middleware 20 ''n2'' ?r ex_digest") auto
qed

text \<open>
  The configured user name takes no part: a device is let through, or not, whatever it is.
\<close>

lemma username_not_checked:
  "fst (Middleware now uuid r (d\<lparr>da_username := u\<rparr>)) = fst (Middleware now uuid r d)"
proof -
  let ?e = "d\<lparr>da_username := u\<rparr>"
  have "fst (ValidateRequest r (cleanStaleNonces now ?e)) = Some v \<longleftrightarrow>
      fst (ValidateRequest r (cleanStaleNonces now d)) = Some v" for v
    by (simp add: validate_passes cleanStaleNonces_def)
  then have "fst (ValidateRequest r (cleanStaleNonces now ?e)) = fst (ValidateRequest r (cleanStaleNonces now d))"
    by (metis option.exhaust)
  then show ?thesis by (simp add: Middleware_out_eq split: option.splits)
qed

text \<open>The same request passes again: neither the count of the client nor the response is remembered.\<close>

lemma replay_passes:
  assumes "wf_map (da_nonces d)" and "Middleware now uuid r d = (Passed u, d')"
    and "map_of (da_nonces d') (presented r) = Some n" and "ne_used n < digestMaxNonceUse"
    and "now' - digestNonceTTL \<le> ne_created n"
  shows "fst (Middleware now' uuid' r d') = Passed u"
proof -
  have v: "fst (ValidateRequest r (cleanStaleNonces now d)) = Some u"
    using Middleware_out [of now uuid r d u] assms(2) by simp
  have "wf_map (da_nonces d')" "da_password d' = da_password d"
    using Middleware_passed [OF assms(2,1)] assms(1) by (auto simp: cleanStaleNonces_def)
  then show ?thesis
    using v fresh_nonce_kept [of d' "presented r" n now'] assms(3-5) by (simp add: Middleware_out validate_passes)
qed

text \<open>A comma ends a field even between quotes: a URI with one never gets through as it was written.\<close>

lemma comma_splits_field:
  "parseDigestHeader (drop 7 (client_header [(''uri'', ''/a,b'')])) = [(''uri'', CHR 0x22 # ''/a'')]"
  by code_simp

end
