(* ===== verification/Endpoint.thy ===== *)
theory Endpoint imports Digest Server begin

section \<open>The CWMP endpoint\<close>

text \<open>
  internal/cwmp/handler.go: the session handler behind the body limit and the digest check, on every
  path, and the tick of the presence monitor. Every POST of a device is answered by
  \<^term>\<open>cwmp_endpoint\<close>; the length of the body is an argument, since the model of a request only keeps
  what is read of it.
\<close>

datatype cwmp_answer = Unauthorized string string | Replied reply

definition body_limit :: int where "body_limit = 16777216"

text \<open>Reading a body that is too long fails.\<close>

definition limitBody :: "int \<Rightarrow> int \<Rightarrow> http_request \<Rightarrow> http_request" where
  "limitBody maxBytes len rq = (if len > maxBytes then rq\<lparr>rq_body := BodyError\<rparr> else rq)"

definition cwmp_endpoint ::
    "env \<Rightarrow> string \<Rightarrow> auth_request \<Rightarrow> int \<Rightarrow> http_request \<Rightarrow> digest_auth \<Rightarrow> acs \<Rightarrow> cwmp_answer \<times> digest_auth \<times> acs" where
  "cwmp_endpoint e uuid auth len rq d a =
     (case Middleware (e_now e) uuid auth d of
        (Challenge realm nonce, d') \<Rightarrow> (Unauthorized realm nonce, d', a)
      | (Passed _, d') \<Rightarrow>
          (case ServeHTTP e (limitBody body_limit len rq) a of (rep, a') \<Rightarrow> (Replied rep, d', a')))"

text \<open>One tick of the monitor, which does not run without an interval.\<close>

definition presence_tick :: "int \<Rightarrow> int \<Rightarrow> device_db \<Rightarrow> device_db" where
  "presence_tick interval now db =
     (if interval \<le> 0 then db
      else snd (MarkStaleOffline now (now - wrap64 (interval * 3)) db))"

subsection \<open>Facts\<close>

lemma ServeHTTP_unreadable:
  assumes "body_limit < len" and "ServeHTTP e (limitBody body_limit len rq) a = (rep, a')"
  shows "rep = RHttpError 400 \<and> ac_world a' = ac_world a"
  using assms by (auto simp: ServeHTTP_def limitBody_def Let_def split: prod.splits)

text \<open>
  C3. A device without the password changes nothing: whatever was asked before, a request to the CWMP
  endpoint either gets a challenge and leaves sessions, tasks, devices and parameters as they are, or
  it presents a nonce that the server issued in a challenge at most five minutes ago, with a response
  computed from the configured password for its method and URI, and it is one of at most a thousand
  requests let through under that nonce.
\<close>

theorem cwmp_needs_password:
  assumes "digest_run d h" and "cwmp_endpoint e uuid auth len rq d a = (ans, d', a')"
  shows "(ans = Unauthorized (da_realm d) uuid \<and> a' = a) \<or>
     (proves_password (da_password d) auth \<and>
      (\<exists>t. Issued (presented auth) t \<in> set h \<and> e_now e - 300000000000 \<le> t) \<and>
      admitted (presented auth) (Admitted auth (e_now e) # h) \<le> 1000)"
proof -
  obtain out d1 where m: "Middleware (e_now e) uuid auth d = (out, d1)" by fastforce
  show ?thesis
  proof (cases out)
    case (Challenge realm nonce)
    then have "realm = da_realm d \<and> nonce = uuid"
      using Middleware_out_eq [of "e_now e" uuid auth d] m by (auto split: option.splits)
    then show ?thesis using assms(2) m Challenge by (simp add: cwmp_endpoint_def)
  next
    case (Passed user)
    then show ?thesis using admitted_proves_password [OF assms(1) m [unfolded Passed]] by blast
  qed
qed

lemma cwmp_needs_password_witness:
  "\<exists>d' a' rep. let r = \<lparr> ar_method = ''POST'', ar_authorization =
        client_header (client_fields ''secret'' ''POST'' ex_client ''n1'') \<rparr> in
     cwmp_endpoint (ex_env\<lparr>e_now := 20\<rparr>) ''n2'' r 0 \<lparr> rq_cookie = None, rq_body = BodyEmpty \<rparr> ex_digest ex_acs =
       (Replied rep, d', a') \<and> proves_password ''secret'' r"
proof -
  let ?r = "\<lparr> ar_method = ''POST'', ar_authorization =
      client_header (client_fields ''secret'' ''POST'' ex_client ''n1'') \<rparr>"
  let ?rq = "\<lparr> rq_cookie = None, rq_body = BodyEmpty \<rparr>"
  let ?e = "ex_env\<lparr>e_now := 20\<rparr>"
  obtain d' where "Middleware 20 ''n2'' ?r ex_digest = (Passed ''acs'', d')" using ex_digest_passes by blast
  then obtain rep a' where run: "cwmp_endpoint ?e ''n2'' ?r 0 ?rq ex_digest ex_acs = (Replied rep, d', a')"
    by (cases "ServeHTTP ?e (limitBody body_limit 0 ?rq) ex_acs") (simp add: cwmp_endpoint_def)
  moreover have "da_password ex_digest = ''secret''" by (simp add: ex_digest_def newNonce_def NewDigestAuth_def)
  ultimately show ?thesis using cwmp_needs_password [OF ex_digest_run run] by (auto simp: Let_def)
qed

text \<open>
  A body over the limit is not refused with 413 before the handler runs: the handler runs, cannot read
  it and answers 400.
\<close>

lemma oversized_body:
  assumes "Middleware (e_now e) uuid auth d = (Passed user, d1)" and "16777216 < len"
  shows "fst (cwmp_endpoint e uuid auth len rq d a) = Replied (RHttpError 400)"
  using assms ServeHTTP_unreadable [of len e rq a]
  by (cases "ServeHTTP e (limitBody body_limit len rq) a") (simp add: cwmp_endpoint_def body_limit_def)

text \<open>After a tick of the monitor every device shown online sent an Inform within three intervals.\<close>

lemma presence_is_recent:
  assumes "db_faults db = []" and "0 < interval" and "interval \<le> 3074457345618258602"
    and "map_of (db_devices (presence_tick interval now db)) s = Some d" and "de_Online d"
  shows "now - 3 * interval \<le> de_LastInform d \<and> map_of (db_devices db) s = Some d"
proof -
  have w: "wrap64 (interval * 3) = 3 * interval"
    using assms(2,3) by (simp add: wrap64_id min_int64_def max_int64_def)
  obtain n db' where m: "MarkStaleOffline now (now - 3 * interval) db = (n, db')" by fastforce
  let ?off = "\<lambda>d :: device. if stale (now - 3 * interval) d then d\<lparr>de_Online := False, de_UpdatedAt := now\<rparr> else d"
  have "map_of (db_devices db') s = map_option ?off (map_of (db_devices db) s)"
    using stale_devices_marked [OF assms(1) m] by blast
  moreover have "map_of (db_devices db') s = Some d" using assms(2,4) by (simp add: presence_tick_def w m)
  ultimately obtain d0 where d0: "map_of (db_devices db) s = Some d0" "d = ?off d0"
    by (cases "map_of (db_devices db) s") auto
  then have "\<not> stale (now - 3 * interval) d0" using assms(5) by (cases "stale (now - 3 * interval) d0") simp_all
  then show ?thesis using d0 assms(5) by (auto simp: stale_def)
qed

end
