(* ===== verification/Scheduler.thy ===== *)
theory Scheduler imports Params_Repo begin

section \<open>The timers of the parameter store\<close>

text \<open>
  internal/parameter/scheduler.go: the daily snapshot and the hourly clean-up. The timers themselves are
  outside; what is modelled is when the first and the following snapshots run, and what each firing
  does to the store. Instants are nanoseconds, and the local time zone is a fixed offset.
\<close>

definition hour_ns :: int where "hour_ns = 3600000000000"

definition day_ns :: int where "day_ns = 24 * hour_ns"

subsection \<open>The configured time\<close>

text \<open>\<^verbatim>\<open>time.Parse("15:04", s)\<close>: the hour has one or two digits, the minute two, and nothing follows.\<close>

fun getnum :: "bool \<Rightarrow> string \<Rightarrow> (nat \<times> string) option" where
  "getnum fixed [] = None"
| "getnum fixed [c] = (if is_digit c \<and> \<not> fixed then Some (digit_val c, []) else None)"
| "getnum fixed (c # d # s) =
     (if \<not> is_digit c then None
      else if is_digit d then Some (10 * digit_val c + digit_val d, s)
      else if fixed then None else Some (digit_val c, d # s))"

definition parse_clock :: "string \<Rightarrow> (nat \<times> nat) option" where
  "parse_clock s =
     (case getnum False s of
        Some (h, c # r) \<Rightarrow>
          if c \<noteq> CHR '':'' \<or> 24 \<le> h then None
          else (case getnum True r of
                  Some (m, []) \<Rightarrow> if m < 60 then Some (h, m) else None
                | _ \<Rightarrow> None)
      | _ \<Rightarrow> None)"

subsection \<open>When the snapshots run\<close>

definition start_of_day :: "int \<Rightarrow> int \<Rightarrow> int" where
  "start_of_day off now = (now + off) div day_ns * day_ns - off"

definition next_run :: "int \<Rightarrow> int \<Rightarrow> nat \<times> nat \<Rightarrow> int" where
  "next_run off now hm =
     (let today = start_of_day off now + int (fst hm) * hour_ns + int (snd hm) * 60000000000
      in if now > today then today + 24 * hour_ns else today)"

text \<open>
  The starts of the snapshots from the first one on, given how long each took: the timer is set to a
  day again when a snapshot is done.
\<close>

fun run_times :: "int \<Rightarrow> int list \<Rightarrow> int list" where
  "run_times t [] = [t]"
| "run_times t (d # ds) = t # run_times (t + d + 24 * hour_ns) ds"

definition StartDailySnapshot :: "int \<Rightarrow> int \<Rightarrow> string \<Rightarrow> int list \<Rightarrow> int list" where
  "StartDailySnapshot off now schedule durations =
     (case parse_clock schedule of None \<Rightarrow> [] | Some hm \<Rightarrow> run_times (next_run off now hm) durations)"

subsection \<open>What a firing does\<close>

definition runSnapshot :: "int \<Rightarrow> param_repo \<Rightarrow> param_repo" where
  "runSnapshot now r = snd (CaptureAllDeviceSnapshots now r)"

definition hourly_cleanup :: "int \<Rightarrow> int \<Rightarrow> param_repo \<Rightarrow> param_repo" where
  "hourly_cleanup now retentionDays r =
     snd (DeleteOldTrafficSamples now retentionDays (snd (DeleteOldHistory now retentionDays r)))"

subsection \<open>Facts\<close>

lemma parse_clock_bounds: "parse_clock s = Some (h, m) \<Longrightarrow> h < 24 \<and> m < 60"
  by (auto simp: parse_clock_def split: option.splits list.splits if_splits)

lemma parse_clock_two_digits:
  assumes "is_digit a" "is_digit b" "is_digit c" "is_digit d"
    and "10 * digit_val a + digit_val b < 24" "10 * digit_val c + digit_val d < 60"
  shows "parse_clock [a, b, CHR '':'', c, d] = Some (10 * digit_val a + digit_val b, 10 * digit_val c + digit_val d)"
  using assms by (simp add: parse_clock_def)

text \<open>The first snapshot is within the next day, at the configured time of the day.\<close>

lemma next_run_within_a_day:
  assumes "h < 24" and "m < 60"
  shows "now \<le> next_run off now (h, m) \<and> next_run off now (h, m) - now \<le> day_ns
    \<and> (next_run off now (h, m) + off) mod day_ns = int h * hour_ns + int m * 60000000000"
proof -
  define c where "c = int h * hour_ns + int m * 60000000000"
  have c: "0 \<le> c" "c < day_ns" using assms by (simp_all add: c_def day_ns_def hour_ns_def)
  define q where "q = (now + off) div day_ns"
  have q: "q * day_ns \<le> now + off" "now + off < q * day_ns + day_ns"
    using div_mult_mod_eq [of "now + off" day_ns] pos_mod_bound [of day_ns "now + off"] pos_mod_sign [of day_ns "now + off"]
    by (simp_all add: q_def day_ns_def hour_ns_def)
  have n: "next_run off now (h, m) =
      (if now > q * day_ns - off + c then q * day_ns - off + c + day_ns else q * day_ns - off + c)"
    by (simp add: next_run_def start_of_day_def c_def q_def Let_def day_ns_def)
  have "(q * day_ns + c) mod day_ns = c" "(q * day_ns + c + day_ns) mod day_ns = c"
    using c by (simp_all add: mod_pos_pos_trivial)
  then show ?thesis using q c unfolding n c_def [symmetric] by (auto simp: algebra_simps)
qed

text \<open>Every following snapshot is late by the time all the earlier ones took.\<close>

lemma snapshots_drift:
  "k \<le> length ds \<Longrightarrow> run_times t ds ! k = t + int k * day_ns + sum_list (take k ds)"
proof (induction ds arbitrary: t k)
  case (Cons d ds)
  then show ?case by (cases k) (auto simp: day_ns_def algebra_simps)
qed simp

text \<open>The timers keep the parameters and the coherence of the cache.\<close>

lemma timers_keep_parameters:
  assumes "table_ok r" and "cache_ok r"
  shows "table_ok (runSnapshot now r) \<and> cache_ok (runSnapshot now r)"
    and "table_ok (hourly_cleanup now d r) \<and> cache_ok (hourly_cleanup now d r) \<and> stored s (hourly_cleanup now d r) = stored s r"
proof -
  have row: "table_ok (snd (DeleteOldHistory now d u)) = table_ok u" "cache_ok (snd (DeleteOldHistory now d u)) = cache_ok u"
    "stored s (snd (DeleteOldHistory now d u)) = stored s u" for u
    using inv_cong [of "snd (DeleteOldHistory now d u)" u]
    by (auto simp: DeleteOldHistory_def db_try_def split: list.splits)
  have row2: "table_ok (snd (DeleteOldTrafficSamples now d u)) = table_ok u" "cache_ok (snd (DeleteOldTrafficSamples now d u)) = cache_ok u"
    "stored s (snd (DeleteOldTrafficSamples now d u)) = stored s u" for u
    using inv_cong [of "snd (DeleteOldTrafficSamples now d u)" u]
    by (auto simp: DeleteOldTrafficSamples_def db_try_def Let_def split: list.splits)
  show "table_ok (hourly_cleanup now d r) \<and> cache_ok (hourly_cleanup now d r) \<and> stored s (hourly_cleanup now d r) = stored s r"
    using assms by (simp add: hourly_cleanup_def row row2)
  obtain f u where u: "db_try r = (f, u)" by fastforce
  have "table_ok u" "cache_ok u" using db_try_inv [where r = r] u assms by simp_all
  from capture_keeps [OF this] show "table_ok (runSnapshot now r) \<and> cache_ok (runSnapshot now r)"
    using u \<open>table_ok u\<close> \<open>cache_ok u\<close> by (simp add: runSnapshot_def CaptureAllDeviceSnapshots_def)
qed

end
