(* ===== verification/Stores.thy ===== *)
theory Stores imports Endpoint Scheduler begin

section \<open>What the operations of the stores keep\<close>

text \<open>
  The parameter repository and the device store as their users see them: interfaces whose laws say what
  every operation keeps of a property of the store. A law of an operation that writes the parameters of a
  device is only asked for the devices that are \<^verbatim>\<open>mine\<close>. Two properties of the code meet them:
  the cache agrees with the table and every document is filed under its own serial number (whatever
  device is written to), and the parameters of one device are what they were (when another is written to).
\<close>

subsection \<open>Interfaces\<close>

text \<open>What the sessions use, and what the API and the timers use beyond that.\<close>

locale parameter_store =
  fixes mine :: "string \<Rightarrow> bool" and good :: "param_repo \<Rightarrow> bool"
  assumes store: "mine s \<Longrightarrow> good r \<Longrightarrow> good (snd (pr_UpdateParameters now s ps r))"
    and clear: "mine s \<Longrightarrow> good r \<Longrightarrow> good (snd (DeleteDeviceParameters s r))"
    and read_all: "good r \<Longrightarrow> good (snd (GetAllParameters s r))"
    and read_one: "good r \<Longrightarrow> good (snd (pr_GetParameter s n r))"
    and capture: "good r \<Longrightarrow> good (snd (SaveSnapshot now s ty ps r))"
    and recall: "good r \<Longrightarrow> good (snd (GetSnapshot s ty r))"
    and forget: "good r \<Longrightarrow> good (snd (DeleteSnapshot s ty r))"

locale document_store =
  fixes mine :: "string \<Rightarrow> bool" and sound :: "device_db \<Rightarrow> bool"
  assumes upsert: "mine (uq_Serial q) \<Longrightarrow> sound db \<Longrightarrow> sound (snd (Upsert oid now q db))"
    and info: "sound db \<Longrightarrow> sound (snd (UpdateInfo now s u db))"
    and replace_params: "mine s \<Longrightarrow> sound db \<Longrightarrow> sound (snd (UpdateParameters now s ps db))"
    and merge_params: "mine s \<Longrightarrow> sound db \<Longrightarrow> sound (snd (MergeParameters now s ps db))"

locale parameter_upkeep = parameter_store +
  assumes by_prefix: "good r \<Longrightarrow> good (snd (GetParametersByPrefix s p r))"
    and samples: "good r \<Longrightarrow> good (snd (ListWANTrafficSamples s since limit r))"
    and capture_all: "good r \<Longrightarrow> good (runSnapshot now r)"
    and clean_up: "good r \<Longrightarrow> good (hourly_cleanup now days r)"
    and expire: "good r \<Longrightarrow> good (r\<lparr>pr_cache := redis_expired k (pr_cache r)\<rparr>)"

locale document_upkeep = document_store +
  assumes find: "sound db \<Longrightarrow> sound (snd (FindBySerial s db))"
    and page: "sound db \<Longrightarrow> sound (snd (service_List q n limit db))"
    and tags: "sound db \<Longrightarrow> sound (snd (UpdateTags now s ts db))"
    and remove: "mine s \<Longrightarrow> sound db \<Longrightarrow> sound (snd (Delete_device s db))"
    and presence: "sound db \<Longrightarrow> sound (presence_tick i now db)"

subsection \<open>Facts: what the operations do to the parameters\<close>

text \<open>
  The repository is sound when the table is well formed, every cache entry is what the table stores, and
  the cache can be reached from now on.
\<close>

definition cache_up :: "param_repo \<Rightarrow> bool" where
  "cache_up r \<longleftrightarrow> True \<notin> set (rd_faults (pr_cache r))"

definition repo_sound :: "param_repo \<Rightarrow> bool" where
  "repo_sound r \<longleftrightarrow> table_ok r \<and> cache_ok r \<and> cache_up r"

lemma upserts_wf: "wf_map m \<Longrightarrow> wf_map (fold (upsert_param now s) ps m)"
  by (induction ps arbitrary: m) (simp_all add: upsert_param_def)

lemma upserts_values:
  "\<forall>k c. map_of m k = Some c \<longrightarrow> pc_value c \<noteq> None \<Longrightarrow>
   map_of (fold (upsert_param now s) ps m) k = Some c \<Longrightarrow> pc_value c \<noteq> None"
proof (induction ps arbitrary: m)
  case (Cons p ps)
  have "\<forall>k c. map_of (upsert_param now s p m) k = Some c \<longrightarrow> pc_value c \<noteq> None"
    using Cons.prems(1) by (auto simp: upsert_param_def)
  then show ?case using Cons.IH Cons.prems(2) by (metis fold_simps(2))
qed (metis fold_simps(1))

lemma upserts_other: "t \<noteq> s \<Longrightarrow> map_of (fold (upsert_param now s) ps m) (t, n) = map_of m (t, n)"
  by (induction ps arbitrary: m) (simp_all add: upsert_param_def)

lemma stored_upsert_other: "t \<noteq> s \<Longrightarrow> stored t (upsert_device_parameters now s ps r) = stored t r"
  by (simp add: stored_def upsert_device_parameters_def Let_def upserts_other fun_eq_iff)

lemma table_upsert: "table_ok r \<Longrightarrow> table_ok (upsert_device_parameters now s ps r)"
  using upserts_wf [of "pr_params r"] upserts_values [of "pr_params r"]
  by (fastforce simp: table_ok_def upsert_device_parameters_def Let_def)

lemma next_fault_up: "True \<notin> set (rd_faults c) \<Longrightarrow> \<not> fst (next_fault c) \<and> True \<notin> set (rd_faults (snd (next_fault c)))"
  by (auto simp: next_fault_def split: list.splits)

lemma cache_calls_up:
  assumes "True \<notin> set (rd_faults c)"
  shows "True \<notin> set (rd_faults (snd (cache_Get k c)))" and "True \<notin> set (rd_faults (snd (cache_Set k m ttl c)))"
    and "True \<notin> set (rd_faults (snd (cache_Delete k c)))"
  using next_fault_up [OF assms]
  by (auto simp: cache_Get_def cache_Set_def cache_Delete_def redis_set_def redis_del_def Let_def
      split: prod.splits option.splits)

lemma update_sound: "repo_sound r \<Longrightarrow> repo_sound (snd (pr_UpdateParameters now s ps r))"
proof -
  assume r: "repo_sound r"
  define r1 where "r1 = snd (db_try r)"
  let ?u = "upsert_device_parameters now s ps r1"
  have r1: "table_ok r1" "cache_ok r1" "cache_up r1"
    using r by (simp_all add: r1_def repo_simps repo_sound_def cache_up_def)
  have u: "pr_cache ?u = pr_cache r1" by (simp add: upsert_device_parameters_def Let_def)
  have "cache_ok (invalidate s ?u)"
    using r1 u next_fault_up stored_upsert_other by (intro invalidate_ok [of _ r1]) (simp_all add: cache_up_def)
  then have "repo_sound (invalidate s ?u)"
    using r1 table_upsert [OF r1(1)] cache_calls_up(3) u
    by (simp add: repo_sound_def repo_simps) (simp add: cache_up_def invalidate_def)
  then show ?thesis
    using r r1 by (cases "db_try r") (auto simp: pr_UpdateParameters_def r1_def repo_sound_def)
qed

lemma update_other: "t \<noteq> s \<Longrightarrow> stored t (snd (pr_UpdateParameters now s ps r)) = stored t r"
  using db_try_inv(3) [where r = r and s = t]
  by (cases "db_try r") (auto simp: pr_UpdateParameters_def repo_simps stored_upsert_other)

lemma delete_cache: "snd (DeleteDeviceParameters s r) = snd (db_try r) \<or>
    pr_cache (snd (DeleteDeviceParameters s r)) = snd (cache_Delete (cacheKey s) (pr_cache r))"
  by (auto simp: DeleteDeviceParameters_def invalidate_def db_try_def Let_def split: list.splits prod.splits)

lemma delete_sound: "repo_sound r \<Longrightarrow> repo_sound (snd (DeleteDeviceParameters s r))"
  using delete_keeps_ok [of r s] delete_cache [of s r] next_fault_up [of "pr_cache r"] cache_calls_up(3) [of "pr_cache r"]
  by (auto simp: repo_sound_def cache_up_def repo_simps)

lemma delete_other: "t \<noteq> s \<Longrightarrow> stored t (snd (DeleteDeviceParameters s r)) = stored t r"
proof -
  assume t: "t \<noteq> s"
  have look: "map_of (filter (\<lambda>kc. fst (fst kc) \<noteq> s) xs) (t, n) = map_of xs (t, n)"
    for xs :: "((string \<times> string) \<times> param_cell) list" and n
    using t by (induction xs) auto
  show ?thesis
    by (auto simp: DeleteDeviceParameters_def db_try_def Let_def repo_simps stored_def fun_eq_iff look
        split: list.splits prod.splits)
qed

lemma read_sound: "repo_sound r \<Longrightarrow> repo_sound (snd (GetAllParameters s r))"
proof -
  assume r: "repo_sound r"
  let ?c = "snd (cache_Get (cacheKey s) (pr_cache r))"
  have "True \<notin> set (rd_faults ?c)" using r cache_calls_up(1) by (simp add: repo_sound_def cache_up_def)
  moreover have "\<exists>m. pr_cache (snd (GetAllParameters s r)) \<in> {?c, snd (cache_Set (cacheKey s) m 3600 ?c)}"
    by (auto simp: GetAllParameters_def Let_def db_try_def split: prod.splits option.splits sum.splits list.splits)
  ultimately have "cache_up (snd (GetAllParameters s r))" using cache_calls_up(2) by (auto simp: cache_up_def)
  then show ?thesis using r GetAll_cases [of r s] by (simp add: repo_sound_def)
qed

lemma same_params:
  assumes "pr_params r' = pr_params r" and "pr_cache r' = pr_cache r"
  shows "repo_sound r' = repo_sound r" and "stored t r' = stored t r"
  using inv_cong [OF assms(1)] assms(2) by (simp_all add: repo_sound_def cache_up_def)

lemma reads_keep:
  "pr_params (snd (pr_GetParameter s n r)) = pr_params r \<and> pr_cache (snd (pr_GetParameter s n r)) = pr_cache r"
  "pr_params (snd (GetSnapshot s ty r)) = pr_params r \<and> pr_cache (snd (GetSnapshot s ty r)) = pr_cache r"
  "pr_params (snd (DeleteSnapshot s ty r)) = pr_params r \<and> pr_cache (snd (DeleteSnapshot s ty r)) = pr_cache r"
  "pr_params (snd (GetParametersByPrefix s p r)) = pr_params r \<and> pr_cache (snd (GetParametersByPrefix s p r)) = pr_cache r"
  "pr_params (snd (ListWANTrafficSamples s since limit r)) = pr_params r \<and> pr_cache (snd (ListWANTrafficSamples s since limit r)) = pr_cache r"
  "pr_params (hourly_cleanup now days r) = pr_params r \<and> pr_cache (hourly_cleanup now days r) = pr_cache r"
  by (auto simp: pr_GetParameter_def GetSnapshot_def DeleteSnapshot_def GetParametersByPrefix_def ListWANTrafficSamples_def
      hourly_cleanup_def DeleteOldHistory_def DeleteOldTrafficSamples_def Let_def db_try_def
      split: list.splits option.splits prod.splits)

lemma try_sound: "repo_sound (snd (db_try r)) = repo_sound r"
  by (rule same_params(1)) (simp_all add: repo_simps)

lemma capture_sound: "repo_sound r \<Longrightarrow> repo_sound (snd (capture_rows now ss r))"
proof (induction ss arbitrary: r)
  case Nil
  then show ?case using try_sound [of r] by (cases "db_try r") simp
next
  case (Cons s ss)
  obtain f r1 where r1: "db_try r = (f, r1)" by fastforce
  obtain res r2 where r2: "GetAllParameters s r1 = (res, r2)" by fastforce
  have "repo_sound r1" using Cons.prems try_sound [of r] r1 by simp
  then have "repo_sound r2" using read_sound [of r1 s] r2 by simp
  moreover have "repo_sound (snd (SaveSnapshot now s ty ps r2)) = repo_sound r2" for ty ps
    by (rule same_params(1)) (simp_all add: repo_simps)
  ultimately show ?case using \<open>repo_sound r1\<close> r1 r2 Cons.IH by (simp split: sum.splits)
qed

lemma runSnapshot_sound: "repo_sound r \<Longrightarrow> repo_sound (runSnapshot now r)"
  using try_sound [of r] capture_sound
  by (cases "db_try r") (auto simp: runSnapshot_def CaptureAllDeviceSnapshots_def)

lemma expired_sound: "repo_sound r \<Longrightarrow> repo_sound (r\<lparr>pr_cache := redis_expired k (pr_cache r)\<rparr>)"
  by (auto simp: repo_sound_def table_ok_def cache_ok_def cache_up_def redis_expired_def)

lemma capture_rows_params: "pr_params (snd (capture_rows now ss r)) = pr_params r"
proof (induction ss arbitrary: r)
  case Nil
  then show ?case using db_try_keeps(1) [of r] by (cases "db_try r") simp
next
  case (Cons s ss)
  obtain f r1 where r1: "db_try r = (f, r1)" by fastforce
  obtain res r2 where r2: "GetAllParameters s r1 = (res, r2)" by fastforce
  have "pr_params r1 = pr_params r" "pr_params r2 = pr_params r1"
    using db_try_keeps(1) [of r] r1 GetAll_keeps(1) [of s r1] r2 by simp_all
  then show ?case using r1 r2 Cons.IH by (simp add: repo_simps split: sum.splits)
qed

lemma runSnapshot_params: "pr_params (runSnapshot now r) = pr_params r"
  using db_try_keeps(1) [of r]
  by (cases "db_try r") (auto simp: runSnapshot_def CaptureAllDeviceSnapshots_def capture_rows_params)

lemma reads_sound:
  assumes "repo_sound r"
  shows "repo_sound (snd (pr_GetParameter s n r))" and "repo_sound (snd (GetSnapshot s ty r))"
    and "repo_sound (snd (DeleteSnapshot s ty r))" and "repo_sound (snd (SaveSnapshot now s ty ps r))"
    and "repo_sound (snd (GetParametersByPrefix s p r))" and "repo_sound (snd (ListWANTrafficSamples s since limit r))"
    and "repo_sound (hourly_cleanup now days r)"
  using assms by (subst same_params(1), simp_all add: reads_keep repo_simps)+

lemma reads_stored:
  "stored t (snd (pr_GetParameter s n r)) = stored t r" "stored t (snd (GetSnapshot s ty r)) = stored t r"
  "stored t (snd (DeleteSnapshot s ty r)) = stored t r" "stored t (snd (GetParametersByPrefix s p r)) = stored t r"
  "stored t (snd (ListWANTrafficSamples s since limit r)) = stored t r"
  "stored t (hourly_cleanup now days r) = stored t r" "stored t (runSnapshot now r) = stored t r"
  "stored t (snd (GetAllParameters s r)) = stored t r"
  by (simp_all add: stored_def fun_eq_iff reads_keep runSnapshot_params GetAll_keeps)

subsection \<open>Facts: what the operations do to the documents\<close>

text \<open>Every document is filed under the serial number it carries.\<close>

definition filed :: "device_db \<Rightarrow> bool" where
  "filed db \<longleftrightarrow> wf_map (db_devices db) \<and> (\<forall>s d. map_of (db_devices db) s = Some d \<longrightarrow> de_Serial d = s)"

definition document_params :: "string \<Rightarrow> device_db \<Rightarrow> params option option" where
  "document_params s db = map_option de_Parameters (map_of (db_devices db) s)"

lemma set_if_keeps: "(\<And>v d. g (f v d) = g d) \<Longrightarrow> g (set_if x f d) = g d"
  by (simp add: set_if_def split: option.splits)

lemma info_fields_keep: "de_Serial (info_fields u d) = de_Serial d" "de_Parameters (info_fields u d) = de_Parameters d"
  unfolding info_fields_def comp_def by (simp_all add: set_if_keeps)

lemma db_call_keeps: "db_devices (snd (db_call db)) = db_devices db"
  by (simp add: db_call_def split: list.splits)

lemma read_parameters_keeps: "db_devices (snd (read_parameters s db)) = db_devices db"
  using db_call_keeps [of db] by (cases "db_call db") (simp add: read_parameters_def)

lemma same_documents:
  "db_devices db' = db_devices db \<Longrightarrow> filed db' = filed db \<and> document_params t db' = document_params t db"
  by (simp add: filed_def document_params_def)

lemma update_one_devices:
  "db_devices (snd (update_one s f db)) =
     (if fst (db_call db) then db_devices db
      else case map_of (db_devices db) s of None \<Rightarrow> db_devices db | Some d \<Rightarrow> mput s (f d) (db_devices db))"
  using db_call_keeps [of db]
  by (cases "db_call db") (simp add: update_one_def split: option.splits)

lemma update_one_filed: "(\<And>d. de_Serial (f d) = de_Serial d) \<Longrightarrow> filed db \<Longrightarrow> filed (snd (update_one s f db))"
  by (auto simp: filed_def update_one_devices split: option.splits if_splits)

lemma update_one_params:
  "(\<forall>d. de_Parameters (f d) = de_Parameters d) \<or> t \<noteq> s \<Longrightarrow> document_params t (snd (update_one s f db)) = document_params t db"
  by (auto simp: document_params_def update_one_devices split: option.splits if_splits)

lemma Upsert_devices:
  "db_devices (snd (Upsert oid now q db)) = db_devices db \<or>
   (\<exists>d. de_Serial d = uq_Serial q \<and> db_devices (snd (Upsert oid now q db)) = mput (uq_Serial q) d (db_devices db))"
proof -
  obtain x db1 where x: "read_parameters (uq_Serial q) db = (x, db1)" by fastforce
  obtain f db2 where f: "db_call db1 = (f, db2)" by fastforce
  have "db_devices db1 = db_devices db" "db_devices db2 = db_devices db"
    using read_parameters_keeps [of "uq_Serial q" db] db_call_keeps [of db1] x f by simp_all
  moreover have "f \<or> (\<exists>ps d. snd (Upsert oid now q db) =
      db2\<lparr>db_devices := mput (uq_Serial q) (inform_fields now q ps d) (db_devices db2)\<rparr>)"
    unfolding Upsert_def Let_def x f prod.case by (cases f) (simp, simp only: if_False snd_conv, blast)
  moreover have "f \<Longrightarrow> snd (Upsert oid now q db) = db2" by (simp add: Upsert_def x f Let_def)
  moreover have "de_Serial (inform_fields now q ps d) = uq_Serial q" for ps d by (simp add: inform_fields_def)
  ultimately show ?thesis by fastforce
qed

lemma filed_put: "filed db \<Longrightarrow> de_Serial d = s \<Longrightarrow> db_devices db' = mput s d (db_devices db) \<Longrightarrow> filed db'"
  by (auto simp: filed_def)

lemma Upsert_filed: "filed db \<Longrightarrow> filed (snd (Upsert oid now q db))"
proof -
  assume db: "filed db"
  consider "db_devices (snd (Upsert oid now q db)) = db_devices db"
    | d where "de_Serial d = uq_Serial q" "db_devices (snd (Upsert oid now q db)) = mput (uq_Serial q) d (db_devices db)"
    using Upsert_devices [of oid now q db] by blast
  then show ?thesis
  proof cases
    case 1
    then show ?thesis using db by (simp add: filed_def)
  next
    case 2
    then show ?thesis using filed_put [OF db] by blast
  qed
qed

lemma Upsert_other: "t \<noteq> uq_Serial q \<Longrightarrow> document_params t (snd (Upsert oid now q db)) = document_params t db"
  using Upsert_devices [of oid now q db] by (auto simp: document_params_def)

lemma UpdateInfo_keeps:
  "filed db \<Longrightarrow> filed (snd (UpdateInfo now s u db))"
  "document_params t (snd (UpdateInfo now s u db)) = document_params t db"
  by (simp_all add: UpdateInfo_def update_one_filed update_one_params info_fields_keep)

lemma Merge_update:
  obtains f db' where "snd (MergeParameters now s ps db) = snd (update_one s f db')"
    "db_devices db' = db_devices db" "\<And>d. de_Serial (f d) = de_Serial d"
proof -
  obtain x db' where x: "read_parameters s db = (x, db')" by fastforce
  then have "db_devices db' = db_devices db" using read_parameters_keeps [of s db] by simp
  then show ?thesis using that x by (simp add: MergeParameters_def Let_def)
qed

lemma replace_keeps:
  "filed db \<Longrightarrow> filed (snd (UpdateParameters now s ps db))"
  "t \<noteq> s \<Longrightarrow> document_params t (snd (UpdateParameters now s ps db)) = document_params t db"
  by (simp_all add: UpdateParameters_def update_one_filed update_one_params)

lemma merge_keeps:
  "filed db \<Longrightarrow> filed (snd (MergeParameters now s ps db))"
  "t \<noteq> s \<Longrightarrow> document_params t (snd (MergeParameters now s ps db)) = document_params t db"
proof -
  obtain f db' where m: "snd (MergeParameters now s ps db) = snd (update_one s f db')" "db_devices db' = db_devices db"
      "\<And>d. de_Serial (f d) = de_Serial d"
    using Merge_update [of now s ps db] by blast
  note same = same_documents [OF m(2)]
  show "filed db \<Longrightarrow> filed (snd (MergeParameters now s ps db))" by (simp add: m(1,3) update_one_filed same)
  show "t \<noteq> s \<Longrightarrow> document_params t (snd (MergeParameters now s ps db)) = document_params t db"
    by (simp add: m(1) update_one_params same)
qed

lemma tags_keep:
  "filed db \<Longrightarrow> filed (snd (UpdateTags now s tags db))"
  "document_params t (snd (UpdateTags now s tags db)) = document_params t db"
  by (simp_all add: UpdateTags_def update_one_filed update_one_params)

lemma finds_keep:
  "db_devices (snd (FindBySerial s db)) = db_devices db" "db_devices (snd (service_List q page limit db)) = db_devices db"
  by (auto simp: FindBySerial_def service_List_def Find_devices_def db_call_def Let_def
      split: list.splits prod.splits if_splits)

lemma finds_filed:
  "filed db \<Longrightarrow> filed (snd (FindBySerial s db))" "filed db \<Longrightarrow> filed (snd (service_List q page limit db))"
  by (simp_all add: filed_def finds_keep)

lemma finds_params:
  "document_params t (snd (FindBySerial s db)) = document_params t db"
  "document_params t (snd (service_List q page limit db)) = document_params t db"
  by (simp_all add: document_params_def finds_keep)

lemma delete_devices: "db_devices (snd (Delete_device s db)) \<in> {db_devices db, mdel s (db_devices db)}"
  using db_call_keeps [of db] by (cases "db_call db") (simp add: Delete_device_def)

lemma delete_keeps:
  "filed db \<Longrightarrow> filed (snd (Delete_device s db))"
  "t \<noteq> s \<Longrightarrow> document_params t (snd (Delete_device s db)) = document_params t db"
  using delete_devices [of s db] by (auto simp: filed_def document_params_def split: if_splits)

lemma map_of_map_snd: "map_of (map (\<lambda>(k, v). (k, f v)) m) k = map_option f (map_of m k)"
  by (induction m) auto

lemma presence_devices:
  "\<exists>f. (\<forall>d. de_Serial (f d) = de_Serial d \<and> de_Parameters (f d) = de_Parameters d) \<and>
     db_devices (presence_tick i now db) = map (\<lambda>(s, d). (s, f d)) (db_devices db)"
proof (cases "fst (db_call db)")
  case True
  then show ?thesis
    using db_call_keeps [of db] by (cases "db_call db") (auto simp: presence_tick_def MarkStaleOffline_def intro: exI [of _ "\<lambda>d. d"])
next
  case False
  let ?f = "\<lambda>d. if stale (now - wrap64 (i * 3)) d then d\<lparr>de_Online := False, de_UpdatedAt := now\<rparr> else d"
  show ?thesis
    using False db_call_keeps [of db]
    by (cases "db_call db")
      (auto simp: presence_tick_def MarkStaleOffline_def intro: exI [of _ "\<lambda>d. d"] exI [of _ ?f])
qed

lemma presence_keeps:
  "filed db \<Longrightarrow> filed (presence_tick i now db)"
  "document_params t (presence_tick i now db) = document_params t db"
proof -
  obtain f where f: "\<forall>d. de_Serial (f d) = de_Serial d \<and> de_Parameters (f d) = de_Parameters d"
    "db_devices (presence_tick i now db) = map (\<lambda>(s, d). (s, f d)) (db_devices db)"
    using presence_devices by blast
  have "fst \<circ> (\<lambda>(s :: string, d). (s, f d)) = fst" by auto
  with f show "filed db \<Longrightarrow> filed (presence_tick i now db)"
    by (auto simp: filed_def wf_map_def map_of_map_snd)
  show "document_params t (presence_tick i now db) = document_params t db"
    using f by (simp add: document_params_def map_of_map_snd option.map_comp comp_def)
qed

subsection \<open>The laws hold\<close>

interpretation coherent_repo: parameter_upkeep "\<lambda>_. True" repo_sound
  by unfold_locales (simp_all add: update_sound delete_sound read_sound runSnapshot_sound expired_sound reads_sound)

interpretation filed_documents: document_upkeep "\<lambda>_. True" filed
  by unfold_locales
    (simp_all add: Upsert_filed UpdateInfo_keeps replace_keeps merge_keeps tags_keep delete_keeps presence_keeps finds_filed)

interpretation other_params: parameter_upkeep "\<lambda>s. s \<noteq> t" "\<lambda>r. stored t r = x" for t x
  by unfold_locales (simp_all add: update_other delete_other reads_stored repo_simps)

interpretation other_documents: document_upkeep "\<lambda>s. s \<noteq> t" "\<lambda>db. document_params t db = y" for t y
  by unfold_locales
    (simp_all add: Upsert_other UpdateInfo_keeps replace_keeps merge_keeps tags_keep delete_keeps presence_keeps finds_params)

end
