(* ===== verification/Process.thy ===== *)
theory Process imports Api_Router Stores begin

section \<open>The process\<close>

text \<open>
  cmd/api/main.go: what \<^verbatim>\<open>run\<close> puts together. One configured user name and password serve the devices and
  the operators; the two servers, the monitors and the timers work on one set of stores. The process is
  a machine that handles one event at a time: a request is handled as a whole, as in the theories of the
  two servers.
\<close>

subsection \<open>Connecting\<close>

text \<open>
  Up to three attempts, whose outcomes are given: an error or none. For MongoDB an attempt is a connection
  and, if there is one, a ping. The error of the last attempt is the one reported.
\<close>

definition dbMaxRetries :: nat where "dbMaxRetries = 3"

fun connect_attempts :: "nat \<Rightarrow> (nat \<Rightarrow> string option) \<Rightarrow> string \<Rightarrow> string + nat" where
  "connect_attempts 0 outcome lastErr = Inl lastErr"
| "connect_attempts (Suc left) outcome lastErr =
     (case outcome (dbMaxRetries - left) of
        None \<Rightarrow> Inr (dbMaxRetries - left)
      | Some err \<Rightarrow> connect_attempts left outcome err)"

definition connectMongoDB :: "(nat \<Rightarrow> string option) \<Rightarrow> (nat \<Rightarrow> string option) \<Rightarrow> string + nat" where
  "connectMongoDB connect ping =
     connect_attempts dbMaxRetries (\<lambda>n. case connect n of Some err \<Rightarrow> Some err | None \<Rightarrow> ping n) []"

definition connectRedis :: "string option \<Rightarrow> (nat \<Rightarrow> string option) \<Rightarrow> string + nat" where
  "connectRedis parse_error ping =
     (case parse_error of Some err \<Rightarrow> Inl err | None \<Rightarrow> connect_attempts dbMaxRetries ping [])"

subsection \<open>Wiring\<close>

record process_config =
  pc_username :: string
  pc_password :: string
  pc_jwt :: jwt_service
  pc_jwtlib :: jwt_lib
  pc_allow :: rate_lib
  pc_match :: path_match
  pc_maxAttempts :: int
  pc_informInterval :: int
  pc_retentionDays :: int

record process =
  ps_acs :: acs
  ps_limits :: rate_limiter
  ps_digest :: digest_auth

text \<open>\<^verbatim>\<open>api.NewRouter\<close> takes the user name and the password of the ACS for those of the operator.\<close>

definition router_config :: "process_config \<Rightarrow> bool \<times> bool \<Rightarrow> api_config" where
  "router_config c pings =
     \<lparr> ac_jwtlib = pc_jwtlib c, ac_allow = pc_allow c, ac_match = pc_match c,
       ac_auth = \<lparr> ah_jwt = pc_jwt c, ah_adminUser = pc_username c, ah_adminPass = pc_password c \<rparr>,
       ac_maxAttempts = pc_maxAttempts c, ac_pings = pings \<rparr>"

text \<open>What the process keeps in memory is empty at the start; the stores are as they are.\<close>

definition fresh_world :: "world \<Rightarrow> world" where
  "fresh_world w = w\<lparr>w_jobs := [], w_lastSummon := [], w_full := []\<rparr>"

definition start_process :: "process_config \<Rightarrow> world \<Rightarrow> process" where
  "start_process c w =
     \<lparr> ps_acs = \<lparr> ac_sm = empty_manager, ac_world = fresh_world w \<rparr>, ps_limits = [],
       ps_digest = NewDigestAuth ''ACS'' (pc_username c) (pc_password c) \<rparr>"

text \<open>
  What \<^verbatim>\<open>run\<close> depends on, in its order: whether the configuration names the two databases and the task
  queue, how the attempts to connect go, the indexes of the device store, and the parameter store.
\<close>

record startup =
  su_storage :: bool
  su_mongo_connect :: "nat \<Rightarrow> string option"
  su_mongo_ping :: "nat \<Rightarrow> string option"
  su_cache :: bool
  su_redis_url :: "string option"
  su_redis_ping :: "nat \<Rightarrow> string option"
  su_indexes :: "string option"
  su_task :: bool
  su_parameters :: "string option"

datatype start_error =
    NoStorageConfig | StorageError string | NoCacheConfig | CacheError string
  | DeviceRepositoryError string | NoTaskConfig | ParameterRepositoryError string

definition connectStorage :: "startup \<Rightarrow> start_error option" where
  "connectStorage su =
     (if \<not> su_storage su then Some NoStorageConfig
      else case connectMongoDB (su_mongo_connect su) (su_mongo_ping su) of
             Inl err \<Rightarrow> Some (StorageError err)
           | Inr _ \<Rightarrow> None)"

definition connectCache :: "startup \<Rightarrow> start_error option" where
  "connectCache su =
     (if \<not> su_cache su then Some NoCacheConfig
      else case connectRedis (su_redis_url su) (su_redis_ping su) of
             Inl err \<Rightarrow> Some (CacheError err)
           | Inr _ \<Rightarrow> None)"

definition run_process :: "process_config \<Rightarrow> startup \<Rightarrow> world \<Rightarrow> start_error + process" where
  "run_process c su w =
     (case connectStorage su of
        Some err \<Rightarrow> Inl err
      | None \<Rightarrow>
          (case connectCache su of
             Some err \<Rightarrow> Inl err
           | None \<Rightarrow>
               (case su_indexes su of
                  Some err \<Rightarrow> Inl (DeviceRepositoryError err)
                | None \<Rightarrow>
                    if \<not> su_task su then Inl NoTaskConfig
                    else (case su_parameters su of
                            Some err \<Rightarrow> Inl (ParameterRepositoryError err)
                          | None \<Rightarrow> Inr (start_process c w)))))"

text \<open>The registries are used as far as they were loaded, also after an error.\<close>

definition initSchemaRegistry :: "string \<Rightarrow> schema_file walk_entry list \<Rightarrow> registry" where
  "initSchemaRegistry dir entries = snd (LoadDir dir entries [])"

definition initDriverRegistry :: "flow_files \<Rightarrow> string \<Rightarrow> driver_yaml walk_entry list \<Rightarrow> driver_registry" where
  "initDriverRegistry flows dir entries = snd (driver_LoadDir flows dir entries [])"

subsection \<open>Events\<close>

text \<open>
  Requests on the two ports, the ticks of the monitors and timers, a cache entry whose hour is over, and
  the progress of a goroutine.
  \<^verbatim>\<open>SessionManager.Cleanup\<close> is no event: nothing calls it.
\<close>

datatype event =
    OnApi env "bool \<times> bool" api_request
  | OnCwmp env string auth_request int http_request
  | OnLimiter int
  | OnPresence int
  | OnSnapshot int
  | OnHistory int
  | OnExpiry string
  | OnJob env nat

datatype event_output = ApiOutput api_answer | CwmpOutput cwmp_answer | NoOutput

definition on_acs_world :: "(world \<Rightarrow> world option) \<Rightarrow> process \<Rightarrow> (event_output \<times> process) option" where
  "on_acs_world f p =
     map_option (\<lambda>w. (NoOutput, p\<lparr>ps_acs := (ps_acs p)\<lparr>ac_world := w\<rparr>\<rparr>)) (f (ac_world (ps_acs p)))"

text \<open>The job at a position of the list gets to run; \<^term>\<open>None\<close> when it panics.\<close>

definition run_job_at :: "env \<Rightarrow> nat \<Rightarrow> world \<Rightarrow> world option" where
  "run_job_at e n w =
     (if n < length (w_jobs w)
      then run_job e (w_jobs w ! n) (w\<lparr>w_jobs := take n (w_jobs w) @ drop (Suc n) (w_jobs w)\<rparr>)
      else Some w)"

text \<open>\<^term>\<open>None\<close>: a goroutine panicked and the process is gone.\<close>

definition handle_event :: "process_config \<Rightarrow> event \<Rightarrow> process \<Rightarrow> (event_output \<times> process) option" where
  "handle_event c ev p =
     (case ev of
        OnApi e pings rq \<Rightarrow>
          (case serve_api (router_config c pings) e rq \<lparr> as_acs = ps_acs p, as_limits = ps_limits p \<rparr> of
             (ans, st) \<Rightarrow> Some (ApiOutput ans, p\<lparr>ps_acs := as_acs st, ps_limits := as_limits st\<rparr>))
      | OnCwmp e uuid auth len rq \<Rightarrow>
          (case cwmp_endpoint e uuid auth len rq (ps_digest p) (ps_acs p) of
             (ans, d, a) \<Rightarrow> Some (CwmpOutput ans, p\<lparr>ps_digest := d, ps_acs := a\<rparr>))
      | OnLimiter now \<Rightarrow> Some (NoOutput, p\<lparr>ps_limits := limiter_cleanup now (ps_limits p)\<rparr>)
      | OnPresence now \<Rightarrow>
          on_acs_world (\<lambda>w. Some (w\<lparr>w_devices := presence_tick (pc_informInterval c) now (w_devices w)\<rparr>)) p
      | OnSnapshot now \<Rightarrow> on_acs_world (\<lambda>w. Some (w\<lparr>w_repo := runSnapshot now (w_repo w)\<rparr>)) p
      | OnHistory now \<Rightarrow>
          on_acs_world (\<lambda>w. Some (w\<lparr>w_repo := hourly_cleanup now (pc_retentionDays c) (w_repo w)\<rparr>)) p
      | OnExpiry k \<Rightarrow>
          on_acs_world (\<lambda>w. Some (w\<lparr>w_repo := (w_repo w)\<lparr>pr_cache := redis_expired k (pr_cache (w_repo w))\<rparr>\<rparr>)) p
      | OnJob e n \<Rightarrow> on_acs_world (run_job_at e n) p)"

subsection \<open>Runs\<close>

text \<open>
  The events so far, the tokens handed out and the history of the digest check. As in the theories of
  the two servers, a signed token cannot be forged and a UUID does not repeat.
\<close>

fun honest :: "process_config \<Rightarrow> string set \<Rightarrow> digest_event list \<Rightarrow> event \<Rightarrow> bool" where
  "honest c T h (OnApi e pings rq) \<longleftrightarrow>
     (\<forall>t \<in> request_tokens rq. token_valid (router_config c pings) (e_now e) t \<longrightarrow> t \<in> T)"
| "honest c T h (OnCwmp e uuid auth len rq) \<longleftrightarrow> uuid \<notin> issued h"
| "honest c T h _ \<longleftrightarrow> True"

fun output_tokens :: "event_output \<Rightarrow> string set" where
  "output_tokens (ApiOutput ans) = answer_tokens ans"
| "output_tokens _ = {}"

fun digest_events :: "event \<Rightarrow> event_output \<Rightarrow> digest_event list" where
  "digest_events (OnCwmp e uuid auth len rq) (CwmpOutput (Unauthorized realm nonce)) = [Issued nonce (e_now e)]"
| "digest_events (OnCwmp e uuid auth len rq) (CwmpOutput (Replied rep)) = [Admitted auth (e_now e)]"
| "digest_events _ _ = []"

inductive process_run ::
    "process_config \<Rightarrow> world \<Rightarrow> event list \<Rightarrow> string set \<Rightarrow> digest_event list \<Rightarrow> process \<Rightarrow> bool" for c w where
  start: "process_run c w [] {} [] (start_process c w)"
| event: "process_run c w evs T h p \<Longrightarrow> honest c T h ev \<Longrightarrow> handle_event c ev p = Some (out, p') \<Longrightarrow>
    process_run c w (evs @ [ev]) (T \<union> output_tokens out) (digest_events ev out @ h) p'"

subsection \<open>Facts: connecting\<close>

text \<open>The first of three attempts that succeeds makes the connection; else the last error is reported.\<close>

lemma connect_attempts_three:
  "connect_attempts dbMaxRetries f err =
     (if f 1 = None then Inr 1 else if f 2 = None then Inr 2 else if f 3 = None then Inr 3 else Inl (the (f 3)))"
  by (simp add: dbMaxRetries_def numeral_3_eq_3 numeral_2_eq_2 split: option.splits)

lemma connectMongoDB_connects:
  "(\<exists>n. connectMongoDB connect ping = Inr n) \<longleftrightarrow> (\<exists>n \<in> {1, 2, 3}. connect n = None \<and> ping n = None)"
  by (auto simp: connectMongoDB_def connect_attempts_three split: option.splits)

text \<open>The process starts iff everything it needs is there, and every failure has its own error.\<close>

lemma run_process_starts:
  "run_process c su w = Inr p \<longleftrightarrow> p = start_process c w \<and>
     su_storage su \<and> (\<exists>n \<in> {1, 2, 3}. su_mongo_connect su n = None \<and> su_mongo_ping su n = None) \<and>
     su_cache su \<and> su_redis_url su = None \<and> (\<exists>n \<in> {1, 2, 3}. su_redis_ping su n = None) \<and>
     su_indexes su = None \<and> su_task su \<and> su_parameters su = None"
proof -
  have storage: "connectStorage su = None \<longleftrightarrow>
      su_storage su \<and> (\<exists>n \<in> {1, 2, 3}. su_mongo_connect su n = None \<and> su_mongo_ping su n = None)"
    unfolding connectStorage_def connectMongoDB_connects [symmetric] by (simp split: sum.splits)
  have cache: "connectCache su = None \<longleftrightarrow>
      su_cache su \<and> su_redis_url su = None \<and> (\<exists>n \<in> {1, 2, 3}. su_redis_ping su n = None)"
    by (auto simp: connectCache_def connectRedis_def connect_attempts_three split: option.splits)
  have "run_process c su w = Inr p \<longleftrightarrow> p = start_process c w \<and> connectStorage su = None \<and> connectCache su = None \<and>
      su_indexes su = None \<and> su_task su \<and> su_parameters su = None"
    by (auto simp: run_process_def split: option.splits)
  then show ?thesis unfolding storage cache by blast
qed

text \<open>After an error the registries hold what was loaded until then; they are not empty.\<close>

lemma registries_partly_loaded:
  "LoadDir dir es [] = (True, reg) \<Longrightarrow> initSchemaRegistry dir (es @ WalkError # rest) = reg"
  "driver_LoadDir flows dir ds [] = (True, drv) \<Longrightarrow> initDriverRegistry flows dir (ds @ WalkError # rest2) = drv"
  by (simp_all add: initSchemaRegistry_def initDriverRegistry_def LoadDir_append driver_LoadDir_append)

subsection \<open>Facts: the process refines its servers\<close>

lemma on_world_step: "on_world f a = (r, a') \<Longrightarrow> acs_step a a'"
  by (auto simp: on_world_def intro: acs_step.outside split: prod.splits)

lemma api_world_step: "map_prod Answer id (on_world f a) = (ans, a') \<Longrightarrow> acs_step a a'"
  using on_world_step by (cases "on_world f a") auto

lemma acs_step_refl: "acs_step a a"
  using acs_step.outside [of a "ac_world a"] by simp

lemma handle_step:
  assumes "handle cfg e rq ep vars a = (ans, a')"
  shows "acs_step a a'"
proof -
  have trigger: "map_prod Answer id (TriggerFullSummon_request s a) = (ans, a') \<Longrightarrow> acs_step a a'" for s
    using acs_step_refl by (auto simp: TriggerFullSummon_request_def intro: acs_step.trigger split: if_splits)
  show ?thesis
    using assms unfolding handle_def Let_def
    by (cases ep) (auto intro: api_world_step trigger acs_step_refl)
qed

lemma routed_step:
  assumes "routed cfg e rq a = (ans, a')"
  shows "acs_step a a'"
  using assms
  by (auto simp: routed_def intro: handle_step acs_step_refl split: option.splits prod.splits)

lemma serve_api_step:
  assumes "serve_api cfg e rq st = (ans, st')"
  shows "acs_step (as_acs st) (as_acs st')"
  using assms acs_step_refl [of "as_acs st"] routed_step [of cfg e rq "as_acs st"]
  by (auto simp: serve_api_def CORS_def split: if_splits prod.splits bool.splits)

lemma cwmp_endpoint_step:
  assumes "cwmp_endpoint e uuid auth len rq d a = (ans, d', a')"
  shows "acs_step a a'"
  using assms acs_step_refl acs_step.request
  by (auto simp: cwmp_endpoint_def split: prod.splits digest_outcome.splits)

lemma event_step:
  assumes "handle_event c ev p = Some (out, p')"
  shows "acs_step (ps_acs p) (ps_acs p')"
proof -
  have world: "on_acs_world f p = Some (out, p') \<Longrightarrow> acs_step (ps_acs p) (ps_acs p')" for f
    by (auto simp: on_acs_world_def intro: acs_step.outside)
  show ?thesis
  proof (cases ev)
    case (OnApi e pings rq)
    then show ?thesis
      using assms serve_api_step [of "router_config c pings" e rq "\<lparr> as_acs = ps_acs p, as_limits = ps_limits p \<rparr>"]
      by (auto simp: handle_event_def split: prod.splits)
  next
    case (OnCwmp e uuid auth len rq)
    then show ?thesis
      using assms cwmp_endpoint_step [of e uuid auth len rq "ps_digest p" "ps_acs p"]
      by (auto simp: handle_event_def split: prod.splits)
  qed (use assms world acs_step_refl in \<open>auto simp: handle_event_def\<close>)
qed

lemma acs_step_reachable: "acs_reachable a \<Longrightarrow> acs_step a b \<Longrightarrow> acs_reachable b"
  by (rule acs_reachable.step)

lemma cwmp_endpoint_digest:
  assumes "cwmp_endpoint e uuid auth len rq d a = (ans, d', a')" and "uuid \<notin> issued h" and "digest_run d h"
  shows "digest_run d' (digest_events (OnCwmp e uuid auth len rq) (CwmpOutput ans) @ h) \<and> da_password d' = da_password d"
proof -
  obtain res d1 where m: "Middleware (e_now e) uuid auth d = (res, d1)" by fastforce
  have d': "d' = d1" using assms(1) m by (auto simp: cwmp_endpoint_def split: prod.splits digest_outcome.splits)
  show ?thesis
  proof (cases res)
    case (Challenge realm nonce)
    then have "nonce = uuid" using Middleware_out_eq [of "e_now e" uuid auth d] m by (auto split: option.splits)
    then show ?thesis
      using digest_run.challenged [OF assms(3,2)] m Challenge d' Middleware_keeps [OF m] assms(1)
      by (auto simp: cwmp_endpoint_def)
  next
    case (Passed user)
    then show ?thesis
      using digest_run.passed [OF assms(3)] m d' Middleware_keeps [OF m] assms(1)
      by (auto simp: cwmp_endpoint_def split: prod.splits)
  qed
qed

text \<open>In every run the sessions are in a reachable state of the server, and the nonces in one of the digest check.\<close>

lemma process_refines:
  assumes "process_run c w evs T h p"
  shows "acs_reachable (ps_acs p) \<and> digest_run (ps_digest p) h \<and> da_password (ps_digest p) = pc_password c"
  using assms
proof (induction rule: process_run.induct)
  case start
  then show ?case
    by (simp add: start_process_def acs_reachable.start digest_run.start) (simp add: NewDigestAuth_def)
next
  case (event evs T h p ev out p')
  have "acs_reachable (ps_acs p')" using event event_step acs_step_reachable by blast
  moreover have "digest_run (ps_digest p') (digest_events ev out @ h) \<and> da_password (ps_digest p') = da_password (ps_digest p)"
  proof (cases ev)
    case (OnCwmp e uuid auth len rq)
    then show ?thesis
      using event cwmp_endpoint_digest [of e uuid auth len rq "ps_digest p" "ps_acs p"]
      by (auto simp: handle_event_def split: prod.splits)
  qed (use event in \<open>auto simp: handle_event_def on_acs_world_def split: prod.splits\<close>)
  ultimately show ?case using event.IH by simp
qed

subsection \<open>Facts: what happens before anybody shows the password\<close>

text \<open>A request that carries the configured password: to log in, or in the digest of a device.\<close>

fun shows_password :: "process_config \<Rightarrow> event \<Rightarrow> bool" where
  "shows_password c (OnApi e pings rq) \<longleftrightarrow> operator_login (router_config c pings) rq"
| "shows_password c (OnCwmp e uuid auth len rq) \<longleftrightarrow> proves_password (pc_password c) auth"
| "shows_password c _ \<longleftrightarrow> False"

text \<open>A device as far as the presence monitor does not write it.\<close>

definition but_presence :: "device \<Rightarrow> device" where
  "but_presence d = d\<lparr>de_Online := False, de_UpdatedAt := 0\<rparr>"

text \<open>
  Nothing but the snapshots, the history and the presence of devices is different: the queue with its
  tasks, the goroutines, the summons asked for, the parameters of all devices and the other data of the
  devices are as they were.
\<close>

definition untouched :: "world \<Rightarrow> world \<Rightarrow> bool" where
  "untouched w v \<longleftrightarrow>
     w_queue v = w_queue w \<and> w_jobs v = w_jobs w \<and> w_lastSummon v = w_lastSummon w \<and> w_full v = w_full w \<and>
     pr_params (w_repo v) = pr_params (w_repo w) \<and>
     map (map_prod id but_presence) (db_devices (w_devices v)) = map (map_prod id but_presence) (db_devices (w_devices w))"

lemma presence_tick_keeps:
  "map (map_prod id but_presence) (db_devices (presence_tick i now db)) = map (map_prod id but_presence) (db_devices db)"
  by (auto simp: presence_tick_def MarkStaleOffline_def db_call_def but_presence_def split: list.splits prod.splits)

lemma timers_untouched:
  "untouched w (w\<lparr>w_devices := presence_tick i now (w_devices w)\<rparr>)"
  "untouched w (w\<lparr>w_repo := runSnapshot now (w_repo w)\<rparr>)"
  "untouched w (w\<lparr>w_repo := hourly_cleanup now d (w_repo w)\<rparr>)"
  "untouched w (w\<lparr>w_repo := (w_repo w)\<lparr>pr_cache := c\<rparr>\<rparr>)"
  "untouched w w"
  by (simp_all only: untouched_def) (simp_all add: presence_tick_keeps runSnapshot_params reads_keep)

lemma untouched_trans: "untouched u v \<Longrightarrow> untouched v w \<Longrightarrow> untouched u w"
  by (simp add: untouched_def)

lemma cwmp_unproved:
  assumes "digest_run d h" and "cwmp_endpoint e uuid auth len rq d a = (ans, d', a')"
    and "\<not> proves_password (da_password d) auth"
  shows "a' = a"
proof -
  obtain res d1 where m: "Middleware (e_now e) uuid auth d = (res, d1)" by fastforce
  then show ?thesis
    using assms(2,3) admitted_proves_password [OF assms(1)] by (cases res) (auto simp: cwmp_endpoint_def)
qed

lemma quiet_event:
  assumes "handle_event c ev p = Some (out, p')" and "honest c {} h ev" and "\<not> shows_password c ev"
    and "digest_run (ps_digest p) h" and "da_password (ps_digest p) = pc_password c" and "w_jobs (ac_world (ps_acs p)) = []"
  shows "ac_sm (ps_acs p') = ac_sm (ps_acs p) \<and> untouched (ac_world (ps_acs p)) (ac_world (ps_acs p')) \<and> output_tokens out = {}"
proof (cases ev)
  case (OnApi e pings rq)
  then show ?thesis
    using assms serve_api_unauthorised [of rq "router_config c pings" e "\<lparr> as_acs = ps_acs p, as_limits = ps_limits p \<rparr>"]
    by (auto simp: handle_event_def timers_untouched split: prod.splits)
next
  case (OnCwmp e uuid auth len rq)
  then show ?thesis
    using assms cwmp_unproved [OF assms(4), of e uuid auth len rq "ps_acs p"]
    by (auto simp: handle_event_def timers_untouched split: prod.splits)
qed (use assms in \<open>auto simp: handle_event_def on_acs_world_def run_job_at_def timers_untouched\<close>)


text \<open>Without goroutines no event ends the process.\<close>

lemma no_job_no_crash: "w_jobs (ac_world (ps_acs p)) = [] \<Longrightarrow> handle_event c ev p \<noteq> None"
  by (cases ev) (auto simp: handle_event_def on_acs_world_def run_job_at_def split: prod.splits)

text \<open>
  A schema that is not registered ends the process: there is no fall-back to the built-in mappers, and
  the goroutine that completes the WAN data of a device calls methods of a nil mapper.
\<close>

lemma missing_schema_ends_process:
  assumes "w_jobs w ! n = JobBackfill serial dev name" and "n < length (w_jobs w)" and "ac_world (ps_acs p) = w"
    and "\<not> Has (e_schemas e) (baseModelName name)" and "\<not> Has (e_schemas e) name"
    and "fst (GetAllParameters serial (w_repo w)) = Inr ps" and "ps \<noteq> []"
    and "de_WANs dev = Some ws" and "x \<in> set ws" and "wi_ServiceType x = []"
  shows "handle_event c (OnJob e n) p = None"
proof -
  have "schema_mapper_ref (e_schemas e) name zero_im = NilSchemaMapper"
    using assms(4,5) by (simp add: schema_mapper_ref_def NewSchemaMapper_def)
  moreover have "list_ex (\<lambda>x. wi_ServiceType x = []) ws" using assms(9,10) by (auto simp: list_ex_iff)
  ultimately have "backfill_update dev ps (deref (schema_mapper_ref (e_schemas e) name zero_im)) = None"
    using assms(8) by (simp add: backfill_update_def deref_def Let_def)
  moreover obtain r where "GetAllParameters serial (w_repo w) = (Inr ps, r)" using assms(6) by (metis prod.collapse)
  ultimately have "run_job_at e n w = None"
    using assms(1,2,7) by (simp add: run_job_at_def run_job_def run_backfill_def)
  then show ?thesis using assms(3) by (simp add: handle_event_def on_acs_world_def)
qed

text \<open>Sessions only end by their own messages: no timer removes one.\<close>

lemma timers_keep_sessions:
  assumes "handle_event c ev p = Some (out, p')" and "ev \<in> {OnLimiter t, OnPresence t, OnSnapshot t, OnHistory t, OnJob e n}"
  shows "ac_sm (ps_acs p') = ac_sm (ps_acs p)"
  using assms by (auto simp: handle_event_def on_acs_world_def)

definition ex_process_config :: process_config where
  "ex_process_config = \<lparr> pc_username = ''acs'', pc_password = ''secret'',
     pc_jwt = \<lparr> js_secret = ''k'', js_expiresIn = 100000000000, js_refreshExpiresIn = 100000000000 \<rparr>,
     pc_jwtlib = ex_jwt, pc_allow = (\<lambda>rps burst calls now. length calls < nat burst),
     pc_match = (\<lambda>t path. if t = path then Some [] else None),
     pc_maxAttempts = 3, pc_informInterval = 60, pc_retentionDays = 30 \<rparr>"

definition ex_quiet_events :: "event list" where
  "ex_quiet_events = [OnApi ex_env (True, True) ex_put_defaults,
     OnCwmp ex_env ''n1'' \<lparr> ar_method = ''POST'', ar_authorization = [] \<rparr> 0 \<lparr> rq_cookie = None, rq_body = BodyEmpty \<rparr>,
     OnPresence 500]"

lemma ex_quiet: "ev \<in> set ex_quiet_events \<Longrightarrow> \<not> shows_password ex_process_config ev"
proof -
  have ps: "digest_params \<lparr> ar_method = ''POST'', ar_authorization = [] \<rparr> = []"
    by (simp add: digest_params_def parseDigestHeader_def digest_part_def trim_space_def)
  have "\<not> proves_password ''secret'' \<lparr> ar_method = ''POST'', ar_authorization = [] \<rparr>"
    using expected_response_not_Nil [of "''secret''" "''POST''" "[]"]
    by (simp add: proves_password_def response_matches_def ps equal_fold_def mget_def to_lower_def)
  moreover have "\<not> operator_login (router_config ex_process_config (True, True)) ex_put_defaults"
    by (simp add: operator_login_def decode_login_def unmarshal_def dec_struct_def ex_put_defaults_def
        router_config_def ex_process_config_def)
  ultimately show "ev \<in> set ex_quiet_events \<Longrightarrow> \<not> shows_password ex_process_config ev"
    by (auto simp: ex_quiet_events_def ex_process_config_def)
qed

lemma ex_put_defaults_honest: "honest ex_process_config {} h (OnApi ex_env (True, True) ex_put_defaults)"
proof -
  have "bearer_token ''Bearer guess'' = Inr ''guess''"
    using has_prefix_append [of "''Bearer ''" "''guess''"] by (simp add: bearer_token_def trim_prefix_def)
  moreover have "decode_refresh (Some (JObj [])) = Some []" by (simp add: decode_refresh_def unmarshal_def dec_struct_def)
  moreover have "\<not> token_valid (router_config ex_process_config x) now t" if "t \<in> {''guess'', []}" for x now t
    using that by (auto simp: token_valid_def router_config_def ex_process_config_def ex_jwt_def)
  ultimately show ?thesis by (auto simp: request_tokens_def ex_put_defaults_def)
qed

lemma quiet_extends:
  assumes "process_run c w evs {} h p" and "w_jobs (ac_world (ps_acs p)) = []"
    and "honest c {} h ev" and "\<not> shows_password c ev"
  obtains out p' where "process_run c w (evs @ [ev]) {} (digest_events ev out @ h) p'"
    "w_jobs (ac_world (ps_acs p')) = []"
proof -
  obtain out p' where run: "handle_event c ev p = Some (out, p')" using no_job_no_crash [OF assms(2)] by fastforce
  have "output_tokens out = {} \<and> w_jobs (ac_world (ps_acs p')) = []"
    using quiet_event [OF run assms(3,4)] process_refines [OF assms(1)] assms(2) by (simp add: untouched_def)
  then show ?thesis using process_run.event [OF assms(1,3) run] that by simp
qed


end
