(* ===== verification/Store_Safety.thy ===== *)
theory Store_Safety imports Process begin

section \<open>What the process does to its stores\<close>

text \<open>
  The session engine, the REST API, the goroutines and the timers as clients of the two stores. What
  the interfaces of the stores keep is kept by every handler, and so by every event of the process: once
  for the agreement of cache, table and documents, and once for the parameters of a device whose
  messages and requests do not come.
\<close>

subsection \<open>What leaves the stores alone\<close>

named_theorems store_frame \<open>what leaves the parameters and the device documents alone\<close>

text \<open>The serial numbers whose parameters a goroutine is going to store.\<close>

definition recorders :: "world \<Rightarrow> string set" where
  "recorders w = {s. \<exists>ps. JobRecord s ps \<in> set (w_jobs w)}"

lemma recorders_upd [simp]:
  "recorders (w\<lparr>w_queue := q\<rparr>) = recorders w" "recorders (w\<lparr>w_devices := db\<rparr>) = recorders w"
  "recorders (w\<lparr>w_repo := r\<rparr>) = recorders w" "recorders (w\<lparr>w_lastSummon := l\<rparr>) = recorders w"
  "recorders (w\<lparr>w_full := f\<rparr>) = recorders w"
  "recorders (w\<lparr>w_jobs := w_jobs w @ task_jobs t s\<rparr>) = recorders w"
  by (auto simp: recorders_def task_jobs_def)

lemma recorders_inform:
  "recorders (w\<lparr>w_jobs := w_jobs w @ inform_jobs q dev\<rparr>) \<subseteq> insert (uq_Serial q) (recorders w)"
  by (auto simp: recorders_def inform_jobs_def Let_def split: if_splits)

lemma recorders_rest: "set js \<subseteq> set (w_jobs w) \<Longrightarrow> recorders (w\<lparr>w_jobs := js\<rparr>) \<subseteq> recorders w"
  by (auto simp: recorders_def)

abbreviation same_stores :: "world \<Rightarrow> world \<Rightarrow> bool" where
  "same_stores w v \<equiv> w_repo v = w_repo w \<and> w_devices v = w_devices w \<and> recorders v = recorders w"

lemma queue_frame [store_frame]:
  "same_stores w (snd (queue_update e t w))" "same_stores w (snd (queue_enqueue e t w))"
  by (auto simp: queue_update_def queue_enqueue_def split: prod.splits sum.splits)

lemma task_frame [store_frame]:
  "same_stores w (mark_build_failed e t err w)" "same_stores w (completeTask e t res err w)"
  "same_stores w (complete_with e t j w)"
  by (simp_all add: mark_build_failed_def completeTask_def complete_with_def queue_frame)

lemma mark_executing_frame: "mark_executing e t w = (r, w') \<Longrightarrow> same_stores w w'"
  using queue_frame(1) [where w = w and e = e and t = "started_task (e_now e) t"]
  by (auto simp: mark_executing_def Let_def split: prod.splits if_splits)

lemma dispatch_frame [store_frame]:
  "same_stores w (snd (snd (dispatchTask e t s w)))" "same_stores w (snd (snd (dispatchNextOrClose e s w)))"
proof (induction e t s w and e s w rule: dispatchTask_dispatchNextOrClose.induct)
  case (1 e t0 s0 w0)
  obtain t ok w1 where m: "mark_executing e t0 w0 = ((t, ok), w1)" by (metis surj_pair)
  then have w1: "same_stores w0 w1" by (rule mark_executing_frame)
  obtain res s where x: "executeTask e t s0 = (res, s)" by fastforce
  show ?case
    using 1 m x w1 task_frame(1)
    by (simp add: dispatchTask.simps [of e t0 s0 w0] Let_def split: exec_result.split)
next
  case (2 e s w)
  then show ?case by (simp add: dispatchNextOrClose.simps [of e s w] split: list.split)
qed

lemma response_frame [store_frame]:
  "same_stores w (snd (snd (handleTaskResponse e res err s w)))"
  by (auto simp: handleTaskResponse_def store_frame Let_def split: option.splits)

subsection \<open>Clients\<close>

definition stores_good :: "(string \<Rightarrow> bool) \<Rightarrow> (param_repo \<Rightarrow> bool) \<Rightarrow> (device_db \<Rightarrow> bool) \<Rightarrow> world \<Rightarrow> bool" where
  "stores_good M P Q w \<longleftrightarrow> P (w_repo w) \<and> Q (w_devices w) \<and> (\<forall>s \<in> recorders w. M s)"

lemma stores_good_frame: "same_stores w v \<Longrightarrow> stores_good M P Q v = stores_good M P Q w"
  by (simp add: stores_good_def)

lemma stores_good_upd [simp]:
  "stores_good M P Q (w\<lparr>w_queue := q\<rparr>) = stores_good M P Q w"
  "stores_good M P Q (w\<lparr>w_lastSummon := l\<rparr>) = stores_good M P Q w" "stores_good M P Q (w\<lparr>w_full := f\<rparr>) = stores_good M P Q w"
  by (simp_all add: stores_good_def)

lemma stores_good_same [simp]:
  "stores_good M P Q (snd (queue_update e t w)) = stores_good M P Q w"
  "stores_good M P Q (snd (queue_enqueue e t w)) = stores_good M P Q w"
  "stores_good M P Q (completeTask e t res err w) = stores_good M P Q w"
  "stores_good M P Q (complete_with e t j w) = stores_good M P Q w"
  "stores_good M P Q (snd (snd (dispatchTask e t s w))) = stores_good M P Q w"
  "stores_good M P Q (snd (snd (dispatchNextOrClose e s w))) = stores_good M P Q w"
  "stores_good M P Q (snd (snd (handleTaskResponse e res err s w))) = stores_good M P Q w"
  by (rule stores_good_frame, simp add: store_frame)+

text \<open>
  The serial number under which a request is handled: that of its Inform, or that of the session that
  serves it.
\<close>

definition request_serial :: "env \<Rightarrow> http_request \<Rightarrow> acs \<Rightarrow> string" where
  "request_serial e rq a =
     (case GetOrCreate (e_now e) (getSessionID e rq) (ac_sm a) of (r, m) \<Rightarrow>
        (case rq_body rq of
           BodyText t \<Rightarrow>
             (case Option.bind t ParseEnvelope of
                None \<Rightarrow> se_DeviceSerial (sm_heap m r)
              | Some (h, b) \<Rightarrow>
                  (case ib_Inform b of
                     Some msg \<Rightarrow> uq_Serial (extractInformParams msg)
                   | None \<Rightarrow> se_DeviceSerial (sm_heap m (fst (serving_session h r m)))))
         | _ \<Rightarrow> se_DeviceSerial (sm_heap m r)))"

locale store_access =
  parameters: parameter_store mine good + documents: document_store mine sound
  for mine :: "string \<Rightarrow> bool" and good :: "param_repo \<Rightarrow> bool" and sound :: "device_db \<Rightarrow> bool"
begin

abbreviation ok :: "world \<Rightarrow> bool" where
  "ok \<equiv> stores_good mine good sound"

lemma store_params_ok: "mine serial \<Longrightarrow> ok w \<Longrightarrow> ok (store_params e serial ps w)"
  by (simp add: stores_good_def store_params_def parameters.store)

lemma update_info_ok: "ok w \<Longrightarrow> ok (update_info e serial u w)"
  by (simp add: stores_good_def update_info_def documents.info)

lemma repo_ok: "ok w \<Longrightarrow> good r \<Longrightarrow> ok (w\<lparr>w_repo := r\<rparr>)"
  by (simp add: stores_good_def)

lemma devices_ok: "ok w \<Longrightarrow> sound db \<Longrightarrow> ok (w\<lparr>w_devices := db\<rparr>)"
  by (simp add: stores_good_def)

lemma ok_sel: "ok w \<Longrightarrow> good (w_repo w)" "ok w \<Longrightarrow> sound (w_devices w)"
  by (simp_all add: stores_good_def)

lemmas ok_intros = store_params_ok update_info_ok repo_ok devices_ok ok_sel

lemma read_all_ok: "GetAllParameters s r = (x, r') \<Longrightarrow> good r \<Longrightarrow> good r'"
  using parameters.read_all [of r s] by simp

lemma read_one_ok: "pr_GetParameter s n r = (x, r') \<Longrightarrow> good r \<Longrightarrow> good r'"
  using parameters.read_one [of r s n] by simp

lemma recall_ok: "GetSnapshot s ty r = (x, r') \<Longrightarrow> good r \<Longrightarrow> good r'"
  using parameters.recall [of r s ty] by simp

lemma injectGlobal_ok:
  assumes "mine serial \<or> serial = []" and "ok w"
  shows "ok (snd (injectGlobalDefaultParams e serial cur s w))"
proof (cases "serial = []")
  case False
  obtain x r where x: "GetAllParameters ''__system__'' (w_repo w) = (x, r)" by fastforce
  have r: "good r" using read_all_ok [OF x] ok_sel(1) [OF assms(2)] .
  let ?ask = "\<not> se_isBootstrap s \<and> \<not> se_needsGlobalDefaults s"
  obtain y r2 where y: "(if ?ask then pr_GetParameter serial ''_helix.provisioned'' r else (Inr [], r)) = (y, r2)" by fastforce
  have "good r2" using y r read_one_ok by (auto split: if_splits)
  then show ?thesis
    using False assms r x y
    by (cases x) (auto simp: injectGlobalDefaultParams_def Let_def intro!: ok_intros)
qed (use assms in \<open>simp add: injectGlobalDefaultParams_def\<close>)

lemma injectGlobal_result:
  "injectGlobalDefaultParams e serial cur s w = (s', w') \<Longrightarrow> mine serial \<Longrightarrow> ok w \<Longrightarrow> ok w'"
  using injectGlobal_ok [of serial w e cur s] by simp

lemma finishSummon_ok:
  assumes "mine (se_DeviceSerial s)" and "ok w"
  shows "ok (snd (snd (finishSummon e s w)))"
proof -
  let ?serial = "se_DeviceSerial s" and ?ps = "se_summonAllParams s"
  have w1: "ok (store_params e ?serial ?ps (w\<lparr>w_devices := snd (UpdateParameters (e_now e) ?serial ?ps (w_devices w))\<rparr>))"
    using assms by (intro ok_intros documents.replace_params)
  show ?thesis
    using w1 assms(1)
    by (auto simp: finishSummon_def Let_def intro: injectGlobal_result update_info_ok split: option.splits prod.splits)
qed

lemma summon_batch_ok: "mine (se_DeviceSerial s) \<Longrightarrow> ok w \<Longrightarrow> ok (snd (snd (sendNextSummonBatch e s w)))"
  by (simp add: sendNextSummonBatch_def Let_def finishSummon_ok)

lemma names_ok: "mine (se_DeviceSerial s) \<Longrightarrow> ok w \<Longrightarrow> ok (snd (snd (handleGetParameterNamesResponse e ns s w)))"
  by (simp add: handleGetParameterNamesResponse_def Let_def summon_batch_ok)

lemma targeted_ok:
  assumes "mine (se_DeviceSerial s)" and "ok w"
  shows "ok (snd (snd (handleTargetedSummonResponse e ps s w)))"
proof -
  let ?serial = "se_DeviceSerial s"
  have w1: "ok (store_params e ?serial ps (w\<lparr>w_devices := snd (MergeParameters (e_now e) ?serial ps (w_devices w))\<rparr>))"
    using assms by (intro ok_intros documents.merge_params)
  show ?thesis
    using w1 assms
    by (auto simp: handleTargetedSummonResponse_def Let_def intro: injectGlobal_result update_info_ok
        split: option.splits prod.splits)
qed

lemma batch_ok: "mine (se_DeviceSerial s) \<Longrightarrow> ok w \<Longrightarrow> ok (snd (snd (accumulate_batch e ps s w)))"
  by (simp add: accumulate_batch_def summon_batch_ok)

lemma collect_ok: "ok w \<Longrightarrow> collect_diagnostic e t ps m w = Some w' \<Longrightarrow> ok w'"
  by (auto simp: collect_diagnostic_def persistDiagToDevice_def bind_eq_Some_conv intro: update_info_ok
      split: option.splits prod.splits sum.splits if_splits)

lemma finish_get_ok: "ok w \<Longrightarrow> finish_get e t ps m d w = Some w' \<Longrightarrow> ok w'"
  by (auto simp: finish_get_def bind_eq_Some_conv intro: update_info_ok collect_ok split: if_splits)

lemma get_values_ok:
  assumes "mine (se_DeviceSerial s)" and "ok w"
  shows "ok (snd (snd (handleGetParamValuesResponse e pvs s w)))"
  using assms
  by (auto simp: handleGetParamValuesResponse_def Let_def intro: batch_ok targeted_ok finish_get_ok split: option.splits)

lemma persist_ok: "mine serial \<Longrightarrow> ok w \<Longrightarrow> ok (persistWANCredentials e serial cs w)"
  by (simp add: persistWANCredentials_def store_params_ok)

lemma set_params_ok: "mine (se_DeviceSerial s) \<Longrightarrow> ok w \<Longrightarrow> ok (snd (snd (set_params_done e s w)))"
  by (simp add: set_params_done_def Let_def persist_ok store_params_ok)

lemma provision_answer_ok:
  assumes "ok w" and "\<And>s'. se_DeviceSerial s' = se_DeviceSerial s \<Longrightarrow> ok (snd (finish s' w))"
  shows "ok (snd (snd (provision_answer e r finish s w)))"
proof -
  obtain s' w' where f: "finish (s\<lparr>se_wanProvision := None\<rparr>) w = (s', w')" by fastforce
  have "ok w'" using assms(2) [of "s\<lparr>se_wanProvision := None\<rparr>"] f by simp
  then show ?thesis using assms(1) f by (auto simp: provision_answer_def split: prod.splits sum.splits option.splits)
qed

lemma set_values_ok:
  assumes "mine (se_DeviceSerial s)" and "ok w"
  shows "ok (snd (snd (handleSetParamValuesResponse e s w)))"
  using assms
  by (auto simp: handleSetParamValuesResponse_def take_credentials_def
      intro!: provision_answer_ok set_params_ok persist_ok split: option.splits)

lemma objects_ok:
  assumes "ok w"
  shows "ok (snd (snd (handleAddObjectResponse e n s w)))" and "ok (snd (snd (handleDeleteObjectResponse e s w)))"
    and "ok (snd (snd (handleDownloadResponse e d s w)))" and "ok (snd (snd (handleFault e f s w)))"
    and "ok (handleTransferComplete e tc w)"
  using assms
  by (auto simp: handleAddObjectResponse_def handleDeleteObjectResponse_def handleDownloadResponse_def handleFault_def
      handleTransferComplete_def Let_def intro!: provision_answer_ok split: option.splits list.splits prod.splits sum.splits)

lemma message_ok:
  assumes "mine (se_DeviceSerial s)" and "ok w"
  shows "ok (snd (snd (message_handler e h b s w)))"
  using assms
  by (simp add: message_handler_def transfer_complete_request_def set_values_ok names_ok get_values_ok objects_ok
      split: option.splits)

lemma resume_ok:
  assumes "ok w"
  shows "ok (snd (snd (resume_session e s w)))"
  using assms
  by (simp add: resume_session_def sendGetParameterNamesSummon_def sendTargetedSummon_def Let_def
      split: option.splits list.splits sum.splits)

lemma restore_ok:
  assumes "ok w"
  shows "ok (restoreParameters e serial ps ty w)" and "ok (restoreWANConfig e serial ps w)"
    and "restoreWiFiConfig e serial ps m w = Some w' \<Longrightarrow> ok w'"
  using assms
  by (auto simp: restoreParameters_def restoreWANConfig_def restoreWiFiConfig_def restore_provcode_def restore_band_def Let_def)

lemma known_good_ok:
  assumes "mine serial" and "ok w" and "from_last_known_good e serial msg m w = (go, w')"
  shows "ok w'"
proof -
  obtain x r where x: "GetSnapshot serial ''last_known_good'' (w_repo w) = (x, r)" by fastforce
  have r: "good r" using recall_ok [OF x] ok_sel(1) [OF assms(2)] .
  have "ok (w\<lparr>w_repo := snd (DeleteDeviceParameters serial r)\<rparr>)"
    using r assms(1,2) parameters.clear by (intro repo_ok) simp_all
  then show ?thesis
    using assms(2,3) r x repo_ok
    by (auto simp: from_last_known_good_def Let_def intro: restore_ok split: sum.splits option.splits if_splits)
qed

lemma detect_ok:
  assumes "mine serial" and "ok w" and "detectAndHandleReset e serial msg m w = (go, w')"
  shows "ok w'"
proof -
  obtain x r where x: "GetSnapshot serial ''pre_reset_params'' (w_repo w) = (x, r)" by fastforce
  have r: "good r" using recall_ok [OF x] ok_sel(1) [OF assms(2)] .
  have w1: "ok (w\<lparr>w_repo := snd (DeleteSnapshot serial ''pre_reset_params'' r)\<rparr>)" "ok (w\<lparr>w_repo := r\<rparr>)"
    using r assms(2) parameters.forget repo_ok by simp_all
  show ?thesis
    using assms(3) w1 x known_good_ok [OF assms(1) w1(2)]
    by (auto simp: detectAndHandleReset_def Let_def restore_ok split: sum.splits option.splits if_splits)
qed

lemma collect_tasks_ok: "ok w \<Longrightarrow> collect_tasks serial msg m w = (x, w') \<Longrightarrow> ok w'"
  by (auto simp: collect_tasks_def split: if_splits prod.splits sum.splits)

lemma needs_defaults_ok: "ok w \<Longrightarrow> mark_needs_defaults serial s w = (s', w') \<Longrightarrow> ok w'"
  by (auto simp: mark_needs_defaults_def intro: repo_ok read_one_ok ok_sel split: if_splits prod.splits)

lemma inform_tasks_ok:
  assumes "mine (uq_Serial q)" and "ok w"
  shows "ok (snd (snd (inform_tasks e i msg q d im m pending s w)))"
proof -
  obtain s1 w1 where p: "plan_summon e (uq_Serial q) (uq_Schema q) d pending s w = (s1, w1)" by fastforce
  have w1: "ok w1" using p assms(2) by (auto simp: plan_summon_def Let_def split: if_splits)
  obtain x w2 where c: "collect_tasks (uq_Serial q) msg m w1 = (x, w2)" by fastforce
  have w2: "ok w2" using collect_tasks_ok [OF w1 c] .
  show ?thesis
    using w2 p c assms(1)
    by (auto simp: inform_tasks_def Let_def intro: injectGlobal_ok needs_defaults_ok split: option.splits prod.splits)
qed

lemma inform_accepted_ok:
  assumes "mine (uq_Serial q)" and "ok w"
  shows "ok (snd (snd (inform_accepted e i msg q dev s w)))"
proof -
  have w1: "ok (w\<lparr>w_jobs := w_jobs w @ inform_jobs q dev\<rparr>)"
    using assms recorders_inform [of w q dev] by (auto simp: stores_good_def)
  note reset = detect_ok [OF assms(1) w1]
  show ?thesis
    using assms w1 inform_tasks_ok
    by (auto simp: inform_accepted_def Let_def dest!: reset split: option.splits prod.splits bool.splits)
qed

lemma session_keeps: "ok (snd (snd (h (sm_heap (ac_sm a) r) (ac_world a)))) \<Longrightarrow> ok (ac_world (snd (on_session r h a)))"
  by (auto simp: on_session_def split: prod.splits)

lemma bind_keeps: "ok (ac_world (snd (bindOutboundRPCID r x))) = ok (ac_world (snd x))"
  by (simp add: bindOutboundRPCID_def split: prod.splits reply.splits)

lemma inform_keeps:
  assumes "mine (uq_Serial (extractInformParams msg))" and "ok (ac_world a)"
  shows "ok (ac_world (snd (handleInform e i msg r a)))"
proof -
  let ?q = "extractInformParams msg"
  have up: "Upsert oid now (?q\<lparr>uq_Schema := n\<rparr>) (w_devices (ac_world a)) = (x, db) \<Longrightarrow> ok ((ac_world a)\<lparr>w_devices := db\<rparr>)"
    for oid now n x db
    using documents.upsert [of "?q\<lparr>uq_Schema := n\<rparr>" "w_devices (ac_world a)" oid now] assms
    by (auto intro: devices_ok ok_sel)
  show ?thesis
    using assms
    by (auto simp: handleInform_def Let_def intro!: session_keeps inform_accepted_ok dest!: up
        split: option.splits prod.splits)
qed

lemma empty_ok: "ok (ac_world a) \<Longrightarrow> ok (ac_world (snd (empty_request e sid r a)))"
  using session_keeps [where h = "resume_session e" and a = a and r = r] resume_ok [of "ac_world a" e]
  by (auto simp: empty_request_def Let_def split: prod.splits)

lemma job_ok:
  assumes "ok w" and "run_job e j w = Some w'" and "\<And>s ps. j = JobRecord s ps \<Longrightarrow> mine s"
  shows "ok w'"
proof (cases j)
  case (JobBackfill s dev n)
  then show ?thesis
    using assms(1,2) by (auto simp: run_job_def run_backfill_def intro!: ok_intros
        intro: read_all_ok ok_sel split: prod.splits sum.splits if_splits)
next
  case (JobRecord s ps)
  then show ?thesis using assms by (auto simp: run_job_def store_params_ok)
next
  case (JobPreReset s)
  then show ?thesis
    using assms(1,2) parameters.capture
    by (auto simp: run_job_def run_pre_reset_def intro!: repo_ok parameters.capture
        intro: read_all_ok ok_sel split: prod.splits sum.splits if_splits)
qed

lemma request_keeps:
  assumes "mine (request_serial e rq a)" and "ok (ac_world a)"
  shows "ok (ac_world (snd (ServeHTTP e rq a)))"
proof -
  obtain r m where g: "GetOrCreate (e_now e) (getSessionID e rq) (ac_sm a) = (r, m)" by fastforce
  show ?thesis
  proof (cases "rq_body rq")
    case (BodyText t)
    show ?thesis
    proof (cases "Option.bind t ParseEnvelope")
      case None
      then show ?thesis using assms(2) g BodyText by (simp add: ServeHTTP_def)
    next
      case (Some hb)
      obtain h b where hb: "hb = (h, b)" by fastforce
      show ?thesis
      proof (cases "ib_Inform b")
        case (Some msg)
        then show ?thesis
          using assms g BodyText \<open>Option.bind t ParseEnvelope = Some hb\<close> hb
          by (simp add: ServeHTTP_def request_serial_def bind_keeps inform_keeps)
      next
        case None
        obtain p m' where s: "serving_session h r m = (p, m')" by fastforce
        have "sm_heap m' = sm_heap m"
          using s TakeByRPCID_sel(4) [where k = "requestID h" and m = m]
          by (auto simp: serving_session_def split: prod.splits option.splits)
        then show ?thesis
          using assms g s None BodyText \<open>Option.bind t ParseEnvelope = Some hb\<close> hb
          by (simp add: ServeHTTP_def request_serial_def bind_keeps session_keeps message_ok)
      qed
    qed
  qed (use assms(2) g in \<open>simp_all add: ServeHTTP_def bind_keeps empty_ok\<close>)
qed

end

subsection \<open>The whole process\<close>

text \<open>
  The serial numbers whose parameters an event may write: the device an operator deletes, the
  pseudo-device of the default parameters, and the device under which a request is handled. A goroutine
  stores the parameters of the Inform that started it.
\<close>

definition endpoint_writes :: "api_endpoint \<Rightarrow> params \<Rightarrow> string set" where
  "endpoint_writes ep vars =
     (case ep of EDeleteDevice \<Rightarrow> {mget vars ''serial''} | EUpdateDefaults \<Rightarrow> {systemSerial} | _ \<Rightarrow> {})"

definition api_writes :: "api_config \<Rightarrow> api_request \<Rightarrow> string set" where
  "api_writes cfg rq =
     (case find_route (ac_match cfg) (aq_method rq) (aq_path rq) all_routes of
        None \<Rightarrow> {} | Some (protected, ep, vars) \<Rightarrow> endpoint_writes ep vars)"

definition event_writes :: "process_config \<Rightarrow> event \<Rightarrow> process \<Rightarrow> string set" where
  "event_writes c ev p =
     (case ev of
        OnApi e pings rq \<Rightarrow> api_writes (router_config c pings) rq
      | OnCwmp e uuid auth len rq \<Rightarrow> {request_serial e (limitBody body_limit len rq) (ps_acs p)}
      | _ \<Rightarrow> {})"

locale process_access = store_access mine good sound + upkeep: parameter_upkeep mine good + files: document_upkeep mine sound
  for mine :: "string \<Rightarrow> bool" and good :: "param_repo \<Rightarrow> bool" and sound :: "device_db \<Rightarrow> bool"
begin

lemma find_ok: "FindBySerial s db = (x, db') \<Longrightarrow> sound db \<Longrightarrow> sound db'"
  using files.find [of db s] by simp

lemma page_ok: "service_List q n limit db = (x, db') \<Longrightarrow> sound db \<Longrightarrow> sound db'"
  using files.page [of db q n limit] by simp

lemma tags_ok: "UpdateTags now s ts db = (x, db') \<Longrightarrow> sound db \<Longrightarrow> sound db'"
  using files.tags [of db now s ts] by simp

lemma remove_ok: "Delete_device s db = (x, db') \<Longrightarrow> mine s \<Longrightarrow> sound db \<Longrightarrow> sound db'"
  using files.remove [of s db] by simp

lemma by_prefix_ok: "GetParametersByPrefix s p r = (x, r') \<Longrightarrow> good r \<Longrightarrow> good r'"
  using upkeep.by_prefix [of r s p] by simp

lemma capture_ok: "SaveSnapshot now s ty ps r = (x, r') \<Longrightarrow> good r \<Longrightarrow> good r'"
  using parameters.capture [of r now s ty ps] by simp

lemma clear_ok: "DeleteDeviceParameters s r = (x, r') \<Longrightarrow> mine s \<Longrightarrow> good r \<Longrightarrow> good r'"
  using parameters.clear [of s r] by simp

lemma save_ok: "pr_UpdateParameters now s ps r = (x, r') \<Longrightarrow> mine s \<Longrightarrow> good r \<Longrightarrow> good r'"
  using parameters.store [of s r now ps] by simp

lemmas results_ok = find_ok page_ok tags_ok remove_ok by_prefix_ok read_all_ok capture_ok clear_ok save_ok

lemma both_ok: "ok w \<Longrightarrow> sound db \<Longrightarrow> good r \<Longrightarrow> ok (w\<lparr>w_devices := db, w_repo := r\<rparr>)"
  by (simp add: stores_good_def)

lemma device_ok: "requireDevice serial w = (r, w') \<Longrightarrow> ok w \<Longrightarrow> ok w'"
  by (auto simp: requireDevice_def intro!: devices_ok dest: results_ok ok_sel split: prod.splits option.splits)

lemma list_ok: "ok w \<Longrightarrow> ok (snd (List_devices q w))"
  by (auto simp: List_devices_def intro!: devices_ok intro: results_ok ok_sel split: prod.splits option.splits)

lemma get_ok: "ok w \<Longrightarrow> ok (snd (Get_device serial w))"
  using files.find [of "w_devices w" serial] by (auto simp: Get_device_def found_answer_def intro!: devices_ok ok_sel)

lemma update_ok: "ok w \<Longrightarrow> ok (snd (Update_device e serial body w))"
  by (auto simp: Update_device_def found_answer_def service_UpdateTags_def intro!: devices_ok files.find
      intro: results_ok ok_sel split: option.splits prod.splits)

lemma delete_ok: "ok w \<Longrightarrow> mine serial \<Longrightarrow> ok (snd (Delete_device_request serial w))"
  by (auto simp: Delete_device_request_def dest!: device_ok intro!: both_ok devices_ok
      intro: results_ok ok_sel split: option.splits prod.splits bool.splits)

lemma read_request_ok:
  "ok w \<Longrightarrow> ok (snd (GetParameters_request serial w))" "ok w \<Longrightarrow> ok (snd (GetProvisionInfo serial w))"
  "ok w \<Longrightarrow> ok (snd (GetDefaultParams w))"
  by (auto simp: GetParameters_request_def GetProvisionInfo_def GetDefaultParams_def intro!: repo_ok
      intro: results_ok ok_sel split: prod.splits sum.splits)

lemma snapshot_ok: "ok w \<Longrightarrow> ok (snd (SaveLastKnownGood e serial w))"
  by (auto simp: SaveLastKnownGood_def dest!: device_ok intro!: repo_ok
      intro: read_all_ok [OF _ ok_sel(1)] capture_ok [OF _ read_all_ok [OF _ ok_sel(1)]]
      split: option.splits prod.splits sum.splits)

lemma defaults_ok: "ok w \<Longrightarrow> mine systemSerial \<Longrightarrow> ok (snd (UpdateDefaultParams e body w))"
  by (auto simp: UpdateDefaultParams_def Let_def intro!: repo_ok
      intro: clear_ok [OF _ _ ok_sel(1)] save_ok [OF _ _ clear_ok [OF _ _ ok_sel(1)]]
      split: option.splits prod.splits)

lemma create_ok: "ok w \<Longrightarrow> ok (snd (create_task k e i attempts serial body w))"
  by (rule create_task_cases [of k e i attempts serial body])
    (auto simp: create_with_def enqueueTask_def dest: device_ok split: option.splits prod.splits sum.splits)

lemma task_requests_ok:
  "ok w \<Longrightarrow> ok (snd (ListByDevice serial page limit w))" "ok w \<Longrightarrow> ok (snd (Get_task i w))"
  "ok w \<Longrightarrow> ok (snd (Cancel_task e i w))"
  by (auto simp: ListByDevice_def Get_task_def Cancel_task_def dest: device_ok
      split: option.splits prod.splits sum.splits)

lemma on_world_ok: "ok (snd (f (ac_world a))) \<Longrightarrow> ok (ac_world (snd (on_world f a)))"
  by (auto simp: on_world_def split: prod.splits)

lemma handle_ok:
  assumes "ok (ac_world a)" and "\<forall>s \<in> endpoint_writes ep vars. mine s"
  shows "ok (ac_world (snd (handle cfg e rq ep vars a)))"
proof -
  have "ok (ac_world (snd (map_prod Answer id (TriggerFullSummon_request s a))))" for s
    using assms(1) by (simp add: TriggerFullSummon_request_def TriggerFullSummon_def Let_def split: option.split)
  then show ?thesis
    using assms
    by (cases ep) (simp_all add: handle_def Let_def on_world_ok list_ok get_ok update_ok delete_ok read_request_ok
        snapshot_ok defaults_ok create_ok task_requests_ok endpoint_writes_def)
qed

lemma routed_ok:
  assumes "ok (ac_world a)" and "\<forall>s \<in> api_writes cfg rq. mine s"
  shows "ok (ac_world (snd (routed cfg e rq a)))"
  using assms handle_ok [of a] by (auto simp: routed_def api_writes_def split: option.splits prod.splits)

lemma serve_ok:
  assumes "ok (ac_world (as_acs st))" and "\<forall>s \<in> api_writes cfg rq. mine s"
  shows "ok (ac_world (as_acs (snd (serve_api cfg e rq st))))"
  using assms routed_ok [of "as_acs st" cfg rq e]
  by (auto simp: serve_api_def CORS_def split: prod.splits bool.splits)

lemma endpoint_ok:
  assumes "ok (ac_world a)" and "mine (request_serial e (limitBody body_limit len rq) a)"
  shows "ok (ac_world (snd (snd (cwmp_endpoint e uuid auth len rq d a))))"
  using assms request_keeps [OF assms(2,1)] by (auto simp: cwmp_endpoint_def split: prod.splits digest_outcome.splits)

lemma timers_ok:
  assumes "ok w"
  shows "ok (w\<lparr>w_devices := presence_tick i now (w_devices w)\<rparr>)" and "ok (w\<lparr>w_repo := runSnapshot now (w_repo w)\<rparr>)"
    and "ok (w\<lparr>w_repo := hourly_cleanup now days (w_repo w)\<rparr>)"
    and "ok (w\<lparr>w_repo := (w_repo w)\<lparr>pr_cache := redis_expired k (pr_cache (w_repo w))\<rparr>\<rparr>)"
  using assms upkeep.capture_all upkeep.clean_up upkeep.expire files.presence by (simp_all add: stores_good_def)

lemma run_job_at_ok:
  assumes "ok w" and "run_job_at e n w = Some w'"
  shows "ok w'"
proof (cases "n < length (w_jobs w)")
  case True
  let ?js = "take n (w_jobs w) @ drop (Suc n) (w_jobs w)"
  have "set ?js \<subseteq> set (w_jobs w)" using set_take_subset set_drop_subset by fastforce
  then have "ok (w\<lparr>w_jobs := ?js\<rparr>)" using assms(1) recorders_rest [of ?js w] by (auto simp: stores_good_def)
  moreover have "mine s" if "w_jobs w ! n = JobRecord s ps" for s ps
    using assms(1) nth_mem [OF True] that by (auto simp: stores_good_def recorders_def)
  ultimately show ?thesis using assms(2) True job_ok [of "w\<lparr>w_jobs := ?js\<rparr>" e "w_jobs w ! n" w'] by (simp add: run_job_at_def)
qed (use assms in \<open>simp add: run_job_at_def\<close>)

lemma event_ok:
  assumes "ok (ac_world (ps_acs p))" and "handle_event c ev p = Some (out, p')" and "\<forall>s \<in> event_writes c ev p. mine s"
  shows "ok (ac_world (ps_acs p'))"
proof (cases ev)
  case (OnApi e pings rq)
  then show ?thesis
    using assms serve_ok [of "\<lparr> as_acs = ps_acs p, as_limits = ps_limits p \<rparr>" "router_config c pings" rq e]
    by (auto simp: handle_event_def event_writes_def split: prod.splits)
next
  case (OnCwmp e uuid auth len rq)
  then show ?thesis
    using assms endpoint_ok [of "ps_acs p" e len rq uuid auth "ps_digest p"]
    by (auto simp: handle_event_def event_writes_def split: prod.splits)
qed (use assms timers_ok run_job_at_ok in \<open>auto simp: handle_event_def on_acs_world_def\<close>)

end

subsection \<open>The code keeps them\<close>

interpretation coherent: process_access "\<lambda>_. True" repo_sound filed
  by unfold_locales

interpretation others: process_access "\<lambda>s. s \<noteq> t" "\<lambda>r. stored t r = x" "\<lambda>db. document_params t db = y" for t x y
  by unfold_locales

lemma run_coherent:
  assumes "process_run c w evs T h p" and "repo_sound (w_repo w)" and "filed (w_devices w)"
  shows "repo_sound (w_repo (ac_world (ps_acs p))) \<and> filed (w_devices (ac_world (ps_acs p)))"
proof -
  have "stores_good (\<lambda>_. True) repo_sound filed (ac_world (ps_acs p))"
    using assms(1)
  proof (induction rule: process_run.induct)
    case start
    then show ?case using assms(2,3) by (simp add: stores_good_def start_process_def fresh_world_def)
  next
    case (event evs T h p ev out p')
    then show ?case using coherent.event_ok by blast
  qed
  then show ?thesis by (simp add: stores_good_def)
qed

text \<open>Any events one after the other, none of which may write the parameters of a given device.\<close>

inductive runs_without :: "process_config \<Rightarrow> string \<Rightarrow> process \<Rightarrow> process \<Rightarrow> bool" for c t where
  none: "runs_without c t p p"
| event: "runs_without c t p p' \<Longrightarrow> t \<notin> event_writes c ev p' \<Longrightarrow> handle_event c ev p' = Some (out, p'') \<Longrightarrow>
    runs_without c t p p''"

lemma runs_without_keeps:
  assumes "runs_without c t p p'"
    and "stores_good (\<lambda>s. s \<noteq> t) (\<lambda>r. stored t r = x) (\<lambda>db. document_params t db = y) (ac_world (ps_acs p))"
  shows "stores_good (\<lambda>s. s \<noteq> t) (\<lambda>r. stored t r = x) (\<lambda>db. document_params t db = y) (ac_world (ps_acs p'))"
  using assms
proof (induction rule: runs_without.induct)
  case (event p p' ev out p'')
  then show ?case using others.event_ok [OF event.IH event.hyps(3)] by auto
qed

text \<open>When the database answers, so does the repository.\<close>

lemma GetAll_answers:
  assumes "table_ok r" and "pr_faults r = []"
  shows "\<exists>m. fst (GetAllParameters s r) = Inr m"
proof -
  obtain hit c where g: "cache_Get (cacheKey s) (pr_cache r) = (hit, c)" by fastforce
  have "table_ok (r\<lparr>pr_cache := c\<rparr>)" using assms(1) by (simp add: table_ok_def)
  then obtain m where "scan_rows (device_rows s (r\<lparr>pr_cache := c\<rparr>)) [] = Some m" using scan_device_rows by blast
  then show ?thesis using assms(2) g by (simp add: GetAllParameters_def Let_def split: sum.split option.split)
qed

text \<open>
  C12. In every run of the process, whatever requests come on the two ports, whatever calls of the
  databases fail, and whenever the goroutines run, the timers tick and cache entries expire: as long as the
  cache can be reached, GetAllParameters returns exactly what the table stores for a device, or the error of
  the database, and every device document is filed under its own serial number.
\<close>

theorem reads_are_stored:
  assumes "process_run c w evs T h p" and "repo_sound (w_repo w)" and "filed (w_devices w)"
  shows "(case fst (GetAllParameters s (w_repo (ac_world (ps_acs p)))) of
            Inr m \<Rightarrow> map_of m = stored s (w_repo (ac_world (ps_acs p)))
          | Inl _ \<Rightarrow> pr_faults (w_repo (ac_world (ps_acs p))) \<noteq> [])
    \<and> (\<forall>d. map_of (db_devices (w_devices (ac_world (ps_acs p)))) s = Some d \<longrightarrow> de_Serial d = s)"
  using run_coherent [OF assms] GetAll_cases [of "w_repo (ac_world (ps_acs p))" s]
    GetAll_answers [of "w_repo (ac_world (ps_acs p))" s]
  by (auto simp: repo_sound_def filed_def split: sum.splits)

definition ex_stored_world :: world where
  "ex_stored_world = ex_world\<lparr>
     w_repo := snd (pr_UpdateParameters 1 ''CPE1'' [(''a'', ''1'')] (ex_repo [])),
     w_devices := \<lparr> db_devices = [(''CPE1'', (new_device ''oid'' 0)\<lparr>de_Serial := ''CPE1''\<rparr>)], db_faults = [] \<rparr>\<rparr>"

lemma ex_stored_sound: "repo_sound (w_repo ex_stored_world)" "filed (w_devices ex_stored_world)"
proof -
  have "repo_sound (ex_repo [])"
    by (simp add: repo_sound_def table_ok_def cache_ok_def cache_up_def ex_repo_def empty_redis_def wf_map_def)
  then show "repo_sound (w_repo ex_stored_world)" using update_sound by (simp add: ex_stored_world_def)
  show "filed (w_devices ex_stored_world)" by (simp add: ex_stored_world_def filed_def wf_map_def)
qed

definition ex_record_process :: process where
  "ex_record_process = (start_process ex_process_config ex_stored_world)\<lparr>ps_acs := \<lparr> ac_sm = empty_manager,
     ac_world = ex_stored_world\<lparr>w_jobs := [JobRecord ''CPE2'' [(''a'', ''2'')]]\<rparr> \<rparr>\<rparr>"

lemma reads_are_stored_witness:
  "\<exists>p. process_run ex_process_config ex_stored_world [OnSnapshot 7, OnPresence 9] {} [] p \<and>
     fst (GetAllParameters ''CPE1'' (w_repo (ac_world (ps_acs p)))) = Inr [(''a'', ''1'')] \<and>
     stored ''CPE1'' (w_repo (ac_world (ps_acs p))) ''a'' = Some ''1''"
proof -
  let ?c = ex_process_config
  obtain o1 p1 where e1: "handle_event ?c (OnSnapshot 7) (start_process ?c ex_stored_world) = Some (o1, p1)"
    and o1: "o1 = NoOutput" by (simp add: handle_event_def on_acs_world_def)
  obtain o2 p2 where e2: "handle_event ?c (OnPresence 9) p1 = Some (o2, p2)" and o2: "o2 = NoOutput"
    by (simp add: handle_event_def on_acs_world_def)
  have "process_run ?c ex_stored_world [OnSnapshot 7] {} [] p1"
    using process_run.event [OF process_run.start _ e1] o1 by simp
  then have run: "process_run ?c ex_stored_world [OnSnapshot 7, OnPresence 9] {} [] p2"
    using process_run.event [OF _ _ e2] o2 by fastforce
  have repo: "w_repo (ac_world (ps_acs p2)) = runSnapshot 7 (w_repo ex_stored_world)"
    using e1 e2 by (auto simp: handle_event_def on_acs_world_def start_process_def fresh_world_def)
  have "fst (GetAllParameters ''CPE1'' (runSnapshot 7 (w_repo ex_stored_world))) = Inr [(''a'', ''1'')]" by code_simp
  moreover from this have "[''a'' \<mapsto> ''1''] = stored ''CPE1'' (runSnapshot 7 (w_repo ex_stored_world))"
    using reads_are_stored [OF run ex_stored_sound, of "''CPE1''"] by (simp add: repo)
  then have "stored ''CPE1'' (runSnapshot 7 (w_repo ex_stored_world)) ''a'' = Some ''1''" by (metis fun_upd_same)
  ultimately show ?thesis using run repo by fastforce
qed

text \<open>
  C36. The parameters of a device are only written by its own messages and by the operator: through any events
  in any order, of which none is a request handled under its serial number, the operator's deletion of that
  device or, for the pseudo-device of the defaults, the operator's change of the defaults, and with no
  goroutine waiting to record its Inform, the parameters stored for it and those in its document stay as
  they are, whatever the other devices send.
\<close>

theorem parameters_isolated:
  assumes "runs_without c t p p'" and "t \<notin> recorders (ac_world (ps_acs p))"
  shows "stored t (w_repo (ac_world (ps_acs p'))) = stored t (w_repo (ac_world (ps_acs p)))
    \<and> document_params t (w_devices (ac_world (ps_acs p'))) = document_params t (w_devices (ac_world (ps_acs p)))"
  using runs_without_keeps [OF assms(1)] assms(2) by (auto simp: stores_good_def)

lemma parameters_isolated_witness:
  "\<exists>p. handle_event ex_process_config (OnJob ex_env 0) ex_record_process = Some (NoOutput, p) \<and>
     stored ''CPE2'' (w_repo (ac_world (ps_acs p))) ''a'' = Some ''2'' \<and>
     stored ''CPE1'' (w_repo (ac_world (ps_acs p))) = stored ''CPE1'' (w_repo ex_stored_world)"
proof -
  let ?w = "store_params ex_env ''CPE2'' [(''a'', ''2'')] (ex_stored_world\<lparr>w_jobs := []\<rparr>)"
  let ?p = "ex_record_process\<lparr>ps_acs := (ps_acs ex_record_process)\<lparr>ac_world := ?w\<rparr>\<rparr>"
  have step: "handle_event ex_process_config (OnJob ex_env 0) ex_record_process = Some (NoOutput, ?p)"
    by (simp add: handle_event_def on_acs_world_def run_job_at_def run_job_def ex_record_process_def)
  have run: "runs_without ex_process_config ''CPE1'' ex_record_process ?p"
    by (rule runs_without.event [OF runs_without.none _ step]) (simp add: event_writes_def)
  have "''CPE1'' \<notin> recorders (ac_world (ps_acs ex_record_process))"
    by (simp add: recorders_def ex_record_process_def)
  note kept = parameters_isolated [OF run this]
  have "stored ''CPE2'' (w_repo ?w) ''a'' = Some ''2''" by code_simp
  then show ?thesis using step kept by (simp add: ex_record_process_def)
qed

subsection \<open>What is not protected\<close>

text \<open>
  The default parameters that are sent to every device are kept under a serial number like any other, and
  the serial number of an Inform is taken as it is: a device that calls itself by the name of the
  pseudo-device writes the defaults of all devices.
\<close>

lemma device_writes_defaults:
  assumes "uq_Serial q = systemSerial" and "uq_Parameters q \<noteq> []" and "wf_map (uq_Parameters q)"
    and "table_ok (w_repo w)" and "pr_faults (w_repo w) = []"
  shows "\<exists>j \<in> set (inform_jobs q dev). \<exists>w'. run_job e j w = Some w' \<and>
    stored systemSerial (w_repo w') = stored systemSerial (w_repo w) ++ map_of (uq_Parameters q)"
proof -
  have "fst (pr_UpdateParameters (e_now e) systemSerial (uq_Parameters q) (w_repo w)) = None"
    using assms(5) by (simp add: pr_UpdateParameters_def)
  then have "stored systemSerial (w_repo (store_params e systemSerial (uq_Parameters q) w)) =
      stored systemSerial (w_repo w) ++ map_of (uq_Parameters q)"
    using update_stores [OF assms(4,3)] by (simp add: store_params_def)
  then show ?thesis using assms(1,2) by (auto simp: inform_jobs_def run_job_def Let_def)
qed

text \<open>
  Whose task a TransferComplete finishes is not asked: what it does to the queue depends on the command
  key alone, not on the session in which it comes.
\<close>

lemma transfer_complete_of_any_device:
  assumes "ib_TransferComplete b = Some tc" and "\<not> ib_GetRPCMethods b"
  shows "snd (snd (message_handler e h b s w)) = handleTransferComplete e tc w"
  using assms by (simp add: message_handler_def transfer_complete_request_def)

end
