(* ===== verification/Startup.thy ===== *)
theory Startup imports Process begin

section \<open>Configuration and start-up\<close>

text \<open>
  Package internal/config, the set-up of the parameter store (cmd/api/parameter_init.go and
  internal/parameter/init.go) and the rest of cmd/api/main.go: from a decoded configuration to the
  running process, its timers, and its exit status. That viper fills the structures from the file is
  outside: \<^verbatim>\<open>config.Load\<close> gives a configuration or an error. What the servers answer when they are
  connected to is given as outcomes. Durations are nanoseconds.
\<close>

subsection \<open>The configuration\<close>

record database_config =
  dc_Name :: string
  dc_Dialector :: string
  dc_DSN :: string
  dc_URI :: string
  dc_Database :: string
  dc_LogLevel :: string
  dc_IdleMaxConns :: int
  dc_MaxOpenConns :: int
  dc_IdleConnsTime :: int
  dc_TTL :: int
  dc_MigrationsPath :: string
  dc_PopulationPath :: string
  dc_QueriesPath :: params

record jwt_config =
  jc_Secret :: string
  jc_ExpiresIn :: int
  jc_RefreshExpiresIn :: int

record acs_config =
  sc_ListenPort :: "16 word"
  sc_InformInterval :: int
  sc_Username :: string
  sc_Password :: string
  sc_URL :: string
  sc_SchemasDir :: string

record web_config =
  wc_ListenPort :: "16 word"
  wc_UseSSL :: bool
  wc_Cert :: string
  wc_Key :: string
  wc_MaxPayloadSize :: int
  wc_WriteTimeout :: int
  wc_ReadTimeout :: int
  wc_IdleTimeout :: int
  wc_NoRouteTo :: string
  wc_AllowedOrigins :: "string list"
  wc_AllowedMethods :: "string list"
  wc_CORS :: params

record task_config =
  tc_Enabled :: bool
  tc_Interval :: string
  tc_FirstRun :: bool
  tc_RunOnce :: bool
  tc_QueueSize :: "32 word"
  tc_StartAfter :: int
  tc_MaxAttempts :: int

record postgresql_config =
  pg_Host :: string
  pg_Port :: int
  pg_User :: string
  pg_Password :: string
  pg_Database :: string
  pg_MaxConnections :: int
  pg_ConnectionTimeoutMs :: int
  pg_ConnectionMaxLifetime :: int
  pg_CacheHost :: string
  pg_CachePort :: int

record parameters_config =
  pa_Backend :: string
  pa_CacheEnabled :: bool
  pa_CacheTTLMinutes :: int
  pa_SnapshotEnabled :: bool
  pa_SnapshotTime :: string
  pa_HistoryEnabled :: bool
  pa_RetentionDays :: int
  pa_BatchSize :: int

record application_config =
  ap_Name :: string
  ap_Description :: string
  ap_Version :: string
  ap_LogLevel :: string
  ap_JWT :: jwt_config
  ap_ACS :: acs_config
  ap_API :: web_config
  ap_Tasks :: "(string, task_config) gomap"
  ap_PostgreSQL :: postgresql_config
  ap_Parameters :: parameters_config

record app_config =
  cf_Application :: application_config
  cf_Databases :: "(string, database_config) gomap"

text \<open>A name that is not configured is an error, whose text is not used.\<close>

definition GetTask :: "string \<Rightarrow> application_config \<Rightarrow> task_config option" where
  "GetTask name a = map_of (ap_Tasks a) name"

definition GetDatabase :: "string \<Rightarrow> app_config \<Rightarrow> database_config option" where
  "GetDatabase name c = map_of (cf_Databases c) name"

text \<open>\<^verbatim>\<open>time.Duration(n) * time.Minute\<close> is a multiplication of \<^verbatim>\<open>int64\<close>s.\<close>

definition GetInformInterval :: "acs_config \<Rightarrow> int" where
  "GetInformInterval a = wrap64 (sc_InformInterval a * 60000000000)"

definition GetSchemasDir :: "acs_config \<Rightarrow> string" where
  "GetSchemasDir a = (if sc_SchemasDir a = [] then ''./schemas'' else sc_SchemasDir a)"

subsection \<open>The parameter store\<close>

definition postgres_url :: "postgresql_config \<Rightarrow> string" where
  "postgres_url p =
     ''postgres://'' @ pg_User p @ '':'' @ pg_Password p @ ''@'' @ pg_Host p @ '':'' @ itoa (pg_Port p) @ ''/''
       @ pg_Database p @ ''?sslmode=disable&application_name=helix-acs''"

text \<open>The limits of the connection pool that are set; the others keep the library's defaults.\<close>

record pool_limits =
  pl_MaxOpen :: "int option"
  pl_MaxIdle :: "int option"
  pl_MaxLifetime :: "int option"

definition pool_of :: "postgresql_config \<Rightarrow> pool_limits" where
  "pool_of p =
     (let some = (pg_MaxConnections p > 0)
      in \<lparr> pl_MaxOpen = (if some then Some (pg_MaxConnections p) else None),
           pl_MaxIdle = (if some then Some (pg_MaxConnections p div 2) else None),
           pl_MaxLifetime = (if pg_ConnectionMaxLifetime p > 0 then Some (pg_ConnectionMaxLifetime p) else None) \<rparr>)"

text \<open>What the database answers to the three steps, under the address that is used.\<close>

record pg_outcomes =
  go_connect :: "string \<Rightarrow> string option"
  go_ping :: "string \<Rightarrow> string option"
  go_health :: "string \<Rightarrow> string option"

definition initParameterRepository :: "postgresql_config \<Rightarrow> pg_outcomes \<Rightarrow> string + pool_limits" where
  "initParameterRepository p oc =
     (let url = postgres_url p in
      case go_connect oc url of
        Some err \<Rightarrow> Inl (''connect to postgresql: '' @ err)
      | None \<Rightarrow>
          (case go_ping oc url of
             Some err \<Rightarrow> Inl (''ping postgresql: '' @ err)
           | None \<Rightarrow>
               (case go_health oc url of
                  Some err \<Rightarrow> Inl (''parameter repository health check failed: '' @ err)
                | None \<Rightarrow> Inr (pool_of p))))"

text \<open>The variant of the package itself, with the address of a Redis server of its own.\<close>

definition InitializePostgreSQL :: "postgresql_config \<Rightarrow> pg_outcomes \<Rightarrow> string + (pool_limits \<times> string)" where
  "InitializePostgreSQL p oc =
     (let url = postgres_url p in
      case go_connect oc url of
        Some err \<Rightarrow> Inl (''connect postgresql: '' @ err)
      | None \<Rightarrow>
          (case go_ping oc url of
             Some err \<Rightarrow> Inl (''ping postgresql: '' @ err)
           | None \<Rightarrow>
               (case go_health oc url of
                  Some err \<Rightarrow> Inl (''health check failed: '' @ err)
                | None \<Rightarrow> Inr (pool_of p, pg_CacheHost p @ '':'' @ itoa (pg_CachePort p)))))"

text \<open>The two timers that are started: the times of the snapshots, and the days of the clean-up.\<close>

definition initParameterScheduler :: "parameters_config \<Rightarrow> string option \<times> int option" where
  "initParameterScheduler p =
     (if pa_SnapshotEnabled p then Some (pa_SnapshotTime p) else None,
      if pa_HistoryEnabled p then Some (pa_RetentionDays p) else None)"

subsection \<open>Start-up\<close>

text \<open>
  What is outside at the start: how the attempts to connect to the two databases under their addresses
  go, whether the indexes of the device database can be made, the parameter store, and the libraries.
\<close>

record outcomes =
  oc_mongo_connect :: "string \<Rightarrow> nat \<Rightarrow> string option"
  oc_mongo_ping :: "string \<Rightarrow> nat \<Rightarrow> string option"
  oc_redis_url :: "string \<Rightarrow> string option"
  oc_redis_ping :: "string \<Rightarrow> nat \<Rightarrow> string option"
  oc_indexes :: "string \<Rightarrow> string option"
  oc_postgres :: pg_outcomes

record libraries =
  lb_jwt :: jwt_lib
  lb_allow :: rate_lib
  lb_match :: path_match

definition storageDBName :: string where "storageDBName = ''storage''"
definition cacheDBName :: string where "cacheDBName = ''cache''"
definition queueTaskName :: string where "queueTaskName = ''queue''"

definition uri_of :: "database_config option \<Rightarrow> string" where
  "uri_of d = (case d of None \<Rightarrow> [] | Some d \<Rightarrow> dc_URI d)"

definition startup_of :: "app_config \<Rightarrow> outcomes \<Rightarrow> startup" where
  "startup_of c oc =
     (let stg = GetDatabase storageDBName c; cc = GetDatabase cacheDBName c
      in \<lparr> su_storage = (stg \<noteq> None), su_mongo_connect = oc_mongo_connect oc (uri_of stg),
           su_mongo_ping = oc_mongo_ping oc (uri_of stg), su_cache = (cc \<noteq> None),
           su_redis_url = oc_redis_url oc (uri_of cc), su_redis_ping = oc_redis_ping oc (uri_of cc),
           su_indexes = (case stg of None \<Rightarrow> None | Some d \<Rightarrow> oc_indexes oc (dc_Name d)),
           su_task = (GetTask queueTaskName (cf_Application c) \<noteq> None),
           su_parameters = (case initParameterRepository (ap_PostgreSQL (cf_Application c)) (oc_postgres oc) of
                              Inl err \<Rightarrow> Some err | Inr _ \<Rightarrow> None) \<rparr>)"

definition initJWTService :: "jwt_config \<Rightarrow> jwt_service" where
  "initJWTService j =
     \<lparr> js_secret = jc_Secret j, js_expiresIn = jc_ExpiresIn j, js_refreshExpiresIn = jc_RefreshExpiresIn j \<rparr>"

definition initTaskQueue :: "int \<Rightarrow> int \<Rightarrow> queue_cfg" where
  "initTaskQueue ttl attempts = \<lparr> qc_ttl = ttl, qc_maxAttempts = attempts \<rparr>"

definition task_attempts :: "app_config \<Rightarrow> int" where
  "task_attempts c = (case GetTask queueTaskName (cf_Application c) of None \<Rightarrow> 0 | Some t \<Rightarrow> tc_MaxAttempts t)"

text \<open>What the two servers are built with: the credentials of the ACS serve for both.\<close>

definition process_config_of :: "libraries \<Rightarrow> app_config \<Rightarrow> process_config" where
  "process_config_of lb c =
     (let app = cf_Application c; sc = ap_ACS app
      in \<lparr> pc_username = sc_Username sc, pc_password = sc_Password sc, pc_jwt = initJWTService (ap_JWT app),
           pc_jwtlib = lb_jwt lb, pc_allow = lb_allow lb, pc_match = lb_match lb,
           pc_maxAttempts = task_attempts c, pc_informInterval = GetInformInterval sc,
           pc_retentionDays = pa_RetentionDays (ap_Parameters app) \<rparr>)"

definition queue_config_of :: "app_config \<Rightarrow> queue_cfg" where
  "queue_config_of c =
     initTaskQueue (case GetDatabase cacheDBName c of None \<Rightarrow> 0 | Some d \<Rightarrow> dc_TTL d) (task_attempts c)"

definition run_application :: "libraries \<Rightarrow> app_config \<Rightarrow> outcomes \<Rightarrow> world \<Rightarrow> start_error + process" where
  "run_application lb c oc w = run_process (process_config_of lb c) (startup_of c oc) w"

text \<open>The events that can happen: the timers fire only when they were started.\<close>

definition timer_started :: "app_config \<Rightarrow> event \<Rightarrow> bool" where
  "timer_started c ev =
     (case (ev, initParameterScheduler (ap_Parameters (cf_Application c))) of
        (OnSnapshot _, (time, _)) \<Rightarrow> (case time of None \<Rightarrow> False | Some s \<Rightarrow> parse_clock s \<noteq> None)
      | (OnHistory _, (_, days)) \<Rightarrow> days \<noteq> None
      | (OnPresence _, _) \<Rightarrow> GetInformInterval (ap_ACS (cf_Application c)) > 0
      | _ \<Rightarrow> True)"

subsection \<open>Serving and the end\<close>

text \<open>
  A server reports how listening ended, unless it was closed. The first of a signal and such a report
  ends serving; then both servers are shut down, whose errors are logged only.
\<close>

datatype listen_end = ServerClosed | ListenError string

definition startServer :: "string \<Rightarrow> listen_end \<Rightarrow> string option" where
  "startServer name r = (case r of ServerClosed \<Rightarrow> None | ListenError err \<Rightarrow> Some (name @ '' server: '' @ err))"

datatype serve_end = ShutdownSignal | ServerError string

text \<open>The errors of the shut-downs, in the order of the servers; the result and the lines logged.\<close>

definition shutdownServers :: "string option list \<Rightarrow> string option \<times> string list" where
  "shutdownServers errs = (None, [e. Some e \<leftarrow> errs])"

definition serveHTTP :: "serve_end \<Rightarrow> string option list \<Rightarrow> string option \<times> string list" where
  "serveHTTP why errs =
     (case shutdownServers errs of
        (res, logged) \<Rightarrow> (res, (case why of ShutdownSignal \<Rightarrow> [] | ServerError e \<Rightarrow> [e]) @ logged))"

record http_server =
  hs_Addr :: string
  hs_ReadTimeout :: int
  hs_WriteTimeout :: int
  hs_IdleTimeout :: int

definition newHTTPServer :: "string \<Rightarrow> http_server" where
  "newHTTPServer addr =
     \<lparr> hs_Addr = addr, hs_ReadTimeout = 30000000000, hs_WriteTimeout = 30000000000, hs_IdleTimeout = 60000000000 \<rparr>"

definition server_address :: "16 word \<Rightarrow> string" where
  "server_address port = CHR '':'' # itoa (int (unat port))"

definition servers_of :: "app_config \<Rightarrow> http_server \<times> http_server" where
  "servers_of c =
     (let app = cf_Application c
      in (newHTTPServer (server_address (sc_ListenPort (ap_ACS app))),
          newHTTPServer (server_address (wc_ListenPort (ap_API app)))))"

text \<open>The exit status of the program, given how serving ended if it came to that.\<close>

definition exit_status ::
    "string + app_config \<Rightarrow> libraries \<Rightarrow> outcomes \<Rightarrow> world \<Rightarrow> serve_end \<Rightarrow> string option list \<Rightarrow> nat" where
  "exit_status cfg lb oc w why errs =
     (case cfg of
        Inl _ \<Rightarrow> 1
      | Inr c \<Rightarrow>
          (case run_application lb c oc w of
             Inl _ \<Rightarrow> 1
           | Inr _ \<Rightarrow> (case fst (serveHTTP why errs) of Some _ \<Rightarrow> 1 | None \<Rightarrow> 0)))"

subsection \<open>Facts\<close>

text \<open>The configuration is enough to start exactly when it names both databases and the queue.\<close>

lemma run_application_starts:
  assumes "\<And>u n. oc_mongo_connect oc u n = None" and "\<And>u n. oc_mongo_ping oc u n = None"
    and "\<And>u. oc_redis_url oc u = None" and "\<And>u n. oc_redis_ping oc u n = None" and "\<And>n. oc_indexes oc n = None"
    and "\<And>u. go_connect (oc_postgres oc) u = None" and "\<And>u. go_ping (oc_postgres oc) u = None"
    and "\<And>u. go_health (oc_postgres oc) u = None"
  shows "(\<exists>p. run_application lb c oc w = Inr p) \<longleftrightarrow>
    mhas (cf_Databases c) ''storage'' \<and> mhas (cf_Databases c) ''cache'' \<and> mhas (ap_Tasks (cf_Application c)) ''queue''"
  using assms
  by (auto simp: run_application_def run_process_starts startup_of_def Let_def initParameterRepository_def
      GetDatabase_def GetTask_def storageDBName_def cacheDBName_def queueTaskName_def mhas_def split: option.splits)

text \<open>What runs is the process of the other theories, with what is in memory empty.\<close>

lemma application_runs: "run_application lb c oc w = Inr p \<Longrightarrow> process_run (process_config_of lb c) w [] {} [] p"
  by (auto simp: run_application_def run_process_starts intro: process_run.start)

text \<open>A server that cannot listen ends the program, with the status of success.\<close>

lemma server_error_exits_zero:
  "run_application lb c oc w = Inr p \<Longrightarrow> exit_status (Inr c) lb oc w (ServerError err) errs = 0"
  by (simp add: exit_status_def serveHTTP_def shutdownServers_def)

text \<open>
  The settings of the web server beside its port and the CORS headers, which are not part of the model
  of a response, have no effect on what is started.
\<close>

lemma web_settings_ignored:
  assumes "wc_ListenPort web = wc_ListenPort (ap_API (cf_Application c))" and "wc_CORS web = wc_CORS (ap_API (cf_Application c))"
  shows "servers_of (c\<lparr>cf_Application := (cf_Application c)\<lparr>ap_API := web\<rparr>\<rparr>) = servers_of c"
    and "run_application lb (c\<lparr>cf_Application := (cf_Application c)\<lparr>ap_API := web\<rparr>\<rparr>) oc w = run_application lb c oc w"
  using assms
  by (simp_all add: servers_of_def Let_def run_application_def process_config_of_def startup_of_def task_attempts_def
      GetDatabase_def GetTask_def)

text \<open>User name and password go into the address as they are: another server can be addressed.\<close>

lemma postgres_url_not_escaped:
  "postgres_url (p\<lparr>pg_Password := pw @ ''@'' @ h, pg_Host := h2\<rparr>) = postgres_url (p\<lparr>pg_Password := pw, pg_Host := h @ ''@'' @ h2\<rparr>)"
  by (simp add: postgres_url_def)

text \<open>Without an interval, or with one that overflows, no device is ever marked offline.\<close>

lemma presence_disabled:
  "GetInformInterval a \<le> 0 \<Longrightarrow> presence_tick (GetInformInterval a) now db = db"
  by (simp add: presence_tick_def)

lemma inform_interval_exact:
  "0 \<le> sc_InformInterval a \<Longrightarrow> sc_InformInterval a \<le> 153722867 \<Longrightarrow> GetInformInterval a = sc_InformInterval a * 60000000000"
  unfolding GetInformInterval_def by (rule wrap64_id) (simp_all add: min_int64_def max_int64_def)

lemma initParameterRepository_ok:
  "initParameterRepository p oc = Inr l \<longleftrightarrow> l = pool_of p \<and> go_connect oc (postgres_url p) = None \<and>
     go_ping oc (postgres_url p) = None \<and> go_health oc (postgres_url p) = None"
  by (auto simp: initParameterRepository_def Let_def split: option.splits)

end
