(* ===== verification/Middleware.thy ===== *)
theory Middleware imports Api_Router begin

section \<open>Recovery and logging\<close>

text \<open>
  internal/api/middleware/recovery.go and logging.go: the two outermost layers around the routes. A
  handler is what it does with its response writer until it returns or panics. The writer of net/http
  sends the first status it is given, and 200 when a body comes before any.
\<close>

subsection \<open>Writers\<close>

record http_out =
  ho_status :: "nat option"
  ho_body :: "api_body list"
  ho_requestID :: string

definition WriteHeader :: "nat \<Rightarrow> http_out \<Rightarrow> http_out" where
  "WriteHeader code w = (case ho_status w of None \<Rightarrow> w\<lparr>ho_status := Some code\<rparr> | Some _ \<Rightarrow> w)"

definition Write_body :: "api_body \<Rightarrow> http_out \<Rightarrow> http_out" where
  "Write_body b w = (let w = WriteHeader 200 w in w\<lparr>ho_body := ho_body w @ [b]\<rparr>)"

text \<open>What the client gets when the handler is done.\<close>

definition sent_status :: "http_out \<Rightarrow> nat" where
  "sent_status w = (case ho_status w of None \<Rightarrow> 200 | Some c \<Rightarrow> c)"

record response_writer =
  rw_inner :: http_out
  rw_status :: nat
  rw_wroteHeader :: bool

definition newResponseWriter :: "http_out \<Rightarrow> response_writer" where
  "newResponseWriter w = \<lparr> rw_inner = w, rw_status = 200, rw_wroteHeader = False \<rparr>"

definition rw_WriteHeader :: "nat \<Rightarrow> response_writer \<Rightarrow> response_writer" where
  "rw_WriteHeader code rw =
     (if rw_wroteHeader rw then rw
      else rw\<lparr>rw_status := code, rw_wroteHeader := True, rw_inner := WriteHeader code (rw_inner rw)\<rparr>)"

definition rw_Write :: "api_body \<Rightarrow> response_writer \<Rightarrow> response_writer" where
  "rw_Write b rw0 =
     (let rw = (if rw_wroteHeader rw0 then rw0 else rw_WriteHeader 200 rw0)
      in rw\<lparr>rw_inner := Write_body b (rw_inner rw)\<rparr>)"

subsection \<open>Handlers\<close>

datatype writer_call = CallHeader nat | CallWrite api_body

record handler_run =
  hn_calls :: "writer_call list"
  hn_panics :: bool

fun rw_call :: "writer_call \<Rightarrow> response_writer \<Rightarrow> response_writer" where
  "rw_call (CallHeader c) rw = rw_WriteHeader c rw"
| "rw_call (CallWrite b) rw = rw_Write b rw"

datatype log_level = LevelInfo | LevelWarn | LevelError

record log_entry =
  le_requestID :: string
  le_status :: nat
  le_level :: log_level

text \<open>
  The middleware of the log: the request id is the one of the request, or a new one. The line is
  written after the handler returned; a panic goes past it. The last component tells of a panic.
\<close>

definition request_id :: "string \<Rightarrow> string \<Rightarrow> string" where
  "request_id header uuid = (if header = [] then uuid else header)"

definition log_level_of :: "nat \<Rightarrow> log_level" where
  "log_level_of status = (if status \<ge> 500 then LevelError else if status \<ge> 400 then LevelWarn else LevelInfo)"

definition Logging :: "string \<Rightarrow> string \<Rightarrow> handler_run \<Rightarrow> http_out \<Rightarrow> http_out \<times> log_entry list \<times> bool" where
  "Logging header uuid h w0 =
     (let i = request_id header uuid;
          rw = fold rw_call (hn_calls h) (newResponseWriter (w0\<lparr>ho_requestID := i\<rparr>))
      in (rw_inner rw,
          if hn_panics h then []
          else [\<lparr> le_requestID = i, le_status = rw_status rw, le_level = log_level_of (rw_status rw) \<rparr>],
          hn_panics h))"

text \<open>The outermost layer: a panic is answered on the writer itself. The flag is the line that reports it.\<close>

definition Recovery ::
    "(http_out \<Rightarrow> http_out \<times> log_entry list \<times> bool) \<Rightarrow> http_out \<Rightarrow> http_out \<times> log_entry list \<times> bool" where
  "Recovery next_handler w0 =
     (case next_handler w0 of
        (w, entries, False) \<Rightarrow> (w, entries, False)
      | (w, entries, True) \<Rightarrow> (Write_body (BError ''internal server error'') (WriteHeader 500 w), entries, True))"

definition fresh_out :: http_out where
  "fresh_out = \<lparr> ho_status = None, ho_body = [], ho_requestID = [] \<rparr>"

definition guarded :: "string \<Rightarrow> string \<Rightarrow> handler_run \<Rightarrow> http_out \<times> log_entry list \<times> bool" where
  "guarded header uuid h = Recovery (Logging header uuid h) fresh_out"

text \<open>The handler that answers as the model of the API says.\<close>

definition writeJSON :: "response \<Rightarrow> handler_run" where
  "writeJSON r = \<lparr> hn_calls = [CallHeader (fst r), CallWrite (snd r)], hn_panics = False \<rparr>"

subsection \<open>Facts\<close>

text \<open>The status the log middleware keeps is the one that was sent through it.\<close>

definition writer_ok :: "response_writer \<Rightarrow> bool" where
  "writer_ok rw \<longleftrightarrow> ho_status (rw_inner rw) = (if rw_wroteHeader rw then Some (rw_status rw) else None) \<and>
     (\<not> rw_wroteHeader rw \<longrightarrow> rw_status rw = 200 \<and> ho_body (rw_inner rw) = [])"

lemma writer_ok_new: "ho_status w = None \<Longrightarrow> ho_body w = [] \<Longrightarrow> writer_ok (newResponseWriter w)"
  by (simp add: writer_ok_def newResponseWriter_def)

lemma writer_ok_call: "writer_ok rw \<Longrightarrow> writer_ok (rw_call c rw)"
  by (cases c) (auto simp: writer_ok_def rw_WriteHeader_def rw_Write_def Write_body_def WriteHeader_def Let_def
      split: option.splits)

lemma writer_ok_calls: "writer_ok rw \<Longrightarrow> writer_ok (fold rw_call cs rw)"
  by (induction cs arbitrary: rw) (simp_all add: writer_ok_call)

lemma logging_writer: "writer_ok (fold rw_call cs (newResponseWriter (fresh_out\<lparr>ho_requestID := i\<rparr>)))"
  by (rule writer_ok_calls, rule writer_ok_new) (simp_all add: fresh_out_def)

text \<open>
  Whatever a handler does with its writer, the status in the log is the one the client gets, under the
  request id that is in the answer.
\<close>

lemma request_id_calls: "ho_requestID (rw_inner (fold rw_call cs rw)) = ho_requestID (rw_inner rw)"
proof (induction cs arbitrary: rw)
  case (Cons c cs)
  have "ho_requestID (rw_inner (rw_call c rw)) = ho_requestID (rw_inner rw)"
    by (cases c) (simp_all add: rw_WriteHeader_def rw_Write_def Write_body_def WriteHeader_def Let_def split: option.splits)
  then show ?case using Cons.IH by simp
qed simp

lemma log_tells_the_status:
  assumes "guarded header uuid h = (w, entries, panicked)" and "\<not> hn_panics h"
  shows "entries = [\<lparr> le_requestID = ho_requestID w, le_status = sent_status w, le_level = log_level_of (sent_status w) \<rparr>]
    \<and> \<not> panicked"
proof -
  let ?i = "request_id header uuid"
  let ?rw = "fold rw_call (hn_calls h) (newResponseWriter (fresh_out\<lparr>ho_requestID := ?i\<rparr>))"
  have "sent_status (rw_inner ?rw) = rw_status ?rw"
    using logging_writer [of "hn_calls h" ?i] by (auto simp: writer_ok_def sent_status_def)
  moreover have "ho_requestID (rw_inner ?rw) = ?i"
    unfolding request_id_calls by (simp add: newResponseWriter_def)
  ultimately show ?thesis using assms by (auto simp: guarded_def Recovery_def Logging_def Let_def)
qed

text \<open>
  A handler that panics before it wrote anything is answered with 500 and nothing but the error; one that
  had sent a status keeps it, and the error is appended to what it wrote. No line of the log has
  the request.
\<close>

lemma panic_is_answered:
  assumes "guarded header uuid \<lparr> hn_calls = cs, hn_panics = True \<rparr> = (w, entries, panicked)"
  shows "panicked \<and> entries = [] \<and> last (ho_body w) = BError ''internal server error'' \<and>
    (cs = [] \<longrightarrow> sent_status w = 500 \<and> length (ho_body w) = 1) \<and>
    (\<forall>c rest. cs = CallHeader c # rest \<longrightarrow> sent_status w = c)"
proof -
  let ?i = "request_id header uuid"
  let ?rw = "fold rw_call cs (newResponseWriter (fresh_out\<lparr>ho_requestID := ?i\<rparr>))"
  have w: "w = Write_body (BError ''internal server error'') (WriteHeader 500 (rw_inner ?rw))" "panicked" "entries = []"
    using assms by (auto simp: guarded_def Recovery_def Logging_def Let_def)
  have kept: "rw_wroteHeader rw \<and> rw_status rw = c \<Longrightarrow> rw_wroteHeader (fold rw_call ds rw) \<and> rw_status (fold rw_call ds rw) = c"
    for ds rw c
  proof (induction ds arbitrary: rw)
    case (Cons d ds)
    then have "rw_wroteHeader (rw_call d rw) \<and> rw_status (rw_call d rw) = c"
      by (cases d) (auto simp: rw_WriteHeader_def rw_Write_def Let_def)
    then show ?case using Cons.IH by simp
  qed simp
  have first: "sent_status w = c" if "cs = CallHeader c # rest" for c rest
  proof -
    have "rw_wroteHeader ?rw \<and> rw_status ?rw = c"
      using kept [of "rw_call (CallHeader c) (newResponseWriter (fresh_out\<lparr>ho_requestID := ?i\<rparr>))" c rest] that
      by (simp add: rw_WriteHeader_def newResponseWriter_def)
    then have "ho_status (rw_inner ?rw) = Some c" using logging_writer [of cs ?i] by (simp add: writer_ok_def)
    then show ?thesis by (simp add: w sent_status_def Write_body_def WriteHeader_def Let_def)
  qed
  have "cs = [] \<longrightarrow> sent_status w = 500 \<and> length (ho_body w) = 1"
    by (simp add: w sent_status_def Write_body_def WriteHeader_def newResponseWriter_def fresh_out_def Let_def)
  moreover have "last (ho_body w) = BError ''internal server error''" by (simp add: w Write_body_def Let_def)
  ultimately show ?thesis using w first by blast
qed

text \<open>The answers of the API arrive as they are, and the log has their status.\<close>

lemma api_answer_is_logged:
  "guarded header uuid (writeJSON (c, b)) =
     (\<lparr> ho_status = Some c, ho_body = [b], ho_requestID = request_id header uuid \<rparr>,
      [\<lparr> le_requestID = request_id header uuid, le_status = c, le_level = log_level_of c \<rparr>], False)"
  by (simp add: guarded_def Recovery_def Logging_def writeJSON_def rw_WriteHeader_def rw_Write_def Write_body_def
      WriteHeader_def newResponseWriter_def fresh_out_def Let_def)

end
