(* ===== verification/Device_Service.thy ===== *)
theory Device_Service imports Device_Store begin

section \<open>The service over the device store\<close>

text \<open>
  internal/device/service.go. The service passes each call on to the repository and puts a text that names
  the operation and the device in front of an error; the errors of the repository have no text in the model,
  so that this one stands alone. The handlers of the server only look at whether
  there was an error, so that the other theories call the repository directly; the lemmas say that this
  is the same. Lists and tags are in Device_Store.
\<close>

definition wrapped :: "string \<Rightarrow> 'a option \<times> device_db \<Rightarrow> (string + 'a) \<times> device_db" where
  "wrapped text r = (case r of (None, db) \<Rightarrow> (Inl text, db) | (Some x, db) \<Rightarrow> (Inr x, db))"

definition wrapped_error :: "string \<Rightarrow> bool \<times> device_db \<Rightarrow> string option \<times> device_db" where
  "wrapped_error text r = (case r of (True, db) \<Rightarrow> (None, db) | (False, db) \<Rightarrow> (Some text, db))"

definition UpsertFromInform :: "string \<Rightarrow> int \<Rightarrow> upsert_request \<Rightarrow> device_db \<Rightarrow> (string + device) \<times> device_db" where
  "UpsertFromInform oid now req db = wrapped (''upsert device '' @ uq_Serial req) (Upsert oid now req db)"

definition service_FindBySerial :: "string \<Rightarrow> device_db \<Rightarrow> (string + device option) \<times> device_db" where
  "service_FindBySerial serial db = wrapped (''find device '' @ serial) (FindBySerial serial db)"

definition service_Delete :: "string \<Rightarrow> device_db \<Rightarrow> string option \<times> device_db" where
  "service_Delete serial db = wrapped_error (''delete device '' @ serial) (Delete_device serial db)"

definition service_UpdateInfo :: "int \<Rightarrow> string \<Rightarrow> info_update \<Rightarrow> device_db \<Rightarrow> string option \<times> device_db" where
  "service_UpdateInfo now serial upd db =
     wrapped_error (''update device info '' @ serial) (UpdateInfo now serial upd db)"

definition service_UpdateParameters :: "int \<Rightarrow> string \<Rightarrow> params \<Rightarrow> device_db \<Rightarrow> string option \<times> device_db" where
  "service_UpdateParameters now serial ps db =
     wrapped_error (''update parameters for device '' @ serial) (UpdateParameters now serial ps db)"

definition service_MergeParameters :: "int \<Rightarrow> string \<Rightarrow> params \<Rightarrow> device_db \<Rightarrow> string option \<times> device_db" where
  "service_MergeParameters now serial ps db =
     wrapped_error (''merge parameters for device '' @ serial) (MergeParameters now serial ps db)"

definition service_MarkStaleOffline :: "int \<Rightarrow> int \<Rightarrow> device_db \<Rightarrow> (string + nat) \<times> device_db" where
  "service_MarkStaleOffline now olderThan db = wrapped ''mark stale offline'' (MarkStaleOffline now olderThan db)"

definition service_SetOnline :: "int \<Rightarrow> string \<Rightarrow> bool \<Rightarrow> device_db \<Rightarrow> string option \<times> device_db" where
  "service_SetOnline now serial b db = wrapped_error (''set online for device '' @ serial) (SetOnline now serial b db)"

subsection \<open>Facts\<close>

text \<open>The database is left as the repository leaves it, and there is an error exactly when it has one.\<close>

lemma wrapped_passes_on:
  "snd (wrapped text r) = snd r" "(case fst (wrapped text r) of Inl _ \<Rightarrow> None | Inr x \<Rightarrow> Some x) = fst r"
  "snd (wrapped_error text b) = snd b" "(fst (wrapped_error text b) = None) = fst b"
  by (cases r, simp add: wrapped_def split: option.split)+
    (cases b, simp add: wrapped_error_def split: bool.split)+

lemmas service_defs = UpsertFromInform_def service_FindBySerial_def service_Delete_def service_UpdateInfo_def
  service_UpdateParameters_def service_MergeParameters_def service_MarkStaleOffline_def service_SetOnline_def

text \<open>
  Updating a device that is not there is no error: the filter matches no document. Only the operations that
  read the document tell.
\<close>

lemma update_of_unknown_succeeds:
  assumes "map_of (db_devices db) serial = None" and "db_faults db = []"
  shows "service_UpdateParameters now serial ps db = (None, db)"
    and "service_MergeParameters now serial ps db = (None, db)"
    and "service_SetOnline now serial b db = (None, db)"
    and "service_FindBySerial serial db = (Inr None, db)"
  using assms
  by (simp_all add: service_defs wrapped_def wrapped_error_def UpdateParameters_def MergeParameters_def SetOnline_def
      update_one_def read_parameters_def FindBySerial_def)

end
