(* ===== verification/Repair_Tools.thy ===== *)
theory Repair_Tools imports Results begin

section \<open>The repair tools\<close>

text \<open>
  cmd/fix-db and cmd/fix-root: two programs an operator runs once against the device database. Each reads
  the parameters of one device, whose serial number is part of the program, and sets fields of its document.
  A panic ends the program: the first component of a result tells whether it came to its end. The counters
  that fix-db does not know are missing in what it writes, and read as zeros.
\<close>

definition repaired_serial :: string where
  "repaired_serial = ''225C1CU010292''"

text \<open>The parameters of the document; a failed read, a missing document and a missing map are panics.\<close>

definition with_parameters ::
    "(params \<Rightarrow> device \<Rightarrow> device) \<Rightarrow> device_db \<Rightarrow> bool \<times> device_db" where
  "with_parameters f db0 =
     (let (failed, db) = db_call db0
      in if failed then (False, db)
         else case Option.bind (map_of (db_devices db) repaired_serial) de_Parameters of
                None \<Rightarrow> (False, db)
              | Some ps \<Rightarrow> update_one repaired_serial (f ps) db)"

subsection \<open>fix-db\<close>

definition fixdb_samePrefix :: "string \<Rightarrow> string \<Rightarrow> bool" where
  "fixdb_samePrefix a b =
     (let as = split_n CHR ''.'' 3 a; bs = split_n CHR ''.'' 3 b
      in if length as < 2 \<or> length bs < 2 then False else as ! 0 = bs ! 0 \<and> as ! 1 = bs ! 1)"

text \<open>The two loops of \<^verbatim>\<open>findGateway\<close> over the entries in visiting order.\<close>

fun route_loop :: "params \<Rightarrow> string \<Rightarrow> params \<Rightarrow> string" where
  "route_loop ps iface [] = []"
| "route_loop ps iface ((k, v) # rest) =
     (if has_suffix k ''.Interface'' \<and> v = iface \<and> contains k ''IPv4Forwarding'' then
        let base = trim_suffix k ''.Interface'';
            enabled = mget ps (base @ ''.Enable'');
            gw = mget ps (base @ ''.GatewayIPAddress'')
        in if (enabled = ''1'' \<or> enabled = ''true'' \<or> enabled = []) \<and> gw \<noteq> [] \<and> gw \<noteq> ''0.0.0.0''
           then gw else route_loop ps iface rest
      else route_loop ps iface rest)"

fun gateway_loop :: "string \<Rightarrow> params \<Rightarrow> string \<Rightarrow> string" where
  "gateway_loop wanIP [] gateway = gateway"
| "gateway_loop wanIP ((k, v) # rest) gateway =
     (if \<not> has_suffix k ''.GatewayIPAddress'' \<or> \<not> contains k ''IPv4Forwarding'' then gateway_loop wanIP rest gateway
      else if v = [] \<or> v = ''0.0.0.0'' then gateway_loop wanIP rest gateway
      else if wanIP \<noteq> [] \<and> fixdb_samePrefix wanIP v then v
      else gateway_loop wanIP rest (if gateway = [] then v else gateway))"

definition fixdb_findGateway :: "string \<Rightarrow> string \<Rightarrow> params \<Rightarrow> string" where
  "fixdb_findGateway iface wanIP ps =
     (let gateway = (if iface \<noteq> [] then route_loop ps iface ps else [])
      in if gateway = [] then gateway_loop wanIP ps gateway else gateway)"

definition fixdb_pattern :: regex where
  "fixdb_pattern = re_full [Lit ''Device.IP.Interface.'', Capture, Lit ''.X_TP_ConnType'']"

definition fixdb_dns :: "string \<Rightarrow> wan_info \<Rightarrow> wan_info" where
  "fixdb_dns s wan =
     (if s = [] then wan
      else case split_on CHR '','' s of
             [] \<Rightarrow> wan
           | [a] \<Rightarrow> wan\<lparr>wi_DNS1 := trim_space a\<rparr>
           | a # b # _ \<Rightarrow> wan\<lparr>wi_DNS1 := trim_space a, wi_DNS2 := trim_space b\<rparr>)"

definition fixdb_ppp :: "params \<Rightarrow> string \<Rightarrow> wan_info \<Rightarrow> wan_info" where
  "fixdb_ppp ps obj wan =
     (case submatch rePPPRef (mget ps (obj @ ''LowerLayers'')) of
        Some (i # _) \<Rightarrow>
          let ppp = ''Device.PPP.Interface.'' @ i @ ''.''
          in fixdb_dns (mget ps (ppp @ ''IPCP.DNSServers'')) (wan\<lparr>wi_PPPoEUsername := mget ps (ppp @ ''Username'')\<rparr>)
      | _ \<Rightarrow> wan)"

definition fixdb_dhcp :: "params \<Rightarrow> string \<Rightarrow> wan_info \<Rightarrow> wan_info" where
  "fixdb_dhcp ps obj wan =
     (case find (\<lambda>(k, w). has_suffix k ''.Interface'' \<and> has_prefix k ''Device.DHCPv4.Client.'' \<and> w = obj) ps of
        None \<Rightarrow> wan
      | Some (k, _) \<Rightarrow> fixdb_dns (mget ps (trim_suffix k ''.Interface'' @ ''.DNSServers'')) wan)"

definition fixdb_wan :: "params \<Rightarrow> string \<Rightarrow> string \<Rightarrow> wan_info" where
  "fixdb_wan ps idx v =
     (let obj = ''Device.IP.Interface.'' @ idx @ ''.'';
          ip = mget ps (obj @ ''IPv4Address.1.IPAddress'');
          up0 = mget ps (obj @ ''X_TP_Uptime'');
          up = (if up0 = [] then mget ps (obj @ ''LastChange'') else up0);
          wan = zero_wan_info\<lparr>wi_ConnectionType := v, wi_ServiceType := mget ps (obj @ ''X_TP_ServiceType''),
            wi_IPAddress := ip, wi_SubnetMask := mget ps (obj @ ''IPv4Address.1.SubnetMask''),
            wi_LinkStatus := mget ps (obj @ ''Status''), wi_Gateway := fixdb_findGateway obj ip ps,
            wi_MACAddress := mget ps ''Device.Ethernet.Interface.1.MACAddress'',
            wi_MTU := atoi_val (mget ps (obj @ ''MaxMTUSize'')),
            wi_UptimeSeconds := (if up = [] then 0 else case parse_int64 up of (u, None) \<Rightarrow> u | _ \<Rightarrow> 0)\<rparr>
      in if v = ''PPPoE'' then fixdb_ppp ps obj wan else if v = ''DHCP'' then fixdb_dhcp ps obj wan else wan)"

fun fixdb_loop :: "params \<Rightarrow> params \<Rightarrow> wan_info list \<Rightarrow> wan_info list" where
  "fixdb_loop ps [] wans = wans"
| "fixdb_loop ps ((k, v) # rest) wans =
     (case submatch fixdb_pattern k of
        Some (idx # _) \<Rightarrow>
          let ip = mget ps (''Device.IP.Interface.'' @ idx @ ''.IPv4Address.1.IPAddress'')
          in if v = ''LAN'' \<or> v = ''Bridge'' \<or> ip = [] \<or> ip = ''0.0.0.0'' then fixdb_loop ps rest wans
             else fixdb_loop ps rest (wans @ [fixdb_wan ps idx v])
      | _ \<Rightarrow> fixdb_loop ps rest wans)"

definition fixdb_wans :: "params \<Rightarrow> wan_info list" where
  "fixdb_wans ps = fixdb_loop ps ps []"

text \<open>A nil slice is written as null.\<close>

definition fix_db :: "device_db \<Rightarrow> bool \<times> device_db" where
  "fix_db = with_parameters (\<lambda>ps d.
     d\<lparr>de_WANs := (case fixdb_wans ps of [] \<Rightarrow> None | ws \<Rightarrow> Some ws)\<rparr>)"

subsection \<open>fix-root\<close>

text \<open>The errors of \<^verbatim>\<open>strconv.ParseInt\<close> are ignored: its value counts.\<close>

definition root_fields :: "params \<Rightarrow> device \<Rightarrow> device" where
  "root_fields ps d =
     (let num = (\<lambda>k. fst (parse_int64 (mget ps k)))
      in d\<lparr>de_UptimeSeconds := num ''Device.DeviceInfo.UpTime'',
           de_RAMFree := num ''Device.DeviceInfo.MemoryStatus.Free'',
           de_RAMTotal := num ''Device.DeviceInfo.MemoryStatus.Total'',
           de_CPUUsage := Some (num ''Device.DeviceInfo.ProcessStatus.CPUUsage''),
           de_ACSURL := mget ps ''Device.ManagementServer.URL'',
           de_IPAddress := mget ps ''Device.IP.Interface.1.IPv4Address.1.IPAddress'',
           de_WANIP := mget ps ''Device.IP.Interface.5.IPv4Address.1.IPAddress''\<rparr>)"

definition fix_root :: "device_db \<Rightarrow> bool \<times> device_db" where
  "fix_root = with_parameters root_fields"

subsection \<open>Facts\<close>

lemma fixdb_samePrefix_eq: "fixdb_samePrefix a b = samePrefix a b"
  by (auto simp: fixdb_samePrefix_def samePrefix_def Let_def split: list.splits)

lemma route_loop_eq: "route_loop ps iface rest = (case List.map_filter (route_gateway ps iface) rest of [] \<Rightarrow> [] | gw # _ \<Rightarrow> gw)"
  by (induction rest) (auto simp: route_gateway_def Let_def List.map_filter_def)

lemma any_gateways_simps:
  "any_gateways [] = []"
  "any_gateways ((k, v) # rest) =
     (if has_suffix k ''.GatewayIPAddress'' \<and> contains k ''IPv4Forwarding'' \<and> v \<noteq> [] \<and> v \<noteq> ''0.0.0.0''
      then v # any_gateways rest else any_gateways rest)"
  by (simp_all add: any_gateways_def)

lemma gateway_loop_found: "gateway \<noteq> [] \<Longrightarrow> gateway_loop wanIP rest gateway =
    (case find (\<lambda>v. wanIP \<noteq> [] \<and> samePrefix wanIP v) (any_gateways rest) of Some v \<Rightarrow> v | None \<Rightarrow> gateway)"
proof (induction rest)
  case (Cons kv rest)
  then show ?case by (cases kv) (simp add: any_gateways_simps fixdb_samePrefix_eq)
qed (simp add: any_gateways_simps)

lemma gateway_loop_eq: "gateway_loop wanIP rest [] =
    (case find (\<lambda>v. wanIP \<noteq> [] \<and> samePrefix wanIP v) (any_gateways rest) of
       Some v \<Rightarrow> v | None \<Rightarrow> (case any_gateways rest of [] \<Rightarrow> [] | v # _ \<Rightarrow> v))"
proof (induction rest)
  case (Cons kv rest)
  then show ?case
    by (cases kv) (simp add: any_gateways_simps fixdb_samePrefix_eq gateway_loop_found split: option.split)
qed (simp add: any_gateways_simps)

text \<open>The tool finds the gateways the server finds.\<close>

lemma fixdb_gateway_eq: "fixdb_findGateway iface wanIP ps = findGateway iface wanIP ps"
proof (cases "if iface \<noteq> [] then List.map_filter (route_gateway ps iface) ps else []")
  case Nil
  then show ?thesis
    by (simp add: fixdb_findGateway_def findGateway_def Let_def route_loop_eq gateway_loop_eq split: if_splits)
next
  case (Cons gw rest)
  then have gws: "iface \<noteq> []" "List.map_filter (route_gateway ps iface) ps = gw # rest" by (simp_all split: if_splits)
  then have "gw \<in> set (List.map_filter (route_gateway ps iface) ps)" by simp
  then have "gw \<noteq> []" unfolding in_set_map_filter by (auto simp: route_gateway_def Let_def split: if_splits)
  then show ?thesis using gws by (simp add: fixdb_findGateway_def findGateway_def route_loop_eq)
qed

text \<open>Both tools change the one document they are for, or nothing.\<close>

lemma with_parameters_other:
  "s \<noteq> repaired_serial \<Longrightarrow> map_of (db_devices (snd (with_parameters f db))) s = map_of (db_devices db) s"
  by (auto simp: with_parameters_def update_one_def db_call_def Let_def split: list.splits option.splits)

lemma fixdb_dns_address [simp]: "wi_IPAddress (fixdb_dns s wan) = wi_IPAddress wan"
  by (auto simp: fixdb_dns_def split: list.splits)

lemma fixdb_wan_address:
  "wi_IPAddress (fixdb_wan ps idx v) = mget ps (''Device.IP.Interface.'' @ idx @ ''.IPv4Address.1.IPAddress'')"
proof -
  have "wi_IPAddress (fixdb_ppp ps obj w) = wi_IPAddress w" "wi_IPAddress (fixdb_dhcp ps obj w) = wi_IPAddress w" for obj w
    by (auto simp: fixdb_ppp_def fixdb_dhcp_def Let_def split: option.splits list.splits)
  then show ?thesis by (simp add: fixdb_wan_def Let_def)
qed

lemma fixdb_usable: "x \<in> set (fixdb_loop ps rest wans) \<Longrightarrow> x \<in> set wans \<or> (\<exists>idx v. x = fixdb_wan ps idx v \<and> wi_IPAddress x \<notin> {[], ''0.0.0.0''})"
proof (induction rest arbitrary: wans)
  case (Cons kv rest)
  obtain k v where kv: "kv = (k, v)" by fastforce
  note addr = fixdb_wan_address
  have step: "fixdb_loop ps (kv # rest) wans = fixdb_loop ps rest wans \<or>
      (\<exists>idx. fixdb_loop ps (kv # rest) wans = fixdb_loop ps rest (wans @ [fixdb_wan ps idx v]) \<and>
         wi_IPAddress (fixdb_wan ps idx v) \<notin> {[], ''0.0.0.0''})"
    by (cases "submatch fixdb_pattern k") (auto simp: kv addr Let_def split: list.split)
  then show ?case
  proof (elim disjE exE conjE)
    fix idx
    assume "fixdb_loop ps (kv # rest) wans = fixdb_loop ps rest (wans @ [fixdb_wan ps idx v])"
      and "wi_IPAddress (fixdb_wan ps idx v) \<notin> {[], ''0.0.0.0''}"
    then show ?thesis using Cons.IH [of "wans @ [fixdb_wan ps idx v]"] Cons.prems by auto
  qed (use Cons in simp)
qed simp

text \<open>
  A parameter the device does not report empties its field: fix-root writes zero for a number and
  the empty text for an address.
\<close>

lemma fix_root_clears:
  "de_WANIP (root_fields [] d) = [] \<and> de_RAMTotal (root_fields [] d) = 0 \<and> de_CPUUsage (root_fields [] d) = Some 0"
  by (simp add: root_fields_def Let_def mget_def) code_simp

end
