(* ===== verification/Simulator.thy ===== *)
theory Simulator imports Endpoint begin

section \<open>The simulated devices\<close>

text \<open>
  examples/cpe_simulator and examples/cdata_simulator: two clients of the CWMP endpoint with their digest
  authentication, the messages they send and the course of their sessions. A server is a function
  from the value of the Authorization header and the body to a reply; cookies are carried by the
  HTTP client and not part of the model. The text of a reply is what the server wrote. UUIDs and the time
  are arguments. The output on the terminal is left out.
\<close>

subsection \<open>Digest authentication of a client\<close>

text \<open>
  The format \<^verbatim>\<open>%q\<close> of ASCII texts: quotes and backslashes are escaped, and so are the control
  characters.
\<close>

definition hex2 :: "nat \<Rightarrow> string" where
  "hex2 n = (let d = (\<lambda>k. if k < 10 then char_of (48 + k) else char_of (87 + k)) in [d (n div 16), d (n mod 16)])"

definition quote_char :: "char \<Rightarrow> string" where
  "quote_char c =
     (if c = CHR 0x22 \<or> c = CHR 0x5C then [CHR 0x5C, c]
      else if c = CHR 0x07 then [CHR 0x5C, CHR ''a'']
      else if c = CHR 0x08 then [CHR 0x5C, CHR ''b'']
      else if c = CHR 0x0C then [CHR 0x5C, CHR ''f'']
      else if c = CHR 0x0A then [CHR 0x5C, CHR ''n'']
      else if c = CHR 0x0D then [CHR 0x5C, CHR ''r'']
      else if c = CHR 0x09 then [CHR 0x5C, CHR ''t'']
      else if c = CHR 0x0B then [CHR 0x5C, CHR ''v'']
      else if of_char c < (32 :: nat) \<or> of_char c = (127 :: nat) then CHR 0x5C # CHR ''x'' # hex2 (of_char c)
      else [c])"

definition quote :: "string \<Rightarrow> string" where
  "quote s = [CHR 0x22] @ concat (map quote_char s) @ [CHR 0x22]"

text \<open>The challenge the server writes into the header of its 401.\<close>

definition challenge_header :: "string \<Rightarrow> string \<Rightarrow> string" where
  "challenge_header realm nonce =
     ''Digest '' @ join_with '', '' [''realm='' @ quote realm, ''nonce='' @ quote nonce,
       ''qop='' @ quote ''auth'', ''algorithm='' @ quote ''MD5'']"

text \<open>How the first simulator reads a challenge; the values lose one pair of quotes.\<close>

definition challenge_part :: "string \<Rightarrow> params \<Rightarrow> params" where
  "challenge_part part0 ps =
     (let part = trim_space part0
      in case cut_at part CHR ''='' of
           None \<Rightarrow> ps
         | Some (k, v0) \<Rightarrow>
             let v = trim_space v0;
                 w = (if length v \<ge> 2 \<and> hd v = CHR 0x22 \<and> last v = CHR 0x22 then butlast (tl v) else v)
             in mput (trim_space k) w ps)"

definition parseDigestChallenge :: "string \<Rightarrow> params" where
  "parseDigestChallenge s = fold challenge_part (split_on CHR '','' s) []"

definition extractPath :: "string \<Rightarrow> string" where
  "extractPath url =
     (case find (has_prefix url) [''http://'', ''https://''] of
        None \<Rightarrow> url
      | Some p \<Rightarrow> (case cut_at (drop (length p) url) CHR ''/'' of None \<Rightarrow> ''/'' | Some (_, rest) \<Rightarrow> CHR ''/'' # rest))"

text \<open>The value of the Authorization header that answers the fields of a challenge.\<close>

definition authorization :: "string \<Rightarrow> string \<Rightarrow> string \<Rightarrow> string \<Rightarrow> string \<Rightarrow> params \<Rightarrow> string" where
  "authorization meth uri username password cnonce ps =
     (let realm = mget ps ''realm''; nonce = mget ps ''nonce'';
          algorithm = (if mget ps ''algorithm'' = [] then ''MD5'' else mget ps ''algorithm'');
          nc = ''00000001'';
          ha1 = md5hex (username @ '':'' @ realm @ '':'' @ password);
          ha2 = md5hex (meth @ '':'' @ uri);
          resp = (if contains (mget ps ''qop'') ''auth''
                  then md5hex (ha1 @ '':'' @ nonce @ '':'' @ nc @ '':'' @ cnonce @ '':auth:'' @ ha2)
                  else md5hex (ha1 @ '':'' @ nonce @ '':'' @ ha2))
      in ''Digest '' @ join_with '', '' [''username='' @ quote username, ''realm='' @ quote realm,
           ''nonce='' @ quote nonce, ''uri='' @ quote uri, ''algorithm='' @ algorithm, ''qop=auth'', ''nc='' @ nc,
           ''cnonce='' @ quote cnonce, ''response='' @ quote resp])"

record http_reply =
  hp_status :: nat
  hp_challenge :: string
  hp_text :: string

text \<open>
  A request with the answer to the challenge, if one comes. \<^verbatim>\<open>send\<close> is the server: the header and the body.
  The two simulators differ in how they read a challenge and the path of an address. The text of an error is
  only printed.
\<close>

definition do_request ::
    "(string \<Rightarrow> params) \<Rightarrow> (string \<Rightarrow> string) \<Rightarrow> string \<Rightarrow> string \<Rightarrow> string \<Rightarrow> string \<Rightarrow> string \<Rightarrow>
     (string \<Rightarrow> string \<Rightarrow> 's \<Rightarrow> (string + http_reply) \<times> 's) \<Rightarrow> string \<Rightarrow> 's \<Rightarrow> (string + http_reply) \<times> 's" where
  "do_request parse path meth url username password cnonce send body s =
     (case send [] body s of
        (Inl err, s1) \<Rightarrow> (Inl err, s1)
      | (Inr rp, s1) \<Rightarrow>
          if hp_status rp \<noteq> 401 then (Inr rp, s1)
          else if \<not> has_prefix (hp_challenge rp) ''Digest ''
          then (Inl (''unexpected auth scheme: '' @ hp_challenge rp), s1)
          else let ps = parse (drop 7 (hp_challenge rp))
               in send (authorization meth (path url) username password cnonce ps) body s1)"

definition doRequestWithDigest ::
    "string \<Rightarrow> string \<Rightarrow> string \<Rightarrow> string \<Rightarrow> string \<Rightarrow>
     (string \<Rightarrow> string \<Rightarrow> 's \<Rightarrow> (string + http_reply) \<times> 's) \<Rightarrow> string \<Rightarrow> 's \<Rightarrow> (string + http_reply) \<times> 's" where
  "doRequestWithDigest = do_request parseDigestChallenge extractPath"

subsection \<open>The session of the first simulator\<close>

record cpe_flags =
  fl_ACS :: string
  fl_Username :: string
  fl_Password :: string
  fl_Serial :: string
  fl_Manufacturer :: string
  fl_OUI :: string
  fl_Product :: string
  fl_SWVersion :: string
  fl_HWVersion :: string
  fl_WANIP :: string

definition inform_param :: "string \<Rightarrow> string \<Rightarrow> xml" where
  "inform_param n v = Elem ''ParameterValueStruct'' [] [leaf ''Name'' n, Elem ''Value'' [(''xsi:type'', ''xsd:string'')] [Chars v]]"

text \<open>
  The Inform, as the elements of its text: the flags are put into the text as they are, so that this is
  what it says as long as they hold no markup.
\<close>

definition buildInform :: "cpe_flags \<Rightarrow> string \<Rightarrow> string \<Rightarrow> xml" where
  "buildInform fl sid now =
     Elem ''soap:Envelope'' []
       [Elem ''soap:Header'' [] [Elem ''cwmp:ID'' [(''mustUnderstand'', ''1'')] [Chars sid]],
        Elem ''soap:Body'' []
          [Elem ''cwmp:Inform'' []
             [Elem ''DeviceId'' [] [leaf ''Manufacturer'' (fl_Manufacturer fl), leaf ''OUI'' (fl_OUI fl),
                leaf ''ProductClass'' (fl_Product fl), leaf ''SerialNumber'' (fl_Serial fl)],
              Elem ''Event'' [] [Elem ''EventStruct'' [] [leaf ''EventCode'' ''0 BOOTSTRAP'', leaf ''CommandKey'' []]],
              leaf ''MaxEnvelopes'' ''1'', leaf ''CurrentTime'' now, leaf ''RetryCount'' ''0'',
              Elem ''ParameterList'' []
                [inform_param ''Device.DeviceInfo.Manufacturer'' (fl_Manufacturer fl),
                 inform_param ''Device.DeviceInfo.SerialNumber'' (fl_Serial fl),
                 inform_param ''Device.DeviceInfo.SoftwareVersion'' (fl_SWVersion fl),
                 inform_param ''Device.DeviceInfo.HardwareVersion'' (fl_HWVersion fl),
                 inform_param ''Device.ManagementServer.URL'' (fl_ACS fl),
                 inform_param ''Device.ManagementServer.Username'' (fl_Username fl),
                 inform_param ''Device.IP.Interface.1.IPv4Address.1.IPAddress'' (fl_WANIP fl)]]]]"

text \<open>How a session ends: with status 1, or with what it found in the two replies.\<close>

datatype session_report = SessionExit | SessionComplete bool bool

definition cpe_runSession ::
    "cpe_flags \<Rightarrow> string \<Rightarrow> string \<Rightarrow> string \<Rightarrow> string \<Rightarrow>
     (string \<Rightarrow> string \<Rightarrow> 's \<Rightarrow> (string + http_reply) \<times> 's) \<Rightarrow> 's \<Rightarrow> session_report \<times> 's" where
  "cpe_runSession fl sid now cn1 cn2 send s0 =
     (let request = (\<lambda>cn. doRequestWithDigest ''POST'' (fl_ACS fl) (fl_Username fl) (fl_Password fl) cn send)
      in case request cn1 (xml_header @ render_xml (buildInform fl sid now)) s0 of
           (Inl _, s1) \<Rightarrow> (SessionExit, s1)
         | (Inr rp, s1) \<Rightarrow>
             if hp_status rp \<noteq> 200 then (SessionExit, s1)
             else (case request cn2 [] s1 of
                     (Inl _, s2) \<Rightarrow> (SessionExit, s2)
                   | (Inr rp2, s2) \<Rightarrow>
                       (SessionComplete (contains (hp_text rp) ''InformResponse'') (hp_status rp2 = 204), s2)))"

subsection \<open>The C-DATA simulator\<close>

definition cdata_challenge_part :: "string \<Rightarrow> params \<Rightarrow> params" where
  "cdata_challenge_part part0 ps =
     (case cut_at (trim_space part0) CHR ''='' of
        None \<Rightarrow> ps
      | Some (k, v) \<Rightarrow>
          mput (trim_space k)
            (rev (dropWhile ((=) CHR 0x22) (rev (dropWhile ((=) CHR 0x22) (trim_space v))))) ps)"

definition cdata_parseDigestChallenge :: "string \<Rightarrow> params" where
  "cdata_parseDigestChallenge s = fold cdata_challenge_part (split_on CHR '','' s) []"

definition cdata_extractPath :: "string \<Rightarrow> string" where
  "cdata_extractPath url = (case last_index url CHR ''/'' of None \<Rightarrow> ''/'' | Some i \<Rightarrow> drop i url)"

definition cdata_doRequestWithDigest ::
    "string \<Rightarrow> string \<Rightarrow> string \<Rightarrow> string \<Rightarrow> string \<Rightarrow>
     (string \<Rightarrow> string \<Rightarrow> 's \<Rightarrow> (string + http_reply) \<times> 's) \<Rightarrow> string \<Rightarrow> 's \<Rightarrow> (string + http_reply) \<times> 's" where
  "cdata_doRequestWithDigest = do_request cdata_parseDigestChallenge cdata_extractPath"

definition cdata_inform_param :: "string \<Rightarrow> string \<Rightarrow> xml" where
  "cdata_inform_param n v = Elem ''ParameterValueStruct'' [] [leaf ''Name'' n, leaf ''Value'' v]"

definition cdata_buildInform :: "string \<Rightarrow> string \<Rightarrow> string \<Rightarrow> xml" where
  "cdata_buildInform serial sid now =
     Elem ''soap:Envelope''
       [(''xmlns:soap'', ''http://schemas.xmlsoap.org/soap/envelope/''), (''xmlns:cwmp'', ''urn:dslforum-org:cwmp-1-0'')]
       [Elem ''soap:Header'' [] [Elem ''cwmp:ID'' [(''mustUnderstand'', ''1'')] [Chars sid]],
        Elem ''soap:Body'' []
          [Elem ''cwmp:Inform'' []
             [Elem ''DeviceId'' [] [leaf ''Manufacturer'' ''ZTEG'', leaf ''OUI'' ''0060A9'',
                leaf ''ProductClass'' ''FD514GD-R460'', leaf ''SerialNumber'' serial],
              Elem ''Event'' [] [Elem ''EventStruct'' [] [leaf ''EventCode'' ''0 BOOTSTRAP'', leaf ''CommandKey'' []]],
              leaf ''MaxEnvelopes'' ''1'', leaf ''CurrentTime'' now, leaf ''RetryCount'' ''0'',
              Elem ''ParameterList'' []
                [cdata_inform_param ''InternetGatewayDevice.DeviceInfo.Manufacturer'' ''ZTEG'',
                 cdata_inform_param ''InternetGatewayDevice.DeviceInfo.ModelName'' ''FD514GD-R460'',
                 cdata_inform_param ''InternetGatewayDevice.DeviceInfo.SerialNumber'' serial,
                 cdata_inform_param ''InternetGatewayDevice.DeviceInfo.SoftwareVersion'' ''V3.2.18_P396001'',
                 cdata_inform_param ''InternetGatewayDevice.DeviceInfo.HardwareVersion'' ''RS50.1B'']]]]"

definition cdata_params :: "string list" where
  "cdata_params =
   [''InternetGatewayDevice.DeviceInfo.Manufacturer'',
    ''InternetGatewayDevice.DeviceInfo.ModelName'',
    ''InternetGatewayDevice.DeviceInfo.SerialNumber'',
    ''InternetGatewayDevice.DeviceInfo.SoftwareVersion'',
    ''InternetGatewayDevice.DeviceInfo.HardwareVersion'',
    ''InternetGatewayDevice.DeviceInfo.UpTime'',
    ''InternetGatewayDevice.DeviceInfo.SpecVersion'',
    ''InternetGatewayDevice.WANDevice.1.WANCommonInterfaceConfig.WANAccessType'',
    ''InternetGatewayDevice.WANDevice.1.WANConnectionDevice.1.WANPPPConnection.1.ConnectionType'',
    ''InternetGatewayDevice.WANDevice.1.WANConnectionDevice.1.WANPPPConnection.1.Username'',
    ''InternetGatewayDevice.WANDevice.1.WANConnectionDevice.1.WANPPPConnection.1.Password'',
    ''InternetGatewayDevice.WANDevice.1.WANConnectionDevice.1.WANPPPConnection.1.ExternalIPAddress'',
    ''InternetGatewayDevice.WANDevice.1.WANConnectionDevice.1.WANPPPConnection.1.DefaultGateway'',
    ''InternetGatewayDevice.WANDevice.1.WANConnectionDevice.1.WANPPPConnection.1.DNSServers'',
    ''InternetGatewayDevice.WANDevice.1.WANConnectionDevice.1.WANPPPConnection.1.MACAddress'',
    ''InternetGatewayDevice.WANDevice.1.WANConnectionDevice.1.WANPPPConnection.1.MTU'',
    ''InternetGatewayDevice.WANDevice.1.WANConnectionDevice.1.WANPPPConnection.1.ConnectionStatus'',
    ''InternetGatewayDevice.WANDevice.1.WANConnectionDevice.1.WANPPPConnection.1.Uptime'',
    ''InternetGatewayDevice.WANDevice.1.WANConnectionDevice.1.WANPPPConnection.1.X_CT-COM_BundledBytes'',
    ''InternetGatewayDevice.LANDevice.1.WLANConfiguration.1.SSID'',
    ''InternetGatewayDevice.LANDevice.1.WLANConfiguration.1.Enable'',
    ''InternetGatewayDevice.LANDevice.1.WLANConfiguration.1.Channel'',
    ''InternetGatewayDevice.LANDevice.1.WLANConfiguration.1.BSSID'',
    ''InternetGatewayDevice.LANDevice.1.WLANConfiguration.1.Standard'',
    ''InternetGatewayDevice.LANDevice.1.WLANConfiguration.1.KeyPassphrase'',
    ''InternetGatewayDevice.LANDevice.1.WLANConfiguration.1.BeaconType'',
    ''InternetGatewayDevice.LANDevice.1.WLANConfiguration.1.BasicEncryptionModes'',
    ''InternetGatewayDevice.LANDevice.1.WLANConfiguration.1.BasicAuthenticationMode'',
    ''InternetGatewayDevice.LANDevice.1.WLANConfiguration.1.ChannelWidth'',
    ''InternetGatewayDevice.LANDevice.1.WLANConfiguration.1.TransmitPower'',
    ''InternetGatewayDevice.LANDevice.1.WLANConfiguration.1.X_CT-COM_ClientCount'',
    ''InternetGatewayDevice.LANDevice.1.WLANConfiguration.1.Stats.BytesSent'',
    ''InternetGatewayDevice.LANDevice.1.WLANConfiguration.1.Stats.BytesReceived'',
    ''InternetGatewayDevice.LANDevice.1.WLANConfiguration.1.Stats.PacketsSent'',
    ''InternetGatewayDevice.LANDevice.1.WLANConfiguration.1.Stats.PacketsReceived'',
    ''InternetGatewayDevice.LANDevice.1.WLANConfiguration.2.SSID'',
    ''InternetGatewayDevice.LANDevice.1.WLANConfiguration.2.Enable'',
    ''InternetGatewayDevice.LANDevice.1.WLANConfiguration.2.Channel'',
    ''InternetGatewayDevice.LANDevice.1.WLANConfiguration.2.BSSID'',
    ''InternetGatewayDevice.LANDevice.1.WLANConfiguration.2.Standard'',
    ''InternetGatewayDevice.LANDevice.1.WLANConfiguration.2.KeyPassphrase'',
    ''InternetGatewayDevice.LANDevice.1.WLANConfiguration.2.BeaconType'',
    ''InternetGatewayDevice.LANDevice.1.WLANConfiguration.2.BasicEncryptionModes'',
    ''InternetGatewayDevice.LANDevice.1.WLANConfiguration.2.BasicAuthenticationMode'',
    ''InternetGatewayDevice.LANDevice.1.WLANConfiguration.2.ChannelWidth'',
    ''InternetGatewayDevice.LANDevice.1.WLANConfiguration.2.TransmitPower'',
    ''InternetGatewayDevice.LANDevice.1.WLANConfiguration.2.X_CT-COM_ClientCount'',
    ''InternetGatewayDevice.LANDevice.1.LANHostConfigManagement.IPInterface.1.IPAddress'',
    ''InternetGatewayDevice.LANDevice.1.LANHostConfigManagement.IPInterface.1.SubnetMask'',
    ''InternetGatewayDevice.LANDevice.1.LANHostConfigManagement.DHCPServerEnable'',
    ''InternetGatewayDevice.LANDevice.1.LANHostConfigManagement.DHCPServerMinAddress'',
    ''InternetGatewayDevice.LANDevice.1.LANHostConfigManagement.DHCPServerMaxAddress'',
    ''InternetGatewayDevice.LANDevice.1.LANHostConfigManagement.DNSServers'',
    ''InternetGatewayDevice.ManagementServer.URL'',
    ''InternetGatewayDevice.ManagementServer.Username'',
    ''InternetGatewayDevice.ManagementServer.Password'',
    ''InternetGatewayDevice.ManagementServer.PeriodicInformInterval'',
    ''InternetGatewayDevice.ManagementServer.PeriodicInformEnable'']"

definition getCDataParameterNames :: "string \<Rightarrow> string list" where
  "getCDataParameterNames path = filter (\<lambda>p. has_prefix p path) cdata_params"

definition cdata_values :: "string \<Rightarrow> params" where
  "cdata_values serial =
   [(''InternetGatewayDevice.DeviceInfo.Manufacturer'', ''ZTEG''),
    (''InternetGatewayDevice.DeviceInfo.ModelName'', ''FD514GD-R460''),
    (''InternetGatewayDevice.DeviceInfo.SerialNumber'', serial),
    (''InternetGatewayDevice.DeviceInfo.SoftwareVersion'', ''V3.2.18_P396001''),
    (''InternetGatewayDevice.DeviceInfo.HardwareVersion'', ''RS50.1B''),
    (''InternetGatewayDevice.DeviceInfo.UpTime'', ''3600''),
    (''InternetGatewayDevice.DeviceInfo.SpecVersion'', ''1.0''),
    (''InternetGatewayDevice.WANDevice.1.WANCommonInterfaceConfig.WANAccessType'', ''PPP''),
    (''InternetGatewayDevice.WANDevice.1.WANConnectionDevice.1.WANPPPConnection.1.ConnectionType'', ''IP_Routed''),
    (''InternetGatewayDevice.WANDevice.1.WANConnectionDevice.1.WANPPPConnection.1.Username'', ''testuser''),
    (''InternetGatewayDevice.WANDevice.1.WANConnectionDevice.1.WANPPPConnection.1.Password'', ''testpass123''),
    (''InternetGatewayDevice.WANDevice.1.WANConnectionDevice.1.WANPPPConnection.1.ExternalIPAddress'', ''10.201.77.80''),
    (''InternetGatewayDevice.WANDevice.1.WANConnectionDevice.1.WANPPPConnection.1.DefaultGateway'', ''10.201.77.1''),
    (''InternetGatewayDevice.WANDevice.1.WANConnectionDevice.1.WANPPPConnection.1.DNSServers'', ''8.8.8.8,8.8.4.4''),
    (''InternetGatewayDevice.WANDevice.1.WANConnectionDevice.1.WANPPPConnection.1.MACAddress'', ''d0:5f:af:25:2d:7f''),
    (''InternetGatewayDevice.WANDevice.1.WANConnectionDevice.1.WANPPPConnection.1.MTU'', ''1492''),
    (''InternetGatewayDevice.WANDevice.1.WANConnectionDevice.1.WANPPPConnection.1.ConnectionStatus'', ''Connected''),
    (''InternetGatewayDevice.WANDevice.1.WANConnectionDevice.1.WANPPPConnection.1.Uptime'', ''86400''),
    (''InternetGatewayDevice.WANDevice.1.WANConnectionDevice.1.WANPPPConnection.1.X_CT-COM_BundledBytes'', ''1048576000''),
    (''InternetGatewayDevice.LANDevice.1.WLANConfiguration.1.SSID'', ''C-DATA-2.4G''),
    (''InternetGatewayDevice.LANDevice.1.WLANConfiguration.1.Enable'', ''true''),
    (''InternetGatewayDevice.LANDevice.1.WLANConfiguration.1.Channel'', ''6''),
    (''InternetGatewayDevice.LANDevice.1.WLANConfiguration.1.BSSID'', ''d0:5f:af:00:00:01''),
    (''InternetGatewayDevice.LANDevice.1.WLANConfiguration.1.Standard'', ''b,g,n''),
    (''InternetGatewayDevice.LANDevice.1.WLANConfiguration.1.KeyPassphrase'', ''cdata12345''),
    (''InternetGatewayDevice.LANDevice.1.WLANConfiguration.1.BeaconType'', ''WPA2''),
    (''InternetGatewayDevice.LANDevice.1.WLANConfiguration.1.BasicEncryptionModes'', ''TKIP,AES''),
    (''InternetGatewayDevice.LANDevice.1.WLANConfiguration.1.BasicAuthenticationMode'', ''WPA2PSK''),
    (''InternetGatewayDevice.LANDevice.1.WLANConfiguration.1.ChannelWidth'', ''20''),
    (''InternetGatewayDevice.LANDevice.1.WLANConfiguration.1.TransmitPower'', ''100''),
    (''InternetGatewayDevice.LANDevice.1.WLANConfiguration.1.X_CT-COM_ClientCount'', ''5''),
    (''InternetGatewayDevice.LANDevice.1.WLANConfiguration.1.Stats.BytesSent'', ''536870912''),
    (''InternetGatewayDevice.LANDevice.1.WLANConfiguration.1.Stats.BytesReceived'', ''1073741824''),
    (''InternetGatewayDevice.LANDevice.1.WLANConfiguration.1.Stats.PacketsSent'', ''1024000''),
    (''InternetGatewayDevice.LANDevice.1.WLANConfiguration.1.Stats.PacketsReceived'', ''2048000''),
    (''InternetGatewayDevice.LANDevice.1.WLANConfiguration.2.SSID'', ''C-DATA-5G''),
    (''InternetGatewayDevice.LANDevice.1.WLANConfiguration.2.Enable'', ''true''),
    (''InternetGatewayDevice.LANDevice.1.WLANConfiguration.2.Channel'', ''36''),
    (''InternetGatewayDevice.LANDevice.1.WLANConfiguration.2.BSSID'', ''d0:5f:af:00:00:02''),
    (''InternetGatewayDevice.LANDevice.1.WLANConfiguration.2.Standard'', ''a,n,ac''),
    (''InternetGatewayDevice.LANDevice.1.WLANConfiguration.2.KeyPassphrase'', ''cdata12345''),
    (''InternetGatewayDevice.LANDevice.1.WLANConfiguration.2.BeaconType'', ''WPA2''),
    (''InternetGatewayDevice.LANDevice.1.WLANConfiguration.2.BasicEncryptionModes'', ''AES''),
    (''InternetGatewayDevice.LANDevice.1.WLANConfiguration.2.BasicAuthenticationMode'', ''WPA2PSK''),
    (''InternetGatewayDevice.LANDevice.1.WLANConfiguration.2.ChannelWidth'', ''80''),
    (''InternetGatewayDevice.LANDevice.1.WLANConfiguration.2.TransmitPower'', ''100''),
    (''InternetGatewayDevice.LANDevice.1.WLANConfiguration.2.X_CT-COM_ClientCount'', ''8''),
    (''InternetGatewayDevice.LANDevice.1.LANHostConfigManagement.IPInterface.1.IPAddress'', ''192.168.1.1''),
    (''InternetGatewayDevice.LANDevice.1.LANHostConfigManagement.IPInterface.1.SubnetMask'', ''255.255.255.0''),
    (''InternetGatewayDevice.LANDevice.1.LANHostConfigManagement.DHCPServerEnable'', ''true''),
    (''InternetGatewayDevice.LANDevice.1.LANHostConfigManagement.DHCPServerMinAddress'', ''192.168.1.100''),
    (''InternetGatewayDevice.LANDevice.1.LANHostConfigManagement.DHCPServerMaxAddress'', ''192.168.1.250''),
    (''InternetGatewayDevice.LANDevice.1.LANHostConfigManagement.DNSServers'', ''8.8.8.8,8.8.4.4''),
    (''InternetGatewayDevice.ManagementServer.URL'', ''http://192.167.77.60:7547/acs''),
    (''InternetGatewayDevice.ManagementServer.Username'', ''acs''),
    (''InternetGatewayDevice.ManagementServer.Password'', ''acs123''),
    (''InternetGatewayDevice.ManagementServer.PeriodicInformInterval'', ''300''),
    (''InternetGatewayDevice.ManagementServer.PeriodicInformEnable'', ''true'')]"

definition getCDataParameterValue :: "string \<Rightarrow> string \<Rightarrow> string" where
  "getCDataParameterValue serial n =
     (case map_of (cdata_values serial) n of None \<Rightarrow> ''unknown'' | Some v \<Rightarrow> v)"

text \<open>\<^verbatim>\<open>strings.Index\<close>: where a text first occurs.\<close>

fun sub_index :: "string \<Rightarrow> string \<Rightarrow> nat option" where
  "sub_index s p =
     (if has_prefix s p then Some 0
      else case s of [] \<Rightarrow> None | c # cs \<Rightarrow> map_option Suc (sub_index cs p))"

text \<open>The text between an opening and the next closing mark, if it is not empty.\<close>

definition between :: "string \<Rightarrow> string \<Rightarrow> string \<Rightarrow> string option" where
  "between op cl s =
     (case sub_index s op of
        None \<Rightarrow> None
      | Some i \<Rightarrow>
          let rest = drop (i + length op) s
          in (case sub_index rest cl of
                None \<Rightarrow> None
              | Some n \<Rightarrow> if n > 0 then Some (take n rest) else None))"

definition requested_path :: "string \<Rightarrow> string" where
  "requested_path request =
     (case between ''<ParameterPath>'' ''</ParameterPath>'' request of
        None \<Rightarrow> ''InternetGatewayDevice.'' | Some p \<Rightarrow> p)"

definition parseParameterNames :: "string \<Rightarrow> string list" where
  "parseParameterNames request =
     List.map_filter
       (\<lambda>line. if contains line ''<Name>'' \<and> contains line ''</Name>'' then between ''<Name>'' ''</Name>'' line else None)
       (split_on CHR 0x0A request)"

definition cdata_envelope :: "string \<Rightarrow> xml \<Rightarrow> xml" where
  "cdata_envelope sid body =
     Elem ''soap:Envelope''
       [(''xmlns'', ''http://schemas.xmlsoap.org/soap/envelope/''),
        (''xmlns:soap'', ''http://schemas.xmlsoap.org/soap/envelope/''), (''xmlns:cwmp'', ''urn:dslforum-org:cwmp-1-0'')]
       [Elem ''soap:Header'' [] [leaf ''cwmp:ID'' sid], Elem ''soap:Body'' [] [body]]"

definition buildGetParameterNamesResponse :: "string \<Rightarrow> string \<Rightarrow> xml" where
  "buildGetParameterNamesResponse sid request =
     cdata_envelope sid (Elem ''cwmp:GetParameterNamesResponse'' []
       [Elem ''ParameterList'' []
          (map (\<lambda>n. Elem ''ParameterInfoStruct'' [] [leaf ''Name'' n, leaf ''Writable'' ''false''])
             (getCDataParameterNames (requested_path request)))])"

definition buildGetParameterValuesResponse :: "string \<Rightarrow> string \<Rightarrow> string \<Rightarrow> xml" where
  "buildGetParameterValuesResponse serial sid request =
     cdata_envelope sid (Elem ''cwmp:GetParameterValuesResponse'' []
       [Elem ''ParameterList'' []
          (map (\<lambda>n. Elem ''ParameterValueStruct'' [] [leaf ''Name'' n, leaf ''Value'' (getCDataParameterValue serial n)])
             (parseParameterNames request))])"

text \<open>What is made of a reply: an answer, nothing, or the end because the request is not known.\<close>

datatype cdata_reaction = Respond xml | KeepAsking | UnknownRequest

definition cdata_react :: "string \<Rightarrow> string \<Rightarrow> string \<Rightarrow> cdata_reaction" where
  "cdata_react serial sid text =
     (if contains text ''<cwmp:GetParameterNames'' then Respond (buildGetParameterNamesResponse sid text)
      else if contains text ''<cwmp:GetParameterValues'' then Respond (buildGetParameterValuesResponse serial sid text)
      else if contains text ''InformResponse'' then KeepAsking
      else if text \<noteq> [] then UnknownRequest else KeepAsking)"

datatype cdata_end = CdataError | CdataClosed | CdataStatus nat | CdataUnknown

text \<open>
  The loop, with the bodies it posts: the answer is kept in a variable of the loop body, which every
  round declares anew. It has no bound; \<^verbatim>\<open>None\<close> is a loop that still runs after so many rounds.
\<close>

fun cdata_loop ::
    "nat \<Rightarrow> string \<Rightarrow> string \<Rightarrow> (string \<Rightarrow> 's \<Rightarrow> (string + http_reply) \<times> 's) \<Rightarrow> 's \<Rightarrow> string list \<Rightarrow>
     (cdata_end \<times> string list \<times> 's) option" where
  "cdata_loop 0 serial sid post s posted = None"
| "cdata_loop (Suc n) serial sid post s posted =
     (let postBody = []; posted' = posted @ [postBody]
      in case post postBody s of
           (Inl _, s') \<Rightarrow> Some (CdataError, posted', s')
         | (Inr rp, s') \<Rightarrow>
             if hp_status rp = 204 then Some (CdataClosed, posted', s')
             else if hp_status rp \<noteq> 200 then Some (CdataStatus (hp_status rp), posted', s')
             else (case cdata_react serial sid (hp_text rp) of
                     Respond x \<Rightarrow> cdata_loop n serial sid post s' posted'
                   | KeepAsking \<Rightarrow> cdata_loop n serial sid post s' posted'
                   | UnknownRequest \<Rightarrow> Some (CdataUnknown, posted', s')))"

text \<open>
  A session: the Inform, whose reply is not looked at, then the loop. Every request has a client nonce of
  its own; how many were taken is kept beside the state of the server.
\<close>

definition cdata_runSession ::
    "nat \<Rightarrow> string \<Rightarrow> string \<Rightarrow> string \<Rightarrow> string \<Rightarrow> string \<Rightarrow> string \<Rightarrow> (nat \<Rightarrow> string) \<Rightarrow>
     (string \<Rightarrow> string \<Rightarrow> 's \<Rightarrow> (string + http_reply) \<times> 's) \<Rightarrow> 's \<Rightarrow> (cdata_end \<times> string list \<times> 's) option" where
  "cdata_runSession n url user password serial sid now cnonce send s0 =
     (let post = (\<lambda>body (k, s).
            case cdata_doRequestWithDigest ''POST'' url user password (cnonce k) send body s of (r, s') \<Rightarrow> (r, Suc k, s'))
      in case post (xml_header @ render_xml (cdata_buildInform serial sid now)) (0, s0) of
           (Inl _, k, s1) \<Rightarrow> Some (CdataError, [], s1)
         | (Inr _, s1) \<Rightarrow> map_option (\<lambda>(e, posted, k, s2). (e, posted, s2)) (cdata_loop n serial sid post s1 []))"

subsection \<open>The server behind the client\<close>

text \<open>
  The CWMP endpoint as such a server. Its state holds the circumstances of the requests to come, the
  nonces and the sessions. How the text of a body is read, and how a reply is written, are arguments.
\<close>

type_synonym endpoint_state = "(env \<times> string) list \<times> digest_auth \<times> acs"

definition acs_send ::
    "(string \<Rightarrow> http_request) \<Rightarrow> (reply \<Rightarrow> nat \<times> string) \<Rightarrow> string \<Rightarrow> string \<Rightarrow> endpoint_state \<Rightarrow>
     (string + http_reply) \<times> endpoint_state" where
  "acs_send read_body write_reply hdr body st =
     (case st of
        ([], d, a) \<Rightarrow> (Inl ''connection refused'', st)
      | ((e, uuid) # es, d, a) \<Rightarrow>
          (case cwmp_endpoint e uuid \<lparr> ar_method = ''POST'', ar_authorization = hdr \<rparr> (int (length body)) (read_body body) d a of
             (Unauthorized realm nonce, d', a') \<Rightarrow>
               (Inr \<lparr> hp_status = 401, hp_challenge = challenge_header realm nonce, hp_text = ''Unauthorized'' \<rparr>, es, d', a')
           | (Replied rep, d', a') \<Rightarrow>
               (Inr \<lparr> hp_status = fst (write_reply rep), hp_challenge = [], hp_text = snd (write_reply rep) \<rparr>, es, d', a')))"

subsection \<open>Facts: headers\<close>

text \<open>A text that needs no escapes, and that no comma splits.\<close>

definition plain_text :: "string \<Rightarrow> bool" where
  "plain_text s \<longleftrightarrow> (\<forall>c \<in> set s. c \<notin> {CHR 0x22, CHR 0x5C, CHR '',''} \<and> 32 \<le> (of_char c :: nat) \<and> of_char c \<noteq> (127 :: nat))"

lemma quote_plain: "plain_text s \<Longrightarrow> quote s = [CHR 0x22] @ s @ [CHR 0x22]"
proof -
  assume s: "plain_text s"
  have "quote_char c = [c]" if "c \<in> set s" for c
  proof -
    have c: "32 \<le> (of_char c :: nat)" "of_char c \<noteq> (127 :: nat)" "c \<noteq> CHR 0x22" "c \<noteq> CHR 0x5C"
      using s that by (auto simp: plain_text_def)
    have "c \<noteq> d" if "of_char d < (32 :: nat)" for d using that c(1) by auto
    note ctrl = this [of "CHR 0x07"] this [of "CHR 0x08"] this [of "CHR 0x0C"] this [of "CHR 0x0A"] this [of "CHR 0x0D"]
      this [of "CHR 0x09"] this [of "CHR 0x0B"]
    show ?thesis using c ctrl by (simp add: quote_char_def)
  qed
  then have "concat (map quote_char s) = s" by (induction s) auto
  then show ?thesis by (simp add: quote_def)
qed

lemma field_quoted: "plain_text v \<Longrightarrow> k @ ''='' @ quote v = quoted_field (k, v)"
  by (simp add: quote_plain quoted_field_def)

lemma digest_part_bare:
  assumes "plain_name k" and "plain_name v" and "hd v \<noteq> CHR 0x22"
  shows "digest_part (k @ ''='' @ v) ps = mput k v ps"
proof -
  have ends: "w \<noteq> [] \<and> \<not> is_space (hd w) \<and> \<not> is_space (last w)" if "w \<in> {k, v}" for w
    using that assms(1,2) hd_in_set [of w] last_in_set [of w] unfolding plain_name_def by blast
  have "trim_space (k @ ''='' @ v) = k @ ''='' @ v" using ends by (intro trim_space_id) simp_all
  moreover have "trim_space k = k" "trim_space v = v" using ends by (auto intro: trim_space_id)
  moreover have "cut_at (k @ ''='' @ v) CHR ''='' = Some (k, v)"
  proof -
    have "CHR ''='' \<notin> set k" using assms(1) by (auto simp: plain_name_def)
    then show ?thesis using cut_at_append [of "CHR ''=''" k v] by simp
  qed
  ultimately show ?thesis using assms(3) by (simp add: digest_part_def unquote_def)
qed

text \<open>Fields that are read one by one are read the same way when they are joined.\<close>

lemma parse_joined:
  assumes "\<forall>x \<in> set (x # xs). CHR '','' \<notin> set (fst x) \<and> (\<forall>m. digest_part (fst x) m = mput (fst (snd x)) (snd (snd x)) m)"
  shows "parseDigestHeader (join_with '', '' (map fst (x # xs))) = mput_all (map snd (x # xs)) []"
proof -
  have blank: "digest_part (CHR '' '' # p) m = digest_part p m" for p m by (simp add: digest_part_def trim_space_blank)
  have step: "digest_part (fst y) m = mput (fst (snd y)) (snd (snd y)) m" if "y \<in> set (x # xs)" for y m
    using assms that by blast
  have "fold digest_part (map (\<lambda>p. CHR '' '' # p) (map fst ys)) m = mput_all (map snd ys) m" if "set ys \<subseteq> set (x # xs)" for ys m
    using that
  proof (induction ys arbitrary: m)
    case (Cons y ys)
    then show ?case using step [of y m] by (cases y) (simp add: blank)
  qed simp
  from this [of xs] show ?thesis
    using assms split_on_join_blank [of "fst x" "map fst xs"] step [of x]
    by (cases x) (simp add: parseDigestHeader_def subset_insertI)
qed

lemma challenge_part_eq: "parseDigestChallenge s = parseDigestHeader s"
proof -
  have "challenge_part p m = digest_part p m" for p m
    by (simp only: challenge_part_def digest_part_def unquote_def Let_def)
  then have "challenge_part = digest_part" by (simp add: fun_eq_iff)
  then show ?thesis by (simp add: parseDigestChallenge_def parseDigestHeader_def)
qed

lemma plain_text_trim:
  assumes "plain_text v" and "v \<noteq> []" and "hd v \<noteq> CHR '' ''" and "last v \<noteq> CHR '' ''"
  shows "rev (dropWhile ((=) CHR 0x22) (rev (dropWhile ((=) CHR 0x22) (trim_space ([CHR 0x22] @ v @ [CHR 0x22]))))) = v"
proof -
  have id: "xs \<noteq> [] \<Longrightarrow> \<not> P (hd xs) \<Longrightarrow> dropWhile P xs = xs" for P and xs :: string by (cases xs) auto
  have "CHR 0x22 \<noteq> c" if "c \<in> set v" for c using assms(1) that by (auto simp: plain_text_def)
  then have ends: "CHR 0x22 \<noteq> hd v" "CHR 0x22 \<noteq> last v" using assms(2) by simp_all
  have "\<not> is_space CHR 0x22" by (simp add: is_space_def)
  then have "trim_space ([CHR 0x22] @ v @ [CHR 0x22]) = [CHR 0x22] @ v @ [CHR 0x22]" by (intro trim_space_id) simp_all
  moreover have "dropWhile ((=) CHR 0x22) (v @ [CHR 0x22]) = v @ [CHR 0x22]" using assms(2) ends by (intro id) simp_all
  moreover have "dropWhile ((=) CHR 0x22) (rev v) = rev v" using assms(2) ends by (intro id) (simp_all add: hd_rev)
  ultimately show ?thesis by simp
qed

definition challenge_fields :: "string \<Rightarrow> string \<Rightarrow> params" where
  "challenge_fields realm nonce = [(''realm'', realm), (''nonce'', nonce), (''qop'', ''auth''), (''algorithm'', ''MD5'')]"

lemma plain_text_comma: "plain_text s \<Longrightarrow> CHR '','' \<notin> set s"
  by (auto simp: plain_text_def)

lemma comma_quoted: "CHR '','' \<notin> set (quoted_field (k, v)) \<longleftrightarrow> CHR '','' \<notin> set k \<and> CHR '','' \<notin> set v"
  by (simp add: quoted_field_def)

lemma header_names:
  "plain_name ''realm''" "plain_name ''nonce''" "plain_name ''qop''" "plain_name ''algorithm''" "plain_name ''username''"
  "plain_name ''uri''" "plain_name ''nc''" "plain_name ''cnonce''" "plain_name ''response''"
  by (simp_all add: plain_name_def is_space_def)

lemma challenge_read:
  assumes "plain_text realm" and "plain_text nonce"
  shows "parseDigestChallenge (drop 7 (challenge_header realm nonce)) = mput_all (challenge_fields realm nonce) []"
proof -
  let ?q = "\<lambda>kv. (quoted_field kv, kv)"
  have plain: "plain_text ''auth''" "plain_text ''MD5''" by (simp_all add: plain_text_def)
  have fields: "[''realm='' @ quote realm, ''nonce='' @ quote nonce, ''qop='' @ quote ''auth'', ''algorithm='' @ quote ''MD5''] =
      map fst (map ?q (challenge_fields realm nonce))"
    using field_quoted [OF assms(1), of "''realm''"] field_quoted [OF assms(2), of "''nonce''"]
      field_quoted [OF plain(1), of "''qop''"] field_quoted [OF plain(2), of "''algorithm''"]
    by (simp add: challenge_fields_def)
  have names: "\<forall>x \<in> set (map ?q (challenge_fields realm nonce)).
      CHR '','' \<notin> set (fst x) \<and> (\<forall>m. digest_part (fst x) m = mput (fst (snd x)) (snd (snd x)) m)"
    using plain_text_comma [OF assms(1)] plain_text_comma [OF assms(2)] header_names
    by (simp add: challenge_fields_def digest_part_quoted comma_quoted)
  have "parseDigestHeader (join_with '', '' (map fst (map ?q (challenge_fields realm nonce)))) = mput_all (challenge_fields realm nonce) []"
    using parse_joined [of "?q (hd (challenge_fields realm nonce))" "map ?q (tl (challenge_fields realm nonce))"] names
    by (simp add: challenge_fields_def)
  then show ?thesis unfolding challenge_part_eq challenge_header_def fields by simp
qed

definition client_answer :: "string \<Rightarrow> string \<Rightarrow> string \<Rightarrow> string \<Rightarrow> string \<Rightarrow> string \<Rightarrow> params" where
  "client_answer uri user cnonce realm nonce resp =
     [(''username'', user), (''realm'', realm), (''nonce'', nonce), (''uri'', uri), (''algorithm'', ''MD5''),
      (''qop'', ''auth''), (''nc'', ''00000001''), (''cnonce'', cnonce), (''response'', resp)]"

definition client_response :: "string \<Rightarrow> string \<Rightarrow> string \<Rightarrow> string \<Rightarrow> string \<Rightarrow> string \<Rightarrow> string \<Rightarrow> string" where
  "client_response meth uri user password cnonce realm nonce =
     md5hex (md5hex (user @ '':'' @ realm @ '':'' @ password) @ '':'' @ nonce @ '':'' @ ''00000001'' @ '':'' @ cnonce
       @ '':auth:'' @ md5hex (meth @ '':'' @ uri))"

lemma authorization_text:
  assumes "realm \<noteq> []" and "ps = mput_all (challenge_fields realm nonce) []"
  shows "authorization meth uri user password cnonce ps = ''Digest '' @ join_with '', ''
    [''username='' @ quote user, ''realm='' @ quote realm, ''nonce='' @ quote nonce, ''uri='' @ quote uri,
     ''algorithm='' @ ''MD5'', ''qop='' @ ''auth'', ''nc='' @ ''00000001'', ''cnonce='' @ quote cnonce,
     ''response='' @ quote (client_response meth uri user password cnonce realm nonce)]"
proof -
  have "contains ''auth'' ''auth''" by (simp add: contains_def has_prefix_def)
  moreover have "mget ps ''realm'' = realm" "mget ps ''nonce'' = nonce" "mget ps ''qop'' = ''auth''" "mget ps ''algorithm'' = ''MD5''"
    by (simp_all add: assms(2) challenge_fields_def mget_def)
  ultimately show ?thesis by (simp add: authorization_def client_response_def Let_def)
qed

lemma md5hex_plain: "plain_text (md5hex x)"
proof -
  have "\<forall>c \<in> set hex_alphabet. c \<notin> {CHR 0x22, CHR 0x5C, CHR '',''} \<and> 32 \<le> (of_char c :: nat) \<and> of_char c \<noteq> (127 :: nat)"
    by (simp add: hex_alphabet_def)
  then show ?thesis using md5hex_digits [of x] by (auto simp: plain_text_def)
qed

lemma authorization_read:
  assumes plain: "plain_text user" "plain_text realm" "plain_text nonce" "plain_text uri" "plain_text cnonce"
    and "realm \<noteq> []" and "ps = mput_all (challenge_fields realm nonce) []"
  shows "has_prefix (authorization meth uri user password cnonce ps) ''Digest ''"
    and "parseDigestHeader (drop 7 (authorization meth uri user password cnonce ps)) =
      mput_all (client_answer uri user cnonce realm nonce (client_response meth uri user password cnonce realm nonce)) []"
proof -
  let ?r = "client_response meth uri user password cnonce realm nonce"
  let ?kvs = "client_answer uri user cnonce realm nonce ?r"
  define field where "field = (\<lambda>kv. if fst kv \<in> {''algorithm'', ''qop'', ''nc''} then fst kv @ ''='' @ snd kv else quoted_field kv)"
  have r: "plain_text ?r" by (simp add: client_response_def md5hex_plain)
  have hdr: "authorization meth uri user password cnonce ps = ''Digest '' @ join_with '', '' (map field ?kvs)"
    unfolding authorization_text [OF assms(6,7)] using field_quoted [of user "''username''"] field_quoted [of realm "''realm''"]
      field_quoted [of nonce "''nonce''"] field_quoted [of uri "''uri''"] field_quoted [of cnonce "''cnonce''"]
      field_quoted [of ?r "''response''"] plain r
    by (simp add: field_def client_answer_def)
  then show "has_prefix (authorization meth uri user password cnonce ps) ''Digest ''" by (simp only: has_prefix_append)
  have bare: "digest_part (''algorithm'' @ ''='' @ ''MD5'') m = mput ''algorithm'' ''MD5'' m"
    "digest_part (''qop'' @ ''='' @ ''auth'') m = mput ''qop'' ''auth'' m"
    "digest_part (''nc'' @ ''='' @ ''00000001'') m = mput ''nc'' ''00000001'' m" for m
    by (intro digest_part_bare; simp add: header_names plain_name_def is_space_def)+
  note commas = plain_text_comma [OF plain(1)] plain_text_comma [OF plain(2)] plain_text_comma [OF plain(3)]
    plain_text_comma [OF plain(4)] plain_text_comma [OF plain(5)] plain_text_comma [OF r]
  have comma: "\<forall>kv \<in> set ?kvs. CHR '','' \<notin> set (field kv)" using commas
    by (simp add: client_answer_def field_def comma_quoted)
  have part: "\<forall>kv \<in> set ?kvs. digest_part (field kv) m = mput (fst kv) (snd kv) m" for m using bare [of m]
    by (simp add: client_answer_def field_def digest_part_quoted header_names)
  have "parseDigestHeader (join_with '', '' (map field ?kvs)) = mput_all ?kvs []"
    using parse_joined [of "(\<lambda>kv. (field kv, kv)) (hd ?kvs)" "map (\<lambda>kv. (field kv, kv)) (tl ?kvs)"] comma part
    by (simp add: client_answer_def)
  then show "parseDigestHeader (drop 7 (authorization meth uri user password cnonce ps)) = mput_all ?kvs []"
    unfolding hdr by simp
qed

text \<open>The answer to a fresh challenge passes the digest check.\<close>

lemma answer_passes:
  assumes plain: "plain_text user" "plain_text (da_realm d)" "plain_text uuid" "plain_text uri" "plain_text cnonce"
    and nonempty: "user \<noteq> []" "da_realm d \<noteq> []" "uuid \<noteq> []" "uri \<noteq> []"
    and "wf_map (da_nonces d)" and "now2 - digestNonceTTL \<le> now"
    and "ps = mput_all (challenge_fields (da_realm d) uuid) []"
  shows "fst (Middleware now2 uuid2
      \<lparr> ar_method = meth, ar_authorization = authorization meth uri user (da_password d) cnonce ps \<rparr>
      (newNonce now uuid (cleanStaleNonces now d))) = Passed user"
proof -
  let ?d = "newNonce now uuid (cleanStaleNonces now d)"
  let ?resp = "client_response meth uri user (da_password d) cnonce (da_realm d) uuid"
  let ?kvs = "client_answer uri user cnonce (da_realm d) uuid ?resp"
  define r where "r = \<lparr> ar_method = meth, ar_authorization = authorization meth uri user (da_password d) cnonce ps \<rparr>"
  note answer = authorization_read [OF plain(1,2,3,4,5) nonempty(2) assms(12)]
  have ps: "digest_params r = mput_all ?kvs []" using answer(2) by (simp add: r_def digest_params_def)
  have get: "mget (digest_params r) ''username'' = user" "mget (digest_params r) ''realm'' = da_realm d"
    "mget (digest_params r) ''nonce'' = uuid" "mget (digest_params r) ''uri'' = uri" "mget (digest_params r) ''qop'' = ''auth''"
    "mget (digest_params r) ''nc'' = ''00000001''" "mget (digest_params r) ''cnonce'' = cnonce"
    "mget (digest_params r) ''response'' = ?resp"
    by (simp_all add: ps client_answer_def mget_def)
  have "expected_response (da_password d) meth (digest_params r) = ?resp"
    by (simp add: expected_response_def get client_response_def Let_def)
  then have "proves_password (da_password ?d) r"
    by (simp add: proves_password_def response_matches_def get equal_fold_def) (simp add: r_def equal_fold_def)
  moreover have "complete (digest_params r)"
    using nonempty md5hex_not_Nil by (simp add: complete_def get client_response_def)
  moreover have "has_prefix (ar_authorization r) ''Digest ''" using answer(1) by (simp add: r_def)
  moreover have "wf_map (da_nonces ?d)" using assms(10) by (simp add: newNonce_def cleanStaleNonces_def wf_map_filter)
  then have "map_of (da_nonces (cleanStaleNonces now2 ?d)) uuid = Some \<lparr> ne_created = now, ne_used = 0 \<rparr>"
    using assms(11) by (intro fresh_nonce_kept) (simp_all add: newNonce_def)
  ultimately show ?thesis
    unfolding r_def [symmetric] Middleware_out validate_passes
    by (simp add: get digestMaxNonceUse_def)
qed

text \<open>
  C39. A device that knows the password gets through. When it POSTs a message with the digest client of the
  first simulator, whatever state the nonces are in, it is challenged once and answers with the digest of
  the password for the fresh nonce; what it gets is the reply of exactly one run of the CWMP handler on its
  message, in the state the sessions were in before. The clock may move by up to five minutes in between. The
  name, the realm, the path and the fresh nonce have to be there, and with the client nonce to hold no quote,
  backslash, comma or control character.
\<close>

theorem simulator_is_admitted:
  assumes "digest_run d h" and "plain_text user" and "plain_text (da_realm d)" and "plain_text u1"
    and "plain_text (extractPath url)" and "plain_text cnonce"
    and "user \<noteq> []" and "da_realm d \<noteq> []" and "u1 \<noteq> []" and "extractPath url \<noteq> []"
    and "e_now e2 \<le> e_now e1 + 300000000000"
  shows "\<exists>d'. doRequestWithDigest ''POST'' url user (da_password d) cnonce (acs_send read_body write_reply) body
      ((e1, u1) # (e2, u2) # es, d, a) =
    (case ServeHTTP e2 (limitBody body_limit (int (length body)) (read_body body)) a of
       (rep, a') \<Rightarrow> (Inr \<lparr> hp_status = fst (write_reply rep), hp_challenge = [], hp_text = snd (write_reply rep) \<rparr>, es, d', a'))"
proof -
  let ?d = "newNonce (e_now e1) u1 (cleanStaleNonces (e_now e1) d)"
  let ?ps = "parseDigestChallenge (drop 7 (challenge_header (da_realm d) u1))"
  let ?hdr = "authorization ''POST'' (extractPath url) user (da_password d) cnonce ?ps"
  let ?r = "\<lparr> ar_method = ''POST'', ar_authorization = ?hdr \<rparr>"
  have first: "Middleware (e_now e1) u1 \<lparr> ar_method = ''POST'', ar_authorization = [] \<rparr> d = (Challenge (da_realm d) u1, ?d)"
    by (simp add: Middleware_def ValidateRequest_def)
  have "wf_map (da_nonces d)" using digest_run_ok [OF assms(1)] by (simp add: nonces_ok_def)
  then have "fst (Middleware (e_now e2) u2 ?r ?d) = Passed user"
    using answer_passes [of user d u1 "extractPath url" cnonce "e_now e2" "e_now e1" ?ps u2 "''POST''"] assms
    by (simp add: challenge_read digestNonceTTL_def)
  then obtain d' where second: "Middleware (e_now e2) u2 ?r ?d = (Passed user, d')"
    by (cases "Middleware (e_now e2) u2 ?r ?d") auto
  have "has_prefix (challenge_header (da_realm d) u1) ''Digest ''" by (simp only: challenge_header_def has_prefix_append)
  then show ?thesis
    by (intro exI [of _ d'])
      (simp add: doRequestWithDigest_def do_request_def acs_send_def cwmp_endpoint_def first second split: prod.split)
qed

lemma simulator_is_admitted_witness:
  "\<exists>d'. doRequestWithDigest ''POST'' ''http://localhost:7547/acs'' ''acs'' ''secret'' ''c1''
      (acs_send (\<lambda>_. \<lparr> rq_cookie = None, rq_body = BodyEmpty \<rparr>) (\<lambda>_. (204, []))) []
      ([(ex_env\<lparr>e_now := 10\<rparr>, ''n1''), (ex_env\<lparr>e_now := 20\<rparr>, ''n2'')], NewDigestAuth ''ACS'' ''acs'' ''secret'', ex_acs) =
    (Inr \<lparr> hp_status = 204, hp_challenge = [], hp_text = [] \<rparr>, [], d',
     snd (ServeHTTP (ex_env\<lparr>e_now := 20\<rparr>) (limitBody body_limit 0 \<lparr> rq_cookie = None, rq_body = BodyEmpty \<rparr>) ex_acs))"
proof -
  let ?d = "NewDigestAuth ''ACS'' ''acs'' ''secret''"
  have path: "extractPath ''http://localhost:7547/acs'' = ''/acs''" by code_simp
  have plain: "plain_text ''acs''" "plain_text ''ACS''" "plain_text ''n1''" "plain_text ''/acs''" "plain_text ''c1''"
    by (simp_all add: plain_text_def)
  show ?thesis
    using simulator_is_admitted [OF digest_run.start [of "''ACS''" "''acs''" "''secret''"], where user = "''acs''" and ?u1.0 = "''n1''" and
        url = "''http://localhost:7547/acs''" and cnonce = "''c1''" and ?e1.0 = "ex_env\<lparr>e_now := 10\<rparr>" and ?e2.0 = "ex_env\<lparr>e_now := 20\<rparr>" and
        read_body = "\<lambda>_. \<lparr> rq_cookie = None, rq_body = BodyEmpty \<rparr>" and write_reply = "\<lambda>_. (204, [])" and
        body = "[]" and ?u2.0 = "''n2''" and es = "[]" and a = ex_acs] plain
    by (simp add: path NewDigestAuth_def case_prod_beta)
qed

subsection \<open>Facts: the C-DATA simulator\<close>

text \<open>
  It never answers a request of the server: after the Inform it posts nothing but empty bodies, whatever
  it is asked for.
\<close>

lemma cdata_posts_empty:
  "cdata_loop n serial sid post s posted = Some (e, posted', s') \<Longrightarrow> \<exists>k. posted' = posted @ replicate (Suc k) []"
proof (induction n arbitrary: s posted)
  case (Suc n)
  have one: "posted @ [[]] = posted @ replicate (Suc 0) []" by simp
  have more: "\<exists>k. posted' = posted @ replicate (Suc k) []"
    if r: "cdata_loop n serial sid post t (posted @ [[]]) = Some (e, posted', s')" for t
  proof -
    from Suc.IH [OF r] obtain k where "posted' = (posted @ [[]]) @ replicate (Suc k) []" by blast
    then have "posted' = posted @ replicate (Suc (Suc k)) []" by simp
    then show ?thesis by blast
  qed
  obtain r t where p: "post [] s = (r, t)" by (cases "post [] s")
  have "posted' = posted @ [[]] \<or> cdata_loop n serial sid post t (posted @ [[]]) = Some (e, posted', s')"
    using Suc.prems p by (cases r) (auto simp: Let_def split: if_splits cdata_reaction.splits)
  then show ?case using more one by blast
qed simp

lemma cdata_never_answers:
  assumes "cdata_runSession n url user password serial sid now cnonce send s = Some (e, posted, s')"
  shows "\<forall>body \<in> set posted. body = []"
  using assms by (auto simp: cdata_runSession_def Let_def split: prod.splits sum.splits dest!: cdata_posts_empty)

text \<open>Every name it lists has a value, and it finds no name in the server's request for values.\<close>

lemma cdata_names_valued:
  assumes "p \<in> set (getCDataParameterNames path)"
  shows "map_of (cdata_values serial) p \<noteq> None"
proof -
  have "map fst (cdata_values serial) = cdata_params" by (simp only: cdata_values_def cdata_params_def list.map fst_conv)
  moreover have "p \<in> set cdata_params" using assms by (simp add: getCDataParameterNames_def)
  ultimately show ?thesis by (metis list.set_map map_of_eq_None_iff)
qed

definition ex_values_request :: string where
  "ex_values_request =
     concat (map (\<lambda>l. l @ [CHR 0x0A])
       [''<cwmp:GetParameterValues>'', ''<ParameterNames>'',
        ''<string>InternetGatewayDevice.DeviceInfo.UpTime</string>'', ''</ParameterNames>'', ''</cwmp:GetParameterValues>''])"

lemma cdata_finds_no_names: "parseParameterNames ex_values_request = []"
  by code_simp

end
