(* ===== verification/Validator.thy ===== *)
theory Validator imports Scheduler begin

section \<open>Validation of parameter values\<close>

text \<open>
  internal/datamodel/validator.go. No other part of the program calls it. \<^verbatim>\<open>time.Parse\<close> is modelled on the
  layouts that are tried, each given as the chunks it is split into; strings are bytes.
\<close>

definition TypeString :: string where "TypeString = ''xsd:string''"
definition TypeBoolean :: string where "TypeBoolean = ''xsd:boolean''"
definition TypeUnsignedInt :: string where "TypeUnsignedInt = ''xsd:unsignedInt''"
definition TypeInt :: string where "TypeInt = ''xsd:int''"
definition TypeDateTime :: string where "TypeDateTime = ''xsd:dateTime''"
definition TypeBase64 :: string where "TypeBase64 = ''xsd:base64Binary''"

subsection \<open>Times\<close>

datatype chunk = LongYear | ZeroMonth | ZeroDay | Hour24 | ZeroMinute | ZeroSecond | FracSecond9 | ColonZone | Plain char

record calendar =
  cal_year :: nat
  cal_month :: nat
  cal_day :: nat

definition leap_year :: "nat \<Rightarrow> bool" where
  "leap_year y \<longleftrightarrow> y mod 4 = 0 \<and> (y mod 100 \<noteq> 0 \<or> y mod 400 = 0)"

definition days_in :: "nat \<Rightarrow> nat \<Rightarrow> nat" where
  "days_in m y = (if m = 2 then if leap_year y then 29 else 28 else if m \<in> {4, 6, 9, 11} then 30 else 31)"

text \<open>A fraction of any length, after a period or a comma.\<close>

definition drop_fraction :: "string \<Rightarrow> string" where
  "drop_fraction s =
     (case s of
        c # d # r \<Rightarrow> if (c = CHR ''.'' \<or> c = CHR '','') \<and> is_digit d then dropWhile is_digit (d # r) else s
      | _ \<Rightarrow> s)"

definition parse_zone :: "string \<Rightarrow> string option" where
  "parse_zone s =
     (case s of
        [] \<Rightarrow> None
      | c # r \<Rightarrow>
          if c = CHR ''Z'' then Some r
          else if length s < 6 \<or> s ! 3 \<noteq> CHR '':'' then None
          else (case (getnum True (take 2 (drop 1 s)), getnum True (take 2 (drop 4 s))) of
                  (Some (h, _), Some (m, _)) \<Rightarrow>
                    if h > 24 \<or> m > 60 then None
                    else if c = CHR ''+'' \<or> c = CHR ''-'' then Some (drop 6 s) else None
                | _ \<Rightarrow> None))"

definition two_digits :: "bool \<Rightarrow> nat \<Rightarrow> string \<Rightarrow> string option" where
  "two_digits fixed bound s =
     (case getnum fixed s of None \<Rightarrow> None | Some (n, r) \<Rightarrow> if n < bound then Some r else None)"

text \<open>One chunk. The seconds take a fraction that the layout does not have.\<close>

fun parse_chunk :: "chunk \<Rightarrow> chunk list \<Rightarrow> string \<Rightarrow> calendar \<Rightarrow> (string \<times> calendar) option" where
  "parse_chunk LongYear rest s c =
     (if length s < 4 \<or> \<not> list_all is_digit (take 4 s) then None
      else Some (drop 4 s, c\<lparr>cal_year := foldl (\<lambda>n d. 10 * n + digit_val d) 0 (take 4 s)\<rparr>))"
| "parse_chunk ZeroMonth rest s c =
     (case getnum True s of
        None \<Rightarrow> None
      | Some (m, r) \<Rightarrow> if m = 0 \<or> 12 < m then None else Some (r, c\<lparr>cal_month := m\<rparr>))"
| "parse_chunk ZeroDay rest s c = map_option (\<lambda>(d, r). (r, c\<lparr>cal_day := d\<rparr>)) (getnum True s)"
| "parse_chunk Hour24 rest s c = map_option (\<lambda>r. (r, c)) (two_digits False 24 s)"
| "parse_chunk ZeroMinute rest s c = map_option (\<lambda>r. (r, c)) (two_digits True 60 s)"
| "parse_chunk ZeroSecond rest s c =
     (case two_digits True 60 s of
        None \<Rightarrow> None
      | Some r \<Rightarrow> Some (if rest \<noteq> [] \<and> hd rest = FracSecond9 then r else drop_fraction r, c))"
| "parse_chunk FracSecond9 rest s c = Some (drop_fraction s, c)"
| "parse_chunk ColonZone rest s c = map_option (\<lambda>r. (r, c)) (parse_zone s)"
| "parse_chunk (Plain p) rest s c = (case s of [] \<Rightarrow> None | x # r \<Rightarrow> if x = p then Some (r, c) else None)"

fun parse_chunks :: "chunk list \<Rightarrow> string \<Rightarrow> calendar \<Rightarrow> bool" where
  "parse_chunks [] s c \<longleftrightarrow> s = [] \<and> 1 \<le> cal_day c \<and> cal_day c \<le> days_in (cal_month c) (cal_year c)"
| "parse_chunks (k # ks) s c =
     (case parse_chunk k ks s c of None \<Rightarrow> False | Some (r, c') \<Rightarrow> parse_chunks ks r c')"

definition time_parses :: "chunk list \<Rightarrow> string \<Rightarrow> bool" where
  "time_parses layout s = parse_chunks layout s \<lparr> cal_year = 0, cal_month = 1, cal_day = 1 \<rparr>"

definition date_layout :: "chunk list" where
  "date_layout = [LongYear, Plain CHR ''-'', ZeroMonth, Plain CHR ''-'', ZeroDay]"

definition second_layout :: "chunk list" where
  "second_layout =
     date_layout @ [Plain CHR ''T'', Hour24, Plain CHR '':'', ZeroMinute, Plain CHR '':'', ZeroSecond]"

definition iso8601Formats :: "chunk list list" where
  "iso8601Formats =
     [second_layout @ [ColonZone], second_layout @ [FracSecond9, ColonZone], second_layout,
      second_layout @ [Plain CHR ''Z''], date_layout]"

subsection \<open>Values\<close>

text \<open>Whether there is an error; its text only repeats the value.\<close>

definition validateBoolean :: "string \<Rightarrow> bool" where
  "validateBoolean v \<longleftrightarrow> v \<in> {''0'', ''1'', ''true'', ''false''}"

definition validateUnsignedInt :: "string \<Rightarrow> bool" where
  "validateUnsignedInt v \<longleftrightarrow> snd (parse_uint64 v) = None"

definition validateInt :: "string \<Rightarrow> bool" where
  "validateInt v \<longleftrightarrow> snd (parse_int64 v) = None"

definition validateDateTime :: "string \<Rightarrow> bool" where
  "validateDateTime v \<longleftrightarrow> v = ''0001-01-01T00:00:00Z'' \<or> v = ''0001-01-01T00:00:00'' \<or>
     (\<exists>l \<in> set iso8601Formats. time_parses l v)"

definition ValidateType :: "string \<Rightarrow> string \<Rightarrow> bool" where
  "ValidateType xsdType v =
     (if xsdType = TypeBoolean then validateBoolean v
      else if xsdType = TypeUnsignedInt then validateUnsignedInt v
      else if xsdType = TypeInt then validateInt v
      else if xsdType = TypeDateTime then validateDateTime v
      else True)"

subsection \<open>Facts\<close>

text \<open>The two texts for an unknown time need no rule of their own: a layout accepts each of them.\<close>

lemma unknown_time_parses:
  "time_parses (second_layout @ [ColonZone]) ''0001-01-01T00:00:00Z''" "time_parses second_layout ''0001-01-01T00:00:00''"
  by code_simp+

text \<open>A chunk looks at no more of the layout behind it than whether a fraction follows.\<close>

lemma parse_chunk_rest:
  assumes "(ks \<noteq> [] \<and> hd ks = FracSecond9) = (ls \<noteq> [] \<and> hd ls = FracSecond9)"
  shows "parse_chunk k ks s c = parse_chunk k ls s c"
  using assms by (cases k) (simp_all split: option.split)

lemma parse_chunks_last:
  assumes "k \<noteq> FracSecond9" and "l \<noteq> FracSecond9"
    and "\<And>s c. parse_chunks (k # ks) s c \<Longrightarrow> parse_chunks (l # ls) s c"
  shows "parse_chunks (xs @ k # ks) s c \<Longrightarrow> parse_chunks (xs @ l # ls) s c"
proof (induction xs arbitrary: s c)
  case (Cons x xs)
  have "parse_chunk x (xs @ k # ks) s c = parse_chunk x (xs @ l # ls) s c"
    using assms(1,2) by (intro parse_chunk_rest) (cases xs; simp)
  then show ?case using Cons by (auto split: option.splits)
qed (use assms(3) in simp)

text \<open>
  Two of the five layouts add nothing: a literal Z is a zone, and seconds take a fraction by themselves. So a
  text is a time when it is a date, a time without a zone, or a time with one.
\<close>

lemma nano_layout_redundant: "time_parses (second_layout @ [FracSecond9, ColonZone]) v \<longleftrightarrow> time_parses (second_layout @ [ColonZone]) v"
proof -
  let ?ks = "[ZeroSecond, FracSecond9, ColonZone]" and ?ls = "[ZeroSecond, ColonZone]"
  have eq: "parse_chunks ?ks s c \<longleftrightarrow> parse_chunks ?ls s c" for s c by (simp split: option.split)
  obtain xs where xs: "second_layout = xs @ [ZeroSecond]" by (simp add: second_layout_def)
  show ?thesis
    using parse_chunks_last [of ZeroSecond ZeroSecond "tl ?ks" "tl ?ls" xs] parse_chunks_last [of ZeroSecond ZeroSecond "tl ?ls" "tl ?ks" xs] eq
    by (auto simp: time_parses_def xs simp del: parse_chunks.simps)
qed

lemma z_layout_redundant: "time_parses (second_layout @ [Plain CHR ''Z'']) v \<Longrightarrow> time_parses (second_layout @ [ColonZone]) v"
  unfolding time_parses_def
  by (rule parse_chunks_last [of "Plain CHR ''Z''"]) (auto simp: parse_zone_def split: list.splits if_splits)

lemma dateTime_layouts:
  "validateDateTime v \<longleftrightarrow> time_parses date_layout v \<or> time_parses second_layout v \<or> time_parses (second_layout @ [ColonZone]) v"
  unfolding validateDateTime_def iso8601Formats_def
  using z_layout_redundant [of v] nano_layout_redundant [of v] unknown_time_parses by auto

text \<open>Numbers in decimal are accepted when they fit in 64 bits.\<close>

lemma numbers_valid:
  "int n \<le> max_uint64 \<Longrightarrow> ValidateType TypeUnsignedInt (show_nat n)"
  "min_int64 \<le> i \<Longrightarrow> i \<le> max_int64 \<Longrightarrow> ValidateType TypeInt (itoa i)"
  using atoi_itoa [of i]
  by (simp_all add: ValidateType_def validateUnsignedInt_def validateInt_def TypeBoolean_def TypeUnsignedInt_def TypeInt_def
      atoi_def)

text \<open>Valid numbers are digits, with one sign in front of a signed one.\<close>

lemma parse_digits_valid: "snd (parse_digits n s) = None \<Longrightarrow> list_all is_digit s"
  by (induction n s rule: parse_digits.induct) (auto simp: Let_def split: if_splits)

lemma unsigned_digits: "validateUnsignedInt v \<Longrightarrow> v \<noteq> [] \<and> list_all is_digit v"
  by (auto simp: validateUnsignedInt_def parse_uint64_def intro: parse_digits_valid split: if_splits)

text \<open>
  A date in the usual form is accepted exactly when there is such a day in the calendar, and so is a time
  of such a day in UTC.
\<close>

definition show2 :: "nat \<Rightarrow> string" where
  "show2 n = [digit_char (n div 10), digit_char (n mod 10)]"

definition show_date :: "nat \<Rightarrow> nat \<Rightarrow> nat \<Rightarrow> string" where
  "show_date y m d = show2 (y div 100) @ show2 (y mod 100) @ ''-'' @ show2 m @ ''-'' @ show2 d"

definition show_utc :: "nat \<Rightarrow> nat \<Rightarrow> nat \<Rightarrow> nat \<Rightarrow> nat \<Rightarrow> nat \<Rightarrow> string" where
  "show_utc y m d h mi sec = show_date y m d @ ''T'' @ show2 h @ '':'' @ show2 mi @ '':'' @ show2 sec @ ''Z''"

definition calendar_day :: "nat \<Rightarrow> nat \<Rightarrow> nat \<Rightarrow> bool" where
  "calendar_day y m d \<longleftrightarrow> 1 \<le> m \<and> m \<le> 12 \<and> 1 \<le> d \<and> d \<le> days_in m y"

lemma getnum_show2 [simp]: "n < 100 \<Longrightarrow> getnum fixed (show2 n @ r) = Some (n, r)"
  by (simp add: show2_def)

lemma parse_date_chunks:
  assumes "y < 10000" and "m < 100" and "d < 100"
  shows "parse_chunks (date_layout @ ks) (show_date y m d @ r) c \<longleftrightarrow>
    1 \<le> m \<and> m \<le> 12 \<and> parse_chunks ks r (c\<lparr>cal_year := y, cal_month := m, cal_day := d\<rparr>)"
proof -
  have ten: "10 * (n div 10) + n mod 10 = n" for n :: nat by simp
  have y: "10 * (10 * (10 * (y div 100 div 10) + y div 100 mod 10) + y mod 100 div 10) + y mod 100 mod 10 = y"
  proof -
    have "10 * (10 * (10 * (y div 100 div 10) + y div 100 mod 10) + y mod 100 div 10) + y mod 100 mod 10 =
        100 * (y div 100) + (10 * (y mod 100 div 10) + y mod 100 mod 10)"
      by (simp only: ten) simp
    also have "\<dots> = 100 * (y div 100) + y mod 100" by (simp only: ten)
    also have "\<dots> = y" by simp
    finally show ?thesis .
  qed
  have digits: "y div 100 div 10 < 10" "y div 100 mod 10 < 10" "y mod 100 div 10 < 10" "y mod 100 mod 10 < 10"
    using assms(1) by simp_all
  have four: "parse_chunk LongYear ls (show_date y m d @ r) c = Some (''-'' @ show2 m @ ''-'' @ show2 d @ r, c\<lparr>cal_year := y\<rparr>)" for ls
    using y digits by (simp del: div_mult2_eq add: show_date_def show2_def numeral_2_eq_2)
  show ?thesis
    using assms(2,3) by (simp add: date_layout_def four del: parse_chunk.simps(1))
qed

lemma show_date_valid:
  assumes "y < 10000" and "m < 100" and "d < 100"
  shows "time_parses date_layout (show_date y m d) \<longleftrightarrow> calendar_day y m d"
  using parse_date_chunks [OF assms, of "[]" "[]"] by (simp add: time_parses_def calendar_day_def)

lemma show_utc_valid:
  assumes "y < 10000" and "m < 100" and "d < 100" and "h < 24" and "mi < 60" and "sec < 60"
  shows "time_parses (second_layout @ [ColonZone]) (show_utc y m d h mi sec) \<longleftrightarrow> calendar_day y m d"
proof -
  have "drop_fraction ''Z'' = ''Z''" "parse_zone ''Z'' = Some []" by (simp_all add: drop_fraction_def parse_zone_def)
  then show ?thesis
    using assms parse_date_chunks [OF assms(1-3)]
    by (simp add: time_parses_def second_layout_def show_utc_def two_digits_def calendar_day_def)
qed

end
