(* ===== verification/Spec2Isabelle.thy ===== *)
theory Spec2Isabelle
  imports Task_Queue Discovery Driver Parse Executor Device_Store Results Wan_Provision Server
    Payload_Codec Task_Life Task_Journey Api_Devices Api_Router Md5 Digest Endpoint
    Scheduler Stores Process Store_Safety Startup Middleware Device_Service Repair_Tools Simulator
    Validator
begin

text \<open>
  A model of helix-acs, a TR-069 auto configuration server written in Go, and the theorems that make
  it correct.

  The program. Devices (CPEs) post SOAP messages to the CWMP endpoint; an operator works through a
  REST API. Between the two stand a task queue in Redis, a device store in MongoDB, and a parameter
  store in PostgreSQL with a Redis cache. An operator's request creates a task in the queue of a
  device; the next Inform of the device loads the pending tasks into a session; the session first reads
  what it needs of the device (a summon), then turns one task after the other into CWMP requests and
  the answers into results, and closes when nothing is left. A definition carries the name of the Go
  function it translates; a suffix or prefix is added where a name is taken.

  Theories, from the bottom up, with the code they model (paths under src/internal).
  Acs_Prelude: strings, strconv, maps as association lists, sorting. Json: encoding/json on trees.
  Regex: the two regular expressions the code uses. Redis: lists, strings and scans whose calls fail as
  a fault script says.
  Ip_Classify, Datamodel, Discovery: datamodel (classification of addresses, TR-181 and TR-098 paths,
  discovery of instances). Validator: datamodel/validator.go. Schema, Driver: schema (registry, resolver, drivers, provisioning executor).
  Task_Model, Payload_Codec, Task_Queue, Executor: task (model.go, queue.go, executor.go).
  Soap, Parse, Results, Wan_Provision: cwmp (soap.go, parse.go, results.go, wan_provision.go and
  wan_provisioner.go). Device_Store, Device_Service: device. Params_Repo: parameter (postgresql.go, redis_cache.go,
  traffic.go). Session, Execute, Dispatch, Summon, Responses, Restore, Server: cwmp/session.go, in this
  order the session and its manager, the building of requests, the dispatch loop, the summon, the
  answers of devices, the restore after a factory reset, and the HTTP handler with the Inform and the
  goroutines. Md5, Digest: auth/digest.go. Endpoint: cwmp/handler.go. Api_Tasks, Api_Devices: the REST
  handlers. Api_Router: auth/jwt.go, handler/auth.go, middleware and router.go. Scheduler: the timers of
  the parameter store (parameter/scheduler.go). Process: cmd/api/main.go, start-up and the two servers,
  the monitors, the timers and the goroutines as one machine that handles one event at a time. Startup:
  config, cmd/api/parameter_init.go, parameter/init.go and the rest of cmd/api/main.go, from a decoded
  configuration to the running process and its exit status. Middleware: api/middleware/recovery.go and
  logging.go. Repair_Tools: cmd/fix-db and cmd/fix-root. Simulator: the devices under examples, as
  clients of the CWMP endpoint.
  Task_Life, Task_Journey, Stores and Store_Safety hold no code: the first two follow a task through its
  session, and from the API to its end; the last two show what all operations, handlers and events keep of
  the stored parameters and documents.

  State. A handler takes and returns the state it works on: \<^typ>\<open>session\<close> and \<^typ>\<open>world\<close> (queue,
  devices, parameters, goroutines not yet run, times of summons) for the handlers of a session,
  \<^typ>\<open>acs\<close> (session manager and world) for requests, \<^typ>\<open>digest_auth\<close> for the nonces,
  \<^typ>\<open>api_state\<close> for the API, \<^typ>\<open>process\<close> for all together. Sessions live on a heap under references, because the three indices of
  the manager share them. Goroutines are jobs in the world that may run at any later time. Calls of the
  three servers fail as lists of flags say, so a statement over all states covers every pattern of
  failures. Errors are values of a sum or option; a nil dereference that the HTTP server recovers is
  the reply \<^const>\<open>RPanic\<close>.

  What is shown, by groups of lemmas. Queue: first in first out, serving and cancelling, paging, faults.
  Sessions: every reachable manager is well formed; the answer to a request meets the session that sent
  it; an Inform loads exactly the pending tasks; a dispatch loses no task; every session ends; a task
  reaches its end even when the device refuses requests and whatever is summoned first; and a task that
  the API accepts is carried out. Provisioning: exactly the active steps run, once and in order, and the
  CWMP flow refines the executor. Messages: the order and content of SetParameterValues, and its round
  trip through the wire form. Stores: in no run of the process does the cache serve stale parameters
  while it can be reached, and the parameters of a device are written only by its own messages and by the
  operator; an Inform keeps what was summoned; traffic is conserved. Security: no device changes
  anything without the digest password, a device with it gets through with the client of the simulator, and before anybody has shown
  the password nothing happens in the whole process but the ticks of its timers. The process refines its
  parts: in every run its sessions are a reachable state of the server and its nonces a run of the
  digest check, so what is shown of the parts holds of it. The rest are type, order-independence and
  round-trip properties of the single components.

  Interfaces. What several components rely on is a locale with its laws as assumptions, its lemmas
  proved once and interpreted on the model's definitions where they are declared: \<^verbatim>\<open>sort_order\<close> (a
  comparison function handed to sort.Slice), \<^verbatim>\<open>task_queue\<close> (the queue as a session sees it),
  \<^verbatim>\<open>step_machine\<close> (a provisioning flow as a session drives it), \<^verbatim>\<open>rooted_mapper\<close> (the paths of a
  data model), \<^verbatim>\<open>parameter_store\<close> and \<^verbatim>\<open>document_store\<close> (what an operation keeps of the stores; extended for
  the API and the timers, and joined for their clients in \<^verbatim>\<open>store_access\<close> and \<^verbatim>\<open>process_access\<close>). The lemma \<^verbatim>\<open>rounds_close\<close> (a measured conversation ends) carries both the termination
  of sessions and the life of a task.

  Bounds. Go's int and int64 are integers with \<^const>\<open>wrap64\<close> where a result can overflow; MD5 and
  addresses are words. Recursion is structural or has a measure; the one bound of the code itself is
  the four hops of a VLAN chain. Within a request the clock is read once. A request is one step: the
  mutexes of the code protect single accesses, and interleavings inside a request are not modelled.

  Outside. Parameters of the model are the JSON parser (\<^verbatim>\<open>e_json\<close>, for texts that are not kept as
  trees), the JWT library, the token bucket, the template matching of the router, and the generated
  UUIDs; bodies of requests come as JSON trees and XML token trees. Not modelled: the decoding of the
  configuration file by viper, the logger (internal/logger), listening on a port, index creation, YAML
  parsing, the files of the web interface, the output of the tools on the terminal: they only call
  libraries.
\<close>

end
